(* ===== verification/Prelude.thy ===== *)
theory Prelude
  imports Complex_Main "HOL-Library.Char_ord" "HOL-Library.List_Lexorder"
begin

text \<open>
  What every component shares: Rust's fixed-width arithmetic on \<open>nat\<close> with the saturation and
  the overflow written out, the byte predicates of \<open>str\<close> and \<open>char\<close> that the sources use
  (a Rust string is the list of its UTF-8 bytes), IEEE doubles as exact rationals with the
  special values, and the automation collections of the development.

  \<^item> \<open>rust_arith\<close>: the definitions of the arithmetic helpers;
  \<^item> \<open>byte_defs\<close>: the byte and text predicates;
  \<^item> \<open>opt_defs\<close>: \<open>Option\<close> combinators.
\<close>

named_theorems rust_arith
named_theorems byte_defs
named_theorems opt_defs

section \<open>Fixed-width arithmetic\<close>

definition u64_max :: nat where
  [rust_arith]: "u64_max = 18446744073709551615"

definition u32_max :: nat where
  [rust_arith]: "u32_max = 4294967295"

text \<open>\<open>a.saturating_add(b)\<close>, \<open>a.saturating_mul(b)\<close> and \<open>a.saturating_sub(b)\<close> of an unsigned
  type whose largest value is \<open>m\<close>; \<open>a.checked_add(b)\<close> is \<open>None\<close> on overflow.\<close>

definition sat_add :: "nat \<Rightarrow> nat \<Rightarrow> nat \<Rightarrow> nat" where
  [rust_arith]: "sat_add m a b = min m (a + b)"

definition sat_mul :: "nat \<Rightarrow> nat \<Rightarrow> nat \<Rightarrow> nat" where
  [rust_arith]: "sat_mul m a b = min m (a * b)"

definition sat_sub :: "nat \<Rightarrow> nat \<Rightarrow> nat" where
  [rust_arith]: "sat_sub a b = a - b"

definition checked_add :: "nat \<Rightarrow> nat \<Rightarrow> nat \<Rightarrow> nat option" where
  [rust_arith]: "checked_add m a b = (if a + b \<le> m then Some (a + b) else None)"

text \<open>A plain addition of a release build: it wraps.\<close>

definition wrap_add :: "nat \<Rightarrow> nat \<Rightarrow> nat \<Rightarrow> nat" where
  [rust_arith]: "wrap_add m a b = (a + b) mod (m + 1)"

lemma sat_add_le [simp]: "sat_add m a b \<le> m"
  by (simp add: sat_add_def)

lemma sat_mul_le [simp]: "sat_mul m a b \<le> m"
  by (simp add: sat_mul_def)

lemma sat_add_exact: "a + b \<le> m \<Longrightarrow> sat_add m a b = a + b"
  by (simp add: sat_add_def)

lemma sat_mul_exact: "a * b \<le> m \<Longrightarrow> sat_mul m a b = a * b"
  by (simp add: sat_mul_def)

lemma sat_add_mono: "a \<le> a' \<Longrightarrow> b \<le> b' \<Longrightarrow> sat_add m a b \<le> sat_add m a' b'"
  by (auto simp: sat_add_def)

lemma sat_mul_mono: "a \<le> a' \<Longrightarrow> b \<le> b' \<Longrightarrow> sat_mul m a b \<le> sat_mul m a' b'"
  by (auto simp: sat_mul_def intro: min.coboundedI2 mult_le_mono)

lemma sat_add_upper: "a \<le> a' \<Longrightarrow> b \<le> b' \<Longrightarrow> sat_add m a b \<le> a' + b'"
  by (simp add: sat_add_def min_le_iff_disj add_mono)

lemma sat_mul_upper: "a \<le> a' \<Longrightarrow> sat_mul m a b \<le> a' * b"
  by (simp add: sat_mul_def min_le_iff_disj)

text \<open>A chain of saturating additions is the plain sum, cut off once.\<close>

lemma sat_add_chain: "sat_add m (min m a) b = min m (a + b)"
  by (auto simp: sat_add_def)

lemma sat_add_width: "m \<le> m' \<Longrightarrow> sat_add m a b = min m (sat_add m' a b)"
  by (auto simp: sat_add_def)

lemma sat_mul_width: "m \<le> m' \<Longrightarrow> sat_mul m a b = min m (sat_mul m' a b)"
  by (auto simp: sat_mul_def)

text \<open>\<open>usize::try_from(v).unwrap_or(usize::MAX)\<close> on a target whose \<open>usize::MAX\<close> is \<open>m\<close>.\<close>

definition to_usize :: "nat \<Rightarrow> nat \<Rightarrow> nat" where
  [rust_arith]: "to_usize m v = (if v \<le> m then v else m)"

lemma to_usize_min: "to_usize m v = min m v"
  by (simp add: to_usize_def)

section \<open>Options\<close>

definition is_none_or :: "('a \<Rightarrow> bool) \<Rightarrow> 'a option \<Rightarrow> bool" where
  [opt_defs]: "is_none_or p x = (case x of None \<Rightarrow> True | Some y \<Rightarrow> p y)"

definition is_some_and :: "('a \<Rightarrow> bool) \<Rightarrow> 'a option \<Rightarrow> bool" where
  [opt_defs]: "is_some_and p x = (case x of None \<Rightarrow> False | Some y \<Rightarrow> p y)"

definition is_some :: "'a option \<Rightarrow> bool" where
  [opt_defs]: "is_some x = (x \<noteq> None)"

definition opt_filter :: "('a \<Rightarrow> bool) \<Rightarrow> 'a option \<Rightarrow> 'a option" where
  [opt_defs]: "opt_filter p x = (case x of None \<Rightarrow> None | Some y \<Rightarrow> (if p y then Some y else None))"

definition unwrap_or :: "'a \<Rightarrow> 'a option \<Rightarrow> 'a" where
  [opt_defs]: "unwrap_or d x = (case x of None \<Rightarrow> d | Some y \<Rightarrow> y)"

lemma opt_simps [simp]:
  "is_none_or p None" "is_none_or p (Some y) = p y"
  "\<not> is_some_and p None" "is_some_and p (Some y) = p y"
  "\<not> is_some None" "is_some (Some y)"
  "opt_filter p None = None" "opt_filter p (Some y) = (if p y then Some y else None)"
  "unwrap_or d None = d" "unwrap_or d (Some y) = y"
  by (simp_all add: opt_defs)

lemma opt_filter_Some_iff: "opt_filter p x = Some y \<longleftrightarrow> x = Some y \<and> p y"
  by (cases x) auto

lemma is_some_and_iff: "is_some_and p x \<longleftrightarrow> (\<exists>y. x = Some y \<and> p y)"
  by (cases x) auto

lemma is_none_or_iff: "is_none_or p x \<longleftrightarrow> (\<forall>y. x = Some y \<longrightarrow> p y)"
  by (cases x) auto

section \<open>Bytes and text\<close>

definition byte :: "char \<Rightarrow> nat" where
  [byte_defs]: "byte c = of_char c"

definition is_ascii_digit :: "char \<Rightarrow> bool" where
  [byte_defs]: "is_ascii_digit c = (48 \<le> byte c \<and> byte c \<le> 57)"

definition is_ascii_uppercase :: "char \<Rightarrow> bool" where
  [byte_defs]: "is_ascii_uppercase c = (65 \<le> byte c \<and> byte c \<le> 90)"

definition is_ascii_lowercase :: "char \<Rightarrow> bool" where
  [byte_defs]: "is_ascii_lowercase c = (97 \<le> byte c \<and> byte c \<le> 122)"

definition is_ascii_alphanumeric :: "char \<Rightarrow> bool" where
  [byte_defs]: "is_ascii_alphanumeric c =
     (is_ascii_digit c \<or> is_ascii_uppercase c \<or> is_ascii_lowercase c)"

text \<open>\<open>byte.is_ascii_digit() || (b'a'..=b'f').contains(&byte)\<close>: a lowercase hex digit.\<close>

definition is_hex_lower :: "char \<Rightarrow> bool" where
  [byte_defs]: "is_hex_lower c = (is_ascii_digit c \<or> (97 \<le> byte c \<and> byte c \<le> 102))"

lemma byte_lt: "byte c < 256"
  by (simp add: byte_def)

lemma byte_inj: "byte c = byte d \<Longrightarrow> c = d"
  by (simp add: byte_def)

lemma byte_char_of: "byte (char_of n) = n mod 256"
  by (simp add: byte_def)

text \<open>\<open>s.strip_prefix(p)\<close>, \<open>s.starts_with(p)\<close> and \<open>s.get(a..b)\<close> (on ASCII text, where every
  index is a character boundary).\<close>

definition strip_prefix :: "string \<Rightarrow> string \<Rightarrow> string option" where
  [byte_defs]: "strip_prefix p s = (if take (length p) s = p then Some (drop (length p) s) else None)"

definition starts_with :: "string \<Rightarrow> string \<Rightarrow> bool" where
  [byte_defs]: "starts_with p s = (take (length p) s = p)"

definition slice :: "string \<Rightarrow> nat \<Rightarrow> nat \<Rightarrow> string option" where
  [byte_defs]: "slice s a b = (if a \<le> b \<and> b \<le> length s then Some (take (b - a) (drop a s)) else None)"

lemma strip_prefix_Some_iff: "strip_prefix p s = Some r \<longleftrightarrow> s = p @ r"
proof
  assume "strip_prefix p s = Some r"
  then have "take (length p) s = p" "drop (length p) s = r"
    by (auto simp: strip_prefix_def split: if_splits)
  then show "s = p @ r" by (metis append_take_drop_id)
qed (simp add: strip_prefix_def)

lemma strip_prefix_append [simp]: "strip_prefix p (p @ r) = Some r"
  by (simp add: strip_prefix_Some_iff)

text \<open>\<open>s.trim_start_matches(p)\<close>: the prefix is removed as often as it matches.\<close>

function trim_start_matches :: "string \<Rightarrow> string \<Rightarrow> string" where
  "trim_start_matches p s =
     (if p \<noteq> [] \<and> starts_with p s then trim_start_matches p (drop (length p) s) else s)"
  by pat_completeness auto
termination
proof (relation "measure (\<lambda>(p, s). length s)")
  fix p s :: string
  assume a: "p \<noteq> [] \<and> starts_with p s"
  then have "s \<noteq> []" by (auto simp: starts_with_def)
  with a show "((p, drop (length p) s), p, s) \<in> measure (\<lambda>(p, s). length s)"
    by (cases p) auto
qed simp

declare trim_start_matches.simps [simp del]

text \<open>\<open>value.chars().any(char::is_control)\<close> on UTF-8 bytes: the control characters are U+0000 to
  U+001F, U+007F and U+0080 to U+009F (the two bytes \<open>C2 80\<close> to \<open>C2 9F\<close>).\<close>

fun has_control :: "string \<Rightarrow> bool" where
  "has_control [] = False"
| "has_control (c # cs) =
     (byte c < 32 \<or> byte c = 127 \<or>
      (byte c = 194 \<and> (case cs of [] \<Rightarrow> False | d # _ \<Rightarrow> 128 \<le> byte d \<and> byte d \<le> 159)) \<or>
      has_control cs)"

text \<open>Decimal digits of an unsigned number (\<open>itoa\<close>), and of a signed one.\<close>

fun show_nat :: "nat \<Rightarrow> string" where
  "show_nat n =
     (if n < 10 then [char_of (48 + n)] else show_nat (n div 10) @ [char_of (48 + n mod 10)])"

declare show_nat.simps [simp del]

definition show_int :: "int \<Rightarrow> string" where
  "show_int i = (if i < 0 then ''-'' @ show_nat (nat (- i)) else show_nat (nat i))"

lemma show_nat_digits: "\<forall>c \<in> set (show_nat n). is_ascii_digit c"
proof (induction n rule: show_nat.induct)
  case (1 n)
  have d: "is_ascii_digit (char_of (48 + m))" if "m < 10" for m :: nat
    using that by (simp add: is_ascii_digit_def byte_char_of)
  show ?case
  proof (cases "n < 10")
    case True
    then show ?thesis by (subst show_nat.simps) (simp add: d)
  next
    case False
    with "1.IH" show ?thesis
      by (subst show_nat.simps) (auto simp: d)
  qed
qed

lemma show_nat_nonempty [simp]: "show_nat n \<noteq> []"
  by (subst show_nat.simps) simp

section \<open>IEEE doubles\<close>

text \<open>
  \<open>f64\<close>: not a number, an infinity with its sign, or a finite value. Arithmetic is the exact
  result rounded by the IEEE rounding function \<open>rnd\<close> (a parameter wherever it is used); the sign
  of zero is not represented, since no operation of the modelled code reads it.
\<close>

datatype f64 = F_nan | F_inf bool | F_fin rat

primrec f64_is_finite :: "f64 \<Rightarrow> bool" where
  "f64_is_finite F_nan = False"
| "f64_is_finite (F_inf _) = False"
| "f64_is_finite (F_fin _) = True"

text \<open>\<open>v >= 0.0\<close>, false for a NaN.\<close>

primrec f64_ge0 :: "f64 \<Rightarrow> bool" where
  "f64_ge0 F_nan = False"
| "f64_ge0 (F_inf pos) = pos"
| "f64_ge0 (F_fin q) = (0 \<le> q)"

text \<open>\<open>v < 0.0\<close>, false for a NaN.\<close>

primrec f64_lt0 :: "f64 \<Rightarrow> bool" where
  "f64_lt0 F_nan = False"
| "f64_lt0 (F_inf pos) = (\<not> pos)"
| "f64_lt0 (F_fin q) = (q < 0)"

fun f64_add :: "(rat \<Rightarrow> f64) \<Rightarrow> f64 \<Rightarrow> f64 \<Rightarrow> f64" where
  "f64_add rnd (F_fin a) (F_fin b) = rnd (a + b)"
| "f64_add rnd (F_inf s) (F_inf t) = (if s = t then F_inf s else F_nan)"
| "f64_add rnd (F_inf s) (F_fin _) = F_inf s"
| "f64_add rnd (F_fin _) (F_inf s) = F_inf s"
| "f64_add rnd F_nan _ = F_nan"
| "f64_add rnd _ F_nan = F_nan"

text \<open>Multiplication and division by a positive finite constant, and \<open>f64::round\<close> (half away
  from zero; exact, so nothing is rounded again).\<close>

fun f64_scale :: "(rat \<Rightarrow> f64) \<Rightarrow> rat \<Rightarrow> f64 \<Rightarrow> f64" where
  "f64_scale rnd k (F_fin a) = rnd (a * k)"
| "f64_scale rnd k v = v"

fun f64_round :: "f64 \<Rightarrow> f64" where
  "f64_round (F_fin a) =
     F_fin (if 0 \<le> a then of_int \<lfloor>a + 1/2\<rfloor> else - of_int \<lfloor>- a + 1/2\<rfloor>)"
| "f64_round v = v"

text \<open>The quotient and the remainder of a number written in base \<open>k\<close>.\<close>

lemma mixed_radix: "b < k \<Longrightarrow> (a * k + b) div k = a" "b < k \<Longrightarrow> (a * k + b) mod k = (b :: nat)"
  by simp_all

end
