(* ===== verification/Rust_Std.thy ===== *)
theory Rust_Std
  imports Prelude
begin

text \<open>
  The parts of Rust's standard library the policy compiler is written with: the \<open>?\<close> operator on
  \<open>Result\<close>, the loops that stop at the first error, with and without a value threaded through them,
  \<open>BTreeMap\<close> as the list of its entries in key order, and \<open>sort_unstable\<close> followed by \<open>dedup\<close>.

  \<^item> \<open>result_simps\<close>: when a fallible sequence succeeds.
\<close>

named_theorems result_simps

section \<open>Results\<close>

text \<open>\<open>r?\<close> followed by the rest of the function.\<close>

fun try_ok :: "'e + 'a \<Rightarrow> ('a \<Rightarrow> 'e + 'b) \<Rightarrow> 'e + 'b" where
  "try_ok (Inl e) k = Inl e"
| "try_ok (Inr v) k = k v"

lemma try_ok_Inr_iff [result_simps]: "try_ok r k = Inr w \<longleftrightarrow> (\<exists>v. r = Inr v \<and> k v = Inr w)"
  by (cases r) auto

lemma try_ok_Inl_iff: "try_ok r k = Inl e \<longleftrightarrow> r = Inl e \<or> (\<exists>v. r = Inr v \<and> k v = Inl e)"
  by (cases r) auto

lemma try_ok_cong [fundef_cong]:
  "r = r' \<Longrightarrow> (\<And>v. r' = Inr v \<Longrightarrow> k v = k' v) \<Longrightarrow> try_ok r k = try_ok r' k'"
  by (cases r') auto

text \<open>\<open>opt.ok_or(error)\<close>.\<close>

fun ok_or :: "'e \<Rightarrow> 'a option \<Rightarrow> 'e + 'a" where
  "ok_or e None = Inl e"
| "ok_or e (Some v) = Inr v"

lemma ok_or_Inr_iff [result_simps]: "ok_or e x = Inr v \<longleftrightarrow> x = Some v"
  by (cases x) auto

lemma ok_or_Inl_iff: "ok_or e x = Inl e' \<longleftrightarrow> x = None \<and> e' = e"
  by (cases x) auto

text \<open>A guard that returns early: \<open>if !p { return Err(e); }\<close>.\<close>

definition require :: "bool \<Rightarrow> 'e \<Rightarrow> 'e + unit" where
  "require p e = (if p then Inr () else Inl e)"

lemma require_Inr_iff [result_simps]: "require p e = Inr u \<longleftrightarrow> p"
  by (simp add: require_def)

lemma require_Inl_iff: "require p e = Inl e' \<longleftrightarrow> \<not> p \<and> e' = e"
  by (auto simp: require_def)

lemma require_simps [simp]: "require True e = Inr ()" "require False e = Inl e"
  by (simp_all add: require_def)

text \<open>\<open>iter.map(f).collect::<Result<Vec<_>, _>>()\<close>.\<close>

fun traverse :: "('a \<Rightarrow> 'e + 'b) \<Rightarrow> 'a list \<Rightarrow> 'e + 'b list" where
  "traverse f [] = Inr []"
| "traverse f (x # xs) = try_ok (f x) (\<lambda>y. try_ok (traverse f xs) (\<lambda>ys. Inr (y # ys)))"

lemma traverse_cong [fundef_cong]:
  "xs = ys \<Longrightarrow> (\<And>x. x \<in> set ys \<Longrightarrow> f x = g x) \<Longrightarrow> traverse f xs = traverse g ys"
  by (induction ys arbitrary: xs) (auto simp del: Cons_eq_appendI)

lemma traverse_Inr_iff [result_simps]:
  "traverse f xs = Inr ys \<longleftrightarrow> list_all2 (\<lambda>x y. f x = Inr y) xs ys"
  by (induction xs arbitrary: ys) (auto simp: result_simps list_all2_Cons1)

lemma traverse_each:
  assumes "traverse f xs = Inr ys" and "\<And>x y. x \<in> set xs \<Longrightarrow> f x = Inr y \<Longrightarrow> P y"
  shows "list_all P ys"
proof -
  from assms(1) have "list_all2 (\<lambda>x y. f x = Inr y) xs ys" by (simp add: result_simps)
  then have "list_all2 (\<lambda>x y. P y) xs ys" by (rule list.rel_mono_strong) (rule assms(2))
  then show ?thesis by (auto simp: list_all2_conv_all_nth list_all_length)
qed

lemma traverse_all: "traverse f xs = Inr ys \<Longrightarrow> x \<in> set xs \<Longrightarrow> \<exists>y. f x = Inr y"
  by (induction xs arbitrary: ys) (auto simp: try_ok_Inr_iff)

lemma traverse_Inl: "traverse f xs = Inl e \<Longrightarrow> \<exists>x \<in> set xs. f x = Inl e"
  by (induction xs) (auto simp: try_ok_Inl_iff)

text \<open>\<open>for x in xs { f(x)?; }\<close>.\<close>

fun for_each :: "('a \<Rightarrow> 'e + unit) \<Rightarrow> 'a list \<Rightarrow> 'e + unit" where
  "for_each f [] = Inr ()"
| "for_each f (x # xs) = try_ok (f x) (\<lambda>_. for_each f xs)"

lemma for_each_cong [fundef_cong]:
  "xs = ys \<Longrightarrow> (\<And>x. x \<in> set ys \<Longrightarrow> f x = g x) \<Longrightarrow> for_each f xs = for_each g ys"
  by (induction ys arbitrary: xs) auto

lemma for_each_Inr_iff [result_simps]: "for_each f xs = Inr u \<longleftrightarrow> (\<forall>x \<in> set xs. f x = Inr ())"
  by (induction xs) (auto simp: result_simps)

lemma for_each_Inl: "for_each f xs = Inl e \<Longrightarrow> \<exists>x \<in> set xs. f x = Inl e"
  by (induction xs) (auto simp: try_ok_Inl_iff)

text \<open>A loop that maps the elements and threads a value through (\<open>&mut\<close>).\<close>

fun traverse_st :: "('a \<Rightarrow> 's \<Rightarrow> 'e + 'b \<times> 's) \<Rightarrow> 'a list \<Rightarrow> 's \<Rightarrow> 'e + 'b list \<times> 's" where
  "traverse_st f [] s = Inr ([], s)"
| "traverse_st f (x # xs) s =
     try_ok (f x s) (\<lambda>(y, s). try_ok (traverse_st f xs s) (\<lambda>(ys, s). Inr (y # ys, s)))"

lemma traverse_st_cong [fundef_cong]:
  assumes "xs = ys" and "s = t" and "\<And>x u. x \<in> set ys \<Longrightarrow> f x u = g x u"
  shows "traverse_st f xs s = traverse_st g ys t"
  using assms
proof (induction ys arbitrary: xs s t)
  case (Cons y ys)
  then have "f y t = g y t" "traverse_st f ys u = traverse_st g ys u" for u by auto
  with Cons.prems show ?case by simp
qed simp

text \<open>A loop that only threads a value through.\<close>

fun fold_st :: "('a \<Rightarrow> 's \<Rightarrow> 'e + 's) \<Rightarrow> 'a list \<Rightarrow> 's \<Rightarrow> 'e + 's" where
  "fold_st f [] s = Inr s"
| "fold_st f (x # xs) s = try_ok (f x s) (fold_st f xs)"

text \<open>What every step of such a loop keeps, the loop keeps.\<close>

lemma fold_st_keeps:
  assumes "fold_st f xs s = Inr t" and "P s"
    and "\<And>x s t. x \<in> set xs \<Longrightarrow> P s \<Longrightarrow> f x s = Inr t \<Longrightarrow> P t"
  shows "P t"
  using assms
proof (induction xs arbitrary: s)
  case (Cons x xs)
  then obtain u where "f x s = Inr u" "fold_st f xs u = Inr t" by (auto simp: result_simps)
  with Cons.prems(2,3) show ?case
    by (intro Cons.IH [of u]) auto
qed simp

section \<open>Accumulators\<close>

text \<open>
  The interface of a value that fallible steps thread through and only ever extend: a well-formedness
  \<open>ok\<close> and a preorder \<open>le\<close>. A step \<open>extends\<close> when it keeps \<open>ok\<close>, goes up in \<open>le\<close>, and establishes \<open>Q\<close>
  between what it reads and what it returns for the new value and every later one. Sequences, loops
  and optional steps of steps that extend extend.
\<close>

locale accumulator =
  fixes ok :: "'s \<Rightarrow> bool" and le :: "'s \<Rightarrow> 's \<Rightarrow> bool"
  assumes le_refl: "le s s" and le_trans: "le s t \<Longrightarrow> le t u \<Longrightarrow> le s u"
begin

definition extends :: "('s \<Rightarrow> 'a \<Rightarrow> bool) \<Rightarrow> ('s \<Rightarrow> 'e + 'a \<times> 's) \<Rightarrow> bool" where
  "extends Q f = (\<forall>s y t. ok s \<longrightarrow> f s = Inr (y, t) \<longrightarrow> ok t \<and> le s t \<and> (\<forall>u. le t u \<longrightarrow> Q u y))"

lemma extendsI:
  "(\<And>s y t. ok s \<Longrightarrow> f s = Inr (y, t) \<Longrightarrow> ok t \<and> le s t \<and> (\<forall>u. le t u \<longrightarrow> Q u y)) \<Longrightarrow> extends Q f"
  by (simp add: extends_def)

lemma extendsD:
  assumes "extends Q f" "ok s" "f s = Inr (y, t)"
  shows "ok t" "le s t" "\<And>u. le t u \<Longrightarrow> Q u y"
  using assms by (auto simp: extends_def)

lemma extends_return: "(\<And>u. Q u y) \<Longrightarrow> extends Q (\<lambda>s. Inr (y, s))"
  by (auto simp: extends_def le_refl)

lemma extends_fail: "extends Q (\<lambda>s. Inl e)"
  by (simp add: extends_def)

lemma extends_bind:
  assumes "extends P f" and "\<And>y. extends (\<lambda>u z. P u y \<longrightarrow> Q u z) (k y)"
  shows "extends Q (\<lambda>s. try_ok (f s) (\<lambda>(y, s). k y s))"
proof (rule extendsI)
  fix s z t
  assume "ok s" and "try_ok (f s) (\<lambda>(y, s). k y s) = Inr (z, t)"
  then obtain y u where "f s = Inr (y, u)" "k y u = Inr (z, t)" by (auto simp: result_simps)
  with \<open>ok s\<close> assms show "ok t \<and> le s t \<and> (\<forall>v. le t v \<longrightarrow> Q v z)"
    unfolding extends_def by (meson le_trans)
qed

lemma extends_weaken: "extends P f \<Longrightarrow> (\<And>u y. P u y \<Longrightarrow> Q u y) \<Longrightarrow> extends Q f"
  by (auto simp: extends_def)

lemma extends_traverse:
  assumes "\<And>x. x \<in> set xs \<Longrightarrow> extends (\<lambda>u y. Q u x y) (f x)"
  shows "extends (\<lambda>u ys. list_all2 (Q u) xs ys) (traverse_st f xs)"
  using assms
proof (induction xs)
  case Nil
  then show ?case by (auto simp: extends_def le_refl)
next
  case (Cons x xs)
  have f: "extends (\<lambda>u y. Q u x y) (f x)" and rest: "extends (\<lambda>u ys. list_all2 (Q u) xs ys) (traverse_st f xs)"
    using Cons by auto
  have "extends (\<lambda>u zs. Q u x y \<longrightarrow> list_all2 (Q u) (x # xs) zs)
      (\<lambda>s. try_ok (traverse_st f xs s) (\<lambda>(ys, s). Inr (y # ys, s)))" for y
    by (rule extends_bind [OF rest]) (rule extends_return, simp)
  with f show ?case
    unfolding traverse_st.simps by (rule extends_bind)
qed

end

section \<open>Ordered maps\<close>

text \<open>\<open>map.insert(k, v)\<close>, \<open>map.get(k)\<close> and \<open>map.contains_key(k)\<close>.\<close>

fun bt_insert :: "'k::linorder \<Rightarrow> 'v \<Rightarrow> ('k \<times> 'v) list \<Rightarrow> ('k \<times> 'v) list" where
  "bt_insert k v [] = [(k, v)]"
| "bt_insert k v ((l, w) # m) =
     (if k < l then (k, v) # (l, w) # m else if k = l then (k, v) # m else (l, w) # bt_insert k v m)"

definition bt_get :: "('k \<times> 'v) list \<Rightarrow> 'k \<Rightarrow> 'v option" where
  "bt_get m = map_of m"

definition bt_has :: "('k \<times> 'v) list \<Rightarrow> 'k \<Rightarrow> bool" where
  "bt_has m k = (k \<in> fst ` set m)"

text \<open>The entries in ascending order of their keys, each key once.\<close>

definition bt_ok :: "('k::linorder \<times> 'v) list \<Rightarrow> bool" where
  "bt_ok m = sorted_wrt (<) (map fst m)"

lemma bt_get_insert [simp]: "bt_get (bt_insert k v m) l = (if l = k then Some v else bt_get m l)"
  by (induction m) (auto simp: bt_get_def)

lemma bt_get_Nil [simp]: "bt_get [] k = None"
  by (simp add: bt_get_def)

lemma bt_keys_insert [simp]: "fst ` set (bt_insert k v m) = insert k (fst ` set m)"
  by (induction k v m rule: bt_insert.induct) auto

lemma bt_ok_Nil [simp]: "bt_ok []"
  by (simp add: bt_ok_def)

lemma bt_ok_insert [simp]: "bt_ok m \<Longrightarrow> bt_ok (bt_insert k v m)"
proof (induction m)
  case (Cons e m)
  obtain l w where "e = (l, w)" by fastforce
  moreover have "set (map fst (bt_insert k v m)) = insert k (fst ` set m)" by simp
  ultimately show ?case using Cons by (fastforce simp: bt_ok_def)
qed (simp add: bt_ok_def)

lemma bt_get_has: "bt_has m k \<longleftrightarrow> bt_get m k \<noteq> None"
  by (simp add: bt_has_def bt_get_def map_of_eq_None_iff)

lemma bt_get_set: "bt_get m k = Some v \<Longrightarrow> (k, v) \<in> set m"
  by (simp add: bt_get_def map_of_SomeD)

lemma bt_set_get: "bt_ok m \<Longrightarrow> (k, v) \<in> set m \<Longrightarrow> bt_get m k = Some v"
  by (simp add: bt_ok_def bt_get_def strict_sorted_iff map_of_eq_Some_iff)

lemma bt_set_insert: "e \<in> set (bt_insert k v m) \<Longrightarrow> e = (k, v) \<or> e \<in> set m"
  by (induction m) (auto split: if_splits)

section \<open>Sorted vectors\<close>

text \<open>\<open>v.dedup()\<close>: of equal neighbours the first stays.\<close>

fun dedup :: "'a list \<Rightarrow> 'a list" where
  "dedup [] = []"
| "dedup [x] = [x]"
| "dedup (x # y # ys) = (if x = y then dedup (x # ys) else x # dedup (y # ys))"

lemma set_dedup [simp]: "set (dedup xs) = set xs"
  by (induction xs rule: dedup.induct) auto

lemma sorted_dedup: "sorted xs \<Longrightarrow> sorted_wrt (<) (dedup xs)"
proof (induction xs rule: dedup.induct)
  case (3 x y ys)
  show ?case
  proof (cases "x = y")
    case False
    have "\<forall>z \<in> set (dedup (y # ys)). x < z" using 3(3) False by auto
    with 3 False show ?thesis by simp
  qed (use 3 in simp)
qed auto

text \<open>\<open>iter.find(p)\<close> where one element only satisfies \<open>p\<close>.\<close>

lemma find_unique:
  assumes "x \<in> set xs" and "p x" and "\<forall>y \<in> set xs. p y \<longrightarrow> y = x"
  shows "find p xs = Some x"
  using assms
proof (induction xs)
  case (Cons y ys)
  show ?case
  proof (cases "p y")
    case True
    with Cons.prems(3) have "y = x" by (metis list.set_intros(1))
    with True show ?thesis by simp
  next
    case False
    with Cons.prems have "x \<in> set ys" by auto
    from Cons.IH [OF this Cons.prems(2)] Cons.prems(3) have "find p ys = Some x"
      by (metis list.set_intros(2))
    with False show ?thesis by simp
  qed
qed simp

end
