(* ===== verification/Pol_Core.thy ===== *)
theory Pol_Core
  imports Rust_Std
begin

text \<open>
  The shared vocabulary of the policy compiler
  (\<^verbatim>\<open>src/crates/policysql-core/src/lib.rs\<close> and \<^verbatim>\<open>src/crates/policysql-core/src/bytes.rs\<close>):
  validated names and identities, parameter names, logical types and values, the value formats,
  the base64 wire form of bytes, and the trusted session.

  A resource or policy identity is the number it holds. The \<open>base64\<close> crate is the parameter
  \<open>std_decode\<close>, its \<open>STANDARD.decode\<close>; the \<open>regex_lite\<close> crate is \<open>is_match\<close>; IEEE rounding is \<open>rnd\<close>.
\<close>

named_theorems core_defs

datatype pol_core_error =
    EmptyIdentifier | EmptyResultName | ZeroIdentity | InvalidCanonicalKey | InvalidParameterName
  | ReservedParameterNamespace | ReservedSessionKey | EmptySubject

section \<open>Identities\<close>

definition numeric_id_new :: "nat \<Rightarrow> pol_core_error + nat" where
  "numeric_id_new v = (if v = 0 then Inl ZeroIdentity else Inr v)"

datatype column_id = ColumnId (cid_resource: nat) (cid_ordinal: nat)

text \<open>The derived order of \<open>ColumnId\<close>: by resource, then by ordinal.\<close>

instantiation column_id :: linorder
begin

definition less_eq_column_id :: "column_id \<Rightarrow> column_id \<Rightarrow> bool" where
  "less_eq_column_id a b =
     (cid_resource a < cid_resource b \<or> cid_resource a = cid_resource b \<and> cid_ordinal a \<le> cid_ordinal b)"

definition less_column_id :: "column_id \<Rightarrow> column_id \<Rightarrow> bool" where
  "less_column_id a b =
     (cid_resource a < cid_resource b \<or> cid_resource a = cid_resource b \<and> cid_ordinal a < cid_ordinal b)"

instance
  by standard (auto simp: less_eq_column_id_def less_column_id_def column_id.expand)

end

section \<open>Names\<close>

text \<open>\<open>value.trim().is_empty()\<close> on UTF-8 bytes: nothing but Unicode white space.\<close>

fun all_white_space :: "string \<Rightarrow> bool" where
  "all_white_space [] = True"
| "all_white_space (c # cs) =
     (if 9 \<le> byte c \<and> byte c \<le> 13 \<or> byte c = 32 then all_white_space cs
      else (case cs of
          [] \<Rightarrow> False
        | d # ds \<Rightarrow>
            if byte c = 194 \<and> (byte d = 133 \<or> byte d = 160) then all_white_space ds
            else (case ds of
                [] \<Rightarrow> False
              | e # es \<Rightarrow>
                  (byte c = 225 \<and> byte d = 154 \<and> byte e = 128
                   \<or> byte c = 226 \<and> byte d = 128
                       \<and> (128 \<le> byte e \<and> byte e \<le> 138 \<or> byte e = 168 \<or> byte e = 169 \<or> byte e = 175)
                   \<or> byte c = 226 \<and> byte d = 129 \<and> byte e = 159
                   \<or> byte c = 227 \<and> byte d = 128 \<and> byte e = 128)
                  \<and> all_white_space es)))"

definition non_empty :: "string \<Rightarrow> bool" where
  "non_empty v = (\<not> all_white_space v)"

definition canonical_key :: "string \<Rightarrow> bool" where
  [core_defs]: "canonical_key v = (case v of
       [] \<Rightarrow> False
     | c # cs \<Rightarrow> is_ascii_lowercase c \<and>
         (\<forall>d \<in> set cs. is_ascii_lowercase d \<or> is_ascii_digit d \<or> d = CHR ''_''))"

definition identifier_new :: "string \<Rightarrow> pol_core_error + string" where
  "identifier_new v = (if \<not> non_empty v then Inl EmptyIdentifier else Inr v)"

definition result_name_new :: "string \<Rightarrow> pol_core_error + string" where
  "result_name_new v = (if \<not> non_empty v then Inl EmptyResultName else Inr v)"

definition role_name_new :: "string \<Rightarrow> pol_core_error + string" where
  [core_defs]: "role_name_new v = (if \<not> canonical_key v then Inl InvalidCanonicalKey else Inr v)"

definition session_key_new :: "string \<Rightarrow> pol_core_error + string" where
  [core_defs]: "session_key_new v = (if \<not> canonical_key v then Inl InvalidCanonicalKey else Inr v)"

section \<open>Parameter names\<close>

definition SERVER_PARAMETER_PREFIX :: string where
  "SERVER_PARAMETER_PREFIX = ''__policysql_''"

definition client_parameter_name_new :: "string \<Rightarrow> pol_core_error + string" where
  "client_parameter_name_new v =
     (if starts_with SERVER_PARAMETER_PREFIX v then Inl ReservedParameterNamespace
      else if \<not> canonical_key v then Inl InvalidParameterName
      else Inr v)"

definition from_trusted_suffix :: "string \<Rightarrow> pol_core_error + string" where
  [core_defs]: "from_trusted_suffix suffix =
     (if \<not> canonical_key suffix then Inl InvalidParameterName else Inr (SERVER_PARAMETER_PREFIX @ suffix))"

section \<open>Types and values\<close>

datatype operation_kind = OpSelect | OpInsert | OpUpdate | OpDelete

datatype logical_type =
    LT_String | LT_Integer | LT_Boolean | LT_Int64 | LT_Number | LT_Bytes | LT_Date | LT_DateTime
  | LT_Instant | LT_Json

datatype storage_class = SC_Integer | SC_Real | SC_Text | SC_Blob

datatype value_representation = VR_String | VR_Boolean | VR_Number | VR_Base64 | VR_Json

datatype constraint_scalar = CS_String string | CS_Number string | CS_Boolean bool

record value_constraints =
  vc_allowed :: "constraint_scalar list"
  vc_minimum :: "string option"
  vc_maximum :: "string option"
  vc_min_length :: "nat option"
  vc_max_length :: "nat option"
  vc_pattern :: "string option"

datatype json_schema_type =
    JS_Null | JS_Boolean | JS_Integer | JS_Number | JS_String | JS_Array | JS_Object

datatype json_value_schema = JsonValueSchema
  (jvs_types: "json_schema_type list")
  (jvs_properties: "(string \<times> json_value_schema) list")
  (jvs_items: "json_value_schema option")
  (jvs_required: "string list")
  (jvs_additional_properties: bool)
  (jvs_any_of: "json_value_schema list")

record value_descriptor =
  vd_logical_type :: logical_type
  vd_representation :: value_representation
  vd_nullable :: bool
  vd_format :: "string option"
  vd_storage :: "storage_class option"
  vd_constraints :: "value_constraints option"
  vd_json_schema :: "json_value_schema option"

text \<open>An \<open>i64\<close> is an \<open>int\<close>; bytes are a list of characters.\<close>

datatype logical_value =
    LV_Null
  | LV_String string
  | LV_Boolean bool
  | LV_Int64 int
  | LV_Number f64
  | LV_Bytes string
  | LV_Json string

definition i64_max :: int where
  "i64_max = 9223372036854775807"

section \<open>Value formats\<close>

text \<open>\<open>s.parse::<u8>()\<close> and \<open>s.parse::<u16>()\<close>: an optional plus sign, at least one digit, nothing
  else, and a value that fits.\<close>

fun digits_value :: "nat \<Rightarrow> string \<Rightarrow> nat \<Rightarrow> nat option" where
  "digits_value m [] acc = Some acc"
| "digits_value m (c # cs) acc =
     (if is_ascii_digit c \<and> acc * 10 + (byte c - 48) \<le> m then digits_value m cs (acc * 10 + (byte c - 48))
      else None)"

definition parse_unsigned :: "nat \<Rightarrow> string \<Rightarrow> nat option" where
  "parse_unsigned m s = (let ds = (if starts_with ''+'' s then drop 1 s else s) in
     if ds = [] then None else digits_value m ds 0)"

definition byte_is :: "string \<Rightarrow> nat \<Rightarrow> char \<Rightarrow> bool" where
  "byte_is s i c = (i < length s \<and> s ! i = c)"

definition parse_u8_at :: "string \<Rightarrow> nat \<Rightarrow> nat \<Rightarrow> nat option" where
  "parse_u8_at s a b = Option.bind (slice s a b) (parse_unsigned 255)"

definition basic_date :: "string \<Rightarrow> bool" where
  "basic_date v =
     (if length v \<noteq> 10 \<or> \<not> byte_is v 4 (CHR ''-'') \<or> \<not> byte_is v 7 (CHR ''-'') then False
      else (case (Option.bind (slice v 0 4) (parse_unsigned 65535), parse_u8_at v 5 7, parse_u8_at v 8 10) of
          (Some year, Some month, Some day) \<Rightarrow>
            let leap = (year mod 4 = 0 \<and> (year mod 100 \<noteq> 0 \<or> year mod 400 = 0));
                maximum = (if month \<in> {1, 3, 5, 7, 8, 10, 12} then Some 31
                           else if month \<in> {4, 6, 9, 11} then Some 30
                           else if month = 2 \<and> leap then Some 29
                           else if month = 2 then Some 28
                           else None)
            in is_some_and (\<lambda>m. 1 \<le> day \<and> day \<le> m) maximum
        | _ \<Rightarrow> False))"

definition basic_datetime :: "string \<Rightarrow> bool \<Rightarrow> bool" where
  "basic_datetime v require_offset =
     (if length v < 19 \<or> \<not> is_some_and basic_date (slice v 0 10)
         \<or> \<not> (byte_is v 10 (CHR ''T'') \<or> byte_is v 10 (CHR '' '')) then False
      else (case slice v 11 19 of
          None \<Rightarrow> False
        | Some time \<Rightarrow>
            if \<not> byte_is time 2 (CHR '':'') \<or> \<not> byte_is time 5 (CHR '':'') then False
            else if is_none_or (\<lambda>h. 24 \<le> h) (parse_u8_at time 0 2)
              \<or> is_none_or (\<lambda>m. 60 \<le> m) (parse_u8_at time 3 5)
              \<or> is_none_or (\<lambda>s. 60 \<le> s) (parse_u8_at time 6 8) then False
            else
              let rest = drop 19 v;
                  digits = length (takeWhile is_ascii_digit (drop 1 rest))
              in if starts_with ''.'' rest \<and> digits = 0 then False
                 else
                   let suffix = (if starts_with ''.'' rest then drop (digits + 1) rest else rest)
                   in if \<not> require_offset then suffix = []
                      else suffix = ''Z'' \<or>
                        (length suffix = 6
                         \<and> (byte_is suffix 0 (CHR ''+'') \<or> byte_is suffix 0 (CHR ''-''))
                         \<and> byte_is suffix 3 (CHR '':'')
                         \<and> is_some_and (\<lambda>h. h < 24) (parse_u8_at suffix 1 3)
                         \<and> is_some_and (\<lambda>m. m < 60) (parse_u8_at suffix 4 6))))"

definition is_ascii_hexdigit :: "char \<Rightarrow> bool" where
  "is_ascii_hexdigit c = (is_ascii_digit c \<or> 97 \<le> byte c \<and> byte c \<le> 102 \<or> 65 \<le> byte c \<and> byte c \<le> 70)"

definition format_accepts :: "logical_value \<Rightarrow> string option \<Rightarrow> bool" where
  "format_accepts v format = (case format of
       None \<Rightarrow> True
     | Some f \<Rightarrow>
         if f = ''int64'' \<or> f = ''base64'' then True
         else (case v of
             LV_String s \<Rightarrow>
               if f = ''uuid'' then
                 length s = 36 \<and> (\<forall>i \<in> {..<length s}.
                   if i \<in> {8, 13, 18, 23} then s ! i = CHR ''-'' else is_ascii_hexdigit (s ! i))
               else if f = ''email'' then
                 (case dropWhile (\<lambda>c. c \<noteq> CHR ''@'') s of
                    [] \<Rightarrow> False
                  | _ # domain \<Rightarrow> takeWhile (\<lambda>c. c \<noteq> CHR ''@'') s \<noteq> [] \<and> CHR ''.'' \<in> set domain)
               else if f = ''iso-date'' then basic_date s
               else if f = ''sqlite-datetime'' then basic_datetime s False
               else if f = ''rfc3339'' then basic_datetime s True
               else False
           | _ \<Rightarrow> False))"

text \<open>The components of a date are read with \<open>str::parse\<close>, which takes a plus sign.\<close>

lemma signed_date_accepted: "basic_date ''2024-+1-+2''"
  by (simp add: basic_date_def byte_is_def parse_u8_at_def slice_def parse_unsigned_def byte_defs numeral_2_eq_2 numeral_3_eq_3)

section \<open>The contract of a value\<close>

text \<open>\<open>a == b\<close>, \<open>a < b\<close> and \<open>a > b\<close> on \<open>f64\<close>: all false for a NaN.\<close>

fun f64_eq :: "f64 \<Rightarrow> f64 \<Rightarrow> bool" where
  "f64_eq F_nan _ = False"
| "f64_eq a b = (a = b)"

fun f64_less :: "f64 \<Rightarrow> f64 \<Rightarrow> bool" where
  "f64_less (F_fin a) (F_fin b) = (a < b)"
| "f64_less (F_fin _) (F_inf pos) = pos"
| "f64_less (F_inf pos) (F_fin _) = (\<not> pos)"
| "f64_less (F_inf p) (F_inf q) = (\<not> p \<and> q)"
| "f64_less _ _ = False"

text \<open>\<open>s.parse::<i64>()\<close>.\<close>

definition parse_i64 :: "string \<Rightarrow> int option" where
  "parse_i64 s =
     (if starts_with ''-'' s then
        (if drop 1 s = [] then None
         else map_option (\<lambda>n. - int n) (digits_value (nat i64_max + 1) (drop 1 s) 0))
      else map_option int (parse_unsigned (nat i64_max) s))"

text \<open>\<open>s.parse::<f64>()\<close>: a sign, then an infinity, a NaN, or decimal digits with a point and an
  exponent; the decimal value is rounded by \<open>rnd\<close>.\<close>

definition decimal_digits :: "string \<Rightarrow> nat" where
  "decimal_digits ds = foldl (\<lambda>acc c. acc * 10 + (byte c - 48)) 0 ds"

definition parse_exponent :: "string \<Rightarrow> int option" where
  "parse_exponent s = (case s of
       [] \<Rightarrow> Some 0
     | c # cs \<Rightarrow>
         let ds = (if starts_with ''+'' cs \<or> starts_with ''-'' cs then drop 1 cs else cs) in
         if c \<in> {CHR ''e'', CHR ''E''} \<and> ds \<noteq> [] \<and> list_all is_ascii_digit ds
         then Some ((if starts_with ''-'' cs then -1 else 1) * int (decimal_digits ds)) else None)"

definition pow10 :: "int \<Rightarrow> rat" where
  "pow10 e = (if 0 \<le> e then 10 ^ nat e else 1 / 10 ^ nat (- e))"

definition parse_f64_unsigned :: "(rat \<Rightarrow> f64) \<Rightarrow> bool \<Rightarrow> string \<Rightarrow> f64 option" where
  "parse_f64_unsigned rnd negative s =
     (let lower = map (\<lambda>c. if is_ascii_uppercase c then char_of (byte c + 32) else c) s;
          whole = takeWhile is_ascii_digit s;
          rest = dropWhile is_ascii_digit s;
          fraction = (if starts_with ''.'' rest then takeWhile is_ascii_digit (drop 1 rest) else []);
          tail = (if starts_with ''.'' rest then dropWhile is_ascii_digit (drop 1 rest) else rest)
      in if lower \<in> {''inf'', ''infinity''} then Some (F_inf (\<not> negative))
         else if lower = ''nan'' then Some F_nan
         else if whole = [] \<and> fraction = [] then None
         else map_option (\<lambda>e. rnd ((if negative then -1 else 1) *
             of_nat (decimal_digits (whole @ fraction)) * pow10 (e - int (length fraction)))) (parse_exponent tail))"

definition parse_f64 :: "(rat \<Rightarrow> f64) \<Rightarrow> string \<Rightarrow> f64 option" where
  "parse_f64 rnd s =
     (if starts_with ''-'' s then parse_f64_unsigned rnd True (drop 1 s)
      else if starts_with ''+'' s then parse_f64_unsigned rnd False (drop 1 s)
      else parse_f64_unsigned rnd False s)"

definition i64_as_f64 :: "(rat \<Rightarrow> f64) \<Rightarrow> int \<Rightarrow> f64" where
  "i64_as_f64 rnd v = rnd (of_int v)"

text \<open>\<open>value.chars().count()\<close> on UTF-8 bytes: the bytes that do not continue a character.\<close>

definition chars_count :: "string \<Rightarrow> nat" where
  "chars_count s = length (filter (\<lambda>c. byte c < 128 \<or> 192 \<le> byte c) s)"

definition constraint_allows :: "(rat \<Rightarrow> f64) \<Rightarrow> logical_value \<Rightarrow> constraint_scalar \<Rightarrow> bool" where
  "constraint_allows rnd v allowed = (case (v, allowed) of
       (LV_String v, CS_String a) \<Rightarrow> v = a
     | (LV_Boolean v, CS_Boolean a) \<Rightarrow> v = a
     | (LV_Int64 v, CS_Number a) \<Rightarrow> parse_i64 a = Some v
     | (LV_Number v, CS_Number a) \<Rightarrow> is_some_and (\<lambda>a. f64_eq a v) (parse_f64 rnd a)
     | _ \<Rightarrow> False)"

definition numeric_of :: "(rat \<Rightarrow> f64) \<Rightarrow> logical_value \<Rightarrow> f64 option" where
  "numeric_of rnd v = (case v of LV_Int64 i \<Rightarrow> Some (i64_as_f64 rnd i) | LV_Number f \<Rightarrow> Some f | _ \<Rightarrow> None)"

text \<open>\<open>numeric.zip(bound.parse::<f64>().ok()).is_none_or(...)\<close>.\<close>

definition outside :: "(rat \<Rightarrow> f64) \<Rightarrow> logical_value \<Rightarrow> (f64 \<Rightarrow> f64 \<Rightarrow> bool) \<Rightarrow> string option \<Rightarrow> bool" where
  "outside rnd v violates bound = is_some_and (\<lambda>bound.
     case (numeric_of rnd v, parse_f64 rnd bound) of (Some n, Some b) \<Rightarrow> violates n b | _ \<Rightarrow> True) bound"

text \<open>\<open>regex_lite\<close> is the parameter \<open>is_match\<close>: \<open>None\<close> for a pattern it rejects.\<close>

definition value_satisfies_contract :: "(rat \<Rightarrow> f64) \<Rightarrow> (string \<Rightarrow> string \<Rightarrow> bool option) \<Rightarrow> logical_value \<Rightarrow>
  value_descriptor \<Rightarrow> nat \<Rightarrow> bool" where
  "value_satisfies_contract rnd is_match v descriptor max_bytes_per_value =
     (if (case v of LV_Bytes b \<Rightarrow> max_bytes_per_value < length b | _ \<Rightarrow> False) then False
      else if v = LV_Null then vd_nullable descriptor
      else if \<not> format_accepts v (vd_format descriptor) then False
      else (case vd_constraints descriptor of
          None \<Rightarrow> True
        | Some k \<Rightarrow>
            if vc_allowed k \<noteq> [] \<and> \<not> list_ex (constraint_allows rnd v) (vc_allowed k) then False
            else if outside rnd v f64_less (vc_minimum k) \<or> outside rnd v (\<lambda>n b. f64_less b n) (vc_maximum k) then False
            else (case v of
                LV_String s \<Rightarrow>
                  \<not> is_some_and (\<lambda>m. chars_count s < m) (vc_min_length k)
                  \<and> \<not> is_some_and (\<lambda>m. m < chars_count s) (vc_max_length k)
                  \<and> \<not> is_some_and (\<lambda>pattern. is_none_or (\<lambda>matches. \<not> matches) (is_match pattern s)) (vc_pattern k)
              | _ \<Rightarrow> True)))"

section \<open>Bytes\<close>

datatype decode_error = InvalidEncoding | TooLarge

definition DEFAULT_MAX_BYTES_PER_VALUE :: nat where "DEFAULT_MAX_BYTES_PER_VALUE = 262144"

definition base64_padding :: "string \<Rightarrow> nat" where
  "base64_padding v = length (takeWhile (\<lambda>c. c = CHR ''='') (rev v))"

definition bytes_decode :: "(string \<Rightarrow> string option) \<Rightarrow> string \<Rightarrow> nat \<Rightarrow> decode_error + string" where
  "bytes_decode std_decode v max_bytes =
     (if length v mod 4 \<noteq> 0 then Inl InvalidEncoding
      else
        let padding = base64_padding v in
        if 2 < padding \<or>
           (\<exists>c \<in> set (take (length v - padding) v). \<not> is_ascii_alphanumeric c \<and> c \<noteq> CHR ''+'' \<and> c \<noteq> CHR ''/'')
        then Inl InvalidEncoding
        else if 4 \<le> length v \<and> std_decode (drop (length v - 4) v) = None then Inl InvalidEncoding
        else if max_bytes < sat_sub (length v div 4 * 3) padding then Inl TooLarge
        else ok_or InvalidEncoding (std_decode v))"

section \<open>The trusted session\<close>

record trusted_session =
  ts_role :: string
  ts_values :: "(string \<times> string) list"

definition trusted_session_new ::
  "string \<Rightarrow> string \<Rightarrow> (string \<times> string) list \<Rightarrow> pol_core_error + trusted_session" where
  "trusted_session_new role subject_id session =
     (if subject_id = [] then Inl EmptySubject
      else try_ok
        (fold_st (\<lambda>(k, v) values.
             if k = ''subject_id'' \<or> k = ''role'' then Inl ReservedSessionKey
             else try_ok (session_key_new k) (\<lambda>k. Inr (bt_insert k v values))) session [])
        (\<lambda>values. try_ok (session_key_new ''subject_id'') (\<lambda>k1.
           try_ok (session_key_new ''role'') (\<lambda>k2.
             Inr \<lparr>ts_role = role, ts_values = bt_insert k2 role (bt_insert k1 subject_id values)\<rparr>))))"

definition session_get :: "trusted_session \<Rightarrow> string \<Rightarrow> string option" where
  "session_get s k = bt_get (ts_values s) k"

end
