(* ===== verification/Pol_Catalog.thy ===== *)
theory Pol_Catalog
  imports Pol_Core
begin

text \<open>
  The Catalog of protected resources (\<^verbatim>\<open>src/crates/policysql-catalog/src/lib.rs\<close>): columns and
  resources under their case-folded names, the constructors with their duplicate checks, and the
  lookups by name and by identity.
\<close>

record column_descriptor =
  cd_id :: column_id
  cd_name :: string
  cd_value :: value_descriptor
  cd_declared_type_bytes :: nat

record resource_descriptor =
  rd_id :: nat
  rd_name :: string
  rd_source :: string
  rd_columns :: "(string \<times> column_descriptor) list"

record catalog =
  cat_snapshot :: string
  cat_resources :: "(string \<times> resource_descriptor) list"

datatype catalog_error =
    EmptyCatalog | EmptyResource | TooManyColumns | DuplicateResource string | DuplicateColumn string

text \<open>\<open>to_ascii_lowercase\<close>.\<close>

definition ascii_lower :: "char \<Rightarrow> char" where
  "ascii_lower c = (if is_ascii_uppercase c then char_of (byte c + 32) else c)"

definition canonical_name :: "string \<Rightarrow> string" where
  "canonical_name v = map ascii_lower v"

section \<open>Constructors\<close>

definition new_with_source_step :: "nat \<Rightarrow> nat \<times> string \<times> value_descriptor \<Rightarrow>
  (string \<times> column_descriptor) list \<Rightarrow> catalog_error + (string \<times> column_descriptor) list" where
  "new_with_source_step rid = (\<lambda>(ordinal, column_name, v) resolved.
     let key = canonical_name column_name in
     if u32_max < ordinal then Inl TooManyColumns
     else if bt_has resolved key then Inl (DuplicateColumn key)
     else Inr (bt_insert key
       \<lparr>cd_id = ColumnId rid ordinal, cd_name = column_name, cd_value = v, cd_declared_type_bytes = 0\<rparr> resolved))"

definition new_with_source ::
  "nat \<Rightarrow> string \<Rightarrow> string \<Rightarrow> (string \<times> value_descriptor) list \<Rightarrow> catalog_error + resource_descriptor" where
  "new_with_source rid name source columns =
     try_ok (fold_st (new_with_source_step rid) (enumerate 0 columns) []) (\<lambda>resolved.
       if resolved = [] then Inl EmptyResource
       else Inr \<lparr>rd_id = rid, rd_name = name, rd_source = source, rd_columns = resolved\<rparr>)"

definition resource_new ::
  "nat \<Rightarrow> string \<Rightarrow> (string \<times> value_descriptor) list \<Rightarrow> catalog_error + resource_descriptor" where
  "resource_new rid name columns = new_with_source rid name name columns"

definition with_declared_type_bytes :: "resource_descriptor \<Rightarrow> string \<Rightarrow> nat \<Rightarrow> resource_descriptor" where
  "with_declared_type_bytes r column bytes =
     (case bt_get (rd_columns r) (canonical_name column) of
        None \<Rightarrow> r
      | Some d \<Rightarrow> r\<lparr>rd_columns := bt_insert (canonical_name column) (d\<lparr>cd_declared_type_bytes := bytes\<rparr>) (rd_columns r)\<rparr>)"

definition catalog_new :: "string \<Rightarrow> resource_descriptor list \<Rightarrow> catalog_error + catalog" where
  "catalog_new snapshot resources =
     try_ok (fold_st (\<lambda>r resolved.
         let key = canonical_name (rd_name r) in
         if bt_has resolved key then Inl (DuplicateResource key)
         else Inr (bt_insert key r resolved)) resources []) (\<lambda>resolved.
       if resolved = [] then Inl EmptyCatalog
       else Inr \<lparr>cat_snapshot = snapshot, cat_resources = resolved\<rparr>)"

section \<open>Lookups\<close>

definition resource_column :: "resource_descriptor \<Rightarrow> string \<Rightarrow> column_descriptor option" where
  "resource_column r name = bt_get (rd_columns r) (canonical_name name)"

definition column_by_id :: "resource_descriptor \<Rightarrow> column_id \<Rightarrow> column_descriptor option" where
  "column_by_id r i =
     (if cid_resource i = rd_id r then find (\<lambda>c. cd_id c = i) (map snd (rd_columns r)) else None)"

definition catalog_resource :: "catalog \<Rightarrow> string \<Rightarrow> resource_descriptor option" where
  "catalog_resource c name = bt_get (cat_resources c) (canonical_name name)"

definition resource_by_id :: "catalog \<Rightarrow> nat \<Rightarrow> resource_descriptor option" where
  "resource_by_id c i = find (\<lambda>r. rd_id r = i) (map snd (cat_resources c))"

section \<open>Well-formed resources\<close>

text \<open>The columns are in key order, each belongs to the resource and is found under its own
  name, and no two share an identity.\<close>

definition resource_ok :: "resource_descriptor \<Rightarrow> bool" where
  "resource_ok r = (bt_ok (rd_columns r) \<and> rd_columns r \<noteq> [] \<and>
     (\<forall>(k, c) \<in> set (rd_columns r). cid_resource (cd_id c) = rd_id r \<and> k = canonical_name (cd_name c)) \<and>
     inj_on (cd_id \<circ> snd) (set (rd_columns r)))"

definition columns_below :: "nat \<Rightarrow> nat \<Rightarrow> (string \<times> column_descriptor) list \<Rightarrow> bool" where
  "columns_below rid n m = (bt_ok m \<and> inj_on (cd_id \<circ> snd) (set m) \<and>
     (\<forall>(k, c) \<in> set m. cid_resource (cd_id c) = rid \<and> cid_ordinal (cd_id c) < n \<and> k = canonical_name (cd_name c)))"

lemma columns_below_step:
  assumes "columns_below rid n m" and "new_with_source_step rid (n, column) m = Inr m'"
  shows "columns_below rid (Suc n) m'"
proof -
  obtain name v where c: "column = (name, v)" by fastforce
  let ?d = "\<lparr>cd_id = ColumnId rid n, cd_name = name, cd_value = v, cd_declared_type_bytes = 0\<rparr>"
  have m': "m' = bt_insert (canonical_name name) ?d m"
    using assms(2) c by (simp add: new_with_source_step_def Let_def split: if_splits)
  have *: "set m' \<subseteq> insert (canonical_name name, ?d) (set m)"
    unfolding m' by (auto dest: bt_set_insert)
  have below: "cid_ordinal (cd_id (snd e)) < n" if "e \<in> set m" for e
    using assms(1) that unfolding columns_below_def by (auto simp: case_prod_beta)
  have "ColumnId rid n \<notin> (cd_id \<circ> snd) ` (set m - {(canonical_name name, ?d)})"
  proof
    assume "ColumnId rid n \<in> (cd_id \<circ> snd) ` (set m - {(canonical_name name, ?d)})"
    then obtain e where "e \<in> set m" "cd_id (snd e) = ColumnId rid n"
      by (metis (no_types, lifting) DiffE comp_apply imageE)
    with below [of e] show False by simp
  qed
  then have "inj_on (cd_id \<circ> snd) (insert (canonical_name name, ?d) (set m))"
    using assms(1) by (simp add: columns_below_def inj_on_insert)
  with * have "inj_on (cd_id \<circ> snd) (set m')" by (rule inj_on_subset [rotated])
  moreover have "bt_ok m'" using assms(1) m' by (simp add: columns_below_def)
  moreover have "cid_resource (cd_id (snd e)) = rid \<and> cid_ordinal (cd_id (snd e)) < Suc n \<and>
    fst e = canonical_name (cd_name (snd e))" if "e \<in> set m'" for e
    using subsetD [OF * that] assms(1) below [of e] unfolding columns_below_def by (auto simp: case_prod_beta)
  ultimately show ?thesis
    unfolding columns_below_def by (simp add: case_prod_beta)
qed

lemma columns_below_loop:
  "columns_below rid n m \<Longrightarrow> fold_st (new_with_source_step rid) (enumerate n columns) m = Inr m' \<Longrightarrow>
   columns_below rid (n + length columns) m'"
proof (induction columns arbitrary: n m)
  case (Cons c columns)
  then obtain u where "new_with_source_step rid (n, c) m = Inr u"
    "fold_st (new_with_source_step rid) (enumerate (Suc n) columns) u = Inr m'"
    by (auto simp: result_simps)
  then show ?case using Cons.IH columns_below_step Cons.prems(1) by fastforce
qed simp

lemma new_with_source_ok:
  assumes "new_with_source rid name source columns = Inr r"
  shows "resource_ok r \<and> rd_id r = rid"
proof -
  obtain m where m: "fold_st (new_with_source_step rid) (enumerate 0 columns) [] = Inr m" "m \<noteq> []"
    "r = \<lparr>rd_id = rid, rd_name = name, rd_source = source, rd_columns = m\<rparr>"
    using assms by (auto simp: new_with_source_def result_simps split: if_splits)
  have "columns_below rid 0 []" by (simp add: columns_below_def)
  from columns_below_loop [OF this m(1)] m(2,3) show ?thesis
    by (fastforce simp: resource_ok_def columns_below_def)
qed

lemma resource_column_ok:
  assumes "resource_ok r" and "resource_column r name = Some c"
  shows "cid_resource (cd_id c) = rd_id r"
  using assms by (force simp: resource_ok_def resource_column_def dest: bt_get_set)

lemma column_by_id_found:
  assumes "resource_ok r" and "resource_column r name = Some c"
  shows "column_by_id r (cd_id c) = Some c"
proof -
  have c: "(canonical_name name, c) \<in> set (rd_columns r)"
    using assms(2) by (simp add: resource_column_def bt_get_set)
  then have "c \<in> set (map snd (rd_columns r))" by force
  moreover have "c' = c" if m: "c' \<in> set (map snd (rd_columns r))" and i: "cd_id c' = cd_id c" for c'
  proof -
    obtain k where "(k, c') \<in> set (rd_columns r)" using m by auto
    moreover have "inj_on (cd_id \<circ> snd) (set (rd_columns r))" using assms(1) by (simp add: resource_ok_def)
    ultimately have "(k, c') = (canonical_name name, c)" using c i
      by (intro inj_onD [of "cd_id \<circ> snd" "set (rd_columns r)"]) auto
    then show ?thesis by simp
  qed
  ultimately have "find (\<lambda>d. cd_id d = cd_id c) (map snd (rd_columns r)) = Some c"
    by (intro find_unique) blast+
  then show ?thesis using resource_column_ok [OF assms] by (simp add: column_by_id_def)
qed

end
