(* ===== verification/Pol_Ir.thy ===== *)
theory Pol_Ir
  imports Pol_Catalog
begin

text \<open>
  The bound statements between the SQL front end, the policy compiler and the SQL emitter
  (\<^verbatim>\<open>src/crates/policysql-ir/src/lib.rs\<close>). The types that recur through \<open>BoundExpr\<close> are one mutual
  datatype with the fields of the source as selectors; the others are records.
\<close>

datatype column_usage =
    U_Projection | U_Filter | U_PolicyFilter | U_Join | U_Order | U_Group | U_Having | U_Aggregate
  | U_Window | U_Mutation | U_Write | U_Returning

record bound_column =
  bc_id :: column_id
  bc_type :: logical_type
  bc_usage :: column_usage

datatype scalar_function = Lower | Upper | JsonExtract

datatype sort_direction = Ascending | Descending

datatype join_kind = JoinInner | JoinLeft

datatype bound_expr =
    Column bound_column
  | ClientParameter string logical_type
  | ServerParameter string logical_type
  | Literal logical_value
  | Equal bound_expr bound_expr
  | NotEqual bound_expr bound_expr
  | Less bound_expr bound_expr
  | LessEqual bound_expr bound_expr
  | Greater bound_expr bound_expr
  | GreaterEqual bound_expr bound_expr
  | And bound_expr bound_expr
  | Or bound_expr bound_expr
  | Not bound_expr
  | IsNull bound_expr
  | In bound_expr "bound_expr list" bool
  | Like bound_expr bound_expr
  | Glob bound_expr bound_expr
  | Least bound_expr bound_expr
  | Concat bound_expr bound_expr
  | CastText bound_expr
  | Case "(bound_expr \<times> bound_expr) list" "bound_expr option" logical_type
  | ConditionalOutput bound_expr bound_expr
  | Exists bound_select
  | CountAll nat
  | ScalarFunction scalar_function "bound_expr list" logical_type
  | RowNumber nat "bound_column list" "bound_order list"
and bound_projection = BoundProjection (pj_expression: bound_expr) (pj_output_name: string)
and bound_order = BoundOrder (od_expression: bound_expr) (od_direction: sort_direction)
and bound_join = BoundJoin
  (jn_resource: nat) (jn_alias: "string option") (jn_kind: join_kind) (jn_on: bound_expr)
and bound_select = BoundSelect
  (bs_resource: nat)
  (bs_alias: "string option")
  (bs_joins: "bound_join list")
  (bs_projections: "bound_projection list")
  (bs_predicate: "bound_expr option")
  (bs_group_by: "bound_column list")
  (bs_having: "bound_expr option")
  (bs_order_by: "bound_order list")
  (bs_limit: "bound_expr option")
  (bs_offset: "bound_expr option")

record bound_assignment =
  ba_column :: bound_column
  ba_value :: bound_expr

record bound_insert =
  bi_resource :: nat
  bi_rows :: "bound_assignment list list"
  bi_returning :: "bound_projection list"

record bound_update =
  bu_resource :: nat
  bu_assignments :: "bound_assignment list"
  bu_predicate :: "bound_expr option"
  bu_returning :: "bound_projection list"

record bound_delete =
  bd_resource :: nat
  bd_predicate :: "bound_expr option"
  bd_returning :: "bound_projection list"

record bound_json_collection_select =
  bj_resource :: nat
  bj_alias :: "string option"
  bj_document :: bound_column
  bj_path :: bound_expr
  bj_recursive :: bool
  bj_output_name :: string
  bj_predicate :: "bound_expr option"

datatype bound_statement =
    Select bound_select
  | ConstantSelect "bound_projection list"
  | JsonCollectionSelect bound_json_collection_select
  | Insert bound_insert
  | Update bound_update
  | Delete bound_delete

record client_string_literal =
  csl_token :: string
  csl_value :: string

record string_literal_witnesses =
  slw_client :: "client_string_literal list"
  slw_policy :: "string set"

record protected_plan =
  pp_statement :: bound_statement
  pp_applied_policies :: "nat list"
  pp_server_values :: "(string \<times> logical_value) list"
  pp_policy_limit :: "nat option"
  pp_operation_check :: "bound_expr option"
  pp_expected_affected_rows :: "nat option"
  pp_expected_result_rows :: "nat option"
  pp_string_literals :: string_literal_witnesses

section \<open>Sizes\<close>

text \<open>The recursion through the fields of orders, projections, joins and optional expressions
  descends.\<close>

lemma list_member_smaller: "x \<in> set xs \<Longrightarrow> f x \<le> size_list f xs"
  by (erule size_list_estimation') simp

lemma order_expression_smaller [termination_simp]:
  "d \<in> set ds \<Longrightarrow> size (od_expression d) \<le> size_list size ds"
  using list_member_smaller [of d ds size] by (cases d) simp

lemma projection_expression_smaller [termination_simp]:
  "p \<in> set ps \<Longrightarrow> size (pj_expression p) \<le> size_list size ps"
  using list_member_smaller [of p ps size] by (cases p) simp

lemma join_on_smaller [termination_simp]:
  "j \<in> set js \<Longrightarrow> size (jn_on j) \<le> size_list size js"
  using list_member_smaller [of j js size] by (cases j) simp

lemma case_branch_smaller [termination_simp]:
  "b \<in> set bs \<Longrightarrow> size (fst b) \<le> size_list (size_prod size size) bs"
  "b \<in> set bs \<Longrightarrow> size (snd b) \<le> size_list (size_prod size size) bs"
  using list_member_smaller [of b bs "size_prod size size"] by (cases b; simp)+

end
