(* ===== verification/Pol_Bundle.thy ===== *)
theory Pol_Bundle
  imports Pol_Ir
begin

text \<open>
  Activation of a policy bundle (\<^verbatim>\<open>src/crates/policysql-policy/src/lib.rs\<close>, from the types of a bundle
  to \<open>bound_policy_column\<close>): the raw bundle as the YAML reader delivers it, the predicate language,
  and the checks that turn it into the policies of each resource and role.

  \<open>serde_yaml\<close> is outside the repository. \<open>from_yaml\<close> stands for its typed reader (\<open>from_str\<close> with
  the derives of the raw types: \<open>None\<close> for a text it rejects); \<open>yaml\<close> is its \<open>Value\<close>, where a number
  holds what \<open>as_i64\<close> and \<open>as_f64\<close> answer for it. A \<open>BTreeSet\<close> that is only asked for membership is
  a set.
\<close>

named_theorems activate_defs

section \<open>YAML values\<close>

datatype yaml =
    Y_Null
  | Y_Bool bool
  | Y_Number "int option" "f64 option"
  | Y_String string
  | Y_Sequence "yaml list"
  | Y_Mapping "(yaml \<times> yaml) list"
  | Y_Tagged string yaml

text \<open>The accessors look through tags.\<close>

fun untag :: "yaml \<Rightarrow> yaml" where
  "untag (Y_Tagged t v) = untag v"
| "untag v = v"

definition as_mapping :: "yaml \<Rightarrow> (yaml \<times> yaml) list option" where
  "as_mapping v = (case untag v of Y_Mapping m \<Rightarrow> Some m | _ \<Rightarrow> None)"

definition as_sequence :: "yaml \<Rightarrow> yaml list option" where
  "as_sequence v = (case untag v of Y_Sequence s \<Rightarrow> Some s | _ \<Rightarrow> None)"

definition as_str :: "yaml \<Rightarrow> string option" where
  "as_str v = (case untag v of Y_String s \<Rightarrow> Some s | _ \<Rightarrow> None)"

definition as_bool :: "yaml \<Rightarrow> bool option" where
  "as_bool v = (case untag v of Y_Bool b \<Rightarrow> Some b | _ \<Rightarrow> None)"

definition as_i64 :: "yaml \<Rightarrow> int option" where
  "as_i64 v = (case untag v of Y_Number i f \<Rightarrow> i | _ \<Rightarrow> None)"

definition as_f64 :: "yaml \<Rightarrow> f64 option" where
  "as_f64 v = (case untag v of Y_Number i f \<Rightarrow> f | _ \<Rightarrow> None)"

definition yaml_is_null :: "yaml \<Rightarrow> bool" where
  "yaml_is_null v = (untag v = Y_Null)"

lemma size_untag: "size (untag v) \<le> size v"
  by (induction v rule: untag.induct) auto

lemma as_sequence_smaller: "as_sequence v = Some s \<Longrightarrow> x \<in> set s \<Longrightarrow> size x < size v"
  using size_untag [of v] list_member_smaller [of x s size]
  by (auto simp: as_sequence_def split: yaml.splits)

lemma as_mapping_smaller: "as_mapping v = Some m \<Longrightarrow> (k, b) \<in> set m \<Longrightarrow> size b < size v"
  using size_untag [of v] list_member_smaller [of "(k, b)" m "size_prod size size"]
  by (auto simp: as_mapping_def split: yaml.splits)

section \<open>The raw bundle\<close>

record raw_returning =
  rr_columns :: "string list"

record raw_insert =
  ri_columns :: "string list"
  ri_presets :: "(string \<times> yaml) list"
  ri_check :: yaml
  ri_returning :: "raw_returning option"

record raw_update =
  ru_columns :: "string list"
  ru_presets :: "(string \<times> yaml) list"
  ru_filter :: yaml
  ru_check :: yaml
  ru_returning :: "raw_returning option"

record raw_delete =
  rdl_filter :: yaml
  rdl_returning :: "raw_returning option"

datatype raw_column = RC_Regular string | RC_Conditional string yaml yaml

record raw_select =
  rs_columns :: "raw_column list"
  rs_filter :: yaml
  rs_limit :: "nat option"
  rs_allow_aggregations :: bool
  rs_allow_windows :: bool

record raw_role =
  rl_select :: "raw_select option"
  rl_insert :: "raw_insert option"
  rl_update :: "raw_update option"
  rl_delete :: "raw_delete option"

record raw_resource =
  rre_roles :: "(string \<times> raw_role) list"

record raw_commit_hook =
  rch_timeout_ms :: nat

record raw_commit_check =
  rcc_triggered_by :: "string list"
  rcc_role :: "string option"
  rcc_hook :: raw_commit_hook

record raw_bundle =
  rb_version :: nat
  rb_resources :: "(string \<times> raw_resource) list"
  rb_commit_checks :: "(string \<times> raw_commit_check) list"

section \<open>Policies\<close>

datatype comparison_operator =
    CO_Equal | CO_NotEqual | CO_Less | CO_LessEqual | CO_Greater | CO_GreaterEqual | CO_Like

datatype policy_operand =
    PO_Session string
  | PO_Literal logical_value
  | PO_Column bound_column

datatype policy_predicate =
    PP_Comparison bound_column comparison_operator policy_operand
  | PP_In bound_column "logical_value list" bool
  | PP_IsNull bound_column bool
  | PP_And "policy_predicate list"
  | PP_Or "policy_predicate list"
  | PP_Not policy_predicate

record select_policy =
  sp_id :: nat
  sp_regular_columns :: "column_id set"
  sp_conditional_columns :: "(column_id \<times> policy_predicate) list"
  sp_filter :: policy_predicate
  sp_limit :: "nat option"
  sp_allow_aggregations :: bool
  sp_allow_windows :: bool

record insert_policy =
  ip_id :: nat
  ip_columns :: "column_id set"
  ip_presets :: "(column_id \<times> logical_type \<times> policy_operand) list"
  ip_check :: policy_predicate
  ip_returning :: "column_id set"

record update_policy =
  up_id :: nat
  up_columns :: "column_id set"
  up_presets :: "(column_id \<times> logical_type \<times> policy_operand) list"
  up_filter :: policy_predicate
  up_check :: policy_predicate
  up_returning :: "column_id set"

record delete_policy =
  dp_id :: nat
  dp_filter :: policy_predicate
  dp_returning :: "column_id set"

record activated_commit_check =
  ac_id :: string
  ac_triggered_by :: "nat set"
  ac_role :: "string option"
  ac_timeout_ms :: nat

type_synonym 'p policy_map = "(nat \<times> (string \<times> 'p) list) list"

record policy_bundle =
  pb_snapshot :: string
  pb_select :: "select_policy policy_map"
  pb_insert :: "insert_policy policy_map"
  pb_update :: "update_policy policy_map"
  pb_delete :: "delete_policy policy_map"
  pb_commit_checks :: "activated_commit_check list"
  pb_quoted_string_literals :: "string set"

datatype policy_error =
    InvalidBundle | InvalidRole | UnknownResource | UnknownColumn | UnknownOperator | InvalidPredicate
  | IncompatibleOperand | BytesPresetTooLarge | NullComparison | UnsupportedCapability
  | UnsupportedRedaction | DuplicateColumnPermission | PresetColumnOverlap | DuplicatePolicy
  | TooManyPolicies | MissingPolicy | ForbiddenColumn | ForbiddenColumnContext | MissingSessionValue
  | InvalidSessionKey | InvariantViolation string

type_synonym 'a pol = "policy_error + 'a"

definition MAX_COMMIT_CHECKS :: nat where "MAX_COMMIT_CHECKS = 4"
definition MAX_COMMIT_CHECK_TIMEOUT_MS :: nat where "MAX_COMMIT_CHECK_TIMEOUT_MS = 1500"

text \<open>\<open>result.map_err(|_| e)\<close>.\<close>

definition map_err :: "'e \<Rightarrow> 'f + 'a \<Rightarrow> 'e + 'a" where
  "map_err e r = (case r of Inl _ \<Rightarrow> Inl e | Inr v \<Rightarrow> Inr v)"

lemma map_err_Inr_iff [result_simps]: "map_err e r = Inr v \<longleftrightarrow> r = Inr v"
  by (cases r) (auto simp: map_err_def)

lemma map_err_Inl_iff: "map_err e r = Inl e' \<longleftrightarrow> (\<exists>f. r = Inl f) \<and> e' = e"
  by (cases r) (auto simp: map_err_def)

section \<open>Predicates\<close>

definition bound_policy_column :: "column_descriptor \<Rightarrow> column_usage \<Rightarrow> bound_column" where
  "bound_policy_column c usage = \<lparr>bc_id = cd_id c, bc_type = vd_logical_type (cd_value c), bc_usage = usage\<rparr>"

definition policy_column :: "resource_descriptor \<Rightarrow> string \<Rightarrow> column_usage \<Rightarrow> bound_column pol" where
  "policy_column r name usage =
     try_ok (ok_or UnknownColumn (resource_column r name)) (\<lambda>c. Inr (bound_policy_column c usage))"

definition literal_for_type :: "yaml \<Rightarrow> logical_type \<Rightarrow> logical_value pol" where
  "literal_for_type v expected =
     (if yaml_is_null v then Inl NullComparison
      else (case expected of
          LT_String \<Rightarrow> ok_or IncompatibleOperand (map_option LV_String (as_str v))
        | LT_Date \<Rightarrow> ok_or IncompatibleOperand (map_option LV_String (as_str v))
        | LT_DateTime \<Rightarrow> ok_or IncompatibleOperand (map_option LV_String (as_str v))
        | LT_Instant \<Rightarrow> ok_or IncompatibleOperand (map_option LV_String (as_str v))
        | LT_Boolean \<Rightarrow> ok_or IncompatibleOperand (map_option LV_Boolean (as_bool v))
        | LT_Integer \<Rightarrow> ok_or IncompatibleOperand (map_option LV_Int64 (as_i64 v))
        | LT_Int64 \<Rightarrow> ok_or IncompatibleOperand (map_option LV_Int64 (as_i64 v))
        | LT_Number \<Rightarrow> ok_or IncompatibleOperand (map_option LV_Number (as_f64 v))
        | LT_Bytes \<Rightarrow> Inl UnsupportedCapability
        | LT_Json \<Rightarrow> Inl UnsupportedCapability))"

definition mapping_value :: "(yaml \<times> yaml) list \<Rightarrow> string \<Rightarrow> yaml option" where
  "mapping_value m key = map_of m (Y_String key)"

definition parse_operand :: "yaml \<Rightarrow> resource_descriptor \<Rightarrow> logical_type \<Rightarrow> policy_operand pol" where
  "parse_operand v r expected =
     (case as_mapping v of
        Some mapping \<Rightarrow>
          if length mapping \<noteq> 1 then Inl InvalidPredicate
          else (case mapping_value mapping ''session'' of
              Some session \<Rightarrow>
                if expected \<noteq> LT_String then Inl IncompatibleOperand
                else try_ok (ok_or InvalidPredicate (as_str session)) (\<lambda>s.
                  try_ok (map_err InvalidPredicate (session_key_new s)) (\<lambda>key. Inr (PO_Session key)))
            | None \<Rightarrow> (case mapping_value mapping ''column'' of
                Some column_name \<Rightarrow>
                  try_ok (ok_or InvalidPredicate (as_str column_name)) (\<lambda>column_name.
                    try_ok (policy_column r column_name U_PolicyFilter) (\<lambda>column.
                      if bc_type column \<noteq> expected then Inl IncompatibleOperand else Inr (PO_Column column)))
              | None \<Rightarrow> (case mapping_value mapping ''literal'' of
                  Some literal \<Rightarrow> try_ok (literal_for_type literal expected) (\<lambda>l. Inr (PO_Literal l))
                | None \<Rightarrow> Inl InvalidPredicate)))
      | None \<Rightarrow> try_ok (literal_for_type v expected) (\<lambda>l. Inr (PO_Literal l)))"

definition parse_operator :: "string \<Rightarrow> comparison_operator pol" where
  "parse_operator s =
     (if s = ''eq'' then Inr CO_Equal
      else if s = ''neq'' then Inr CO_NotEqual
      else if s = ''lt'' then Inr CO_Less
      else if s = ''lte'' then Inr CO_LessEqual
      else if s = ''gt'' then Inr CO_Greater
      else if s = ''gte'' then Inr CO_GreaterEqual
      else if s = ''like'' then Inr CO_Like
      else Inl UnknownOperator)"

text \<open>The one entry of a mapping of length one.\<close>

definition single_entry :: "(yaml \<times> yaml) list \<Rightarrow> (yaml \<times> yaml) pol" where
  "single_entry m = (case m of [e] \<Rightarrow> Inr e | _ \<Rightarrow> Inl InvalidPredicate)"

lemma single_entry_Inr_iff [result_simps]: "single_entry m = Inr e \<longleftrightarrow> m = [e]"
  by (auto simp: single_entry_def split: list.splits)

definition parse_comparison :: "string \<Rightarrow> yaml \<Rightarrow> resource_descriptor \<Rightarrow> policy_predicate pol" where
  "parse_comparison column_name v r =
     try_ok (policy_column r column_name U_PolicyFilter) (\<lambda>column.
     try_ok (ok_or InvalidPredicate (as_mapping v)) (\<lambda>mapping.
     try_ok (single_entry mapping) (\<lambda>(operator, operand).
     try_ok (ok_or InvalidPredicate (as_str operator)) (\<lambda>operator.
       if operator = ''is_null'' then
         try_ok (ok_or InvalidPredicate (as_bool operand)) (\<lambda>wanted. Inr (PP_IsNull column wanted))
       else if operator = ''in'' \<or> operator = ''not_in'' then
         try_ok (ok_or InvalidPredicate (as_sequence operand)) (\<lambda>vs.
           if vs = [] then Inl InvalidPredicate
           else try_ok (traverse (\<lambda>v. literal_for_type v (bc_type column)) vs) (\<lambda>vs.
             Inr (PP_In column vs (operator = ''not_in''))))
       else
         try_ok (parse_operator operator) (\<lambda>operator.
           if operator = CO_Like \<and> bc_type column \<noteq> LT_String then Inl IncompatibleOperand
           else try_ok (parse_operand operand r (bc_type column)) (\<lambda>operand.
             Inr (PP_Comparison column operator operand)))))))"

function parse_predicate :: "resource_descriptor \<Rightarrow> yaml \<Rightarrow> policy_predicate pol" where
  "parse_predicate r v =
     (case as_mapping v of
        None \<Rightarrow> Inl InvalidPredicate
      | Some mapping \<Rightarrow> (case mapping of
          [(key, body)] \<Rightarrow> (case as_str key of
              None \<Rightarrow> Inl InvalidPredicate
            | Some key \<Rightarrow>
                if key = ''and'' \<or> key = ''or'' then
                  (case as_sequence body of
                     None \<Rightarrow> Inl InvalidPredicate
                   | Some vs \<Rightarrow>
                       if vs = [] then Inl InvalidPredicate
                       else try_ok (traverse (parse_predicate r) vs) (\<lambda>predicates.
                         Inr (if key = ''and'' then PP_And predicates else PP_Or predicates)))
                else if key = ''not'' then
                  try_ok (parse_predicate r body) (\<lambda>p. Inr (PP_Not p))
                else parse_comparison key body r)
        | _ \<Rightarrow> Inl InvalidPredicate))"
  by pat_completeness auto
termination
proof (relation "measure (\<lambda>(r, v). size v)", goal_cases)
  case (2 r v mapping e rest key body key' vs x)
  then have "size body < size v" "size x < size body"
    by (auto dest: as_mapping_smaller as_sequence_smaller)
  then show ?case by simp
next
  case (3 r v mapping e rest key body)
  then show ?case by (auto dest: as_mapping_smaller)
qed simp

declare parse_predicate.simps [simp del]

definition parse_preset :: "(string \<Rightarrow> string option) \<Rightarrow> yaml \<Rightarrow> resource_descriptor \<Rightarrow> logical_type \<Rightarrow> nat \<Rightarrow>
  policy_operand pol" where
  "parse_preset std_decode v r expected max_bytes_per_value =
     (if expected \<noteq> LT_Bytes then parse_operand v r expected
      else try_ok (ok_or IncompatibleOperand (opt_filter (\<lambda>m. length m = 1) (as_mapping v))) (\<lambda>mapping.
        try_ok (ok_or IncompatibleOperand (Option.bind (mapping_value mapping ''literal'') as_str)) (\<lambda>literal.
          (case bytes_decode std_decode literal max_bytes_per_value of
             Inr b \<Rightarrow> Inr (PO_Literal (LV_Bytes b))
           | Inl TooLarge \<Rightarrow> Inl BytesPresetTooLarge
           | Inl InvalidEncoding \<Rightarrow> Inl IncompatibleOperand))))"

section \<open>Activation of one operation\<close>

text \<open>\<open>for name in columns { \<dots> if !columns.insert(id) { return Err(DuplicateColumnPermission) } }\<close>\<close>

definition insert_column :: "resource_descriptor \<Rightarrow> string \<Rightarrow> column_id set \<Rightarrow> column_id set pol" where
  "insert_column r name columns =
     try_ok (ok_or UnknownColumn (resource_column r name)) (\<lambda>c.
       if cd_id c \<in> columns then Inl DuplicateColumnPermission else Inr (insert (cd_id c) columns))"

definition activate_columns :: "resource_descriptor \<Rightarrow> string list \<Rightarrow> column_id set pol" where
  "activate_columns r names = fold_st (insert_column r) names {}"

definition activate_returning :: "raw_returning option \<Rightarrow> resource_descriptor \<Rightarrow> column_id set pol" where
  "activate_returning raw r = (case raw of
       None \<Rightarrow> Inr {}
     | Some raw \<Rightarrow> if rr_columns raw = [] then Inl InvalidBundle else activate_columns r (rr_columns raw))"

text \<open>The state of the loop over the columns of a select policy: the names seen, the regular
  columns and the conditional ones.\<close>

type_synonym select_columns = "column_id set \<times> column_id set \<times> (column_id \<times> policy_predicate) list"

definition activate_select_column ::
  "resource_descriptor \<Rightarrow> raw_column \<Rightarrow> select_columns \<Rightarrow> select_columns pol" where
  "activate_select_column r raw_column = (\<lambda>(names, regular, conditional). (case raw_column of
       RC_Regular name \<Rightarrow>
         try_ok (policy_column r name U_Projection) (\<lambda>column.
           if bc_id column \<in> names then Inl DuplicateColumnPermission
           else Inr (insert (bc_id column) names, insert (bc_id column) regular, conditional))
     | RC_Conditional name visible_if on_deny \<Rightarrow>
         if on_deny \<noteq> Y_Null then Inl UnsupportedRedaction
         else try_ok (policy_column r name U_Projection) (\<lambda>column.
           if is_some_and (\<lambda>d. vd_nullable (cd_value d)) (resource_column r name) then Inl UnsupportedRedaction
           else if bc_id column \<in> names then Inl DuplicateColumnPermission
           else try_ok (parse_predicate r visible_if) (\<lambda>p.
             Inr (insert (bc_id column) names, regular, bt_insert (bc_id column) p conditional)))))"

definition policy_id_new :: "nat \<Rightarrow> nat pol" where
  "policy_id_new v = map_err TooManyPolicies (numeric_id_new v)"

definition activate_select :: "raw_select \<Rightarrow> resource_descriptor \<Rightarrow> nat \<Rightarrow> select_policy pol" where
  "activate_select raw r policy_id =
     (if rs_columns raw = [] then Inl InvalidBundle
      else try_ok (fold_st (activate_select_column r) (rs_columns raw) ({}, {}, [])) (\<lambda>(names, regular, conditional).
        try_ok (policy_id_new policy_id) (\<lambda>i.
        try_ok (parse_predicate r (rs_filter raw)) (\<lambda>row_filter.
          Inr \<lparr>sp_id = i, sp_regular_columns = regular, sp_conditional_columns = conditional,
               sp_filter = row_filter, sp_limit = rs_limit raw,
               sp_allow_aggregations = rs_allow_aggregations raw, sp_allow_windows = rs_allow_windows raw\<rparr>))))"

definition activate_preset :: "(string \<Rightarrow> string option) \<Rightarrow> resource_descriptor \<Rightarrow> nat \<Rightarrow> column_id set \<Rightarrow>
  string \<times> yaml \<Rightarrow> (column_id \<times> logical_type \<times> policy_operand) list \<Rightarrow>
  (column_id \<times> logical_type \<times> policy_operand) list pol" where
  "activate_preset std_decode r max_bytes_per_value columns = (\<lambda>(name, v) presets.
     try_ok (ok_or UnknownColumn (resource_column r name)) (\<lambda>c.
       if cd_id c \<in> columns then Inl PresetColumnOverlap
       else try_ok (parse_preset std_decode v r (vd_logical_type (cd_value c)) max_bytes_per_value) (\<lambda>operand.
         (case operand of
            PO_Column _ \<Rightarrow> Inl InvalidPredicate
          | _ \<Rightarrow> Inr (bt_insert (cd_id c) (vd_logical_type (cd_value c), operand) presets)))))"

definition activate_insert :: "(string \<Rightarrow> string option) \<Rightarrow> raw_insert \<Rightarrow> resource_descriptor \<Rightarrow> nat \<Rightarrow> nat \<Rightarrow>
  insert_policy pol" where
  "activate_insert std_decode raw r policy_id max_bytes_per_value =
     (if ri_columns raw = [] then Inl UnsupportedCapability
      else try_ok (activate_columns r (ri_columns raw)) (\<lambda>columns.
        try_ok (fold_st (activate_preset std_decode r max_bytes_per_value columns) (ri_presets raw) []) (\<lambda>presets.
        try_ok (policy_id_new policy_id) (\<lambda>i.
        try_ok (parse_predicate r (ri_check raw)) (\<lambda>check.
        try_ok (activate_returning (ri_returning raw) r) (\<lambda>returning.
          Inr \<lparr>ip_id = i, ip_columns = columns, ip_presets = presets, ip_check = check, ip_returning = returning\<rparr>))))))"

definition activate_update :: "(string \<Rightarrow> string option) \<Rightarrow> raw_update \<Rightarrow> resource_descriptor \<Rightarrow> nat \<Rightarrow> nat \<Rightarrow>
  update_policy pol" where
  "activate_update std_decode raw r policy_id max_bytes_per_value =
     (if ru_columns raw = [] then Inl UnsupportedCapability
      else try_ok (activate_columns r (ru_columns raw)) (\<lambda>columns.
        try_ok (fold_st (activate_preset std_decode r max_bytes_per_value columns) (ru_presets raw) []) (\<lambda>presets.
        try_ok (policy_id_new policy_id) (\<lambda>i.
        try_ok (parse_predicate r (ru_filter raw)) (\<lambda>row_filter.
        try_ok (parse_predicate r (ru_check raw)) (\<lambda>check.
        try_ok (activate_returning (ru_returning raw) r) (\<lambda>returning.
          Inr \<lparr>up_id = i, up_columns = columns, up_presets = presets, up_filter = row_filter, up_check = check,
               up_returning = returning\<rparr>)))))))"

definition activate_delete :: "raw_delete \<Rightarrow> resource_descriptor \<Rightarrow> nat \<Rightarrow> delete_policy pol" where
  "activate_delete raw r policy_id =
     try_ok (policy_id_new policy_id) (\<lambda>i.
     try_ok (parse_predicate r (rdl_filter raw)) (\<lambda>row_filter.
     try_ok (activate_returning (rdl_returning raw) r) (\<lambda>returning.
       Inr \<lparr>dp_id = i, dp_filter = row_filter, dp_returning = returning\<rparr>)))"

section \<open>Activation of a bundle\<close>

text \<open>One policy of a role: it takes the next identity, which is then advanced, and is entered
  under the role.\<close>

definition add_policy :: "(nat \<Rightarrow> 'p pol) \<Rightarrow> string \<Rightarrow> nat \<Rightarrow> (string \<times> 'p) list \<Rightarrow> (nat \<times> (string \<times> 'p) list) pol" where
  "add_policy activate role next_id roles =
     try_ok (activate next_id) (\<lambda>policy.
     try_ok (ok_or TooManyPolicies (checked_add u64_max next_id 1)) (\<lambda>next_id.
       if bt_has roles role then Inl DuplicatePolicy else Inr (next_id, bt_insert role policy roles)))"

definition add_policy_if :: "('r \<Rightarrow> nat \<Rightarrow> 'p pol) \<Rightarrow> 'r option \<Rightarrow> string \<Rightarrow> nat \<Rightarrow> (string \<times> 'p) list \<Rightarrow>
  (nat \<times> (string \<times> 'p) list) pol" where
  "add_policy_if activate raw role next_id roles =
     (case raw of None \<Rightarrow> Inr (next_id, roles) | Some raw \<Rightarrow> add_policy (activate raw) role next_id roles)"

text \<open>The state of the loop over the roles of a resource.\<close>

record role_maps =
  rm_next_id :: nat
  rm_select :: "(string \<times> select_policy) list"
  rm_insert :: "(string \<times> insert_policy) list"
  rm_update :: "(string \<times> update_policy) list"
  rm_delete :: "(string \<times> delete_policy) list"

definition activate_role :: "(string \<Rightarrow> string option) \<Rightarrow> nat \<Rightarrow> resource_descriptor \<Rightarrow> string \<times> raw_role \<Rightarrow>
  role_maps \<Rightarrow> role_maps pol" where
  "activate_role std_decode max_bytes_per_value r = (\<lambda>(role_name, raw) m.
     try_ok (map_err InvalidRole (role_name_new role_name)) (\<lambda>role.
     try_ok (add_policy_if (\<lambda>raw. activate_select raw r) (rl_select raw) role (rm_next_id m) (rm_select m)) (\<lambda>(n, sel).
     try_ok (add_policy_if (\<lambda>raw i. activate_insert std_decode raw r i max_bytes_per_value) (rl_insert raw) role n (rm_insert m)) (\<lambda>(n, ins).
     try_ok (add_policy_if (\<lambda>raw i. activate_update std_decode raw r i max_bytes_per_value) (rl_update raw) role n (rm_update m)) (\<lambda>(n, upd).
     try_ok (add_policy_if (\<lambda>raw. activate_delete raw r) (rl_delete raw) role n (rm_delete m)) (\<lambda>(n, del).
       Inr \<lparr>rm_next_id = n, rm_select = sel, rm_insert = ins, rm_update = upd, rm_delete = del\<rparr>))))))"

text \<open>The state of the loop over the resources.\<close>

record bundle_maps =
  bm_next_id :: nat
  bm_select :: "select_policy policy_map"
  bm_insert :: "insert_policy policy_map"
  bm_update :: "update_policy policy_map"
  bm_delete :: "delete_policy policy_map"

definition activate_resource :: "(string \<Rightarrow> string option) \<Rightarrow> nat \<Rightarrow> catalog \<Rightarrow> string \<times> raw_resource \<Rightarrow>
  bundle_maps \<Rightarrow> bundle_maps pol" where
  "activate_resource std_decode max_bytes_per_value c = (\<lambda>(resource_name, raw) m.
     try_ok (ok_or UnknownResource (catalog_resource c resource_name)) (\<lambda>r.
     try_ok (fold_st (activate_role std_decode max_bytes_per_value r) (rre_roles raw)
         \<lparr>rm_next_id = bm_next_id m, rm_select = [], rm_insert = [], rm_update = [], rm_delete = []\<rparr>) (\<lambda>roles.
       if bt_has (bm_select m) (rd_id r) \<or> bt_has (bm_insert m) (rd_id r) \<or> bt_has (bm_update m) (rd_id r)
          \<or> bt_has (bm_delete m) (rd_id r) then Inl DuplicatePolicy
       else Inr \<lparr>bm_next_id = rm_next_id roles,
         bm_select = bt_insert (rd_id r) (rm_select roles) (bm_select m),
         bm_insert = bt_insert (rd_id r) (rm_insert roles) (bm_insert m),
         bm_update = bt_insert (rd_id r) (rm_update roles) (bm_update m),
         bm_delete = bt_insert (rd_id r) (rm_delete roles) (bm_delete m)\<rparr>)))"

definition activate_commit_check :: "catalog \<Rightarrow> string \<times> raw_commit_check \<Rightarrow> activated_commit_check pol" where
  "activate_commit_check c = (\<lambda>(i, check).
     try_ok (map_err InvalidBundle (role_name_new i)) (\<lambda>_.
       if rcc_triggered_by check = [] \<or> rch_timeout_ms (rcc_hook check) = 0
          \<or> MAX_COMMIT_CHECK_TIMEOUT_MS < rch_timeout_ms (rcc_hook check) then Inl InvalidBundle
       else try_ok (traverse (\<lambda>name. ok_or UnknownResource (map_option rd_id (catalog_resource c name)))
           (rcc_triggered_by check)) (\<lambda>triggered_by.
         try_ok (case rcc_role check of None \<Rightarrow> Inr None
             | Some role \<Rightarrow> try_ok (map_err InvalidRole (role_name_new role)) (\<lambda>r. Inr (Some r))) (\<lambda>role.
           Inr \<lparr>ac_id = i, ac_triggered_by = set triggered_by, ac_role = role,
                ac_timeout_ms = rch_timeout_ms (rcc_hook check)\<rparr>))))"

definition activate_commit_checks ::
  "(string \<times> raw_commit_check) list \<Rightarrow> catalog \<Rightarrow> activated_commit_check list pol" where
  "activate_commit_checks raw c =
     (if MAX_COMMIT_CHECKS < length raw then Inl InvalidBundle else traverse (activate_commit_check c) raw)"

subsection \<open>Quoted literals\<close>

definition collect_quoted_value :: "logical_value \<Rightarrow> string set" where
  "collect_quoted_value v = (case v of
       LV_String s \<Rightarrow> if 2 \<le> length s \<and> hd s = CHR 0x27 \<and> last s = CHR 0x27 then {s} else {}
     | _ \<Rightarrow> {})"

definition collect_quoted_operand :: "policy_operand \<Rightarrow> string set" where
  "collect_quoted_operand p = (case p of PO_Literal v \<Rightarrow> collect_quoted_value v | _ \<Rightarrow> {})"

fun collect_quoted_predicate :: "policy_predicate \<Rightarrow> string set" where
  "collect_quoted_predicate (PP_Comparison _ _ operand) = collect_quoted_operand operand"
| "collect_quoted_predicate (PP_In _ vs _) = (\<Union>v \<in> set vs. collect_quoted_value v)"
| "collect_quoted_predicate (PP_IsNull _ _) = {}"
| "collect_quoted_predicate (PP_And ps) = (\<Union>p \<in> set ps. collect_quoted_predicate p)"
| "collect_quoted_predicate (PP_Or ps) = (\<Union>p \<in> set ps. collect_quoted_predicate p)"
| "collect_quoted_predicate (PP_Not p) = collect_quoted_predicate p"

definition policies_of :: "'p policy_map \<Rightarrow> 'p set" where
  "policies_of m = (\<Union>(r, roles) \<in> set m. snd ` set roles)"

definition quoted_policy_literals :: "select_policy policy_map \<Rightarrow> insert_policy policy_map \<Rightarrow>
  update_policy policy_map \<Rightarrow> delete_policy policy_map \<Rightarrow> string set" where
  "quoted_policy_literals sel ins upd del =
     (\<Union>p \<in> policies_of sel. collect_quoted_predicate (sp_filter p) \<union>
        (\<Union>(c, q) \<in> set (sp_conditional_columns p). collect_quoted_predicate q)) \<union>
     (\<Union>p \<in> policies_of ins. collect_quoted_predicate (ip_check p) \<union>
        (\<Union>(c, t, operand) \<in> set (ip_presets p). collect_quoted_operand operand)) \<union>
     (\<Union>p \<in> policies_of upd. collect_quoted_predicate (up_filter p) \<union> collect_quoted_predicate (up_check p) \<union>
        (\<Union>(c, t, operand) \<in> set (up_presets p). collect_quoted_operand operand)) \<union>
     (\<Union>p \<in> policies_of del. collect_quoted_predicate (dp_filter p))"

definition activate_with_value_limit :: "(string \<Rightarrow> string option) \<Rightarrow> (string \<Rightarrow> raw_bundle option) \<Rightarrow> string \<Rightarrow>
  catalog \<Rightarrow> string \<Rightarrow> nat \<Rightarrow> policy_bundle pol" where
  "activate_with_value_limit std_decode from_yaml text c snapshot max_bytes_per_value =
     try_ok (ok_or InvalidBundle (from_yaml text)) (\<lambda>raw.
       if rb_version raw \<noteq> 1 \<or> rb_resources raw = [] then Inl InvalidBundle
       else try_ok (activate_commit_checks (rb_commit_checks raw) c) (\<lambda>commit_checks.
         try_ok (fold_st (activate_resource std_decode max_bytes_per_value c) (rb_resources raw)
             \<lparr>bm_next_id = 1, bm_select = [], bm_insert = [], bm_update = [], bm_delete = []\<rparr>) (\<lambda>m.
           Inr \<lparr>pb_snapshot = snapshot, pb_select = bm_select m, pb_insert = bm_insert m,
                pb_update = bm_update m, pb_delete = bm_delete m, pb_commit_checks = commit_checks,
                pb_quoted_string_literals =
                  quoted_policy_literals (bm_select m) (bm_insert m) (bm_update m) (bm_delete m)\<rparr>)))"

definition activate :: "(string \<Rightarrow> string option) \<Rightarrow> (string \<Rightarrow> raw_bundle option) \<Rightarrow> string \<Rightarrow> catalog \<Rightarrow> string \<Rightarrow>
  policy_bundle pol" where
  "activate std_decode from_yaml text c snapshot =
     activate_with_value_limit std_decode from_yaml text c snapshot DEFAULT_MAX_BYTES_PER_VALUE"

section \<open>Access\<close>

definition policy_for :: "'p policy_map \<Rightarrow> nat \<Rightarrow> string \<Rightarrow> 'p option" where
  "policy_for m r role = Option.bind (bt_get m r) (\<lambda>roles. bt_get roles role)"

record select_access =
  sa_regular_columns :: "column_id set"
  sa_conditional_columns :: "column_id set"
  sa_max_rows :: "nat option"
  sa_allow_aggregations :: bool
  sa_allow_windows :: bool

record mutation_access =
  ma_columns :: "column_id set"
  ma_returning :: "column_id set"

definition select_access_of :: "policy_bundle \<Rightarrow> nat \<Rightarrow> string \<Rightarrow> select_access option" where
  "select_access_of b r role = map_option (\<lambda>p.
     \<lparr>sa_regular_columns = sp_regular_columns p, sa_conditional_columns = fst ` set (sp_conditional_columns p),
      sa_max_rows = sp_limit p, sa_allow_aggregations = sp_allow_aggregations p,
      sa_allow_windows = sp_allow_windows p\<rparr>) (policy_for (pb_select b) r role)"

definition insert_access_of :: "policy_bundle \<Rightarrow> nat \<Rightarrow> string \<Rightarrow> mutation_access option" where
  "insert_access_of b r role = map_option (\<lambda>p.
     \<lparr>ma_columns = ip_columns p, ma_returning = ip_returning p\<rparr>) (policy_for (pb_insert b) r role)"

definition update_access_of :: "policy_bundle \<Rightarrow> nat \<Rightarrow> string \<Rightarrow> mutation_access option" where
  "update_access_of b r role = map_option (\<lambda>p.
     \<lparr>ma_columns = up_columns p, ma_returning = up_returning p\<rparr>) (policy_for (pb_update b) r role)"

definition delete_access_of :: "policy_bundle \<Rightarrow> nat \<Rightarrow> string \<Rightarrow> mutation_access option" where
  "delete_access_of b r role = map_option (\<lambda>p.
     \<lparr>ma_columns = {}, ma_returning = dp_returning p\<rparr>) (policy_for (pb_delete b) r role)"

end
