(* ===== verification/Pol_Compile.thy ===== *)
theory Pol_Compile
  imports Pol_Bundle
begin

text \<open>
  The policy compiler (\<^verbatim>\<open>src/crates/policysql-policy/src/lib.rs\<close>, \<open>compile_select\<close>, \<open>compile_insert\<close>,
  \<open>compile_update\<close>, \<open>compile_delete\<close> and what they call): the policies of every resource a statement
  reads, the permission of every column it names, the row filters with the session's values as
  server parameters, presets, checks and limits.

  \<open>server_values\<close>, which the code passes as \<open>&mut\<close>, is threaded through. The first error ends a
  compilation, so what was written before it is not observed.
\<close>

named_theorems compile_defs

type_synonym server_values = "(string \<times> logical_value) list"
type_synonym select_policies = "(nat \<times> select_policy) list"

section \<open>Instantiation of predicates\<close>

definition instantiate_operand ::
  "trusted_session \<Rightarrow> policy_operand \<Rightarrow> logical_type \<Rightarrow> server_values \<Rightarrow> (bound_expr \<times> server_values) pol" where
  "instantiate_operand session operand expected sv = (case operand of
       PO_Session key \<Rightarrow>
         if expected \<noteq> LT_String then Inl IncompatibleOperand
         else try_ok (ok_or MissingSessionValue (session_get session key)) (\<lambda>v.
           try_ok (map_err InvalidSessionKey (from_trusted_suffix (''session_'' @ key))) (\<lambda>name.
             Inr (ServerParameter name LT_String, bt_insert name (LV_String v) sv)))
     | PO_Literal v \<Rightarrow> Inr (Literal v, sv)
     | PO_Column column \<Rightarrow> Inr (Column column, sv))"

fun comparison :: "comparison_operator \<Rightarrow> bound_expr \<Rightarrow> bound_expr \<Rightarrow> bound_expr" where
  "comparison CO_Equal l r = Equal l r"
| "comparison CO_NotEqual l r = NotEqual l r"
| "comparison CO_Less l r = Less l r"
| "comparison CO_LessEqual l r = LessEqual l r"
| "comparison CO_Greater l r = Greater l r"
| "comparison CO_GreaterEqual l r = GreaterEqual l r"
| "comparison CO_Like l r = Like l r"

fun instantiate_predicate ::
    "trusted_session \<Rightarrow> policy_predicate \<Rightarrow> server_values \<Rightarrow> (bound_expr \<times> server_values) pol"
  and fold_logical ::
    "trusted_session \<Rightarrow> policy_predicate list \<Rightarrow> server_values \<Rightarrow> bool \<Rightarrow> (bound_expr \<times> server_values) pol"
  and fold_logical_rest ::
    "trusted_session \<Rightarrow> policy_predicate list \<Rightarrow> server_values \<Rightarrow> bool \<Rightarrow> bound_expr \<Rightarrow> (bound_expr \<times> server_values) pol"
where
  "instantiate_predicate session (PP_Comparison column operator operand) sv =
     try_ok (instantiate_operand session operand (bc_type column) sv) (\<lambda>(right, sv).
       Inr (comparison operator (Column column) right, sv))"
| "instantiate_predicate session (PP_In column vs negated) sv =
     Inr (In (Column column) (map Literal vs) negated, sv)"
| "instantiate_predicate session (PP_IsNull column wanted) sv =
     Inr (if wanted then IsNull (Column column) else Not (IsNull (Column column)), sv)"
| "instantiate_predicate session (PP_And ps) sv = fold_logical session ps sv True"
| "instantiate_predicate session (PP_Or ps) sv = fold_logical session ps sv False"
| "instantiate_predicate session (PP_Not p) sv =
     try_ok (instantiate_predicate session p sv) (\<lambda>(e, sv). Inr (Not e, sv))"
| "fold_logical session [] sv is_and = Inl InvalidPredicate"
| "fold_logical session (p # ps) sv is_and =
     try_ok (instantiate_predicate session p sv) (\<lambda>(out, sv). fold_logical_rest session ps sv is_and out)"
| "fold_logical_rest session [] sv is_and out = Inr (out, sv)"
| "fold_logical_rest session (p # ps) sv is_and out =
     try_ok (instantiate_predicate session p sv) (\<lambda>(e, sv).
       fold_logical_rest session ps sv is_and (if is_and then And out e else Or out e))"

definition and_optional :: "bound_expr option \<Rightarrow> bound_expr \<Rightarrow> bound_expr" where
  "and_optional current required = (case current of Some c \<Rightarrow> And c required | None \<Rightarrow> required)"

section \<open>Limits\<close>

text \<open>Assignments to the fields of a \<open>BoundSelect\<close> and of a \<open>BoundJoin\<close>.\<close>

fun set_predicate :: "bound_expr option \<Rightarrow> bound_select \<Rightarrow> bound_select" where
  "set_predicate p (BoundSelect r al js ps _ gb hv ob li off) = BoundSelect r al js ps p gb hv ob li off"

fun set_limit :: "bound_expr option \<Rightarrow> bound_select \<Rightarrow> bound_select" where
  "set_limit l (BoundSelect r al js ps pr gb hv ob _ off) = BoundSelect r al js ps pr gb hv ob l off"

fun set_projections :: "bound_projection list \<Rightarrow> bound_select \<Rightarrow> bound_select" where
  "set_projections ps (BoundSelect r al js _ pr gb hv ob li off) = BoundSelect r al js ps pr gb hv ob li off"

fun set_joins :: "bound_join list \<Rightarrow> bound_select \<Rightarrow> bound_select" where
  "set_joins js (BoundSelect r al _ ps pr gb hv ob li off) = BoundSelect r al js ps pr gb hv ob li off"

fun set_on :: "bound_expr \<Rightarrow> bound_join \<Rightarrow> bound_join" where
  "set_on e (BoundJoin r al k _) = BoundJoin r al k e"

definition apply_policy_limit :: "bound_select \<Rightarrow> nat option \<Rightarrow> bound_select" where
  "apply_policy_limit select policy_limit = (case policy_limit of
       None \<Rightarrow> select
     | Some policy_limit \<Rightarrow>
         let policy_value = (if int policy_limit \<le> i64_max then int policy_limit else i64_max);
             policy = Literal (LV_Int64 policy_value)
         in set_limit (Some (case bs_limit select of
                Some (Literal (LV_Int64 client)) \<Rightarrow> Literal (LV_Int64 (min client policy_value))
              | Some client \<Rightarrow> Least client policy
              | None \<Rightarrow> policy)) select)"

section \<open>Client expressions\<close>

fun validate_client_expression :: "column_id set \<Rightarrow> bound_expr \<Rightarrow> unit pol" where
  "validate_client_expression allowed (Column column) = require (bc_id column \<in> allowed) ForbiddenColumn"
| "validate_client_expression allowed (ClientParameter _ _) = Inr ()"
| "validate_client_expression allowed (ServerParameter _ _) = Inr ()"
| "validate_client_expression allowed (Literal _) = Inr ()"
| "validate_client_expression allowed (CountAll _) = Inr ()"
| "validate_client_expression allowed (RowNumber _ partition_by order_by) =
     try_ok (for_each (\<lambda>column. require (bc_id column \<in> allowed) ForbiddenColumn) partition_by) (\<lambda>_.
       for_each (\<lambda>d. validate_client_expression allowed (od_expression d)) order_by)"
| "validate_client_expression allowed (ScalarFunction _ arguments _) =
     for_each (validate_client_expression allowed) arguments"
| "validate_client_expression allowed (Equal l r) =
     try_ok (validate_client_expression allowed l) (\<lambda>_. validate_client_expression allowed r)"
| "validate_client_expression allowed (NotEqual l r) =
     try_ok (validate_client_expression allowed l) (\<lambda>_. validate_client_expression allowed r)"
| "validate_client_expression allowed (Less l r) =
     try_ok (validate_client_expression allowed l) (\<lambda>_. validate_client_expression allowed r)"
| "validate_client_expression allowed (LessEqual l r) =
     try_ok (validate_client_expression allowed l) (\<lambda>_. validate_client_expression allowed r)"
| "validate_client_expression allowed (Greater l r) =
     try_ok (validate_client_expression allowed l) (\<lambda>_. validate_client_expression allowed r)"
| "validate_client_expression allowed (GreaterEqual l r) =
     try_ok (validate_client_expression allowed l) (\<lambda>_. validate_client_expression allowed r)"
| "validate_client_expression allowed (And l r) =
     try_ok (validate_client_expression allowed l) (\<lambda>_. validate_client_expression allowed r)"
| "validate_client_expression allowed (Or l r) =
     try_ok (validate_client_expression allowed l) (\<lambda>_. validate_client_expression allowed r)"
| "validate_client_expression allowed (Like l r) =
     try_ok (validate_client_expression allowed l) (\<lambda>_. validate_client_expression allowed r)"
| "validate_client_expression allowed (Glob l r) =
     try_ok (validate_client_expression allowed l) (\<lambda>_. validate_client_expression allowed r)"
| "validate_client_expression allowed (Least l r) =
     try_ok (validate_client_expression allowed l) (\<lambda>_. validate_client_expression allowed r)"
| "validate_client_expression allowed (Concat l r) =
     try_ok (validate_client_expression allowed l) (\<lambda>_. validate_client_expression allowed r)"
| "validate_client_expression allowed (Not e) = validate_client_expression allowed e"
| "validate_client_expression allowed (IsNull e) = validate_client_expression allowed e"
| "validate_client_expression allowed (CastText e) = validate_client_expression allowed e"
| "validate_client_expression allowed (In e vs _) =
     try_ok (validate_client_expression allowed e) (\<lambda>_. for_each (validate_client_expression allowed) vs)"
| "validate_client_expression allowed (ConditionalOutput _ _) = Inl ForbiddenColumnContext"
| "validate_client_expression allowed (Case branches else_expression _) =
     try_ok (for_each (\<lambda>b. try_ok (validate_client_expression allowed (fst b)) (\<lambda>_.
         validate_client_expression allowed (snd b))) branches) (\<lambda>_.
       case else_expression of None \<Rightarrow> Inr () | Some e \<Rightarrow> validate_client_expression allowed e)"
| "validate_client_expression allowed (Exists (BoundSelect r al js ps pr gb hv ob li off)) =
     try_ok (for_each (\<lambda>p. validate_client_expression allowed (pj_expression p)) ps) (\<lambda>_.
       case pr of None \<Rightarrow> Inr () | Some e \<Rightarrow> validate_client_expression allowed e)"

fun collect_expression_resources :: "bound_expr \<Rightarrow> nat list" where
  "collect_expression_resources (Exists (BoundSelect r al js ps pr gb hv ob li off)) =
     r # concat (map (\<lambda>p. collect_expression_resources (pj_expression p)) ps) @
     (case pr of None \<Rightarrow> [] | Some e \<Rightarrow> collect_expression_resources e)"
| "collect_expression_resources (Equal l r) = collect_expression_resources l @ collect_expression_resources r"
| "collect_expression_resources (NotEqual l r) = collect_expression_resources l @ collect_expression_resources r"
| "collect_expression_resources (Less l r) = collect_expression_resources l @ collect_expression_resources r"
| "collect_expression_resources (LessEqual l r) = collect_expression_resources l @ collect_expression_resources r"
| "collect_expression_resources (Greater l r) = collect_expression_resources l @ collect_expression_resources r"
| "collect_expression_resources (GreaterEqual l r) = collect_expression_resources l @ collect_expression_resources r"
| "collect_expression_resources (And l r) = collect_expression_resources l @ collect_expression_resources r"
| "collect_expression_resources (Or l r) = collect_expression_resources l @ collect_expression_resources r"
| "collect_expression_resources (Like l r) = collect_expression_resources l @ collect_expression_resources r"
| "collect_expression_resources (Glob l r) = collect_expression_resources l @ collect_expression_resources r"
| "collect_expression_resources (Least l r) = collect_expression_resources l @ collect_expression_resources r"
| "collect_expression_resources (Concat l r) = collect_expression_resources l @ collect_expression_resources r"
| "collect_expression_resources (ConditionalOutput l r) = collect_expression_resources l @ collect_expression_resources r"
| "collect_expression_resources (Not e) = collect_expression_resources e"
| "collect_expression_resources (IsNull e) = collect_expression_resources e"
| "collect_expression_resources (CastText e) = collect_expression_resources e"
| "collect_expression_resources (ScalarFunction _ arguments _) = concat (map collect_expression_resources arguments)"
| "collect_expression_resources (In e vs _) =
     collect_expression_resources e @ concat (map collect_expression_resources vs)"
| "collect_expression_resources (Case branches else_expression _) =
     concat (map (\<lambda>b. collect_expression_resources (fst b) @ collect_expression_resources (snd b)) branches) @
     (case else_expression of None \<Rightarrow> [] | Some e \<Rightarrow> collect_expression_resources e)"
| "collect_expression_resources (Column _) = []"
| "collect_expression_resources (ClientParameter _ _) = []"
| "collect_expression_resources (ServerParameter _ _) = []"
| "collect_expression_resources (Literal _) = []"
| "collect_expression_resources (CountAll _) = []"
| "collect_expression_resources (RowNumber r _ _) = [r]"

text \<open>An optional part, with the threaded value.\<close>

fun option_st :: "('a \<Rightarrow> 's \<Rightarrow> 'e + 'b \<times> 's) \<Rightarrow> 'a option \<Rightarrow> 's \<Rightarrow> 'e + 'b option \<times> 's" where
  "option_st f None s = Inr (None, s)"
| "option_st f (Some x) s = try_ok (f x s) (\<lambda>(y, s). Inr (Some y, s))"

lemma option_st_cong [fundef_cong]:
  "x = y \<Longrightarrow> s = t \<Longrightarrow> (\<And>z u. y = Some z \<Longrightarrow> f z u = g z u) \<Longrightarrow> option_st f x s = option_st g y t"
  by (cases y) auto

text \<open>Both operands of a binary operator.\<close>

definition both_st :: "('a \<Rightarrow> 's \<Rightarrow> 'e + 'b \<times> 's) \<Rightarrow> ('b \<Rightarrow> 'b \<Rightarrow> 'c) \<Rightarrow> 'a \<Rightarrow> 'a \<Rightarrow> 's \<Rightarrow> 'e + 'c \<times> 's" where
  "both_st f c l r s = try_ok (f l s) (\<lambda>(l, s). try_ok (f r s) (\<lambda>(r, s). Inr (c l r, s)))"

lemma both_st_cong [fundef_cong]:
  assumes "l = l'" "r = r'" "s = t" "c = d" "\<And>u. f l' u = g l' u" "\<And>u. f r' u = g r' u"
  shows "both_st f c l r s = both_st g d l' r' t"
  using assms by (auto simp: both_st_def intro!: try_ok_cong)

fun protect_nested_selects :: "select_policies \<Rightarrow> trusted_session \<Rightarrow> bound_expr \<Rightarrow> server_values \<Rightarrow>
  (bound_expr \<times> server_values) pol" where
  "protect_nested_selects policies session (Exists (BoundSelect r al js ps pr gb hv ob li off)) sv =
     try_ok (option_st (protect_nested_selects policies session) pr sv) (\<lambda>(pr, sv).
     try_ok (ok_or MissingPolicy (bt_get policies r)) (\<lambda>policy.
     try_ok (instantiate_predicate session (sp_filter policy) sv) (\<lambda>(row_filter, sv).
       Inr (Exists (apply_policy_limit
              (BoundSelect r al js ps (Some (and_optional pr row_filter)) gb hv ob li off) (sp_limit policy)), sv))))"
| "protect_nested_selects policies session (Equal l r) sv = both_st (protect_nested_selects policies session) Equal l r sv"
| "protect_nested_selects policies session (NotEqual l r) sv = both_st (protect_nested_selects policies session) NotEqual l r sv"
| "protect_nested_selects policies session (Less l r) sv = both_st (protect_nested_selects policies session) Less l r sv"
| "protect_nested_selects policies session (LessEqual l r) sv = both_st (protect_nested_selects policies session) LessEqual l r sv"
| "protect_nested_selects policies session (Greater l r) sv = both_st (protect_nested_selects policies session) Greater l r sv"
| "protect_nested_selects policies session (GreaterEqual l r) sv = both_st (protect_nested_selects policies session) GreaterEqual l r sv"
| "protect_nested_selects policies session (And l r) sv = both_st (protect_nested_selects policies session) And l r sv"
| "protect_nested_selects policies session (Or l r) sv = both_st (protect_nested_selects policies session) Or l r sv"
| "protect_nested_selects policies session (Like l r) sv = both_st (protect_nested_selects policies session) Like l r sv"
| "protect_nested_selects policies session (Glob l r) sv = both_st (protect_nested_selects policies session) Glob l r sv"
| "protect_nested_selects policies session (Least l r) sv = both_st (protect_nested_selects policies session) Least l r sv"
| "protect_nested_selects policies session (Concat l r) sv = both_st (protect_nested_selects policies session) Concat l r sv"
| "protect_nested_selects policies session (ConditionalOutput l r) sv = both_st (protect_nested_selects policies session) ConditionalOutput l r sv"
| "protect_nested_selects policies session (Not e) sv =
     try_ok (protect_nested_selects policies session e sv) (\<lambda>(e, sv). Inr (Not e, sv))"
| "protect_nested_selects policies session (IsNull e) sv =
     try_ok (protect_nested_selects policies session e sv) (\<lambda>(e, sv). Inr (IsNull e, sv))"
| "protect_nested_selects policies session (CastText e) sv =
     try_ok (protect_nested_selects policies session e sv) (\<lambda>(e, sv). Inr (CastText e, sv))"
| "protect_nested_selects policies session (ScalarFunction f arguments t) sv =
     try_ok (traverse_st (protect_nested_selects policies session) arguments sv) (\<lambda>(arguments, sv).
       Inr (ScalarFunction f arguments t, sv))"
| "protect_nested_selects policies session (In e vs negated) sv =
     try_ok (protect_nested_selects policies session e sv) (\<lambda>(e, sv).
     try_ok (traverse_st (protect_nested_selects policies session) vs sv) (\<lambda>(vs, sv).
       Inr (In e vs negated, sv)))"
| "protect_nested_selects policies session (Case branches else_expression t) sv =
     try_ok (traverse_st (\<lambda>b sv.
         try_ok (protect_nested_selects policies session (fst b) sv) (\<lambda>(condition, sv).
         try_ok (protect_nested_selects policies session (snd b) sv) (\<lambda>(v, sv).
           Inr ((condition, v), sv)))) branches sv) (\<lambda>(branches, sv).
     try_ok (option_st (protect_nested_selects policies session) else_expression sv) (\<lambda>(else_expression, sv).
       Inr (Case branches else_expression t, sv)))"
| "protect_nested_selects policies session (Column c) sv = Inr (Column c, sv)"
| "protect_nested_selects policies session (ClientParameter n t) sv = Inr (ClientParameter n t, sv)"
| "protect_nested_selects policies session (ServerParameter n t) sv = Inr (ServerParameter n t, sv)"
| "protect_nested_selects policies session (Literal v) sv = Inr (Literal v, sv)"
| "protect_nested_selects policies session (CountAll r) sv = Inr (CountAll r, sv)"
| "protect_nested_selects policies session (RowNumber r pb ob) sv = Inr (RowNumber r pb ob, sv)"

section \<open>Projections\<close>

definition apply_projection_permission :: "select_policies \<Rightarrow> trusted_session \<Rightarrow> bound_projection \<Rightarrow> server_values \<Rightarrow>
  (bound_projection \<times> server_values) pol" where
  "apply_projection_permission policies session p sv = (case pj_expression p of
       Column column \<Rightarrow>
         try_ok (ok_or MissingPolicy (bt_get policies (cid_resource (bc_id column)))) (\<lambda>policy.
           if bc_id column \<in> sp_regular_columns policy then Inr (p, sv)
           else try_ok (ok_or ForbiddenColumn (bt_get (sp_conditional_columns policy) (bc_id column))) (\<lambda>visible_if.
             try_ok (instantiate_predicate session visible_if sv) (\<lambda>(visible_if, sv).
               Inr (BoundProjection (ConditionalOutput (pj_expression p) visible_if) (pj_output_name p), sv))))
     | CountAll _ \<Rightarrow> Inr (p, sv)
     | RowNumber _ _ _ \<Rightarrow> Inr (p, sv)
     | ScalarFunction _ _ _ \<Rightarrow> Inr (p, sv)
     | Concat _ _ \<Rightarrow> Inr (p, sv)
     | CastText _ \<Rightarrow> Inr (p, sv)
     | Case _ _ _ \<Rightarrow> Inr (p, sv)
     | _ \<Rightarrow> Inl ForbiddenColumnContext)"

definition apply_projection_permissions :: "select_policies \<Rightarrow> trusted_session \<Rightarrow> bound_projection list \<Rightarrow> server_values \<Rightarrow>
  (bound_projection list \<times> server_values) pol" where
  "apply_projection_permissions policies session = traverse_st (apply_projection_permission policies session)"

text \<open>A conditional output must be a column of a resource that is not left-joined.\<close>

definition check_conditional_output :: "nat set \<Rightarrow> bound_projection \<Rightarrow> unit pol" where
  "check_conditional_output left_resources p = (case pj_expression p of
       ConditionalOutput v _ \<Rightarrow> (case v of
           Column column \<Rightarrow> require (cid_resource (bc_id column) \<notin> left_resources) ForbiddenColumnContext
         | _ \<Rightarrow> Inl ForbiddenColumnContext)
     | _ \<Rightarrow> Inr ())"

definition validate_projection :: "select_policies \<Rightarrow> column_id set \<Rightarrow> bound_projection \<Rightarrow> unit pol" where
  "validate_projection selected regular p = (case pj_expression p of
       CountAll r \<Rightarrow>
         try_ok (ok_or MissingPolicy (bt_get selected r)) (\<lambda>policy.
           require (sp_allow_aggregations policy) UnsupportedCapability)
     | RowNumber r partition_by order_by \<Rightarrow>
         try_ok (ok_or MissingPolicy (bt_get selected r)) (\<lambda>policy.
           require (sp_allow_windows policy
             \<and> (\<forall>column \<in> set partition_by. bc_id column \<in> regular)
             \<and> (\<forall>d \<in> set order_by. validate_client_expression regular (od_expression d) = Inr ())) UnsupportedCapability)
     | ScalarFunction _ _ _ \<Rightarrow> validate_client_expression regular (pj_expression p)
     | Concat _ _ \<Rightarrow> validate_client_expression regular (pj_expression p)
     | CastText _ \<Rightarrow> validate_client_expression regular (pj_expression p)
     | Case _ _ _ \<Rightarrow> validate_client_expression regular (pj_expression p)
     | _ \<Rightarrow> Inr ())"

section \<open>Referenced columns\<close>

definition add_column :: "column_id \<Rightarrow> (nat \<times> column_id set) list \<Rightarrow> (nat \<times> column_id set) list" where
  "add_column c columns =
     bt_insert (cid_resource c) (insert c (unwrap_or {} (bt_get columns (cid_resource c)))) columns"

text \<open>The columns in the order they are added.\<close>

fun collect_expression_columns :: "bound_expr \<Rightarrow> column_id list" where
  "collect_expression_columns (Column column) = [bc_id column]"
| "collect_expression_columns (Equal l r) = collect_expression_columns l @ collect_expression_columns r"
| "collect_expression_columns (NotEqual l r) = collect_expression_columns l @ collect_expression_columns r"
| "collect_expression_columns (Less l r) = collect_expression_columns l @ collect_expression_columns r"
| "collect_expression_columns (LessEqual l r) = collect_expression_columns l @ collect_expression_columns r"
| "collect_expression_columns (Greater l r) = collect_expression_columns l @ collect_expression_columns r"
| "collect_expression_columns (GreaterEqual l r) = collect_expression_columns l @ collect_expression_columns r"
| "collect_expression_columns (And l r) = collect_expression_columns l @ collect_expression_columns r"
| "collect_expression_columns (Or l r) = collect_expression_columns l @ collect_expression_columns r"
| "collect_expression_columns (Like l r) = collect_expression_columns l @ collect_expression_columns r"
| "collect_expression_columns (Glob l r) = collect_expression_columns l @ collect_expression_columns r"
| "collect_expression_columns (Least l r) = collect_expression_columns l @ collect_expression_columns r"
| "collect_expression_columns (Concat l r) = collect_expression_columns l @ collect_expression_columns r"
| "collect_expression_columns (ConditionalOutput l r) = collect_expression_columns l @ collect_expression_columns r"
| "collect_expression_columns (Not e) = collect_expression_columns e"
| "collect_expression_columns (IsNull e) = collect_expression_columns e"
| "collect_expression_columns (CastText e) = collect_expression_columns e"
| "collect_expression_columns (In e vs _) =
     collect_expression_columns e @ concat (map collect_expression_columns vs)"
| "collect_expression_columns (ScalarFunction _ arguments _) = concat (map collect_expression_columns arguments)"
| "collect_expression_columns (Case branches else_expression _) =
     concat (map (\<lambda>b. collect_expression_columns (fst b) @ collect_expression_columns (snd b)) branches) @
     (case else_expression of None \<Rightarrow> [] | Some e \<Rightarrow> collect_expression_columns e)"
| "collect_expression_columns (Exists (BoundSelect r al js ps pr gb hv ob li off)) =
     concat (map (\<lambda>p. collect_expression_columns (pj_expression p)) ps) @
     concat (map (\<lambda>j. collect_expression_columns (jn_on j)) js) @
     (case pr of None \<Rightarrow> [] | Some e \<Rightarrow> collect_expression_columns e) @
     (case hv of None \<Rightarrow> [] | Some e \<Rightarrow> collect_expression_columns e) @
     (case li of None \<Rightarrow> [] | Some e \<Rightarrow> collect_expression_columns e) @
     (case off of None \<Rightarrow> [] | Some e \<Rightarrow> collect_expression_columns e) @
     map bc_id gb @
     concat (map (\<lambda>d. collect_expression_columns (od_expression d)) ob)"
| "collect_expression_columns (RowNumber _ partition_by order_by) =
     map bc_id partition_by @ concat (map (\<lambda>d. collect_expression_columns (od_expression d)) order_by)"
| "collect_expression_columns (ClientParameter _ _) = []"
| "collect_expression_columns (ServerParameter _ _) = []"
| "collect_expression_columns (Literal _) = []"
| "collect_expression_columns (CountAll _) = []"

definition collect_select_columns :: "bound_select \<Rightarrow> column_id list" where
  "collect_select_columns select = collect_expression_columns (Exists select)"

definition collect_projection_columns :: "bound_projection list \<Rightarrow> column_id list" where
  "collect_projection_columns ps = concat (map (\<lambda>p. collect_expression_columns (pj_expression p)) ps)"

definition collect_optional_columns :: "bound_expr option \<Rightarrow> column_id list" where
  "collect_optional_columns e = (case e of None \<Rightarrow> [] | Some e \<Rightarrow> collect_expression_columns e)"

definition collect_assignment_columns :: "bound_assignment list \<Rightarrow> column_id list" where
  "collect_assignment_columns as =
     concat (map (\<lambda>a. bc_id (ba_column a) # collect_expression_columns (ba_value a)) as)"

definition statement_columns :: "bound_statement \<Rightarrow> column_id list" where
  "statement_columns statement = (case statement of
       Select select \<Rightarrow> collect_select_columns select
     | ConstantSelect _ \<Rightarrow> []
     | JsonCollectionSelect j \<Rightarrow>
         bc_id (bj_document j) # collect_expression_columns (bj_path j) @ collect_optional_columns (bj_predicate j)
     | Insert i \<Rightarrow> collect_assignment_columns (concat (bi_rows i)) @ collect_projection_columns (bi_returning i)
     | Update u \<Rightarrow> collect_assignment_columns (bu_assignments u) @ collect_optional_columns (bu_predicate u) @
         collect_projection_columns (bu_returning u)
     | Delete d \<Rightarrow> collect_optional_columns (bd_predicate d) @ collect_projection_columns (bd_returning d))"

definition referenced_columns :: "bound_statement \<Rightarrow> (nat \<times> column_id set) list" where
  "referenced_columns statement = fold add_column (statement_columns statement) []"

section \<open>Select\<close>

record explain =
  ex_operation :: operation_kind
  ex_resource :: "nat option"
  ex_resources :: "nat list"
  ex_referenced_columns :: "(nat \<times> column_id set) list"
  ex_applied_policies :: "nat list"
  ex_policy_limit :: "nat option"

record compile_output =
  co_plan :: protected_plan
  co_explain :: explain

definition string_literal_witnesses_of :: "policy_bundle \<Rightarrow> string_literal_witnesses" where
  "string_literal_witnesses_of b = \<lparr>slw_client = [], slw_policy = pb_quoted_string_literals b\<rparr>"

definition select_policies_for :: "policy_bundle \<Rightarrow> bound_select \<Rightarrow> string \<Rightarrow> (nat list \<times> select_policies) pol" where
  "select_policies_for b select role =
     (let resources = dedup (sort (bs_resource select # map jn_resource (bs_joins select) @
            (case bs_predicate select of None \<Rightarrow> [] | Some p \<Rightarrow> collect_expression_resources p)))
      in try_ok (traverse (\<lambda>r. ok_or MissingPolicy (map_option (\<lambda>p. (r, p)) (policy_for (pb_select b) r role))) resources)
           (\<lambda>selected. Inr (resources, selected)))"

definition left_resources_of :: "bound_select \<Rightarrow> nat set" where
  "left_resources_of select = jn_resource ` {j \<in> set (bs_joins select). jn_kind j = JoinLeft}"

definition regular_columns_of :: "select_policies \<Rightarrow> column_id set" where
  "regular_columns_of selected = (\<Union>(r, p) \<in> set selected. sp_regular_columns p)"

definition validate_optional :: "column_id set \<Rightarrow> bound_expr option \<Rightarrow> unit pol" where
  "validate_optional allowed e = (case e of None \<Rightarrow> Inr () | Some e \<Rightarrow> validate_client_expression allowed e)"

text \<open>The checks of \<open>compile_select\<close> on the client's clauses, after the projections have been
  replaced.\<close>

definition validate_select :: "select_policies \<Rightarrow> bound_select \<Rightarrow> unit pol" where
  "validate_select selected select =
     (let regular = regular_columns_of selected in
      try_ok (for_each (check_conditional_output (left_resources_of select)) (bs_projections select)) (\<lambda>_.
      try_ok (validate_optional regular (bs_predicate select)) (\<lambda>_.
      try_ok (for_each (\<lambda>d. validate_client_expression regular (od_expression d)) (bs_order_by select)) (\<lambda>_.
      try_ok (for_each (\<lambda>column. require (bc_id column \<in> regular) ForbiddenColumn) (bs_group_by select)) (\<lambda>_.
      try_ok (validate_optional regular (bs_having select)) (\<lambda>_.
      try_ok (for_each (validate_projection selected regular) (bs_projections select)) (\<lambda>_.
        for_each (\<lambda>j. validate_client_expression regular (jn_on j)) (bs_joins select))))))))"

text \<open>One join: the row filter goes to the statement's predicate for an inner join, and to the
  join's condition for a left join.\<close>

definition protect_join :: "select_policies \<Rightarrow> trusted_session \<Rightarrow> bound_join \<Rightarrow> bound_expr \<times> server_values \<Rightarrow>
  (bound_join \<times> bound_expr \<times> server_values) pol" where
  "protect_join selected session j = (\<lambda>(predicate, sv).
     try_ok (ok_or MissingPolicy (bt_get selected (jn_resource j))) (\<lambda>policy.
     try_ok (instantiate_predicate session (sp_filter policy) sv) (\<lambda>(row_filter, sv).
       case jn_kind j of
         JoinInner \<Rightarrow> Inr (j, And predicate row_filter, sv)
       | JoinLeft \<Rightarrow> Inr (set_on (And (jn_on j) row_filter) j, predicate, sv))))"

definition protect_rows :: "select_policies \<Rightarrow> trusted_session \<Rightarrow> bound_select \<Rightarrow> server_values \<Rightarrow>
  (bound_select \<times> server_values) pol" where
  "protect_rows selected session select sv =
     try_ok (option_st (protect_nested_selects selected session) (bs_predicate select) sv) (\<lambda>(predicate, sv).
     try_ok (ok_or MissingPolicy (bt_get selected (bs_resource select))) (\<lambda>root.
     try_ok (instantiate_predicate session (sp_filter root) sv) (\<lambda>(root_filter, sv).
     try_ok (traverse_st (protect_join selected session) (bs_joins select) (and_optional predicate root_filter, sv))
       (\<lambda>(joins, predicate, sv). Inr (set_joins joins (set_predicate (Some predicate) select), sv)))))"

definition min_option :: "nat list \<Rightarrow> nat option" where
  "min_option xs = (if xs = [] then None else Some (foldr min xs (hd xs)))"

definition policy_limit_of :: "select_policies \<Rightarrow> nat option" where
  "policy_limit_of selected = min_option (List.map_filter (\<lambda>(r, p). sp_limit p) selected)"

definition compile_constant_select :: "policy_bundle \<Rightarrow> bound_projection list \<Rightarrow> compile_output" where
  "compile_constant_select b ps =
     \<lparr>co_plan = \<lparr>pp_statement = ConstantSelect ps, pp_applied_policies = [], pp_server_values = [],
        pp_policy_limit = None, pp_operation_check = None, pp_expected_affected_rows = None,
        pp_expected_result_rows = None, pp_string_literals = string_literal_witnesses_of b\<rparr>,
      co_explain = \<lparr>ex_operation = OpSelect, ex_resource = None, ex_resources = [], ex_referenced_columns = [],
        ex_applied_policies = [], ex_policy_limit = None\<rparr>\<rparr>"

definition compile_bound_select :: "policy_bundle \<Rightarrow> bound_select \<Rightarrow> trusted_session \<Rightarrow> compile_output pol" where
  "compile_bound_select b select session =
     try_ok (select_policies_for b select (ts_role session)) (\<lambda>(resource_ids, selected).
     try_ok (apply_projection_permissions selected session (bs_projections select) []) (\<lambda>(projections, sv).
     let protected = set_projections projections select in
     try_ok (validate_select selected protected) (\<lambda>_.
     try_ok (protect_rows selected session protected sv) (\<lambda>(protected, sv).
     let policy_limit = policy_limit_of selected;
         protected = apply_policy_limit protected policy_limit;
         applied = List.map_filter (\<lambda>r. map_option sp_id (bt_get selected r)) resource_ids
     in Inr
       \<lparr>co_plan = \<lparr>pp_statement = Select protected, pp_applied_policies = applied, pp_server_values = sv,
          pp_policy_limit = policy_limit, pp_operation_check = None, pp_expected_affected_rows = None,
          pp_expected_result_rows = None, pp_string_literals = string_literal_witnesses_of b\<rparr>,
        co_explain = \<lparr>ex_operation = OpSelect, ex_resource = Some (bs_resource select), ex_resources = resource_ids,
          ex_referenced_columns = referenced_columns (Select select), ex_applied_policies = applied,
          ex_policy_limit = policy_limit\<rparr>\<rparr>))))"

definition compile_json_collection_select ::
  "policy_bundle \<Rightarrow> bound_json_collection_select \<Rightarrow> trusted_session \<Rightarrow> compile_output pol" where
  "compile_json_collection_select b select session =
     try_ok (ok_or MissingPolicy (policy_for (pb_select b) (bj_resource select) (ts_role session))) (\<lambda>policy.
       if \<not> sp_allow_aggregations policy \<or> bc_id (bj_document select) \<notin> sp_regular_columns policy
       then Inl UnsupportedCapability
       else try_ok (validate_optional (sp_regular_columns policy) (bj_predicate select)) (\<lambda>_.
         try_ok (instantiate_predicate session (sp_filter policy) []) (\<lambda>(row_filter, sv).
           Inr
             \<lparr>co_plan = \<lparr>pp_statement = JsonCollectionSelect
                  (select\<lparr>bj_predicate := Some (and_optional (bj_predicate select) row_filter)\<rparr>),
                pp_applied_policies = [sp_id policy], pp_server_values = sv,
                pp_policy_limit = None, pp_operation_check = None, pp_expected_affected_rows = None,
                pp_expected_result_rows = Some 1, pp_string_literals = string_literal_witnesses_of b\<rparr>,
              co_explain = \<lparr>ex_operation = OpSelect, ex_resource = Some (bj_resource select),
                ex_resources = [bj_resource select],
                ex_referenced_columns = referenced_columns (JsonCollectionSelect select),
                ex_applied_policies = [sp_id policy], ex_policy_limit = None\<rparr>\<rparr>)))"

definition compile_select :: "policy_bundle \<Rightarrow> bound_statement \<Rightarrow> trusted_session \<Rightarrow> compile_output pol" where
  "compile_select b statement session = (case statement of
       ConstantSelect ps \<Rightarrow> Inr (compile_constant_select b ps)
     | JsonCollectionSelect select \<Rightarrow> compile_json_collection_select b select session
     | Select select \<Rightarrow> compile_bound_select b select session
     | _ \<Rightarrow> Inl UnsupportedCapability)"

section \<open>Mutations\<close>

definition validate_returning :: "column_id set \<Rightarrow> bound_projection list \<Rightarrow> unit pol" where
  "validate_returning allowed returning = for_each (\<lambda>p. case pj_expression p of
       Column column \<Rightarrow> require (bc_id column \<in> allowed) ForbiddenColumn
     | _ \<Rightarrow> Inl ForbiddenColumnContext) returning"

definition check_assignments :: "column_id set \<Rightarrow> (column_id \<times> logical_type \<times> policy_operand) list \<Rightarrow>
  bound_assignment list \<Rightarrow> unit pol" where
  "check_assignments columns presets as = for_each (\<lambda>a.
     require (bc_id (ba_column a) \<in> columns \<and> \<not> bt_has presets (bc_id (ba_column a))) ForbiddenColumn) as"

definition preset_assignment :: "trusted_session \<Rightarrow> column_id \<times> logical_type \<times> policy_operand \<Rightarrow> server_values \<Rightarrow>
  (bound_assignment \<times> server_values) pol" where
  "preset_assignment session = (\<lambda>(c, t, operand) sv.
     try_ok (instantiate_operand session operand t sv) (\<lambda>(v, sv).
       Inr (\<lparr>ba_column = \<lparr>bc_id = c, bc_type = t, bc_usage = U_Write\<rparr>, ba_value = v\<rparr>, sv)))"

definition insert_row :: "insert_policy \<Rightarrow> trusted_session \<Rightarrow> bound_assignment list \<Rightarrow> server_values \<Rightarrow>
  (bound_assignment list \<times> server_values) pol" where
  "insert_row policy session row sv =
     try_ok (check_assignments (ip_columns policy) (ip_presets policy) row) (\<lambda>_.
     try_ok (traverse_st (preset_assignment session) (ip_presets policy) sv) (\<lambda>(presets, sv).
       Inr (row @ presets, sv)))"

definition mutation_output :: "policy_bundle \<Rightarrow> operation_kind \<Rightarrow> nat \<Rightarrow> bound_statement \<Rightarrow> bound_statement \<Rightarrow> nat \<Rightarrow>
  server_values \<Rightarrow> bound_expr option \<Rightarrow> nat option \<Rightarrow> compile_output" where
  "mutation_output b kind r original protected policy_id sv check expected =
     \<lparr>co_plan = \<lparr>pp_statement = protected, pp_applied_policies = [policy_id], pp_server_values = sv,
        pp_policy_limit = None, pp_operation_check = check, pp_expected_affected_rows = expected,
        pp_expected_result_rows = None, pp_string_literals = string_literal_witnesses_of b\<rparr>,
      co_explain = \<lparr>ex_operation = kind, ex_resource = Some r, ex_resources = [r],
        ex_referenced_columns = referenced_columns original, ex_applied_policies = [policy_id],
        ex_policy_limit = None\<rparr>\<rparr>"

definition compile_insert :: "policy_bundle \<Rightarrow> bound_statement \<Rightarrow> trusted_session \<Rightarrow> compile_output pol" where
  "compile_insert b statement session = (case statement of
       Insert i \<Rightarrow>
         try_ok (ok_or MissingPolicy (policy_for (pb_insert b) (bi_resource i) (ts_role session))) (\<lambda>policy.
         try_ok (validate_returning (ip_returning policy) (bi_returning i)) (\<lambda>_.
         try_ok (traverse_st (insert_row policy session) (bi_rows i) []) (\<lambda>(rows, sv).
         try_ok (instantiate_predicate session (ip_check policy) sv) (\<lambda>(check, sv).
           if u64_max < length rows then Inl (InvariantViolation ''too many INSERT rows'')
           else Inr (mutation_output b OpInsert (bi_resource i) statement (Insert (i\<lparr>bi_rows := rows\<rparr>))
             (ip_id policy) sv (Some check) (Some (length rows)))))))
     | _ \<Rightarrow> Inl UnsupportedCapability)"

definition compile_update :: "policy_bundle \<Rightarrow> bound_statement \<Rightarrow> trusted_session \<Rightarrow> compile_output pol" where
  "compile_update b statement session = (case statement of
       Update u \<Rightarrow>
         try_ok (ok_or MissingPolicy (policy_for (pb_update b) (bu_resource u) (ts_role session))) (\<lambda>policy.
         try_ok (validate_returning (up_returning policy) (bu_returning u)) (\<lambda>_.
         try_ok (check_assignments (up_columns policy) (up_presets policy) (bu_assignments u)) (\<lambda>_.
         try_ok (traverse_st (preset_assignment session) (up_presets policy) []) (\<lambda>(presets, sv).
         try_ok (instantiate_predicate session (up_filter policy) sv) (\<lambda>(row_filter, sv).
         try_ok (instantiate_predicate session (up_check policy) sv) (\<lambda>(check, sv).
           Inr (mutation_output b OpUpdate (bu_resource u) statement
             (Update (u\<lparr>bu_assignments := bu_assignments u @ presets,
                        bu_predicate := Some (and_optional (bu_predicate u) row_filter)\<rparr>))
             (up_id policy) sv (Some check) None)))))))
     | _ \<Rightarrow> Inl UnsupportedCapability)"

definition compile_delete :: "policy_bundle \<Rightarrow> bound_statement \<Rightarrow> trusted_session \<Rightarrow> compile_output pol" where
  "compile_delete b statement session = (case statement of
       Delete d \<Rightarrow>
         try_ok (ok_or MissingPolicy (policy_for (pb_delete b) (bd_resource d) (ts_role session))) (\<lambda>policy.
         try_ok (validate_returning (dp_returning policy) (bd_returning d)) (\<lambda>_.
         try_ok (instantiate_predicate session (dp_filter policy) []) (\<lambda>(row_filter, sv).
           Inr (mutation_output b OpDelete (bd_resource d) statement
             (Delete (d\<lparr>bd_predicate := Some (and_optional (bd_predicate d) row_filter)\<rparr>))
             (dp_id policy) sv None None))))
     | _ \<Rightarrow> Inl UnsupportedCapability)"

end
