(* ===== verification/Pol_Semantics.thy ===== *)
theory Pol_Semantics
  imports Pol_Compile
begin

text \<open>
  What a bound statement means on a database, the reference the policy compiler is proved against.
  SQL's three-valued logic, the nested loops of a join and \<open>EXISTS\<close> are written out; the primitive
  operations of the database (comparison, \<open>LIKE\<close>, scalar functions and so on), the client's
  parameter values, and what an aggregate or a window makes of its keys are the record \<open>sql\<close>.

  A row maps ordinals to values, an environment maps each resource in scope to its current row.
\<close>

named_theorems sem_defs

section \<open>Values and rows\<close>

type_synonym row = "nat \<Rightarrow> logical_value"
type_synonym env = "nat \<Rightarrow> row option"
type_synonym database = "nat \<Rightarrow> row list"

record sql =
  sq_compare :: "comparison_operator \<Rightarrow> logical_value \<Rightarrow> logical_value \<Rightarrow> logical_value"
  sq_in :: "logical_value \<Rightarrow> logical_value list \<Rightarrow> bool \<Rightarrow> logical_value"
  sq_glob :: "logical_value \<Rightarrow> logical_value \<Rightarrow> logical_value"
  sq_least :: "logical_value \<Rightarrow> logical_value \<Rightarrow> logical_value"
  sq_concat :: "logical_value \<Rightarrow> logical_value \<Rightarrow> logical_value"
  sq_cast_text :: "logical_value \<Rightarrow> logical_value"
  sq_function :: "scalar_function \<Rightarrow> logical_value list \<Rightarrow> logical_value"
  sq_truth_other :: "logical_value \<Rightarrow> bool option"
  sq_client :: "string \<Rightarrow> logical_value"
  sq_count :: "nat \<Rightarrow> logical_value"
  sq_row_number :: "nat \<Rightarrow> logical_value list \<Rightarrow> logical_value list \<Rightarrow> logical_value"

definition null_row :: row where "null_row = (\<lambda>_. LV_Null)"

definition env_get :: "env \<Rightarrow> column_id \<Rightarrow> logical_value" where
  "env_get env c = (case env (cid_resource c) of None \<Rightarrow> LV_Null | Some row \<Rightarrow> row (cid_ordinal c))"

fun truth :: "sql \<Rightarrow> logical_value \<Rightarrow> bool option" where
  "truth sq LV_Null = None"
| "truth sq (LV_Boolean b) = Some b"
| "truth sq (LV_Int64 i) = Some (i \<noteq> 0)"
| "truth sq v = sq_truth_other sq v"

definition of_truth :: "bool option \<Rightarrow> logical_value" where
  "of_truth t = (case t of None \<Rightarrow> LV_Null | Some b \<Rightarrow> LV_Boolean b)"

lemma truth_of_truth [simp]: "truth sq (of_truth t) = t"
  by (cases t) (auto simp: of_truth_def)

definition and3 :: "bool option \<Rightarrow> bool option \<Rightarrow> bool option" where
  "and3 a b = (if a = Some False \<or> b = Some False then Some False
     else if a = None \<or> b = None then None else Some True)"

definition or3 :: "bool option \<Rightarrow> bool option \<Rightarrow> bool option" where
  "or3 a b = (if a = Some True \<or> b = Some True then Some True
     else if a = None \<or> b = None then None else Some False)"

lemma and3_true [simp]: "and3 a b = Some True \<longleftrightarrow> a = Some True \<and> b = Some True"
  by (cases a; cases b) (auto simp: and3_def)

section \<open>Expressions\<close>

text \<open>\<open>CASE\<close>: the first branch whose condition is true.\<close>

fun first_true :: "sql \<Rightarrow> (logical_value \<times> logical_value) list \<Rightarrow> logical_value \<Rightarrow> logical_value" where
  "first_true sq [] d = d"
| "first_true sq ((c, v) # bs) d = (if truth sq c = Some True then v else first_true sq bs d)"

text \<open>\<open>sv\<close> are the values of the server parameters and \<open>db\<close> the rows that nested selects read. An
  \<open>EXISTS\<close> has the form the front end gives it: one resource, a predicate, and a limit that
  matters only when it is zero. \<open>COUNT\<close> and \<open>ROW_NUMBER\<close> are what the database makes of the row's keys.\<close>

fun eval :: "sql \<Rightarrow> server_values \<Rightarrow> database \<Rightarrow> env \<Rightarrow> bound_expr \<Rightarrow> logical_value" where
  "eval sq sv db env (Column c) = env_get env (bc_id c)"
| "eval sq sv db env (ClientParameter n t) = sq_client sq n"
| "eval sq sv db env (ServerParameter n t) = unwrap_or LV_Null (bt_get sv n)"
| "eval sq sv db env (Literal v) = v"
| "eval sq sv db env (Equal l r) = sq_compare sq CO_Equal (eval sq sv db env l) (eval sq sv db env r)"
| "eval sq sv db env (NotEqual l r) = sq_compare sq CO_NotEqual (eval sq sv db env l) (eval sq sv db env r)"
| "eval sq sv db env (Less l r) = sq_compare sq CO_Less (eval sq sv db env l) (eval sq sv db env r)"
| "eval sq sv db env (LessEqual l r) = sq_compare sq CO_LessEqual (eval sq sv db env l) (eval sq sv db env r)"
| "eval sq sv db env (Greater l r) = sq_compare sq CO_Greater (eval sq sv db env l) (eval sq sv db env r)"
| "eval sq sv db env (GreaterEqual l r) = sq_compare sq CO_GreaterEqual (eval sq sv db env l) (eval sq sv db env r)"
| "eval sq sv db env (Like l r) = sq_compare sq CO_Like (eval sq sv db env l) (eval sq sv db env r)"
| "eval sq sv db env (And l r) = of_truth (and3 (truth sq (eval sq sv db env l)) (truth sq (eval sq sv db env r)))"
| "eval sq sv db env (Or l r) = of_truth (or3 (truth sq (eval sq sv db env l)) (truth sq (eval sq sv db env r)))"
| "eval sq sv db env (Not e) = of_truth (map_option HOL.Not (truth sq (eval sq sv db env e)))"
| "eval sq sv db env (IsNull e) = LV_Boolean (eval sq sv db env e = LV_Null)"
| "eval sq sv db env (In e vs negated) = sq_in sq (eval sq sv db env e) (map (eval sq sv db env) vs) negated"
| "eval sq sv db env (Glob l r) = sq_glob sq (eval sq sv db env l) (eval sq sv db env r)"
| "eval sq sv db env (Least l r) = sq_least sq (eval sq sv db env l) (eval sq sv db env r)"
| "eval sq sv db env (Concat l r) = sq_concat sq (eval sq sv db env l) (eval sq sv db env r)"
| "eval sq sv db env (CastText e) = sq_cast_text sq (eval sq sv db env e)"
| "eval sq sv db env (Case branches else_expression t) =
     first_true sq (map (\<lambda>b. (eval sq sv db env (fst b), eval sq sv db env (snd b))) branches)
       (case else_expression of None \<Rightarrow> LV_Null | Some e \<Rightarrow> eval sq sv db env e)"
| "eval sq sv db env (ConditionalOutput v visible_if) =
     (if truth sq (eval sq sv db env visible_if) = Some True then eval sq sv db env v else LV_Null)"
| "eval sq sv db env (Exists (BoundSelect r al js ps pr gb hv ob li off)) =
     LV_Boolean ((\<exists>row \<in> set (db r). case pr of
         None \<Rightarrow> True
       | Some p \<Rightarrow> truth sq (eval sq sv db (env(r \<mapsto> row)) p) = Some True)
     \<and> li \<noteq> Some (Literal (LV_Int64 0)))"
| "eval sq sv db env (CountAll r) = sq_count sq r"
| "eval sq sv db env (ScalarFunction f arguments t) = sq_function sq f (map (eval sq sv db env) arguments)"
| "eval sq sv db env (RowNumber r partition_by order_by) =
     sq_row_number sq r (map (\<lambda>c. env_get env (bc_id c)) partition_by)
       (map (\<lambda>d. eval sq sv db env (od_expression d)) order_by)"

definition holds :: "sql \<Rightarrow> server_values \<Rightarrow> database \<Rightarrow> env \<Rightarrow> bound_expr \<Rightarrow> bool" where
  "holds sq sv db env e = (truth sq (eval sq sv db env e) = Some True)"

definition holds_opt :: "sql \<Rightarrow> server_values \<Rightarrow> database \<Rightarrow> env \<Rightarrow> bound_expr option \<Rightarrow> bool" where
  "holds_opt sq sv db env e = is_none_or (holds sq sv db env) e"

section \<open>Statements\<close>

text \<open>The rows of a select that reach its grouping, order and limit: \<open>FROM\<close> as nested loops over
  \<open>db\<close>, \<open>WHERE\<close> with its nested selects over \<open>ndb\<close>.\<close>

definition join_rows :: "sql \<Rightarrow> server_values \<Rightarrow> database \<Rightarrow> database \<Rightarrow> env \<Rightarrow> bound_join \<Rightarrow> env list" where
  "join_rows sq sv db ndb env j =
     (let matches = filter (\<lambda>row. holds sq sv ndb (env(jn_resource j \<mapsto> row)) (jn_on j)) (db (jn_resource j)) in
      if jn_kind j = JoinLeft \<and> matches = [] then [env(jn_resource j \<mapsto> null_row)]
      else map (\<lambda>row. env(jn_resource j \<mapsto> row)) matches)"

fun joined_rows :: "sql \<Rightarrow> server_values \<Rightarrow> database \<Rightarrow> database \<Rightarrow> env \<Rightarrow> bound_join list \<Rightarrow> env list" where
  "joined_rows sq sv db ndb env [] = [env]"
| "joined_rows sq sv db ndb env (j # js) =
     concat (map (\<lambda>env. joined_rows sq sv db ndb env js) (join_rows sq sv db ndb env j))"

definition where_rows :: "sql \<Rightarrow> server_values \<Rightarrow> database \<Rightarrow> database \<Rightarrow> bound_select \<Rightarrow> env list" where
  "where_rows sq sv db ndb s =
     filter (\<lambda>env. holds_opt sq sv ndb env (bs_predicate s))
       (concat (map (\<lambda>row. joined_rows sq sv db ndb [bs_resource s \<mapsto> row] (bs_joins s)) (db (bs_resource s))))"

text \<open>What is read of such a row by the clauses that follow: the projections, the grouping
  columns, \<open>HAVING\<close> and the sort keys.\<close>

definition row_output :: "sql \<Rightarrow> server_values \<Rightarrow> database \<Rightarrow> bound_select \<Rightarrow> env \<Rightarrow>
  logical_value list \<times> logical_value list \<times> logical_value option \<times> logical_value list" where
  "row_output sq sv ndb s env =
     (map (\<lambda>p. eval sq sv ndb env (pj_expression p)) (bs_projections s),
      map (\<lambda>c. env_get env (bc_id c)) (bs_group_by s),
      map_option (eval sq sv ndb env) (bs_having s),
      map (\<lambda>d. eval sq sv ndb env (od_expression d)) (bs_order_by s))"

definition select_output :: "sql \<Rightarrow> server_values \<Rightarrow> database \<Rightarrow> database \<Rightarrow> bound_select \<Rightarrow>
  (logical_value list \<times> logical_value list \<times> logical_value option \<times> logical_value list) list" where
  "select_output sq sv db ndb s = map (row_output sq sv ndb s) (where_rows sq sv db ndb s)"

section \<open>Policies\<close>

text \<open>The meaning of a policy predicate on a row of its resource, with the session's values: the
  reference for \<open>instantiate_predicate\<close>.\<close>

definition operand_value :: "trusted_session \<Rightarrow> row \<Rightarrow> policy_operand \<Rightarrow> logical_value" where
  "operand_value session row operand = (case operand of
       PO_Session key \<Rightarrow> (case session_get session key of None \<Rightarrow> LV_Null | Some v \<Rightarrow> LV_String v)
     | PO_Literal v \<Rightarrow> v
     | PO_Column c \<Rightarrow> row (cid_ordinal (bc_id c)))"

fun permits :: "sql \<Rightarrow> trusted_session \<Rightarrow> row \<Rightarrow> policy_predicate \<Rightarrow> bool option" where
  "permits sq session row (PP_Comparison c operator operand) =
     truth sq (sq_compare sq operator (row (cid_ordinal (bc_id c))) (operand_value session row operand))"
| "permits sq session row (PP_In c vs negated) = truth sq (sq_in sq (row (cid_ordinal (bc_id c))) vs negated)"
| "permits sq session row (PP_IsNull c wanted) = Some ((row (cid_ordinal (bc_id c)) = LV_Null) = wanted)"
| "permits sq session row (PP_And ps) =
     (if \<exists>p \<in> set ps. permits sq session row p = Some False then Some False
      else if \<exists>p \<in> set ps. permits sq session row p = None then None else Some True)"
| "permits sq session row (PP_Or ps) =
     (if \<exists>p \<in> set ps. permits sq session row p = Some True then Some True
      else if \<exists>p \<in> set ps. permits sq session row p = None then None else Some False)"
| "permits sq session row (PP_Not p) = map_option HOL.Not (permits sq session row p)"

text \<open>The view a role has of a resource: the rows its filter permits, and of each the regular
  columns and the conditional columns whose condition permits; everything else reads as null.\<close>

definition visible :: "sql \<Rightarrow> trusted_session \<Rightarrow> select_policy \<Rightarrow> row \<Rightarrow> bool" where
  "visible sq session policy row = (permits sq session row (sp_filter policy) = Some True)"

definition redact :: "sql \<Rightarrow> trusted_session \<Rightarrow> nat \<Rightarrow> select_policy \<Rightarrow> row \<Rightarrow> row" where
  "redact sq session r policy row = (\<lambda>i.
     if ColumnId r i \<in> sp_regular_columns policy then row i
     else (case bt_get (sp_conditional_columns policy) (ColumnId r i) of
         None \<Rightarrow> LV_Null
       | Some p \<Rightarrow> if permits sq session row p = Some True then row i else LV_Null))"

definition view :: "sql \<Rightarrow> trusted_session \<Rightarrow> (nat \<Rightarrow> select_policy option) \<Rightarrow> database \<Rightarrow> database" where
  "view sq session pol db = (\<lambda>r. case pol r of
       None \<Rightarrow> []
     | Some policy \<Rightarrow> map (redact sq session r policy) (filter (visible sq session policy) (db r)))"

text \<open>A nested select of a resource whose policy allows no row reads none.\<close>

definition nested_view :: "sql \<Rightarrow> trusted_session \<Rightarrow> (nat \<Rightarrow> select_policy option) \<Rightarrow> database \<Rightarrow> database" where
  "nested_view sq session pol db = (\<lambda>r.
     if is_some_and (\<lambda>policy. sp_limit policy = Some 0) (pol r) then [] else view sq session pol db r)"

end
