(* ===== verification/Pol_View.thy ===== *)
theory Pol_View
  imports Pol_Semantics
begin

text \<open>
  The policy compiler against its meaning. \<open>instantiate_predicate\<close> refines the meaning of a policy
  predicate; the protected statement, run on the whole database, reads what the client's own
  statement reads on the view the role has of it.
\<close>

section \<open>Server values\<close>

text \<open>Every server parameter holds the session's value for the key in its name.\<close>

definition session_parameter :: "string \<Rightarrow> string" where
  "session_parameter key = SERVER_PARAMETER_PREFIX @ ''session_'' @ key"

definition sv_ok :: "trusted_session \<Rightarrow> server_values \<Rightarrow> bool" where
  "sv_ok session sv = (\<forall>n v. bt_get sv n = Some v \<longrightarrow>
     (\<exists>key s. n = session_parameter key \<and> session_get session key = Some s \<and> v = LV_String s))"

definition sv_le :: "server_values \<Rightarrow> server_values \<Rightarrow> bool" where
  "sv_le sv sv' = (\<forall>n v. bt_get sv n = Some v \<longrightarrow> bt_get sv' n = Some v)"

interpretation sv: accumulator "sv_ok session" sv_le for session
  by unfold_locales (auto simp: sv_le_def)

abbreviation grows :: "trusted_session \<Rightarrow> (server_values \<Rightarrow> 'a \<Rightarrow> bool) \<Rightarrow>
  (server_values \<Rightarrow> policy_error + 'a \<times> server_values) \<Rightarrow> bool" where
  "grows session \<equiv> accumulator.extends (sv_ok session) sv_le"

lemma session_parameter_inj: "session_parameter k = session_parameter k' \<longleftrightarrow> k = k'"
  by (simp add: session_parameter_def)

lemma sv_ok_Nil [simp]: "sv_ok session []"
  by (simp add: sv_ok_def)

lemma sv_insert:
  assumes "sv_ok session sv" and "session_get session key = Some s"
  shows "sv_ok session (bt_insert (session_parameter key) (LV_String s) sv)"
    and "sv_le sv (bt_insert (session_parameter key) (LV_String s) sv)"
  using assms by (fastforce simp: sv_ok_def sv_le_def session_parameter_inj)+

section \<open>Instantiated predicates\<close>

text \<open>The columns of a predicate belong to the resource.\<close>

definition operand_of :: "nat \<Rightarrow> policy_operand \<Rightarrow> bool" where
  "operand_of r operand = (case operand of PO_Column c \<Rightarrow> cid_resource (bc_id c) = r | _ \<Rightarrow> True)"

fun predicate_of :: "nat \<Rightarrow> policy_predicate \<Rightarrow> bool" where
  "predicate_of r (PP_Comparison c _ operand) = (cid_resource (bc_id c) = r \<and> operand_of r operand)"
| "predicate_of r (PP_In c _ _) = (cid_resource (bc_id c) = r)"
| "predicate_of r (PP_IsNull c _) = (cid_resource (bc_id c) = r)"
| "predicate_of r (PP_And ps) = list_all (predicate_of r) ps"
| "predicate_of r (PP_Or ps) = list_all (predicate_of r) ps"
| "predicate_of r (PP_Not p) = predicate_of r p"

lemma instantiate_operand_refines:
  assumes "operand_of r operand"
  shows "grows session (\<lambda>sv e. \<forall>db env row. env r = Some row \<longrightarrow>
    eval sq sv db env e = operand_value session row operand) (instantiate_operand session operand t)"
proof (rule sv.extendsI, goal_cases)
  case (1 sv e sv')
  show ?case
  proof (cases operand)
    case (PO_Session key)
    then obtain s where s: "session_get session key = Some s"
      "e = ServerParameter (session_parameter key) LT_String"
      "sv' = bt_insert (session_parameter key) (LV_String s) sv"
      using 1(2)
      by (auto simp: instantiate_operand_def result_simps from_trusted_suffix_def session_parameter_def split: if_splits)
    have "bt_get u (session_parameter key) = Some (LV_String s)" if "sv_le sv' u" for u
      using that s(3) by (simp add: sv_le_def)
    with s sv_insert [OF 1(1) s(1)] PO_Session show ?thesis
      by (simp add: operand_value_def)
  qed (use 1 assms in \<open>auto simp: instantiate_operand_def operand_value_def operand_of_def env_get_def sv_le_def\<close>)
qed

lemma eval_comparison: "eval sq sv db env (comparison operator l r) =
  sq_compare sq operator (eval sq sv db env l) (eval sq sv db env r)"
  by (cases operator) auto

lemma truth_cases: "t = None \<or> t = Some True \<or> t = Some False"
  by (cases t) auto

lemma foldl_and3: "foldl and3 t ts =
  (if Some False \<in> set (t # ts) then Some False else if None \<in> set (t # ts) then None else Some True)"
proof (induction ts arbitrary: t)
  case Nil
  show ?case using truth_cases [of t] by auto
qed (auto simp: and3_def)

lemma foldl_or3: "foldl or3 t ts =
  (if Some True \<in> set (t # ts) then Some True else if None \<in> set (t # ts) then None else Some False)"
proof (induction ts arbitrary: t)
  case Nil
  show ?case using truth_cases [of t] by auto
qed (auto simp: or3_def)

lemma permits_logical:
  "permits sq session row (PP_And (p # ps)) = foldl and3 (permits sq session row p) (map (permits sq session row) ps)"
  "permits sq session row (PP_Or (p # ps)) = foldl or3 (permits sq session row p) (map (permits sq session row) ps)"
  by (auto simp: foldl_and3 foldl_or3 image_iff eq_commute [of "Some False"] eq_commute [of None] eq_commute [of "Some True"])

definition means :: "sql \<Rightarrow> nat \<Rightarrow> (row \<Rightarrow> bool option) \<Rightarrow> server_values \<Rightarrow> bound_expr \<Rightarrow> bool" where
  "means sq r m sv e = (\<forall>db env row. env r = Some row \<longrightarrow> truth sq (eval sq sv db env e) = m row)"

lemma fold_logical_rest_refines:
  assumes "\<And>p. p \<in> set ps \<Longrightarrow>
    grows session (means sq r (\<lambda>row. permits sq session row p)) (instantiate_predicate session p)"
  shows "grows session (\<lambda>sv e. \<forall>m. means sq r m sv out \<longrightarrow>
      means sq r (\<lambda>row. foldl (if is_and then and3 else or3) (m row) (map (permits sq session row) ps)) sv e)
    (\<lambda>sv. fold_logical_rest session ps sv is_and out)"
  using assms
proof (induction ps arbitrary: out)
  case Nil
  show ?case by (simp, rule sv.extends_return) simp
next
  case (Cons p ps)
  let ?op = "if is_and then and3 else or3"
  have "grows session (\<lambda>sv e'. means sq r (\<lambda>row. permits sq session row p) sv e \<longrightarrow> (\<forall>m. means sq r m sv out \<longrightarrow>
      means sq r (\<lambda>row. foldl ?op (m row) (map (permits sq session row) (p # ps))) sv e'))
    (\<lambda>sv. fold_logical_rest session ps sv is_and (if is_and then And out e else Or out e))" for e
    by (rule sv.extends_weaken [OF Cons.IH]) (use Cons.prems in \<open>auto simp: means_def\<close>)
  from sv.extends_bind [OF Cons.prems [of p] this] show ?case by simp
qed

lemma fold_logical_refines:
  assumes "\<And>p. p \<in> set ps \<Longrightarrow>
    grows session (means sq r (\<lambda>row. permits sq session row p)) (instantiate_predicate session p)"
  shows "grows session (means sq r (\<lambda>row. permits sq session row (if is_and then PP_And ps else PP_Or ps)))
    (\<lambda>sv. fold_logical session ps sv is_and)"
proof (cases ps)
  case (Cons q qs)
  have "grows session (\<lambda>sv e'. means sq r (\<lambda>row. permits sq session row q) sv e \<longrightarrow>
      means sq r (\<lambda>row. permits sq session row (if is_and then PP_And ps else PP_Or ps)) sv e')
    (\<lambda>sv. fold_logical_rest session qs sv is_and e)" for e
    by (rule sv.extends_weaken [OF fold_logical_rest_refines [where r = r and sq = sq]])
      (use assms Cons in \<open>auto simp: permits_logical simp del: permits.simps\<close>)
  from sv.extends_bind [OF assms [of q] this] Cons show ?thesis by simp
qed (simp add: sv.extends_fail)

lemma instantiate_predicate_refines:
  assumes "predicate_of r p"
  shows "grows session (means sq r (\<lambda>row. permits sq session row p)) (instantiate_predicate session p)"
  using assms
proof (induction p)
  case (PP_Comparison c operator operand)
  have "grows session (\<lambda>sv e. (\<forall>db env row. env r = Some row \<longrightarrow> eval sq sv db env right = operand_value session row operand) \<longrightarrow>
      means sq r (\<lambda>row. permits sq session row (PP_Comparison c operator operand)) sv e)
    (\<lambda>sv. Inr (comparison operator (Column c) right, sv))" for right
    using PP_Comparison by (intro sv.extends_return) (auto simp: means_def eval_comparison env_get_def)
  from sv.extends_bind [OF instantiate_operand_refines [where t = "bc_type c"] this] PP_Comparison.prems show ?case by simp
next
  case (PP_In c vs negated)
  then show ?case
    by (simp, intro sv.extends_return) (auto simp: means_def env_get_def comp_def)
next
  case (PP_IsNull c wanted)
  then show ?case
    by (cases wanted; simp; intro sv.extends_return) (auto simp: means_def env_get_def of_truth_def)
next
  case (PP_And ps)
  then have "grows session (means sq r (\<lambda>row. permits sq session row p)) (instantiate_predicate session p)"
    if "p \<in> set ps" for p using that by (simp add: list_all_iff)
  from fold_logical_refines [OF this, of ps True] show ?case by simp
next
  case (PP_Or ps)
  then have "grows session (means sq r (\<lambda>row. permits sq session row p)) (instantiate_predicate session p)"
    if "p \<in> set ps" for p using that by (simp add: list_all_iff)
  from fold_logical_refines [OF this, of ps False] show ?case by simp
next
  case (PP_Not p)
  have "grows session (\<lambda>sv e'. means sq r (\<lambda>row. permits sq session row p) sv e \<longrightarrow>
      means sq r (\<lambda>row. permits sq session row (PP_Not p)) sv e') (\<lambda>sv. Inr (Not e, sv))" for e
    by (intro sv.extends_return) (auto simp: means_def)
  from sv.extends_bind [OF PP_Not.IH this] PP_Not.prems show ?case by simp
qed

section \<open>Nested selects\<close>

text \<open>A nested select as the front end builds it: one resource, a predicate, nothing else.\<close>

fun nested_plain :: "bound_expr \<Rightarrow> bool" where
  "nested_plain (Exists (BoundSelect r al js ps pr gb hv ob li off)) =
     (js = [] \<and> gb = [] \<and> hv = None \<and> ob = [] \<and> li = None \<and> off = None \<and>
      (case pr of None \<Rightarrow> True | Some e \<Rightarrow> nested_plain e))"
| "nested_plain (Equal l r) = (nested_plain l \<and> nested_plain r)"
| "nested_plain (NotEqual l r) = (nested_plain l \<and> nested_plain r)"
| "nested_plain (Less l r) = (nested_plain l \<and> nested_plain r)"
| "nested_plain (LessEqual l r) = (nested_plain l \<and> nested_plain r)"
| "nested_plain (Greater l r) = (nested_plain l \<and> nested_plain r)"
| "nested_plain (GreaterEqual l r) = (nested_plain l \<and> nested_plain r)"
| "nested_plain (And l r) = (nested_plain l \<and> nested_plain r)"
| "nested_plain (Or l r) = (nested_plain l \<and> nested_plain r)"
| "nested_plain (Like l r) = (nested_plain l \<and> nested_plain r)"
| "nested_plain (Glob l r) = (nested_plain l \<and> nested_plain r)"
| "nested_plain (Least l r) = (nested_plain l \<and> nested_plain r)"
| "nested_plain (Concat l r) = (nested_plain l \<and> nested_plain r)"
| "nested_plain (ConditionalOutput l r) = (nested_plain l \<and> nested_plain r)"
| "nested_plain (Not e) = nested_plain e"
| "nested_plain (IsNull e) = nested_plain e"
| "nested_plain (CastText e) = nested_plain e"
| "nested_plain (ScalarFunction _ arguments _) = list_all nested_plain arguments"
| "nested_plain (In e vs _) = (nested_plain e \<and> list_all nested_plain vs)"
| "nested_plain (Case branches else_expression _) =
     (list_all (\<lambda>b. nested_plain (fst b) \<and> nested_plain (snd b)) branches \<and>
      (case else_expression of None \<Rightarrow> True | Some e \<Rightarrow> nested_plain e))"
| "nested_plain (Column _) = True"
| "nested_plain (ClientParameter _ _) = True"
| "nested_plain (ServerParameter _ _) = True"
| "nested_plain (Literal _) = True"
| "nested_plain (CountAll _) = True"
| "nested_plain (RowNumber _ _ ob) = (\<forall>d \<in> set ob. collect_expression_resources (od_expression d) = [])"

text \<open>The policies of the resources of a statement name columns of their own resource only.\<close>

definition policy_ok :: "nat \<Rightarrow> select_policy \<Rightarrow> bool" where
  "policy_ok r p = (predicate_of r (sp_filter p) \<and> (\<forall>c \<in> sp_regular_columns p. cid_resource c = r) \<and>
     (\<forall>(c, q) \<in> set (sp_conditional_columns p). cid_resource c = r \<and> predicate_of r q))"

definition policies_ok :: "select_policies \<Rightarrow> bool" where
  "policies_ok sel = (bt_ok sel \<and> (\<forall>(r, p) \<in> set sel. policy_ok r p))"

text \<open>What is left of the current rows in the role's view.\<close>

definition redact_env :: "sql \<Rightarrow> trusted_session \<Rightarrow> select_policies \<Rightarrow> env \<Rightarrow> env" where
  "redact_env sq session sel env = (\<lambda>r. case env r of
       None \<Rightarrow> None
     | Some row \<Rightarrow> Some (case bt_get sel r of None \<Rightarrow> null_row | Some p \<Rightarrow> redact sq session r p row))"

definition reads_view :: "sql \<Rightarrow> trusted_session \<Rightarrow> select_policies \<Rightarrow> database \<Rightarrow> bound_expr \<Rightarrow> server_values \<Rightarrow> bound_expr \<Rightarrow> bool" where
  "reads_view sq session sel db e sv e' = (\<forall>env. eval sq sv db env e' =
     eval sq sv (nested_view sq session (bt_get sel) db) (redact_env sq session sel env) e)"

lemma policies_ok_get: "policies_ok sel \<Longrightarrow> bt_get sel r = Some p \<Longrightarrow> policy_ok r p"
  by (auto simp: policies_ok_def dest: bt_get_set)

lemma regular_of_resource:
  assumes "policies_ok sel" and "c \<in> regular_columns_of sel"
  obtains p where "bt_get sel (cid_resource c) = Some p" "c \<in> sp_regular_columns p"
proof -
  from assms(2) obtain r p where rp: "(r, p) \<in> set sel" "c \<in> sp_regular_columns p"
    by (auto simp: regular_columns_of_def)
  with assms(1) have "policy_ok r p" "bt_get sel r = Some p"
    by (auto simp: policies_ok_def bt_set_get)
  with rp that show thesis by (auto simp: policy_ok_def)
qed

lemma env_get_redact:
  assumes "policies_ok sel" and "c \<in> regular_columns_of sel"
  shows "env_get (redact_env sq session sel env) c = env_get env c"
proof -
  obtain p where "bt_get sel (cid_resource c) = Some p" "c \<in> sp_regular_columns p"
    using regular_of_resource [OF assms] by blast
  moreover have "ColumnId (cid_resource c) (cid_ordinal c) = c" by simp
  ultimately show ?thesis
    by (auto simp: env_get_def redact_env_def redact_def simp del: column_id.collapse split: option.splits)
qed

lemma redact_env_upd:
  "bt_get sel r = Some p \<Longrightarrow> redact_env sq session sel (env(r \<mapsto> row)) =
   (redact_env sq session sel env)(r \<mapsto> redact sq session r p row)"
  by (auto simp: redact_env_def)

lemma limit_of_apply [simp]:
  "apply_policy_limit (BoundSelect r al js ps pr gb hv ob None off) None = BoundSelect r al js ps pr gb hv ob None off"
  "apply_policy_limit (BoundSelect r al js ps pr gb hv ob None off) (Some n) =
     BoundSelect r al js ps pr gb hv ob (Some (Literal (LV_Int64 (if int n \<le> i64_max then int n else i64_max)))) off"
  by (simp_all add: apply_policy_limit_def Let_def)

lemma holds_and_optional:
  "holds sq sv db env (and_optional pr e) \<longleftrightarrow> holds_opt sq sv db env pr \<and> holds sq sv db env e"
  by (cases pr) (auto simp: and_optional_def holds_def holds_opt_def)

lemma eval_exists:
  "eval sq sv db env (Exists (BoundSelect r al js ps pr gb hv ob li off)) =
   LV_Boolean ((\<exists>row \<in> set (db r). holds_opt sq sv db (env(r \<mapsto> row)) pr) \<and> li \<noteq> Some (Literal (LV_Int64 0)))"
  by (cases pr) (simp_all add: holds_opt_def holds_def)

definition reads_view_opt :: "sql \<Rightarrow> trusted_session \<Rightarrow> select_policies \<Rightarrow> database \<Rightarrow> bound_expr option \<Rightarrow> server_values \<Rightarrow>
  bound_expr option \<Rightarrow> bool" where
  "reads_view_opt sq session sel db e sv e' = rel_option (\<lambda>e e'. reads_view sq session sel db e sv e') e e'"

lemma holds_opt_view:
  assumes "reads_view_opt sq session sel db pr sv pr'"
  shows "holds_opt sq sv db env pr' =
    holds_opt sq sv (nested_view sq session (bt_get sel) db) (redact_env sq session sel env) pr"
  using assms by (cases pr; cases pr') (auto simp: reads_view_opt_def reads_view_def holds_opt_def holds_def)

lemma exists_reads_view:
  assumes policy: "bt_get sel r = Some policy"
    and row_filter: "means sq r (\<lambda>row. permits sq session row (sp_filter policy)) sv row_filter"
    and pr: "reads_view_opt sq session sel db pr sv pr'"
  shows "reads_view sq session sel db (Exists (BoundSelect r al js ps pr gb hv ob None off)) sv
    (Exists (apply_policy_limit (BoundSelect r al js ps (Some (and_optional pr' row_filter)) gb hv ob None off) (sp_limit policy)))"
proof -
  let ?n = "nested_view sq session (bt_get sel) db" and ?red = "redact_env sq session sel"
  have f: "holds sq sv db (env(r \<mapsto> row)) row_filter \<longleftrightarrow> visible sq session policy row" for env row
    using row_filter by (simp add: means_def holds_def visible_def)
  have n: "set (?n r) = (if sp_limit policy = Some 0 then {} else
      redact sq session r policy ` {row \<in> set (db r). visible sq session policy row})"
    using policy by (simp add: nested_view_def view_def)
  have "(\<exists>row \<in> set (db r). holds sq sv db (env(r \<mapsto> row)) (and_optional pr' row_filter)) \<longleftrightarrow>
      (\<exists>row \<in> set (db r). visible sq session policy row \<and>
        holds_opt sq sv ?n ((?red env)(r \<mapsto> redact sq session r policy row)) pr)" for env
    using redact_env_upd [OF policy] by (auto simp: holds_and_optional f holds_opt_view [OF pr])
  then show ?thesis
    unfolding reads_view_def
    by (cases "sp_limit policy") (auto simp: eval_exists holds_opt_def n i64_max_def simp del: eval.simps)
qed

text \<open>Steps that extend the server values.\<close>

lemma grows_both:
  assumes "grows session P (f l)" "grows session Q (f r)" "\<And>sv a b. P sv a \<Longrightarrow> Q sv b \<Longrightarrow> R sv (c a b)"
  shows "grows session R (both_st f c l r)"
proof -
  have "grows session (\<lambda>sv z. P sv a \<longrightarrow> R sv z) (\<lambda>s. try_ok (f r s) (\<lambda>(b, s). Inr (c a b, s)))" for a
    by (rule sv.extends_bind [OF assms(2)]) (use assms(3) in \<open>auto intro!: sv.extends_return\<close>)
  from sv.extends_bind [OF assms(1) this] show ?thesis
    unfolding both_st_def [abs_def] .
qed

lemma grows_one:
  assumes "grows session P f" "\<And>sv a. P sv a \<Longrightarrow> R sv (c a)"
  shows "grows session R (\<lambda>s. try_ok (f s) (\<lambda>(a, s). Inr (c a, s)))"
  by (rule sv.extends_bind [OF assms(1)]) (use assms(2) in \<open>auto intro!: sv.extends_return\<close>)

lemma grows_option:
  assumes "\<And>e. x = Some e \<Longrightarrow> grows session (\<lambda>sv y. R sv e y) (f e)"
  shows "grows session (\<lambda>sv y. rel_option (R sv) x y) (option_st f x)"
proof (cases x)
  case None
  show ?thesis unfolding None option_st.simps [abs_def] by (rule sv.extends_return) simp
next
  case (Some e)
  from grows_one [OF assms [OF Some], of "\<lambda>sv y. rel_option (R sv) x y" Some] Some show ?thesis
    by (simp add: option_st.simps [abs_def])
qed

lemmas protect_fun = protect_nested_selects.simps [abs_def]

lemma list_reads_view:
  "list_all2 (\<lambda>e e'. reads_view sq session sel db e sv e') es es' \<Longrightarrow> map (eval sq sv db env) es' =
   map (eval sq sv (nested_view sq session (bt_get sel) db) (redact_env sq session sel env)) es"
  by (induction rule: list_all2_induct) (auto simp: reads_view_def)

text \<open>A \<open>CASE\<close> whose branches and default read the view.\<close>

definition branch_reads_view :: "sql \<Rightarrow> trusted_session \<Rightarrow> select_policies \<Rightarrow> database \<Rightarrow> server_values \<Rightarrow>
  bound_expr \<times> bound_expr \<Rightarrow> bound_expr \<times> bound_expr \<Rightarrow> bool" where
  "branch_reads_view sq session sel db sv b b' =
     (reads_view sq session sel db (fst b) sv (fst b') \<and> reads_view sq session sel db (snd b) sv (snd b'))"

lemma branches_read_view:
  "list_all2 (branch_reads_view sq session sel db sv) bs bs' \<Longrightarrow>
   map (\<lambda>b. (eval sq sv db env (fst b), eval sq sv db env (snd b))) bs' =
   map (\<lambda>b. (eval sq sv (nested_view sq session (bt_get sel) db) (redact_env sq session sel env) (fst b),
     eval sq sv (nested_view sq session (bt_get sel) db) (redact_env sq session sel env) (snd b))) bs"
  by (induction rule: list_all2_induct) (auto simp: branch_reads_view_def reads_view_def)

lemma case_reads_view:
  assumes "list_all2 (branch_reads_view sq session sel db sv) bs bs'" and "reads_view_opt sq session sel db d sv d'"
  shows "reads_view sq session sel db (Case bs d t) sv (Case bs' d' t)"
  using assms(2) unfolding reads_view_def [of _ _ _ _ "Case bs d t"]
  by (cases d; cases d') (auto simp: branches_read_view [OF assms(1)] reads_view_opt_def reads_view_def)

lemma grows_branch:
  assumes "grows session (reads_view sq session sel db (fst b)) (protect_nested_selects sel session (fst b))"
    and "grows session (reads_view sq session sel db (snd b)) (protect_nested_selects sel session (snd b))"
  shows "grows session (\<lambda>sv b'. branch_reads_view sq session sel db sv b b')
    (\<lambda>sv. try_ok (protect_nested_selects sel session (fst b) sv) (\<lambda>(condition, sv).
       try_ok (protect_nested_selects sel session (snd b) sv) (\<lambda>(v, sv). Inr ((condition, v), sv))))"
  by (rule sv.extends_bind [OF assms(1)], rule grows_one [OF assms(2)]) (simp add: branch_reads_view_def)

lemma validate_row_number:
  assumes "policies_ok sel" and "\<forall>c \<in> set pb. bc_id c \<in> regular_columns_of sel"
    and "\<forall>d \<in> set ob. reads_view sq session sel db (od_expression d) sv (od_expression d)"
  shows "reads_view sq session sel db (RowNumber r pb ob) sv (RowNumber r pb ob)"
  using assms by (auto simp: reads_view_def env_get_redact intro!: arg_cong2 [where f = "sq_row_number sq r"] map_cong)

text \<open>An expression without a nested select reads the same of the rows and of what the view leaves
  of them, once its columns are permitted.\<close>

lemma plain_reads_view:
  assumes "policies_ok sel" and "validate_client_expression (regular_columns_of sel) e = Inr ()"
    and "collect_expression_resources e = []"
  shows "reads_view sq session sel db e sv e"
  using assms(2,3)
proof (induction e rule: collect_expression_resources.induct)
  case (18 f arguments t)
  then have "\<forall>e \<in> set arguments. reads_view sq session sel db e sv e" by (auto simp: result_simps)
  then show ?case by (auto simp: reads_view_def intro!: arg_cong [where f = "sq_function sq f"] map_cong)
next
  case (19 e vs negated)
  then have "\<forall>e \<in> set vs. reads_view sq session sel db e sv e" "reads_view sq session sel db e sv e"
    by (auto simp: result_simps)
  then show ?case by (auto simp: reads_view_def intro!: arg_cong [where f = "\<lambda>x. sq_in sq _ x negated"] map_cong)
next
  case (20 branches d t)
  then have "list_all2 (branch_reads_view sq session sel db sv) branches branches"
    by (fastforce simp: result_simps branch_reads_view_def intro!: list.rel_refl_strong)
  moreover have "reads_view_opt sq session sel db d sv d"
    using 20 by (cases d) (auto simp: result_simps reads_view_opt_def)
  ultimately show ?case by (rule case_reads_view)
qed (use assms(1) in \<open>auto simp: result_simps reads_view_def env_get_redact\<close>)

lemma protect_nested_reads_view:
  assumes ok: "policies_ok sel" and "nested_plain e" and "validate_client_expression (regular_columns_of sel) e = Inr ()"
  shows "grows session (reads_view sq session sel db e) (protect_nested_selects sel session e)"
  using assms(2,3)
proof (induction e rule: collect_expression_resources.induct)
  case (1 r al js ps pr gb hv ob li off)
  let ?P = "protect_nested_selects sel session"
  have "grows session (\<lambda>sv y. rel_option (\<lambda>e e'. reads_view sq session sel db e sv e') pr y) (option_st ?P pr)"
    using 1 by (intro grows_option) (auto simp: result_simps)
  then have o: "grows session (reads_view_opt sq session sel db pr) (option_st ?P pr)"
    by (rule sv.extends_weaken) (simp add: reads_view_opt_def)
  have li: "li = None" using "1.prems"(1) by simp
  show ?case
  proof (rule sv.extendsI)
    fix sv e' sv'
    assume "sv_ok session sv" and "?P (Exists (BoundSelect r al js ps pr gb hv ob li off)) sv = Inr (e', sv')"
    then obtain pr' sv1 policy row_filter where *: "option_st ?P pr sv = Inr (pr', sv1)" "bt_get sel r = Some policy"
      "instantiate_predicate session (sp_filter policy) sv1 = Inr (row_filter, sv')"
      "e' = Exists (apply_policy_limit (BoundSelect r al js ps (Some (and_optional pr' row_filter)) gb hv ob li off) (sp_limit policy))"
      by (auto simp: result_simps)
    have "policy_ok r policy" using ok *(2) by (rule policies_ok_get)
    then have i: "grows session (means sq r (\<lambda>row. permits sq session row (sp_filter policy))) (instantiate_predicate session (sp_filter policy))"
      by (intro instantiate_predicate_refines) (simp add: policy_ok_def)
    note o1 = sv.extendsD [OF o \<open>sv_ok session sv\<close> *(1)]
    note i1 = sv.extendsD [OF i o1(1) *(3)]
    have "reads_view sq session sel db (Exists (BoundSelect r al js ps pr gb hv ob li off)) u e'" if "sv_le sv' u" for u
      unfolding *(4) li by (rule exists_reads_view [OF *(2) i1(3) [OF that] o1(3)]) (rule sv.le_trans [OF i1(2) that])
    then show "sv_ok session sv' \<and> sv_le sv sv' \<and>
      (\<forall>u. sv_le sv' u \<longrightarrow> reads_view sq session sel db (Exists (BoundSelect r al js ps pr gb hv ob li off)) u e')"
      using i1(1) sv.le_trans [OF o1(2) i1(2)] by blast
  qed
next
  case (18 f arguments t)
  have "grows session (\<lambda>sv es. list_all2 (\<lambda>e e'. reads_view sq session sel db e sv e') arguments es)
    (traverse_st (protect_nested_selects sel session) arguments)"
    using 18 by (intro sv.extends_traverse) (auto simp: result_simps list_all_iff)
  then show ?case unfolding protect_fun
    by (rule grows_one) (auto simp: reads_view_def [of _ _ _ _ "ScalarFunction f arguments t"] list_reads_view)
next
  case (19 e vs negated)
  have e: "grows session (reads_view sq session sel db e) (protect_nested_selects sel session e)"
    using 19 by (auto simp: result_simps)
  have vs: "grows session (\<lambda>sv es. list_all2 (\<lambda>e e'. reads_view sq session sel db e sv e') vs es)
    (traverse_st (protect_nested_selects sel session) vs)"
    using 19 by (intro sv.extends_traverse) (auto simp: result_simps list_all_iff)
  show ?case unfolding protect_fun
    by (rule sv.extends_bind [OF e], rule grows_one [OF vs]) (auto simp: reads_view_def [of _ _ _ _ "In e vs negated"] list_reads_view reads_view_def [of _ _ _ _ e])
next
  case (20 branches d t)
  let ?P = "protect_nested_selects sel session"
  have bs: "grows session (\<lambda>sv bs. list_all2 (branch_reads_view sq session sel db sv) branches bs)
    (traverse_st (\<lambda>b sv. try_ok (?P (fst b) sv) (\<lambda>(condition, sv). try_ok (?P (snd b) sv) (\<lambda>(v, sv). Inr ((condition, v), sv)))) branches)"
    using 20 by (intro sv.extends_traverse grows_branch) (auto simp: result_simps list_all_iff)
  have "grows session (\<lambda>sv y. rel_option (\<lambda>e e'. reads_view sq session sel db e sv e') d y) (option_st ?P d)"
    using 20 by (intro grows_option) (auto simp: result_simps)
  then have o: "grows session (reads_view_opt sq session sel db d) (option_st ?P d)"
    by (rule sv.extends_weaken) (simp add: reads_view_opt_def)
  show ?case unfolding protect_fun
    by (rule sv.extends_bind [OF bs], rule grows_one [OF o]) (simp add: case_reads_view)
next
  case (26 r pb ob)
  then have "\<forall>d \<in> set ob. reads_view sq session sel db (od_expression d) sv (od_expression d)" for sv
    using plain_reads_view [OF ok] by (auto simp: result_simps)
  then show ?case unfolding protect_fun using 26 ok
    by (intro sv.extends_return validate_row_number) (auto simp: result_simps)
qed (use ok in \<open>auto simp: result_simps protect_fun reads_view_def env_get_redact intro!: grows_both grows_one sv.extends_return\<close>)

end
