(* ===== verification/Pol_View_Select.thy ===== *)
theory Pol_View_Select
  imports Pol_View
begin

text \<open>
  A whole select: the rows a protected statement reads from its tables are those of the role's view,
  and every clause reads of them what the view shows.
\<close>

section \<open>Joins\<close>

text \<open>The current row of a resource is one its filter permits.\<close>

definition row_visible :: "sql \<Rightarrow> trusted_session \<Rightarrow> select_policies \<Rightarrow> env \<Rightarrow> nat \<Rightarrow> bool" where
  "row_visible sq session sel env r = (case (env r, bt_get sel r) of
       (Some row, Some p) \<Rightarrow> visible sq session p row
     | _ \<Rightarrow> False)"

text \<open>A join before and after its row filter is applied.\<close>

definition join_protected :: "sql \<Rightarrow> trusted_session \<Rightarrow> select_policies \<Rightarrow> server_values \<Rightarrow> bound_join \<Rightarrow> bound_join \<Rightarrow> bool" where
  "join_protected sq session sel sv j j' = (jn_resource j' = jn_resource j \<and> jn_kind j' = jn_kind j \<and>
     bt_get sel (jn_resource j) \<noteq> None \<and>
     (\<forall>db env. env (jn_resource j) \<noteq> None \<longrightarrow> holds sq sv db env (jn_on j') =
       (holds sq sv db env (jn_on j) \<and> (jn_kind j = JoinLeft \<longrightarrow> row_visible sq session sel env (jn_resource j)))))"

definition inner_visible :: "sql \<Rightarrow> trusted_session \<Rightarrow> select_policies \<Rightarrow> bound_join list \<Rightarrow> env \<Rightarrow> bool" where
  "inner_visible sq session sel js env =
     (\<forall>j \<in> set js. jn_kind j = JoinInner \<longrightarrow> row_visible sq session sel env (jn_resource j))"

lemma set_on_simps [simp]:
  "jn_resource (set_on e j) = jn_resource j" "jn_kind (set_on e j) = jn_kind j" "jn_on (set_on e j) = e"
  by (cases j; simp)+

lemma holds_And [simp]: "holds sq sv db env (And a b) \<longleftrightarrow> holds sq sv db env a \<and> holds sq sv db env b"
  by (simp add: holds_def)

lemma filter_row_visible:
  assumes "bt_get sel r = Some p" and "means sq r (\<lambda>row. permits sq session row (sp_filter p)) sv e" and "env r \<noteq> None"
  shows "holds sq sv db env e \<longleftrightarrow> row_visible sq session sel env r"
  using assms by (auto simp: means_def holds_def row_visible_def visible_def)

lemma protect_join_cases:
  assumes ok: "policies_ok sel" and sv: "sv_ok session sv"
    and run: "protect_join sel session j (pred, sv) = Inr (j', pred', sv')"
  shows "sv_ok session sv' \<and> sv_le sv sv' \<and> (\<forall>u. sv_le sv' u \<longrightarrow> join_protected sq session sel u j j' \<and>
    (\<forall>db env. env (jn_resource j) \<noteq> None \<longrightarrow> holds sq u db env pred' =
      (holds sq u db env pred \<and> inner_visible sq session sel [j] env)))"
proof -
  from run obtain p f where p: "bt_get sel (jn_resource j) = Some p"
    and f: "instantiate_predicate session (sp_filter p) sv = Inr (f, sv')"
    and r: "(j', pred') = (case jn_kind j of JoinInner \<Rightarrow> (j, And pred f) | JoinLeft \<Rightarrow> (set_on (And (jn_on j) f) j, pred))"
    by (cases "jn_kind j") (auto simp: protect_join_def result_simps)
  have "predicate_of (jn_resource j) (sp_filter p)"
    using policies_ok_get [OF ok p] by (simp add: policy_ok_def)
  note g = sv.extendsD [OF instantiate_predicate_refines [OF this] sv f]
  have v: "holds sq u db env f \<longleftrightarrow> row_visible sq session sel env (jn_resource j)"
    if "sv_le sv' u" "env (jn_resource j) \<noteq> None" for u db env
    using p g(3) [OF that(1), of sq] that(2) by (rule filter_row_visible)
  show ?thesis
    using r p g(1,2) v by (cases "jn_kind j") (auto simp: join_protected_def inner_visible_def)
qed

lemma protect_joins:
  assumes ok: "policies_ok sel" and "sv_ok session sv"
    and "traverse_st (protect_join sel session) js (pred, sv) = Inr (js', pred', sv')"
  shows "sv_ok session sv' \<and> sv_le sv sv' \<and> (\<forall>u. sv_le sv' u \<longrightarrow> list_all2 (join_protected sq session sel u) js js' \<and>
    (\<forall>db env. (\<forall>j \<in> set js. env (jn_resource j) \<noteq> None) \<longrightarrow> holds sq u db env pred' =
      (holds sq u db env pred \<and> inner_visible sq session sel js env)))"
  using assms(2,3)
proof (induction js arbitrary: pred sv js')
  case Nil
  then show ?case by (auto simp: sv_le_def inner_visible_def)
next
  case (Cons j js)
  from Cons.prems(2) obtain j1 pred1 sv1 js1 where *: "protect_join sel session j (pred, sv) = Inr (j1, pred1, sv1)"
    "traverse_st (protect_join sel session) js (pred1, sv1) = Inr (js1, pred', sv')" "js' = j1 # js1"
    by (auto simp: result_simps)
  note one = protect_join_cases [OF ok Cons.prems(1) *(1), where sq = sq]
  note rest = Cons.IH [OF conjunct1 [OF one] *(2)]
  show ?case
    using one rest *(3) sv.le_trans [of sv sv1 sv'] sv.le_trans [of sv1 sv']
    by (auto simp: inner_visible_def)
qed

section \<open>Rows\<close>

lemma redact_null_row [simp]: "redact sq session r p null_row = null_row"
  by (auto simp: redact_def null_row_def fun_eq_iff split: option.splits)

lemma joined_rows_env:
  assumes "e \<in> set (joined_rows sq sv db ndb env js)"
  shows "r \<notin> jn_resource ` set js \<Longrightarrow> e r = env r" and "\<forall>j \<in> set js. e (jn_resource j) \<noteq> None"
    and "env r \<noteq> None \<Longrightarrow> e r \<noteq> None"
proof -
  have *: "(r \<notin> jn_resource ` set js \<longrightarrow> e r = env r) \<and> (\<forall>j \<in> set js. e (jn_resource j) \<noteq> None) \<and>
      (\<forall>q. env q \<noteq> None \<longrightarrow> e q \<noteq> None)"
    using assms
  proof (induction js arbitrary: env)
    case (Cons j js)
    then obtain env' where e: "env' \<in> set (join_rows sq sv db ndb env j)" "e \<in> set (joined_rows sq sv db ndb env' js)"
      by auto
    then obtain row where "env' = env(jn_resource j \<mapsto> row)"
      by (auto simp: join_rows_def Let_def split: if_splits)
    with Cons.IH [OF e(2)] show ?case by auto
  qed simp
  from * show "r \<notin> jn_resource ` set js \<Longrightarrow> e r = env r" by blast
  from * show "\<forall>j \<in> set js. e (jn_resource j) \<noteq> None" by blast
  from * show "env r \<noteq> None \<Longrightarrow> e r \<noteq> None" by blast
qed

lemma concat_map_filter: "concat (map (\<lambda>x. if P x then f x else []) xs) = concat (map f (filter P xs))"
  by (induction xs) auto

lemma map_filter_concat: "map g (filter P (concat xss)) = concat (map (\<lambda>xs. map g (filter P xs)) xss)"
  by (induction xss) auto


lemma row_visible_env:
  assumes "e \<in> set (joined_rows sq sv db ndb (env(r \<mapsto> row)) js)" and "r \<notin> jn_resource ` set js" and "bt_get sel r = Some p"
  shows "row_visible sq session sel e r = visible sq session p row"
  using joined_rows_env(1) [OF assms(1,2)] assms(3) by (simp add: row_visible_def)

text \<open>The matches of a join in the view are what is left of the visible matches.\<close>

lemma view_matches:
  assumes p: "bt_get sel r = Some p" and on: "reads_view sq session sel db e sv e"
  shows "filter (\<lambda>row. holds sq sv (nested_view sq session (bt_get sel) db) ((redact_env sq session sel env)(r \<mapsto> row)) e)
      (view sq session (bt_get sel) db r) =
    map (redact sq session r p) (filter (\<lambda>row. holds sq sv db (env(r \<mapsto> row)) e \<and> visible sq session p row) (db r))"
proof -
  have "holds sq sv (nested_view sq session (bt_get sel) db) ((redact_env sq session sel env)(r \<mapsto> redact sq session r p row)) e \<longleftrightarrow>
      holds sq sv db (env(r \<mapsto> row)) e" for row
    using on redact_env_upd [OF p] by (simp add: holds_def reads_view_def)
  then show ?thesis
    using p by (simp add: view_def filter_map comp_def conj_commute)
qed

lemma joined_rows_view:
  assumes "list_all2 (join_protected sq session sel sv) js js'" and "distinct (map jn_resource js)"
    and "\<forall>j \<in> set js. reads_view sq session sel db (jn_on j) sv (jn_on j)"
  shows "map (redact_env sq session sel) (filter (inner_visible sq session sel js) (joined_rows sq sv db db env js')) =
    joined_rows sq sv (view sq session (bt_get sel) db) (nested_view sq session (bt_get sel) db) (redact_env sq session sel env) js"
  using assms
proof (induction js js' arbitrary: env rule: list_all2_induct)
  case Nil
  then show ?case by (simp add: inner_visible_def)
next
  case (Cons j js j' js')
  let ?r = "jn_resource j" and ?red = "redact_env sq session sel" and ?db = "view sq session (bt_get sel) db"
    and ?n = "nested_view sq session (bt_get sel) db"
  obtain p where p: "bt_get sel ?r = Some p" using Cons.hyps(1) by (auto simp: join_protected_def)
  let ?vis = "\<lambda>row. visible sq session p row" and ?on = "\<lambda>row. holds sq sv db (env(?r \<mapsto> row)) (jn_on j)"
    and ?J = "\<lambda>row. joined_rows sq sv db db (env(?r \<mapsto> row)) js'"
  have "map jn_resource js' = map jn_resource js"
    using Cons.hyps(2) by (auto simp: list_all2_conv_all_nth join_protected_def intro: nth_equalityI)
  with Cons.prems(1) have r: "?r \<notin> jn_resource ` set js'" by (metis distinct.simps(2) list.map(2) set_map)
  have IH: "map ?red (filter (inner_visible sq session sel js) (?J row)) =
      joined_rows sq sv ?db ?n ((?red env)(?r \<mapsto> redact sq session ?r p row)) js" for row
    unfolding redact_env_upd [OF p, symmetric] by (rule Cons.IH) (use Cons.prems in auto)
  have m: "filter (\<lambda>row. holds sq sv ?n ((?red env)(?r \<mapsto> row)) (jn_on j)) (?db ?r) =
      map (redact sq session ?r p) (filter (\<lambda>row. ?on row \<and> ?vis row) (db ?r))"
    using Cons.prems(2) by (intro view_matches [OF p]) simp
  have on': "holds sq sv db (env(?r \<mapsto> row)) (jn_on j') = (?on row \<and> (jn_kind j = JoinLeft \<longrightarrow> ?vis row))" for row
    using Cons.hyps(1) p by (simp add: join_protected_def row_visible_def)
  have j': "jn_resource j' = ?r" "jn_kind j' = jn_kind j" using Cons.hyps(1) by (auto simp: join_protected_def)
  show ?case
  proof (cases "jn_kind j")
    case JoinInner
    have "filter (inner_visible sq session sel (j # js)) (?J row) =
        (if ?vis row then filter (inner_visible sq session sel js) (?J row) else [])" for row
      using row_visible_env [OF _ r p, of _ sq sv db db env row session] JoinInner
      by (auto simp: inner_visible_def filter_empty_conv intro!: filter_cong)
    then have "map ?red (filter (inner_visible sq session sel (j # js)) (concat (map ?J (filter ?on (db ?r))))) =
        concat (map (\<lambda>row. if ?vis row then map ?red (filter (inner_visible sq session sel js) (?J row)) else []) (filter ?on (db ?r)))"
      by (simp add: map_filter_concat comp_def if_distrib [of "map ?red"] cong: if_cong)
    also have "\<dots> = concat (map (\<lambda>row. joined_rows sq sv ?db ?n ((?red env)(?r \<mapsto> redact sq session ?r p row)) js)
        (filter (\<lambda>row. ?on row \<and> ?vis row) (db ?r)))"
      by (simp add: concat_map_filter IH conj_commute)
    finally show ?thesis
      using JoinInner j' on' m by (simp add: join_rows_def Let_def comp_def)
  next
    case JoinLeft
    have "inner_visible sq session sel (j # js) = inner_visible sq session sel js"
      using JoinLeft by (auto simp: inner_visible_def fun_eq_iff)
    then show ?thesis
      using JoinLeft j' on' m IH IH [of null_row]
      by (simp add: join_rows_def Let_def comp_def map_filter_concat)
  qed
qed


section \<open>The select\<close>

text \<open>No nested select; a window's sort keys have none either.\<close>

definition no_nested :: "bound_expr \<Rightarrow> bool" where
  "no_nested e = (case e of
       RowNumber r pb ob \<Rightarrow> \<forall>d \<in> set ob. collect_expression_resources (od_expression d) = []
     | e \<Rightarrow> collect_expression_resources e = [])"

text \<open>What the front end guarantees of a select (each resource once, nested selects of one resource),
  with nested selects in \<open>WHERE\<close> only.\<close>

definition from_shape :: "bound_select \<Rightarrow> bool" where
  "from_shape s = (distinct (bs_resource s # map jn_resource (bs_joins s)) \<and>
     is_none_or nested_plain (bs_predicate s) \<and>
     (\<forall>j \<in> set (bs_joins s). collect_expression_resources (jn_on j) = []))"

definition query_shape :: "bound_select \<Rightarrow> bool" where
  "query_shape s = (from_shape s \<and>
     (\<forall>p \<in> set (bs_projections s). no_nested (pj_expression p)) \<and>
     is_none_or (\<lambda>e. collect_expression_resources e = []) (bs_having s) \<and>
     (\<forall>d \<in> set (bs_order_by s). collect_expression_resources (od_expression d) = []))"

lemma set_simps [simp]:
  "bs_resource (set_predicate pr s) = bs_resource s" "bs_joins (set_predicate pr s) = bs_joins s"
  "bs_projections (set_predicate pr s) = bs_projections s" "bs_predicate (set_predicate pr s) = pr"
  "bs_group_by (set_predicate pr s) = bs_group_by s" "bs_having (set_predicate pr s) = bs_having s"
  "bs_order_by (set_predicate pr s) = bs_order_by s" "bs_limit (set_predicate pr s) = bs_limit s"
  "bs_resource (set_joins js s) = bs_resource s" "bs_joins (set_joins js s) = js"
  "bs_projections (set_joins js s) = bs_projections s" "bs_predicate (set_joins js s) = bs_predicate s"
  "bs_group_by (set_joins js s) = bs_group_by s" "bs_having (set_joins js s) = bs_having s"
  "bs_order_by (set_joins js s) = bs_order_by s" "bs_limit (set_joins js s) = bs_limit s"
  "bs_resource (set_projections ps s) = bs_resource s" "bs_joins (set_projections ps s) = bs_joins s"
  "bs_projections (set_projections ps s) = ps" "bs_predicate (set_projections ps s) = bs_predicate s"
  "bs_group_by (set_projections ps s) = bs_group_by s" "bs_having (set_projections ps s) = bs_having s"
  "bs_order_by (set_projections ps s) = bs_order_by s" "bs_limit (set_projections ps s) = bs_limit s"
  "bs_resource (set_limit l s) = bs_resource s" "bs_joins (set_limit l s) = bs_joins s"
  "bs_projections (set_limit l s) = bs_projections s" "bs_predicate (set_limit l s) = bs_predicate s"
  "bs_group_by (set_limit l s) = bs_group_by s" "bs_having (set_limit l s) = bs_having s"
  "bs_order_by (set_limit l s) = bs_order_by s" "bs_limit (set_limit l s) = l"
  by (cases s; simp)+

lemma apply_policy_limit_simps [simp]:
  "bs_resource (apply_policy_limit s l) = bs_resource s" "bs_joins (apply_policy_limit s l) = bs_joins s"
  "bs_projections (apply_policy_limit s l) = bs_projections s" "bs_predicate (apply_policy_limit s l) = bs_predicate s"
  "bs_group_by (apply_policy_limit s l) = bs_group_by s" "bs_having (apply_policy_limit s l) = bs_having s"
  "bs_order_by (apply_policy_limit s l) = bs_order_by s"
  by (simp_all add: apply_policy_limit_def Let_def split: option.splits)

lemma redact_env_empty: "redact_env sq session sel Map.empty = Map.empty"
  by (simp add: redact_env_def)

lemma protect_rows_view:
  assumes ok: "policies_ok sel" and sv: "sv_ok session sv" and run: "protect_rows sel session s sv = Inr (s', sv')"
    and valid: "validate_optional (regular_columns_of sel) (bs_predicate s) = Inr ()"
      "\<forall>j \<in> set (bs_joins s). validate_client_expression (regular_columns_of sel) (jn_on j) = Inr ()"
    and shape: "from_shape s"
  shows "sv_ok session sv' \<and> sv_le sv sv' \<and> map (redact_env sq session sel) (where_rows sq sv' db db s') =
      where_rows sq sv' (view sq session (bt_get sel) db) (nested_view sq session (bt_get sel) db) s \<and>
    bs_projections s' = bs_projections s \<and> bs_group_by s' = bs_group_by s \<and> bs_having s' = bs_having s \<and>
    bs_order_by s' = bs_order_by s"
proof -
  let ?P = "protect_nested_selects sel session" and ?red = "redact_env sq session sel"
    and ?db = "view sq session (bt_get sel) db" and ?n = "nested_view sq session (bt_get sel) db" and ?r = "bs_resource s"
  obtain pr' sv1 p f sv2 js' pred' where run: "option_st ?P (bs_predicate s) sv = Inr (pr', sv1)"
    "bt_get sel ?r = Some p" "instantiate_predicate session (sp_filter p) sv1 = Inr (f, sv2)"
    "traverse_st (protect_join sel session) (bs_joins s) (and_optional pr' f, sv2) = Inr (js', pred', sv')"
    and s': "s' = set_joins js' (set_predicate (Some pred') s)"
    using run by (auto simp: protect_rows_def result_simps)
  have "grows session (\<lambda>sv y. rel_option (\<lambda>e e'. reads_view sq session sel db e sv e') (bs_predicate s) y) (option_st ?P (bs_predicate s))"
    using valid(1) shape by (intro grows_option protect_nested_reads_view [OF ok]) (auto simp: validate_optional_def from_shape_def)
  note o = sv.extendsD [OF this sv run(1)]
  have "predicate_of ?r (sp_filter p)" using policies_ok_get [OF ok run(2)] by (simp add: policy_ok_def)
  note i = sv.extendsD [OF instantiate_predicate_refines [OF this] o(1) run(3)]
  note j = protect_joins [OF ok i(1) run(4), where sq = sq]
  have le: "sv_le sv2 sv'" "sv_le sv1 sv'" using j i(2) sv.le_trans by blast+
  have pr: "holds_opt sq sv' db env pr' = holds_opt sq sv' ?n (?red env) (bs_predicate s)" for env
    using o(3) [OF le(2)] by (intro holds_opt_view) (simp add: reads_view_opt_def)
  have f: "holds sq sv' db env f = row_visible sq session sel env ?r" if "env ?r \<noteq> None" for env
    using run(2) i(3) [OF le(1), of sq] that by (rule filter_row_visible)
  have joins: "list_all2 (join_protected sq session sel sv') (bs_joins s) js'"
    and pred: "\<And>env. \<forall>j \<in> set (bs_joins s). env (jn_resource j) \<noteq> None \<Longrightarrow> holds sq sv' db env pred' =
      (holds sq sv' db env (and_optional pr' f) \<and> inner_visible sq session sel (bs_joins s) env)"
    using j sv.le_refl by blast+
  have res: "map jn_resource js' = map jn_resource (bs_joins s)"
    using joins by (auto simp: list_all2_conv_all_nth join_protected_def intro: nth_equalityI)
  have self: "\<forall>j \<in> set (bs_joins s). reads_view sq session sel db (jn_on j) sv' (jn_on j)"
    using valid(2) shape by (auto simp: from_shape_def intro: plain_reads_view [OF ok])
  let ?J = "\<lambda>row. joined_rows sq sv' db db [?r \<mapsto> row] js'"
  have row: "map ?red (filter (\<lambda>env. holds sq sv' db env pred') (?J row)) =
      (if visible sq session p row then
         filter (\<lambda>env. holds_opt sq sv' ?n env (bs_predicate s)) (joined_rows sq sv' ?db ?n [?r \<mapsto> redact sq session ?r p row] (bs_joins s))
       else [])" for row
  proof -
    have "?r \<notin> jn_resource ` set js'" using shape res unfolding from_shape_def by (metis distinct.simps(2) set_map)
    note v = row_visible_env [OF _ this run(2), of _ sq sv' db db Map.empty row session]
    have e: "holds sq sv' db e pred' = (visible sq session p row \<and> holds_opt sq sv' ?n (?red e) (bs_predicate s) \<and>
        inner_visible sq session sel (bs_joins s) e)" if "e \<in> set (?J row)" for e
    proof -
      have "\<forall>j \<in> set (bs_joins s). e (jn_resource j) \<noteq> None"
        using joined_rows_env(2) [OF that] res by (metis (no_types, lifting) imageE image_eqI set_map)
      moreover have "e ?r \<noteq> None" using joined_rows_env(3) [OF that, of ?r] by simp
      ultimately show ?thesis using pred f pr v [OF that] by (auto simp: holds_and_optional)
    qed
    show ?thesis
    proof (cases "visible sq session p row")
      case True
      have "map ?red (filter (\<lambda>env. holds sq sv' db env pred') (?J row)) =
          filter (\<lambda>env. holds_opt sq sv' ?n env (bs_predicate s)) (map ?red (filter (inner_visible sq session sel (bs_joins s)) (?J row)))"
        using e True by (simp add: filter_map comp_def conj_commute cong: filter_cong)
      also have "map ?red (filter (inner_visible sq session sel (bs_joins s)) (?J row)) =
          joined_rows sq sv' ?db ?n (?red [?r \<mapsto> row]) (bs_joins s)"
        using shape by (intro joined_rows_view [OF joins _ self]) (simp add: from_shape_def)
      also have "?red [?r \<mapsto> row] = [?r \<mapsto> redact sq session ?r p row]"
        unfolding redact_env_upd [OF run(2)] redact_env_empty ..
      finally show ?thesis using True by (simp only: if_True)
    qed (use e in \<open>simp add: filter_empty_conv\<close>)
  qed
  have "map ?red (where_rows sq sv' db db s') =
      concat (map (\<lambda>row. map ?red (filter (\<lambda>env. holds sq sv' db env pred') (?J row))) (db ?r))"
    by (simp add: s' where_rows_def holds_opt_def map_concat filter_concat comp_def)
  also have "\<dots> = concat (map (\<lambda>row. filter (\<lambda>env. holds_opt sq sv' ?n env (bs_predicate s))
      (joined_rows sq sv' ?db ?n [?r \<mapsto> redact sq session ?r p row] (bs_joins s))) (filter (visible sq session p) (db ?r)))"
    by (simp only: row concat_map_filter)
  also have "\<dots> = where_rows sq sv' ?db ?n s"
  proof -
    have "?db ?r = map (redact sq session ?r p) (filter (visible sq session p) (db ?r))"
      using run(2) by (simp add: view_def)
    then show ?thesis by (simp add: where_rows_def filter_concat comp_def)
  qed
  finally have "map ?red (where_rows sq sv' db db s') = where_rows sq sv' ?db ?n s" .
  with j s' sv.le_trans [OF o(2) le(2)] show ?thesis by simp
qed


section \<open>Projections\<close>

text \<open>A conditional output shows exactly what the view leaves of the column.\<close>

lemma conditional_output_view:
  assumes p: "bt_get sel (cid_resource c) = Some policy" and q: "bt_get (sp_conditional_columns policy) c = Some q"
    and c: "c \<notin> sp_regular_columns policy" "bc_id column = c"
    and vis: "means sq (cid_resource c) (\<lambda>row. permits sq session row q) sv e"
  shows "reads_view sq session sel db (Column column) sv (ConditionalOutput (Column column) e)"
proof -
  have cc: "ColumnId (cid_resource c) (cid_ordinal c) = c" by simp
  show ?thesis
    unfolding reads_view_def
  proof
    fix env
    show "eval sq sv db env (ConditionalOutput (Column column) e) =
      eval sq sv (nested_view sq session (bt_get sel) db) (redact_env sq session sel env) (Column column)"
    proof (cases "env (cid_resource c)")
      case None
      then show ?thesis using c by (simp add: env_get_def redact_env_def)
    next
      case (Some row)
      with vis have "truth sq (eval sq sv db env e) = permits sq session row q" by (simp add: means_def)
      with Some p q c cc show ?thesis
        by (simp add: env_get_def redact_env_def redact_def del: column_id.collapse)
    qed
  qed
qed

lemma projection_view:
  assumes ok: "policies_ok sel" and shape: "no_nested (pj_expression p)"
  shows "grows session (\<lambda>sv p'. validate_projection sel (regular_columns_of sel) p' = Inr () \<longrightarrow>
    reads_view sq session sel db (pj_expression p) sv (pj_expression p')) (apply_projection_permission sel session p)"
proof (rule sv.extendsI)
  fix sv p' sv'
  assume sv: "sv_ok session sv" and run: "apply_projection_permission sel session p sv = Inr (p', sv')"
  have same: "reads_view sq session sel db (pj_expression p) u (pj_expression p')"
    if "p' = p" "validate_projection sel (regular_columns_of sel) p' = Inr ()" "\<And>c. pj_expression p \<noteq> Column c" for u
  proof -
    have plain: "reads_view sq session sel db e u e"
      if "validate_client_expression (regular_columns_of sel) e = Inr ()" "collect_expression_resources e = []" for e
      using plain_reads_view [OF ok that] .
    show ?thesis
    proof (cases "pj_expression p")
      case (RowNumber r pb ob)
      with that shape plain show ?thesis
        by (auto simp: validate_projection_def no_nested_def result_simps intro!: validate_row_number [OF ok])
    next
      case (CountAll r)
      with that show ?thesis by (simp add: reads_view_def)
    qed (use that run shape plain in
        \<open>auto simp: apply_projection_permission_def validate_projection_def no_nested_def result_simps\<close>)
  qed
  show "sv_ok session sv' \<and> sv_le sv sv' \<and> (\<forall>u. sv_le sv' u \<longrightarrow>
    validate_projection sel (regular_columns_of sel) p' = Inr () \<longrightarrow> reads_view sq session sel db (pj_expression p) u (pj_expression p'))"
  proof (cases "\<exists>column. pj_expression p = Column column")
    case False
    then have "p' = p \<and> sv' = sv"
      using run by (cases "pj_expression p") (auto simp: apply_projection_permission_def)
    with same False sv show ?thesis by (auto simp: sv_le_def)
  next
    case True
    then obtain column where column: "pj_expression p = Column column" by blast
    let ?c = "bc_id column"
    obtain policy where policy: "bt_get sel (cid_resource ?c) = Some policy"
      using run column by (auto simp: apply_projection_permission_def result_simps)
    show ?thesis
    proof (cases "?c \<in> sp_regular_columns policy")
      case True
      then have "?c \<in> regular_columns_of sel"
        using bt_get_set [OF policy] by (auto simp: regular_columns_of_def)
      moreover have "p' = p" "sv' = sv"
        using run column policy True by (auto simp: apply_projection_permission_def)
      ultimately show ?thesis
        using sv column by (auto simp: sv_le_def reads_view_def env_get_redact [OF ok])
    next
      case False
      then obtain q e where q: "bt_get (sp_conditional_columns policy) ?c = Some q"
        "instantiate_predicate session q sv = Inr (e, sv')" "pj_expression p' = ConditionalOutput (Column column) e"
        using run column policy by (auto simp: apply_projection_permission_def result_simps)
      have "predicate_of (cid_resource ?c) q"
        using policies_ok_get [OF ok policy] bt_get_set [OF q(1)] by (auto simp: policy_ok_def)
      note g = sv.extendsD [OF instantiate_predicate_refines [OF this] sv q(2)]
      show ?thesis
        using g(1,2) conditional_output_view [OF policy q(1) False refl] g(3) column q(3) by auto
    qed
  qed
qed

section \<open>The role's view\<close>

text \<open>The select policies of a bundle name columns of their own resource only.\<close>

definition select_policies_ok :: "policy_bundle \<Rightarrow> bool" where
  "select_policies_ok b = (\<forall>r role p. policy_for (pb_select b) r role = Some p \<longrightarrow> policy_ok r p)"

lemma select_policies_for_ok:
  assumes b: "select_policies_ok b" and run: "select_policies_for b s role = Inr (resources, sel)"
  shows "policies_ok sel" and "\<And>r p. bt_get sel r = Some p \<Longrightarrow> policy_for (pb_select b) r role = Some p"
    and "map fst sel = resources" and "sorted_wrt (<) resources"
    and "set resources = insert (bs_resource s) (jn_resource ` set (bs_joins s) \<union>
      (case bs_predicate s of None \<Rightarrow> {} | Some p \<Rightarrow> set (collect_expression_resources p)))"
proof -
  let ?rs = "dedup (sort (bs_resource s # map jn_resource (bs_joins s) @
    (case bs_predicate s of None \<Rightarrow> [] | Some p \<Rightarrow> collect_expression_resources p)))"
  have rs: "resources = ?rs" and all: "list_all2 (\<lambda>r e. \<exists>p. policy_for (pb_select b) r role = Some p \<and> (r, p) = e) resources sel"
    using run by (auto simp: select_policies_for_def Let_def result_simps)
  show fst: "map fst sel = resources" using all by (induction rule: list_all2_induct) auto
  show sorted: "sorted_wrt (<) resources" unfolding rs by (rule sorted_dedup, rule sorted_sort)
  have e: "policy_for (pb_select b) r role = Some p" if "(r, p) \<in> set sel" for r p
    using all that by (induction rule: list_all2_induct) auto
  then show "\<And>r p. bt_get sel r = Some p \<Longrightarrow> policy_for (pb_select b) r role = Some p" by (blast dest: bt_get_set)
  show "policies_ok sel"
    using b e sorted fst by (fastforce simp: policies_ok_def bt_ok_def select_policies_ok_def)
  show "set resources = insert (bs_resource s) (jn_resource ` set (bs_joins s) \<union>
      (case bs_predicate s of None \<Rightarrow> {} | Some p \<Rightarrow> set (collect_expression_resources p)))"
    unfolding rs set_dedup set_sort by (auto split: option.splits)
qed

lemma row_output_view:
  assumes ok: "policies_ok sel" and "validate_select sel s' = Inr ()" and "query_shape s"
    and ps: "list_all2 (\<lambda>p p'. reads_view sq session sel db (pj_expression p) sv (pj_expression p')) (bs_projections s) (bs_projections s')"
    and same: "bs_group_by s' = bs_group_by s" "bs_having s' = bs_having s" "bs_order_by s' = bs_order_by s"
  shows "row_output sq sv db s' env =
    row_output sq sv (nested_view sq session (bt_get sel) db) s (redact_env sq session sel env)"
proof -
  let ?reg = "regular_columns_of sel"
  have "\<forall>d \<in> set (bs_order_by s). validate_client_expression ?reg (od_expression d) = Inr ()"
    "\<forall>c \<in> set (bs_group_by s). bc_id c \<in> ?reg" "validate_optional ?reg (bs_having s) = Inr ()"
    using assms(2) same by (auto simp: validate_select_def Let_def result_simps)
  then have "\<forall>d \<in> set (bs_order_by s). reads_view sq session sel db (od_expression d) sv (od_expression d)"
    "\<forall>c \<in> set (bs_group_by s). env_get (redact_env sq session sel env) (bc_id c) = env_get env (bc_id c)"
    "\<forall>e. bs_having s = Some e \<longrightarrow> reads_view sq session sel db e sv e"
    using assms(3) by (auto simp: query_shape_def validate_optional_def intro!: plain_reads_view [OF ok] env_get_redact [OF ok])
  moreover have "map (\<lambda>p. eval sq sv db env (pj_expression p)) (bs_projections s') =
      map (\<lambda>p. eval sq sv (nested_view sq session (bt_get sel) db) (redact_env sq session sel env) (pj_expression p)) (bs_projections s)"
    using ps by (induction rule: list_all2_induct) (auto simp: reads_view_def)
  ultimately show ?thesis
    by (cases "bs_having s") (auto simp: row_output_def same reads_view_def)
qed

lemma compile_bound_select_view:
  assumes b: "select_policies_ok b" and run: "compile_bound_select b s session = Inr out" and shape: "query_shape s"
  shows "\<exists>s' pol. pp_statement (co_plan out) = Select s' \<and>
    pol = (\<lambda>r. if r \<in> set (ex_resources (co_explain out)) then policy_for (pb_select b) r (ts_role session) else None) \<and>
    sv_ok session (pp_server_values (co_plan out)) \<and>
    (\<forall>sq db. select_output sq (pp_server_values (co_plan out)) db db s' =
      select_output sq (pp_server_values (co_plan out)) (view sq session pol db) (nested_view sq session pol db) s)"
proof -
  obtain rs sel ps sv1 s2 sv where run: "select_policies_for b s (ts_role session) = Inr (rs, sel)"
    "apply_projection_permissions sel session (bs_projections s) [] = Inr (ps, sv1)"
    "validate_select sel (set_projections ps s) = Inr ()"
    "protect_rows sel session (set_projections ps s) sv1 = Inr (s2, sv)"
    and out: "pp_statement (co_plan out) = Select (apply_policy_limit s2 (policy_limit_of sel))"
      "pp_server_values (co_plan out) = sv" "ex_resources (co_explain out) = rs"
    using run by (auto simp: compile_bound_select_def result_simps Let_def)
  note sel = select_policies_for_ok [OF b run(1)]
  let ?s1 = "set_projections ps s" and ?s' = "apply_policy_limit s2 (policy_limit_of sel)"
  have pol: "bt_get sel = (\<lambda>r. if r \<in> set rs then policy_for (pb_select b) r (ts_role session) else None)" (is "_ = ?pol")
  proof
    fix r
    show "bt_get sel r = ?pol r"
      using sel(2) [of r] sel(3) bt_get_has [of sel r] unfolding bt_has_def set_map [symmetric]
      by (cases "bt_get sel r") auto
  qed
  have val: "validate_optional (regular_columns_of sel) (bs_predicate ?s1) = Inr ()"
    "\<forall>j \<in> set (bs_joins ?s1). validate_client_expression (regular_columns_of sel) (jn_on j) = Inr ()"
    "\<forall>p \<in> set ps. validate_projection sel (regular_columns_of sel) p = Inr ()"
    using run(3) by (auto simp: validate_select_def Let_def result_simps)
  have p: "sv_ok session sv1 \<and> (\<forall>u. sv_le sv1 u \<longrightarrow> list_all2 (\<lambda>p p'. reads_view sq session sel db (pj_expression p) u (pj_expression p')) (bs_projections s) ps)" for sq db
  proof -
    have "grows session (\<lambda>u ps'. list_all2 (\<lambda>p p'. validate_projection sel (regular_columns_of sel) p' = Inr () \<longrightarrow>
        reads_view sq session sel db (pj_expression p) u (pj_expression p')) (bs_projections s) ps')
      (traverse_st (apply_projection_permission sel session) (bs_projections s))"
      using shape by (intro sv.extends_traverse projection_view [OF sel(1)]) (simp add: query_shape_def)
    from sv.extendsD [OF this sv_ok_Nil run(2) [unfolded apply_projection_permissions_def]] show ?thesis
      using val(3) by (auto simp: list_all2_conv_all_nth)
  qed
  have from_s: "from_shape ?s1" using shape by (simp add: query_shape_def from_shape_def)
  have "select_output sq sv db db ?s' =
      select_output sq sv (view sq session (bt_get sel) db) (nested_view sq session (bt_get sel) db) s" for sq db
  proof -
    note rows = protect_rows_view [OF sel(1) _ run(4) val(1,2) from_s, of sq db, OF conjunct1 [OF p]]
    have r: "row_output sq sv db ?s' env =
        row_output sq sv (nested_view sq session (bt_get sel) db) s (redact_env sq session sel env)" for env
    proof -
      have "row_output sq sv db ?s' env = row_output sq sv db ?s1 env"
        using rows by (simp add: row_output_def)
      also have "\<dots> = row_output sq sv (nested_view sq session (bt_get sel) db) s (redact_env sq session sel env)"
        using rows p [of sq db] by (intro row_output_view [OF sel(1) run(3) shape]) auto
      finally show ?thesis .
    qed
    have w: "where_rows sq sv db db ?s' = where_rows sq sv db db s2"
      "where_rows sq sv d n ?s1 = where_rows sq sv d n s" for d n
      by (simp_all add: where_rows_def)
    have "select_output sq sv db db ?s' = map (row_output sq sv (nested_view sq session (bt_get sel) db) s)
        (map (redact_env sq session sel) (where_rows sq sv db db s2))"
      by (simp add: select_output_def w(1) r)
    with rows w(2) show ?thesis by (simp add: select_output_def)
  qed
  moreover have "sv_ok session sv"
    using protect_rows_view [OF sel(1) _ run(4) val(1,2) from_s, OF conjunct1 [OF p]] by blast
  ultimately show ?thesis using out pol by auto
qed

end
