(* ===== verification/Pol_Activate_Laws.thy ===== *)
theory Pol_Activate_Laws
  imports Pol_View_Select
begin

text \<open>
  What activation guarantees of a bundle (\<^verbatim>\<open>src/crates/policysql-policy/src/lib.rs\<close>): every predicate
  and permission names columns of its own resource, is well typed and can be instantiated for any
  session that has the values it asks for, and a preset never overlaps a column the caller may write.
\<close>

section \<open>Well-typed predicates\<close>

fun literal_ok :: "logical_type \<Rightarrow> logical_value \<Rightarrow> bool" where
  "literal_ok t (LV_String _) = (t \<in> {LT_String, LT_Date, LT_DateTime, LT_Instant})"
| "literal_ok t (LV_Boolean _) = (t = LT_Boolean)"
| "literal_ok t (LV_Int64 _) = (t \<in> {LT_Integer, LT_Int64})"
| "literal_ok t (LV_Number _) = (t = LT_Number)"
| "literal_ok t (LV_Bytes _) = (t = LT_Bytes)"
| "literal_ok t v = False"

definition operand_ok :: "nat \<Rightarrow> logical_type \<Rightarrow> policy_operand \<Rightarrow> bool" where
  "operand_ok r t operand = (case operand of
       PO_Session key \<Rightarrow> t = LT_String \<and> canonical_key key
     | PO_Literal v \<Rightarrow> literal_ok t v
     | PO_Column c \<Rightarrow> bc_type c = t \<and> cid_resource (bc_id c) = r)"

fun predicate_ok :: "nat \<Rightarrow> policy_predicate \<Rightarrow> bool" where
  "predicate_ok r (PP_Comparison c operator operand) =
     (cid_resource (bc_id c) = r \<and> operand_ok r (bc_type c) operand \<and> (operator = CO_Like \<longrightarrow> bc_type c = LT_String))"
| "predicate_ok r (PP_In c vs _) =
     (cid_resource (bc_id c) = r \<and> vs \<noteq> [] \<and> list_all (literal_ok (bc_type c)) vs)"
| "predicate_ok r (PP_IsNull c _) = (cid_resource (bc_id c) = r)"
| "predicate_ok r (PP_And ps) = (ps \<noteq> [] \<and> list_all (predicate_ok r) ps)"
| "predicate_ok r (PP_Or ps) = (ps \<noteq> [] \<and> list_all (predicate_ok r) ps)"
| "predicate_ok r (PP_Not p) = predicate_ok r p"

lemma operand_ok_of: "operand_ok r t operand \<Longrightarrow> operand_of r operand"
  by (cases operand) (auto simp: operand_ok_def operand_of_def)

lemma predicate_ok_of: "predicate_ok r p \<Longrightarrow> predicate_of r p"
  by (induction p) (auto simp: operand_ok_of list_all_iff)

lemma policy_column_ok:
  assumes "resource_ok r" and "policy_column r name usage = Inr c"
  shows "cid_resource (bc_id c) = rd_id r"
  using assms by (auto simp: policy_column_def bound_policy_column_def result_simps resource_column_ok)

lemma literal_for_type_ok: "literal_for_type v t = Inr l \<Longrightarrow> literal_ok t l"
  by (cases t) (auto simp: literal_for_type_def result_simps split: if_splits)

lemma session_key_new_ok: "session_key_new s = Inr k \<Longrightarrow> canonical_key k"
  by (auto simp: session_key_new_def split: if_splits)

lemma parse_operand_ok:
  assumes "resource_ok r" and "parse_operand v r t = Inr operand"
  shows "operand_ok (rd_id r) t operand"
  using assms policy_column_ok [OF assms(1)]
  by (auto simp: parse_operand_def operand_ok_def result_simps literal_for_type_ok session_key_new_ok
      split: option.splits if_splits)

lemma parse_in_ok: "traverse (\<lambda>v. literal_for_type v t) vs = Inr ls \<Longrightarrow> list_all (literal_ok t) ls"
  by (auto simp: result_simps list_all2_conv_all_nth list_all_length literal_for_type_ok)

lemma parse_comparison_ok:
  assumes r: "resource_ok r" and run: "parse_comparison name v r = Inr p"
  shows "predicate_ok (rd_id r) p"
proof -
  from run obtain c operator operand k where c: "policy_column r name U_PolicyFilter = Inr c"
    and m: "as_mapping v = Some [(operator, operand)]" "as_str operator = Some k"
    by (auto simp: parse_comparison_def result_simps)
  note col = policy_column_ok [OF r c]
  consider "k = ''is_null''" | "k \<noteq> ''is_null''" "k = ''in'' \<or> k = ''not_in''"
    | "k \<noteq> ''is_null''" "\<not> (k = ''in'' \<or> k = ''not_in'')" by blast
  then show ?thesis
  proof cases
    case 1
    with run c m col show ?thesis by (auto simp: parse_comparison_def single_entry_def result_simps)
  next
    case 2
    then obtain vs ls where "traverse (\<lambda>v. literal_for_type v (bc_type c)) vs = Inr ls" "vs \<noteq> []" "p = PP_In c ls (k = ''not_in'')"
      using run c m by (auto simp: parse_comparison_def single_entry_def result_simps split: if_splits)
    with col parse_in_ok show ?thesis by (auto simp: result_simps)
  next
    case 3
    then obtain op opd where "parse_operand operand r (bc_type c) = Inr opd" "op = CO_Like \<longrightarrow> bc_type c = LT_String"
      "p = PP_Comparison c op opd"
      using run c m by (auto simp: parse_comparison_def single_entry_def result_simps split: if_splits)
    with col parse_operand_ok [OF r] show ?thesis by simp
  qed
qed

lemma parse_predicate_ok:
  assumes "resource_ok r" and "parse_predicate r v = Inr p"
  shows "predicate_ok (rd_id r) p"
  using assms
proof (induction r v arbitrary: p rule: parse_predicate.induct)
  case (1 r v)
  from "1.prems"(2) obtain key body k where m: "as_mapping v = Some [(key, body)]" "as_str key = Some k"
    by (subst (asm) parse_predicate.simps) (auto split: option.splits list.splits)
  note run = "1.prems"(2) [unfolded parse_predicate.simps [of r v] m, simplified]
  consider "k = ''and'' \<or> k = ''or''" | "\<not> (k = ''and'' \<or> k = ''or'')" "k = ''not''"
    | "\<not> (k = ''and'' \<or> k = ''or'')" "k \<noteq> ''not''" by blast
  then show ?case
  proof cases
    case 1
    then obtain vs where vs: "as_sequence body = Some vs" "vs \<noteq> []"
      using run m by (auto split: option.splits if_splits)
    with 1 obtain ps where all: "traverse (parse_predicate r) vs = Inr ps" and p: "p = (if k = ''and'' then PP_And ps else PP_Or ps)"
      using run m by (auto simp: try_ok_Inr_iff simp del: traverse.simps)
    have "list_all (predicate_ok (rd_id r)) ps"
      using all by (rule traverse_each) (rule "1.IH"(1) [OF m(1) refl refl refl m(2) 1 vs(1,2) _ "1.prems"(1)])
    moreover have "ps \<noteq> []" using all vs(2) by (auto simp: result_simps)
    ultimately show ?thesis using p by auto
  next
    case 2
    then obtain q where "parse_predicate r body = Inr q" "p = PP_Not q"
      using run m by (auto simp: result_simps)
    with "1.IH"(2) [OF m(1) refl refl refl m(2) 2 "1.prems"(1)] show ?thesis by simp
  next
    case 3
    with run m "1.prems"(1) show ?thesis by (auto intro: parse_comparison_ok)
  qed
qed


section \<open>Well-formed bundles\<close>

definition select_policy_ok :: "nat \<Rightarrow> select_policy \<Rightarrow> bool" where
  "select_policy_ok r p = (sp_id p \<noteq> 0 \<and> predicate_ok r (sp_filter p) \<and>
     (\<forall>c \<in> sp_regular_columns p. cid_resource c = r) \<and>
     (\<forall>(c, q) \<in> set (sp_conditional_columns p). cid_resource c = r \<and> predicate_ok r q \<and> c \<notin> sp_regular_columns p))"

definition presets_ok :: "nat \<Rightarrow> column_id set \<Rightarrow> (column_id \<times> logical_type \<times> policy_operand) list \<Rightarrow> bool" where
  "presets_ok r columns presets = (bt_ok presets \<and> (\<forall>(c, t, operand) \<in> set presets.
     cid_resource c = r \<and> c \<notin> columns \<and> operand_ok r t operand \<and> (\<forall>d. operand \<noteq> PO_Column d)))"

definition insert_policy_ok :: "nat \<Rightarrow> insert_policy \<Rightarrow> bool" where
  "insert_policy_ok r p = (ip_id p \<noteq> 0 \<and> (\<forall>c \<in> ip_columns p. cid_resource c = r) \<and>
     presets_ok r (ip_columns p) (ip_presets p) \<and> predicate_ok r (ip_check p) \<and>
     (\<forall>c \<in> ip_returning p. cid_resource c = r))"

definition update_policy_ok :: "nat \<Rightarrow> update_policy \<Rightarrow> bool" where
  "update_policy_ok r p = (up_id p \<noteq> 0 \<and> (\<forall>c \<in> up_columns p. cid_resource c = r) \<and>
     presets_ok r (up_columns p) (up_presets p) \<and> predicate_ok r (up_filter p) \<and> predicate_ok r (up_check p) \<and>
     (\<forall>c \<in> up_returning p. cid_resource c = r))"

definition delete_policy_ok :: "nat \<Rightarrow> delete_policy \<Rightarrow> bool" where
  "delete_policy_ok r p = (dp_id p \<noteq> 0 \<and> predicate_ok r (dp_filter p) \<and> (\<forall>c \<in> dp_returning p. cid_resource c = r))"

definition policy_map_ok :: "(nat \<Rightarrow> 'p \<Rightarrow> bool) \<Rightarrow> 'p policy_map \<Rightarrow> bool" where
  "policy_map_ok ok m = (\<forall>r role p. policy_for m r role = Some p \<longrightarrow> ok r p)"

definition bundle_ok :: "policy_bundle \<Rightarrow> bool" where
  "bundle_ok b = (policy_map_ok select_policy_ok (pb_select b) \<and> policy_map_ok insert_policy_ok (pb_insert b) \<and>
     policy_map_ok update_policy_ok (pb_update b) \<and> policy_map_ok delete_policy_ok (pb_delete b))"

definition catalog_ok :: "catalog \<Rightarrow> bool" where
  "catalog_ok c = (\<forall>(k, r) \<in> set (cat_resources c). resource_ok r)"

lemma catalog_resource_ok: "catalog_ok c \<Longrightarrow> catalog_resource c name = Some r \<Longrightarrow> resource_ok r"
  by (auto simp: catalog_ok_def catalog_resource_def dest: bt_get_set)

lemma catalog_new_ok:
  assumes "catalog_new snapshot resources = Inr c" and "\<forall>r \<in> set resources. resource_ok r"
  shows "catalog_ok c"
proof -
  obtain m where m: "fold_st (\<lambda>r resolved. let key = canonical_name (rd_name r) in
       if bt_has resolved key then Inl (DuplicateResource key) else Inr (bt_insert key r resolved)) resources [] = Inr m"
    "c = \<lparr>cat_snapshot = snapshot, cat_resources = m\<rparr>"
    using assms(1) by (auto simp: catalog_new_def result_simps split: if_splits)
  have "\<forall>(k, r) \<in> set m. resource_ok r"
    by (rule fold_st_keeps [OF m(1)]) (use assms(2) in \<open>auto simp: Let_def dest!: bt_set_insert split: if_splits\<close>)
  with m(2) show ?thesis by (simp add: catalog_ok_def)
qed

subsection \<open>Operations\<close>

lemma policy_id_new_ok: "policy_id_new n = Inr i \<Longrightarrow> i \<noteq> 0"
  by (auto simp: policy_id_new_def numeric_id_new_def result_simps split: if_splits)

lemma activate_columns_ok:
  assumes "resource_ok r" and "activate_columns r names = Inr cs"
  shows "\<forall>c \<in> cs. cid_resource c = rd_id r"
  using assms(2) unfolding activate_columns_def
  by (rule fold_st_keeps) (use assms(1) in \<open>auto simp: insert_column_def result_simps resource_column_ok split: if_splits\<close>)

lemma activate_returning_ok:
  assumes "resource_ok r" and "activate_returning raw r = Inr cs"
  shows "\<forall>c \<in> cs. cid_resource c = rd_id r"
  using assms by (auto simp: activate_returning_def activate_columns_ok split: option.splits if_splits)

lemma activate_select_ok:
  assumes r: "resource_ok r" and run: "activate_select raw r i = Inr p"
  shows "select_policy_ok (rd_id r) p"
proof -
  obtain names regular conditional where fold: "fold_st (activate_select_column r) (rs_columns raw) ({}, {}, []) = Inr (names, regular, conditional)"
    and rest: "parse_predicate r (rs_filter raw) = Inr (sp_filter p)" "sp_regular_columns p = regular"
      "sp_conditional_columns p = conditional" "policy_id_new i = Inr (sp_id p)"
    using run by (auto simp: activate_select_def result_simps split: if_splits)
  let ?I = "\<lambda>(names, regular, conditional). regular \<subseteq> names \<and> fst ` set conditional \<subseteq> names \<and> (\<forall>c \<in> regular. cid_resource c = rd_id r) \<and>
    (\<forall>(c, q) \<in> set conditional. cid_resource c = rd_id r \<and> predicate_ok (rd_id r) q \<and> c \<notin> regular)"
  have "?I (names, regular, conditional)"
  proof (rule fold_st_keeps [OF fold])
    fix x s t
    assume I: "?I s" and step: "activate_select_column r x s = Inr t"
    obtain n rg cd where s: "s = (n, rg, cd)" by (cases s)
    show "?I t"
    proof (cases x)
      case (RC_Regular name)
      then obtain c where c: "policy_column r name U_Projection = Inr c" "bc_id c \<notin> n" "t = (insert (bc_id c) n, insert (bc_id c) rg, cd)"
        using step s by (auto simp: activate_select_column_def result_simps split: if_splits)
      with I s policy_column_ok [OF r c(1)] show ?thesis by fastforce
    next
      case (RC_Conditional name vis deny)
      then obtain c q where c: "policy_column r name U_Projection = Inr c" "bc_id c \<notin> n" "parse_predicate r vis = Inr q"
        "t = (insert (bc_id c) n, rg, bt_insert (bc_id c) q cd)"
        using step s by (auto simp: activate_select_column_def result_simps split: if_splits)
      have "bc_id c \<notin> rg" "fst ` set (bt_insert (bc_id c) q cd) \<subseteq> insert (bc_id c) n" using I s c(2) by auto
      with I s c policy_column_ok [OF r c(1)] parse_predicate_ok [OF r c(3)] show ?thesis
        by (auto dest!: bt_set_insert)
    qed
  qed simp
  with rest parse_predicate_ok [OF r rest(1)] policy_id_new_ok [OF rest(4)] show ?thesis
    by (simp add: select_policy_ok_def)
qed

lemma parse_preset_ok:
  assumes r: "resource_ok r" and run: "parse_preset d v r t n = Inr operand"
  shows "operand_ok (rd_id r) t operand"
proof (cases "t = LT_Bytes")
  case False
  with run show ?thesis by (auto simp: parse_preset_def intro: parse_operand_ok [OF r])
next
  case True
  then obtain literal where l: "(case bytes_decode d literal n of Inr b \<Rightarrow> Inr (PO_Literal (LV_Bytes b))
      | Inl TooLarge \<Rightarrow> Inl BytesPresetTooLarge | Inl InvalidEncoding \<Rightarrow> Inl IncompatibleOperand) = Inr operand"
    using run unfolding parse_preset_def by (auto simp: result_simps)
  show ?thesis
  proof (cases "bytes_decode d literal n")
    case (Inl e)
    with l show ?thesis by (cases e) auto
  qed (use l True in \<open>auto simp: operand_ok_def\<close>)
qed

lemma not_column_Inr [result_simps]:
  "(case operand of PO_Column c \<Rightarrow> Inl e | _ \<Rightarrow> Inr x) = Inr y \<longleftrightarrow> (\<forall>c. operand \<noteq> PO_Column c) \<and> x = y"
  by (cases operand) auto

lemma activate_presets_ok:
  assumes r: "resource_ok r" and run: "fold_st (activate_preset d r n columns) raw [] = Inr presets"
  shows "presets_ok (rd_id r) columns presets"
proof (rule fold_st_keeps [OF run])
  fix x m m'
  assume I: "presets_ok (rd_id r) columns m" and step: "activate_preset d r n columns x m = Inr m'"
  obtain name v where x: "x = (name, v)" by fastforce
  from step x obtain c operand where c: "resource_column r name = Some c" "cd_id c \<notin> columns"
    "parse_preset d v r (vd_logical_type (cd_value c)) n = Inr operand" "\<forall>e. operand \<noteq> PO_Column e"
    "m' = bt_insert (cd_id c) (vd_logical_type (cd_value c), operand) m"
    by (auto simp: activate_preset_def result_simps split: if_splits)
  then show "presets_ok (rd_id r) columns m'"
    using I resource_column_ok [OF r c(1)] parse_preset_ok [OF r c(3)]
    by (auto simp: presets_ok_def dest!: bt_set_insert)
qed (simp add: presets_ok_def)

lemma activate_insert_ok:
  assumes r: "resource_ok r" and run: "activate_insert d raw r i n = Inr p"
  shows "insert_policy_ok (rd_id r) p"
  using run activate_columns_ok [OF r] activate_presets_ok [OF r] parse_predicate_ok [OF r] activate_returning_ok [OF r] policy_id_new_ok
  by (auto simp: activate_insert_def insert_policy_ok_def result_simps split: if_splits)

lemma activate_update_ok:
  assumes r: "resource_ok r" and run: "activate_update d raw r i n = Inr p"
  shows "update_policy_ok (rd_id r) p"
  using run activate_columns_ok [OF r] activate_presets_ok [OF r] parse_predicate_ok [OF r] activate_returning_ok [OF r] policy_id_new_ok
  by (auto simp: activate_update_def update_policy_ok_def result_simps split: if_splits)

lemma activate_delete_ok:
  assumes r: "resource_ok r" and run: "activate_delete raw r i = Inr p"
  shows "delete_policy_ok (rd_id r) p"
  using run parse_predicate_ok [OF r] activate_returning_ok [OF r] policy_id_new_ok
  by (auto simp: activate_delete_def delete_policy_ok_def result_simps)


subsection \<open>The bundle\<close>

lemma policy_for_insert:
  "policy_for (bt_insert r roles m) r' role = (if r' = r then bt_get roles role else policy_for m r' role)"
  by (simp add: policy_for_def)

lemma policy_map_ok_insert:
  assumes "policy_map_ok ok m" and "\<forall>(role, p) \<in> set roles. ok r p"
  shows "policy_map_ok ok (bt_insert r roles m)"
  using assms by (auto simp: policy_map_ok_def policy_for_insert dest: bt_get_set)

lemma add_policy_if_ok:
  assumes "add_policy_if act raw role i roles = Inr (i', roles')" and "\<forall>(role, p) \<in> set roles. ok p"
    and "\<And>raw i p. act raw i = Inr p \<Longrightarrow> ok p"
  shows "\<forall>(role, p) \<in> set roles'. ok p"
  using assms by (auto simp: add_policy_if_def add_policy_def result_simps dest!: bt_set_insert split: option.splits if_splits)

definition role_maps_ok :: "nat \<Rightarrow> role_maps \<Rightarrow> bool" where
  "role_maps_ok r m = ((\<forall>(role, p) \<in> set (rm_select m). select_policy_ok r p) \<and>
     (\<forall>(role, p) \<in> set (rm_insert m). insert_policy_ok r p) \<and>
     (\<forall>(role, p) \<in> set (rm_update m). update_policy_ok r p) \<and>
     (\<forall>(role, p) \<in> set (rm_delete m). delete_policy_ok r p))"

lemma activate_role_ok:
  assumes r: "resource_ok r" and ok: "role_maps_ok (rd_id r) m" and run: "activate_role d n r x m = Inr m'"
  shows "role_maps_ok (rd_id r) m'"
proof -
  obtain name raw where x: "x = (name, raw)" by fastforce
  obtain role i1 sel i2 ins i3 upd i4 del where
    run: "add_policy_if (\<lambda>raw. activate_select raw r) (rl_select raw) role (rm_next_id m) (rm_select m) = Inr (i1, sel)"
    "add_policy_if (\<lambda>raw i. activate_insert d raw r i n) (rl_insert raw) role i1 (rm_insert m) = Inr (i2, ins)"
    "add_policy_if (\<lambda>raw i. activate_update d raw r i n) (rl_update raw) role i2 (rm_update m) = Inr (i3, upd)"
    "add_policy_if (\<lambda>raw. activate_delete raw r) (rl_delete raw) role i3 (rm_delete m) = Inr (i4, del)"
    and m': "m' = \<lparr>rm_next_id = i4, rm_select = sel, rm_insert = ins, rm_update = upd, rm_delete = del\<rparr>"
    using run x by (auto simp: activate_role_def result_simps)
  have "\<forall>(role, p) \<in> set sel. select_policy_ok (rd_id r) p"
    by (rule add_policy_if_ok [OF run(1)]) (use ok activate_select_ok [OF r] in \<open>auto simp: role_maps_ok_def\<close>)
  moreover have "\<forall>(role, p) \<in> set ins. insert_policy_ok (rd_id r) p"
    by (rule add_policy_if_ok [OF run(2)]) (use ok activate_insert_ok [OF r] in \<open>auto simp: role_maps_ok_def\<close>)
  moreover have "\<forall>(role, p) \<in> set upd. update_policy_ok (rd_id r) p"
    by (rule add_policy_if_ok [OF run(3)]) (use ok activate_update_ok [OF r] in \<open>auto simp: role_maps_ok_def\<close>)
  moreover have "\<forall>(role, p) \<in> set del. delete_policy_ok (rd_id r) p"
    by (rule add_policy_if_ok [OF run(4)]) (use ok activate_delete_ok [OF r] in \<open>auto simp: role_maps_ok_def\<close>)
  ultimately show ?thesis using m' by (simp add: role_maps_ok_def)
qed

definition bundle_maps_ok :: "bundle_maps \<Rightarrow> bool" where
  "bundle_maps_ok m = (policy_map_ok select_policy_ok (bm_select m) \<and> policy_map_ok insert_policy_ok (bm_insert m) \<and>
     policy_map_ok update_policy_ok (bm_update m) \<and> policy_map_ok delete_policy_ok (bm_delete m))"

lemma activate_resource_ok:
  assumes c: "catalog_ok c" and ok: "bundle_maps_ok m" and run: "activate_resource d n c x m = Inr m'"
  shows "bundle_maps_ok m'"
proof -
  obtain name raw where x: "x = (name, raw)" by fastforce
  obtain r roles where r: "catalog_resource c name = Some r"
    and roles: "fold_st (activate_role d n r) (rre_roles raw)
      \<lparr>rm_next_id = bm_next_id m, rm_select = [], rm_insert = [], rm_update = [], rm_delete = []\<rparr> = Inr roles"
    and m': "bm_select m' = bt_insert (rd_id r) (rm_select roles) (bm_select m)"
      "bm_insert m' = bt_insert (rd_id r) (rm_insert roles) (bm_insert m)"
      "bm_update m' = bt_insert (rd_id r) (rm_update roles) (bm_update m)"
      "bm_delete m' = bt_insert (rd_id r) (rm_delete roles) (bm_delete m)"
    using run x by (auto simp: activate_resource_def result_simps split: if_splits)
  have "role_maps_ok (rd_id r) roles"
  proof (rule fold_st_keeps [OF roles])
    fix x u v
    assume "role_maps_ok (rd_id r) u" and "activate_role d n r x u = Inr v"
    then show "role_maps_ok (rd_id r) v" by (rule activate_role_ok [OF catalog_resource_ok [OF c r]])
  qed (simp add: role_maps_ok_def)
  with ok show ?thesis
    unfolding bundle_maps_ok_def m' role_maps_ok_def by (simp add: policy_map_ok_insert)
qed

lemma activate_with_value_limit_ok:
  assumes c: "catalog_ok c" and run: "activate_with_value_limit d from_yaml y c snapshot n = Inr b"
  shows "bundle_ok b"
proof -
  obtain raw where raw: "from_yaml y = Some raw"
    using run by (auto simp: activate_with_value_limit_def result_simps)
  with run obtain m where m: "fold_st (activate_resource d n c) (rb_resources raw)
      \<lparr>bm_next_id = 1, bm_select = [], bm_insert = [], bm_update = [], bm_delete = []\<rparr> = Inr m"
    and b: "pb_select b = bm_select m" "pb_insert b = bm_insert m" "pb_update b = bm_update m" "pb_delete b = bm_delete m"
    by (auto simp: activate_with_value_limit_def result_simps split: if_splits)
  have "bundle_maps_ok m"
  proof (rule fold_st_keeps [OF m])
    show "bundle_maps_ok \<lparr>bm_next_id = 1, bm_select = [], bm_insert = [], bm_update = [], bm_delete = []\<rparr>"
      by (simp add: bundle_maps_ok_def policy_map_ok_def policy_for_def)
  qed (use c in \<open>auto intro: activate_resource_ok\<close>)
  with b show ?thesis by (simp add: bundle_ok_def bundle_maps_ok_def)
qed

lemma select_policy_ok_policy: "select_policy_ok r p \<Longrightarrow> policy_ok r p"
  by (fastforce simp: select_policy_ok_def policy_ok_def intro: predicate_ok_of)

lemma bundle_select_policies_ok: "bundle_ok b \<Longrightarrow> select_policies_ok b"
  by (auto simp: bundle_ok_def policy_map_ok_def select_policies_ok_def intro: select_policy_ok_policy)

end
