(* ===== verification/Pol_Demo.thy ===== *)
theory Pol_Demo
  imports Pol_Activate_Laws
begin

text \<open>
  A concrete deployment for the witnesses of the policy compiler: two resources, a role that may
  read and write the projects of its own tenant, a session, and statements of it.
\<close>

definition demo_text_column :: value_descriptor where
  "demo_text_column = \<lparr>vd_logical_type = LT_String, vd_representation = VR_String, vd_nullable = False,
     vd_format = None, vd_storage = None, vd_constraints = None, vd_json_schema = None\<rparr>"

definition demo_column :: "nat \<Rightarrow> nat \<Rightarrow> string \<Rightarrow> column_descriptor" where
  "demo_column r i name = \<lparr>cd_id = ColumnId r i, cd_name = name, cd_value = demo_text_column, cd_declared_type_bytes = 0\<rparr>"

definition demo_projects :: resource_descriptor where
  "demo_projects = \<lparr>rd_id = 1, rd_name = ''projects'', rd_source = ''projects'', rd_columns =
     [(''name'', demo_column 1 1 ''name''), (''note'', demo_column 1 2 ''note''), (''tenant'', demo_column 1 0 ''tenant'')]\<rparr>"

definition demo_secrets :: resource_descriptor where
  "demo_secrets = \<lparr>rd_id = 2, rd_name = ''secrets'', rd_source = ''secrets'', rd_columns =
     [(''owner'', demo_column 2 0 ''owner'')]\<rparr>"

definition demo_catalog :: catalog where
  "demo_catalog = \<lparr>cat_snapshot = ''s1'', cat_resources = [(''projects'', demo_projects), (''secrets'', demo_secrets)]\<rparr>"

definition y_map :: "string \<Rightarrow> yaml \<Rightarrow> yaml" where
  "y_map k v = Y_Mapping [(Y_String k, v)]"

definition demo_rule :: "string \<Rightarrow> yaml" where
  "demo_rule column = y_map column (y_map ''eq'' (y_map ''session'' (Y_String ''tenant_id'')))"

definition demo_raw :: raw_bundle where
  "demo_raw = \<lparr>rb_version = 1, rb_resources =
     [(''projects'', \<lparr>rre_roles = [(''member'',
         \<lparr>rl_select = Some \<lparr>rs_columns = [RC_Regular ''name'', RC_Conditional ''note'' (demo_rule ''note'') Y_Null],
             rs_filter = demo_rule ''tenant'', rs_limit = Some 10, rs_allow_aggregations = False, rs_allow_windows = False\<rparr>,
          rl_insert = Some \<lparr>ri_columns = [''name''], ri_presets = [(''tenant'', y_map ''session'' (Y_String ''tenant_id''))],
             ri_check = demo_rule ''tenant'', ri_returning = None\<rparr>,
          rl_update = Some \<lparr>ru_columns = [''name''], ru_presets = [(''note'', y_map ''literal'' (Y_String ''x''))],
             ru_filter = demo_rule ''tenant'', ru_check = demo_rule ''tenant'', ru_returning = Some \<lparr>rr_columns = [''name'']\<rparr>\<rparr>,
          rl_delete = Some \<lparr>rdl_filter = demo_rule ''tenant'', rdl_returning = None\<rparr>\<rparr>)]\<rparr>),
      (''secrets'', \<lparr>rre_roles = [(''member'',
         \<lparr>rl_select = Some \<lparr>rs_columns = [RC_Regular ''owner''], rs_filter = demo_rule ''owner'', rs_limit = None,
             rs_allow_aggregations = False, rs_allow_windows = False\<rparr>,
          rl_insert = None, rl_update = None, rl_delete = None\<rparr>)]\<rparr>)],
     rb_commit_checks = []\<rparr>"

definition demo_session :: trusted_session where
  "demo_session = \<lparr>ts_role = ''member'', ts_values = [(''role'', ''member''), (''subject_id'', ''u1''), (''tenant_id'', ''t1'')]\<rparr>"

definition demo_ref :: "nat \<Rightarrow> nat \<Rightarrow> column_usage \<Rightarrow> bound_column" where
  "demo_ref r i usage = \<lparr>bc_id = ColumnId r i, bc_type = LT_String, bc_usage = usage\<rparr>"

definition demo_predicate :: "nat \<Rightarrow> nat \<Rightarrow> policy_predicate" where
  "demo_predicate r i = PP_Comparison (demo_ref r i U_PolicyFilter) CO_Equal (PO_Session ''tenant_id'')"

definition demo_select_policy :: select_policy where
  "demo_select_policy = \<lparr>sp_id = 1, sp_regular_columns = {ColumnId 1 1}, sp_conditional_columns = [(ColumnId 1 2, demo_predicate 1 2)],
     sp_filter = demo_predicate 1 0, sp_limit = Some 10, sp_allow_aggregations = False, sp_allow_windows = False\<rparr>"

definition demo_insert_policy :: insert_policy where
  "demo_insert_policy = \<lparr>ip_id = 2, ip_columns = {ColumnId 1 1},
     ip_presets = [(ColumnId 1 0, LT_String, PO_Session ''tenant_id'')], ip_check = demo_predicate 1 0, ip_returning = {}\<rparr>"

definition demo_update_policy :: update_policy where
  "demo_update_policy = \<lparr>up_id = 3, up_columns = {ColumnId 1 1},
     up_presets = [(ColumnId 1 2, LT_String, PO_Literal (LV_String ''x''))], up_filter = demo_predicate 1 0,
     up_check = demo_predicate 1 0, up_returning = {ColumnId 1 1}\<rparr>"

definition demo_delete_policy :: delete_policy where
  "demo_delete_policy = \<lparr>dp_id = 4, dp_filter = demo_predicate 1 0, dp_returning = {}\<rparr>"

definition demo_secrets_policy :: select_policy where
  "demo_secrets_policy = \<lparr>sp_id = 5, sp_regular_columns = {ColumnId 2 0}, sp_conditional_columns = [],
     sp_filter = demo_predicate 2 0, sp_limit = None, sp_allow_aggregations = False, sp_allow_windows = False\<rparr>"

definition demo_bundle :: policy_bundle where
  "demo_bundle = \<lparr>pb_snapshot = ''s1'',
     pb_select = [(1, [(''member'', demo_select_policy)]), (2, [(''member'', demo_secrets_policy)])],
     pb_insert = [(1, [(''member'', demo_insert_policy)]), (2, [])],
     pb_update = [(1, [(''member'', demo_update_policy)]), (2, [])],
     pb_delete = [(1, [(''member'', demo_delete_policy)]), (2, [])],
     pb_commit_checks = [], pb_quoted_string_literals = {}\<rparr>"

lemmas demo_defs = demo_text_column_def demo_column_def demo_projects_def demo_secrets_def demo_catalog_def y_map_def
  demo_rule_def demo_raw_def demo_session_def demo_ref_def demo_predicate_def demo_select_policy_def
  demo_insert_policy_def demo_update_policy_def demo_delete_policy_def demo_secrets_policy_def demo_bundle_def

lemmas parse_defs = parse_predicate.simps parse_comparison_def parse_operand_def parse_operator_def policy_column_def
  bound_policy_column_def literal_for_type_def mapping_value_def single_entry_def resource_column_def canonical_name_def
  ascii_lower_def byte_defs as_mapping_def as_str_def as_sequence_def as_bool_def yaml_is_null_def bt_get_def
  session_key_new_def canonical_key_def map_err_def

lemma demo_rule_parsed:
  "parse_predicate demo_projects (demo_rule ''tenant'') = Inr (demo_predicate 1 0)"
  "parse_predicate demo_projects (demo_rule ''note'') = Inr (demo_predicate 1 2)"
  "parse_predicate demo_secrets (demo_rule ''owner'') = Inr (demo_predicate 2 0)"
  by (simp_all add: demo_defs parse_defs)


lemma demo_columns:
  "resource_column demo_projects ''name'' = Some (demo_column 1 1 ''name'')"
  "resource_column demo_projects ''note'' = Some (demo_column 1 2 ''note'')"
  "resource_column demo_projects ''tenant'' = Some (demo_column 1 0 ''tenant'')"
  "resource_column demo_secrets ''owner'' = Some (demo_column 2 0 ''owner'')"
  by (simp_all add: demo_projects_def demo_secrets_def resource_column_def canonical_name_def ascii_lower_def byte_defs bt_get_def)

lemma demo_resources:
  "catalog_resource demo_catalog ''projects'' = Some demo_projects"
  "catalog_resource demo_catalog ''secrets'' = Some demo_secrets"
  by (simp_all add: demo_catalog_def catalog_resource_def canonical_name_def ascii_lower_def byte_defs bt_get_def)

lemma demo_select_activated:
  "activate_select \<lparr>rs_columns = [RC_Regular ''name'', RC_Conditional ''note'' (demo_rule ''note'') Y_Null],
     rs_filter = demo_rule ''tenant'', rs_limit = Some 10, rs_allow_aggregations = False, rs_allow_windows = False\<rparr>
     demo_projects 1 = Inr demo_select_policy"
  "activate_select \<lparr>rs_columns = [RC_Regular ''owner''], rs_filter = demo_rule ''owner'', rs_limit = None,
     rs_allow_aggregations = False, rs_allow_windows = False\<rparr> demo_secrets 5 = Inr demo_secrets_policy"
  by (simp_all add: activate_select_def activate_select_column_def policy_column_def demo_columns demo_rule_parsed
      bound_policy_column_def demo_column_def demo_text_column_def policy_id_new_def numeric_id_new_def map_err_def
      demo_select_policy_def demo_secrets_policy_def)

lemma demo_mutations_activated:
  "activate_insert d \<lparr>ri_columns = [''name''], ri_presets = [(''tenant'', y_map ''session'' (Y_String ''tenant_id''))],
     ri_check = demo_rule ''tenant'', ri_returning = None\<rparr> demo_projects 2 n = Inr demo_insert_policy"
  "activate_update d \<lparr>ru_columns = [''name''], ru_presets = [(''note'', y_map ''literal'' (Y_String ''x''))],
     ru_filter = demo_rule ''tenant'', ru_check = demo_rule ''tenant'',
     ru_returning = Some \<lparr>rr_columns = [''name'']\<rparr>\<rparr> demo_projects 3 n = Inr demo_update_policy"
  "activate_delete \<lparr>rdl_filter = demo_rule ''tenant'', rdl_returning = None\<rparr> demo_projects 4 = Inr demo_delete_policy"
  by (simp_all add: activate_insert_def activate_update_def activate_delete_def activate_columns_def insert_column_def
      activate_preset_def activate_returning_def parse_preset_def parse_operand_def literal_for_type_def yaml_is_null_def
      as_mapping_def as_str_def mapping_value_def y_map_def session_key_new_def canonical_key_def byte_defs
      demo_columns demo_rule_parsed demo_column_def demo_text_column_def policy_id_new_def numeric_id_new_def map_err_def
      demo_insert_policy_def demo_update_policy_def demo_delete_policy_def)

lemma demo_ids:
  "checked_add u64_max 1 1 = Some 2" "checked_add u64_max 2 1 = Some 3" "checked_add u64_max 3 1 = Some 4"
  "checked_add u64_max 4 1 = Some 5" "checked_add u64_max 5 1 = Some 6" "rd_id demo_projects = 1" "rd_id demo_secrets = 2"
  by (simp_all add: checked_add_def u64_max_def demo_projects_def demo_secrets_def)

lemma demo_activated:
  "activate_with_value_limit (\<lambda>_. None) (\<lambda>_. Some demo_raw) [] demo_catalog ''s1'' 10 = Inr demo_bundle"
proof -
  have "quoted_policy_literals (pb_select demo_bundle) (pb_insert demo_bundle) (pb_update demo_bundle) (pb_delete demo_bundle) = {}"
    by (simp add: quoted_policy_literals_def policies_of_def demo_bundle_def demo_select_policy_def demo_insert_policy_def
        demo_update_policy_def demo_delete_policy_def demo_secrets_policy_def demo_predicate_def collect_quoted_operand_def
        collect_quoted_value_def)
  then show ?thesis
    by (simp add: activate_with_value_limit_def demo_raw_def activate_commit_checks_def activate_resource_def demo_resources
        activate_role_def add_policy_if_def add_policy_def role_name_new_def canonical_key_def byte_defs map_err_def
        demo_select_activated demo_mutations_activated demo_ids bt_has_def demo_bundle_def del: One_nat_def)
qed


lemma demo_catalog_ok: "catalog_ok demo_catalog"
  by (simp add: catalog_ok_def demo_catalog_def resource_ok_def demo_projects_def demo_secrets_def demo_column_def bt_ok_def
      canonical_name_def ascii_lower_def byte_defs)

text \<open>A database whose comparison is equality; the other primitives are constants.\<close>

definition demo_sql :: sql where
  "demo_sql = \<lparr>sq_compare = (\<lambda>operator a b. LV_Boolean (a = b)), sq_in = (\<lambda>a bs negated. LV_Boolean (a \<in> set bs)),
     sq_glob = (\<lambda>a b. LV_Null), sq_least = (\<lambda>a b. case (a, b) of (LV_Int64 i, LV_Int64 j) \<Rightarrow> LV_Int64 (min i j) | _ \<Rightarrow> LV_Null),
     sq_concat = (\<lambda>a b. LV_Null), sq_cast_text = (\<lambda>a. a), sq_function = (\<lambda>f as. LV_Null), sq_truth_other = (\<lambda>v. Some False),
     sq_client = (\<lambda>n. LV_String n), sq_count = (\<lambda>r. LV_Null), sq_row_number = (\<lambda>r a b. LV_Null)\<rparr>"

definition demo_secret_row :: "string \<Rightarrow> row" where
  "demo_secret_row v = (\<lambda>_. LV_String v)"

section \<open>Statements\<close>

text \<open>\<open>SELECT name, note FROM projects WHERE EXISTS (SELECT 1 FROM secrets WHERE owner = :who)\<close>.\<close>

definition demo_nested :: "bound_expr option \<Rightarrow> bound_expr option \<Rightarrow> bound_expr" where
  "demo_nested pr li = Exists (BoundSelect 2 None [] [BoundProjection (Literal (LV_Int64 1)) ''exists_value''] pr [] None [] li None)"

definition demo_read :: bound_select where
  "demo_read = BoundSelect 1 None []
     [BoundProjection (Column (demo_ref 1 1 U_Projection)) ''name'', BoundProjection (Column (demo_ref 1 2 U_Projection)) ''note'']
     (Some (demo_nested (Some (Equal (Column (demo_ref 2 0 U_Filter)) (ClientParameter ''who'' LT_String))) None))
     [] None [] None None"

definition demo_filter :: "nat \<Rightarrow> nat \<Rightarrow> bound_expr" where
  "demo_filter r i = Equal (Column (demo_ref r i U_PolicyFilter)) (ServerParameter ''__policysql_session_tenant_id'' LT_String)"

definition demo_protected :: bound_select where
  "demo_protected = BoundSelect 1 None []
     [BoundProjection (Column (demo_ref 1 1 U_Projection)) ''name'',
      BoundProjection (ConditionalOutput (Column (demo_ref 1 2 U_Projection)) (demo_filter 1 2)) ''note'']
     (Some (And (demo_nested (Some (And (Equal (Column (demo_ref 2 0 U_Filter)) (ClientParameter ''who'' LT_String))
        (demo_filter 2 0))) None) (demo_filter 1 0)))
     [] None [] (Some (Literal (LV_Int64 10))) None"

definition demo_sv :: server_values where
  "demo_sv = [(''__policysql_session_tenant_id'', LV_String ''t1'')]"

definition demo_plan :: "bound_statement \<Rightarrow> nat list \<Rightarrow> protected_plan" where
  "demo_plan statement policies = \<lparr>pp_statement = statement, pp_applied_policies = policies, pp_server_values = demo_sv,
     pp_policy_limit = Some 10, pp_operation_check = None, pp_expected_affected_rows = None, pp_expected_result_rows = None,
     pp_string_literals = \<lparr>slw_client = [], slw_policy = {}\<rparr>\<rparr>"

definition demo_output :: compile_output where
  "demo_output = \<lparr>co_plan = demo_plan (Select demo_protected) [1, 5],
     co_explain = \<lparr>ex_operation = OpSelect, ex_resource = Some 1, ex_resources = [1, 2],
       ex_referenced_columns = [(1, {ColumnId 1 1, ColumnId 1 2}), (2, {ColumnId 2 0})], ex_applied_policies = [1, 5],
       ex_policy_limit = Some 10\<rparr>\<rparr>"

lemma demo_instantiated:
  "sv = [] \<or> sv = demo_sv \<Longrightarrow> instantiate_predicate demo_session (demo_predicate r i) sv = Inr (demo_filter r i, demo_sv)"
  by (auto simp: demo_predicate_def demo_ref_def instantiate_operand_def demo_session_def session_get_def bt_get_def
      from_trusted_suffix_def canonical_key_def byte_defs map_err_def SERVER_PARAMETER_PREFIX_def demo_filter_def demo_sv_def)

lemma demo_policies:
  "policy_for (pb_select demo_bundle) 1 ''member'' = Some demo_select_policy"
  "policy_for (pb_select demo_bundle) 2 ''member'' = Some demo_secrets_policy"
  "policy_for (pb_insert demo_bundle) 1 ''member'' = Some demo_insert_policy"
  "policy_for (pb_update demo_bundle) 1 ''member'' = Some demo_update_policy"
  "policy_for (pb_delete demo_bundle) 1 ''member'' = Some demo_delete_policy"
  by (simp_all add: policy_for_def demo_bundle_def bt_get_def)

lemma demo_selected: "select_policies_for demo_bundle demo_read ''member'' =
  Inr ([1, 2], [(1, demo_select_policy), (2, demo_secrets_policy)])"
  by (simp add: select_policies_for_def demo_read_def demo_nested_def demo_policies del: One_nat_def)

lemma demo_read_compiled: "compile_select demo_bundle (Select demo_read) demo_session = Inr demo_output"
proof -
  let ?sel = "[(1 :: nat, demo_select_policy), (2, demo_secrets_policy)]"
  have r: "ts_role demo_session = ''member''" by (simp add: demo_session_def)
  have p: "apply_projection_permissions ?sel demo_session (bs_projections demo_read) [] = Inr (bs_projections demo_protected, demo_sv)"
    by (simp add: apply_projection_permissions_def apply_projection_permission_def demo_read_def demo_ref_def bt_get_def
        demo_select_policy_def demo_instantiated demo_protected_def)
  have v: "validate_select ?sel (set_projections (bs_projections demo_protected) demo_read) = Inr ()"
    by (simp add: validate_select_def Let_def demo_read_def demo_protected_def check_conditional_output_def
        left_resources_of_def validate_optional_def demo_nested_def regular_columns_of_def demo_select_policy_def
        demo_secrets_policy_def demo_ref_def validate_projection_def)
  have w: "protect_rows ?sel demo_session (set_projections (bs_projections demo_protected) demo_read) demo_sv =
      Inr (set_limit None demo_protected, demo_sv)"
    by (simp add: protect_rows_def demo_read_def demo_nested_def bt_get_def demo_select_policy_def demo_secrets_policy_def
        demo_instantiated and_optional_def demo_protected_def apply_policy_limit_def both_st_def)
  have l: "policy_limit_of ?sel = Some 10"
    by (simp add: policy_limit_of_def min_option_def demo_select_policy_def demo_secrets_policy_def)
  have a: "apply_policy_limit (set_limit None demo_protected) (Some 10) = demo_protected"
    by (simp add: apply_policy_limit_def demo_protected_def i64_max_def)
  have c: "referenced_columns (Select demo_read) = [(1, {ColumnId 1 1, ColumnId 1 2}), (2, {ColumnId 2 0})]"
    by (auto simp: referenced_columns_def statement_columns_def collect_select_columns_def demo_read_def demo_nested_def
        demo_ref_def add_column_def bt_get_def)
  have s: "bt_get ?sel 1 = Some demo_select_policy" "bt_get ?sel 2 = Some demo_secrets_policy" "sp_id demo_select_policy = 1"
    "sp_id demo_secrets_policy = 5"
    by (simp_all add: bt_get_def demo_select_policy_def demo_secrets_policy_def)
  have b: "bs_resource demo_read = 1" by (simp add: demo_read_def)
  have q: "string_literal_witnesses_of demo_bundle = \<lparr>slw_client = [], slw_policy = {}\<rparr>"
    by (simp add: string_literal_witnesses_of_def demo_bundle_def)
  show ?thesis
    by (simp add: compile_select_def compile_bound_select_def r demo_selected p v w l a c s b q Let_def demo_output_def
        demo_plan_def del: One_nat_def)
qed

lemma demo_shape: "query_shape demo_read"
  by (simp add: query_shape_def from_shape_def demo_read_def demo_nested_def no_nested_def)


text \<open>\<open>UPDATE projects SET name = :who RETURNING name\<close>, \<open>INSERT INTO projects (name) VALUES (:who)\<close> and
  \<open>DELETE FROM projects WHERE name = :who\<close>.\<close>

definition demo_assign :: bound_assignment where
  "demo_assign = \<lparr>ba_column = demo_ref 1 1 U_Write, ba_value = ClientParameter ''who'' LT_String\<rparr>"

definition demo_update :: bound_update where
  "demo_update = \<lparr>bu_resource = 1, bu_assignments = [demo_assign], bu_predicate = None,
     bu_returning = [BoundProjection (Column (demo_ref 1 1 U_Returning)) ''name'']\<rparr>"

definition demo_insert :: bound_insert where
  "demo_insert = \<lparr>bi_resource = 1, bi_rows = [[demo_assign], [demo_assign]], bi_returning = []\<rparr>"

definition demo_delete :: bound_delete where
  "demo_delete = \<lparr>bd_resource = 1, bd_predicate = Some (Equal (Column (demo_ref 1 1 U_Mutation)) (ClientParameter ''who'' LT_String)),
     bd_returning = []\<rparr>"

lemmas mutation_defs = validate_returning_def check_assignments_def preset_assignment_def bt_has_def demo_assign_def demo_ref_def
  instantiate_operand_def session_get_def bt_get_def from_trusted_suffix_def canonical_key_def byte_defs map_err_def
  SERVER_PARAMETER_PREFIX_def demo_session_def demo_predicate_def

lemma demo_mutations_compiled:
  "\<exists>out. compile_update demo_bundle (Update demo_update) demo_session = Inr out"
  "\<exists>out. compile_insert demo_bundle (Insert demo_insert) demo_session = Inr out"
  "\<exists>out. compile_delete demo_bundle (Delete demo_delete) demo_session = Inr out"
  by (simp_all add: compile_update_def compile_insert_def compile_delete_def insert_row_def demo_update_def demo_insert_def
      demo_delete_def demo_policies demo_update_policy_def demo_insert_policy_def demo_delete_policy_def mutation_defs
      u64_max_def del: One_nat_def)

end
