(* ===== verification/Pol_Laws.thy ===== *)
theory Pol_Laws
  imports Pol_Demo
begin

text \<open>
  The properties of the policy compiler (\<^verbatim>\<open>src/crates/policysql-policy/src/lib.rs\<close>): what a role can
  read, what it can change, which values the server adds, and how compilation fails.
\<close>

section \<open>Mutations\<close>

definition assigned :: "bound_assignment \<Rightarrow> column_id" where
  "assigned a = bc_id (ba_column a)"

text \<open>An operand that is no column has the same value on every row.\<close>

lemma instantiate_constant:
  assumes "\<forall>c. operand \<noteq> PO_Column c"
  shows "grows session (\<lambda>sv e. \<forall>sq db env. eval sq sv db env e = operand_value session null_row operand)
    (instantiate_operand session operand t)"
proof (rule sv.extendsI)
  fix sv e sv'
  assume sv: "sv_ok session sv" and run: "instantiate_operand session operand t sv = Inr (e, sv')"
  have env: "eval sq u db env e = eval sq u db [0 \<mapsto> null_row] e" for sq u db env
    using run assms by (cases operand) (auto simp: instantiate_operand_def result_simps split: if_splits)
  have "operand_of 0 operand" using assms by (cases operand) (auto simp: operand_of_def)
  note g = sv.extendsD [OF instantiate_operand_refines [OF this] sv run]
  have "eval sq u db [0 \<mapsto> null_row] e = operand_value session null_row operand" if "sv_le sv' u" for sq u db
    using g(3) [OF that, of sq] by simp
  with env g(1,2) show "sv_ok session sv' \<and> sv_le sv sv' \<and>
      (\<forall>u. sv_le sv' u \<longrightarrow> (\<forall>sq db env. eval sq u db env e = operand_value session null_row operand))"
    by metis
qed

definition preset_assigns :: "trusted_session \<Rightarrow> server_values \<Rightarrow> column_id \<times> logical_type \<times> policy_operand \<Rightarrow> bound_assignment \<Rightarrow> bool" where
  "preset_assigns session sv = (\<lambda>(c, t, operand) a. assigned a = c \<and>
     (\<forall>sq db env. eval sq sv db env (ba_value a) = operand_value session null_row operand))"

lemma presets_assign:
  assumes "presets_ok r columns presets"
  shows "grows session (\<lambda>sv as. list_all2 (preset_assigns session sv) presets as) (traverse_st (preset_assignment session) presets)"
proof (rule sv.extends_traverse)
  fix x
  assume "x \<in> set presets"
  moreover obtain c t operand where x: "x = (c, t, operand)" by (cases x)
  ultimately have "\<forall>c. operand \<noteq> PO_Column c" using assms by (auto simp: presets_ok_def)
  then show "grows session (\<lambda>sv a. preset_assigns session sv x a) (preset_assignment session x)"
    unfolding preset_assignment_def x prod.case
    by (rule grows_one [OF instantiate_constant]) (simp add: preset_assigns_def assigned_def)
qed

lemma check_assignments_ok:
  "check_assignments columns presets as = Inr () \<longleftrightarrow>
   (\<forall>a \<in> set as. assigned a \<in> columns \<and> assigned a \<notin> fst ` set presets)"
  by (simp add: check_assignments_def result_simps assigned_def bt_has_def)

lemma validate_returning_ok:
  "validate_returning allowed ps = Inr () \<longleftrightarrow> (\<forall>p \<in> set ps. \<exists>c. pj_expression p = Column c \<and> bc_id c \<in> allowed)"
proof -
  have "(case e of Column c \<Rightarrow> require (bc_id c \<in> allowed) ForbiddenColumn | _ \<Rightarrow> Inl ForbiddenColumnContext) = Inr () \<longleftrightarrow>
      (\<exists>c. e = Column c \<and> bc_id c \<in> allowed)" for e
    by (cases e) (auto simp: result_simps)
  then show ?thesis by (simp add: validate_returning_def result_simps)
qed

text \<open>A predicate with the row filter of a policy.\<close>

lemma filtered_predicate:
  assumes "means sq r (\<lambda>row. permits sq session row p) sv f" and "env r = Some row"
  shows "holds_opt sq sv db env (Some (and_optional pr f)) \<longleftrightarrow>
    holds_opt sq sv db env pr \<and> permits sq session row p = Some True"
  using assms by (simp add: holds_opt_def [of _ _ _ _ "Some _"] holds_and_optional) (simp add: means_def holds_def)


section \<open>Reading\<close>

text \<open>The policies a compiled statement was protected with.\<close>

definition plan_policies :: "policy_bundle \<Rightarrow> trusted_session \<Rightarrow> compile_output \<Rightarrow> nat \<Rightarrow> select_policy option" where
  "plan_policies b session out = (\<lambda>r.
     if r \<in> set (ex_resources (co_explain out)) then policy_for (pb_select b) r (ts_role session) else None)"

lemma compiled_select_view:
  assumes "bundle_ok b" and "compile_select b (Select s) session = Inr out" and "query_shape s"
  obtains s' where "pp_statement (co_plan out) = Select s'"
    "\<And>sq db. select_output sq (pp_server_values (co_plan out)) db db s' =
       select_output sq (pp_server_values (co_plan out)) (view sq session (plan_policies b session out) db)
         (nested_view sq session (plan_policies b session out) db) s"
  using compile_bound_select_view [OF bundle_select_policies_ok [OF assms(1)], of s session out] assms(2,3) that
  unfolding plan_policies_def by (auto simp: compile_select_def)

text \<open>
  C4. Row and column security of a query, as a refinement. The protected statement, run on the whole
  database, returns for every row and clause exactly what the client's own statement returns when it
  is run on the role's view of the database: only the rows its row filters permit for this session,
  and of each row only the regular columns and the conditional columns whose condition holds, all
  else reading as null. This covers inner and left joins and \<open>EXISTS\<close> in \<open>WHERE\<close>.
\<close>

theorem select_reads_role_view:
  assumes "catalog_ok c" and "activate_with_value_limit d from_yaml y c snapshot n = Inr b"
    and "compile_select b (Select s) session = Inr out" and "query_shape s"
  shows "\<exists>s'. pp_statement (co_plan out) = Select s' \<and>
    (\<forall>sq db. select_output sq (pp_server_values (co_plan out)) db db s' =
       select_output sq (pp_server_values (co_plan out)) (view sq session (plan_policies b session out) db)
         (nested_view sq session (plan_policies b session out) db) s)"
  using compiled_select_view [OF activate_with_value_limit_ok [OF assms(1,2)] assms(3,4)] by metis

lemma select_reads_role_view_witness:
  "\<exists>s'. pp_statement (co_plan demo_output) = Select s' \<and>
    (\<forall>sq db. select_output sq (pp_server_values (co_plan demo_output)) db db s' =
       select_output sq (pp_server_values (co_plan demo_output))
         (view sq demo_session (plan_policies demo_bundle demo_session demo_output) db)
         (nested_view sq demo_session (plan_policies demo_bundle demo_session demo_output) db) demo_read)"
  by (rule select_reads_role_view [OF demo_catalog_ok demo_activated demo_read_compiled demo_shape])



lemma demo_hidden:
  "view demo_sql demo_session (plan_policies demo_bundle demo_session demo_output) (\<lambda>_. []) =
   view demo_sql demo_session (plan_policies demo_bundle demo_session demo_output) (\<lambda>_. [demo_secret_row ''t2''])"
proof
  fix r
  let ?pol = "plan_policies demo_bundle demo_session demo_output"
  have "?pol r = None \<or> ?pol r = Some demo_select_policy \<or> ?pol r = Some demo_secrets_policy"
    using demo_policies by (auto simp: plan_policies_def demo_output_def demo_session_def)
  moreover have "\<not> visible demo_sql demo_session p (demo_secret_row ''t2'')" if "p \<in> {demo_select_policy, demo_secrets_policy}" for p
    using that by (auto simp: visible_def demo_select_policy_def demo_secrets_policy_def demo_predicate_def demo_sql_def
        operand_value_def session_get_def demo_session_def bt_get_def demo_secret_row_def)
  ultimately show "view demo_sql demo_session ?pol (\<lambda>_. []) r = view demo_sql demo_session ?pol (\<lambda>_. [demo_secret_row ''t2'']) r"
    by (auto simp: view_def)
qed





section \<open>Writing\<close>

text \<open>The rows a mutation may touch: the client's own condition and the policy's filter.\<close>

definition touches_permitted :: "trusted_session \<Rightarrow> server_values \<Rightarrow> nat \<Rightarrow> policy_predicate \<Rightarrow> bound_expr option \<Rightarrow>
  bound_expr option \<Rightarrow> bool" where
  "touches_permitted session sv r p pr pr' = (\<forall>sq db env row. env r = Some row \<longrightarrow>
     holds_opt sq sv db env pr' = (holds_opt sq sv db env pr \<and> permits sq session row p = Some True))"

definition checks_policy :: "trusted_session \<Rightarrow> server_values \<Rightarrow> nat \<Rightarrow> policy_predicate \<Rightarrow> bound_expr option \<Rightarrow> bool" where
  "checks_policy session sv r p check = (\<exists>e. check = Some e \<and> (\<forall>sq db env row. env r = Some row \<longrightarrow>
     truth sq (eval sq sv db env e) = permits sq session row p))"

lemma instantiate_means:
  assumes "predicate_ok r p"
  shows "grows session (\<lambda>sv e. \<forall>sq. means sq r (\<lambda>row. permits sq session row p) sv e) (instantiate_predicate session p)"
  using instantiate_predicate_refines [OF predicate_ok_of [OF assms]]
  unfolding accumulator.extends_def [OF sv.accumulator_axioms] by blast

text \<open>
  C10. An accepted UPDATE assigns only columns the policy lets the role write, then every preset of the
  policy exactly once, with the session's or the policy's value; it touches only rows that satisfy
  both the client's condition and the policy's filter, carries the policy's check of the new row,
  and returns only columns the policy lets it return.
\<close>

theorem update_stays_within_policy:
  assumes "catalog_ok c" and "activate_with_value_limit d from_yaml y c snapshot n = Inr b"
    and "compile_update b (Update u) session = Inr out"
  shows "\<exists>policy u'. policy_for (pb_update b) (bu_resource u) (ts_role session) = Some policy \<and>
    pp_statement (co_plan out) = Update u' \<and> bu_resource u' = bu_resource u \<and> bu_returning u' = bu_returning u \<and>
    (\<exists>presets. bu_assignments u' = bu_assignments u @ presets \<and>
       list_all2 (preset_assigns session (pp_server_values (co_plan out))) (up_presets policy) presets) \<and>
    (\<forall>a \<in> set (bu_assignments u). assigned a \<in> up_columns policy \<and> assigned a \<notin> fst ` set (up_presets policy)) \<and>
    touches_permitted session (pp_server_values (co_plan out)) (bu_resource u) (up_filter policy) (bu_predicate u) (bu_predicate u') \<and>
    checks_policy session (pp_server_values (co_plan out)) (bu_resource u) (up_check policy) (pp_operation_check (co_plan out)) \<and>
    (\<forall>p \<in> set (bu_returning u). \<exists>c. pj_expression p = Column c \<and> bc_id c \<in> up_returning policy)"
proof -
  let ?r = "bu_resource u"
  obtain policy presets sv1 f sv2 check sv where run: "policy_for (pb_update b) ?r (ts_role session) = Some policy"
    "validate_returning (up_returning policy) (bu_returning u) = Inr ()"
    "check_assignments (up_columns policy) (up_presets policy) (bu_assignments u) = Inr ()"
    "traverse_st (preset_assignment session) (up_presets policy) [] = Inr (presets, sv1)"
    "instantiate_predicate session (up_filter policy) sv1 = Inr (f, sv2)"
    "instantiate_predicate session (up_check policy) sv2 = Inr (check, sv)"
    and out: "pp_statement (co_plan out) = Update (u\<lparr>bu_assignments := bu_assignments u @ presets,
        bu_predicate := Some (and_optional (bu_predicate u) f)\<rparr>)" "pp_server_values (co_plan out) = sv"
      "pp_operation_check (co_plan out) = Some check"
    using assms(3) by (auto simp: compile_update_def mutation_output_def result_simps)
  have ok: "update_policy_ok ?r policy"
    using activate_with_value_limit_ok [OF assms(1,2)] run(1) by (auto simp: bundle_ok_def policy_map_ok_def)
  then have p: "presets_ok ?r (up_columns policy) (up_presets policy)" and i: "predicate_ok ?r (up_filter policy)"
    and k: "predicate_ok ?r (up_check policy)" by (auto simp: update_policy_ok_def)
  note g1 = sv.extendsD [OF presets_assign [OF p] sv_ok_Nil run(4)]
  note g2 = sv.extendsD [OF instantiate_means [OF i] g1(1) run(5)]
  note g3 = sv.extendsD [OF instantiate_means [OF k] g2(1) run(6)]
  have "list_all2 (preset_assigns session sv) (up_presets policy) presets"
    using g1(3) sv.le_trans [OF g2(2) g3(2)] by blast
  moreover have "touches_permitted session sv ?r (up_filter policy) (bu_predicate u) (Some (and_optional (bu_predicate u) f))"
    unfolding touches_permitted_def using g2(3) [OF g3(2)] filtered_predicate by blast
  moreover have "checks_policy session sv ?r (up_check policy) (Some check)"
    using g3(3) [OF sv.le_refl] by (auto simp: checks_policy_def means_def)
  ultimately show ?thesis
    using run(1,2,3) out by (auto simp: validate_returning_ok check_assignments_ok)
qed

lemma update_stays_within_policy_witness:
  "\<exists>out. compile_update demo_bundle (Update demo_update) demo_session = Inr out \<and>
     (\<exists>u'. pp_statement (co_plan out) = Update u' \<and>
       touches_permitted demo_session (pp_server_values (co_plan out)) 1 (up_filter demo_update_policy) None (bu_predicate u'))"
proof -
  obtain out where out: "compile_update demo_bundle (Update demo_update) demo_session = Inr out"
    using demo_mutations_compiled(1) by blast
  from update_stays_within_policy [OF demo_catalog_ok demo_activated out] demo_policies(4) out show ?thesis
    by (auto simp: demo_update_def demo_session_def)
qed

text \<open>
  C11. An accepted INSERT writes in every row only columns the policy lets the role write, then every
  preset of the policy exactly once with the session's or the policy's value, carries the policy's
  check of the new rows, expects as many rows as it writes, and returns only permitted columns.
\<close>

theorem insert_stays_within_policy:
  assumes "catalog_ok c" and "activate_with_value_limit d from_yaml y c snapshot n = Inr b"
    and "compile_insert b (Insert i) session = Inr out"
  shows "\<exists>policy i'. policy_for (pb_insert b) (bi_resource i) (ts_role session) = Some policy \<and>
    pp_statement (co_plan out) = Insert i' \<and> bi_resource i' = bi_resource i \<and> bi_returning i' = bi_returning i \<and>
    list_all2 (\<lambda>row row'. (\<forall>a \<in> set row. assigned a \<in> ip_columns policy \<and> assigned a \<notin> fst ` set (ip_presets policy)) \<and>
      (\<exists>presets. row' = row @ presets \<and>
        list_all2 (preset_assigns session (pp_server_values (co_plan out))) (ip_presets policy) presets))
      (bi_rows i) (bi_rows i') \<and>
    pp_expected_affected_rows (co_plan out) = Some (length (bi_rows i)) \<and>
    checks_policy session (pp_server_values (co_plan out)) (bi_resource i) (ip_check policy) (pp_operation_check (co_plan out)) \<and>
    (\<forall>p \<in> set (bi_returning i). \<exists>c. pj_expression p = Column c \<and> bc_id c \<in> ip_returning policy)"
proof -
  let ?r = "bi_resource i"
  obtain policy rows sv1 check sv where run: "policy_for (pb_insert b) ?r (ts_role session) = Some policy"
    "validate_returning (ip_returning policy) (bi_returning i) = Inr ()"
    "traverse_st (insert_row policy session) (bi_rows i) [] = Inr (rows, sv1)"
    "instantiate_predicate session (ip_check policy) sv1 = Inr (check, sv)"
    and out: "pp_statement (co_plan out) = Insert (i\<lparr>bi_rows := rows\<rparr>)" "pp_server_values (co_plan out) = sv"
      "pp_operation_check (co_plan out) = Some check" "pp_expected_affected_rows (co_plan out) = Some (length rows)"
    using assms(3) by (auto simp: compile_insert_def mutation_output_def result_simps split: if_splits)
  have "insert_policy_ok ?r policy"
    using activate_with_value_limit_ok [OF assms(1,2)] run(1) by (auto simp: bundle_ok_def policy_map_ok_def)
  then have p: "presets_ok ?r (ip_columns policy) (ip_presets policy)" and k: "predicate_ok ?r (ip_check policy)"
    by (auto simp: insert_policy_ok_def)
  let ?Q = "\<lambda>sv row row'. (\<forall>a \<in> set row. assigned a \<in> ip_columns policy \<and> assigned a \<notin> fst ` set (ip_presets policy)) \<and>
      (\<exists>presets. row' = row @ presets \<and> list_all2 (preset_assigns session sv) (ip_presets policy) presets)"
  have "grows session (\<lambda>sv row'. ?Q sv row row') (insert_row policy session row)" for row
  proof (cases "check_assignments (ip_columns policy) (ip_presets policy) row")
    case (Inr u)
    then show ?thesis
      unfolding insert_row_def [abs_def]
      by (simp, intro grows_one [OF presets_assign [OF p]]) (auto simp: check_assignments_ok)
  qed (simp add: insert_row_def [abs_def] sv.extends_fail)
  then have "grows session (\<lambda>sv rows. list_all2 (?Q sv) (bi_rows i) rows) (traverse_st (insert_row policy session) (bi_rows i))"
    by (intro sv.extends_traverse)
  note g1 = sv.extendsD [OF this sv_ok_Nil run(3)]
  note g2 = sv.extendsD [OF instantiate_means [OF k] g1(1) run(4)]
  have "checks_policy session sv ?r (ip_check policy) (Some check)"
    using g2(3) [OF sv.le_refl] by (auto simp: checks_policy_def means_def)
  with run(1,2) out g1(3) [OF g2(2)] show ?thesis
    by (auto simp: validate_returning_ok dest: list_all2_lengthD)
qed

lemma insert_stays_within_policy_witness:
  "\<exists>out. compile_insert demo_bundle (Insert demo_insert) demo_session = Inr out \<and>
     (\<exists>i'. pp_statement (co_plan out) = Insert i' \<and> bi_resource i' = 1) \<and>
     checks_policy demo_session (pp_server_values (co_plan out)) 1 (ip_check demo_insert_policy) (pp_operation_check (co_plan out))"
proof -
  obtain out where out: "compile_insert demo_bundle (Insert demo_insert) demo_session = Inr out"
    using demo_mutations_compiled(2) by blast
  from insert_stays_within_policy [OF demo_catalog_ok demo_activated out] demo_policies(3) out show ?thesis
    by (auto simp: demo_insert_def demo_session_def)
qed

text \<open>
  C12. An accepted DELETE removes only rows that satisfy both the client's condition and the policy's
  filter, and returns only columns the policy lets it return.
\<close>

theorem delete_stays_within_policy:
  assumes "catalog_ok c" and "activate_with_value_limit d from_yaml y c snapshot n = Inr b"
    and "compile_delete b (Delete e) session = Inr out"
  shows "\<exists>policy e'. policy_for (pb_delete b) (bd_resource e) (ts_role session) = Some policy \<and>
    pp_statement (co_plan out) = Delete e' \<and> bd_resource e' = bd_resource e \<and> bd_returning e' = bd_returning e \<and>
    touches_permitted session (pp_server_values (co_plan out)) (bd_resource e) (dp_filter policy) (bd_predicate e) (bd_predicate e') \<and>
    (\<forall>p \<in> set (bd_returning e). \<exists>c. pj_expression p = Column c \<and> bc_id c \<in> dp_returning policy)"
proof -
  obtain policy f sv where run: "policy_for (pb_delete b) (bd_resource e) (ts_role session) = Some policy"
    "validate_returning (dp_returning policy) (bd_returning e) = Inr ()" "instantiate_predicate session (dp_filter policy) [] = Inr (f, sv)"
    and out: "pp_statement (co_plan out) = Delete (e\<lparr>bd_predicate := Some (and_optional (bd_predicate e) f)\<rparr>)"
      "pp_server_values (co_plan out) = sv"
    using assms(3) by (auto simp: compile_delete_def mutation_output_def result_simps)
  have "predicate_ok (bd_resource e) (dp_filter policy)"
    using activate_with_value_limit_ok [OF assms(1,2)] run(1) by (auto simp: bundle_ok_def policy_map_ok_def delete_policy_ok_def)
  note g = sv.extendsD [OF instantiate_means [OF this] sv_ok_Nil run(3)]
  have "touches_permitted session sv (bd_resource e) (dp_filter policy) (bd_predicate e) (Some (and_optional (bd_predicate e) f))"
    unfolding touches_permitted_def using g(3) [OF sv.le_refl] filtered_predicate by blast
  with run out show ?thesis by (auto simp: validate_returning_ok)
qed

lemma delete_stays_within_policy_witness:
  "\<exists>out. compile_delete demo_bundle (Delete demo_delete) demo_session = Inr out \<and>
     (\<exists>e'. pp_statement (co_plan out) = Delete e' \<and>
       touches_permitted demo_session (pp_server_values (co_plan out)) 1 (dp_filter demo_delete_policy) (bd_predicate demo_delete) (bd_predicate e'))"
proof -
  obtain out where out: "compile_delete demo_bundle (Delete demo_delete) demo_session = Inr out"
    using demo_mutations_compiled(3) by blast
  from delete_stays_within_policy [OF demo_catalog_ok demo_activated out] demo_policies(5) out show ?thesis
    by (auto simp: demo_delete_def demo_session_def)
qed

end
