(* ===== verification/Pol_Outcome.thy ===== *)
theory Pol_Outcome
  imports Pol_Laws
begin

text \<open>
  What every compilation of a statement has in common, whatever the statement
  (\<^verbatim>\<open>src/crates/policysql-policy/src/lib.rs\<close>): the values the server adds, the errors it can end in once
  the bundle was activated, and the limit a protected select carries.
\<close>

section \<open>Values the server adds\<close>

text \<open>Every way of compiling a statement.\<close>

definition compiles :: "policy_bundle \<Rightarrow> bound_statement \<Rightarrow> trusted_session \<Rightarrow> compile_output pol \<Rightarrow> bool" where
  "compiles b statement session result = (result \<in> {compile_select b statement session, compile_insert b statement session,
     compile_update b statement session, compile_delete b statement session})"

lemma instantiate_operand_grows: "grows session (\<lambda>sv e. True) (instantiate_operand session operand t)"
proof (rule sv.extendsI)
  fix sv e sv'
  assume "sv_ok session sv" and "instantiate_operand session operand t sv = Inr (e, sv')"
  then show "sv_ok session sv' \<and> sv_le sv sv' \<and> (\<forall>u. sv_le sv' u \<longrightarrow> True)"
    using sv_insert [of session sv, unfolded session_parameter_def]
    by (cases operand) (auto simp: instantiate_operand_def result_simps from_trusted_suffix_def sv_le_def split: if_splits)
qed

lemma fold_logical_grows:
  assumes "\<And>p. p \<in> set ps \<Longrightarrow> grows session (\<lambda>sv e. True) (instantiate_predicate session p)"
  shows "grows session (\<lambda>sv e. True) (\<lambda>sv. fold_logical_rest session ps sv is_and out)"
    and "grows session (\<lambda>sv e. True) (\<lambda>sv. fold_logical session ps sv is_and)"
proof -
  have rest: "grows session (\<lambda>sv e. True) (\<lambda>sv. fold_logical_rest session qs sv is_and out)" if "set qs \<subseteq> set ps" for qs out
    using that
  proof (induction qs arbitrary: out)
    case (Cons q qs)
    show ?case
      unfolding fold_logical_rest.simps
      by (rule sv.extends_bind [OF assms]) (use Cons in \<open>auto intro: sv.extends_weaken\<close>)
  qed (auto intro: sv.extends_return)
  then show "grows session (\<lambda>sv e. True) (\<lambda>sv. fold_logical_rest session ps sv is_and out)" by blast
  show "grows session (\<lambda>sv e. True) (\<lambda>sv. fold_logical session ps sv is_and)"
  proof (cases ps)
    case (Cons q qs)
    have "grows session (\<lambda>sv e. True \<longrightarrow> True) (\<lambda>sv. fold_logical_rest session qs sv is_and out)" for out
      using rest [of qs out] Cons by auto
    from sv.extends_bind [OF assms [of q] this] Cons show ?thesis by simp
  qed (simp add: sv.extends_fail)
qed

lemma instantiate_predicate_grows: "grows session (\<lambda>sv e. True) (instantiate_predicate session p)"
proof (induction p)
  case (PP_Comparison c operator operand)
  show ?case
    unfolding instantiate_predicate.simps [abs_def] by (rule grows_one [OF instantiate_operand_grows]) simp
next
  case (PP_Not p)
  then show ?case unfolding instantiate_predicate.simps [abs_def] by (rule grows_one) simp
next
  case (PP_And ps)
  then show ?case unfolding instantiate_predicate.simps [abs_def] by (rule fold_logical_grows(2))
next
  case (PP_Or ps)
  then show ?case unfolding instantiate_predicate.simps [abs_def] by (rule fold_logical_grows(2))
qed (simp_all add: instantiate_predicate.simps [abs_def] sv.extends_return)

lemma traverse_grows:
  assumes "\<And>x. x \<in> set xs \<Longrightarrow> grows session (\<lambda>sv y. True) (f x)"
  shows "grows session (\<lambda>sv ys. True) (traverse_st f xs)"
  using sv.extends_traverse [where Q = "\<lambda>u x y. True" and f = f and xs = xs, OF assms] by (auto intro: sv.extends_weaken)

lemma option_grows:
  assumes "\<And>e. x = Some e \<Longrightarrow> grows session (\<lambda>sv y. True) (f e)"
  shows "grows session (\<lambda>sv y. True) (option_st f x)"
  using grows_option [where R = "\<lambda>sv e y. True" and f = f and x = x, OF assms] by (auto intro: sv.extends_weaken)

lemma bind_grows:
  assumes "grows session (\<lambda>sv y. True) f" and "\<And>y. grows session (\<lambda>sv z. True) (k y)"
  shows "grows session (\<lambda>sv z. True) (\<lambda>s. try_ok (f s) (\<lambda>(y, s). k y s))"
  using sv.extends_bind [where P = "\<lambda>sv y. True" and Q = "\<lambda>sv z. True" and f = f and k = k] assms by simp

lemma protect_nested_grows: "grows session (\<lambda>sv e'. True) (protect_nested_selects sel session e)"
proof (induction e rule: collect_expression_resources.induct)
  case (1 r al js ps pr gb hv ob li off)
  have "grows session (\<lambda>sv z. True) (\<lambda>sv. try_ok (ok_or MissingPolicy (bt_get sel r)) (\<lambda>policy.
      try_ok (instantiate_predicate session (sp_filter policy) sv) (\<lambda>(row_filter, sv).
        Inr (Exists (apply_policy_limit (BoundSelect r al js ps (Some (and_optional pr' row_filter)) gb hv ob li off) (sp_limit policy)), sv))))" for pr'
    by (cases "bt_get sel r") (auto intro!: bind_grows instantiate_predicate_grows sv.extends_return sv.extends_fail)
  then show ?case
    unfolding protect_fun by (intro bind_grows option_grows 1) 
qed (auto simp: protect_fun intro!: bind_grows traverse_grows option_grows sv.extends_return grows_both)

text \<open>The steps that thread the server values.\<close>

lemma grows_ok: "grows session (\<lambda>sv y. True) f \<Longrightarrow> sv_ok session sv \<Longrightarrow> f sv = Inr (y, sv') \<Longrightarrow> sv_ok session sv'"
  by (rule sv.extendsD)

lemma projection_grows: "grows session (\<lambda>sv y. True) (apply_projection_permissions sel session ps)"
  unfolding apply_projection_permissions_def
proof (rule traverse_grows)
  fix p
  show "grows session (\<lambda>sv y. True) (apply_projection_permission sel session p)"
  proof (rule sv.extendsI)
    fix sv y sv'
    assume "sv_ok session sv" and "apply_projection_permission sel session p sv = Inr (y, sv')"
    then show "sv_ok session sv' \<and> sv_le sv sv' \<and> (\<forall>u. sv_le sv' u \<longrightarrow> True)"
      using sv.extendsD(1,2) [OF instantiate_predicate_grows]
      by (fastforce simp: apply_projection_permission_def result_simps sv.le_refl split: bound_expr.splits if_splits)
  qed
qed

lemma joins_keep_sv:
  "traverse_st (protect_join sel session) js (p, sv) = Inr (js', p', sv') \<Longrightarrow> sv_ok session sv \<Longrightarrow> sv_ok session sv'"
proof (induction js arbitrary: p sv js')
  case (Cons j js)
  then obtain j' q u rest where step: "protect_join sel session j (p, sv) = Inr (j', q, u)"
    and rest: "traverse_st (protect_join sel session) js (q, u) = Inr (rest, p', sv')"
    by (auto simp: result_simps)
  have "sv_ok session u"
    using step grows_ok [OF instantiate_predicate_grows Cons.prems(2)]
    by (cases "jn_kind j") (auto simp: protect_join_def result_simps)
  with Cons.IH rest show ?case by blast
qed simp

lemma preset_grows: "grows session (\<lambda>sv y. True) (preset_assignment session x)"
proof (cases x)
  case (fields c t operand)
  show ?thesis
    unfolding preset_assignment_def fields prod.case by (rule grows_one [OF instantiate_operand_grows]) simp
qed

lemma insert_row_grows: "grows session (\<lambda>sv y. True) (insert_row policy session row)"
proof (cases "check_assignments (ip_columns policy) (ip_presets policy) row")
  case (Inr u)
  then show ?thesis
    unfolding insert_row_def [abs_def]
    by (simp, intro grows_one [OF traverse_grows [OF preset_grows]]) simp
qed (simp add: insert_row_def [abs_def] sv.extends_fail)

lemmas compile_steps_ok = grows_ok [OF instantiate_predicate_grows] grows_ok [OF projection_grows] joins_keep_sv
  grows_ok [OF traverse_grows [OF preset_grows]] grows_ok [OF traverse_grows [OF insert_row_grows]]
  grows_ok [OF option_grows [OF protect_nested_grows]]

lemma bound_select_sv:
  assumes "compile_bound_select b s session = Inr out"
  shows "sv_ok session (pp_server_values (co_plan out))"
proof -
  obtain sel ps sv1 s1 sv2 where run: "apply_projection_permissions sel session (bs_projections s) [] = Inr (ps, sv1)"
    "protect_rows sel session (set_projections ps s) sv1 = Inr (s1, sv2)" and out: "pp_server_values (co_plan out) = sv2"
    using assms by (auto simp: compile_bound_select_def result_simps Let_def)
  obtain p sv3 root f sv4 js q where rows: "option_st (protect_nested_selects sel session) (bs_predicate s) sv1 = Inr (p, sv3)"
    "bt_get sel (bs_resource s) = Some root" "instantiate_predicate session (sp_filter root) sv3 = Inr (f, sv4)"
    "traverse_st (protect_join sel session) (bs_joins s) (and_optional p f, sv4) = Inr (js, q, sv2)"
    using run(2) by (auto simp: protect_rows_def result_simps)
  have "sv_ok session sv3"
    using rows(1) compile_steps_ok(2) [OF sv_ok_Nil run(1)] by (rule compile_steps_ok(6) [rotated])
  from joins_keep_sv [OF rows(4) compile_steps_ok(1) [OF this rows(3)]] show ?thesis unfolding out .
qed

lemma update_sv:
  assumes "compile_update b statement session = Inr out"
  shows "sv_ok session (pp_server_values (co_plan out))"
proof -
  obtain u where u: "statement = Update u"
    using assms by (cases statement) (auto simp: compile_update_def)
  obtain policy presets sv1 f sv2 check sv where "policy_for (pb_update b) (bu_resource u) (ts_role session) = Some policy"
    and run: "traverse_st (preset_assignment session) (up_presets policy) [] = Inr (presets, sv1)"
    "instantiate_predicate session (up_filter policy) sv1 = Inr (f, sv2)"
    "instantiate_predicate session (up_check policy) sv2 = Inr (check, sv)" and "pp_server_values (co_plan out) = sv"
    using assms by (auto simp: compile_update_def mutation_output_def result_simps u)
  with compile_steps_ok(1) [OF compile_steps_ok(1) [OF compile_steps_ok(4) [OF sv_ok_Nil run(1)] run(2)] run(3)]
  show ?thesis by simp
qed

lemma compiled_sv:
  assumes "compiles b statement session (Inr out)"
  shows "sv_ok session (pp_server_values (co_plan out))"
proof -
  note steps = compile_steps_ok(1,4,5)
  have "compile_select b statement session = Inr out \<Longrightarrow> ?thesis"
    by (cases statement) (auto simp: compile_select_def compile_constant_select_def compile_json_collection_select_def
        result_simps split: if_splits dest: bound_select_sv compile_steps_ok(1) [OF sv_ok_Nil])
  moreover have "compile_insert b statement session = Inr out \<Longrightarrow> ?thesis"
    by (cases statement) (auto simp: compile_insert_def mutation_output_def result_simps split: if_splits
        dest!: steps(3) [OF sv_ok_Nil] dest: steps(1))
  moreover have "compile_update b statement session = Inr out \<Longrightarrow> ?thesis"
    by (rule update_sv)
  moreover have "compile_delete b statement session = Inr out \<Longrightarrow> ?thesis"
    by (cases statement) (auto simp: compile_delete_def mutation_output_def result_simps dest: steps(1) [OF sv_ok_Nil])
  ultimately show ?thesis using assms by (auto simp: compiles_def)
qed

lemma client_name_not_reserved: "client_parameter_name_new v = Inr n \<Longrightarrow> \<not> starts_with SERVER_PARAMETER_PREFIX n"
  by (auto simp: client_parameter_name_new_def split: if_splits)

text \<open>
  C15. Every parameter the server adds to a statement is named after a session key and holds exactly
  the value the trusted session has under that key, and no name a client may use for its own
  parameters is the name of one.
\<close>

theorem server_values_are_session_values:
  assumes "compiles b statement session (Inr out)" and "bt_get (pp_server_values (co_plan out)) n = Some v"
  shows "(\<exists>key s. n = SERVER_PARAMETER_PREFIX @ ''session_'' @ key \<and> session_get session key = Some s \<and> v = LV_String s)
    \<and> client_parameter_name_new x \<noteq> Inr n"
proof -
  obtain key s where k: "n = session_parameter key" "session_get session key = Some s" "v = LV_String s"
    using compiled_sv [OF assms(1)] assms(2) unfolding sv_ok_def by blast
  then have "starts_with SERVER_PARAMETER_PREFIX n" by (simp add: session_parameter_def starts_with_def)
  with k show ?thesis using client_name_not_reserved [of x n] by (auto simp: session_parameter_def)
qed

lemma server_values_are_session_values_witness:
  "(\<exists>key s. ''__policysql_session_tenant_id'' = SERVER_PARAMETER_PREFIX @ ''session_'' @ key \<and>
      session_get demo_session key = Some s \<and> LV_String ''t1'' = LV_String s) \<and>
   client_parameter_name_new ''__policysql_session_tenant_id'' \<noteq> Inr ''__policysql_session_tenant_id''"
proof (rule server_values_are_session_values)
  show "compiles demo_bundle (Select demo_read) demo_session (Inr demo_output)"
    by (simp add: compiles_def demo_read_compiled)
qed (simp add: demo_output_def demo_plan_def demo_sv_def bt_get_def)

end
