(* ===== verification/Pol_Errors.thy ===== *)
theory Pol_Errors
  imports Pol_Outcome
begin

text \<open>
  How a compilation can fail (\<^verbatim>\<open>src/crates/policysql-policy/src/lib.rs\<close>): with an activated bundle only by
  a refusal that is due to the statement or to a value the session lacks, never by an error of the
  bundle itself. The rules of \<open>fails_rules\<close> follow the way the code composes fallible steps.
\<close>

section \<open>Failures of fallible steps\<close>

named_theorems fails_rules

definition fails_in :: "'e set \<Rightarrow> 'e + 'a \<Rightarrow> bool" where
  "fails_in E r = (\<forall>e. r = Inl e \<longrightarrow> e \<in> E)"

lemma fails_return [fails_rules]: "fails_in E (Inr v)"
  by (simp add: fails_in_def)

lemma fails_error [fails_rules]: "e \<in> E \<Longrightarrow> fails_in E (Inl e)"
  by (simp add: fails_in_def)

lemma fails_try [fails_rules]:
  "fails_in E r \<Longrightarrow> (\<And>v. r = Inr v \<Longrightarrow> fails_in E (k v)) \<Longrightarrow> fails_in E (try_ok r k)"
  by (cases r) (auto simp: fails_in_def)

lemma fails_ok_or [fails_rules]: "e \<in> E \<Longrightarrow> fails_in E (ok_or e x)"
  by (cases x) (auto simp: fails_in_def)

lemma fails_require [fails_rules]: "e \<in> E \<Longrightarrow> fails_in E (require p e)"
  by (simp add: fails_in_def require_def)

lemma fails_for_each [fails_rules]: "(\<And>x. x \<in> set xs \<Longrightarrow> fails_in E (f x)) \<Longrightarrow> fails_in E (for_each f xs)"
  by (induction xs) (auto intro: fails_rules)

lemma fails_traverse [fails_rules]: "(\<And>x. x \<in> set xs \<Longrightarrow> fails_in E (f x)) \<Longrightarrow> fails_in E (traverse f xs)"
  by (induction xs) (auto intro!: fails_rules)

lemma fails_traverse_st [fails_rules]:
  "(\<And>x s. x \<in> set xs \<Longrightarrow> fails_in E (f x s)) \<Longrightarrow> fails_in E (traverse_st f xs s)"
  by (induction xs arbitrary: s) (auto intro!: fails_rules)

lemma fails_option_st [fails_rules]: "(\<And>x. v = Some x \<Longrightarrow> fails_in E (f x s)) \<Longrightarrow> fails_in E (option_st f v s)"
  by (cases v) (auto intro!: fails_rules)

lemma fails_both_st [fails_rules]:
  "(\<And>s. fails_in E (f l s)) \<Longrightarrow> (\<And>s. fails_in E (f r s)) \<Longrightarrow> fails_in E (both_st f c l r s)"
  by (auto simp: both_st_def intro!: fails_rules)

section \<open>Predicates and expressions\<close>

definition denials :: "policy_error set" where
  "denials = {UnsupportedCapability, MissingPolicy, ForbiddenColumn, ForbiddenColumnContext, MissingSessionValue}"

lemma denials_simps [simp]:
  "UnsupportedCapability \<in> denials" "MissingPolicy \<in> denials" "ForbiddenColumn \<in> denials"
  "ForbiddenColumnContext \<in> denials" "MissingSessionValue \<in> denials"
  by (simp_all add: denials_def)

lemma session_suffix_canonical: "canonical_key key \<Longrightarrow> canonical_key (''session_'' @ key)"
  by (auto simp: canonical_key_def byte_defs split: list.splits)

lemma operand_fails:
  assumes "operand_ok r t operand"
  shows "fails_in denials (instantiate_operand session operand t sv)"
proof (cases operand)
  case (PO_Session key)
  then have "t = LT_String" "canonical_key (''session_'' @ key)"
    using assms session_suffix_canonical by (auto simp: operand_ok_def)
  then show ?thesis
    using PO_Session by (auto simp: instantiate_operand_def from_trusted_suffix_def map_err_def intro!: fails_rules)
qed (auto simp: instantiate_operand_def intro!: fails_rules)

lemma logical_fails:
  assumes "\<And>p sv. p \<in> set ps \<Longrightarrow> fails_in denials (instantiate_predicate session p sv)"
  shows "fails_in denials (fold_logical_rest session ps sv is_and out)"
    and "ps \<noteq> [] \<Longrightarrow> fails_in denials (fold_logical session ps sv is_and)"
proof -
  have rest: "fails_in denials (fold_logical_rest session qs sv is_and out)" if "set qs \<subseteq> set ps" for qs sv out
    using that by (induction qs arbitrary: sv out) (auto intro!: fails_rules assms)
  then show "fails_in denials (fold_logical_rest session ps sv is_and out)" by blast
  show "fails_in denials (fold_logical session ps sv is_and)" if "ps \<noteq> []"
  proof (cases ps)
    case (Cons q qs)
    then have "fails_in denials (fold_logical_rest session qs sv is_and out)" for sv out by (intro rest) auto
    with assms [of q] Cons show ?thesis by (auto intro!: fails_rules)
  qed (use that in simp)
qed

lemma predicate_fails: "predicate_ok r p \<Longrightarrow> fails_in denials (instantiate_predicate session p sv)"
proof (induction p arbitrary: sv)
  case (PP_Comparison c operator operand)
  then show ?case by (auto intro!: fails_rules operand_fails)
next
  case (PP_And ps)
  then show ?case by (auto simp: list_all_iff intro!: logical_fails(2))
next
  case (PP_Or ps)
  then show ?case by (auto simp: list_all_iff intro!: logical_fails(2))
qed (auto intro!: fails_rules)

lemma client_expression_fails: "fails_in denials (validate_client_expression allowed e)"
  by (induction allowed e rule: validate_client_expression.induct)
    (auto intro!: fails_rules split: option.splits)

lemma optional_fails: "fails_in denials (validate_optional allowed e)"
  by (auto simp: validate_optional_def intro!: fails_rules client_expression_fails split: option.splits)

lemma nested_fails:
  assumes "\<And>r p. bt_get sel r = Some p \<Longrightarrow> predicate_ok r (sp_filter p)"
  shows "fails_in denials (protect_nested_selects sel session e sv)"
proof (induction e arbitrary: sv rule: collect_expression_resources.induct)
  case (1 r al js ps pr gb hv ob li off)
  then show ?case
    by (auto simp: result_simps intro!: fails_rules predicate_fails assms)
qed (auto intro!: fails_rules)

section \<open>Statements\<close>

definition selected_ok :: "select_policies \<Rightarrow> bool" where
  "selected_ok sel = (\<forall>r p. bt_get sel r = Some p \<longrightarrow> select_policy_ok r p)"

lemma selected_filter_ok: "selected_ok sel \<Longrightarrow> bt_get sel r = Some p \<Longrightarrow> predicate_ok r (sp_filter p)"
  by (auto simp: selected_ok_def select_policy_ok_def)

lemma projection_fails:
  assumes "selected_ok sel"
  shows "fails_in denials (apply_projection_permission sel session p sv)"
proof -
  have "predicate_ok (cid_resource (bc_id c)) q"
    if "bt_get sel (cid_resource (bc_id c)) = Some policy" "bt_get (sp_conditional_columns policy) (bc_id c) = Some q" for c policy q
    using assms that(1) bt_get_set [OF that(2)] by (fastforce simp: selected_ok_def select_policy_ok_def)
  then show ?thesis
    by (auto simp: apply_projection_permission_def result_simps intro!: fails_rules predicate_fails split: bound_expr.splits)
qed

lemma validate_select_fails: "fails_in denials (validate_select sel s)"
proof -
  have "fails_in denials (check_conditional_output left p)" for left p
    by (auto simp: check_conditional_output_def intro!: fails_rules split: bound_expr.splits)
  moreover have "fails_in denials (validate_projection sel regular p)" for regular p
    by (auto simp: validate_projection_def simp del: validate_client_expression.simps
        intro!: fails_rules client_expression_fails split: bound_expr.splits)
  ultimately show ?thesis
    by (auto simp: validate_select_def Let_def intro!: fails_rules client_expression_fails optional_fails)
qed

lemma protect_rows_fails:
  assumes "selected_ok sel"
  shows "fails_in denials (protect_rows sel session s sv)"
proof -
  note ok = selected_filter_ok [OF assms]
  have "fails_in denials (protect_join sel session j (p, sv))" for j p sv
    by (auto simp: protect_join_def result_simps intro!: fails_rules predicate_fails ok split: join_kind.splits)
  then show ?thesis
    by (auto simp: protect_rows_def result_simps intro!: fails_rules nested_fails predicate_fails ok)
qed

lemma bound_select_fails:
  assumes "bundle_ok b"
  shows "fails_in denials (compile_bound_select b s session)"
proof -
  have policies: "fails_in denials (select_policies_for b s role)" for role
    by (auto simp: select_policies_for_def Let_def intro!: fails_rules)
  have "selected_ok sel" if "select_policies_for b s role = Inr (rs, sel)" for rs sel role
    using select_policies_for_ok(2) [OF bundle_select_policies_ok [OF assms] that] assms
    unfolding selected_ok_def bundle_ok_def policy_map_ok_def by blast
  then show ?thesis
    by (auto simp: compile_bound_select_def apply_projection_permissions_def Let_def
        intro!: fails_rules policies projection_fails validate_select_fails protect_rows_fails)
qed

lemma select_fails:
  assumes "bundle_ok b"
  shows "fails_in denials (compile_select b statement session)"
proof -
  have ok: "predicate_ok r (sp_filter p)" if "policy_for (pb_select b) r role = Some p" for r role p
    using assms that by (auto simp: bundle_ok_def policy_map_ok_def select_policy_ok_def)
  have "fails_in denials (compile_json_collection_select b j session)" for j
    by (auto simp: compile_json_collection_select_def result_simps
        intro!: fails_rules optional_fails predicate_fails [OF ok])
  with bound_select_fails [OF assms] show ?thesis
    by (auto simp: compile_select_def intro!: fails_rules split: bound_statement.splits)
qed

lemma presets_fail:
  assumes "presets_ok r columns presets"
  shows "fails_in denials (traverse_st (preset_assignment session) presets sv)"
  using assms by (auto simp: presets_ok_def preset_assignment_def intro!: fails_rules operand_fails)

lemma assignments_fail: "fails_in denials (check_assignments columns presets as)"
  by (auto simp: check_assignments_def intro!: fails_rules)

lemma returning_fails: "fails_in denials (validate_returning allowed ps)"
  by (auto simp: validate_returning_def intro!: fails_rules split: bound_expr.splits)

lemmas mutation_fails = assignments_fail returning_fails presets_fail predicate_fails

lemma update_fails:
  assumes "bundle_ok b"
  shows "fails_in denials (compile_update b statement session)"
proof -
  have ok: "presets_ok r (up_columns p) (up_presets p)" "predicate_ok r (up_filter p)" "predicate_ok r (up_check p)"
    if "policy_for (pb_update b) r role = Some p" for r role p
    using assms that by (auto simp: bundle_ok_def policy_map_ok_def update_policy_ok_def)
  show ?thesis
    by (auto simp: compile_update_def result_simps split: bound_statement.splits
        intro!: fails_rules mutation_fails(1,2) presets_fail [OF ok(1)] predicate_fails [OF ok(2)] predicate_fails [OF ok(3)])
qed

lemma delete_fails:
  assumes "bundle_ok b"
  shows "fails_in denials (compile_delete b statement session)"
proof -
  have ok: "predicate_ok r (dp_filter p)" if "policy_for (pb_delete b) r role = Some p" for r role p
    using assms that by (auto simp: bundle_ok_def policy_map_ok_def delete_policy_ok_def)
  show ?thesis
    by (auto simp: compile_delete_def result_simps split: bound_statement.splits
        intro!: fails_rules mutation_fails(1,2) predicate_fails [OF ok])
qed

text \<open>The conversion of the number of rows to \<open>u64\<close> fails only beyond its range.\<close>

definition insert_failures :: "bound_statement \<Rightarrow> policy_error set" where
  "insert_failures statement = denials \<union> (case statement of
     Insert i \<Rightarrow> if u64_max < length (bi_rows i) then {InvariantViolation ''too many INSERT rows''} else {} | _ \<Rightarrow> {})"

lemma fails_weaken: "fails_in E r \<Longrightarrow> E \<subseteq> F \<Longrightarrow> fails_in F r"
  by (auto simp: fails_in_def)

lemma traverse_st_length: "traverse_st f xs s = Inr (ys, t) \<Longrightarrow> length ys = length xs"
  by (induction xs arbitrary: ys s) (auto simp: result_simps)

lemma insert_fails:
  assumes "bundle_ok b"
  shows "fails_in (insert_failures statement) (compile_insert b statement session)"
proof (cases statement)
  case (Insert i)
  have ok: "presets_ok r (ip_columns p) (ip_presets p)" "predicate_ok r (ip_check p)"
    if "policy_for (pb_insert b) r role = Some p" for r role p
    using assms that by (auto simp: bundle_ok_def policy_map_ok_def insert_policy_ok_def)
  let ?E = "insert_failures (Insert i)"
  have sub: "denials \<subseteq> ?E" and missing: "MissingPolicy \<in> ?E" by (auto simp: insert_failures_def)
  have "fails_in denials (insert_row p session row sv)" if "presets_ok r (ip_columns p) (ip_presets p)" for r p row sv
    using that by (auto simp: insert_row_def intro!: fails_rules mutation_fails)
  note fails = fails_weaken [OF this [OF ok(1)] sub] fails_weaken [OF predicate_fails [OF ok(2)] sub]
    fails_weaken [OF returning_fails sub]
  have "InvariantViolation ''too many INSERT rows'' \<in> ?E" if "u64_max < length (bi_rows i)"
    using that by (simp add: insert_failures_def)
  then show ?thesis
    using missing unfolding Insert
    by (auto simp: compile_insert_def result_simps traverse_st_length intro!: fails_rules fails)
qed (auto simp: compile_insert_def insert_failures_def intro!: fails_rules)

text \<open>
  C14. Once a bundle has been activated, a compilation fails only by a refusal: an operation or
  column the policies do not allow, a resource without a policy, or a value the session lacks. No
  error of the bundle itself is left for compilation (nor, short of more rows than a 64-bit count
  holds, an internal one).
\<close>

theorem activated_bundle_only_denies:
  assumes "catalog_ok c" and "activate_with_value_limit d from_yaml y c snapshot n = Inr b"
    and "compiles b statement session (Inl e)"
  shows "e \<in> {UnsupportedCapability, MissingPolicy, ForbiddenColumn, ForbiddenColumnContext, MissingSessionValue} \<or>
    (\<exists>i. statement = Insert i \<and> u64_max < length (bi_rows i) \<and> e = InvariantViolation ''too many INSERT rows'')"
proof -
  note b = activate_with_value_limit_ok [OF assms(1,2)]
  have "denials \<subseteq> insert_failures statement" by (simp add: insert_failures_def)
  then have "e \<in> insert_failures statement"
    using assms(3) select_fails [OF b, of statement session] insert_fails [OF b, of statement session]
      update_fails [OF b, of statement session] delete_fails [OF b, of statement session]
    by (auto simp: compiles_def fails_in_def eq_commute [of "Inl e"])
  then show ?thesis
    by (auto simp: insert_failures_def denials_def split: bound_statement.splits if_splits)
qed

lemma activated_bundle_only_denies_witness:
  "MissingPolicy \<in> {UnsupportedCapability, MissingPolicy, ForbiddenColumn, ForbiddenColumnContext, MissingSessionValue} \<or>
    (\<exists>i. Select demo_read = Insert i \<and> u64_max < length (bi_rows i) \<and> MissingPolicy = InvariantViolation ''too many INSERT rows'')"
proof (rule activated_bundle_only_denies [OF demo_catalog_ok demo_activated])
  have "compile_select demo_bundle (Select demo_read) (demo_session\<lparr>ts_role := ''guest''\<rparr>) = Inl MissingPolicy"
    by (simp add: compile_select_def compile_bound_select_def select_policies_for_def demo_read_def demo_nested_def
        policy_for_def demo_bundle_def bt_get_def Let_def)
  then show "compiles demo_bundle (Select demo_read) (demo_session\<lparr>ts_role := ''guest''\<rparr>) (Inl MissingPolicy)"
    by (simp add: compiles_def)
qed

end
