(* ===== verification/Pol_Limits.thy ===== *)
theory Pol_Limits
  imports Pol_Errors
begin

text \<open>
  The row limit of a protected select (\<^verbatim>\<open>src/crates/policysql-policy/src/lib.rs\<close>, \<open>apply_policy_limit\<close>),
  the well-formedness that activation establishes, and two shapes of statement that the compiler
  does not protect the way its documentation says.
\<close>

section \<open>Limits\<close>

lemma min_option_le: "x \<in> set xs \<Longrightarrow> \<exists>m. min_option xs = Some m \<and> m \<le> x"
proof -
  have "foldr min ys z \<le> x" if "x \<in> set ys" for ys z using that by (induction ys) (auto simp: min_le_iff_disj)
  then show "x \<in> set xs \<Longrightarrow> \<exists>m. min_option xs = Some m \<and> m \<le> x"
    by (auto simp: min_option_def)
qed

lemma policy_limit_le:
  assumes "(r, p) \<in> set sel" and "sp_limit p = Some n"
  obtains m where "policy_limit_of sel = Some m" and "m \<le> n"
proof -
  have "n \<in> set (List.map_filter (\<lambda>(r, p). sp_limit p) sel)"
    using assms by (force simp: map_filter_def)
  from min_option_le [OF this] that show ?thesis by (auto simp: policy_limit_of_def)
qed

text \<open>The limit a select carries once a policy's was applied.\<close>

lemma applied_limit:
  assumes "\<forall>a b. sq_least sq (LV_Int64 a) (LV_Int64 b) = LV_Int64 (min a b)"
    and "\<forall>e. bs_limit s = Some e \<longrightarrow> (\<exists>i. eval sq sv db env e = LV_Int64 i)"
  shows "\<exists>e k. bs_limit (apply_policy_limit s (Some m)) = Some e \<and> eval sq sv db env e = LV_Int64 k \<and> k \<le> int m \<and>
    (\<forall>e i. bs_limit s = Some e \<and> eval sq sv db env e = LV_Int64 i \<longrightarrow> k = min i (min (int m) i64_max))"
proof -
  obtain r al js ps pr gb hv ob li off where s: "s = BoundSelect r al js ps pr gb hv ob li off" by (cases s)
  show ?thesis
  proof (cases li)
    case (Some e)
    then obtain i where i: "eval sq sv db env e = LV_Int64 i" using assms(2) s by auto
    show ?thesis
    proof (cases "\<exists>c. e = Literal (LV_Int64 c)")
      case True
      then show ?thesis using i Some s by (auto simp: apply_policy_limit_def Let_def)
    next
      case False
      then have "bs_limit (apply_policy_limit s (Some m)) = Some (Least e (Literal (LV_Int64 (min (int m) i64_max))))"
        using Some s by (auto simp: apply_policy_limit_def Let_def split: bound_expr.splits logical_value.splits)
      then show ?thesis using i Some s assms(1) by auto
    qed
  qed (use s in \<open>auto simp: apply_policy_limit_def Let_def\<close>)
qed



text \<open>A client's limit that is not a literal and is negative stays negative, which a database that
  takes a negative limit for none reads as no limit at all, the policy's included.\<close>

lemma negative_limit_defeats_policy:
  "\<exists>e k. bs_limit (apply_policy_limit (set_limit (Some (ClientParameter ''n'' LT_Int64)) demo_read) (Some 10)) = Some e \<and>
    eval (demo_sql\<lparr>sq_client := (\<lambda>_. LV_Int64 (-1))\<rparr>) [] (\<lambda>_. []) Map.empty e = LV_Int64 k \<and> k < 0"
  by (simp add: apply_policy_limit_def demo_read_def demo_sql_def Let_def)

section \<open>Activated bundles\<close>

text \<open>
  C17. Activation checks everything compilation relies on: in an activated bundle every predicate
  names columns of its own resource and compares each with an operand of its type, a conjunction
  or disjunction is not empty, a session operand is a string with a canonical key, no column is
  both regular and conditional, and no preset is a column the client may write.
\<close>

theorem activated_bundle_well_formed:
  assumes "catalog_ok c" and "activate_with_value_limit d from_yaml y c snapshot n = Inr b"
  shows "bundle_ok b"
  using assms by (rule activate_with_value_limit_ok)

lemma activated_bundle_well_formed_witness: "bundle_ok demo_bundle"
  by (rule activated_bundle_well_formed [OF demo_catalog_ok demo_activated])

section \<open>Nested selects outside WHERE\<close>

text \<open>\<open>SELECT CASE WHEN EXISTS (SELECT 1 FROM secrets WHERE owner = 't2') THEN 1 END AS x FROM projects
  WHERE EXISTS (SELECT 1 FROM secrets)\<close>, by a session whose filter on \<open>secrets\<close> is its own tenant \<open>t1\<close>.\<close>

definition probe_case :: bound_expr where
  "probe_case = Case [(demo_nested (Some (Equal (Column (demo_ref 2 0 U_Projection)) (Literal (LV_String ''t2'')))) None,
     Literal (LV_Int64 1))] None LT_Int64"

definition probe_select :: bound_select where
  "probe_select = BoundSelect 1 None [] [BoundProjection probe_case ''x''] (Some (demo_nested None None)) [] None [] None None"

definition probe_protected :: bound_select where
  "probe_protected = BoundSelect 1 None [] [BoundProjection probe_case ''x'']
     (Some (And (demo_nested (Some (demo_filter 2 0)) None) (demo_filter 1 0))) [] None [] (Some (Literal (LV_Int64 10))) None"

lemma probe_compiled: "\<exists>out. compile_select demo_bundle (Select probe_select) demo_session = Inr out \<and>
  pp_statement (co_plan out) = Select probe_protected \<and> pp_server_values (co_plan out) = demo_sv"
proof -
  let ?sel = "[(1 :: nat, demo_select_policy), (2, demo_secrets_policy)]"
  have r: "ts_role demo_session = ''member''" by (simp add: demo_session_def)
  have q: "select_policies_for demo_bundle probe_select ''member'' = Inr ([1, 2], ?sel)"
    by (simp add: select_policies_for_def probe_select_def demo_nested_def demo_policies del: One_nat_def)
  have p: "apply_projection_permissions ?sel demo_session (bs_projections probe_select) [] = Inr (bs_projections probe_select, [])"
    by (simp add: apply_projection_permissions_def apply_projection_permission_def probe_select_def probe_case_def)
  have v: "validate_select ?sel (set_projections (bs_projections probe_select) probe_select) = Inr ()"
    by (simp add: validate_select_def Let_def probe_select_def probe_case_def check_conditional_output_def
        left_resources_of_def validate_optional_def demo_nested_def regular_columns_of_def demo_select_policy_def
        demo_secrets_policy_def demo_ref_def validate_projection_def)
  have w: "protect_rows ?sel demo_session (set_projections (bs_projections probe_select) probe_select) [] =
      Inr (set_limit None probe_protected, demo_sv)"
    by (simp add: protect_rows_def probe_select_def demo_nested_def bt_get_def demo_select_policy_def demo_secrets_policy_def
        demo_instantiated and_optional_def probe_protected_def apply_policy_limit_def)
  have l: "policy_limit_of ?sel = Some 10"
    by (simp add: policy_limit_of_def min_option_def demo_select_policy_def demo_secrets_policy_def)
  have a: "apply_policy_limit (set_limit None probe_protected) (Some 10) = probe_protected"
    by (simp add: apply_policy_limit_def probe_protected_def i64_max_def)
  show ?thesis
    by (simp add: compile_select_def compile_bound_select_def r q p v w l a Let_def del: One_nat_def)
qed

text \<open>A nested select in a \<open>CASE\<close> of the projection gets no row filter when the same resource also
  occurs in \<open>WHERE\<close>: two databases that look the same to the session are told apart.\<close>

lemma projected_exists_is_unfiltered:
  "\<exists>out db db'. compile_select demo_bundle (Select probe_select) demo_session = Inr out \<and>
    pp_statement (co_plan out) = Select probe_protected \<and>
    view demo_sql demo_session (\<lambda>r. policy_for (pb_select demo_bundle) r ''member'') db =
      view demo_sql demo_session (\<lambda>r. policy_for (pb_select demo_bundle) r ''member'') db' \<and>
    select_output demo_sql demo_sv db db probe_protected \<noteq> select_output demo_sql demo_sv db' db' probe_protected"
proof -
  let ?db = "(\<lambda>_. [demo_secret_row ''t1'']) :: database"
  let ?db' = "(\<lambda>r. if r = 2 then [demo_secret_row ''t1'', demo_secret_row ''t2''] else [demo_secret_row ''t1'']) :: database"
  let ?pol = "\<lambda>r. policy_for (pb_select demo_bundle) r ''member''"
  have hidden: "\<not> visible demo_sql demo_session demo_secrets_policy (demo_secret_row ''t2'')"
    by (simp add: visible_def demo_secrets_policy_def demo_predicate_def demo_sql_def operand_value_def session_get_def
        demo_session_def bt_get_def demo_secret_row_def)
  then have "view demo_sql demo_session ?pol ?db = view demo_sql demo_session ?pol ?db'"
    using demo_policies(2) by (auto simp: view_def fun_eq_iff split: option.splits)
  moreover have "select_output demo_sql demo_sv ?db ?db probe_protected \<noteq> select_output demo_sql demo_sv ?db' ?db' probe_protected"
    by (simp add: select_output_def where_rows_def row_output_def probe_protected_def probe_case_def demo_nested_def
        demo_filter_def demo_ref_def demo_sql_def demo_sv_def demo_secret_row_def env_get_def holds_opt_def holds_def
        bt_get_def)
  ultimately show ?thesis using probe_compiled by blast
qed

end
