(* ===== verification/Canonical.thy ===== *)
theory Canonical
  imports Prelude "HOL-Library.Multiset"
begin

text \<open>
  Core's canonical JSON (\<^verbatim>\<open>src/crates/policysql-transaction/src/canonical.rs\<close>): the value type, the
  writer with its escapes, number rule and member order, the visitor that builds a value while
  it rejects duplicate keys, deep nesting and non-finite numbers, and the length functions.

  \<open>serde_json\<close> is a parameter: \<open>rd\<close> is the tree of events its deserializer delivers for a text
  (\<open>None\<close> for a text it rejects; members in text order, duplicates included) and \<open>sf\<close> prints a
  number held as a double. The text of an integer is its decimal digits.
\<close>

named_theorems canonical_defs

section \<open>Values\<close>

text \<open>\<open>serde_json::Number\<close>: a non-negative integer, a negative integer, or a double.\<close>

datatype number = PosInt nat | NegInt int | Float f64

datatype json =
    JNull
  | JBool bool
  | JNumber number
  | JString string
  | JArray "json list"
  | JObject "(string \<times> json) list"

definition MAX_DEPTH :: nat where "MAX_DEPTH = 64"

text \<open>\<open>Json::get\<close>, \<open>Json::as_text\<close> and the accessors of \<open>serde_json::Value\<close>.\<close>

fun json_get :: "string \<Rightarrow> json \<Rightarrow> json option" where
  "json_get key (JObject members) = map_option snd (find (\<lambda>(name, _). name = key) members)"
| "json_get key _ = None"

fun as_text :: "json \<Rightarrow> string option" where
  "as_text (JString text) = Some text"
| "as_text _ = None"

fun is_object :: "json \<Rightarrow> bool" where
  "is_object (JObject _) = True"
| "is_object _ = False"

fun is_string :: "json \<Rightarrow> bool" where
  "is_string (JString _) = True"
| "is_string _ = False"

fun is_null :: "json \<Rightarrow> bool" where
  "is_null JNull = True"
| "is_null _ = False"

definition number_as_u64 :: "number \<Rightarrow> nat option" where
  "number_as_u64 n = (case n of PosInt k \<Rightarrow> Some k | _ \<Rightarrow> None)"

fun as_u64 :: "json \<Rightarrow> nat option" where
  "as_u64 (JNumber n) = number_as_u64 n"
| "as_u64 _ = None"

section \<open>The writer\<close>

text \<open>\<open>fract() == 0.0 && abs() <= 2^53 - 1\<close> for a double, and its exact conversion to \<open>i64\<close>.\<close>

fun f64_safe_integer :: "f64 \<Rightarrow> int option" where
  "f64_safe_integer (F_fin q) =
     (if of_int \<lfloor>q\<rfloor> = q \<and> \<bar>q\<bar> \<le> 9007199254740991 then Some \<lfloor>q\<rfloor> else None)"
| "f64_safe_integer _ = None"

fun write_number :: "(f64 \<Rightarrow> string) \<Rightarrow> number \<Rightarrow> string" where
  "write_number sf (Float v) =
     (case f64_safe_integer v of Some i \<Rightarrow> show_int i | None \<Rightarrow> sf v)"
| "write_number sf (PosInt n) = show_nat n"
| "write_number sf (NegInt i) = show_int i"

definition hex_digit :: "nat \<Rightarrow> char" where
  "hex_digit n = ''0123456789abcdef'' ! n"

text \<open>The escape of a byte: \<open>None\<close> is a byte that is copied, \<open>Some []\<close> one that gets the generic
  \<open>\u00xx\<close> form.\<close>

definition escape :: "char \<Rightarrow> string option" where
  "escape c = (let b = byte c in
     if b = 34 then Some [CHR 0x5C, CHR 0x22]
     else if b = 92 then Some [CHR 0x5C, CHR 0x5C]
     else if b = 8 then Some [CHR 0x5C, CHR ''b'']
     else if b = 9 then Some [CHR 0x5C, CHR ''t'']
     else if b = 10 then Some [CHR 0x5C, CHR ''n'']
     else if b = 12 then Some [CHR 0x5C, CHR ''f'']
     else if b = 13 then Some [CHR 0x5C, CHR ''r'']
     else if b \<le> 31 then Some []
     else None)"

text \<open>The loop over the bytes: \<open>rest\<close> are the bytes from \<open>index\<close> on, \<open>start\<close> is where the run
  not yet copied begins.\<close>

fun write_string_loop :: "string \<Rightarrow> string \<Rightarrow> nat \<Rightarrow> nat \<Rightarrow> string \<Rightarrow> string" where
  "write_string_loop text [] start index out = out @ drop start text @ [CHR 0x22]"
| "write_string_loop text (c # rest) start index out =
     (case escape c of
        None \<Rightarrow> write_string_loop text rest start (Suc index) out
      | Some esc \<Rightarrow>
          write_string_loop text rest (Suc index) (Suc index)
            (out @ take (index - start) (drop start text) @
              (if esc = [] then
                 [CHR 0x5C] @ ''u00'' @ [hex_digit (byte c div 16), hex_digit (byte c mod 16)]
               else esc)))"

definition write_string :: "string \<Rightarrow> string" where
  "write_string text = write_string_loop text text 0 0 [CHR 0x22]"

fun join :: "string \<Rightarrow> string list \<Rightarrow> string" where
  "join sep [] = []"
| "join sep [x] = x"
| "join sep (x # y # xs) = x @ sep @ join sep (y # xs)"

text \<open>Members sorted by the bytes of their keys; the sort is stable.\<close>

definition sort_members :: "(string \<times> 'a) list \<Rightarrow> (string \<times> 'a) list" where
  "sort_members ms = sort_key fst ms"

lemma set_sort_members [simp]: "set (sort_members ms) = set ms"
  by (simp add: sort_members_def)

lemma size_member_json [termination_simp]:
  "(k, v) \<in> set ms \<Longrightarrow> size v < Suc (size_list (size_prod (\<lambda>_. 0) size) ms)"
  by (induction ms) auto

fun write_value :: "(f64 \<Rightarrow> string) \<Rightarrow> json \<Rightarrow> string" where
  "write_value sf JNull = ''null''"
| "write_value sf (JBool True) = ''true''"
| "write_value sf (JBool False) = ''false''"
| "write_value sf (JNumber n) = write_number sf n"
| "write_value sf (JString text) = write_string text"
| "write_value sf (JArray items) = ''['' @ join '','' (map (write_value sf) items) @ '']''"
| "write_value sf (JObject members) =
     ''{'' @ join '','' (map (\<lambda>(key, item). write_string key @ '':'' @ write_value sf item)
                 (sort_members members)) @ ''}''"

definition to_canonical :: "(f64 \<Rightarrow> string) \<Rightarrow> json \<Rightarrow> string" where
  "to_canonical sf v = write_value sf v"

section \<open>Lengths\<close>

definition js_string_len :: "string \<Rightarrow> nat" where
  "js_string_len text = length (write_string text)"

fun js_value_len :: "(f64 \<Rightarrow> string) \<Rightarrow> json \<Rightarrow> nat" where
  "js_value_len sf JNull = 4"
| "js_value_len sf (JBool True) = 4"
| "js_value_len sf (JBool False) = 5"
| "js_value_len sf (JNumber n) = length (write_number sf n)"
| "js_value_len sf (JString text) = js_string_len text"
| "js_value_len sf (JArray items) = 2 + (length items - 1) + sum_list (map (js_value_len sf) items)"
| "js_value_len sf (JObject members) =
     2 + (length members - 1) +
     sum_list (map (\<lambda>(key, item). js_string_len key + 1 + js_value_len sf item) members)"

section \<open>The visitor\<close>

text \<open>\<open>members.windows(2).any(|pair| pair[0].0 == pair[1].0)\<close>.\<close>

fun adjacent_dup :: "(string \<times> 'a) list \<Rightarrow> bool" where
  "adjacent_dup (a # b # ms) = (fst a = fst b \<or> adjacent_dup (b # ms))"
| "adjacent_dup _ = False"

fun all_some :: "'a option list \<Rightarrow> 'a list option" where
  "all_some [] = Some []"
| "all_some (None # xs) = None"
| "all_some (Some x # xs) = map_option (Cons x) (all_some xs)"

text \<open>\<open>ValueVisitor\<close>: \<open>depth\<close> levels are open, at most \<open>max_depth\<close> may be.\<close>

fun visit :: "nat \<Rightarrow> nat \<Rightarrow> json \<Rightarrow> json option" where
  "visit depth max_depth JNull = Some JNull"
| "visit depth max_depth (JBool b) = Some (JBool b)"
| "visit depth max_depth (JNumber (Float v)) =
     (if f64_is_finite v then Some (JNumber (Float v)) else None)"
| "visit depth max_depth (JNumber n) = Some (JNumber n)"
| "visit depth max_depth (JString text) = Some (JString text)"
| "visit depth max_depth (JArray items) =
     (if depth \<ge> max_depth then None
      else map_option JArray (all_some (map (visit (Suc depth) max_depth) items)))"
| "visit depth max_depth (JObject members) =
     (if depth \<ge> max_depth then None
      else (case all_some (map (\<lambda>(key, item).
                   map_option (Pair key) (visit (Suc depth) max_depth item)) members) of
              None \<Rightarrow> None
            | Some ms \<Rightarrow>
                (let sorted = sort_members ms
                 in if adjacent_dup sorted then None else Some (JObject sorted))))"

definition parse_with_max_depth :: "(string \<Rightarrow> json option) \<Rightarrow> string \<Rightarrow> nat \<Rightarrow> json option" where
  "parse_with_max_depth rd text max_depth =
     (case rd text of None \<Rightarrow> None | Some tree \<Rightarrow> visit 0 max_depth tree)"

definition canonical_parse :: "(string \<Rightarrow> json option) \<Rightarrow> string \<Rightarrow> json option" where
  "canonical_parse rd text = parse_with_max_depth rd text MAX_DEPTH"

definition canonical_json :: "(string \<Rightarrow> json option) \<Rightarrow> (f64 \<Rightarrow> string) \<Rightarrow> string \<Rightarrow> string option" where
  "canonical_json rd sf text = map_option (to_canonical sf) (canonical_parse rd text)"

section \<open>The escapes\<close>

text \<open>The reference form of the writer: each byte on its own.\<close>

definition escaped :: "char \<Rightarrow> string" where
  "escaped c = (case escape c of
       None \<Rightarrow> [c]
     | Some [] \<Rightarrow> [CHR 0x5C] @ ''u00'' @ [hex_digit (byte c div 16), hex_digit (byte c mod 16)]
     | Some esc \<Rightarrow> esc)"

lemma write_string_loop_ref:
  assumes "start \<le> index" "index + length rest = length text" "drop index text = rest"
  shows "write_string_loop text rest start index out =
           out @ take (index - start) (drop start text) @ concat (map escaped rest) @ [CHR 0x22]"
  using assms
proof (induction rest arbitrary: start index out)
  case Nil
  then show ?case by simp
next
  case (Cons c rest)
  from Cons.prems(3) have nxt: "drop (Suc index) text = rest"
    by (metis drop_Suc list.sel(3) tl_drop)
  have len: "index < length text" using Cons.prems(2) by simp
  have c: "text ! index = c" using Cons.prems(3) len by (metis Cons_nth_drop_Suc list.inject)
  have run: "take (Suc index - start) (drop start text) = take (index - start) (drop start text) @ [c]"
    using Cons.prems(1) len c
    by (simp add: Suc_diff_le take_Suc_conv_app_nth)
  show ?case
  proof (cases "escape c")
    case None
    then show ?thesis
      using Cons.IH[of start "Suc index" out] Cons.prems nxt run by (simp add: escaped_def)
  next
    case (Some esc)
    then show ?thesis
      using Cons.IH[of "Suc index" "Suc index"] Cons.prems nxt
      by (cases esc) (simp_all add: escaped_def)
  qed
qed

lemma write_string_ref:
  "write_string text = CHR 0x22 # concat (map escaped text) @ [CHR 0x22]"
  by (simp add: write_string_def write_string_loop_ref)

lemma hex_digit_inj: "a < 16 \<Longrightarrow> b < 16 \<Longrightarrow> hex_digit a = hex_digit b \<Longrightarrow> a = b"
  unfolding hex_digit_def by (simp add: nth_eq_iff_index_eq)

lemma escaped_plain: "escape c = None \<Longrightarrow> escaped c = [c] \<and> byte c \<noteq> 34 \<and> byte c \<noteq> 92"
  by (auto simp: escaped_def escape_def Let_def split: if_splits)

definition escape_letter :: "char \<Rightarrow> char" where
  "escape_letter c = (let b = byte c in
     if b = 34 then CHR 0x22 else if b = 92 then CHR 0x5C else if b = 8 then CHR ''b''
     else if b = 9 then CHR ''t'' else if b = 10 then CHR ''n'' else if b = 12 then CHR ''f''
     else if b = 13 then CHR ''r'' else CHR ''u'')"

lemma escaped_special:
  assumes "escape c \<noteq> None"
  shows "escaped c = CHR 0x5C # escape_letter c #
           (if escape_letter c = CHR ''u''
            then ''00'' @ [hex_digit (byte c div 16), hex_digit (byte c mod 16)] else [])"
  using assms by (auto simp: escaped_def escape_def escape_letter_def Let_def split: if_splits)

lemma escape_letter_inj:
  assumes "escape_letter c = escape_letter d" "escape_letter c \<noteq> CHR ''u''"
  shows "c = d"
  using assms by (auto simp: escape_letter_def Let_def intro: byte_inj split: if_splits)

lemma escaped_prefix_free:
  assumes "escaped c @ x = escaped d @ y"
  shows "c = d \<and> x = y"
proof (cases "escape c")
  case None
  note c = escaped_plain [OF None]
  show ?thesis
  proof (cases "escape d")
    case None
    then show ?thesis using assms c escaped_plain by fastforce
  next
    case (Some e)
    then have "c = CHR 0x5C" using assms c by (simp add: escaped_special)
    then show ?thesis using c by (simp add: byte_def)
  qed
next
  case (Some e)
  then have c: "escape c \<noteq> None" by simp
  show ?thesis
  proof (cases "escape d")
    case None
    then have "d = CHR 0x5C" using assms c escaped_plain by (fastforce simp: escaped_special)
    then show ?thesis using escaped_plain [OF None] by (simp add: byte_def)
  next
    case (Some e')
    then have d: "escape d \<noteq> None" by simp
    have l: "escape_letter c = escape_letter d" using assms c d by (simp add: escaped_special)
    show ?thesis
    proof (cases "escape_letter c = CHR ''u''")
      case True
      have h: "hex_digit (byte c div 16) = hex_digit (byte d div 16)"
        "hex_digit (byte c mod 16) = hex_digit (byte d mod 16)" "x = y"
        using assms c d l True by (simp_all add: escaped_special)
      have "byte c div 16 = byte d div 16"
        using h(1) byte_lt [of c] byte_lt [of d] by (intro hex_digit_inj) auto
      moreover have "byte c mod 16 = byte d mod 16"
        using h(2) by (intro hex_digit_inj) auto
      ultimately have "byte c = byte d" by (metis div_mult_mod_eq)
      then show ?thesis using h(3) byte_inj by blast
    next
      case False
      then show ?thesis using assms c d l escape_letter_inj [OF l False] by (simp add: escaped_special)
    qed
  qed
qed

lemma escaped_not_quote: "\<exists>a as. escaped c = a # as \<and> a \<noteq> CHR 0x22"
proof (cases "escape c")
  case None
  then show ?thesis using escaped_plain [OF None] by (auto simp: byte_def)
next
  case (Some e)
  then show ?thesis by (simp add: escaped_special)
qed

lemma escaped_text_unique:
  "concat (map escaped s) @ CHR 0x22 # r = concat (map escaped t) @ CHR 0x22 # r'
     \<Longrightarrow> s = t \<and> r = r'"
proof (induction s arbitrary: t)
  case Nil
  then show ?case
  proof (cases t)
    case (Cons d t')
    then show ?thesis using Nil escaped_not_quote [of d] by auto
  qed simp
next
  case (Cons c s)
  then obtain d t' where t: "t = d # t'"
    using escaped_not_quote [of c] by (cases t) auto
  from Cons.prems have "escaped c @ (concat (map escaped s) @ CHR 0x22 # r)
      = escaped d @ (concat (map escaped t') @ CHR 0x22 # r')" by (simp add: t)
  from escaped_prefix_free [OF this] Cons.IH show ?case by (simp add: t)
qed

lemma write_string_prefix_free:
  assumes "write_string s @ r = write_string t @ r'"
  shows "s = t \<and> r = r'"
proof -
  from assms have "concat (map escaped s) @ CHR 0x22 # r = concat (map escaped t) @ CHR 0x22 # r'"
    unfolding write_string_ref by simp
  then show ?thesis by (rule escaped_text_unique)
qed

lemma length_join: "length (join [c] xs) = sum_list (map length xs) + (length xs - 1)"
  by (induction "[c]" xs rule: join.induct) auto

lemma sort_members_perm: "mset (sort_members ms) = mset ms"
  by (simp add: sort_members_def)

lemma sum_list_perm: "mset xs = mset ys \<Longrightarrow> sum_list (map f xs) = (sum_list (map f ys) :: nat)"
  by (metis mset_map sum_mset_sum_list)

lemma length_write_array:
  assumes "\<And>x. x \<in> set items \<Longrightarrow> f x = length (g x)"
  shows "2 + (length items - 1) + sum_list (map f items) = length (''['' @ join '','' (map g items) @ '']'')"
proof -
  have "map f items = map (length \<circ> g) items" using assms by simp
  then have "sum_list (map f items) = sum_list (map (length \<circ> g) items)" by (rule arg_cong)
  then show ?thesis by (simp add: length_join)
qed

lemma js_value_len_ok: "js_value_len sf v = length (write_value sf v)"
proof (induction sf v rule: js_value_len.induct)
  case (6 sf items)
  then show ?case unfolding js_value_len.simps write_value.simps by (rule length_write_array)
next
  case (7 sf members)
  let ?w = "\<lambda>(key, item). write_string key @ '':'' @ write_value sf item"
  let ?n = "\<lambda>(key, item). js_string_len key + 1 + js_value_len sf item"
  have eq: "?n x = length (?w x)" if "x \<in> set members" for x
    using 7 that by (cases x) (auto simp: js_string_len_def)
  have "sum_list (map ?n members) = sum_list (map ?n (sort_members members))"
    by (rule sum_list_perm) (simp add: sort_members_perm)
  moreover have "length (sort_members members) = length members" by (simp add: sort_members_def)
  moreover have "2 + (length (sort_members members) - 1) + sum_list (map ?n (sort_members members))
      = length (''['' @ join '','' (map ?w (sort_members members)) @ '']'')"
    by (rule length_write_array) (rule eq, simp)
  ultimately show ?case by simp
qed (simp_all add: js_string_len_def)

section \<open>Unique readability\<close>

text \<open>What a canonical text determines: the structure, with the members of an object in key
  order and a number as its text.\<close>

datatype shape = SAtom string | SText string | SArray "shape list" | SObject "(string \<times> shape) list"

fun shape_of :: "(f64 \<Rightarrow> string) \<Rightarrow> json \<Rightarrow> shape" where
  "shape_of sf JNull = SAtom ''null''"
| "shape_of sf (JBool True) = SAtom ''true''"
| "shape_of sf (JBool False) = SAtom ''false''"
| "shape_of sf (JNumber n) = SAtom (write_number sf n)"
| "shape_of sf (JString text) = SText text"
| "shape_of sf (JArray items) = SArray (map (shape_of sf) items)"
| "shape_of sf (JObject members) = SObject (map (\<lambda>(key, item). (key, shape_of sf item)) (sort_members members))"

fun write_shape :: "shape \<Rightarrow> string" where
  "write_shape (SAtom t) = t"
| "write_shape (SText t) = write_string t"
| "write_shape (SArray items) = ''['' @ join '','' (map write_shape items) @ '']''"
| "write_shape (SObject members) =
     ''{'' @ join '','' (map (\<lambda>(key, item). write_string key @ '':'' @ write_shape item) members) @ ''}''"

text \<open>The characters of a number's text and the atoms.\<close>

definition number_char :: "char \<Rightarrow> bool" where
  "number_char c = (is_ascii_digit c \<or> c \<in> set ''+-.eE'')"

definition number_text :: "string \<Rightarrow> bool" where
  "number_text t = (t \<noteq> [] \<and> list_all number_char t)"

definition atom_text :: "string \<Rightarrow> bool" where
  "atom_text t = (t \<in> {''null'', ''true'', ''false''} \<or> number_text t)"

fun wf_shape :: "shape \<Rightarrow> bool" where
  "wf_shape (SAtom t) = atom_text t"
| "wf_shape (SText t) = True"
| "wf_shape (SArray items) = list_all wf_shape items"
| "wf_shape (SObject members) = list_all (\<lambda>(key, item). wf_shape item) members"

lemma write_value_shape: "write_value sf v = write_shape (shape_of sf v)"
proof (induction sf v rule: write_value.induct)
  case (6 sf items)
  then show ?case by (simp add: comp_def cong: map_cong)
next
  case (7 sf members)
  have "map (\<lambda>(key, item). write_string key @ '':'' @ write_value sf item) (sort_members members)
      = map ((\<lambda>(key, item). write_string key @ '':'' @ write_shape item) \<circ>
          (\<lambda>(key, item). (key, shape_of sf item))) (sort_members members)"
    using 7 by (intro map_cong) auto
  then show ?case unfolding write_value.simps shape_of.simps write_shape.simps list.map_comp by (simp only:)
qed simp_all

lemma show_nat_number: "number_text (show_nat n)"
  using show_nat_digits by (auto simp: number_text_def number_char_def list_all_iff)

lemma show_int_number: "number_text (show_int i)"
proof (cases "i < 0")
  case True
  then show ?thesis using show_nat_number[of "nat (- i)"]
    by (simp add: show_int_def number_text_def number_char_def)
qed (simp add: show_int_def show_nat_number)

lemma wf_shape_shape: "(\<And>v. number_text (sf v)) \<Longrightarrow> wf_shape (shape_of sf v)"
proof (induction sf v rule: shape_of.induct)
  case (4 sf n)
  then show ?case
    by (cases n) (auto simp: atom_text_def show_nat_number show_int_number split: option.split)
qed (auto simp: atom_text_def list_all_iff)

text \<open>What may follow a value: nothing, or a separator.\<close>

definition sep :: "string \<Rightarrow> bool" where
  "sep r = (case r of [] \<Rightarrow> True | c # _ \<Rightarrow> c \<in> set '',:]}'')"

lemma number_char_not_sep: "number_char c \<Longrightarrow> c \<notin> set '',:]}''"
  by (auto simp: number_char_def is_ascii_digit_def byte_def)

lemma number_text_unique:
  assumes "number_text t" "number_text u" "sep r" "sep r'" "t @ r = u @ r'"
  shows "t = u \<and> r = r'"
proof -
  have stop: "takeWhile number_char (w @ q) = w" if "number_text w" "sep q" for w q
    using that number_char_not_sep
    by (auto simp: number_text_def sep_def list_all_iff takeWhile_tail split: list.splits)
  from stop[OF assms(1,3)] stop[OF assms(2,4)] assms(5) have "t = u" by metis
  with assms(5) show ?thesis by simp
qed

lemma atom_text_first: "atom_text t \<Longrightarrow> \<exists>c cs. t = c # cs \<and> (number_char c \<or> c \<in> set ''ntf'')"
  by (cases t) (auto simp: atom_text_def number_text_def)

lemma atom_text_unique:
  assumes "atom_text t" "atom_text u" "sep r" "sep r'" "t @ r = u @ r'"
  shows "t = u \<and> r = r'"
proof (cases "number_text t \<and> number_text u")
  case True
  then show ?thesis using assms number_text_unique by blast
next
  case False
  have "\<not> number_char (CHR ''n'')" "\<not> number_char (CHR ''t'')" "\<not> number_char (CHR ''f'')"
    by (simp_all add: number_char_def is_ascii_digit_def byte_def)
  with False assms show ?thesis
    by (cases t; cases u) (auto simp: atom_text_def number_text_def)
qed


text \<open>A bracketed, comma-separated list is read back in one way when its items are.\<close>

lemma join_Cons: "xs \<noteq> [] \<Longrightarrow> join s (x # xs) = x @ s @ join s xs"
  by (cases xs) auto

lemma join_unique:
  assumes "\<And>x y q q'. x \<in> set xs \<Longrightarrow> y \<in> set ys \<Longrightarrow> sep q \<Longrightarrow> sep q' \<Longrightarrow>
             w x @ q = w y @ q' \<Longrightarrow> x = y \<and> q = q'"
    and "\<And>x. x \<in> set xs \<union> set ys \<Longrightarrow> \<exists>c cs. w x = c # cs \<and> c \<noteq> close"
    and "close \<in> set '']}''"
    and "join '','' (map w xs) @ close # r = join '','' (map w ys) @ close # r'"
  shows "xs = ys \<and> r = r'"
  using assms
proof (induction xs arbitrary: ys)
  case Nil
  show ?case
  proof (cases ys)
    case (Cons y ys')
    obtain c cs where "w y = c # cs" "c \<noteq> close" using Nil.prems(2)[of y] Cons by auto
    with Nil.prems(4) Cons show ?thesis by (cases ys') auto
  qed (use Nil.prems(4) in simp)
next
  case (Cons x xs)
  obtain c cs where x: "w x = c # cs" "c \<noteq> close" using Cons.prems(2)[of x] by auto
  obtain y ys' where ys: "ys = y # ys'"
    using Cons.prems(4) x by (cases ys; cases xs) auto
  define tl where "tl zs q = (if zs = [] then close # q else CHR '','' # join '','' (map w zs) @ close # q)"
    for zs q
  have unf: "join '','' (map w (z # zs)) @ close # q = w z @ tl zs q" for z zs q
    by (simp add: join_Cons tl_def)
  have seps: "sep (tl zs q)" for zs q using Cons.prems(3) by (auto simp: sep_def tl_def)
  from Cons.prems(4) have "w x @ tl xs r = w y @ tl ys' r'" unfolding ys unf .
  with Cons.prems(1)[of x y] seps have xy: "x = y" and tls: "tl xs r = tl ys' r'" by (auto simp: ys)
  have nc: "close \<noteq> CHR '',''" using Cons.prems(3) by auto
  show ?case
  proof (cases "xs = [] \<or> ys' = []")
    case True
    then show ?thesis using tls xy nc ys by (auto simp: tl_def split: if_splits)
  next
    case False
    then have "join '','' (map w xs) @ close # r = join '','' (map w ys') @ close # r'"
      using tls by (simp add: tl_def)
    then have "xs = ys' \<and> r = r'"
      using Cons.prems(1-3) by (intro Cons.IH) (auto simp: ys)
    then show ?thesis by (simp add: xy ys)
  qed
qed

lemma write_string_first: "\<exists>cs. write_string s = CHR 0x22 # cs"
  by (simp add: write_string_ref)

lemma number_char_not_open: "number_char c \<Longrightarrow> c \<notin> set ''[{'' \<and> c \<noteq> CHR 0x22"
  by (auto simp: number_char_def is_ascii_digit_def byte_def)

text \<open>The first character tells which kind of value follows.\<close>

fun opener :: "shape \<Rightarrow> nat" where
  "opener (SAtom _) = 0" | "opener (SText _) = 1" | "opener (SArray _) = 2" | "opener (SObject _) = 3"

definition char_kind :: "char \<Rightarrow> nat" where
  "char_kind c = (if c = CHR 0x22 then 1 else if c = CHR ''['' then 2 else if c = CHR ''{'' then 3 else 0)"

lemma write_shape_first:
  assumes "wf_shape x"
  shows "\<exists>c cs. write_shape x = c # cs \<and> char_kind c = opener x \<and> c \<notin> set '',:]}''"
proof (cases x)
  case (SAtom t)
  then obtain c cs where "t = c # cs" "number_char c \<or> c \<in> set ''ntf''"
    using assms atom_text_first[of t] by auto
  then show ?thesis using SAtom number_char_not_open[of c] number_char_not_sep[of c]
    by (auto simp: char_kind_def)
next
  case (SText t)
  then show ?thesis using write_string_first[of t] by (auto simp: char_kind_def)
qed (auto simp: char_kind_def)

lemma same_opener:
  assumes "wf_shape x" "wf_shape y" "write_shape x @ r = write_shape y @ r'"
  shows "opener x = opener y"
  using write_shape_first[OF assms(1)] write_shape_first[OF assms(2)] assms(3) by auto

lemma write_shape_unique:
  "wf_shape x \<Longrightarrow> wf_shape y \<Longrightarrow> sep r \<Longrightarrow> sep r' \<Longrightarrow> write_shape x @ r = write_shape y @ r'
     \<Longrightarrow> x = y \<and> r = r'"
proof (induction x arbitrary: y r r')
  case (SAtom t)
  then obtain u where "y = SAtom u" using same_opener[of "SAtom t" y r r'] by (cases y) auto
  then show ?case using SAtom.prems atom_text_unique[of t u r r'] by simp
next
  case (SText t)
  then obtain u where "y = SText u" using same_opener[of "SText t" y r r'] by (cases y) auto
  then show ?case using SText.prems(5) write_string_prefix_free[of t r u r'] by simp
next
  case (SArray xs)
  then obtain ys where y: "y = SArray ys" using same_opener[of "SArray xs" y r r'] by (cases y) auto
  have wf: "\<And>x. x \<in> set xs \<union> set ys \<Longrightarrow> wf_shape x"
    using SArray.prems(1,2) by (auto simp: y list_all_iff)
  have "xs = ys \<and> r = r'"
  proof (rule join_unique [where w = write_shape and close = "CHR '']''"])
    show "x = z \<and> q = q'" if "x \<in> set xs" "z \<in> set ys" "sep q" "sep q'"
      "write_shape x @ q = write_shape z @ q'" for x z q q'
      using SArray.IH that wf by blast
    show "\<exists>c cs. write_shape x = c # cs \<and> c \<noteq> CHR '']''" if "x \<in> set xs \<union> set ys" for x
      using write_shape_first[OF wf[OF that]] by auto
    show "join '','' (map write_shape xs) @ CHR '']'' # r = join '','' (map write_shape ys) @ CHR '']'' # r'"
      using SArray.prems(5) by (simp add: y)
  qed simp
  then show ?case by (simp add: y)
next
  case (SObject xs)
  then obtain ys where y: "y = SObject ys" using same_opener[of "SObject xs" y r r'] by (cases y) auto
  let ?w = "\<lambda>(key, item). write_string key @ '':'' @ write_shape item"
  have wf: "\<And>k x. (k, x) \<in> set xs \<union> set ys \<Longrightarrow> wf_shape x"
    using SObject.prems(1,2) by (auto simp: y list_all_iff)
  have "xs = ys \<and> r = r'"
  proof (rule join_unique [where w = ?w and close = "CHR ''}''"])
    fix x z q q'
    assume a: "x \<in> set xs" "z \<in> set ys" "sep q" "sep q'" "?w x @ q = ?w z @ q'"
    obtain k v l u where xz: "x = (k, v)" "z = (l, u)" by (cases x; cases z)
    from a(5) have "write_string k @ (CHR '':'' # write_shape v @ q) = write_string l @ (CHR '':'' # write_shape u @ q')"
      by (simp add: xz)
    from write_string_prefix_free[OF this] have kl: "k = l" "write_shape v @ q = write_shape u @ q'" by auto
    have "v \<in> Basic_BNFs.snds x" by (simp add: xz)
    from SObject.IH[OF a(1) this _ _ a(3,4) kl(2)] wf a(1,2) xz kl(1)
    show "x = z \<and> q = q'" by auto
  next
    show "\<exists>c cs. ?w x = c # cs \<and> c \<noteq> CHR ''}''" for x
      using write_string_first [of "fst x"] by (cases x) auto
  next
    show "join '','' (map ?w xs) @ CHR ''}'' # r = join '','' (map ?w ys) @ CHR ''}'' # r'"
      using SObject.prems(5) by (simp add: y)
  qed simp
  then show ?case by (simp add: y)
qed

section \<open>What the visitor accepts\<close>

fun nesting :: "json \<Rightarrow> nat" where
  "nesting (JArray items) = Suc (Max (insert 0 (set (map nesting items))))"
| "nesting (JObject members) = Suc (Max (insert 0 (set (map (\<lambda>(key, item). nesting item) members))))"
| "nesting _ = 0"

text \<open>No object has a key twice and no number is infinite or not a number.\<close>

fun clean :: "json \<Rightarrow> bool" where
  "clean (JNumber (Float v)) = f64_is_finite v"
| "clean (JArray items) = list_all clean items"
| "clean (JObject members) = (distinct (map fst members) \<and> list_all (\<lambda>(key, item). clean item) members)"
| "clean _ = True"

lemma all_some_members:
  "all_some (map (\<lambda>(k, i). map_option (Pair k) (g i)) ms) = Some ns \<longleftrightarrow>
     list_all2 (\<lambda>(k, i) (l, j). k = l \<and> g i = Some j) ms ns"
proof (induction ms arbitrary: ns)
  case (Cons a ms)
  obtain k i where a: "a = (k, i)" by (cases a)
  show ?case by (cases "g i"; cases ns) (auto simp: a Cons.IH)
qed auto

lemma all_some_items:
  "all_some (map g xs) = Some ys \<longleftrightarrow> list_all2 (\<lambda>x y. g x = Some y) xs ys"
proof (induction xs arbitrary: ys)
  case (Cons x xs)
  then show ?case by (cases "g x"; cases ys) auto
qed auto

lemma all_some_None_iff: "all_some xs = None \<longleftrightarrow> None \<in> set xs"
  by (induction xs rule: all_some.induct) auto

lemma adjacent_dup_sorted:
  "sorted (map fst ms) \<Longrightarrow> adjacent_dup ms \<longleftrightarrow> \<not> distinct (map fst ms)"
proof (induction ms rule: adjacent_dup.induct)
  case (1 a b ms)
  then show ?case by (auto dest: order_antisym)
qed auto

lemma adjacent_dup_sort_members:
  "adjacent_dup (sort_members ms) \<longleftrightarrow> \<not> distinct (map fst ms)"
proof -
  have "sorted (map fst (sort_members ms))" by (simp add: sort_members_def)
  moreover have "mset (map fst (sort_members ms)) = mset (map fst ms)"
    by (simp add: sort_members_def)
  ultimately show ?thesis by (metis adjacent_dup_sorted mset_eq_imp_distinct_iff)
qed

lemma insort_map_snd:
  "insort_key fst (k, f i) (map (\<lambda>(k, i). (k, f i)) ms) = map (\<lambda>(k, i). (k, f i)) (insort_key fst (k, i) ms)"
  by (induction ms) auto

lemma sort_members_map_snd:
  "sort_members (map (\<lambda>(k, i). (k, f i)) ms) = map (\<lambda>(k, i). (k, f i)) (sort_members ms)"
  unfolding sort_members_def
  by (induction ms) (auto simp: insort_map_snd)

lemma sort_members_idem: "sort_members (sort_members ms) = sort_members ms"
  unfolding sort_members_def by (simp add: sort_key_id_if_sorted)

lemma nesting_bound:
  assumes "finite A"
  shows "d + Suc (Max (insert 0 A)) \<le> m \<longleftrightarrow> d < m \<and> (\<forall>a\<in>A. Suc d + a \<le> (m :: nat))"
proof -
  have "Max (insert 0 A) \<le> m - Suc d \<longleftrightarrow> (\<forall>a\<in>insert 0 A. a \<le> m - Suc d)"
    using assms by (simp add: Max_le_iff)
  then show ?thesis by (cases "d < m") (auto simp: le_diff_conv2 add.commute)
qed

lemma visit_Some_iff:
  "d \<le> m \<Longrightarrow> (\<exists>v. visit d m t = Some v) \<longleftrightarrow> d + nesting t \<le> m \<and> clean t"
proof (induction d m t rule: visit.induct)
  case (6 d m items)
  show ?case
  proof (cases "d < m")
    case True
    then have IH: "(\<exists>v. visit (Suc d) m x = Some v) \<longleftrightarrow> Suc d + nesting x \<le> m \<and> clean x"
      if "x \<in> set items" for x using 6 that by simp
    have "(\<exists>v. visit d m (JArray items) = Some v) \<longleftrightarrow> (\<forall>x\<in>set items. \<exists>v. visit (Suc d) m x = Some v)"
      using True all_some_None_iff[of "map (visit (Suc d) m) items"] by (force simp: image_iff)
    also have "\<dots> \<longleftrightarrow> (\<forall>x\<in>set items. Suc d + nesting x \<le> m \<and> clean x)" using IH by simp
    also have "\<dots> \<longleftrightarrow> d + nesting (JArray items) \<le> m \<and> clean (JArray items)"
      using True nesting_bound[of "nesting ` set items" d m] by (auto simp: list_all_iff)
    finally show ?thesis .
  qed (use 6 in auto)
next
  case (7 d m members)
  let ?g = "visit (Suc d) m"
  let ?f = "\<lambda>(key, item). map_option (Pair key) (?g item)"
  show ?case
  proof (cases "d < m")
    case True
    then have IH: "(\<exists>v. ?g x = Some v) \<longleftrightarrow> Suc d + nesting x \<le> m \<and> clean x"
      if "(k, x) \<in> set members" for k x using 7 that by fastforce
    have keys: "map fst ms = map fst members" if "all_some (map ?f members) = Some ms" for ms
      using that unfolding all_some_members by (induction rule: list_all2_induct) auto
    have "(\<exists>v. visit d m (JObject members) = Some v) \<longleftrightarrow>
        distinct (map fst members) \<and> (\<exists>ms. all_some (map ?f members) = Some ms)"
      using True keys by (auto simp: adjacent_dup_sort_members Let_def split: option.split)
    also have "(\<exists>ms. all_some (map ?f members) = Some ms) \<longleftrightarrow> (\<forall>(k, x)\<in>set members. \<exists>v. ?g x = Some v)"
      using all_some_None_iff[of "map ?f members"] by (fastforce simp: image_iff)
    also have "\<dots> \<longleftrightarrow> (\<forall>(k, x)\<in>set members. Suc d + nesting x \<le> m \<and> clean x)"
      using IH by fastforce
    finally show ?thesis
      using True nesting_bound[of "(\<lambda>(k, x). nesting x) ` set members" d m]
      by (auto simp: list_all_iff)
  qed (use 7 in auto)
qed auto

lemma visit_shape: "visit d m t = Some v \<Longrightarrow> shape_of sf v = shape_of sf t"
proof (induction d m t arbitrary: v rule: visit.induct)
  case (6 d m items)
  from 6(2) obtain vs where v: "v = JArray vs" and
    vs: "list_all2 (\<lambda>x y. visit (Suc d) m x = Some y) items vs" and dm: "\<not> m \<le> d"
    by (auto simp: all_some_items split: if_splits)
  have IH: "\<And>x y. x \<in> set items \<Longrightarrow> visit (Suc d) m x = Some y \<Longrightarrow> shape_of sf y = shape_of sf x"
    using 6(1) dm by blast
  from vs IH have "map (shape_of sf) vs = map (shape_of sf) items"
    by (induction rule: list_all2_induct) auto
  then show ?case by (simp add: v)
next
  case (7 d m members)
  from 7(2) obtain ms where v: "v = JObject (sort_members ms)" and dm: "\<not> m \<le> d" and
    ms: "list_all2 (\<lambda>(k, i) (l, j). k = l \<and> visit (Suc d) m i = Some j) members ms"
    by (auto simp: all_some_members Let_def split: if_splits option.splits)
  have IH: "\<And>k x y. (k, x) \<in> set members \<Longrightarrow> visit (Suc d) m x = Some y \<Longrightarrow> shape_of sf y = shape_of sf x"
    using 7(1) dm by fastforce
  let ?s = "\<lambda>(key, item). (key, shape_of sf item)"
  from ms IH have "map ?s ms = map ?s members"
    by (induction rule: list_all2_induct) auto
  then have "map ?s (sort_members ms) = map ?s (sort_members members)"
    by (simp add: sort_members_map_snd [symmetric])
  then show ?case by (simp add: v sort_members_idem)
qed (auto split: if_splits)

lemma sort_members_unique:
  assumes "distinct (map fst ms)" "mset ms = mset ns"
  shows "sort_members ms = sort_members ns"
  unfolding sort_members_def
  by (rule sort_key_inj_key_eq) (use assms in \<open>auto simp: distinct_map\<close>)

lemma to_canonical_shape_iff:
  assumes "\<And>v. number_text (sf v)"
  shows "to_canonical sf v = to_canonical sf w \<longleftrightarrow> shape_of sf v = shape_of sf w"
proof
  assume "to_canonical sf v = to_canonical sf w"
  then have "write_shape (shape_of sf v) @ [] = write_shape (shape_of sf w) @ []"
    by (simp add: to_canonical_def write_value_shape)
  then show "shape_of sf v = shape_of sf w"
    using write_shape_unique[of "shape_of sf v" "shape_of sf w" "[]" "[]"] wf_shape_shape[OF assms]
    by (simp add: sep_def)
qed (simp add: to_canonical_def write_value_shape)

text \<open>Canonical texts followed by a separator are read back in one way.\<close>

lemma to_canonical_prefix_unique:
  assumes "\<And>v. number_text (sf v)" and "sep r" and "sep r'"
    and "to_canonical sf v @ r = to_canonical sf w @ r'"
  shows "shape_of sf v = shape_of sf w \<and> r = r'"
  using write_shape_unique [of "shape_of sf v" "shape_of sf w" r r'] wf_shape_shape [OF assms(1)] assms(2-4)
  by (simp add: to_canonical_def write_value_shape)

lemma shape_of_member_order:
  assumes "distinct (map fst ms)" "mset ms = mset ns"
  shows "shape_of sf (JObject ms) = shape_of sf (JObject ns)"
  by (simp add: sort_members_unique [OF assms])

section \<open>Properties\<close>

text \<open>
  The canonical text of a JSON text exists exactly when the reader accepts it, nothing nests
  deeper than 64 levels, no object repeats a key and every number is finite; it is then the
  writer's text of the tree that was read.
\<close>

theorem canonical_json_iff:
  "canonical_json rd sf text = Some out \<longleftrightarrow>
     (\<exists>t. rd text = Some t \<and> nesting t \<le> 64 \<and> clean t \<and> out = to_canonical sf t)"
proof -
  have "to_canonical sf v = to_canonical sf t" if "visit 0 64 t = Some v" for v t
    using visit_shape[OF that] by (simp add: to_canonical_def write_value_shape)
  then show ?thesis
    using visit_Some_iff[of 0 64]
    by (fastforce simp: canonical_json_def canonical_parse_def parse_with_max_depth_def MAX_DEPTH_def
        split: option.splits)
qed

text \<open>
  C38. A canonical text determines its value: two values have the same text exactly when they
  have the same structure, with an object's members taken in key order and a number as its
  printed text. Nothing else is merged, so a digest of the text can only identify values that
  agree in this sense.
\<close>

theorem to_canonical_injective:
  assumes "\<And>v. number_text (sf v)"
  shows "to_canonical sf v = to_canonical sf w \<longleftrightarrow> shape_of sf v = shape_of sf w"
  by (rule to_canonical_shape_iff) (rule assms)

theorem to_canonical_injective_witness:
  "to_canonical (\<lambda>_. ''0'') (JArray [JString ''a'', JNumber (PosInt 7)]) =
     to_canonical (\<lambda>_. ''0'') (JString ''a'') \<longleftrightarrow>
   shape_of (\<lambda>_. ''0'') (JArray [JString ''a'', JNumber (PosInt 7)]) = shape_of (\<lambda>_. ''0'') (JString ''a'')"
proof -
  have "number_text ''0''" by (simp add: number_text_def number_char_def is_ascii_digit_def byte_def)
  then show ?thesis by (rule to_canonical_injective)
qed

text \<open>
  The writer's run-copying loop produces the same text as escaping every byte on its own,
  between two quotes.
\<close>

theorem write_string_bytewise:
  "write_string text = CHR 0x22 # concat (map escaped text) @ [CHR 0x22]"
  by (rule write_string_ref)

text \<open>
  The byte count used for the result limits, which never builds or sorts the text, is the
  length of the canonical text whatever the order of the members.
\<close>

theorem js_value_len_is_length: "js_value_len sf v = length (to_canonical sf v)"
  by (simp add: js_value_len_ok to_canonical_def)

text \<open>
  The order in which an object's members are listed does not change its canonical text.
\<close>

theorem to_canonical_member_order:
  assumes "distinct (map fst ms)" and "mset ms = mset ns"
  shows "to_canonical sf (JObject ms) = to_canonical sf (JObject ns)"
  by (simp only: to_canonical_def write_value_shape shape_of_member_order [OF assms])

theorem to_canonical_member_order_witness:
  "to_canonical (\<lambda>_. ''0'') (JObject [(''b'', JNull), (''a'', JBool True)])
     = to_canonical (\<lambda>_. ''0'') (JObject [(''a'', JBool True), (''b'', JNull)])"
proof -
  have "distinct (map fst [(''b'', JNull), (''a'', JBool True)])"
    and "mset [(''b'', JNull), (''a'', JBool True)] = mset [(''a'', JBool True), (''b'', JNull)]"
    by simp_all
  then show ?thesis by (rule to_canonical_member_order)
qed

end
