(* ===== verification/Tx_Compiler.thy ===== *)
theory Tx_Compiler
  imports Canonical
begin

text \<open>
  What the step machine needs from the policy compiler
  (\<^verbatim>\<open>src/crates/policysql-transaction/src/machine/compiler.rs\<close>): the data that crosses the
  \<open>Compiler\<close> trait, and the trait itself as a record of operations over an abstract state \<open>'c\<close>
  (its table of live execution handles). The machine's definitions take the record as an
  argument; nothing about an implementation is fixed here.

  A \<open>BTreeMap<String, Value>\<close> is the list of its entries in key order.
\<close>

datatype operation = Select | Insert | Update | Delete

fun operation_str :: "operation \<Rightarrow> string" where
  "operation_str Select = ''select''"
| "operation_str Insert = ''insert''"
| "operation_str Update = ''update''"
| "operation_str Delete = ''delete''"

record core_error =
  ce_code :: string
  ce_message :: string
  ce_path :: "string option"
  ce_log :: "json option"

definition core_error_new :: "string \<Rightarrow> string \<Rightarrow> core_error" where
  "core_error_new code message = \<lparr>ce_code = code, ce_message = message, ce_path = None, ce_log = None\<rparr>"

record statement_limits =
  sl_max_rows :: nat
  sl_max_result_bytes :: nat
  sl_timeout_ms :: nat

record statement_summary =
  ss_operation :: operation
  ss_resource :: "string option"
  ss_limits :: statement_limits
  ss_explain_resource :: "nat option"

record compiled =
  cd_handle :: nat
  cd_statements :: "statement_summary list"
  cd_schema_version :: string
  cd_policy_version :: string

definition read_only :: "compiled \<Rightarrow> bool" where
  "read_only c = list_all (\<lambda>s. ss_operation s = Select) (cd_statements c)"

type_synonym btree = "(string \<times> json) list"

record driver_statement =
  ds_sql :: string
  ds_client_parameters :: btree
  ds_server_parameters :: btree
  ds_cost_sql :: string

record raw_result =
  rr_columns :: "string list"
  rr_rows :: "json list list"
  rr_affected_rows :: nat

record result_budget =
  rb_raw_bytes :: nat
  rb_values :: nat
  rb_result_bytes :: nat

record validated =
  vd_raw_bytes :: nat
  vd_values :: nat
  vd_columns :: "string list"
  vd_rows :: "json list list"
  vd_redactions :: "bool list list"
  vd_affected_rows :: nat
  vd_result_columns :: "string list"
  vd_operation_check :: bool

record triggered_check =
  tc_id :: string
  tc_role :: "string option"
  tc_timeout_ms :: nat

text \<open>The trait. \<open>compile\<close> allocates a handle and \<open>release\<close> frees one, so both return the
  compiler's next state; the other methods only read it.\<close>

record 'c compiler =
  c_snapshot :: string
  c_compile :: "'c \<Rightarrow> string \<Rightarrow> string \<Rightarrow> (core_error + compiled) \<times> 'c"
  c_statements :: "'c \<Rightarrow> nat \<Rightarrow> core_error + driver_statement list"
  c_raw_result_bound :: "'c \<Rightarrow> nat \<Rightarrow> core_error + nat"
  c_validate :: "'c \<Rightarrow> nat \<Rightarrow> nat \<Rightarrow> raw_result \<Rightarrow> result_budget \<Rightarrow> core_error + validated"
  c_release :: "'c \<Rightarrow> nat \<Rightarrow> 'c"
  c_triggered_checks :: "string list \<Rightarrow> triggered_check list"

text \<open>\<open>BTreeMap::insert\<close>: the entries in key order, and whether the key was present.\<close>

fun btree_insert :: "string \<Rightarrow> json \<Rightarrow> btree \<Rightarrow> btree \<times> bool" where
  "btree_insert k v [] = ([(k, v)], False)"
| "btree_insert k v ((l, w) # m) =
     (if k < l then ((k, v) # (l, w) # m, False)
      else if k = l then ((k, v) # m, True)
      else (case btree_insert k v m of (m', present) \<Rightarrow> ((l, w) # m', present)))"

definition btree_get :: "string \<Rightarrow> (string \<times> 'a) list \<Rightarrow> 'a option" where
  "btree_get k m = map_of m k"

end
