(* ===== verification/Bounds.thy ===== *)
theory Bounds
  imports Prelude
begin

text \<open>
  The derived internal bounds of the request path
  (\<^verbatim>\<open>src/crates/policysql-transaction/src/bounds.rs\<close>) and the runtime limits that feed them
  (\<^verbatim>\<open>machine/mod.rs\<close>, \<open>Limits\<close>). \<open>usize\<close> quantities take the target's \<open>usize::MAX\<close> as the
  parameter \<open>m\<close> (2^32 - 1 on wasm32, 2^64 - 1 on a 64-bit host).
\<close>

section \<open>Constants\<close>

definition SESSION_INPUT_BYTES :: nat where "SESSION_INPUT_BYTES = 65536"
definition AUTH_BYTES :: nat where "AUTH_BYTES = 2 * SESSION_INPUT_BYTES + 1024"
definition BINDING_BYTES :: nat where "BINDING_BYTES = 2048"
definition KEY_BYTES :: nat where "KEY_BYTES = 128"
definition INPUT_FRAMING_BYTES :: nat where "INPUT_FRAMING_BYTES = 1024"
definition EVENT_FRAMING_BYTES :: nat where "EVENT_FRAMING_BYTES = 4096"
definition HRANA_CELL_BYTES :: nat where "HRANA_CELL_BYTES = 64"
definition HRANA_STATEMENT_BYTES :: nat where "HRANA_STATEMENT_BYTES = 512"
definition HRANA_ENVELOPE_BYTES :: nat where "HRANA_ENVELOPE_BYTES = 1024"
definition COLUMN_METADATA_BYTES :: nat where "COLUMN_METADATA_BYTES = 1048576"
definition HARD_MAX_RESPONSE_BYTES :: nat where "HARD_MAX_RESPONSE_BYTES = 589824"
definition LOOKUP_BYTES :: nat where "LOOKUP_BYTES = 2 * HARD_MAX_RESPONSE_BYTES + 4096"
definition RESPONSE_RESERVE_BYTES :: nat where "RESPONSE_RESERVE_BYTES = 1024"
definition NO_RESULT_BYTES :: nat where "NO_RESULT_BYTES = 65536"

text \<open>\<open>machine/state.rs\<close>: the bound of the volatile JSON without the body and the results.\<close>

definition MAX_VOLATILE_BYTES :: nat where "MAX_VOLATILE_BYTES = 256 * 1024"

lemmas bound_consts = SESSION_INPUT_BYTES_def AUTH_BYTES_def BINDING_BYTES_def KEY_BYTES_def
  INPUT_FRAMING_BYTES_def EVENT_FRAMING_BYTES_def HRANA_CELL_BYTES_def HRANA_STATEMENT_BYTES_def
  HRANA_ENVELOPE_BYTES_def COLUMN_METADATA_BYTES_def HARD_MAX_RESPONSE_BYTES_def LOOKUP_BYTES_def
  RESPONSE_RESERVE_BYTES_def NO_RESULT_BYTES_def MAX_VOLATILE_BYTES_def

section \<open>The bounds\<close>

definition compile_input_bytes :: "nat \<Rightarrow> nat \<Rightarrow> nat" where
  "compile_input_bytes m max_request_bytes =
     sat_add m (sat_add m AUTH_BYTES max_request_bytes) INPUT_FRAMING_BYTES"

definition hash_input_bytes :: "nat \<Rightarrow> nat \<Rightarrow> nat" where
  "hash_input_bytes m max_request_bytes =
     sat_add m (sat_add m (sat_add m (sat_add m AUTH_BYTES BINDING_BYTES) KEY_BYTES)
       (sat_mul m max_request_bytes 2)) INPUT_FRAMING_BYTES"

text \<open>\<open>statements\<close> holds one \<open>(rows, columns)\<close> pair per statement. The column sum is a plain
  \<open>u64\<close> sum: it wraps where a release build would.\<close>

definition raw_result_bound :: "nat \<Rightarrow> nat \<Rightarrow> (nat \<times> nat) list \<Rightarrow> nat \<Rightarrow> nat" where
  "raw_result_bound max_result_bytes max_json_values statements column_metadata_bytes =
     (let m = u64_max;
          columns = sum_list (map snd statements) mod (m + 1);
          cells = min (fold (\<lambda>c acc. sat_add m acc c)
                        (map (\<lambda>(rows, columns). sat_mul m rows columns) statements) 0)
                      (sat_sub max_json_values columns);
          statement_count = length statements
      in sat_add m (sat_add m (sat_add m (sat_add m
           (sat_mul m max_result_bytes 2)
           (sat_mul m cells HRANA_CELL_BYTES))
           (sat_mul m statement_count HRANA_STATEMENT_BYTES))
           column_metadata_bytes)
           HRANA_ENVELOPE_BYTES)"

definition raw_result_bound_max :: "nat \<Rightarrow> nat \<Rightarrow> nat \<Rightarrow> nat \<Rightarrow> nat" where
  "raw_result_bound_max m max_result_bytes max_json_values max_statements =
     sat_add m (sat_add m (sat_add m (sat_add m
       (sat_mul m max_result_bytes 2)
       (sat_mul m max_json_values HRANA_CELL_BYTES))
       (sat_mul m max_statements HRANA_STATEMENT_BYTES))
       COLUMN_METADATA_BYTES)
       HRANA_ENVELOPE_BYTES"

definition largest_read_bytes :: "nat \<Rightarrow> nat" where
  "largest_read_bytes raw_bound_max =
     (if raw_bound_max > LOOKUP_BYTES then raw_bound_max else LOOKUP_BYTES)"

definition event_bytes :: "nat \<Rightarrow> nat \<Rightarrow> nat \<Rightarrow> nat" where
  "event_bytes m max_request_bytes result_bytes =
     sat_add m (sat_add m (sat_add m (sat_add m (sat_mul m max_request_bytes 2) AUTH_BYTES)
       BINDING_BYTES) result_bytes) EVENT_FRAMING_BYTES"

definition volatile_bytes :: "nat \<Rightarrow> nat \<Rightarrow> nat \<Rightarrow> nat" where
  "volatile_bytes m max_request_bytes max_response_bytes =
     (let response = sat_mul m max_response_bytes 2;
          held = (if response > LOOKUP_BYTES then response else LOOKUP_BYTES)
      in sat_add m (sat_add m MAX_VOLATILE_BYTES (sat_mul m max_request_bytes 2)) held)"

section \<open>Runtime limits\<close>

record limits =
  lim_transaction_ms :: nat
  lim_max_transaction_statements :: nat
  lim_max_transaction_result_bytes :: nat
  lim_begin_timeout_ms :: nat
  lim_max_callback_rows :: nat
  lim_max_statements :: nat
  lim_max_request_bytes :: nat
  lim_max_result_bytes :: nat
  lim_max_json_values :: nat
  lim_max_response_bytes :: nat

definition max_request_len :: "nat \<Rightarrow> limits \<Rightarrow> nat" where
  "max_request_len m l = to_usize m (lim_max_request_bytes l)"

definition max_volatile_bytes :: "nat \<Rightarrow> limits \<Rightarrow> nat" where
  "max_volatile_bytes m l = volatile_bytes m (max_request_len m l) (to_usize m (lim_max_response_bytes l))"

definition limits_largest_read_bytes :: "nat \<Rightarrow> limits \<Rightarrow> nat" where
  "limits_largest_read_bytes m l =
     largest_read_bytes (raw_result_bound_max m (to_usize m (lim_max_result_bytes l))
       (to_usize m (lim_max_json_values l)) (to_usize m (max 1 (lim_max_statements l))))"

definition max_event_bytes :: "nat \<Rightarrow> limits \<Rightarrow> nat" where
  "max_event_bytes m l = event_bytes m (max_request_len m l) (limits_largest_read_bytes m l)"

definition max_hash_input_bytes :: "nat \<Rightarrow> limits \<Rightarrow> nat" where
  "max_hash_input_bytes m l = hash_input_bytes m (max_request_len m l)"

section \<open>Lemmas\<close>

lemma fold_sat_add_le:
  "fold (\<lambda>c acc. sat_add m acc c) cs a \<le> a + sum_list cs"
proof (induction cs arbitrary: a)
  case (Cons c cs)
  have "fold (\<lambda>c acc. sat_add m acc c) cs (sat_add m a c) \<le> sat_add m a c + sum_list cs"
    by (rule Cons.IH)
  also have "\<dots> \<le> a + c + sum_list cs" by (simp add: sat_add_def)
  finally show ?case by simp
qed simp

lemma raw_result_bound_max_eq:
  "raw_result_bound_max m p v n = min m (p * 2 + min m (v * HRANA_CELL_BYTES)
     + min m (n * HRANA_STATEMENT_BYTES) + COLUMN_METADATA_BYTES + HRANA_ENVELOPE_BYTES)"
  by (simp only: raw_result_bound_max_def sat_mul_def sat_add_chain)

lemma min_mul_min:
  assumes "0 < k"
  shows "min m (min m a * k) = min m (a * (k :: nat))"
proof (cases "a \<le> m")
  case False
  have "m \<le> m * k" using assms by simp
  also have "\<dots> \<le> a * k" using False by simp
  finally show ?thesis using False assms by (simp add: min_absorb1)
qed simp

lemma raw_result_bound_plain:
  "raw_result_bound p v sts cm
     \<le> p * 2 + v * HRANA_CELL_BYTES + length sts * HRANA_STATEMENT_BYTES + cm + HRANA_ENVELOPE_BYTES"
proof -
  define cells where "cells = min (fold (\<lambda>c acc. sat_add u64_max acc c)
      (map (\<lambda>(rows, columns). sat_mul u64_max rows columns) sts) 0)
      (sat_sub v (sum_list (map snd sts) mod (u64_max + 1)))"
  have "cells \<le> v" by (simp add: cells_def sat_sub_def min_le_iff_disj)
  then have "cells * HRANA_CELL_BYTES \<le> v * HRANA_CELL_BYTES" by simp
  moreover have "raw_result_bound p v sts cm \<le> p * 2 + cells * HRANA_CELL_BYTES
      + length sts * HRANA_STATEMENT_BYTES + cm + HRANA_ENVELOPE_BYTES"
    unfolding raw_result_bound_def Let_def cells_def [symmetric]
    by (intro sat_add_upper sat_mul_upper order_refl)
  ultimately show ?thesis by linarith
qed

lemma min_sum_absorb:
  "min m (a + min m b + min m c + k) = min m (a + b + c + (k :: nat))"
  by (cases "b \<le> m"; cases "c \<le> m") simp_all

section \<open>Properties\<close>

text \<open>
  The read cap compiled for one envelope never exceeds the largest read cap the limits
  derive (cut off at \<open>usize::MAX\<close>): with at most the configured number of statements and the
  column metadata within its guard, a compiled envelope is always admitted by the event bound,
  however the \<open>u64\<close> and \<open>usize\<close> sums saturate.
\<close>

theorem raw_result_bound_le_max:
  assumes "length statements \<le> n"
    and "column_metadata \<le> COLUMN_METADATA_BYTES"
  shows "min m (raw_result_bound p v statements column_metadata)
           \<le> raw_result_bound_max m (to_usize m p) (to_usize m v) (to_usize m n)"
proof -
  let ?C = "COLUMN_METADATA_BYTES + HRANA_ENVELOPE_BYTES"
  have "length statements * HRANA_STATEMENT_BYTES \<le> n * HRANA_STATEMENT_BYTES"
    using assms(1) by simp
  then have "raw_result_bound p v statements column_metadata
      \<le> p * 2 + v * HRANA_CELL_BYTES + n * HRANA_STATEMENT_BYTES + ?C"
    using raw_result_bound_plain [of p v statements column_metadata] assms(2) by linarith
  then have "min m (raw_result_bound p v statements column_metadata)
      \<le> min m (p * 2 + v * HRANA_CELL_BYTES + n * HRANA_STATEMENT_BYTES + ?C)"
    by linarith
  also have "\<dots> = min m (p * 2 + min m (v * HRANA_CELL_BYTES)
      + min m (n * HRANA_STATEMENT_BYTES) + ?C)"
    by (rule min_sum_absorb [symmetric])
  also have "\<dots> \<le> raw_result_bound_max m (to_usize m p) (to_usize m v) (to_usize m n)"
  proof (cases "p \<le> m")
    case True
    then show ?thesis
      by (simp add: raw_result_bound_max_eq to_usize_min min_mul_min HRANA_CELL_BYTES_def
          HRANA_STATEMENT_BYTES_def add.assoc)
  next
    case False
    then have "raw_result_bound_max m (to_usize m p) (to_usize m v) (to_usize m n) = m"
      by (simp add: raw_result_bound_max_eq to_usize_min)
    then show ?thesis by simp
  qed
  finally show ?thesis .
qed

theorem raw_result_bound_le_max_witness:
  "raw_result_bound 64000 65536 [(100, 3)] 300 = 149036 \<and>
   min 4294967295 (raw_result_bound 64000 65536 [(100, 3)] 300)
     \<le> raw_result_bound_max 4294967295 (to_usize 4294967295 64000) (to_usize 4294967295 65536)
         (to_usize 4294967295 8)"
proof -
  have "raw_result_bound 64000 65536 [(100, 3)] 300 = 149036"
    unfolding raw_result_bound_def Let_def bound_consts rust_arith
    by (simp add: min_absorb1 min_absorb2)
  moreover have "length [(100 :: nat, 3 :: nat)] \<le> 8" and "300 \<le> COLUMN_METADATA_BYTES"
    by (simp_all add: COLUMN_METADATA_BYTES_def)
  ultimately show ?thesis using raw_result_bound_le_max by blast
qed

end
