(* ===== verification/Tx_State.thy ===== *)
theory Tx_State
  imports Tx_Compiler Bounds
begin

text \<open>
  Durable and volatile state of the step machine
  (\<^verbatim>\<open>src/crates/policysql-transaction/src/machine/state.rs\<close>): the record and its phases, the
  operation in progress and the effect it waits for, the commit checks and the callback lane,
  the atomic execution, and the consistency rules that make a value readable.

  A \<open>Box<RawValue>\<close> is the JSON text it holds (\<open>raw\<close>).
\<close>

type_synonym raw = string

definition MAX_SAFE_INTEGER :: nat where "MAX_SAFE_INTEGER = 9007199254740991"
definition MAX_TIME_MS :: nat where "MAX_TIME_MS = 253402300799999 - 86400000"
definition TX_STATE_VERSION :: nat where "TX_STATE_VERSION = 1"
definition MAX_DURABLE_BYTES :: nat where "MAX_DURABLE_BYTES = 96 * 1024"
definition MAX_MUTATIONS :: nat where "MAX_MUTATIONS = 256"
definition MAX_RESOURCE_NAME_BYTES :: nat where "MAX_RESOURCE_NAME_BYTES = 1024"
definition DURABLE_FIXED_BYTES :: nat where "DURABLE_FIXED_BYTES = 2 * 1024"
definition MUTATION_FIXED_BYTES :: nat where "MUTATION_FIXED_BYTES = 64"
definition REPLY_FIXED_BYTES :: nat where "REPLY_FIXED_BYTES = 512"

lemmas state_consts = MAX_SAFE_INTEGER_def MAX_TIME_MS_def TX_STATE_VERSION_def MAX_DURABLE_BYTES_def
  MAX_MUTATIONS_def MAX_RESOURCE_NAME_BYTES_def DURABLE_FIXED_BYTES_def MUTATION_FIXED_BYTES_def
  REPLY_FIXED_BYTES_def

text \<open>Runtime construction's check that every durable record stays within its bound; \<open>m\<close> is
  \<open>usize::MAX\<close>. A limit that does not fit \<open>usize\<close> is refused. The sum inside the product is a
  plain \<open>usize\<close> addition, which the conjunct before it keeps in range.\<close>

definition durable_bound_holds :: "nat \<Rightarrow> nat \<Rightarrow> nat \<Rightarrow> nat \<Rightarrow> nat \<Rightarrow> bool" where
  "durable_bound_holds m deployment_bytes max_transaction_statements max_transaction_result_bytes
     longest_resource_name =
     (max_transaction_statements \<le> m \<and> max_transaction_result_bytes \<le> m \<and>
      max_transaction_statements \<le> MAX_MUTATIONS \<and>
      longest_resource_name \<le> MAX_RESOURCE_NAME_BYTES \<and>
      sat_add m (sat_add m (sat_add m (sat_add m DURABLE_FIXED_BYTES deployment_bytes)
        REPLY_FIXED_BYTES) max_transaction_result_bytes)
        (sat_mul m max_transaction_statements (MUTATION_FIXED_BYTES + longest_resource_name))
        \<le> MAX_DURABLE_BYTES)"

section \<open>The durable record\<close>

datatype phase = Active | Validating | Committing | Committed | RolledBack | Failed | Expired
  | CommitUnknown | Discarded

fun has_deadline :: "phase \<Rightarrow> bool" where
  "has_deadline Active = True"
| "has_deadline Validating = True"
| "has_deadline Committing = True"
| "has_deadline _ = False"

definition is_terminal :: "phase \<Rightarrow> bool" where
  "is_terminal p = (\<not> has_deadline p)"

fun phase_str :: "phase \<Rightarrow> string" where
  "phase_str Active = ''active''"
| "phase_str Validating = ''validating''"
| "phase_str Committing = ''committing''"
| "phase_str Committed = ''committed''"
| "phase_str RolledBack = ''rolled_back''"
| "phase_str Failed = ''failed''"
| "phase_str Expired = ''expired''"
| "phase_str CommitUnknown = ''commit_unknown''"
| "phase_str Discarded = ''discarded''"

datatype kind = Interactive | Atomic

definition hex64 :: "string \<Rightarrow> bool" where
  "hex64 value = (length value = 64 \<and> list_all is_hex_lower value)"

definition owner_name :: "string \<Rightarrow> bool" where
  "owner_name value =
     is_some_and (\<lambda>hex. length hex = 32 \<and> list_all is_hex_lower hex) (strip_prefix ''tx_'' value)"

definition short_text :: "string \<Rightarrow> bool" where
  "short_text value = (value \<noteq> [] \<and> length value \<le> 1024 \<and> \<not> has_control value)"

record atomic_ids =
  ai_transaction_id :: string
  ai_key_hash :: "string option"

definition atomic_ids_is_valid :: "atomic_ids \<Rightarrow> bool" where
  "atomic_ids_is_valid a =
     (is_some_and (\<lambda>hex. (length hex = 24 \<or> length hex = 32) \<and> list_all is_hex_lower hex)
        (strip_prefix ''atomic_'' (ai_transaction_id a)) \<and>
      is_none_or hex64 (ai_key_hash a))"

datatype mode = Read | Write

fun mode_str :: "mode \<Rightarrow> string" where
  "mode_str Read = ''read''"
| "mode_str Write = ''write''"

record identity =
  idn_auth_fingerprint :: string
  idn_replay :: string
  idn_start_fingerprint :: string
  idn_mode :: mode

record binding =
  bd_version :: nat
  bd_scope :: string
  bd_database_id :: string
  bd_generation :: string
  bd_snapshot :: string

definition binding_part :: "string \<Rightarrow> bool" where
  "binding_part part = (1 \<le> length part \<and> length part \<le> 256 \<and>
     list_all (\<lambda>c. is_ascii_alphanumeric c \<or> c \<in> set ''_.:-'') part)"

definition binding_is_valid :: "binding \<Rightarrow> bool" where
  "binding_is_valid b = (bd_version b = 1 \<and>
     list_all binding_part [bd_scope b, bd_database_id b, bd_generation b, bd_snapshot b])"

record replay =
  rp_digest :: string
  rp_response :: raw

record usage =
  us_rows_read :: nat
  us_rows_written :: nat
  us_query_duration_ms :: f64

definition usage_is_valid :: "usage \<Rightarrow> bool" where
  "usage_is_valid u = (f64_is_finite (us_query_duration_ms u) \<and> f64_ge0 (us_query_duration_ms u) \<and>
     us_rows_read u \<le> MAX_SAFE_INTEGER \<and> us_rows_written u \<le> MAX_SAFE_INTEGER)"

record counters =
  ct_statements :: nat
  ct_result_bytes :: nat
  ct_usage :: usage

definition counters_default :: counters where
  "counters_default = \<lparr>ct_statements = 0, ct_result_bytes = 0,
     ct_usage = \<lparr>us_rows_read = 0, us_rows_written = 0, us_query_duration_ms = F_fin 0\<rparr>\<rparr>"

record mutation =
  mu_index :: nat
  mu_operation :: operation
  mu_resource :: string

record versions =
  vs_schema :: string
  vs_policy :: string

record tx_record =
  r_owner :: string
  r_kind :: kind
  r_phase :: phase
  r_identity :: identity
  r_binding :: binding
  r_snapshot :: string
  r_expires_at_ms :: "nat option"
  r_next_sequence :: nat
  r_last :: "replay option"
  r_counters :: counters
  r_mutations :: "mutation list"
  r_versions :: "versions option"
  r_atomic :: "atomic_ids option"

datatype durable = Tombstone string | Live tx_record

text \<open>\<open>self.mutations.windows(2).all(|pair| pair[0].index < pair[1].index)\<close>.\<close>

fun increasing :: "nat list \<Rightarrow> bool" where
  "increasing (a # b # xs) = (a < b \<and> increasing (b # xs))"
| "increasing _ = True"

text \<open>The conjuncts of \<open>Record::is_consistent\<close>, one definition each.\<close>

definition rec_hashes :: "tx_record \<Rightarrow> bool" where
  "rec_hashes r = (hex64 (idn_auth_fingerprint (r_identity r)) \<and> hex64 (idn_replay (r_identity r)) \<and>
     hex64 (idn_start_fingerprint (r_identity r)))"

definition rec_deadline :: "tx_record \<Rightarrow> bool" where
  "rec_deadline r = (is_some (r_expires_at_ms r) = has_deadline (r_phase r) \<and>
     is_none_or (\<lambda>at_ms. at_ms \<le> MAX_TIME_MS) (r_expires_at_ms r))"

definition rec_sequence :: "tx_record \<Rightarrow> bool" where
  "rec_sequence r = (1 \<le> r_next_sequence r \<and> r_next_sequence r \<le> MAX_SAFE_INTEGER \<and>
     is_some (r_last r) = (1 < r_next_sequence r) \<and>
     ct_statements (r_counters r) < r_next_sequence r)"

definition rec_last :: "tx_record \<Rightarrow> bool" where
  "rec_last r = is_none_or (\<lambda>l. hex64 (rp_digest l) \<and> starts_with ''{'' (rp_response l)) (r_last r)"

definition rec_terminal_reply :: "tx_record \<Rightarrow> bool" where
  "rec_terminal_reply r = (r_kind r = Atomic \<or> r_phase r \<notin> {Committed, RolledBack} \<or> is_some (r_last r))"

definition rec_kind :: "tx_record \<Rightarrow> bool" where
  "rec_kind r = (case r_kind r of
       Interactive \<Rightarrow> r_atomic r = None
     | Atomic \<Rightarrow> r_phase r \<in> {Active, Committed, Failed, Expired} \<and>
         is_some_and atomic_ids_is_valid (r_atomic r) \<and> r_next_sequence r = 1 \<and>
         r_counters r = counters_default \<and> r_mutations r = [] \<and> idn_mode (r_identity r) = Write)"

definition rec_mutations :: "tx_record \<Rightarrow> bool" where
  "rec_mutations r = (length (r_mutations r) \<le> MAX_MUTATIONS \<and>
     increasing (map mu_index (r_mutations r)) \<and>
     list_all (\<lambda>u. mu_index u < ct_statements (r_counters r) \<and> mu_operation u \<noteq> Select \<and>
        mu_resource u \<noteq> [] \<and> length (mu_resource u) \<le> MAX_RESOURCE_NAME_BYTES) (r_mutations r))"

definition rec_versions :: "tx_record \<Rightarrow> bool" where
  "rec_versions r = (is_some (r_versions r) = (0 < ct_statements (r_counters r)) \<and>
     is_none_or (\<lambda>v. short_text (vs_schema v) \<and> short_text (vs_policy v)) (r_versions r))"

definition record_is_consistent :: "tx_record \<Rightarrow> bool" where
  "record_is_consistent r = (rec_hashes r \<and> rec_kind r \<and> rec_deadline r \<and> rec_sequence r \<and>
     rec_last r \<and> rec_terminal_reply r \<and> rec_mutations r \<and> rec_versions r \<and>
     usage_is_valid (ct_usage (r_counters r)) \<and> ct_result_bytes (r_counters r) \<le> MAX_SAFE_INTEGER \<and>
     binding_is_valid (r_binding r) \<and> bd_snapshot (r_binding r) = r_snapshot r \<and>
     short_text (r_snapshot r) \<and> owner_name (r_owner r))"

lemmas rec_defs = rec_hashes_def rec_deadline_def rec_sequence_def rec_last_def rec_terminal_reply_def
  rec_kind_def rec_mutations_def rec_versions_def

fun durable_owner :: "durable \<Rightarrow> string" where
  "durable_owner (Tombstone owner) = owner"
| "durable_owner (Live r) = r_owner r"

fun durable_phase :: "durable \<Rightarrow> phase" where
  "durable_phase (Tombstone owner) = Discarded"
| "durable_phase (Live r) = r_phase r"

section \<open>The wire form\<close>

record durable_wire =
  w_v :: nat
  w_owner :: string
  w_phase :: phase
  w_kind :: "kind option"
  w_identity :: "identity option"
  w_binding :: "binding option"
  w_snapshot :: "string option"
  w_expires_at_ms :: "nat option"
  w_next_sequence :: "nat option"
  w_last :: "replay option"
  w_counters :: "counters option"
  w_mutations :: "mutation list option"
  w_versions :: "versions option"
  w_atomic :: "atomic_ids option"

datatype unreadable = TooLarge | Malformed | UVersion | UOwner | Inconsistent

fun unreadable_str :: "unreadable \<Rightarrow> string" where
  "unreadable_str TooLarge = ''too_large''"
| "unreadable_str Malformed = ''malformed''"
| "unreadable_str UVersion = ''version''"
| "unreadable_str UOwner = ''owner''"
| "unreadable_str Inconsistent = ''inconsistent''"

definition from_wire :: "durable_wire \<Rightarrow> durable option" where
  "from_wire w =
     (if \<not> owner_name (w_owner w) then None
      else if w_phase w = Discarded then
        (if w_kind w = None \<and> w_identity w = None \<and> w_binding w = None \<and> w_snapshot w = None \<and>
            w_expires_at_ms w = None \<and> w_next_sequence w = None \<and> w_last w = None \<and>
            w_counters w = None \<and> w_mutations w = None \<and> w_versions w = None \<and> w_atomic w = None
         then Some (Tombstone (w_owner w)) else None)
      else (case (w_kind w, w_identity w, w_binding w, w_snapshot w, w_next_sequence w, w_counters w,
                  w_mutations w) of
          (Some kind, Some identity, Some binding, Some snapshot, Some next_sequence, Some counters,
           Some mutations) \<Rightarrow>
            (let r = \<lparr>r_owner = w_owner w, r_kind = kind, r_phase = w_phase w, r_identity = identity,
                      r_binding = binding, r_snapshot = snapshot, r_expires_at_ms = w_expires_at_ms w,
                      r_next_sequence = next_sequence, r_last = w_last w, r_counters = counters,
                      r_mutations = mutations, r_versions = w_versions w, r_atomic = w_atomic w\<rparr>
             in if record_is_consistent r then Some (Live r) else None)
        | _ \<Rightarrow> None))"

fun to_wire :: "durable \<Rightarrow> durable_wire" where
  "to_wire (Tombstone owner) =
     \<lparr>w_v = TX_STATE_VERSION, w_owner = owner, w_phase = Discarded, w_kind = None, w_identity = None,
      w_binding = None, w_snapshot = None, w_expires_at_ms = None, w_next_sequence = None,
      w_last = None, w_counters = None, w_mutations = None, w_versions = None, w_atomic = None\<rparr>"
| "to_wire (Live r) =
     \<lparr>w_v = TX_STATE_VERSION, w_owner = r_owner r, w_phase = r_phase r, w_kind = Some (r_kind r),
      w_identity = Some (r_identity r), w_binding = Some (r_binding r),
      w_snapshot = Some (r_snapshot r), w_expires_at_ms = r_expires_at_ms r,
      w_next_sequence = Some (r_next_sequence r), w_last = r_last r,
      w_counters = Some (r_counters r), w_mutations = Some (r_mutations r),
      w_versions = r_versions r, w_atomic = r_atomic r\<rparr>"

section \<open>The volatile part\<close>

datatype connection = Conn_None | Opening | Conn_Open | Closing

datatype awaited = Aw_Open | Aw_CheckBinding | Aw_Execute | Aw_Commit | Aw_Rollback | Aw_SetTimer
  | Aw_Persist | Aw_CallValidator | Aw_Forward

record pending =
  pn_id :: nat
  pn_effect :: awaited

datatype work_lane = Client | Background

record commit_checks =
  cc_sequence :: nat
  cc_digest :: string
  cc_auth :: string
  cc_checks :: "triggered_check list"
  cc_index :: nat

text \<open>The operation in progress; the arguments are the variant's fields in the source's order.\<close>

datatype task =
    BeginBinding identity binding string
  | BeginOpen identity binding string nat
  | BeginPersist
  | BeginTimer
  | StatementBinding nat string nat operation "string option" versions "nat option"
  | StatementExecute nat string nat operation "string option" versions nat "nat option"
  | CommitBinding nat string "string option" bool
  | CommitPersist nat string bool
  | CommitSend nat string bool
  | ValidatingPersist commit_checks
  | Validator commit_checks
  | Verdict commit_checks bool
  | RollbackBinding nat string
  | RollbackSend nat string
  | CloseRollback phase "raw option"
  | Reply (reply_of: "raw option") (failure_of: "raw option") (logs_of: "raw list")
      (failure_logs_of: "raw list") (expire_after_of: bool) (restore_of: "string option")
  | ResetAfterPersist
  | RequestBinding raw
  | AtomicForward
  | AtomicBinding raw
  | AtomicOpen
  | AtomicPersist
  | AtomicTimer
  | AtomicLookup
  | AtomicExecute
  | AtomicCommitBinding
  | AtomicInsert
  | AtomicCommit
  | AtomicReplay raw

datatype placement = Direct | Owner

record idempotency =
  ip_key_hash :: string
  ip_fingerprint :: string

record atomic_statement =
  as_operation :: operation
  as_resource :: "string option"
  as_limits :: statement_limits
  as_explain_resource :: "nat option"

record atomic_usage =
  au_rows_returned :: nat
  au_rows_affected :: nat
  au_rows_read :: nat
  au_rows_written :: nat
  au_query_duration_ms :: f64

record atomic_run =
  ar_placement :: placement
  ar_transaction_id :: string
  ar_request_id :: string
  ar_auth :: string
  ar_role :: string
  ar_binding :: binding
  ar_handle :: nat
  ar_statements :: "atomic_statement list"
  ar_versions :: versions
  ar_idempotency :: "idempotency option"
  ar_started_at_ms :: nat
  ar_expires_at_ms :: "nat option"
  ar_debug :: bool
  ar_trace :: "raw option"
  ar_results :: "raw option"
  ar_usage :: "atomic_usage option"
  ar_mutations :: "mutation list"
  ar_checks_passed :: bool

record work =
  wk_lane :: work_lane
  wk_request_id :: "string option"
  wk_task :: task

record capability =
  cp_token_hash :: string
  cp_expires_at_ms :: nat
  cp_check :: string
  cp_session :: string
  cp_role :: string
  cp_next_sequence :: nat
  cp_last :: "replay option"
  cp_rows :: nat
  cp_result_bytes :: nat

datatype callback_task =
    CbBinding nat string nat versions
  | CbExecute nat string nat versions

fun callback_awaits :: "callback_task \<Rightarrow> awaited" where
  "callback_awaits (CbBinding _ _ _ _) = Aw_CheckBinding"
| "callback_awaits (CbExecute _ _ _ _) = Aw_Execute"

fun callback_handle :: "callback_task \<Rightarrow> nat" where
  "callback_handle (CbBinding _ _ handle _) = handle"
| "callback_handle (CbExecute _ _ handle _) = handle"

record callback_work =
  cw_pending :: pending
  cw_request_id :: string
  cw_token_hash :: string
  cw_task :: callback_task

record volatile =
  v_v :: nat
  v_owner :: "string option"
  v_next_effect_id :: nat
  v_connection :: connection
  v_handles :: "nat list"
  v_pending :: "pending option"
  v_work :: "work option"
  v_rollback_requested :: bool
  v_callback :: "callback_work option"
  v_capability :: "capability option"
  v_deferred :: "work option"
  v_revoked_validator :: "nat option"
  v_atomic :: "atomic_run option"

text \<open>The effect a task waits for.\<close>

fun awaited_by :: "task \<Rightarrow> awaited" where
  "awaited_by (BeginBinding _ _ _) = Aw_CheckBinding"
| "awaited_by (StatementBinding _ _ _ _ _ _ _) = Aw_CheckBinding"
| "awaited_by (CommitBinding _ _ _ _) = Aw_CheckBinding"
| "awaited_by (RollbackBinding _ _) = Aw_CheckBinding"
| "awaited_by (RequestBinding _) = Aw_CheckBinding"
| "awaited_by (AtomicBinding _) = Aw_CheckBinding"
| "awaited_by AtomicCommitBinding = Aw_CheckBinding"
| "awaited_by (BeginOpen _ _ _ _) = Aw_Open"
| "awaited_by AtomicOpen = Aw_Open"
| "awaited_by BeginPersist = Aw_Persist"
| "awaited_by (CommitPersist _ _ _) = Aw_Persist"
| "awaited_by (ValidatingPersist _) = Aw_Persist"
| "awaited_by (Reply _ _ _ _ _ _) = Aw_Persist"
| "awaited_by ResetAfterPersist = Aw_Persist"
| "awaited_by AtomicPersist = Aw_Persist"
| "awaited_by BeginTimer = Aw_SetTimer"
| "awaited_by AtomicTimer = Aw_SetTimer"
| "awaited_by AtomicForward = Aw_Forward"
| "awaited_by (Validator _) = Aw_CallValidator"
| "awaited_by (Verdict _ _) = Aw_CallValidator"
| "awaited_by (StatementExecute _ _ _ _ _ _ _ _) = Aw_Execute"
| "awaited_by AtomicLookup = Aw_Execute"
| "awaited_by AtomicExecute = Aw_Execute"
| "awaited_by AtomicInsert = Aw_Execute"
| "awaited_by (CommitSend _ _ _) = Aw_Commit"
| "awaited_by AtomicCommit = Aw_Commit"
| "awaited_by (RollbackSend _ _) = Aw_Rollback"
| "awaited_by (CloseRollback _ _) = Aw_Rollback"
| "awaited_by (AtomicReplay _) = Aw_Rollback"

text \<open>\<open>machine/io.rs\<close>: the request id syntax.\<close>

definition valid_request_id :: "string \<Rightarrow> bool" where
  "valid_request_id value = (1 \<le> length value \<and> length value \<le> 128 \<and>
     list_all (\<lambda>c. 33 \<le> byte c \<and> byte c \<le> 126) value)"

definition is_validator :: "task \<Rightarrow> bool" where
  "is_validator t = (case t of Validator _ \<Rightarrow> True | _ \<Rightarrow> False)"

definition is_verdict :: "task \<Rightarrow> bool" where
  "is_verdict t = (case t of Verdict _ _ \<Rightarrow> True | _ \<Rightarrow> False)"

definition work_task_is :: "(task \<Rightarrow> bool) \<Rightarrow> work option \<Rightarrow> bool" where
  "work_task_is p w = is_some_and (\<lambda>work. p (wk_task work)) w"

text \<open>Whether a callback query's \<open>Execute\<close> holds the connection.\<close>

definition callback_executing :: "volatile \<Rightarrow> bool" where
  "callback_executing v = is_some_and
     (\<lambda>cb. case cw_task cb of CbExecute _ _ _ _ \<Rightarrow> True | _ \<Rightarrow> False) (v_callback v)"

definition vol_paired :: "volatile \<Rightarrow> bool" where
  "vol_paired v = (case (v_pending v, v_work v) of
       (None, None) \<Rightarrow> True
     | (Some p, Some w) \<Rightarrow> pn_effect p = awaited_by (wk_task w)
     | _ \<Rightarrow> False)"

definition vol_callback :: "volatile \<Rightarrow> bool" where
  "vol_callback v = is_none_or (\<lambda>cb.
     pn_effect (cw_pending cb) = callback_awaits (cw_task cb) \<and>
     pn_id (cw_pending cb) < v_next_effect_id v \<and>
     is_none_or (\<lambda>p. pn_id p \<noteq> pn_id (cw_pending cb)) (v_pending v) \<and>
     valid_request_id (cw_request_id cb)) (v_callback v)"

definition vol_capability :: "volatile \<Rightarrow> bool" where
  "vol_capability v = is_none_or (\<lambda>cp.
     work_task_is is_validator (v_work v) \<and> hex64 (cp_token_hash cp) \<and>
     1 \<le> cp_next_sequence cp \<and> cp_next_sequence cp \<le> MAX_SAFE_INTEGER \<and>
     is_some (cp_last cp) = (1 < cp_next_sequence cp)) (v_capability v)"

definition vol_deferred :: "volatile \<Rightarrow> bool" where
  "vol_deferred v = is_none_or (\<lambda>d.
     v_work v = None \<and> is_verdict (wk_task d) \<and> callback_executing v \<and>
     is_none_or valid_request_id (wk_request_id d)) (v_deferred v)"

definition vol_atomic :: "volatile \<Rightarrow> bool" where
  "vol_atomic v = is_none_or (\<lambda>a.
     (ar_placement a = Owner) = is_some (v_owner v) \<and> binding_is_valid (ar_binding a) \<and>
     valid_request_id (ar_request_id a) \<and> ar_handle a \<in> set (v_handles v)) (v_atomic v)"

definition volatile_is_consistent :: "volatile \<Rightarrow> bool" where
  "volatile_is_consistent v = (vol_paired v \<and> \<not> work_task_is is_verdict (v_work v) \<and>
     vol_callback v \<and> vol_capability v \<and> vol_deferred v \<and>
     1 \<le> v_next_effect_id v \<and> v_next_effect_id v \<le> MAX_SAFE_INTEGER \<and>
     is_none_or (\<lambda>p. pn_id p < v_next_effect_id v) (v_pending v) \<and>
     length (v_handles v) \<le> 2 \<and> is_none_or owner_name (v_owner v) \<and> vol_atomic v \<and>
     is_none_or (\<lambda>w. is_none_or valid_request_id (wk_request_id w)) (v_work v))"

definition volatile_is_idle :: "volatile \<Rightarrow> bool" where
  "volatile_is_idle v = (v_work v = None \<and> v_pending v = None \<and> v_connection v = Conn_None \<and>
     v_handles v = [] \<and> v_callback v = None \<and> v_capability v = None \<and> v_deferred v = None \<and>
     v_atomic v = None)"

lemmas vol_defs = vol_paired_def vol_callback_def vol_capability_def vol_deferred_def vol_atomic_def

section \<open>Lemmas on the state\<close>

lemma is_terminal_simps [simp]:
  "\<not> is_terminal Active" "\<not> is_terminal Validating" "\<not> is_terminal Committing"
  "is_terminal Committed" "is_terminal RolledBack" "is_terminal Failed" "is_terminal Expired"
  "is_terminal CommitUnknown" "is_terminal Discarded"
  by (simp_all add: is_terminal_def)

lemma increasing_iff: "increasing xs \<longleftrightarrow> sorted_wrt (<) xs"
proof (induction xs rule: increasing.induct)
  case (1 a b xs)
  then show ?case by (auto intro: less_trans)
qed auto

lemma increasing_snoc: "increasing xs \<Longrightarrow> list_all (\<lambda>x. x < y) xs \<Longrightarrow> increasing (xs @ [y])"
  by (simp add: increasing_iff sorted_wrt_append list_all_iff)

text \<open>Every wire form the machine writes reads back as the state it was written from.\<close>

lemma from_wire_to_wire:
  assumes "owner_name (durable_owner d)"
    and "\<And>r. d = Live r \<Longrightarrow> record_is_consistent r \<and> r_phase r \<noteq> Discarded"
  shows "from_wire (to_wire d) = Some d"
proof (cases d)
  case (Live r)
  with assms show ?thesis by (cases r) (simp add: from_wire_def Let_def)
qed (use assms in \<open>simp add: from_wire_def\<close>)

lemma from_wire_consistent:
  "from_wire w = Some (Live r) \<Longrightarrow> record_is_consistent r \<and> r_phase r \<noteq> Discarded \<and> r_owner r = w_owner w"
  by (auto simp: from_wire_def Let_def split: if_splits option.splits)

lemma from_wire_owner: "from_wire w = Some d \<Longrightarrow> durable_owner d = w_owner w"
  by (auto simp: from_wire_def Let_def split: if_splits option.splits)

text \<open>A record with a deadline has an expiry and one without has none, so a consistent record is
  never \<open>Discarded\<close> with a live deadline.\<close>

lemma consistent_deadline:
  "record_is_consistent r \<Longrightarrow> has_deadline (r_phase r) \<longleftrightarrow> (\<exists>at_ms. r_expires_at_ms r = Some at_ms)"
  by (auto simp: record_is_consistent_def rec_deadline_def is_some_def)

end
