(* ===== verification/Strict.thy ===== *)
theory Strict
  imports Canonical
begin

text \<open>
  The strict JSON check of an untrusted body
  (\<^verbatim>\<open>src/crates/policysql-transaction/src/strict.rs\<close>).

  \<open>serde_json\<close>'s deserializer drives the visitor: what it hands over is the tree \<open>jtree\<close> of
  visited nodes, in which the parser's own error (with its message) may cut a sequence, a map or
  a value short, together with whether nothing but white space follows the value. \<open>m\<close> is
  \<open>usize::MAX\<close>. The position that \<open>serde_json\<close> appends to a message is left out; the messages
  are only searched for fixed texts.
\<close>

datatype strict_error = SSyntax | DuplicateKey | TooDeep | TooManyValues | LoneSurrogate

definition DUPLICATE_KEY :: string where "DUPLICATE_KEY = ''policysql: strict json: duplicate key''"
definition TOO_DEEP :: string where "TOO_DEEP = ''policysql: strict json: nesting too deep''"
definition TOO_MANY_VALUES :: string where "TOO_MANY_VALUES = ''policysql: strict json: too many values''"

datatype jtree =
    JtScalar
  | JtError string
  | JtSeq "jtree list" "string option"
  | JtMap "(string \<times> jtree) list" "string option"

fun contains :: "string \<Rightarrow> string \<Rightarrow> bool" where
  "contains p [] = (p = [])"
| "contains p (c # cs) = (starts_with p (c # cs) \<or> contains p cs)"

definition classify :: "string \<Rightarrow> strict_error" where
  "classify message =
     (if contains DUPLICATE_KEY message then DuplicateKey
      else if contains TOO_DEEP message then TooDeep
      else if contains TOO_MANY_VALUES message then TooManyValues
      else if contains ''lone leading surrogate'' message \<or>
              contains ''unexpected end of hex escape'' message then LoneSurrogate
      else SSyntax)"

text \<open>\<open>Counter::count\<close>: the new count, or the custom error.\<close>

definition count_value :: "nat \<Rightarrow> nat option \<Rightarrow> nat \<Rightarrow> string + nat" where
  "count_value m max_values values =
     (let values = sat_add m values 1
      in if is_some_and (\<lambda>mx. values > mx) max_values then Inl TOO_MANY_VALUES else Inr values)"

text \<open>The visitor \<open>Check\<close>. The loops over elements and members are \<open>check_seq\<close> and \<open>check_map\<close>;
  \<open>keys\<close> is the set of member names seen.\<close>

fun check_tree :: "nat \<Rightarrow> nat option \<Rightarrow> nat \<Rightarrow> nat \<Rightarrow> jtree \<Rightarrow> nat \<Rightarrow> string + nat"
  and check_seq :: "nat \<Rightarrow> nat option \<Rightarrow> nat \<Rightarrow> nat \<Rightarrow> jtree list \<Rightarrow> string option \<Rightarrow> nat \<Rightarrow> string + nat"
  and check_map :: "nat \<Rightarrow> nat option \<Rightarrow> nat \<Rightarrow> nat \<Rightarrow> string set \<Rightarrow> (string \<times> jtree) list \<Rightarrow>
    string option \<Rightarrow> nat \<Rightarrow> string + nat"
where
  "check_tree m mv md depth JtScalar n = count_value m mv n"
| "check_tree m mv md depth (JtError e) n = Inl e"
| "check_tree m mv md depth (JtSeq items e) n =
     (if depth \<ge> md then Inl TOO_DEEP
      else case count_value m mv n of Inl err \<Rightarrow> Inl err | Inr n \<Rightarrow> check_seq m mv md depth items e n)"
| "check_tree m mv md depth (JtMap members e) n =
     (if depth \<ge> md then Inl TOO_DEEP
      else case count_value m mv n of Inl err \<Rightarrow> Inl err
        | Inr n \<Rightarrow> check_map m mv md depth {} members e n)"
| "check_seq m mv md depth [] e n = (case e of None \<Rightarrow> Inr n | Some err \<Rightarrow> Inl err)"
| "check_seq m mv md depth (t # ts) e n =
     (case check_tree m mv md (Suc depth) t n of Inl err \<Rightarrow> Inl err
      | Inr n \<Rightarrow> check_seq m mv md depth ts e n)"
| "check_map m mv md depth keys [] e n = (case e of None \<Rightarrow> Inr n | Some err \<Rightarrow> Inl err)"
| "check_map m mv md depth keys ((key, t) # ts) e n =
     (case count_value m mv n of Inl err \<Rightarrow> Inl err | Inr n \<Rightarrow>
      if key \<in> keys then Inl DUPLICATE_KEY
      else case check_tree m mv md (Suc depth) t n of Inl err \<Rightarrow> Inl err
        | Inr n \<Rightarrow> check_map m mv md depth (insert key keys) ts e n)"

definition check_with_max_depth ::
  "nat \<Rightarrow> (string \<Rightarrow> jtree \<times> bool) \<Rightarrow> string \<Rightarrow> nat option \<Rightarrow> nat \<Rightarrow> strict_error option" where
  "check_with_max_depth m rd text max_values max_depth =
     (case rd text of (tree, at_end) \<Rightarrow>
        (case check_tree m max_values max_depth 0 tree 0 of
           Inl message \<Rightarrow> Some (classify message)
         | Inr _ \<Rightarrow> if at_end then None else Some SSyntax))"

definition strict_check ::
  "nat \<Rightarrow> (string \<Rightarrow> jtree \<times> bool) \<Rightarrow> string \<Rightarrow> nat option \<Rightarrow> strict_error option" where
  "strict_check m rd text max_values = check_with_max_depth m rd text max_values MAX_DEPTH"

section \<open>What a tree holds\<close>

text \<open>A tree the parser completed, its nesting, its values and member names, and whether the
  member names of every object are distinct.\<close>

fun complete :: "jtree \<Rightarrow> bool" where
  "complete JtScalar = True"
| "complete (JtError e) = False"
| "complete (JtSeq ts e) = (e = None \<and> list_all complete ts)"
| "complete (JtMap ms e) = (e = None \<and> list_all (\<lambda>(_, t). complete t) ms)"

fun tree_nesting :: "jtree \<Rightarrow> nat" where
  "tree_nesting JtScalar = 0"
| "tree_nesting (JtError e) = 0"
| "tree_nesting (JtSeq ts e) = Suc (fold max (map tree_nesting ts) 0)"
| "tree_nesting (JtMap ms e) = Suc (fold max (map (\<lambda>(_, t). tree_nesting t) ms) 0)"

fun tree_values :: "jtree \<Rightarrow> nat" where
  "tree_values JtScalar = 1"
| "tree_values (JtError e) = 0"
| "tree_values (JtSeq ts e) = 1 + sum_list (map tree_values ts)"
| "tree_values (JtMap ms e) = 1 + sum_list (map (\<lambda>(_, t). 1 + tree_values t) ms)"

fun keys_unique :: "jtree \<Rightarrow> bool" where
  "keys_unique (JtSeq ts e) = list_all keys_unique ts"
| "keys_unique (JtMap ms e) = (distinct (map fst ms) \<and> list_all (\<lambda>(_, t). keys_unique t) ms)"
| "keys_unique _ = True"

section \<open>Lemmas\<close>

lemma fold_max_le: "fold max xs a \<le> (n :: nat) \<longleftrightarrow> a \<le> n \<and> (\<forall>x \<in> set xs. x \<le> n)"
  by (induction xs arbitrary: a) auto

text \<open>The limit holds for a count \<open>n\<close> when it is absent or not exceeded.\<close>

definition within_limit :: "nat option \<Rightarrow> nat \<Rightarrow> bool" where
  "within_limit mv n = is_none_or (\<lambda>mx. n \<le> mx) mv"

lemma count_value_iff:
  assumes "\<And>mx. mv = Some mx \<Longrightarrow> mx < m"
    and "within_limit mv n"
  shows "count_value m mv n = (if within_limit mv (n + 1) then Inr (min m (n + 1)) else Inl TOO_MANY_VALUES)"
  using assms by (cases mv) (auto simp: count_value_def within_limit_def sat_add_def)

lemma within_limit_cut:
  assumes "\<And>mx. mv = Some mx \<Longrightarrow> mx < m"
  shows "within_limit mv (min m a + b) \<longleftrightarrow> within_limit mv (a + b)"
  using assms by (cases mv) (auto simp: within_limit_def min_def)

lemma within_limit_less: "within_limit mv (a + b) \<Longrightarrow> within_limit mv a"
  by (cases mv) (auto simp: within_limit_def)

lemma min_cut: "min m (min m a + b) = min m (a + (b :: nat))"
  by (simp add: min_def)

text \<open>A complete tree passes exactly when it is shallow enough, its names are distinct and its
  count stays within the limit; the count is then exact, cut off at \<open>usize::MAX\<close>.\<close>

lemma count_value_Inr:
  assumes "\<And>mx. mv = Some mx \<Longrightarrow> mx < m"
  shows "count_value m mv n = Inr k \<longleftrightarrow> within_limit mv (n + 1) \<and> k = min m (n + 1)"
  using assms by (cases mv) (auto simp: count_value_def within_limit_def sat_add_def)

lemma within_limit_min:
  assumes "\<And>mx. mv = Some mx \<Longrightarrow> mx < m"
  shows "within_limit mv (min m a) \<longleftrightarrow> within_limit mv a"
  using within_limit_cut [OF assms, where a = a and b = 0] by simp

lemma nesting_members: "fold max (map (\<lambda>(_, t). tree_nesting t) ms) 0 \<le> d \<longleftrightarrow> (\<forall>p \<in> set ms. tree_nesting (snd p) \<le> d)"
  by (auto simp: fold_max_le)

lemma sum_Inr_case:
  "(case x of Inl e \<Rightarrow> Inl e | Inr y \<Rightarrow> f y) = Inr k \<longleftrightarrow> (\<exists>y. x = Inr y \<and> f y = Inr k)"
  by (cases x) auto

lemma check_tree_Inr:
  "(\<And>mx. mv = Some mx \<Longrightarrow> mx < m) \<Longrightarrow> complete t \<Longrightarrow> depth \<le> md \<Longrightarrow>
      check_tree m mv md depth t n = Inr k \<longleftrightarrow>
        depth + tree_nesting t \<le> md \<and> keys_unique t \<and> within_limit mv (n + tree_values t) \<and>
        k = min m (n + tree_values t)"
  "(\<And>mx. mv = Some mx \<Longrightarrow> mx < m) \<Longrightarrow> e = None \<Longrightarrow> list_all complete ts \<Longrightarrow> depth < md \<Longrightarrow>
      n \<le> m \<Longrightarrow> within_limit mv n \<Longrightarrow>
      check_seq m mv md depth ts e n = Inr k \<longleftrightarrow>
        (\<forall>t \<in> set ts. depth + tree_nesting t < md) \<and> list_all keys_unique ts \<and>
        within_limit mv (n + sum_list (map tree_values ts)) \<and> k = min m (n + sum_list (map tree_values ts))"
  "(\<And>mx. mv = Some mx \<Longrightarrow> mx < m) \<Longrightarrow> e = None \<Longrightarrow> list_all (\<lambda>(_, t). complete t) ms \<Longrightarrow>
      depth < md \<Longrightarrow> n \<le> m \<Longrightarrow> within_limit mv n \<Longrightarrow>
      check_map m mv md depth keys ms e n = Inr k \<longleftrightarrow>
        (\<forall>p \<in> set ms. depth + tree_nesting (snd p) < md) \<and> list_all (\<lambda>(_, t). keys_unique t) ms \<and>
        distinct (map fst ms) \<and> fst ` set ms \<inter> keys = {} \<and>
        within_limit mv (n + sum_list (map (\<lambda>(_, t). 1 + tree_values t) ms)) \<and>
        k = min m (n + sum_list (map (\<lambda>(_, t). 1 + tree_values t) ms))"
proof (induction m mv md depth t n and m mv md depth ts e n and m mv md depth keys ms e n
    arbitrary: k and k and k rule: check_tree_check_seq_check_map.induct)
  case (1 m mv md depth n)
  then show ?case by (simp add: count_value_Inr)
next
  case (3 m mv md depth items e n)
  note lim = "3.prems"(1)
  show ?case
  proof (cases "depth < md \<and> within_limit mv (n + 1)")
    case True
    have c: "count_value m mv n = Inr (min m (n + 1))" using True by (simp add: count_value_Inr lim)
    have d: "depth + Suc (fold max (map tree_nesting items) 0) \<le> md \<longleftrightarrow>
        (\<forall>t \<in> set items. depth + tree_nesting t < md)"
      using True fold_max_le [of "map tree_nesting items" 0 "md - Suc depth"] by auto
    have "check_seq m mv md depth items e (min m (n + 1)) = Inr k \<longleftrightarrow>
        (\<forall>t \<in> set items. depth + tree_nesting t < md) \<and> list_all keys_unique items \<and>
        within_limit mv (n + 1 + sum_list (map tree_values items)) \<and>
        k = min m (n + 1 + sum_list (map tree_values items))"
      using "3.IH" [OF _ c lim] "3.prems" True
      by (simp add: within_limit_cut [OF lim] within_limit_min [OF lim] min_cut)
    then show ?thesis using True c d by (simp add: add.assoc)
  next
    case False
    then show ?thesis
      using "3.prems" within_limit_less [of mv "n + 1"]
      by (auto simp: sum_Inr_case count_value_Inr [OF lim] add.assoc [symmetric])
  qed
next
  case (4 m mv md depth members e n)
  note lim = "4.prems"(1)
  let ?s = "sum_list (map (\<lambda>(_, t). 1 + tree_values t) members)"
  show ?case
  proof (cases "depth < md \<and> within_limit mv (n + 1)")
    case True
    have c: "count_value m mv n = Inr (min m (n + 1))" using True by (simp add: count_value_Inr lim)
    have d: "depth + Suc (fold max (map (\<lambda>(_, t). tree_nesting t) members) 0) \<le> md \<longleftrightarrow>
        (\<forall>p \<in> set members. depth + tree_nesting (snd p) < md)"
      using True nesting_members [of members "md - Suc depth"] by auto
    have "check_map m mv md depth {} members e (min m (n + 1)) = Inr k \<longleftrightarrow>
        (\<forall>p \<in> set members. depth + tree_nesting (snd p) < md) \<and> list_all (\<lambda>(_, t). keys_unique t) members \<and>
        distinct (map fst members) \<and> within_limit mv (n + 1 + ?s) \<and> k = min m (n + 1 + ?s)"
      using "4.IH" [OF _ c lim] "4.prems" True
      by (simp add: within_limit_cut [OF lim] within_limit_min [OF lim] min_cut)
    then show ?thesis using True c d by (simp add: add.assoc) blast
  next
    case False
    then show ?thesis
      using "4.prems" within_limit_less [of mv "n + 1"]
      by (auto simp: sum_Inr_case count_value_Inr [OF lim] add.assoc [symmetric])
  qed
next
  case (6 m mv md depth t ts e n)
  note lim = "6.prems"(1)
  have t: "check_tree m mv md (Suc depth) t n = Inr j \<longleftrightarrow>
      Suc depth + tree_nesting t \<le> md \<and> keys_unique t \<and> within_limit mv (n + tree_values t) \<and>
      j = min m (n + tree_values t)" for j
    using "6.IH"(1) [OF lim] "6.prems" by simp
  show ?case
  proof (cases "within_limit mv (n + tree_values t) \<and> Suc depth + tree_nesting t \<le> md \<and> keys_unique t")
    case True
    then have c: "check_tree m mv md (Suc depth) t n = Inr (min m (n + tree_values t))" using t by simp
    show ?thesis
      using "6.IH"(2) [OF c lim] "6.prems" True c
      by (simp add: within_limit_cut [OF lim] within_limit_min [OF lim] min_cut add.assoc)
  next
    case False
    then have "\<not> within_limit mv (n + (tree_values t + sum_list (map tree_values ts))) \<or>
        \<not> (Suc depth + tree_nesting t \<le> md \<and> keys_unique t)"
      using within_limit_less [of mv "n + tree_values t"] by (auto simp: add.assoc)
    then show ?thesis using False by (auto simp: sum_Inr_case t)
  qed
next
  case (8 m mv md depth keys key t ts e n)
  note lim = "8.prems"(1)
  let ?n = "min m (n + 1)" and ?s = "sum_list (map (\<lambda>(_, t). 1 + tree_values t) ts)"
  show ?case
  proof (cases "within_limit mv (n + 1) \<and> key \<notin> keys")
    case True
    have c: "count_value m mv n = Inr ?n" using True by (simp add: count_value_Inr lim)
    have t: "check_tree m mv md (Suc depth) t ?n = Inr j \<longleftrightarrow>
        Suc depth + tree_nesting t \<le> md \<and> keys_unique t \<and> within_limit mv (n + 1 + tree_values t) \<and>
        j = min m (n + 1 + tree_values t)" for j
      using "8.IH"(1) [OF c _ lim] "8.prems" True
      by (simp add: within_limit_cut [OF lim] min_cut)
    show ?thesis
    proof (cases "within_limit mv (n + 1 + tree_values t) \<and> Suc depth + tree_nesting t \<le> md \<and> keys_unique t")
      case ok: True
      then have c2: "check_tree m mv md (Suc depth) t ?n = Inr (min m (n + 1 + tree_values t))"
        using t by simp
      show ?thesis
        using "8.IH"(2) [OF c _ c2 lim] "8.prems" True ok c c2
        by (simp add: within_limit_cut [OF lim] within_limit_min [OF lim] min_cut add.assoc) blast
    next
      case bad: False
      then have "\<not> within_limit mv (n + (1 + tree_values t + ?s)) \<or>
          \<not> (Suc depth + tree_nesting t \<le> md \<and> keys_unique t)"
        using within_limit_less [of mv "n + 1 + tree_values t"] by (auto simp: add.assoc)
      moreover obtain err where "check_tree m mv md (Suc depth) t ?n = Inl err"
        using bad t by (cases "check_tree m mv md (Suc depth) t ?n") blast+
      ultimately show ?thesis using True c by auto
    qed
  next
    case False
    then have "\<not> within_limit mv (n + (1 + tree_values t + ?s)) \<or> key \<in> keys"
      using within_limit_less [of mv "n + 1"] by (auto simp: add.assoc)
    then show ?thesis using False by (auto simp: sum_Inr_case count_value_Inr [OF lim])
  qed
qed (auto simp: sum_Inr_case)

section \<open>Properties\<close>

text \<open>
  C39. The strict check accepts a text exactly when the parser completes it with nothing after
  it, its arrays and objects nest at most \<open>MAX_DEPTH\<close> deep, the member names of every object are
  distinct, and its values and member names together are within the limit.
\<close>

theorem strict_check_accepts_iff:
  assumes "\<And>mx. max_values = Some mx \<Longrightarrow> mx < m"
    and "rd text = (tree, at_end)" and "complete tree"
  shows "strict_check m rd text max_values = None \<longleftrightarrow>
    at_end \<and> tree_nesting tree \<le> MAX_DEPTH \<and> keys_unique tree \<and> is_none_or (\<lambda>mx. tree_values tree \<le> mx) max_values"
proof -
  have "strict_check m rd text max_values = None \<longleftrightarrow>
      at_end \<and> (\<exists>k. check_tree m max_values MAX_DEPTH 0 tree 0 = Inr k)"
    using assms(2) by (auto simp: strict_check_def check_with_max_depth_def split: sum.splits)
  then show ?thesis
    using check_tree_Inr(1) [OF assms(1,3), where depth = 0 and md = MAX_DEPTH and n = 0] by (auto simp: within_limit_def)
qed

theorem strict_check_accepts_iff_witness:
  "strict_check 4294967295 (\<lambda>_. (JtMap [(''a'', JtSeq [JtScalar] None)] None, True)) ''{a:[1]}'' (Some 4) = None \<and>
   strict_check 4294967295 (\<lambda>_. (JtMap [(''a'', JtSeq [JtScalar] None)] None, True)) ''{a:[1]}'' (Some 3) \<noteq> None"
  using strict_check_accepts_iff [of "Some 4" 4294967295
      "\<lambda>_. (JtMap [(''a'', JtSeq [JtScalar] None)] None, True)" "''{a:[1]}''"]
    strict_check_accepts_iff [of "Some 3" 4294967295
      "\<lambda>_. (JtMap [(''a'', JtSeq [JtScalar] None)] None, True)" "''{a:[1]}''"]
  by (simp add: MAX_DEPTH_def)

end
