(* ===== verification/Tx_Io.thy ===== *)
theory Tx_Io
  imports Tx_State Strict
begin

text \<open>
  Events, host facts, effects and replies of the step machine as they cross its boundary
  (\<^verbatim>\<open>src/crates/policysql-transaction/src/machine/io.rs\<close>), and the context every handler reads.

  \<open>serde_json\<close> enters as the record \<open>serde\<close> of the functions the code calls: reading a text into
  the typed values the derives describe, and writing a serialisable tree (\<open>doc\<close>, whose
  constructors are the kinds of node the code serialises) as text.
\<close>

section \<open>Host facts\<close>

record host_facts =
  h_now_ms :: nat
  h_entropy :: string
  h_request_id :: string
  h_owner :: "string option"
  h_configured_checks :: "string list"

definition host_is_valid :: "host_facts \<Rightarrow> bool" where
  "host_is_valid h = (h_now_ms h \<le> MAX_TIME_MS \<and> hex64 (h_entropy h) \<and>
     valid_request_id (h_request_id h) \<and> is_none_or owner_name (h_owner h) \<and>
     length (h_configured_checks h) \<le> 64 \<and>
     list_all (\<lambda>i. i \<noteq> [] \<and> length i \<le> 128) (h_configured_checks h))"

text \<open>\<open>u64::from_str_radix(hex, 16)\<close> on digits: both cases are accepted.\<close>

definition hex_val :: "char \<Rightarrow> nat option" where
  "hex_val c = (let b = byte c in
     if 48 \<le> b \<and> b \<le> 57 then Some (b - 48)
     else if 97 \<le> b \<and> b \<le> 102 then Some (b - 87)
     else if 65 \<le> b \<and> b \<le> 70 then Some (b - 55)
     else None)"

fun hex_number :: "nat \<Rightarrow> string \<Rightarrow> nat option" where
  "hex_number acc [] = Some acc"
| "hex_number acc (c # cs) =
     (case hex_val c of None \<Rightarrow> None | Some d \<Rightarrow> hex_number (acc * 16 + d) cs)"

definition entropy_u64 :: "host_facts \<Rightarrow> nat \<Rightarrow> nat" where
  "entropy_u64 h offset =
     unwrap_or 0 (Option.bind (slice (h_entropy h) (offset * 2) (offset * 2 + 12)) (hex_number 0))"

definition entropy_id :: "host_facts \<Rightarrow> string option" where
  "entropy_id h = slice (h_entropy h) 32 64"

definition entropy_bytes :: "host_facts \<Rightarrow> nat list option" where
  "entropy_bytes h = all_some (map (\<lambda>i.
     Option.bind (slice (h_entropy h) (i * 2) (i * 2 + 2)) (hex_number 0)) [0..<32])"

section \<open>Events\<close>

datatype err_class = Timeout | Unavailable | Rejected | NotCommitted | Unknown | Limit | Complex

record driver_result =
  dr_columns :: "string list"
  dr_rows :: "json list list"
  dr_rows_affected :: nat
  dr_usage :: usage

datatype event =
    Ev_Request json
  | Ev_Forwarded json
  | Ev_TimerFired
  | Ev_Opened nat
  | Ev_OpenFailed nat err_class
  | Ev_BindingChecked nat bool
  | Ev_BindingCheckFailed nat err_class
  | Ev_Executed nat "driver_result list"
  | Ev_ExecuteFailed nat err_class "nat option" "string option" "string option"
  | Ev_Committed nat
  | Ev_CommitFailed nat err_class
  | Ev_RolledBack nat
  | Ev_RollbackFailed nat err_class
  | Ev_Persisted nat
  | Ev_PersistFailed nat
  | Ev_TimerSet nat
  | Ev_TimerFailed nat
  | Ev_ValidatorReplied nat bool json
  | Ev_ValidatorFailed nat err_class
  | Ev_OwnerReplied nat json
  | Ev_ForwardFailed nat err_class
  | Ev_Abandon

fun outcome_id :: "event \<Rightarrow> nat option" where
  "outcome_id (Ev_Opened i) = Some i"
| "outcome_id (Ev_OpenFailed i _) = Some i"
| "outcome_id (Ev_BindingChecked i _) = Some i"
| "outcome_id (Ev_BindingCheckFailed i _) = Some i"
| "outcome_id (Ev_Executed i _) = Some i"
| "outcome_id (Ev_ExecuteFailed i _ _ _ _) = Some i"
| "outcome_id (Ev_Committed i) = Some i"
| "outcome_id (Ev_CommitFailed i _) = Some i"
| "outcome_id (Ev_RolledBack i) = Some i"
| "outcome_id (Ev_RollbackFailed i _) = Some i"
| "outcome_id (Ev_Persisted i) = Some i"
| "outcome_id (Ev_PersistFailed i) = Some i"
| "outcome_id (Ev_TimerSet i) = Some i"
| "outcome_id (Ev_TimerFailed i) = Some i"
| "outcome_id (Ev_ValidatorReplied i _ _) = Some i"
| "outcome_id (Ev_ValidatorFailed i _) = Some i"
| "outcome_id (Ev_OwnerReplied i _) = Some i"
| "outcome_id (Ev_ForwardFailed i _) = Some i"
| "outcome_id (Ev_Request _) = None"
| "outcome_id (Ev_Forwarded _) = None"
| "outcome_id Ev_TimerFired = None"
| "outcome_id Ev_Abandon = None"

fun answers :: "event \<Rightarrow> awaited option" where
  "answers (Ev_Opened _) = Some Aw_Open"
| "answers (Ev_OpenFailed _ _) = Some Aw_Open"
| "answers (Ev_BindingChecked _ _) = Some Aw_CheckBinding"
| "answers (Ev_BindingCheckFailed _ _) = Some Aw_CheckBinding"
| "answers (Ev_Executed _ _) = Some Aw_Execute"
| "answers (Ev_ExecuteFailed _ _ _ _ _) = Some Aw_Execute"
| "answers (Ev_Committed _) = Some Aw_Commit"
| "answers (Ev_CommitFailed _ _) = Some Aw_Commit"
| "answers (Ev_RolledBack _) = Some Aw_Rollback"
| "answers (Ev_RollbackFailed _ _) = Some Aw_Rollback"
| "answers (Ev_Persisted _) = Some Aw_Persist"
| "answers (Ev_PersistFailed _) = Some Aw_Persist"
| "answers (Ev_TimerSet _) = Some Aw_SetTimer"
| "answers (Ev_TimerFailed _) = Some Aw_SetTimer"
| "answers (Ev_ValidatorReplied _ _ _) = Some Aw_CallValidator"
| "answers (Ev_ValidatorFailed _ _) = Some Aw_CallValidator"
| "answers (Ev_OwnerReplied _ _) = Some Aw_Forward"
| "answers (Ev_ForwardFailed _ _) = Some Aw_Forward"
| "answers (Ev_Request _) = None"
| "answers (Ev_Forwarded _) = None"
| "answers Ev_TimerFired = None"
| "answers Ev_Abandon = None"

section \<open>Effects\<close>

record driver_call =
  dc_sql :: string
  dc_args :: btree

record observed_statement =
  os_operation :: string
  os_resource :: "string option"
  os_explain_resource :: "nat option"

record observe_context =
  oc_request_id :: string
  oc_binding :: binding
  oc_statements :: "observed_statement list"

record capability_grant =
  cg_token :: string
  cg_expires_at_ms :: nat

datatype lane = Lane_Client | Lane_Callback

datatype effect =
    Forward nat string lane raw
  | Open nat binding mode nat nat
  | CheckBinding nat binding "nat option"
  | Execute nat "driver_call list" "raw option" nat
  | Commit nat
  | Rollback nat
  | SetTimer nat nat
  | Persist nat
  | CallValidator nat string raw capability_grant nat
  | Respond lane raw
  | Observe "driver_call list" observe_context nat
  | Log raw
  | Reset

fun effect_id :: "effect \<Rightarrow> nat option" where
  "effect_id (Forward i _ _ _) = Some i"
| "effect_id (Open i _ _ _ _) = Some i"
| "effect_id (CheckBinding i _ _) = Some i"
| "effect_id (Execute i _ _ _) = Some i"
| "effect_id (Commit i) = Some i"
| "effect_id (Rollback i) = Some i"
| "effect_id (SetTimer i _) = Some i"
| "effect_id (Persist i) = Some i"
| "effect_id (CallValidator i _ _ _ _) = Some i"
| "effect_id (Respond _ _) = None"
| "effect_id (Observe _ _ _) = None"
| "effect_id (Log _) = None"
| "effect_id Reset = None"

definition is_awaited :: "effect \<Rightarrow> bool" where
  "is_awaited e = (case e of
       Forward _ _ _ _ \<Rightarrow> True | Open _ _ _ _ _ \<Rightarrow> True | CheckBinding _ _ _ \<Rightarrow> True
     | Execute _ _ _ _ \<Rightarrow> True | Commit _ \<Rightarrow> True | Rollback _ \<Rightarrow> True | SetTimer _ _ \<Rightarrow> True
     | Persist _ \<Rightarrow> True | CallValidator _ _ _ _ _ \<Rightarrow> True | _ \<Rightarrow> False)"

section \<open>Codes and replies\<close>

datatype code =
    C_Invalid | C_Conflict | C_Unavailable | C_Internal | C_OutcomeUnknown | C_TransactionLimit
  | C_ModeViolation | C_CheckRejected | C_Stale | C_BindingRejected | C_DatabaseTimeout
  | C_DatabaseUnavailable | C_SchemaMismatch | C_LimitExceeded | C_IdempotencyConflict | C_KeyInvalid
  | C_Timeout | C_SqlTooComplex | C_JsonTooDeep

fun code_parts :: "code \<Rightarrow> string \<times> string" where
  "code_parts C_Invalid = (''POLICYSQL_INVALID_REQUEST'', ''The request is invalid.'')"
| "code_parts C_Conflict = (''POLICYSQL_TRANSACTION_CONFLICT'',
     ''The transaction command conflicts with its current state.'')"
| "code_parts C_Unavailable = (''POLICYSQL_TRANSACTION_UNAVAILABLE'', ''The transaction is no longer active.'')"
| "code_parts C_Internal = (''POLICYSQL_INTERNAL'', ''The request could not be completed.'')"
| "code_parts C_OutcomeUnknown = (''POLICYSQL_COMMIT_OUTCOME_UNKNOWN'', ''The commit outcome is unknown.'')"
| "code_parts C_TransactionLimit = (''POLICYSQL_TRANSACTION_LIMIT_EXCEEDED'', ''The transaction limit was exceeded.'')"
| "code_parts C_ModeViolation = (''POLICYSQL_TRANSACTION_MODE_VIOLATION'',
     ''A read transaction cannot execute a mutation.'')"
| "code_parts C_CheckRejected = (''POLICYSQL_COMMIT_CHECK_REJECTED'', ''A commit check rejected the transaction.'')"
| "code_parts C_Stale = (''POLICYSQL_STALE_OPERATION'',
     ''The operation was compiled for a different active snapshot.'')"
| "code_parts C_BindingRejected = (''POLICYSQL_DATABASE_BINDING_REJECTED'', ''The database binding is not permitted.'')"
| "code_parts C_DatabaseTimeout = (''POLICYSQL_DATABASE_TIMEOUT'', ''The database operation timed out.'')"
| "code_parts C_DatabaseUnavailable = (''POLICYSQL_DATABASE_UNAVAILABLE'',
     ''The database is temporarily unavailable.'')"
| "code_parts C_SchemaMismatch = (''POLICYSQL_SCHEMA_MISMATCH'',
     ''The database result does not match the compiled logical contract.'')"
| "code_parts C_LimitExceeded = (''POLICYSQL_LIMIT_EXCEEDED'',
     ''The request or result exceeded a configured limit.'')"
| "code_parts C_IdempotencyConflict = (''POLICYSQL_IDEMPOTENCY_CONFLICT'',
     ''The idempotency key is already bound to a different request.'')"
| "code_parts C_KeyInvalid = (''POLICYSQL_IDEMPOTENCY_KEY_INVALID'',
     ''Idempotency-Key must be 16-128 characters from letters, digits, and . _ : - + / = when provided.'')"
| "code_parts C_Timeout = (''POLICYSQL_TIMEOUT'', ''The database operation timed out.'')"
| "code_parts C_SqlTooComplex = (''POLICYSQL_SQL_TOO_COMPLEX'',
     ''The statement is too complex to run under the active policy.'')"
| "code_parts C_JsonTooDeep = (''POLICYSQL_JSON_TOO_DEEP'', ''The request JSON nests too deeply.'')"

fun for_class :: "err_class \<Rightarrow> code" where
  "for_class Timeout = C_DatabaseTimeout"
| "for_class Unavailable = C_DatabaseUnavailable"
| "for_class Rejected = C_BindingRejected"
| "for_class NotCommitted = C_Internal"
| "for_class Unknown = C_Internal"
| "for_class Limit = C_LimitExceeded"
| "for_class Complex = C_SqlTooComplex"

definition COMPLEXITY_CAUSES :: "string list" where
  "COMPLEXITY_CAUSES = [''columns'', ''parameters'', ''like_pattern'', ''database_expression_depth'',
     ''function_arguments'', ''compound_terms'', ''join_tables'']"

text \<open>What the code serialises: a struct or map is \<open>DObj\<close>, a \<open>RawValue\<close> is written verbatim.\<close>

datatype doc = DNull | DBool bool | DNat nat | DF64 f64 | DStr string | DArr "doc list"
  | DObj "(string \<times> doc) list" | DRaw raw | DVal json

definition dopt :: "('a \<Rightarrow> doc) \<Rightarrow> 'a option \<Rightarrow> doc" where
  "dopt f x = (case x of None \<Rightarrow> DNull | Some y \<Rightarrow> f y)"

text \<open>\<open>json!({...})\<close>: the object is a \<open>BTreeMap\<close>, so its members are in key order; an absent
  \<open>Option\<close> is \<open>null\<close>, and so is a double that is not finite.\<close>

definition json_obj :: "(string \<times> json) list \<Rightarrow> json" where
  "json_obj members = JObject (sort_members members)"

definition jnat :: "nat \<Rightarrow> json" where
  "jnat n = JNumber (PosInt n)"

definition jopt :: "('a \<Rightarrow> json) \<Rightarrow> 'a option \<Rightarrow> json" where
  "jopt f x = (case x of None \<Rightarrow> JNull | Some y \<Rightarrow> f y)"

definition jf64 :: "f64 \<Rightarrow> json" where
  "jf64 v = (if f64_is_finite v then JNumber (Float v) else JNull)"

text \<open>\<open>#[serde(skip_serializing_if = "Option::is_none")]\<close>.\<close>

definition dskip :: "string \<Rightarrow> ('a \<Rightarrow> doc) \<Rightarrow> 'a option \<Rightarrow> (string \<times> doc) list" where
  "dskip name f x = (case x of None \<Rightarrow> [] | Some y \<Rightarrow> [(name, f y)])"

text \<open>A stored terminal record, as \<open>atomic.rs\<close> deserialises it.\<close>

record stored =
  st_version :: json
  st_transaction_id :: raw
  st_results :: raw
  st_usage :: raw
  st_original_request_id :: raw
  st_status :: "json option"
  st_commit_checks :: "json option"

text \<open>
  \<^item> \<open>sj_tree\<close>: the deserializer's event tree of a text that parses; \<open>sj_events\<close>: what it hands a
    visitor of any text; \<open>sj_f64\<close>: the text of a double;
  \<^item> \<open>sj_value\<close>: \<open>from_str::<Value>\<close>; \<open>sj_string\<close>: \<open>from_str::<String>\<close>;
  \<^item> \<open>sj_members\<close>: \<open>from_str::<BTreeMap<String, Box<RawValue>>>\<close>;
  \<^item> \<open>sj_body\<close>: the \<open>sql\<close> raw values of a body's statements (\<open>BodyStatements\<close>);
  \<^item> \<open>sj_write\<close>: \<open>to_string\<close>; \<open>sj_valid\<close>: \<open>RawValue::from_string(..).is_ok()\<close>;
  \<^item> the typed reads and writes of the state, the events and the host facts.
\<close>

record serde =
  sj_tree :: "string \<Rightarrow> json option"
  sj_events :: "string \<Rightarrow> jtree \<times> bool"
  sj_f64 :: "f64 \<Rightarrow> string"
  sj_value :: "string \<Rightarrow> json option"
  sj_string :: "string \<Rightarrow> string option"
  sj_members :: "string \<Rightarrow> (string \<times> raw) list option"
  sj_body :: "string \<Rightarrow> (string \<times> raw) list list option"
  sj_write :: "doc \<Rightarrow> string"
  sj_valid :: "string \<Rightarrow> bool"
  sj_binding :: "json \<Rightarrow> binding option"
  sj_idempotency :: "json \<Rightarrow> idempotency option"
  sj_stored :: "string \<Rightarrow> stored option"
  sj_durable :: "string \<Rightarrow> durable_wire option"
  sj_durable_text :: "durable_wire \<Rightarrow> string"
  sj_volatile :: "string \<Rightarrow> volatile option"
  sj_volatile_text :: "volatile \<Rightarrow> string"
  sj_event :: "string \<Rightarrow> event option"
  sj_host :: "string \<Rightarrow> host_facts option"

definition null_raw :: raw where "null_raw = ''null''"

definition raw_of :: "serde \<Rightarrow> string \<Rightarrow> raw" where
  "raw_of sj text = (if sj_valid sj text then text else null_raw)"

definition to_raw :: "serde \<Rightarrow> doc \<Rightarrow> raw" where
  "to_raw sj d = raw_of sj (sj_write sj d)"

definition error_doc :: "string \<Rightarrow> string \<Rightarrow> string option \<Rightarrow> doc" where
  "error_doc code message path = DObj
     [(''ok'', DBool False),
      (''error'', DObj [(''code'', DStr code), (''message'', DStr message), (''path'', dopt DStr path)])]"

definition error_reply :: "serde \<Rightarrow> code \<Rightarrow> raw" where
  "error_reply sj c = (case code_parts c of (code, message) \<Rightarrow> to_raw sj (error_doc code message None))"

definition error_reply_at :: "serde \<Rightarrow> code \<Rightarrow> nat \<Rightarrow> raw" where
  "error_reply_at sj c index = (case code_parts c of (code, message) \<Rightarrow>
     to_raw sj (error_doc code message (Some (''/statements/'' @ show_nat index))))"

definition core_error_reply :: "serde \<Rightarrow> core_error \<Rightarrow> raw" where
  "core_error_reply sj e = to_raw sj (error_doc (ce_code e) (ce_message e) (ce_path e))"

definition value_reply :: "serde \<Rightarrow> raw \<Rightarrow> raw" where
  "value_reply sj v = to_raw sj (DObj [(''ok'', DBool True), (''value'', DRaw v)])"

section \<open>Reading and writing the state\<close>

definition durable_to_json :: "serde \<Rightarrow> durable \<Rightarrow> string" where
  "durable_to_json sj d = sj_durable_text sj (to_wire d)"

definition durable_parse :: "serde \<Rightarrow> string \<Rightarrow> string \<Rightarrow> unreadable + durable" where
  "durable_parse sj text owner =
     (if length text > MAX_DURABLE_BYTES then Inl TooLarge
      else case sj_value sj text of None \<Rightarrow> Inl Malformed | Some probe \<Rightarrow>
      if Option.bind (json_get ''v'' probe) as_u64 \<noteq> Some TX_STATE_VERSION then Inl UVersion
      else case sj_durable sj text of None \<Rightarrow> Inl Malformed | Some wire \<Rightarrow>
      if w_owner wire \<noteq> owner then Inl UOwner
      else case from_wire wire of None \<Rightarrow> Inl Inconsistent | Some d \<Rightarrow> Inr d)"

definition volatile_to_json :: "serde \<Rightarrow> volatile \<Rightarrow> string" where
  "volatile_to_json sj v = sj_volatile_text sj v"

definition volatile_parse :: "serde \<Rightarrow> string \<Rightarrow> string option \<Rightarrow> nat \<Rightarrow> volatile option" where
  "volatile_parse sj text owner bound =
     (if length text > bound then None
      else case sj_volatile sj text of None \<Rightarrow> None | Some v \<Rightarrow>
        (if v_v v = TX_STATE_VERSION \<and> v_owner v = owner \<and> volatile_is_consistent v then Some v else None))"

section \<open>The context of a step\<close>

text \<open>What every handler reads: the compiler, the limits, the host facts, the owner name (empty in
  the engine), \<open>serde_json\<close>, SHA-256 as hex, the rounding of a double, \<open>usize::MAX\<close>, and the
  Unicode tables behind \<open>char::is_alphabetic\<close> and \<open>char::is_uppercase\<close>, on code points.\<close>

record 'c ctx =
  x_compiler :: "'c compiler"
  x_limits :: limits
  x_host :: host_facts
  x_owner :: string
  x_serde :: serde
  x_sha :: "string \<Rightarrow> string"
  x_rnd :: "rat \<Rightarrow> f64"
  x_usize_max :: nat
  x_alphabetic :: "nat \<Rightarrow> bool"
  x_uppercase :: "nat \<Rightarrow> bool"

section \<open>Lemmas\<close>

lemma is_awaited_id: "is_awaited e \<longleftrightarrow> effect_id e \<noteq> None"
  by (cases e) (simp_all add: is_awaited_def)

lemma is_awaited_simps [simp]:
  "is_awaited (Forward i o' l r)" "is_awaited (Open i b m t d)" "is_awaited (CheckBinding i b e)"
  "is_awaited (Execute i c z n)" "is_awaited (Commit i)" "is_awaited (Rollback i)"
  "is_awaited (SetTimer i a)" "is_awaited (Persist i)" "is_awaited (CallValidator i u p g t)"
  "\<not> is_awaited (Respond l r)" "\<not> is_awaited (Observe c x n)" "\<not> is_awaited (Log r)"
  "\<not> is_awaited Reset"
  by (simp_all add: is_awaited_def)

lemma outcome_answers: "outcome_id e = None \<longleftrightarrow> answers e = None"
  by (cases e) simp_all

lemma hex_number_bound:
  "hex_number acc s = Some n \<Longrightarrow> n < (acc + 1) * 16 ^ length s"
proof (induction s arbitrary: acc)
  case (Cons c cs)
  then obtain d where d: "hex_val c = Some d" and n: "hex_number (acc * 16 + d) cs = Some n"
    by (auto split: option.splits)
  have "d \<le> 15" using d by (auto simp: hex_val_def Let_def split: if_splits)
  then have "acc * 16 + d + 1 \<le> (acc + 1) * 16" by simp
  then have "(acc * 16 + d + 1) * 16 ^ length cs \<le> (acc + 1) * 16 * 16 ^ length cs"
    by (rule mult_le_mono1)
  also have "\<dots> = (acc + 1) * 16 ^ length (c # cs)" by (simp add: algebra_simps)
  finally show ?case using Cons.IH [OF n] by linarith
qed simp

text \<open>The twelve hex digits of an entropy slice are below 2^48.\<close>

lemma entropy_u64_bound: "entropy_u64 h k < 2 ^ 48"
proof -
  have "hex_number 0 s = Some n \<Longrightarrow> length s = 12 \<Longrightarrow> n < 2 ^ 48" for s n
    using hex_number_bound [of 0 s n] by simp
  then have "unwrap_or 0 (hex_number 0 s) < 2 ^ 48" if "length s = 12" for s
    using that by (cases "hex_number 0 s") auto
  then show ?thesis by (auto simp: entropy_u64_def slice_def)
qed

lemma durable_parse_owner: "durable_parse sj text owner = Inr d \<Longrightarrow> durable_owner d = owner"
  by (auto simp: durable_parse_def dest: from_wire_owner split: if_splits option.splits)

lemma durable_parse_consistent:
  "durable_parse sj text owner = Inr (Live r) \<Longrightarrow> record_is_consistent r \<and> r_phase r \<noteq> Discarded"
  by (auto simp: durable_parse_def dest: from_wire_consistent split: if_splits option.splits)

lemma durable_parse_owner_name: "durable_parse sj text owner = Inr d \<Longrightarrow> owner_name owner"
  by (auto simp: durable_parse_def from_wire_def split: if_splits option.splits)

lemma volatile_parse_consistent:
  "volatile_parse sj text owner bound = Some v \<Longrightarrow>
     volatile_is_consistent v \<and> v_owner v = owner \<and> v_v v = TX_STATE_VERSION"
  by (auto simp: volatile_parse_def split: if_splits option.splits)

end
