(* ===== verification/Iso_Time.thy ===== *)
theory Iso_Time
  imports Prelude
begin

text \<open>
  \<open>Date.prototype.toISOString\<close> for the public \<open>expiresAt\<close>
  (\<^verbatim>\<open>src/crates/policysql-transaction/src/machine/time.rs\<close>), and the Gregorian calendar it is
  checked against. The \<open>u64\<close> subtractions of the source are \<open>nat\<close> subtractions; the lemmas show
  that none of them goes below zero.
\<close>

definition civil_from_days :: "nat \<Rightarrow> nat \<times> nat \<times> nat" where
  "civil_from_days days =
     (let z = days + 719468;
          era = z div 146097;
          doe = z - era * 146097;
          yoe = (doe - doe div 1460 + doe div 36524 - doe div 146096) div 365;
          doy = doe - (365 * yoe + yoe div 4 - yoe div 100);
          mp = (5 * doy + 2) div 153;
          day = doy - (153 * mp + 2) div 5 + 1;
          month = (if mp < 10 then mp + 3 else mp - 9);
          year = yoe + era * 400 + (if month \<le> 2 then 1 else 0)
      in (year, month, day))"

text \<open>\<open>{:0k}\<close>: at least \<open>k\<close> digits.\<close>

definition pad :: "nat \<Rightarrow> nat \<Rightarrow> string" where
  "pad k n = (let s = show_nat n in replicate (k - length s) (CHR ''0'') @ s)"

definition iso_from_ms :: "nat \<Rightarrow> string" where
  "iso_from_ms ms =
     (let millis = ms mod 1000;
          seconds = ms div 1000;
          second = seconds mod 60;
          minute = (seconds div 60) mod 60;
          hour = (seconds div 3600) mod 24;
          days = seconds div 86400
      in case civil_from_days days of (year, month, day) \<Rightarrow>
        pad 4 year @ ''-'' @ pad 2 month @ ''-'' @ pad 2 day @ ''T'' @ pad 2 hour @ '':'' @
        pad 2 minute @ '':'' @ pad 2 second @ ''.'' @ pad 3 millis @ ''Z'')"

section \<open>The Gregorian calendar\<close>

definition is_leap :: "nat \<Rightarrow> bool" where
  "is_leap y = (y mod 4 = 0 \<and> (y mod 100 \<noteq> 0 \<or> y mod 400 = 0))"

definition month_days :: "nat \<Rightarrow> nat \<Rightarrow> nat" where
  "month_days y month = (if month = 2 then (if is_leap y then 29 else 28)
     else if month \<in> {4, 6, 9, 11} then 30 else 31)"

fun next_day :: "nat \<times> nat \<times> nat \<Rightarrow> nat \<times> nat \<times> nat" where
  "next_day (y, month, day) =
     (if day < month_days y month then (y, month, day + 1)
      else if month < 12 then (y, month + 1, 1)
      else (y + 1, 1, 1))"

text \<open>The calendar date \<open>n\<close> days after 1970-01-01, counted day by day.\<close>

definition calendar :: "nat \<Rightarrow> nat \<times> nat \<times> nat" where
  "calendar n = (next_day ^^ n) (1970, 1, 1)"

section \<open>Lemmas\<close>

text \<open>A day of a 400-year era: century \<open>c\<close>, quadrennium \<open>q\<close>, year \<open>r\<close> and day \<open>d\<close>, in years that
  start on the first of March; \<open>d = 365\<close> is a leap day.\<close>

definition era_parts :: "nat \<Rightarrow> nat \<Rightarrow> nat \<Rightarrow> nat \<Rightarrow> bool" where
  "era_parts c q r d = (c \<le> 3 \<and> q \<le> 24 \<and> r \<le> 3 \<and> (d \<le> 364 \<or> d = 365 \<and> r = 3 \<and> (q < 24 \<or> c = 3)))"

definition era_day :: "nat \<Rightarrow> nat \<Rightarrow> nat \<Rightarrow> nat \<Rightarrow> nat" where
  "era_day c q r d = 36524 * c + 1461 * q + 365 * r + d"

lemma era_year:
  assumes "era_parts c q r d" and "doe = era_day c q r d"
  shows "(doe - doe div 1460 + doe div 36524 - doe div 146096) div 365 = 100 * c + 4 * q + r"
proof -
  define k where "k = (24 * c + q + 365 * r + d) div 1460"
  have a: "doe div 1460 = 25 * c + q + k"
  proof -
    have "doe = 24 * c + q + 365 * r + d + (25 * c + q) * 1460" by (simp add: assms(2) era_day_def)
    then show ?thesis by (simp add: k_def)
  qed
  show ?thesis
  proof (cases "c = 3 \<and> q = 24 \<and> r = 3 \<and> d = 365")
    case True
    then show ?thesis by (simp add: assms(2) era_day_def)
  next
    case False
    have lo: "36524 * c \<le> doe" and hi: "doe < 36524 * (c + 1)" and top: "doe < 146096"
      using assms False by (auto simp: era_parts_def era_day_def)
    from lo hi have "doe div 36524 = c" by (intro div_nat_eqI) simp_all
    moreover have "doe div 146096 = 0" using top by simp
    moreover have "k \<le> d" "d - k < 365" "k \<le> 1"
      using assms(1) unfolding era_parts_def k_def by (cases "d = 365"; cases "d = 0"; simp; linarith)+
    ultimately have "doe - doe div 1460 + doe div 36524 - doe div 146096 = 365 * (100 * c + 4 * q + r) + (d - k)"
      using a by (simp add: assms(2) era_day_def)
    then show ?thesis using \<open>d - k < 365\<close> by simp
  qed
qed

lemma year_start:
  assumes "era_parts c q r d"
  shows "365 * (100 * c + 4 * q + r) + (100 * c + 4 * q + r) div 4 - (100 * c + 4 * q + r) div 100
    = era_day c q r 0"
proof -
  have "(100 * c + 4 * q + r) div 4 = 25 * c + q" "(100 * c + 4 * q + r) div 100 = c"
    using assms by (auto simp: era_parts_def intro!: div_nat_eqI)
  then show ?thesis by (simp add: era_day_def)
qed


text \<open>The date of the day \<open>d\<close> of the year that starts on the first of March of \<open>y\<close>.\<close>

definition march_date :: "nat \<Rightarrow> nat \<Rightarrow> nat \<times> nat \<times> nat" where
  "march_date y d =
     (let mp = (5 * d + 2) div 153; month = (if mp < 10 then mp + 3 else mp - 9)
      in (y + (if month \<le> 2 then 1 else 0), month, d - (153 * mp + 2) div 5 + 1))"

lemma civil_parts:
  assumes "era_parts c q r d" and "days + 719468 = 146097 * e + era_day c q r d"
  shows "civil_from_days days = march_date (400 * e + 100 * c + 4 * q + r) d"
proof -
  let ?doe = "era_day c q r d" and ?y = "100 * c + 4 * q + r"
  have "?doe < 146097" using assms(1) by (auto simp: era_parts_def era_day_def)
  then have e: "(days + 719468) div 146097 = e" using assms(2) by simp
  have doe: "days + 719468 - e * 146097 = ?doe" using assms(2) by simp
  have d: "?doe - (365 * ?y + ?y div 4 - ?y div 100) = d"
    unfolding year_start [OF assms(1)] by (simp add: era_day_def)
  show ?thesis
    unfolding civil_from_days_def Let_def e doe era_year [OF assms(1) HOL.refl] d march_date_def
    by (simp add: ac_simps)
qed

lemma leap_parts:
  assumes "era_parts c q r d"
  shows "is_leap (400 * e + 100 * c + 4 * q + r + 1) \<longleftrightarrow> r = 3 \<and> (q < 24 \<or> c = 3)"
proof -
  let ?y = "400 * e + 100 * c + 4 * q + r + 1"
  have p: "c \<le> 3" "q \<le> 24" "r \<le> 3" using assms by (simp_all add: era_parts_def)
  have "?y = (r + 1) + 4 * (100 * e + 25 * c + q)" by simp
  then have "?y mod 4 = (r + 1) mod 4" by (metis mod_mult_self2)
  then have four: "?y mod 4 = 0 \<longleftrightarrow> r = 3" using p by (cases "r = 3") auto
  have "?y = (4 * q + r + 1) + 100 * (4 * e + c)" by simp
  then have y100: "?y mod 100 = (4 * q + r + 1) mod 100" by (metis mod_mult_self2)
  have "(4 * q + r + 1) mod 100 = 0 \<longleftrightarrow> 4 * q + r + 1 = 100"
    using p by (cases "4 * q + r + 1 = 100") simp_all
  also have "\<dots> \<longleftrightarrow> q = 24 \<and> r = 3" using p by linarith
  finally have hundred: "?y mod 100 = 0 \<longleftrightarrow> q = 24 \<and> r = 3" unfolding y100 .
  have "?y = (100 * c + 4 * q + r + 1) + 400 * e" by simp
  then have y400: "?y mod 400 = (100 * c + 4 * q + r + 1) mod 400" by (metis mod_mult_self2)
  have "(100 * c + 4 * q + r + 1) mod 400 = 0 \<longleftrightarrow> 100 * c + 4 * q + r + 1 = 400"
    using p by (cases "100 * c + 4 * q + r + 1 = 400") simp_all
  also have "\<dots> \<longleftrightarrow> c = 3 \<and> q = 24 \<and> r = 3" using p by linarith
  finally have "?y mod 400 = 0 \<longleftrightarrow> c = 3 \<and> q = 24 \<and> r = 3" unfolding y400 .
  with four hundred p show ?thesis unfolding is_leap_def by auto
qed

text \<open>The day after, inside a year and at its end.\<close>

lemma div_bounds: "0 < k \<Longrightarrow> n div k = a \<Longrightarrow> k * a \<le> n \<and> n < k * a + (k :: nat)"
  using dividend_less_times_div [of k n] by auto

lemma march_month:
  fixes d m :: nat
  shows "(5 * d + 2) div 153 = m \<longleftrightarrow> (153 * m + 2) div 5 \<le> d \<and> d < (153 * (m + 1) + 2) div 5"
proof -
  define a where "a = (153 * m + 2) div 5"
  define b where "b = (153 * (m + 1) + 2) div 5"
  have a: "5 * a \<le> 153 * m + 2" "153 * m + 2 < 5 * a + 5"
    using div_bounds [of 5 "153 * m + 2" a] a_def by simp_all
  have b: "5 * b \<le> 153 * (m + 1) + 2" "153 * (m + 1) + 2 < 5 * b + 5"
    using div_bounds [of 5 "153 * (m + 1) + 2" b] b_def by simp_all
  have "(5 * d + 2) div 153 = m \<longleftrightarrow> 153 * m \<le> 5 * d + 2 \<and> 5 * d + 2 < 153 * m + 153"
    using div_bounds [of 153 "5 * d + 2" m] by (auto intro!: div_nat_eqI)
  moreover have "a \<le> d \<longleftrightarrow> 153 * m \<le> 5 * d + 2" using a by linarith
  moreover have "5 * d + 2 < 153 * m + 153" if "d < b"
  proof -
    have "5 * d + 5 \<le> 5 * b" using that by simp
    then show ?thesis using b(1) by simp
  qed
  moreover have "d < b" if "5 * d + 2 < 153 * m + 153"
  proof -
    have "5 * d < 5 * b" using that b(2) by simp
    then show ?thesis by simp
  qed
  ultimately show ?thesis unfolding a_def b_def by blast
qed

lemma march_date_month:
  assumes "(5 * d + 2) div 153 = m" and "m < 12"
  shows "march_date y d = (y + (if m < 10 then 0 else 1), if m < 10 then m + 3 else m - 9,
    d - (153 * m + 2) div 5 + 1)"
  unfolding march_date_def Let_def assms(1) using assms(2) by auto

lemma march_next:
  assumes "d + 1 < 365 \<or> d + 1 = 365 \<and> is_leap (y + 1)"
  shows "next_day (march_date y d) = march_date y (d + 1)"
proof -
  define m where "m = (5 * d + 2) div 153"
  have m: "(153 * m + 2) div 5 \<le> d" "d < (153 * (m + 1) + 2) div 5"
    using march_month [of d m] by (simp_all add: m_def)
  have m12: "m < 12"
  proof (rule ccontr)
    assume "\<not> m < 12"
    then have "(153 * 12 + 2) div 5 \<le> (153 * m + 2) div 5" by (intro div_le_mono) simp
    then show False using m(1) assms by simp
  qed
  have len: "month_days (y + (if m < 10 then 0 else 1)) (if m < 10 then m + 3 else m - 9)
      = (153 * (m + 1) + 2) div 5 - (153 * m + 2) div 5" if "m < 11"
  proof -
    have "m = 0 \<or> m = 1 \<or> m = 2 \<or> m = 3 \<or> m = 4 \<or> m = 5 \<or> m = 6 \<or> m = 7 \<or> m = 8 \<or> m = 9 \<or> m = 10"
      using that by arith
    then show ?thesis by (elim disjE) (simp_all add: month_days_def)
  qed
  let ?y = "y + (if m < 10 then 0 else 1)" and ?month = "if m < 10 then m + 3 else m - 9"
  have today: "march_date y d = (?y, ?month, d - (153 * m + 2) div 5 + 1)"
    using m_def [symmetric] m12 by (rule march_date_month)
  show ?thesis
  proof (cases "d + 1 < (153 * (m + 1) + 2) div 5")
    case True
    then have "(5 * (d + 1) + 2) div 153 = m" using m(1) unfolding march_month by simp
    from march_date_month [OF this m12] have "march_date y (d + 1) = (?y, ?month, d + 1 - (153 * m + 2) div 5 + 1)" .
    moreover have "d - (153 * m + 2) div 5 + 1 < month_days ?y ?month"
    proof (cases "m = 11")
      case True
      then show ?thesis using assms m(1) by (auto simp: month_days_def)
    next
      case False
      have "d - lo + 1 < hi - lo" if "lo \<le> d" "d + 1 < hi" for lo hi using that by linarith
      with False show ?thesis using len m(1) m12 \<open>d + 1 < _\<close> by simp
    qed
    ultimately show ?thesis unfolding today using m(1) by simp
  next
    case False
    then have d: "d + 1 = (153 * (m + 1) + 2) div 5" using m by simp
    have "m < 11" using d assms m12 by (cases "m = 11") simp_all
    have "(153 * (m + 1) + 2) div 5 + 1 \<le> (153 * (m + 1 + 1) + 2) div 5"
      using div_le_mono [of "153 * (m + 1) + 2 + 5" "153 * (m + 1 + 1) + 2" 5] by simp
    then have "(5 * (d + 1) + 2) div 153 = m + 1" unfolding march_month d by simp
    from march_date_month [OF this] \<open>m < 11\<close> d
    have "march_date y (d + 1) = (y + (if m < 9 then 0 else 1), if m < 9 then m + 4 else m - 8, 1)" by simp
    moreover have "\<not> d - (153 * m + 2) div 5 + 1 < month_days ?y ?month"
      using len \<open>m < 11\<close> d m(1) by linarith
    moreover have "m < 9 \<or> m = 9 \<or> m = 10" using \<open>m < 11\<close> by linarith
    ultimately show ?thesis unfolding today by (elim disjE) simp_all
  qed
qed

lemma march_end:
  assumes "d = (if is_leap (y + 1) then 365 else 364)"
  shows "next_day (march_date y d) = march_date (y + 1) 0"
  using assms by (simp add: march_date_def Let_def month_days_def split: if_splits)

lemma parts_next:
  assumes "era_parts c q r d" and "n = 146097 * e + era_day c q r d"
  shows "\<exists>e' c' q' r' d'. era_parts c' q' r' d' \<and> n + 1 = 146097 * e' + era_day c' q' r' d' \<and>
    next_day (march_date (400 * e + 100 * c + 4 * q + r) d) = march_date (400 * e' + 100 * c' + 4 * q' + r') d'"
proof (cases "d + 1 < 365 \<or> d + 1 = 365 \<and> r = 3 \<and> (q < 24 \<or> c = 3)")
  case True
  then have "era_parts c q r (d + 1)" using assms(1) by (auto simp: era_parts_def)
  moreover have "n + 1 = 146097 * e + era_day c q r (d + 1)" using assms(2) by (simp add: era_day_def)
  ultimately show ?thesis using march_next True leap_parts [OF assms(1)] by blast
next
  case False
  have "\<exists>e' c' q' r'. era_parts c' q' r' 0 \<and> n + 1 = 146097 * e' + era_day c' q' r' 0 \<and>
      400 * e + 100 * c + 4 * q + r + 1 = 400 * e' + 100 * c' + 4 * q' + r'"
  proof -
    consider "r < 3" | "r = 3" "q < 24" | "r = 3" "q = 24" "c < 3" | "r = 3" "q = 24" "c = 3"
      using assms(1) unfolding era_parts_def by linarith
    then show ?thesis
    proof cases
      case 1 show ?thesis
        by (rule exI [of _ e], rule exI [of _ c], rule exI [of _ q], rule exI [of _ "r + 1"])
          (use 1 False assms in \<open>auto simp: era_parts_def era_day_def\<close>)
    next
      case 2 show ?thesis
        by (rule exI [of _ e], rule exI [of _ c], rule exI [of _ "q + 1"], rule exI [of _ 0])
          (use 2 False assms in \<open>auto simp: era_parts_def era_day_def\<close>)
    next
      case 3 show ?thesis
        by (rule exI [of _ e], rule exI [of _ "c + 1"], rule exI [of _ 0], rule exI [of _ 0])
          (use 3 False assms in \<open>auto simp: era_parts_def era_day_def\<close>)
    next
      case 4 show ?thesis
        by (rule exI [of _ "e + 1"], rule exI [of _ 0], rule exI [of _ 0], rule exI [of _ 0])
          (use 4 False assms in \<open>auto simp: era_parts_def era_day_def\<close>)
    qed
  qed
  moreover have "d = (if is_leap (400 * e + 100 * c + 4 * q + r + 1) then 365 else 364)"
    using False assms(1) unfolding leap_parts [OF assms(1)] by (auto simp: era_parts_def)
  ultimately show ?thesis using march_end by metis
qed

lemma civil_calendar:
  "\<exists>e c q r d. era_parts c q r d \<and> n + 719468 = 146097 * e + era_day c q r d \<and>
     calendar n = march_date (400 * e + 100 * c + 4 * q + r) d"
proof (induction n)
  case 0
  have "era_parts 3 17 1 306" "719468 = 146097 * 4 + era_day 3 17 1 306"
    "calendar 0 = march_date (400 * 4 + 100 * 3 + 4 * 17 + 1) 306"
    by (simp_all add: era_parts_def era_day_def calendar_def march_date_def)
  then show ?case by (metis add_0)
next
  case (Suc n)
  then obtain e c q r d where p: "era_parts c q r d" "n + 719468 = 146097 * e + era_day c q r d"
    and c: "calendar n = march_date (400 * e + 100 * c + 4 * q + r) d" by blast
  have "calendar (Suc n) = next_day (march_date (400 * e + 100 * c + 4 * q + r) d)"
    using c by (simp add: calendar_def)
  then show ?case using parts_next [OF p] by (metis add_Suc Suc_eq_plus1)
qed

lemma civil_from_days_calendar: "civil_from_days days = calendar days"
  using civil_calendar [of days] civil_parts by metis

text \<open>No subtraction of \<open>civil_from_days\<close> goes below zero.\<close>

lemma civil_from_days_subtractions:
  fixes days :: nat
  assumes "doe = (days + 719468) mod 146097"
    and "yoe = (doe - doe div 1460 + doe div 36524 - doe div 146096) div 365"
    and "doy = doe - (365 * yoe + yoe div 4 - yoe div 100)"
  shows "doe div 146096 \<le> doe - doe div 1460 + doe div 36524 \<and> yoe div 100 \<le> 365 * yoe + yoe div 4 \<and>
    365 * yoe + yoe div 4 - yoe div 100 \<le> doe \<and> (153 * ((5 * doy + 2) div 153) + 2) div 5 \<le> doy"
proof -
  obtain e c q r d where p: "era_parts c q r d" and n: "days + 719468 = 146097 * e + era_day c q r d"
    using civil_calendar [of days] by blast
  have "era_day c q r d < 146097" using p by (auto simp: era_parts_def era_day_def)
  then have doe: "doe = era_day c q r d" using assms(1) n by simp
  have yoe: "yoe = 100 * c + 4 * q + r" unfolding assms(2) by (rule era_year [OF p doe])
  have "365 * yoe + yoe div 4 - yoe div 100 \<le> doe"
    unfolding yoe year_start [OF p] doe by (simp add: era_day_def)
  moreover have "yoe div 100 \<le> yoe" by simp
  then have "yoe div 100 \<le> 365 * yoe + yoe div 4" by linarith
  moreover have "doe div 146096 \<le> doe div 36524" by (rule div_le_mono2) simp_all
  then have "doe div 146096 \<le> doe - doe div 1460 + doe div 36524" by linarith
  moreover have "(153 * ((5 * doy + 2) div 153) + 2) div 5 \<le> doy" using march_month [of doy] by blast
  ultimately show ?thesis by blast
qed

section \<open>Properties\<close>

text \<open>
  \<open>iso_from_ms\<close> writes the Gregorian calendar date and the time of day of an instant: the
  closed formula of \<open>civil_from_days\<close> agrees, for every day from 1970-01-01 on, with counting
  day by day through months and leap years, and the time fields are the remainders of the
  instant.
\<close>

theorem iso_from_ms_is_calendar_time:
  assumes "hour < 24" and "minute < 60" and "second < 60" and "millis < 1000"
  shows "iso_from_ms ((((days * 24 + hour) * 60 + minute) * 60 + second) * 1000 + millis) =
    (case calendar days of (year, month, day) \<Rightarrow>
       pad 4 year @ ''-'' @ pad 2 month @ ''-'' @ pad 2 day @ ''T'' @ pad 2 hour @ '':'' @
       pad 2 minute @ '':'' @ pad 2 second @ ''.'' @ pad 3 millis @ ''Z'')"
proof -
  let ?ms = "(((days * 24 + hour) * 60 + minute) * 60 + second) * 1000 + millis"
  note s = mixed_radix [OF assms(4), of "((days * 24 + hour) * 60 + minute) * 60 + second"]
  note m = mixed_radix [OF assms(3), of "(days * 24 + hour) * 60 + minute"]
  note h = mixed_radix [OF assms(2), of "days * 24 + hour"]
  have t: "n div 3600 = n div 60 div 60" "n div 86400 = n div 60 div 60 div 24" for n :: nat
    by (simp_all add: div_mult2_eq [symmetric])
  note d = mixed_radix [OF assms(1), of days]
  show ?thesis
    unfolding iso_from_ms_def Let_def s t m h d civil_from_days_calendar ..
qed

theorem iso_from_ms_is_calendar_time_witness:
  "iso_from_ms 86399999 = ''1970-01-01T23:59:59.999Z''"
proof -
  have p: "pad 4 1970 = ''1970''" "pad 2 (Suc 0) = ''01''" "pad 2 23 = ''23''" "pad 2 59 = ''59''" "pad 3 999 = ''999''"
    by (simp_all add: pad_def show_nat.simps char_of_def bit_Suc_0_iff)
  show ?thesis
    using iso_from_ms_is_calendar_time [of 23 59 59 999 0] by (simp add: calendar_def p)
qed

end
