(* ===== verification/Identity.thy ===== *)
theory Identity
  imports Canonical
begin

text \<open>
  Request identities, fingerprints and digests
  (\<^verbatim>\<open>src/crates/policysql-transaction/src/identity.rs\<close>). SHA-256 is a parameter \<open>sha\<close> that maps the
  bytes of a text to its 64 lowercase hex digits; \<open>rd\<close> and \<open>sf\<close> are the reader and the number
  printer of \<open>Canonical\<close>. A result is \<open>Inl\<close> the \<open>IdentityError\<close> or \<open>Inr\<close> the value.
\<close>

datatype identity_error = KeyInvalid | IdInternal

type_synonym 'a ident = "identity_error + 'a"

section \<open>Checks on the inputs\<close>

definition valid_idempotency_key :: "string \<Rightarrow> bool" where
  "valid_idempotency_key key =
     (16 \<le> length key \<and> length key \<le> 128 \<and>
      list_all (\<lambda>c. is_ascii_alphanumeric c \<or> c \<in> set ''._:-+/='') key)"

fun exact_keys :: "json \<Rightarrow> string list \<Rightarrow> string list \<Rightarrow> bool" where
  "exact_keys (JObject members) required optional =
     (list_all (\<lambda>(name, _). name \<in> set required \<or> name \<in> set optional) members \<and>
      list_all (\<lambda>key. json_get key (JObject members) \<noteq> None) required)"
| "exact_keys _ required optional = False"

definition id_text :: "json option \<Rightarrow> string ident" where
  "id_text v = (case v of None \<Rightarrow> Inl IdInternal
     | Some j \<Rightarrow> (case as_text j of None \<Rightarrow> Inl IdInternal | Some t \<Rightarrow> Inr t))"

definition valid_transaction_id :: "string \<Rightarrow> bool" where
  "valid_transaction_id value =
     is_some_and (\<lambda>hex. length hex = 32 \<and> list_all is_hex_lower hex) (strip_prefix ''tx_'' value)"

definition opt_is_string :: "json option \<Rightarrow> bool" where
  "opt_is_string v = is_some_and is_string v"

record auth_fields =
  af_principal :: json
  af_subject :: json
  af_role :: json
  af_session :: json

definition string_list_or_absent :: "json option \<Rightarrow> bool" where
  "string_list_or_absent v = (case v of
       None \<Rightarrow> True
     | Some (JArray items) \<Rightarrow> list_all is_string items
     | Some _ \<Rightarrow> False)"

definition auth_read :: "json option \<Rightarrow> auth_fields ident" where
  "auth_read v = (case v of None \<Rightarrow> Inl IdInternal | Some value \<Rightarrow>
     if \<not> exact_keys value [''principal'', ''subject'', ''role'', ''session''] [''roles'', ''access'']
     then Inl IdInternal
     else if \<not> (string_list_or_absent (json_get ''roles'' value) \<and>
                string_list_or_absent (json_get ''access'' value)) then Inl IdInternal
     else (case (json_get ''principal'' value, json_get ''subject'' value, json_get ''role'' value,
                 json_get ''session'' value) of
             (Some p, Some s, Some r, Some (JObject entries)) \<Rightarrow>
               if is_string p \<and> is_string s \<and> is_string r \<and> list_all (\<lambda>(_, item). is_string item) entries
               then Inr \<lparr>af_principal = p, af_subject = s, af_role = r, af_session = JObject entries\<rparr>
               else Inl IdInternal
           | _ \<Rightarrow> Inl IdInternal))"

text \<open>\<open>version.as_f64() == Some(1.0)\<close>.\<close>

fun number_is_one :: "number \<Rightarrow> bool" where
  "number_is_one (PosInt n) = (n = 1)"
| "number_is_one (NegInt i) = False"
| "number_is_one (Float v) = (v = F_fin 1)"

definition id_binding :: "json option \<Rightarrow> json ident" where
  "id_binding v = (case v of None \<Rightarrow> Inl IdInternal | Some value \<Rightarrow>
     if \<not> exact_keys value [''version'', ''scope'', ''databaseId'', ''generation'', ''snapshot''] []
     then Inl IdInternal
     else (case json_get ''version'' value of
         Some (JNumber n) \<Rightarrow>
           if number_is_one n \<and>
              list_all (\<lambda>part. opt_is_string (json_get part value))
                [''scope'', ''databaseId'', ''generation'', ''snapshot'']
           then Inr value else Inl IdInternal
       | _ \<Rightarrow> Inl IdInternal))"

fun without_snapshot :: "json \<Rightarrow> json ident" where
  "without_snapshot (JObject parts) = Inr (JObject (filter (\<lambda>(name, _). name \<noteq> ''snapshot'') parts))"
| "without_snapshot _ = Inl IdInternal"

definition id_body :: "(string \<Rightarrow> json option) \<Rightarrow> json option \<Rightarrow> json ident" where
  "id_body rd v = (case id_text v of Inl e \<Rightarrow> Inl e
     | Inr t \<Rightarrow> (case canonical_parse rd t of None \<Rightarrow> Inl IdInternal | Some j \<Rightarrow> Inr j))"

section \<open>The hashed texts\<close>

text \<open>The JSON value whose canonical text each identity hashes.\<close>

definition auth_value :: "auth_fields \<Rightarrow> json \<Rightarrow> json" where
  "auth_value a binding = JObject
     [(''principal'', af_principal a), (''subject'', af_subject a), (''role'', af_role a),
      (''session'', af_session a), (''databaseBinding'', binding)]"

definition replay_value :: "auth_fields \<Rightarrow> json \<Rightarrow> json" where
  "replay_value a database = JObject
     [(''replay'', JString ''v1''), (''principal'', af_principal a), (''subject'', af_subject a),
      (''role'', af_role a), (''session'', af_session a), (''database'', database)]"

definition auth_fingerprint ::
  "(string \<Rightarrow> string) \<Rightarrow> (f64 \<Rightarrow> string) \<Rightarrow> json \<Rightarrow> json \<Rightarrow> string ident" where
  "auth_fingerprint sha sf auth binding_value =
     (case auth_read (Some auth) of Inl e \<Rightarrow> Inl e
      | Inr a \<Rightarrow> (case id_binding (Some binding_value) of Inl e \<Rightarrow> Inl e
          | Inr binding \<Rightarrow> Inr (sha (to_canonical sf (auth_value a binding)))))"

definition replay_identity ::
  "(string \<Rightarrow> string) \<Rightarrow> (f64 \<Rightarrow> string) \<Rightarrow> json \<Rightarrow> json \<Rightarrow> string ident" where
  "replay_identity sha sf auth binding_value =
     (case auth_read (Some auth) of Inl e \<Rightarrow> Inl e
      | Inr a \<Rightarrow> (case id_binding (Some binding_value) of Inl e \<Rightarrow> Inl e
          | Inr binding \<Rightarrow> (case without_snapshot binding of Inl e \<Rightarrow> Inl e
              | Inr database \<Rightarrow> Inr (sha (to_canonical sf (replay_value a database))))))"

definition command_value :: "string \<Rightarrow> json \<Rightarrow> json" where
  "command_value kind command = JObject [(''kind'', JString kind), (''command'', command)]"

definition command_digest ::
  "(string \<Rightarrow> string) \<Rightarrow> (f64 \<Rightarrow> string) \<Rightarrow> string \<Rightarrow> json \<Rightarrow> string" where
  "command_digest sha sf kind command = sha (to_canonical sf (command_value kind command))"

definition callback_digest :: "(string \<Rightarrow> string) \<Rightarrow> (f64 \<Rightarrow> string) \<Rightarrow> json \<Rightarrow> string" where
  "callback_digest sha sf command = sha (to_canonical sf command)"

definition start_value :: "string \<Rightarrow> json \<Rightarrow> json" where
  "start_value transaction_id body =
     JObject [(''transactionId'', JString transaction_id), (''request'', body)]"

text \<open>The identity of a keyed request: who asks for what endpoint of which database.\<close>

definition request_value :: "auth_fields \<Rightarrow> string \<Rightarrow> json \<Rightarrow> json \<Rightarrow> json" where
  "request_value a endpoint scope database_id = JObject
     [(''principal'', af_principal a), (''subject'', af_subject a), (''role'', af_role a),
      (''session'', af_session a), (''endpoint'', JString endpoint),
      (''database'', JObject [(''scope'', scope), (''databaseId'', database_id)])]"

definition key_text :: "(f64 \<Rightarrow> string) \<Rightarrow> json \<Rightarrow> string \<Rightarrow> string" where
  "key_text sf identity key = to_canonical sf identity @ '':'' @ key"

definition fingerprint_text :: "(f64 \<Rightarrow> string) \<Rightarrow> json \<Rightarrow> json \<Rightarrow> json \<Rightarrow> string" where
  "fingerprint_text sf identity body database =
     to_canonical sf identity @ '':'' @ to_canonical sf body @ '':'' @ to_canonical sf database"

section \<open>The operations\<close>

text \<open>What \<open>identity_json\<close> answers: no identity, a key hash with a fingerprint, one fingerprint,
  or one digest.\<close>

datatype identity_output =
    NoIdempotency
  | WithIdempotency string string
  | Fingerprint string
  | Digest string

definition identity_request ::
  "(string \<Rightarrow> string) \<Rightarrow> (f64 \<Rightarrow> string) \<Rightarrow> (string \<Rightarrow> json option) \<Rightarrow> json \<Rightarrow> identity_output ident" where
  "identity_request sha sf rd input =
     (if \<not> exact_keys input [''op'', ''endpoint'', ''auth'', ''binding'', ''body''] [''key'']
      then Inl IdInternal
      else case id_text (json_get ''endpoint'' input) of Inl e \<Rightarrow> Inl e | Inr endpoint \<Rightarrow>
      if endpoint \<notin> {''execute'', ''interactive-start''} then Inl IdInternal
      else case auth_read (json_get ''auth'' input) of Inl e \<Rightarrow> Inl e | Inr a \<Rightarrow>
      case id_binding (json_get ''binding'' input) of Inl e \<Rightarrow> Inl e | Inr binding \<Rightarrow>
      case id_body rd (json_get ''body'' input) of Inl e \<Rightarrow> Inl e | Inr body \<Rightarrow>
      case json_get ''key'' input of None \<Rightarrow> Inr NoIdempotency | Some key \<Rightarrow>
      case as_text key of None \<Rightarrow> Inl KeyInvalid | Some key \<Rightarrow>
      if \<not> valid_idempotency_key key then Inl KeyInvalid
      else case json_get ''scope'' binding of None \<Rightarrow> Inl IdInternal | Some scope \<Rightarrow>
      case json_get ''databaseId'' binding of None \<Rightarrow> Inl IdInternal | Some database_id \<Rightarrow>
      case without_snapshot binding of Inl e \<Rightarrow> Inl e | Inr database \<Rightarrow>
        let identity = request_value a endpoint scope database_id
        in Inr (WithIdempotency (sha (key_text sf identity key))
                                (sha (fingerprint_text sf identity body database))))"

definition COMMAND_ENVELOPE_DEPTH :: nat where "COMMAND_ENVELOPE_DEPTH = 1"

definition identity_compute ::
  "(string \<Rightarrow> string) \<Rightarrow> (f64 \<Rightarrow> string) \<Rightarrow> (string \<Rightarrow> json option) \<Rightarrow> string \<Rightarrow> nat
     \<Rightarrow> identity_output ident" where
  "identity_compute sha sf rd text max_input_bytes =
     (if length text > max_input_bytes then Inl IdInternal
      else case parse_with_max_depth rd text (MAX_DEPTH + COMMAND_ENVELOPE_DEPTH) of
        None \<Rightarrow> Inl IdInternal | Some input \<Rightarrow>
      case id_text (json_get ''op'' input) of Inl e \<Rightarrow> Inl e | Inr op \<Rightarrow>
      if op = ''request'' then identity_request sha sf rd input
      else if op = ''auth'' then
        (if \<not> exact_keys input [''op'', ''auth'', ''binding''] [] then Inl IdInternal
         else case auth_read (json_get ''auth'' input) of Inl e \<Rightarrow> Inl e | Inr a \<Rightarrow>
         case id_binding (json_get ''binding'' input) of Inl e \<Rightarrow> Inl e | Inr binding \<Rightarrow>
           Inr (Fingerprint (sha (to_canonical sf (auth_value a binding)))))
      else if op = ''start'' then
        (if \<not> exact_keys input [''op'', ''transactionId'', ''body''] [] then Inl IdInternal
         else case id_text (json_get ''transactionId'' input) of Inl e \<Rightarrow> Inl e | Inr transaction_id \<Rightarrow>
         if \<not> valid_transaction_id transaction_id then Inl IdInternal
         else case id_body rd (json_get ''body'' input) of Inl e \<Rightarrow> Inl e | Inr body \<Rightarrow>
           Inr (Digest (sha (to_canonical sf (start_value transaction_id body)))))
      else if op = ''command'' then
        (if \<not> exact_keys input [''op'', ''kind'', ''command''] [] then Inl IdInternal
         else case id_text (json_get ''kind'' input) of Inl e \<Rightarrow> Inl e | Inr kind \<Rightarrow>
         if kind \<notin> {''statement'', ''commit'', ''rollback''} then Inl IdInternal
         else case json_get ''command'' input of None \<Rightarrow> Inl IdInternal | Some command \<Rightarrow>
           Inr (Digest (command_digest sha sf kind command)))
      else if op = ''callback'' then
        (if \<not> exact_keys input [''op'', ''command''] [] then Inl IdInternal
         else case json_get ''command'' input of None \<Rightarrow> Inl IdInternal | Some command \<Rightarrow>
           Inr (Digest (callback_digest sha sf command)))
      else Inl IdInternal)"

section \<open>Lemmas\<close>

lemma filter_mset_members: "mset ms = mset ns \<Longrightarrow> mset (filter P ms) = mset (filter P ns)"
  by (metis mset_filter)

lemma sort_by_distinct_keys:
  "distinct (map fst ms) \<Longrightarrow> sorted (map fst (sort_members ms)) \<and> distinct (map fst (sort_members ms))"
  unfolding sort_members_def by (simp add: distinct_map)

lemma command_value_shape:
  "shape_of sf (command_value kind c) = shape_of sf (command_value kind' c')
     \<longleftrightarrow> kind = kind' \<and> shape_of sf c = shape_of sf c'"
  by (auto simp: command_value_def sort_members_def)

text \<open>A keyed \<open>request\<close> input with its members in the order the engine lists them.\<close>

definition keyed_request :: "json \<Rightarrow> json \<Rightarrow> json \<Rightarrow> json \<Rightarrow> json \<Rightarrow> json \<Rightarrow> json" where
  "keyed_request op endpoint auth binding body key = JObject
     [(''op'', op), (''endpoint'', endpoint), (''auth'', auth), (''binding'', binding),
      (''body'', body), (''key'', key)]"

definition sample_binding :: "string \<Rightarrow> json" where
  "sample_binding snapshot = JObject
     [(''version'', JNumber (PosInt 1)), (''scope'', JString ''s''), (''databaseId'', JString ''d''),
      (''generation'', JString ''g''), (''snapshot'', JString snapshot)]"

lemma json_get_without_snapshot:
  assumes "filter (\<lambda>(name, _). name \<noteq> ''snapshot'') ps = filter (\<lambda>(name, _). name \<noteq> ''snapshot'') qs"
    and "part \<noteq> ''snapshot''"
  shows "json_get part (JObject ps) = json_get part (JObject qs)"
proof -
  have "find (\<lambda>(name, _). name = part) xs
      = find (\<lambda>(name, _). name = part) (filter (\<lambda>(name, _). name \<noteq> ''snapshot'') xs)"
    for xs :: "(string \<times> json) list"
    using assms(2) by (induction xs) auto
  then show ?thesis using assms(1) by (metis json_get.simps(1))
qed

text \<open>A keyed request reads its binding only through the check, two parts and the snapshot-free
  form.\<close>

lemma identity_request_binding:
  assumes "id_binding (Some bp) = Inr bp" "id_binding (Some bq) = Inr bq"
    and "json_get ''scope'' bp = json_get ''scope'' bq"
    and "json_get ''databaseId'' bp = json_get ''databaseId'' bq"
    and "without_snapshot bp = without_snapshot bq"
  shows "identity_request sha sf rd (keyed_request op e auth bp t k)
           = identity_request sha sf rd (keyed_request op e auth bq t k)"
  by (simp add: identity_request_def keyed_request_def assms split: sum.split option.split)

section \<open>Properties\<close>

text \<open>
  A command's digest is taken from a text that determines the command: two commands are
  hashed from the same text exactly when they are of the same kind and agree in structure and
  values, so an exact retry is recognised and no other command is taken for it (up to a
  collision of the hash).
\<close>

theorem command_text_determines_command:
  assumes "\<And>v. number_text (sf v)"
  shows "to_canonical sf (command_value kind c) = to_canonical sf (command_value kind' c')
           \<longleftrightarrow> kind = kind' \<and> shape_of sf c = shape_of sf c'"
proof -
  have inj: "to_canonical sf x = to_canonical sf y \<longleftrightarrow> shape_of sf x = shape_of sf y" for x y
    by (rule to_canonical_shape_iff) (rule assms)
  show ?thesis by (simp only: inj command_value_shape)
qed

theorem command_text_determines_command_witness:
  "to_canonical (\<lambda>_. ''0'') (command_value ''commit'' (JObject [(''sequence'', JNumber (PosInt 1))]))
     \<noteq> to_canonical (\<lambda>_. ''0'') (command_value ''rollback'' (JObject [(''sequence'', JNumber (PosInt 1))]))"
proof -
  have "number_text ''0''" by (simp add: number_text_def number_char_def is_ascii_digit_def byte_def)
  from command_text_determines_command [OF this] show ?thesis by simp
qed


text \<open>
  A keyed request's fingerprint is taken from a text that determines the caller, the
  endpoint, the database, the body and the binding without its snapshot: two requests are
  hashed from the same text exactly when all of them agree, so a key reused for anything else
  is a conflict and never a replay.
\<close>

theorem fingerprint_text_determines_request:
  assumes "\<And>v. number_text (sf v)"
  shows "fingerprint_text sf i b d = fingerprint_text sf i' b' d' \<longleftrightarrow>
           shape_of sf i = shape_of sf i' \<and> shape_of sf b = shape_of sf b' \<and> shape_of sf d = shape_of sf d'"
proof
  assume eq: "fingerprint_text sf i b d = fingerprint_text sf i' b' d'"
  have colon: "sep ('':'' @ r)" for r by (simp add: sep_def)
  from eq have "to_canonical sf i @ ('':'' @ to_canonical sf b @ '':'' @ to_canonical sf d)
      = to_canonical sf i' @ ('':'' @ to_canonical sf b' @ '':'' @ to_canonical sf d')"
    by (simp add: fingerprint_text_def)
  from to_canonical_prefix_unique [OF assms colon colon this]
  have i: "shape_of sf i = shape_of sf i'" and
    bd: "to_canonical sf b @ ('':'' @ to_canonical sf d) = to_canonical sf b' @ ('':'' @ to_canonical sf d')"
    by auto
  from to_canonical_prefix_unique [OF assms colon colon bd] i to_canonical_shape_iff [OF assms]
  show "shape_of sf i = shape_of sf i' \<and> shape_of sf b = shape_of sf b' \<and> shape_of sf d = shape_of sf d'"
    by simp
next
  assume "shape_of sf i = shape_of sf i' \<and> shape_of sf b = shape_of sf b' \<and> shape_of sf d = shape_of sf d'"
  then show "fingerprint_text sf i b d = fingerprint_text sf i' b' d'"
    by (simp add: fingerprint_text_def to_canonical_def write_value_shape)
qed

theorem fingerprint_text_determines_request_witness:
  "fingerprint_text (\<lambda>_. ''0'') JNull (JString ''a'') JNull
     \<noteq> fingerprint_text (\<lambda>_. ''0'') JNull (JString ''b'') JNull"
proof -
  have "number_text ''0''" by (simp add: number_text_def number_char_def is_ascii_digit_def byte_def)
  from fingerprint_text_determines_request [OF this] show ?thesis by simp
qed

text \<open>
  A deployment that changes only the snapshot of the binding changes neither the replay
  identity nor the key hash and fingerprint of a keyed request: retries are recognised across
  deployments.
\<close>

theorem identities_ignore_snapshot:
  assumes "id_binding (Some (JObject ps)) = Inr (JObject ps)"
    and "id_binding (Some (JObject qs)) = Inr (JObject qs)"
    and "filter (\<lambda>(name, _). name \<noteq> ''snapshot'') ps = filter (\<lambda>(name, _). name \<noteq> ''snapshot'') qs"
  shows "replay_identity sha sf auth (JObject ps) = replay_identity sha sf auth (JObject qs) \<and>
         identity_request sha sf rd (keyed_request op e auth (JObject ps) t k)
           = identity_request sha sf rd (keyed_request op e auth (JObject qs) t k)"
proof (rule conjI)
  have wo: "without_snapshot (JObject ps) = without_snapshot (JObject qs)" using assms(3) by simp
  show "replay_identity sha sf auth (JObject ps) = replay_identity sha sf auth (JObject qs)"
    by (simp only: replay_identity_def assms(1,2) wo sum.case)
  show "identity_request sha sf rd (keyed_request op e auth (JObject ps) t k)
           = identity_request sha sf rd (keyed_request op e auth (JObject qs) t k)"
    by (rule identity_request_binding)
      (use assms wo json_get_without_snapshot [OF assms(3)] in simp_all)
qed

theorem identities_ignore_snapshot_witness:
  "replay_identity (\<lambda>t. t) (\<lambda>_. ''0'') JNull (sample_binding ''v1'')
     = replay_identity (\<lambda>t. t) (\<lambda>_. ''0'') JNull (sample_binding ''v2'') \<and>
   identity_request (\<lambda>t. t) (\<lambda>_. ''0'') (\<lambda>_. None) (keyed_request JNull JNull JNull (sample_binding ''v1'') JNull JNull)
     = identity_request (\<lambda>t. t) (\<lambda>_. ''0'') (\<lambda>_. None) (keyed_request JNull JNull JNull (sample_binding ''v2'') JNull JNull)"
proof -
  have ok: "id_binding (Some (sample_binding v)) = Inr (sample_binding v)" for v
    by (simp add: id_binding_def sample_binding_def opt_is_string_def)
  show ?thesis
    using identities_ignore_snapshot [OF ok [unfolded sample_binding_def] ok [unfolded sample_binding_def],
        of "''v1''" "''v2''"]
    unfolding sample_binding_def by simp
qed

end
