(* ===== verification/Tx_Step.thy ===== *)
theory Tx_Step
  imports Tx_Io Iso_Time Identity
begin

text \<open>
  The plumbing of the step machine
  (\<^verbatim>\<open>src/crates/policysql-transaction/src/machine/step.rs\<close>): the state of one step, the awaited
  effect and its bookkeeping, replies and logs, the release of plan handles, the fail-closed
  paths (\<open>abandon\<close>, \<open>fail_closed\<close>, \<open>discard\<close>, \<open>close\<close>) and the checks on what a step leaves.

  The immutable fields of \<open>Step\<close> are the context \<open>'c ctx\<close>; the mutable ones are the record \<open>'c st\<close>,
  with the compiler's own state. A method that returns \<open>Result<()>\<close> gives \<open>Done\<close> or \<open>Fault\<close>, both
  with the state as it was left, because \<open>run_dispatch\<close> restores only some of its fields.
\<close>

record 'c st =
  s_compiler :: 'c
  s_durable :: "durable option"
  s_volatile :: "volatile option"
  s_effects :: "effect list"
  s_reset :: bool
  s_request :: "string option"
  s_allocated :: "nat list"
  s_abandoned :: bool

datatype 'c res = Done "'c st" | Fault string "'c st"

text \<open>The \<open>?\<close> operator between two methods that change the state.\<close>

fun and_then :: "'c res \<Rightarrow> ('c st \<Rightarrow> 'c res) \<Rightarrow> 'c res" where
  "and_then (Done s) f = f s"
| "and_then (Fault reason s) f = Fault reason s"

fun res_state :: "'c res \<Rightarrow> 'c st" where
  "res_state (Done s) = s"
| "res_state (Fault reason s) = s"

section \<open>Access\<close>

definition on_owner :: "'c ctx \<Rightarrow> bool" where
  "on_owner x = (x_owner x \<noteq> [])"

definition record_of :: "'c st \<Rightarrow> tx_record option" where
  "record_of s = (case s_durable s of Some (Live r) \<Rightarrow> Some r | _ \<Rightarrow> None)"

text \<open>\<open>seed_id\<close>: a fresh volatile part numbers its effects from entropy.\<close>

definition seed_id :: "'c ctx \<Rightarrow> nat" where
  "seed_id x = max 1 (entropy_u64 (x_host x) 0 mod 2 ^ 48)"

definition fresh_volatile :: "'c ctx \<Rightarrow> volatile" where
  "fresh_volatile x = \<lparr>v_v = TX_STATE_VERSION,
     v_owner = (if x_owner x = [] then None else Some (x_owner x)),
     v_next_effect_id = seed_id x, v_connection = Conn_None, v_handles = [], v_pending = None,
     v_work = None, v_rollback_requested = False, v_callback = None, v_capability = None,
     v_deferred = None, v_revoked_validator = None, v_atomic = None\<rparr>"

definition volatile_of :: "'c ctx \<Rightarrow> 'c st \<Rightarrow> volatile" where
  "volatile_of x s = (case s_volatile s of Some v \<Rightarrow> v | None \<Rightarrow> fresh_volatile x)"

text \<open>An assignment through \<open>volatile_mut\<close>, and one under \<open>if let Some(volatile)\<close>.\<close>

definition volatile_mut :: "'c ctx \<Rightarrow> (volatile \<Rightarrow> volatile) \<Rightarrow> 'c st \<Rightarrow> 'c st" where
  "volatile_mut x f s = s\<lparr>s_volatile := Some (f (volatile_of x s))\<rparr>"

definition on_volatile :: "(volatile \<Rightarrow> volatile) \<Rightarrow> 'c st \<Rightarrow> 'c st" where
  "on_volatile f s = s\<lparr>s_volatile := map_option f (s_volatile s)\<rparr>"

definition volatile_is :: "(volatile \<Rightarrow> bool) \<Rightarrow> 'c st \<Rightarrow> bool" where
  "volatile_is p s = is_some_and p (s_volatile s)"

definition connection_of :: "'c st \<Rightarrow> connection" where
  "connection_of s = (case s_volatile s of None \<Rightarrow> Conn_None | Some v \<Rightarrow> v_connection v)"

definition set_connection :: "'c ctx \<Rightarrow> connection \<Rightarrow> 'c st \<Rightarrow> 'c st" where
  "set_connection x c = volatile_mut x (\<lambda>v. v\<lparr>v_connection := c\<rparr>)"

definition work_of :: "'c st \<Rightarrow> work option" where
  "work_of s = Option.bind (s_volatile s) v_work"

definition rollback_requested :: "'c st \<Rightarrow> bool" where
  "rollback_requested s = volatile_is v_rollback_requested s"

definition request_id :: "'c ctx \<Rightarrow> string" where
  "request_id x = h_request_id (x_host x)"

definition now_ms :: "'c ctx \<Rightarrow> nat" where
  "now_ms x = h_now_ms (x_host x)"

definition snapshot_of :: "'c ctx \<Rightarrow> string" where
  "snapshot_of x = c_snapshot (x_compiler x)"

section \<open>Effects\<close>

definition push :: "effect \<Rightarrow> 'c st \<Rightarrow> 'c st" where
  "push e s = s\<lparr>s_effects := s_effects s @ [e]\<rparr>"

definition wait :: "'c ctx \<Rightarrow> work_lane \<Rightarrow> string option \<Rightarrow> task \<Rightarrow> (nat \<Rightarrow> effect) \<Rightarrow> 'c st \<Rightarrow> 'c res" where
  "wait x lane rid task effect s =
     (let v = volatile_of x s; i = v_next_effect_id v
      in if i \<ge> MAX_SAFE_INTEGER then Fault ''effect_ids'' (s\<lparr>s_volatile := Some v\<rparr>)
         else Done (push (effect i) (s\<lparr>s_volatile := Some (v\<lparr>
                v_next_effect_id := i + 1,
                v_pending := Some \<lparr>pn_id = i, pn_effect = awaited_by task\<rparr>,
                v_work := Some \<lparr>wk_lane = lane, wk_request_id = rid, wk_task = task\<rparr>\<rparr>)\<rparr>)))"

definition respond :: "raw \<Rightarrow> 'c st \<Rightarrow> 'c st" where
  "respond reply = push (Respond Lane_Client reply)"

definition respond_callback :: "raw \<Rightarrow> 'c st \<Rightarrow> 'c st" where
  "respond_callback reply = push (Respond Lane_Callback reply)"

definition log_value :: "'c ctx \<Rightarrow> json \<Rightarrow> 'c st \<Rightarrow> 'c st" where
  "log_value x value = push (Log (to_raw (x_serde x) (DVal value)))"

text \<open>\<open>self.respond(error_reply(code))\<close>.\<close>

definition respond_error :: "'c ctx \<Rightarrow> code \<Rightarrow> 'c st \<Rightarrow> 'c st" where
  "respond_error x c = respond (error_reply (x_serde x) c)"

record failure_detail =
  fd_statement :: "nat option"
  fd_database_code :: "string option"
  fd_cause :: "string option"
  fd_versions :: "versions option"

definition safe_database_code :: "string \<Rightarrow> bool" where
  "safe_database_code c = (length c \<le> 64 \<and> c \<noteq> [] \<and>
     list_all (\<lambda>b. is_ascii_uppercase b \<or> is_ascii_digit b \<or> b = CHR ''_'') c)"

text \<open>The reply of a failed execution, with the records it logs.\<close>

definition log_database_code :: "'c ctx \<Rightarrow> err_class \<Rightarrow> failure_detail \<Rightarrow> 'c st \<Rightarrow> 'c st" where
  "log_database_code x class detail s =
     (if class \<in> {Unavailable, Unknown} then
        (case fd_database_code detail of None \<Rightarrow> s
         | Some database_code \<Rightarrow> log_value x (json_obj
             [(''event'', JString ''database_error_unclassified''),
              (''requestId'', jopt JString (s_request s)),
              (''code'', JString (if safe_database_code database_code then database_code else ''UNKNOWN''))]) s)
      else s)"

definition execute_failed_reply :: "'c ctx \<Rightarrow> code \<Rightarrow> err_class \<Rightarrow> failure_detail \<Rightarrow> 'c st \<Rightarrow> raw \<times> 'c st" where
  "execute_failed_reply x code class detail s =
     (let s = log_database_code x class detail s
      in if code = C_SqlTooComplex then
           (let index = unwrap_or 0 (opt_filter (\<lambda>i. i < lim_max_statements (x_limits x)) (fd_statement detail));
                cause = unwrap_or ''database'' (opt_filter (\<lambda>c. c \<in> set COMPLEXITY_CAUSES) (fd_cause detail));
                schema = map_option vs_schema (fd_versions detail);
                policy = map_option vs_policy (fd_versions detail)
            in (error_reply_at (x_serde x) code index,
                log_value x (json_obj
                  [(''event'', JString ''sql_too_complex''),
                   (''requestId'', jopt JString (s_request s)),
                   (''statementIndex'', jnat index),
                   (''schemaVersion'', jopt JString schema),
                   (''policyVersion'', jopt JString policy),
                   (''cause'', JString cause)]) s))
         else (error_reply (x_serde x) code, s))"

definition statement_budget :: "'c ctx \<Rightarrow> nat \<Rightarrow> 'c st \<Rightarrow> string + result_budget" where
  "statement_budget x handle s =
     (case c_raw_result_bound (x_compiler x) (s_compiler s) handle of
        Inl _ \<Rightarrow> Inl ''plan''
      | Inr raw_bytes \<Rightarrow> Inr \<lparr>rb_raw_bytes = raw_bytes, rb_values = lim_max_json_values (x_limits x),
                            rb_result_bytes = u64_max\<rparr>)"

definition log_core_error :: "'c ctx \<Rightarrow> core_error \<Rightarrow> 'c st \<Rightarrow> 'c st" where
  "log_core_error x e s =
     (case ce_log e of
        Some (JObject fs) \<Rightarrow>
          log_value x (JObject (fst (btree_insert ''requestId'' (jopt JString (s_request s)) fs))) s
      | _ \<Rightarrow> s)"

definition snapshot_skew :: "'c ctx \<Rightarrow> string \<Rightarrow> 'c st \<Rightarrow> 'c st" where
  "snapshot_skew x input s =
     respond_error x C_Internal (log_value x (json_obj
       [(''event'', JString ''owner_snapshot_skew''), (''input'', JString input),
        (''requestId'', jopt JString (s_request s))]) s)"

section \<open>Plan handles\<close>

definition release_handles :: "'c ctx \<Rightarrow> nat list \<Rightarrow> 'c \<Rightarrow> 'c" where
  "release_handles x handles c = fold (\<lambda>h c. c_release (x_compiler x) c h) handles c"

definition release_all :: "'c ctx \<Rightarrow> 'c st \<Rightarrow> 'c st" where
  "release_all x s = (case s_volatile s of None \<Rightarrow> s
     | Some v \<Rightarrow> s\<lparr>s_compiler := release_handles x (v_handles v) (s_compiler s),
                   s_volatile := Some (v\<lparr>v_handles := []\<rparr>)\<rparr>)"

definition release :: "'c ctx \<Rightarrow> nat \<Rightarrow> 'c st \<Rightarrow> 'c st" where
  "release x handle s =
     on_volatile (\<lambda>v. v\<lparr>v_handles := filter (\<lambda>live. live \<noteq> handle) (v_handles v)\<rparr>)
       (s\<lparr>s_compiler := c_release (x_compiler x) (s_compiler s) handle\<rparr>)"

section \<open>Phases and closing\<close>

definition set_phase :: "'c ctx \<Rightarrow> phase \<Rightarrow> 'c st \<Rightarrow> 'c st" where
  "set_phase x phase s =
     (if phase = Discarded then s\<lparr>s_durable := Some (Tombstone (x_owner x))\<rparr>
      else case s_durable s of
        Some (Live r) \<Rightarrow> s\<lparr>s_durable := Some (Live (r\<lparr>r_phase := phase,
            r_expires_at_ms := (if has_deadline phase then r_expires_at_ms r else None)\<rparr>))\<rparr>
      | _ \<Rightarrow> s)"

definition plain_reply :: "raw option \<Rightarrow> raw option \<Rightarrow> task" where
  "plain_reply reply failure = Reply reply failure [] [] False None"

definition clear_work :: "'c st \<Rightarrow> 'c st" where
  "clear_work = on_volatile (\<lambda>v. v\<lparr>v_work := None, v_pending := None\<rparr>)"

definition persist_phase ::
  "'c ctx \<Rightarrow> work_lane \<Rightarrow> string option \<Rightarrow> phase \<Rightarrow> raw option \<Rightarrow> 'c st \<Rightarrow> 'c res" where
  "persist_phase x lane rid phase reply s =
     (if s_durable s = None then
        Done (clear_work (case reply of None \<Rightarrow> s | Some r \<Rightarrow> respond r s))
      else
        (let failure = map_option (\<lambda>_. error_reply (x_serde x) C_Internal) reply
         in wait x lane rid (plain_reply reply failure) Persist (set_phase x phase s)))"

text \<open>\<open>checks.rs\<close>: the capability is revoked, and a validator still awaited is remembered.\<close>

definition revoke :: "'c st \<Rightarrow> 'c st" where
  "revoke = on_volatile (\<lambda>v. v\<lparr>v_capability := None,
     v_revoked_validator := (if work_task_is is_validator (v_work v) then map_option pn_id (v_pending v)
                             else v_revoked_validator v)\<rparr>)"

definition close :: "'c ctx \<Rightarrow> work_lane \<Rightarrow> phase \<Rightarrow> raw option \<Rightarrow> 'c st \<Rightarrow> 'c res" where
  "close x lane phase reply s =
     (if volatile_is callback_executing s then Fault ''connection_busy'' s
      else
        (let s = on_volatile (\<lambda>v. v\<lparr>v_atomic := None\<rparr>) (release_all x (revoke s));
             request = (case lane of
                 Client \<Rightarrow> Some (unwrap_or (request_id x) (s_request s))
               | Background \<Rightarrow> None)
         in if connection_of s = Conn_Open then
              wait x lane request (CloseRollback phase reply) Rollback (set_connection x Closing s)
            else persist_phase x lane request phase reply (set_connection x Conn_None s)))"

definition persist_reply :: "'c ctx \<Rightarrow> string option \<Rightarrow> raw \<Rightarrow> raw \<Rightarrow> 'c st \<Rightarrow> 'c res" where
  "persist_reply x rid reply failure s =
     wait x Client rid (plain_reply (Some reply) (Some failure)) Persist s"

text \<open>\<open>self.close(lane, phase, Some(error_reply(code)))\<close>.\<close>

definition close_error :: "'c ctx \<Rightarrow> work_lane \<Rightarrow> phase \<Rightarrow> code \<Rightarrow> 'c st \<Rightarrow> 'c res" where
  "close_error x lane phase code s = close x lane phase (Some (error_reply (x_serde x) code)) s"

section \<open>Failing closed\<close>

definition abandon :: "'c ctx \<Rightarrow> 'c st \<Rightarrow> 'c st" where
  "abandon x s =
     (let s = s\<lparr>s_abandoned := True\<rparr>;
          connection = connection_of s;
          s = release_all x s;
          i = (case s_volatile s of None \<Rightarrow> seed_id x | Some v \<Rightarrow> v_next_effect_id v);
          s = s\<lparr>s_volatile := None\<rparr>;
          next = (case map_option durable_phase (s_durable s) of
              Some Active \<Rightarrow> if connection \<noteq> Conn_None then Some Failed else None
            | Some Validating \<Rightarrow> if connection \<noteq> Conn_None then Some Failed else None
            | Some Committing \<Rightarrow> Some CommitUnknown
            | _ \<Rightarrow> None)
      in case next of None \<Rightarrow> s | Some phase \<Rightarrow> push (Persist i) (set_phase x phase s))"

definition input_kind :: "json \<Rightarrow> string option" where
  "input_kind input = Option.bind (json_get ''kind'' input) as_text"

definition is_commit_reply_task :: "task \<Rightarrow> bool" where
  "is_commit_reply_task t = (case t of CommitPersist _ _ _ \<Rightarrow> True | CommitSend _ _ _ \<Rightarrow> True
     | Reply _ _ _ _ _ _ \<Rightarrow> True | _ \<Rightarrow> False)"

definition unsure_code :: "bool \<Rightarrow> code" where
  "unsure_code b = (if b then C_OutcomeUnknown else C_Internal)"

text \<open>The replies of \<open>fail_closed\<close>: the waiting client, a deferred commit, a callback in progress,
  and the event itself.\<close>

definition answer_waiting :: "'c ctx \<Rightarrow> bool \<Rightarrow> 'c st \<Rightarrow> 'c st" where
  "answer_waiting x unsure_commit s =
     (case work_of s of
        None \<Rightarrow> s
      | Some w \<Rightarrow> if wk_lane w = Client
                  then respond_error x (unsure_code (unsure_commit \<and> is_commit_reply_task (wk_task w))) s
                  else s)"

definition answer_lanes :: "'c ctx \<Rightarrow> code \<Rightarrow> code \<Rightarrow> 'c st \<Rightarrow> 'c st" where
  "answer_lanes x deferred_code callback_code s =
     (let deferred = volatile_is (\<lambda>v. is_some (v_deferred v)) s;
          callback = volatile_is (\<lambda>v. is_some (v_callback v)) s;
          s = (if deferred then respond_error x deferred_code s else s)
      in if callback then respond_callback (error_reply (x_serde x) callback_code) s else s)"

definition answer_event :: "'c ctx \<Rightarrow> bool \<Rightarrow> event \<Rightarrow> 'c st \<Rightarrow> 'c st" where
  "answer_event x unsure_commit event s =
     (case event of
        Ev_Request _ \<Rightarrow> respond_error x C_Internal s
      | Ev_Forwarded input \<Rightarrow>
          if input_kind input = Some ''callbackQuery''
          then respond_callback (error_reply (x_serde x) C_Internal) s
          else respond_error x (unsure_code (unsure_commit \<and> input_kind input = Some ''commit'')) s
      | _ \<Rightarrow> s)"

definition or_reset :: "'c res \<Rightarrow> 'c st" where
  "or_reset r = (case r of Done s \<Rightarrow> s | Fault _ s \<Rightarrow> s\<lparr>s_reset := True\<rparr>)"

definition fail_closed :: "'c ctx \<Rightarrow> string \<Rightarrow> event \<Rightarrow> bool \<Rightarrow> 'c st \<Rightarrow> 'c st" where
  "fail_closed x reason event volatile_unknown s =
     (let s = s\<lparr>s_effects := []\<rparr>;
          had_volatile = (volatile_unknown \<or> is_some (s_volatile s));
          phase = map_option durable_phase (s_durable s);
          unsure_commit = (phase = Some Committing \<or> phase = Some CommitUnknown);
          s = log_value x (json_obj [(''event'', JString ''tx_fail_closed''),
                (''transactionId'', JString (x_owner x)), (''reason'', JString reason)]) s;
          s = answer_waiting x unsure_commit s;
          s = answer_lanes x C_Internal C_Internal s;
          s = answer_event x unsure_commit event s;
          s = release_all x s;
          s = s\<lparr>s_volatile := None\<rparr>;
          next = (case phase of
              Some Active \<Rightarrow> if had_volatile then Some Failed else None
            | Some Validating \<Rightarrow> if had_volatile then Some Failed else None
            | Some Committing \<Rightarrow> Some CommitUnknown
            | _ \<Rightarrow> None)
      in case next of
           Some phase \<Rightarrow> or_reset (wait x Background None ResetAfterPersist Persist (set_phase x phase s))
         | None \<Rightarrow> s\<lparr>s_reset := True\<rparr>)"

definition is_commit_task :: "task \<Rightarrow> bool" where
  "is_commit_task t = (case t of CommitBinding _ _ _ _ \<Rightarrow> True | CommitPersist _ _ _ \<Rightarrow> True
     | CommitSend _ _ _ \<Rightarrow> True | ValidatingPersist _ \<Rightarrow> True | Validator _ \<Rightarrow> True
     | Reply _ _ _ _ _ _ \<Rightarrow> True | _ \<Rightarrow> False)"

definition discard :: "'c ctx \<Rightarrow> unreadable \<Rightarrow> event \<Rightarrow> 'c st \<Rightarrow> 'c st" where
  "discard x reason event s =
     (let s = log_value x (json_obj [(''event'', JString ''tx_state_discarded''),
                (''transactionId'', JString (x_owner x)), (''reason'', JString (unreadable_str reason))]) s;
          s = (case work_of s of
                 Some w \<Rightarrow> if wk_lane w = Client
                   then respond_error x (unsure_code (is_commit_task (wk_task w))) s else s
               | None \<Rightarrow> s);
          s = answer_lanes x C_OutcomeUnknown C_Unavailable s;
          s = (case event of
                 Ev_Forwarded input \<Rightarrow>
                   (if input_kind input = Some ''commit'' then respond_error x C_OutcomeUnknown s
                    else if input_kind input = Some ''atomic'' then respond_error x C_Internal s
                    else if input_kind input = Some ''callbackQuery''
                      then respond_callback (error_reply (x_serde x) C_Unavailable) s
                    else respond_error x C_Unavailable s)
               | _ \<Rightarrow> s);
          idle_open = volatile_is (\<lambda>v. v_connection v = Conn_Open \<and> v_pending v = None \<and>
                        v_callback v = None) s;
          s = release_all x s;
          s = s\<lparr>s_durable := Some (Tombstone (x_owner x))\<rparr>
      in or_reset
          (if idle_open then
             wait x Background None (CloseRollback Discarded None) Rollback
               (on_volatile (\<lambda>v. v\<lparr>v_work := None, v_connection := Closing\<rparr>) s)
           else
             (let pending_on_connection = (connection_of s \<noteq> Conn_None);
                  s = s\<lparr>s_volatile := None\<rparr>
              in if pending_on_connection then wait x Background None ResetAfterPersist Persist s
                 else wait x Background None (plain_reply None None) Persist s)))"

section \<open>What a step leaves\<close>

record step_output =
  out_durable :: "string option"
  out_volatile :: "string option"
  out_effects :: "effect list"

definition finish_output :: "'c ctx \<Rightarrow> 'c st \<Rightarrow> step_output \<times> 'c" where
  "finish_output x s =
     (if s_reset s then
        (let s = push Reset (release_all x s)
         in (\<lparr>out_durable = None, out_volatile = None, out_effects = s_effects s\<rparr>, s_compiler s))
      else
        (let s = (if volatile_is volatile_is_idle s then s\<lparr>s_volatile := None\<rparr> else s)
         in (\<lparr>out_durable = map_option (durable_to_json (x_serde x)) (s_durable s),
              out_volatile = map_option (volatile_to_json (x_serde x)) (s_volatile s),
              out_effects = s_effects s\<rparr>, s_compiler s)))"

text \<open>\<open>None\<close> is \<open>Ok(())\<close>.\<close>

definition check_output :: "'c ctx \<Rightarrow> 'c st \<Rightarrow> string option" where
  "check_output x s =
     (if s_reset s then None
      else if is_some_and (\<lambda>d. length (durable_to_json (x_serde x) d) > MAX_DURABLE_BYTES) (s_durable s)
        then Some ''durable_bound''
      else if is_some_and (\<lambda>v. length (volatile_to_json (x_serde x) v)
                  > max_volatile_bytes (x_usize_max x) (x_limits x) \<or> \<not> volatile_is_consistent v) (s_volatile s)
        then Some ''volatile_bound''
      else
        (let awaited = length (filter is_awaited (s_effects s));
             last_awaited = (s_effects s \<noteq> [] \<and> is_awaited (last (s_effects s)))
         in if awaited > 1 \<or> (awaited = 1 \<and> \<not> last_awaited) then Some ''batch_rule''
            else
              (let pending = map_option pn_id (Option.bind (s_volatile s) v_pending);
                   callback = map_option (\<lambda>cb. pn_id (cw_pending cb)) (Option.bind (s_volatile s) v_callback)
               in if is_some_and (\<lambda>e. \<not> (s_abandoned s \<and> s_volatile s = None) \<and>
                       pending \<noteq> effect_id e \<and> callback \<noteq> effect_id e) (find is_awaited (s_effects s))
                  then Some ''pending_mismatch''
                  else if is_some_and (\<lambda>r. \<not> record_is_consistent r) (record_of s)
                  then Some ''durable_inconsistent''
                  else None)))"

section \<open>Reading the input\<close>

definition exact_object :: "json \<Rightarrow> string list \<Rightarrow> string list \<Rightarrow> bool" where
  "exact_object value required optional = exact_keys value required optional"

definition field_text :: "string \<Rightarrow> json \<Rightarrow> string option" where
  "field_text key value = Option.bind (json_get key value) as_text"

definition parse_binding :: "'c ctx \<Rightarrow> json \<Rightarrow> binding option" where
  "parse_binding x value = opt_filter binding_is_valid (sj_binding (x_serde x) value)"

definition parse_json :: "'c ctx \<Rightarrow> string \<Rightarrow> json option" where
  "parse_json x text = canonical_parse (sj_tree (x_serde x)) text"

definition to_json :: "'c ctx \<Rightarrow> json \<Rightarrow> json option" where
  "to_json x value = parse_json x (sj_write (x_serde x) (DVal value))"

definition canon :: "'c ctx \<Rightarrow> json \<Rightarrow> string" where
  "canon x value = to_canonical (sj_f64 (x_serde x)) value"

text \<open>The integer value of a number spelled as an integer or as a whole double.\<close>

definition sequence_number :: "number \<Rightarrow> nat option" where
  "sequence_number n = (case n of
       PosInt k \<Rightarrow> Some k
     | NegInt _ \<Rightarrow> None
     | Float v \<Rightarrow> (case f64_safe_integer v of Some i \<Rightarrow> if 1 \<le> i then Some (nat i) else None | None \<Rightarrow> None))"

definition sequence_value :: "'c ctx \<Rightarrow> string \<Rightarrow> nat option" where
  "sequence_value x text = (case parse_json x text of
       Some (JNumber n) \<Rightarrow> opt_filter (\<lambda>k. 1 \<le> k \<and> k \<le> MAX_SAFE_INTEGER) (sequence_number n)
     | _ \<Rightarrow> None)"

definition readable_handles :: "'c ctx \<Rightarrow> string \<Rightarrow> string option \<Rightarrow> nat \<Rightarrow> nat list" where
  "readable_handles x text owner bound =
     (if length text > bound then []
      else case sj_value (x_serde x) text of None \<Rightarrow> []
        | Some value \<Rightarrow>
            if field_text ''owner'' value \<noteq> owner then []
            else (case json_get ''handles'' value of
                Some (JArray handles) \<Rightarrow> take 64 (List.map_filter as_u64 handles)
              | _ \<Rightarrow> []))"

section \<open>Database calls and results\<close>

fun insert_all :: "btree \<Rightarrow> btree \<Rightarrow> btree option" where
  "insert_all args [] = Some args"
| "insert_all args ((name, value) # rest) =
     (case btree_insert name value args of
        (args', present) \<Rightarrow> if present then None else insert_all args' rest)"

definition driver_call_of :: "string \<Rightarrow> driver_statement \<Rightarrow> string + driver_call" where
  "driver_call_of sql statement =
     (case insert_all (ds_client_parameters statement) (ds_server_parameters statement) of
        None \<Rightarrow> Inl ''parameter_namespace''
      | Some args \<Rightarrow> Inr \<lparr>dc_sql = sql, dc_args = args\<rparr>)"

fun all_inr :: "('e + 'a) list \<Rightarrow> 'e + 'a list" where
  "all_inr [] = Inr []"
| "all_inr (Inl e # xs) = Inl e"
| "all_inr (Inr x # xs) = (case all_inr xs of Inl e \<Rightarrow> Inl e | Inr ys \<Rightarrow> Inr (x # ys))"

fun codec_scan :: "code option \<Rightarrow> json list \<Rightarrow> code option" where
  "codec_scan code [] = code"
| "codec_scan code (value # rest) =
     (if is_object value then
        (if field_text ''type'' value = Some ''blob'' then codec_scan code rest
         else if field_text ''type'' value = Some ''invalid'' \<and> json_get ''limit'' value = Some (JBool True)
           then Some C_LimitExceeded
         else codec_scan (Some C_SchemaMismatch) rest)
      else codec_scan code rest)"

definition codec_failure :: "driver_result \<Rightarrow> code option" where
  "codec_failure result = codec_scan None (concat (dr_rows result))"

definition round_ms :: "(rat \<Rightarrow> f64) \<Rightarrow> f64 \<Rightarrow> f64" where
  "round_ms rnd v = f64_scale rnd (1 / 1000) (f64_round (f64_scale rnd 1000 v))"

definition usage_json :: "usage \<Rightarrow> json" where
  "usage_json u = json_obj [(''rowsRead'', jnat (us_rows_read u)), (''rowsWritten'', jnat (us_rows_written u)),
     (''queryDurationMs'', jf64 (us_query_duration_ms u))]"

section \<open>Responses\<close>

definition public_state :: "'c ctx \<Rightarrow> tx_record \<Rightarrow> string \<Rightarrow> raw" where
  "public_state x r request =
     (let active = (r_phase r = Active)
      in to_raw (x_serde x) (DObj (
          [(''transactionId'', DStr (r_owner r)), (''status'', DStr (phase_str (r_phase r)))] @
          dskip ''nextSequence'' DNat (if active then Some (r_next_sequence r) else None) @
          dskip ''expiresAt'' DStr (map_option iso_from_ms (opt_filter (\<lambda>_. active) (r_expires_at_ms r))) @
          [(''meta'', DObj [(''requestId'', DStr request)])])))"

definition terminal_response :: "'c ctx \<Rightarrow> string \<Rightarrow> string \<Rightarrow> string \<Rightarrow> bool \<Rightarrow> raw" where
  "terminal_response x transaction_id status request checks_passed =
     to_raw (x_serde x) (DObj [(''transactionId'', DStr transaction_id), (''status'', DStr status),
       (''meta'', DObj [(''requestId'', DStr request),
          (''commitChecks'', DStr (if checks_passed then ''passed'' else ''not_triggered''))])])"

definition statement_response :: "'c ctx \<Rightarrow> string \<Rightarrow> nat \<Rightarrow> raw \<Rightarrow> string \<Rightarrow> raw" where
  "statement_response x transaction_id sequence result request =
     to_raw (x_serde x) (DObj [(''transactionId'', DStr transaction_id), (''status'', DStr ''active''),
       (''nextSequence'', DNat (wrap_add u64_max sequence 1)), (''result'', DRaw result),
       (''meta'', DObj [(''requestId'', DStr request)])])"

text \<open>The redactions of one row, then of all rows; a flag without a column is a fault.\<close>

fun row_redactions :: "string list \<Rightarrow> nat \<Rightarrow> nat \<Rightarrow> bool list \<Rightarrow> string + doc list" where
  "row_redactions columns row index [] = Inr []"
| "row_redactions columns row index (redacted # flags) =
     (if redacted \<and> \<not> index < length columns then Inl ''redaction_column''
      else case row_redactions columns row (Suc index) flags of
          Inl e \<Rightarrow> Inl e
        | Inr ds \<Rightarrow> Inr (if redacted then DObj [(''row'', DNat row), (''column'', DStr (columns ! index)),
                             (''code'', DStr ''POLICY_REDACTED'')] # ds else ds))"

fun rows_redactions :: "string list \<Rightarrow> nat \<Rightarrow> bool list list \<Rightarrow> string + doc list" where
  "rows_redactions columns row [] = Inr []"
| "rows_redactions columns row (flags # rows) =
     (case row_redactions columns row 0 flags of Inl e \<Rightarrow> Inl e
      | Inr ds \<Rightarrow> (case rows_redactions columns (Suc row) rows of Inl e \<Rightarrow> Inl e | Inr es \<Rightarrow> Inr (ds @ es)))"

definition redactions_of :: "validated \<Rightarrow> string + doc list" where
  "redactions_of v = rows_redactions (vd_columns v) 0 (vd_redactions v)"

definition row_doc :: "string list \<Rightarrow> json list \<Rightarrow> doc" where
  "row_doc columns values = DObj (map (\<lambda>(c, v). (c, DVal v)) (zip columns values))"

definition mutation_meta :: "validated \<Rightarrow> doc" where
  "mutation_meta v = DObj [(''affectedRows'', DNat (vd_affected_rows v)),
     (''returning'', DBool (vd_result_columns v \<noteq> [])),
     (''operationCheck'', DStr (if vd_operation_check v then ''passed'' else ''not_configured''))]"

definition shape_statement :: "'c ctx \<Rightarrow> nat option \<Rightarrow> operation \<Rightarrow> validated \<Rightarrow> string + raw" where
  "shape_statement x sequence operation v =
     (case redactions_of v of Inl e \<Rightarrow> Inl e
      | Inr redactions \<Rightarrow>
          (let changed = (operation \<noteq> Select);
               text = sj_write (x_serde x) (DObj (
                 dskip ''sequence'' DNat sequence @
                 [(''columns'', DArr (map DStr (vd_columns v))),
                  (''rows'', DArr (map (row_doc (vd_columns v)) (vd_rows v))),
                  (''rowCount'', DNat (length (vd_rows v)))] @
                 dskip ''affectedRows'' DNat (if changed then Some (vd_affected_rows v) else None) @
                 [(''meta'', DObj (
                    [(''operation'', DStr (operation_str operation))] @
                    dskip ''mutation'' id (if changed then Some (mutation_meta v) else None) @
                    [(''result'', DObj [(''columns'', DArr (map DRaw (vd_result_columns v))),
                                       (''redactions'', DArr redactions)])]))]))
           in if sj_valid (x_serde x) text then Inr text else Inl ''result_shape''))"

section \<open>Compiling one statement\<close>

definition internal_error :: core_error where
  "internal_error = core_error_new ''POLICYSQL_INTERNAL'' ''The request could not be completed.''"

definition compile_members ::
  "'c ctx \<Rightarrow> string \<Rightarrow> (string \<times> raw) list \<Rightarrow> 'c \<Rightarrow> (core_error + compiled) \<times> 'c" where
  "compile_members x auth members c =
     (case (btree_get ''sql'' members, btree_get ''params'' members) of
        (Some sql, Some params) \<Rightarrow>
          c_compile (x_compiler x) c auth (sj_write (x_serde x) (DObj [(''statements'', DArr [DObj (
            [(''sql'', DRaw sql), (''params'', DRaw params)] @
            dskip ''expect'' DRaw (btree_get ''expect'' members))])]))
      | _ \<Rightarrow> (Inl internal_error, c))"

definition may_repeat_members :: "'c ctx \<Rightarrow> string \<Rightarrow> (string \<times> raw) list \<Rightarrow> 'c \<Rightarrow> bool \<times> 'c" where
  "may_repeat_members x auth members c =
     (case compile_members x auth members c of
        (Inr compiled, c) \<Rightarrow> (True, c_release (x_compiler x) c (cd_handle compiled))
      | (Inl e, c) \<Rightarrow> (ce_code e \<in> {''POLICYSQL_DATABASE_UNAVAILABLE'', ''POLICYSQL_INTERNAL''}, c))"

section \<open>Expiry and completion\<close>

definition log_unavailable :: "'c ctx \<Rightarrow> string \<Rightarrow> 'c st \<Rightarrow> 'c st" where
  "log_unavailable x reason = log_value x (json_obj [(''event'', JString ''transaction_owner_unavailable''),
     (''transactionId'', JString (x_owner x)), (''reason'', JString reason)])"

definition expire_client :: "'c ctx \<Rightarrow> work_lane \<Rightarrow> 'c st \<Rightarrow> 'c res" where
  "expire_client x lane s = close_error x lane Expired C_Unavailable (log_unavailable x ''expired'' s)"

text \<open>\<open>Ok(None)\<close> continues with \<open>continue\<close>; the other results end the work.\<close>

definition recheck :: "'c ctx \<Rightarrow> work_lane \<Rightarrow> ('c st \<Rightarrow> 'c res) \<Rightarrow> 'c st \<Rightarrow> 'c res" where
  "recheck x lane continue s =
     (case record_of s of None \<Rightarrow> Fault ''recheck_record'' s
      | Some r \<Rightarrow>
          if is_none_or (\<lambda>deadline. now_ms x \<ge> deadline) (r_expires_at_ms r) \<or> rollback_requested s
          then expire_client x lane s
          else if r_snapshot r \<noteq> snapshot_of x then close_error x lane Failed C_Unavailable s
          else continue s)"

definition terminal_log :: "'c ctx \<Rightarrow> string \<Rightarrow> string \<Rightarrow> usage \<Rightarrow> json" where
  "terminal_log x status request usage = json_obj [(''event'', JString ''transaction_terminal''),
     (''transactionId'', JString (x_owner x)), (''status'', JString status), (''requestId'', JString request),
     (''usage'', usage_json usage)]"

definition complete_command :: "'c ctx \<Rightarrow> phase \<Rightarrow> string \<Rightarrow> raw \<Rightarrow> 'c st \<Rightarrow> 'c res" where
  "complete_command x phase digest response s =
     (case record_of s of None \<Rightarrow> Fault ''no_record'' s
      | Some r \<Rightarrow>
          (case opt_filter (\<lambda>next. next \<le> MAX_SAFE_INTEGER) (checked_add u64_max (r_next_sequence r) 1) of
             None \<Rightarrow> Fault ''sequence'' s
           | Some next \<Rightarrow> Done (set_phase x phase (s\<lparr>s_durable := Some (Live (r\<lparr>
               r_next_sequence := next,
               r_last := Some \<lparr>rp_digest = digest, rp_response = raw_of (x_serde x) response\<rparr>\<rparr>))\<rparr>))))"

end
