(* ===== verification/Tx_Checks.thy ===== *)
theory Tx_Checks
  imports Tx_Step
begin

text \<open>
  Commit checks and validator callbacks
  (\<^verbatim>\<open>src/crates/policysql-transaction/src/machine/step/checks.rs\<close>): the decision of a validator,
  the capability token and the callback session, issuing a capability and calling the
  validators in turn, the verdict, and the callback queries that run on the callback lane.
\<close>

unbundle bit_operations_syntax

section \<open>Decisions, tokens and sessions\<close>

fun allowed_decision :: "json \<Rightarrow> bool" where
  "allowed_decision (JObject members) =
     (let decision = JObject members in
      if \<not> list_all (\<lambda>(key, _). key \<in> {''version'', ''allowed'', ''error''}) members then False
      else if field_text ''version'' decision \<noteq> Some ''1'' then False
      else if is_some_and (\<lambda>error. \<not> (case error of
          JObject ms \<Rightarrow> length ms = 1 \<and> is_some_and is_string (json_get ''code'' error)
        | _ \<Rightarrow> False)) (json_get ''error'' decision) then False
      else json_get ''allowed'' decision = Some (JBool True))"
| "allowed_decision _ = False"

definition ALPHABET :: string where
  "ALPHABET = ''ABCDEFGHIJKLMNOPQRSTUVWXYZabcdefghijklmnopqrstuvwxyz0123456789-_''"

text \<open>\<open>bytes.chunks(3)\<close>.\<close>

fun chunks3 :: "'a list \<Rightarrow> 'a list list" where
  "chunks3 (a # b # c # rest) = [a, b, c] # chunks3 rest"
| "chunks3 [] = []"
| "chunks3 xs = [xs]"

definition chunk_triple :: "nat list \<Rightarrow> nat" where
  "chunk_triple chunk =
     fold (\<lambda>(index, b) acc. acc OR push_bit (16 - 8 * index) b) (enumerate 0 chunk) 0"

definition chunk_text :: "nat list \<Rightarrow> string" where
  "chunk_text chunk = map (\<lambda>index. ALPHABET ! (drop_bit (18 - 6 * index) (chunk_triple chunk) AND 63))
     [0..<length chunk + 1]"

definition base64url :: "nat list \<Rightarrow> string" where
  "base64url bytes = concat (map chunk_text (chunks3 bytes))"

definition token_syntax :: "string \<Rightarrow> bool" where
  "token_syntax token = (length token = 43 \<and>
     list_all (\<lambda>c. is_ascii_alphanumeric c \<or> c = CHR ''-'' \<or> c = CHR ''_'') token)"

definition same_hash :: "string \<Rightarrow> string \<Rightarrow> bool" where
  "same_hash left right = (length left = length right \<and>
     fold (\<lambda>(a, b) difference. difference OR (byte a XOR byte b)) (zip left right) (0 :: nat) = 0)"

fun callback_session :: "json \<Rightarrow> string \<Rightarrow> json option" where
  "callback_session (JObject members) role =
     (case (case json_get ''roles'' (JObject members) of
              Some (JArray roles) \<Rightarrow> Some roles
            | None \<Rightarrow> Some []
            | Some _ \<Rightarrow> None) of
        None \<Rightarrow> None
      | Some roles \<Rightarrow>
          (let roles = (if JString role \<in> set roles then roles else roles @ [JString role])
           in Some (JObject (
                filter (\<lambda>(key, _). key \<notin> {''role'', ''roles'', ''access''}) members @
                [(''role'', JString role), (''roles'', JArray roles),
                 (''access'', JArray [JString ''execute''])]))))"
| "callback_session _ role = None"

section \<open>Triggered checks\<close>

fun dedup_ids :: "triggered_check list \<Rightarrow> triggered_check list" where
  "dedup_ids (a # b # rest) =
     (if tc_id b = tc_id a then dedup_ids (a # rest) else a # dedup_ids (b # rest))"
| "dedup_ids xs = xs"

definition sorted_checks :: "'c ctx \<Rightarrow> string list \<Rightarrow> triggered_check list" where
  "sorted_checks x resources =
     (if resources = [] then []
      else dedup_ids (sort_key tc_id (c_triggered_checks (x_compiler x) resources)))"

definition triggered :: "'c ctx \<Rightarrow> tx_record \<Rightarrow> triggered_check list" where
  "triggered x r = sorted_checks x (map mu_resource (r_mutations r))"

definition start_checks ::
  "'c ctx \<Rightarrow> work_lane \<Rightarrow> string option \<Rightarrow> nat \<Rightarrow> string \<Rightarrow> string \<Rightarrow> 'c st \<Rightarrow> 'c res" where
  "start_checks x lane rid sequence digest auth s =
     (let request = unwrap_or (request_id x) rid in
      case record_of s of None \<Rightarrow> Fault ''checks_record'' s
      | Some r \<Rightarrow>
          (let checks = triggered x r in
           if checks = [] \<or> r_versions r = None then Fault ''checks_trigger'' s
           else case find (\<lambda>check. tc_id check \<notin> set (h_configured_checks (x_host x))) checks of
               Some missing \<Rightarrow>
                 close_error x lane Failed C_CheckRejected (log_value x (json_obj
                   [(''event'', JString ''commit_check_unconfigured''), (''requestId'', JString request),
                    (''check'', JString (tc_id missing))]) s)
             | None \<Rightarrow>
                 wait x lane (Some request)
                   (ValidatingPersist \<lparr>cc_sequence = sequence, cc_digest = digest, cc_auth = auth,
                      cc_checks = checks, cc_index = 0\<rparr>)
                   Persist (set_phase x Validating s)))"

text \<open>What a hook lists of the transaction: the versions, and the statements that changed rows.\<close>

definition hook_statements :: "tx_record \<Rightarrow> 'c st \<Rightarrow> string + versions \<times> (nat \<times> operation \<times> string) list" where
  "hook_statements r s =
     (case (r_kind r, Option.bind (s_volatile s) v_atomic) of
        (Atomic, Some a) \<Rightarrow>
          Inr (ar_versions a, map (\<lambda>u. (mu_index u, mu_operation u, mu_resource u)) (ar_mutations a))
      | (Interactive, _) \<Rightarrow>
          (case r_versions r of None \<Rightarrow> Inl ''checks_versions''
           | Some versions \<Rightarrow> Inr (versions,
               map (\<lambda>(index, u). (index, mu_operation u, mu_resource u)) (enumerate 0 (r_mutations r))))
      | (Atomic, None) \<Rightarrow> Inl ''checks_atomic'')"

definition hook_payload ::
  "'c ctx \<Rightarrow> string \<Rightarrow> string \<Rightarrow> versions \<Rightarrow> string \<Rightarrow> raw \<Rightarrow> (nat \<times> operation \<times> string) list \<Rightarrow> raw" where
  "hook_payload x check request versions role session_raw statements =
     to_raw (x_serde x) (DObj
       [(''version'', DStr ''1''),
        (''validationId'', DStr (''cval_'' @ trim_start_matches ''tx_'' (x_owner x))),
        (''check'', DStr check), (''requestId'', DStr request),
        (''policyVersion'', DStr (vs_policy versions)), (''schemaVersion'', DStr (vs_schema versions)),
        (''role'', DStr role), (''session'', DRaw session_raw),
        (''statements'', DArr (map (\<lambda>(index, operation, resource). DObj
           [(''index'', DNat index), (''type'', DStr (operation_str operation)),
            (''resource'', DStr resource)]) statements))])"

text \<open>The role a check runs under, and what \<open>issue\<close> derives from the commit's session.\<close>

definition check_role :: "triggered_check \<Rightarrow> json \<Rightarrow> string option" where
  "check_role check auth = (case tc_role check of Some role \<Rightarrow> Some role | None \<Rightarrow> field_text ''role'' auth)"

definition issue_session :: "'c ctx \<Rightarrow> triggered_check \<Rightarrow> string \<Rightarrow> string + string \<times> json \<times> raw" where
  "issue_session x check auth_text =
     (case parse_json x auth_text of None \<Rightarrow> Inl ''checks_auth'' | Some auth \<Rightarrow>
      case check_role check auth of None \<Rightarrow> Inl ''checks_role'' | Some role \<Rightarrow>
      case callback_session auth role of None \<Rightarrow> Inl ''checks_session'' | Some session \<Rightarrow>
      case json_get ''session'' auth of None \<Rightarrow> Inl ''checks_session''
      | Some part \<Rightarrow> Inr (role, session, raw_of (x_serde x) (canon x part)))"

definition issue :: "'c ctx \<Rightarrow> work_lane \<Rightarrow> string option \<Rightarrow> commit_checks \<Rightarrow> 'c st \<Rightarrow> 'c res" where
  "issue x lane rid checks s =
     (let request = unwrap_or (request_id x) rid in
      if \<not> cc_index checks < length (cc_checks checks) then Fault ''check_index'' s
      else let check = cc_checks checks ! cc_index checks in
      case record_of s of None \<Rightarrow> Fault ''checks_record'' s | Some r \<Rightarrow>
      case r_expires_at_ms r of None \<Rightarrow> Fault ''checks_deadline'' s | Some deadline \<Rightarrow>
      case hook_statements r s of Inl e \<Rightarrow> Fault e s | Inr (versions, statements) \<Rightarrow>
      let now = now_ms x; expires_at_ms = min (sat_add u64_max now (tc_timeout_ms check)) deadline in
      if expires_at_ms \<le> now \<or> connection_of s \<noteq> Conn_Open then close_error x lane Failed C_CheckRejected s
      else case issue_session x check (cc_auth checks) of Inl e \<Rightarrow> Fault e s | Inr (role, session, session_raw) \<Rightarrow>
      case entropy_bytes (x_host x) of None \<Rightarrow> Fault ''entropy'' s | Some bytes \<Rightarrow>
      let token = base64url bytes;
          payload = hook_payload x (tc_id check) request versions role session_raw statements;
          capability = \<lparr>cp_token_hash = x_sha x token, cp_expires_at_ms = expires_at_ms,
            cp_check = tc_id check, cp_session = canon x session, cp_role = role,
            cp_next_sequence = 1, cp_last = None, cp_rows = 0, cp_result_bytes = 0\<rparr>
      in wait x lane (Some request) (Validator checks)
           (\<lambda>i. CallValidator i (tc_id check) payload
              \<lparr>cg_token = token, cg_expires_at_ms = expires_at_ms\<rparr> (expires_at_ms - now))
           (volatile_mut x (\<lambda>v. v\<lparr>v_capability := Some capability\<rparr>) s))"

definition validating_persisted ::
  "'c ctx \<Rightarrow> work_lane \<Rightarrow> string option \<Rightarrow> commit_checks \<Rightarrow> 'c st \<Rightarrow> 'c res" where
  "validating_persisted x lane rid checks s =
     (let expired = is_none_or (\<lambda>deadline. now_ms x \<ge> deadline) (Option.bind (record_of s) r_expires_at_ms) in
      if expired \<or> rollback_requested s then close_error x lane Expired C_CheckRejected s
      else issue x lane rid checks s)"

section \<open>Verdicts\<close>

text \<open>\<open>atomic.rs\<close>: after the last check the owner checks the binding again.\<close>

definition atomic_commit_binding :: "'c ctx \<Rightarrow> work_lane \<Rightarrow> string \<Rightarrow> 'c st \<Rightarrow> 'c res" where
  "atomic_commit_binding x lane request s =
     (case record_of s of None \<Rightarrow> Fault ''atomic_record'' s
      | Some r \<Rightarrow> wait x lane (Some request) AtomicCommitBinding
          (\<lambda>i. CheckBinding i (r_binding r) (r_expires_at_ms r)) s)"

definition verdict :: "'c ctx \<Rightarrow> work_lane \<Rightarrow> string option \<Rightarrow> commit_checks \<Rightarrow> bool \<Rightarrow> 'c st \<Rightarrow> 'c res" where
  "verdict x lane rid checks allowed s =
     (let s = s\<lparr>s_request := rid\<rparr> in
      if \<not> allowed then close_error x lane Failed C_CheckRejected s
      else if cc_index checks + 1 < length (cc_checks checks) then
        issue x lane rid (checks\<lparr>cc_index := cc_index checks + 1\<rparr>) s
      else case Option.bind (s_volatile s) v_atomic of
          Some a \<Rightarrow> atomic_commit_binding x lane (unwrap_or (request_id x) rid)
            (on_volatile (\<lambda>v. v\<lparr>v_atomic := Some (a\<lparr>ar_checks_passed := True\<rparr>)\<rparr>) s)
        | None \<Rightarrow>
            (case record_of s of None \<Rightarrow> Fault ''checks_record'' s
             | Some r \<Rightarrow> wait x lane rid (CommitBinding (cc_sequence checks) (cc_digest checks) None True)
                 (\<lambda>i. CheckBinding i (r_binding r) (r_expires_at_ms r)) s))"

definition verdict_arrived ::
  "'c ctx \<Rightarrow> work_lane \<Rightarrow> string option \<Rightarrow> commit_checks \<Rightarrow> bool \<Rightarrow> 'c st \<Rightarrow> 'c res" where
  "verdict_arrived x lane rid checks allowed s =
     (let s = on_volatile (\<lambda>v. v\<lparr>v_capability := None\<rparr>) s in
      if volatile_is callback_executing s then
        Done (volatile_mut x (\<lambda>v. v\<lparr>v_deferred :=
          Some \<lparr>wk_lane = lane, wk_request_id = rid, wk_task = Verdict checks allowed\<rparr>\<rparr>) s)
      else verdict x lane rid checks allowed s)"

definition expire_validating :: "'c ctx \<Rightarrow> 'c st \<Rightarrow> 'c res" where
  "expire_validating x s =
     (let s = volatile_mut x (\<lambda>v. v\<lparr>v_capability := None\<rparr>) s; v = volatile_of x s in
      case (case v_work v of
              Some w \<Rightarrow> Some (w, v\<lparr>v_work := None, v_revoked_validator := map_option pn_id (v_pending v),
                                  v_pending := None\<rparr>)
            | None \<Rightarrow> (case v_deferred v of
                  Some w \<Rightarrow> Some (w, v\<lparr>v_deferred := None\<rparr>)
                | None \<Rightarrow> None)) of
        None \<Rightarrow> Fault ''expire_validating'' s
      | Some (waiting, v) \<Rightarrow>
          (let s = s\<lparr>s_volatile := Some v, s_request := wk_request_id waiting\<rparr>;
               s = set_phase x Expired (respond_error x C_CheckRejected s)
           in if volatile_is callback_executing s then
                Done (volatile_mut x (\<lambda>v. v\<lparr>v_rollback_requested := True\<rparr>) s)
              else close x Background Expired None s))"

section \<open>Callback queries\<close>

definition capability_live :: "string option \<Rightarrow> 'c st \<Rightarrow> capability option" where
  "capability_live token_hash s =
     (case s_volatile s of None \<Rightarrow> None | Some v \<Rightarrow>
      case v_capability v of None \<Rightarrow> None | Some capability \<Rightarrow>
      let validating = (is_some_and (\<lambda>r. r_phase r = Validating \<or> (r_kind r = Atomic \<and> r_phase r = Active))
                          (record_of s) \<and>
                        v_connection v = Conn_Open \<and> work_task_is is_validator (v_work v))
      in if validating \<and> is_none_or (\<lambda>hash. hash = cp_token_hash capability) token_hash
         then Some capability else None)"

definition parse_callback :: "'c ctx \<Rightarrow> string \<Rightarrow> ((string \<times> raw) list \<times> nat) option" where
  "parse_callback x text =
     (case sj_members (x_serde x) text of None \<Rightarrow> None | Some members \<Rightarrow>
      let exact = (length members = 3 \<and>
                   is_some_and (starts_with [CHR 0x22]) (btree_get ''sql'' members) \<and>
                   is_some_and (starts_with ''{'') (btree_get ''params'' members))
      in case Option.bind (btree_get ''sequence'' members) (sequence_value x) of
           None \<Rightarrow> None
         | Some sequence \<Rightarrow> if exact then Some (members, sequence) else None)"

definition callback_digest_of :: "'c ctx \<Rightarrow> string \<Rightarrow> string option" where
  "callback_digest_of x text =
     map_option (callback_digest (x_sha x) (sj_f64 (x_serde x))) (parse_json x text)"

definition wait_callback ::
  "'c ctx \<Rightarrow> string \<Rightarrow> string \<Rightarrow> callback_task \<Rightarrow> (nat \<Rightarrow> effect) \<Rightarrow> 'c st \<Rightarrow> 'c res" where
  "wait_callback x request token_hash task effect s =
     (let v = volatile_of x s; i = v_next_effect_id v
      in if i \<ge> MAX_SAFE_INTEGER then Fault ''effect_ids'' (s\<lparr>s_volatile := Some v\<rparr>)
         else Done (push (effect i) (s\<lparr>s_volatile := Some (v\<lparr>
                v_next_effect_id := i + 1,
                v_callback := Some \<lparr>cw_pending = \<lparr>pn_id = i, pn_effect = callback_awaits task\<rparr>,
                  cw_request_id = request, cw_token_hash = token_hash, cw_task = task\<rparr>\<rparr>)\<rparr>)))"

definition fail_validation :: "'c ctx \<Rightarrow> raw \<Rightarrow> 'c st \<Rightarrow> 'c res" where
  "fail_validation x reply s =
     (let s = respond_callback reply s;
          callback = v_callback (volatile_of x s);
          s = volatile_mut x (\<lambda>v. v\<lparr>v_callback := None\<rparr>) s;
          s = (case callback of None \<Rightarrow> s | Some cb \<Rightarrow> release x (callback_handle (cw_task cb)) s);
          v = volatile_of x s;
          waiting = v_work v;
          s = s\<lparr>s_volatile := Some (v\<lparr>v_capability := None,
                v_revoked_validator := map_option pn_id (v_pending v), v_pending := None, v_work := None\<rparr>)\<rparr>
      in case waiting of None \<Rightarrow> Fault ''callback_without_commit'' s
         | Some w \<Rightarrow>
             if \<not> is_validator (wk_task w) then Fault ''callback_without_commit'' s
             else close_error x Client Failed C_CheckRejected (s\<lparr>s_request := wk_request_id w\<rparr>))"

definition fail_validation_code :: "'c ctx \<Rightarrow> code \<Rightarrow> 'c st \<Rightarrow> 'c res" where
  "fail_validation_code x code = fail_validation x (error_reply (x_serde x) code)"

definition respond_callback_error :: "'c ctx \<Rightarrow> code \<Rightarrow> 'c st \<Rightarrow> 'c st" where
  "respond_callback_error x code = respond_callback (error_reply (x_serde x) code)"

text \<open>The last part of \<open>callback_query\<close>: the query is authorised and is not a retry.\<close>

definition callback_compile ::
  "'c ctx \<Rightarrow> string \<Rightarrow> capability \<Rightarrow> (string \<times> raw) list \<Rightarrow> nat \<Rightarrow> binding \<Rightarrow> nat option \<Rightarrow> 'c st \<Rightarrow> 'c res" where
  "callback_compile x text capability members sequence binding deadline s =
     (case compile_members x (cp_session capability) members (s_compiler s) of (result, c) \<Rightarrow>
      let s = s\<lparr>s_compiler := c\<rparr> in
      case result of
        Inl e \<Rightarrow> fail_validation x (core_error_reply (x_serde x) e) (log_core_error x e s)
      | Inr compiled \<Rightarrow>
          (let handle = cd_handle compiled;
               s = s\<lparr>s_allocated := s_allocated s @ [handle]\<rparr>;
               s = volatile_mut x (\<lambda>v. v\<lparr>v_handles := v_handles v @ [handle]\<rparr>) s
           in if \<not> read_only compiled \<or> length (cd_statements compiled) \<noteq> 1 then
                fail_validation_code x C_Conflict (release x handle s)
              else case callback_digest_of x text of
                  None \<Rightarrow> fail_validation_code x C_Internal (release x handle s)
                | Some digest \<Rightarrow>
                    wait_callback x (request_id x) (cp_token_hash capability)
                      (CbBinding sequence digest handle
                         \<lparr>vs_schema = cd_schema_version compiled, vs_policy = cd_policy_version compiled\<rparr>)
                      (\<lambda>i. CheckBinding i binding deadline) s))"

text \<open>The middle part: an exact retry of the last query is answered from the record.\<close>

definition callback_retry ::
  "'c ctx \<Rightarrow> string \<Rightarrow> capability \<Rightarrow> (string \<times> raw) list \<Rightarrow> nat \<Rightarrow> binding \<Rightarrow> nat option \<Rightarrow> 'c st \<Rightarrow> 'c res" where
  "callback_retry x text capability members sequence binding deadline s =
     (let fresh = (\<lambda>s. if sequence \<noteq> cp_next_sequence capability \<or>
                       sequence > lim_max_transaction_statements (x_limits x)
                     then fail_validation_code x C_Conflict s
                     else callback_compile x text capability members sequence binding deadline s)
      in case cp_last capability of None \<Rightarrow> fresh s
         | Some prior \<Rightarrow>
             if sequence + 1 \<noteq> cp_next_sequence capability then fresh s
             else (case may_repeat_members x (cp_session capability) members (s_compiler s) of (repeats, c) \<Rightarrow>
               let s = s\<lparr>s_compiler := c\<rparr> in
               if \<not> repeats then fresh s
               else case callback_digest_of x text of
                   None \<Rightarrow> fail_validation_code x C_Internal s
                 | Some digest \<Rightarrow>
                     if same_hash digest (rp_digest prior)
                     then Done (respond_callback (value_reply (x_serde x) (rp_response prior)) s)
                     else fresh s))"

text \<open>A capability is presented: its syntax, its hash and its expiry.\<close>

definition presented :: "'c ctx \<Rightarrow> string \<Rightarrow> capability \<Rightarrow> bool" where
  "presented x token capability =
     (token_syntax token \<and> same_hash (x_sha x token) (cp_token_hash capability) \<and>
      now_ms x < cp_expires_at_ms capability)"

definition callback_query :: "'c ctx \<Rightarrow> json \<Rightarrow> 'c st \<Rightarrow> 'c res" where
  "callback_query x input s =
     (if \<not> exact_object input [''kind'', ''validationId'', ''capability'', ''command''] [] then
        Done (respond_callback_error x C_Invalid s)
      else case (field_text ''validationId'' input, field_text ''capability'' input, field_text ''command'' input) of
        (Some validation, Some token, Some text) \<Rightarrow>
          if \<not> is_some_and (\<lambda>hex. strip_prefix ''tx_'' (x_owner x) = Some hex) (strip_prefix ''cval_'' validation)
          then Done (respond_callback_error x C_Unavailable s)
          else if volatile_is (\<lambda>v. is_some (v_callback v)) s then Done (respond_callback_error x C_Internal s)
          else (case capability_live None s of None \<Rightarrow> Done (respond_callback_error x C_Unavailable s)
            | Some capability \<Rightarrow>
                if \<not> presented x token capability then fail_validation_code x C_Unavailable s
                else case parse_callback x text of None \<Rightarrow> fail_validation_code x C_Unavailable s
                | Some (members, sequence) \<Rightarrow>
                  (case record_of s of None \<Rightarrow> Fault ''callback_record'' s
                   | Some r \<Rightarrow>
                       if is_none_or (\<lambda>deadline. now_ms x \<ge> deadline) (r_expires_at_ms r) \<or>
                          r_snapshot r \<noteq> snapshot_of x
                       then fail_validation_code x C_Unavailable s
                       else callback_retry x text capability members sequence (r_binding r)
                         (map_option (\<lambda>deadline. min deadline (cp_expires_at_ms capability)) (r_expires_at_ms r)) s))
      | _ \<Rightarrow> Done (respond_callback_error x C_Invalid s))"

definition after_callback :: "'c ctx \<Rightarrow> 'c st \<Rightarrow> 'c res" where
  "after_callback x s =
     (let deferred = Option.bind (s_volatile s) v_deferred;
          s = on_volatile (\<lambda>v. v\<lparr>v_deferred := None\<rparr>) s
      in case deferred of
           Some w \<Rightarrow> (case wk_task w of
               Verdict checks allowed \<Rightarrow> verdict x (wk_lane w) (wk_request_id w) checks allowed s
             | _ \<Rightarrow> Fault ''deferred_task'' s)
         | None \<Rightarrow>
             (let idle = (work_of s = None \<and> connection_of s = Conn_Open);
                  ended = is_some_and (\<lambda>d. is_terminal (durable_phase d)) (s_durable s)
              in if rollback_requested s \<and> idle \<and> ended then
                   close x Background (case s_durable s of None \<Rightarrow> Failed | Some d \<Rightarrow> durable_phase d) None s
                 else Done s))"

definition callback_failed :: "'c ctx \<Rightarrow> bool \<Rightarrow> raw \<Rightarrow> 'c st \<Rightarrow> 'c res" where
  "callback_failed x live reply s =
     (if live then fail_validation x reply s
      else after_callback x (respond_callback_error x C_Unavailable s))"

definition callback_response ::
  "'c ctx \<Rightarrow> nat \<Rightarrow> validated \<Rightarrow> string \<Rightarrow> versions \<Rightarrow> string \<Rightarrow> string + raw" where
  "callback_response x sequence v request versions role =
     (case redactions_of v of Inl e \<Rightarrow> Inl e
      | Inr redactions \<Rightarrow>
          (let text = sj_write (x_serde x) (DObj
                [(''sequence'', DNat sequence), (''columns'', DArr (map DStr (vd_columns v))),
                 (''rows'', DArr (map (row_doc (vd_columns v)) (vd_rows v))),
                 (''rowCount'', DNat (length (vd_rows v))),
                 (''meta'', DObj [(''operation'', DStr (operation_str Select)),
                    (''result'', DObj [(''columns'', DArr (map DRaw (vd_result_columns v))),
                                      (''redactions'', DArr redactions)]),
                    (''requestId'', DStr request), (''policyVersion'', DStr (vs_policy versions)),
                    (''schemaVersion'', DStr (vs_schema versions)), (''role'', DStr role)])])
           in if sj_valid (x_serde x) text then Inr text else Inl ''callback_shape''))"

definition callback_executed ::
  "'c ctx \<Rightarrow> capability option \<Rightarrow> string \<Rightarrow> nat \<Rightarrow> string \<Rightarrow> nat \<Rightarrow> versions \<Rightarrow> driver_result list
     \<Rightarrow> 'c st \<Rightarrow> 'c res" where
  "callback_executed x live request sequence digest handle versions results s =
     (case live of None \<Rightarrow> after_callback x (respond_callback_error x C_Unavailable (release x handle s))
      | Some capability \<Rightarrow>
      case results of
        [result] \<Rightarrow>
          (case codec_failure result of Some code \<Rightarrow> fail_validation_code x code (release x handle s)
           | None \<Rightarrow>
           case statement_budget x handle s of Inl e \<Rightarrow> Fault e s
           | Inr budget \<Rightarrow>
             (let raw = \<lparr>rr_columns = dr_columns result, rr_rows = dr_rows result,
                         rr_affected_rows = dr_rows_affected result\<rparr>;
                  validated = c_validate (x_compiler x) (s_compiler s) handle 0 raw budget;
                  s = release x handle s
              in case validated of
                   Inl e \<Rightarrow> fail_validation x (core_error_reply (x_serde x) e) (log_core_error x e s)
                 | Inr v \<Rightarrow>
                     (case callback_response x sequence v request versions (cp_role capability) of
                        Inl e \<Rightarrow> Fault e s
                      | Inr response \<Rightarrow>
                          (let rows = sat_add u64_max (cp_rows capability) (length (vd_rows v));
                               result_bytes = sat_add u64_max (cp_result_bytes capability) (length response)
                           in if rows > lim_max_callback_rows (x_limits x) \<or>
                                 result_bytes > lim_max_transaction_result_bytes (x_limits x)
                              then fail_validation_code x C_TransactionLimit s
                              else Done (respond_callback (value_reply (x_serde x) response)
                                (on_volatile (\<lambda>v. v\<lparr>v_capability := map_option (\<lambda>live. live\<lparr>
                                   cp_next_sequence := wrap_add u64_max sequence 1,
                                   cp_last := Some \<lparr>rp_digest = digest, rp_response = raw_of (x_serde x) response\<rparr>,
                                   cp_rows := rows, cp_result_bytes := result_bytes\<rparr>) (v_capability v)\<rparr>) s))))))
      | _ \<Rightarrow> fail_validation_code x C_Internal (release x handle s))"

text \<open>The calls of a plan, and its read cap.\<close>

definition plan_calls :: "'c ctx \<Rightarrow> nat \<Rightarrow> 'c st \<Rightarrow> string + driver_call list \<times> nat" where
  "plan_calls x handle s =
     (case c_statements (x_compiler x) (s_compiler s) handle of Inl _ \<Rightarrow> Inl ''plan'' | Inr statements \<Rightarrow>
      case all_inr (map (\<lambda>d. driver_call_of (ds_sql d) d) statements) of Inl e \<Rightarrow> Inl e | Inr calls \<Rightarrow>
      case c_raw_result_bound (x_compiler x) (s_compiler s) handle of Inl _ \<Rightarrow> Inl ''plan''
      | Inr max_response_bytes \<Rightarrow> Inr (calls, max_response_bytes))"

definition callback_bound ::
  "'c ctx \<Rightarrow> capability option \<Rightarrow> string \<Rightarrow> string \<Rightarrow> nat \<Rightarrow> string \<Rightarrow> nat \<Rightarrow> versions \<Rightarrow> 'c st \<Rightarrow> 'c res" where
  "callback_bound x live request token_hash sequence digest handle versions s =
     (case live of None \<Rightarrow> after_callback x (respond_callback_error x C_Unavailable (release x handle s))
      | Some capability \<Rightarrow>
      case record_of s of None \<Rightarrow> Fault ''callback_record'' s
      | Some r \<Rightarrow>
          if is_none_or (\<lambda>deadline. now_ms x \<ge> deadline) (r_expires_at_ms r) \<or>
             now_ms x \<ge> cp_expires_at_ms capability \<or> r_snapshot r \<noteq> snapshot_of x
          then fail_validation_code x C_Unavailable (release x handle s)
          else case plan_calls x handle s of Inl e \<Rightarrow> Fault e s
            | Inr (calls, max_response_bytes) \<Rightarrow>
                wait_callback x request token_hash (CbExecute sequence digest handle versions)
                  (\<lambda>i. Execute i calls None max_response_bytes) s)"

definition callback_outcome :: "'c ctx \<Rightarrow> event \<Rightarrow> 'c st \<Rightarrow> 'c res" where
  "callback_outcome x event s =
     (case Option.bind (s_volatile s) v_callback of None \<Rightarrow> Fault ''no_callback'' s
      | Some callback \<Rightarrow>
          (let s = on_volatile (\<lambda>v. v\<lparr>v_callback := None\<rparr>) s;
               live = capability_live (Some (cw_token_hash callback)) s;
               request = cw_request_id callback
           in case cw_task callback of
                CbBinding sequence digest handle versions \<Rightarrow>
                  (case event of
                     Ev_BindingChecked _ allowed \<Rightarrow>
                       if allowed then callback_bound x live request (cw_token_hash callback) sequence digest
                         handle versions s
                       else callback_failed x (is_some live) (error_reply (x_serde x) C_BindingRejected)
                         (release x handle s)
                   | Ev_BindingCheckFailed _ class \<Rightarrow>
                       callback_failed x (is_some live) (error_reply (x_serde x) (for_class class))
                         (release x handle s)
                   | Ev_ExecuteFailed _ _ _ _ _ \<Rightarrow>
                       callback_failed x (is_some live) (error_reply (x_serde x) C_Internal) (release x handle s)
                   | _ \<Rightarrow> Fault ''unexpected_callback_outcome'' s)
              | CbExecute sequence digest handle versions \<Rightarrow>
                  (case event of
                     Ev_ExecuteFailed _ class statement database_code cause \<Rightarrow>
                       (case execute_failed_reply x (for_class class) class
                               \<lparr>fd_statement = statement, fd_database_code = database_code, fd_cause = cause,
                                fd_versions = Some versions\<rparr> (release x handle s) of
                          (reply, s) \<Rightarrow> callback_failed x (is_some live) reply s)
                   | Ev_BindingCheckFailed _ _ \<Rightarrow>
                       callback_failed x (is_some live) (error_reply (x_serde x) C_Internal) (release x handle s)
                   | Ev_Executed _ results \<Rightarrow>
                       callback_executed x live request sequence digest handle versions results s
                   | _ \<Rightarrow> Fault ''unexpected_callback_outcome'' s)))"

end
