(* ===== verification/Tx_Atomic.thy ===== *)
theory Tx_Atomic
  imports Tx_Checks "HOL-Library.Product_Lexorder"
begin

text \<open>
  Atomic execution and the engine-side \<open>request\<close> kind
  (\<^verbatim>\<open>src/crates/policysql-transaction/src/machine/step/atomic.rs\<close>): reading the request, the
  idempotency identity, forwarding to an owner, opening, the idempotency lookup with its replay,
  the envelope with its cumulative limits, the commit checks, the idempotency row and the one
  \<open>COMMIT\<close>.

  Sums of lengths of values held in memory are plain sums.
\<close>

definition LOOKUP_SQL :: string where
  "LOOKUP_SQL = ''SELECT fingerprint, response_json FROM policysql_idempotency WHERE key_hash = :key_hash''"

definition INSERT_SQL :: string where
  "INSERT_SQL = ''INSERT INTO policysql_idempotency (key_hash, fingerprint, response_json) VALUES (:key_hash, :fingerprint, :response_json)''"

section \<open>Reading the inputs\<close>

record execute_request =
  er_auth :: json
  er_binding :: binding
  er_binding_value :: json
  er_snapshot :: string
  er_body :: string
  er_key :: "json option"
  er_trace :: bool

definition read_execute :: "'c ctx \<Rightarrow> json \<Rightarrow> code + execute_request" where
  "read_execute x operation =
     (if \<not> exact_object operation [''kind'', ''auth'', ''databaseBinding'', ''snapshot'', ''bodyText'']
           [''idempotencyKey'', ''trace''] then Inl C_Invalid
      else case (field_text ''kind'' operation = Some ''execute'', field_text ''bodyText'' operation,
                 field_text ''snapshot'' operation) of
        (True, Some body, Some snapshot) \<Rightarrow>
          (case (case json_get ''trace'' operation of
                   None \<Rightarrow> Some False | Some (JBool b) \<Rightarrow> Some b | Some _ \<Rightarrow> None) of
             None \<Rightarrow> Inl C_Invalid
           | Some trace \<Rightarrow>
               (case Option.bind (opt_filter is_object (json_get ''auth'' operation)) (to_json x) of
                  None \<Rightarrow> Inl C_Internal
                | Some auth \<Rightarrow>
                    (case json_get ''databaseBinding'' operation of
                       None \<Rightarrow> Inl C_Invalid
                     | Some binding_value \<Rightarrow>
                         (case parse_binding x binding_value of
                            None \<Rightarrow> Inl C_BindingRejected
                          | Some binding \<Rightarrow>
                              if bd_snapshot binding \<noteq> snapshot then Inl C_Stale
                              else Inr \<lparr>er_auth = auth, er_binding = binding, er_binding_value = binding_value,
                                er_snapshot = snapshot, er_body = body,
                                er_key = json_get ''idempotencyKey'' operation, er_trace = trace\<rparr>))))
      | _ \<Rightarrow> Inl C_Invalid)"

record atomic_input_fields =
  ai_auth :: json
  ai_binding :: binding
  ai_snapshot :: string
  ai_body :: string
  ai_idempotency :: "idempotency option"

definition read_idempotency :: "'c ctx \<Rightarrow> string \<Rightarrow> json option \<Rightarrow> code + idempotency option" where
  "read_idempotency x hex value =
     (case value of
        None \<Rightarrow> Inr None
      | Some JNull \<Rightarrow> Inr None
      | Some v \<Rightarrow>
          (case sj_idempotency (x_serde x) v of
             None \<Rightarrow> Inl C_Invalid
           | Some parsed \<Rightarrow>
               if \<not> hex64 (ip_key_hash parsed) \<or> \<not> hex64 (ip_fingerprint parsed) \<or>
                  slice (ip_key_hash parsed) 0 32 \<noteq> Some hex then Inl C_Invalid
               else Inr (Some parsed)))"

definition read_atomic :: "'c ctx \<Rightarrow> json \<Rightarrow> code + atomic_input_fields" where
  "read_atomic x input =
     (if \<not> exact_object input [''kind'', ''validationId'', ''auth'', ''request'', ''databaseBinding'', ''snapshot'']
           [''idempotency''] then Inl C_Invalid
      else (case strip_prefix ''tx_'' (x_owner x) of
        None \<Rightarrow> Inl C_Internal
      | Some hex \<Rightarrow>
          (case (Option.bind (field_text ''validationId'' input) (strip_prefix ''cval_'') = Some hex,
                 field_text ''request'' input, field_text ''snapshot'' input) of
             (True, Some body, Some snapshot) \<Rightarrow>
               (case read_idempotency x hex (json_get ''idempotency'' input) of
                  Inl code \<Rightarrow> Inl code
                | Inr idempotency \<Rightarrow>
                    (case Option.bind (opt_filter is_object (json_get ''auth'' input)) (to_json x) of
                       None \<Rightarrow> Inl C_Invalid
                     | Some auth \<Rightarrow>
                         (case json_get ''databaseBinding'' input of
                            None \<Rightarrow> Inl C_Invalid
                          | Some binding_value \<Rightarrow>
                              (case parse_binding x binding_value of
                                 None \<Rightarrow> Inl C_BindingRejected
                               | Some binding \<Rightarrow>
                                   Inr \<lparr>ai_auth = auth, ai_binding = binding, ai_snapshot = snapshot,
                                     ai_body = body, ai_idempotency = idempotency\<rparr>))))
           | _ \<Rightarrow> Inl C_Invalid)))"

text \<open>\<open>identity::compute\<close> answers the \<open>request\<close> operation with the identity, whose JSON the code
  reads back; the text in between is not represented.\<close>

definition request_idempotency :: "'c ctx \<Rightarrow> execute_request \<Rightarrow> code + idempotency option" where
  "request_idempotency x request =
     (case to_json x (er_binding_value request) of
        None \<Rightarrow> Inl C_Internal
      | Some binding \<Rightarrow>
          (let members = [(''op'', JString ''request''), (''endpoint'', JString ''execute''),
                 (''auth'', er_auth request), (''binding'', binding), (''body'', JString (er_body request))] @
                 (case er_key request of None \<Rightarrow> []
                  | Some key \<Rightarrow> [(''key'', unwrap_or JNull (to_json x key))])
           in case identity_compute (x_sha x) (sj_f64 (x_serde x)) (sj_tree (x_serde x))
                   (canon x (JObject members)) (max_hash_input_bytes (x_usize_max x) (x_limits x)) of
                Inr (WithIdempotency key_hash fingerprint) \<Rightarrow>
                  Inr (Some \<lparr>ip_key_hash = key_hash, ip_fingerprint = fingerprint\<rparr>)
              | Inr _ \<Rightarrow> Inr None
              | Inl KeyInvalid \<Rightarrow> Inl C_KeyInvalid
              | Inl IdInternal \<Rightarrow> Inl C_Internal))"

section \<open>Limits and failures\<close>

text \<open>\<open>name.chars()\<close>: the code points of UTF-8 text.\<close>

fun code_points :: "string \<Rightarrow> nat list" where
  "code_points [] = []"
| "code_points (a # b # c # d # rest) =
     (if byte a \<ge> 240 then
        ((byte a - 240) * 262144 + (byte b - 128) * 4096 + (byte c - 128) * 64 + (byte d - 128)) # code_points rest
      else if byte a \<ge> 224 then
        ((byte a - 224) * 4096 + (byte b - 128) * 64 + (byte c - 128)) # code_points (d # rest)
      else if byte a \<ge> 192 then ((byte a - 192) * 64 + (byte b - 128)) # code_points (c # d # rest)
      else byte a # code_points (b # c # d # rest))"
| "code_points [a, b, c] =
     (if byte a \<ge> 224 then [(byte a - 224) * 4096 + (byte b - 128) * 64 + (byte c - 128)]
      else if byte a \<ge> 192 then ((byte a - 192) * 64 + (byte b - 128)) # code_points [c]
      else byte a # code_points [b, c])"
| "code_points [a, b] =
     (if byte a \<ge> 192 then [(byte a - 192) * 64 + (byte b - 128)] else byte a # code_points [b])"
| "code_points [a] = [byte a]"

definition collation_key :: "'c ctx \<Rightarrow> string \<Rightarrow> (nat \<times> nat) list \<times> bool list \<times> string" where
  "collation_key x name =
     (let primary = map (\<lambda>c. (if 48 \<le> c \<and> c \<le> 57 then 1 else if x_alphabetic x c then 2 else 0,
                             if 65 \<le> c \<and> c \<le> 90 then c + 32 else c)) (code_points name);
          tertiary = map (x_uppercase x) (code_points name)
      in (primary, tertiary, name))"

fun row_bytes :: "(f64 \<Rightarrow> string) \<Rightarrow> nat \<Rightarrow> (string \<times> json) list \<Rightarrow> nat" where
  "row_bytes sf position [] = 0"
| "row_bytes sf position ((column, v) # rest) =
     (if position > 0 then 1 else 0) + (js_string_len column + 1 + js_value_len sf v) +
     row_bytes sf (Suc position) rest"

fun rows_bytes_from :: "(f64 \<Rightarrow> string) \<Rightarrow> string list \<Rightarrow> nat \<Rightarrow> json list list \<Rightarrow> nat" where
  "rows_bytes_from sf columns index [] = 0"
| "rows_bytes_from sf columns index (values # rest) =
     (if index > 0 then 1 else 0) + 2 + row_bytes sf 0 (zip columns values) +
     rows_bytes_from sf columns (Suc index) rest"

definition rows_bytes :: "(f64 \<Rightarrow> string) \<Rightarrow> validated \<Rightarrow> nat" where
  "rows_bytes sf v = 2 + rows_bytes_from sf (vd_columns v) 0 (vd_rows v)"

fun commit_failure :: "err_class \<Rightarrow> code" where
  "commit_failure Timeout = C_DatabaseTimeout"
| "commit_failure Unavailable = C_DatabaseUnavailable"
| "commit_failure NotCommitted = C_Unavailable"
| "commit_failure _ = C_Internal"

definition execute_failure :: "task \<Rightarrow> err_class \<Rightarrow> bool \<Rightarrow> code" where
  "execute_failure task class later_write =
     (if task \<in> {AtomicLookup, AtomicInsert} \<and> class \<in> {Limit, Complex} then C_Internal
      else if task = AtomicExecute \<and> class = Limit \<and> later_write then C_Internal
      else for_class class)"

definition has_later_write :: "atomic_statement list \<Rightarrow> bool" where
  "has_later_write statements = list_ex (\<lambda>a. as_operation a \<noteq> Select) (drop 1 statements)"

definition strictest :: "atomic_statement list \<Rightarrow> (statement_limits \<Rightarrow> nat) \<Rightarrow> nat" where
  "strictest statements limit = (case map (\<lambda>a. limit (as_limits a)) statements of
       [] \<Rightarrow> 0 | l # ls \<Rightarrow> fold min ls l)"

section \<open>The run\<close>

definition atomic_run_of :: "'c st \<Rightarrow> atomic_run option" where
  "atomic_run_of s = Option.bind (s_volatile s) v_atomic"

definition atomic_on_owner :: "'c st \<Rightarrow> bool" where
  "atomic_on_owner s = is_some_and (\<lambda>a. ar_placement a = Owner) (atomic_run_of s)"

definition abort :: "'c ctx \<Rightarrow> raw \<Rightarrow> 'c st \<Rightarrow> 'c st" where
  "abort x reply s = respond reply (clear_work
     (on_volatile (\<lambda>v. v\<lparr>v_atomic := None, v_connection := Conn_None\<rparr>) (release_all x s)))"

definition abort_error :: "'c ctx \<Rightarrow> code \<Rightarrow> 'c st \<Rightarrow> 'c st" where
  "abort_error x code = abort x (error_reply (x_serde x) code)"

definition trace_parameters :: "'c ctx \<Rightarrow> driver_statement \<Rightarrow> doc list" where
  "trace_parameters x d =
     map (\<lambda>(name, source). DObj [(''name'', DStr name), (''source'', DStr source), (''value'', DStr ''[redacted]'')])
       (sort_key (\<lambda>(name, source). collation_key x name)
          (map (\<lambda>(name, _). (name, ''client'')) (ds_client_parameters d) @
           map (\<lambda>(name, _). (name, ''server'')) (ds_server_parameters d)))"

definition trace_doc :: "string \<Rightarrow> string \<Rightarrow> doc list \<Rightarrow> doc" where
  "trace_doc request disposition statements = DObj [(''source'', DStr ''turso-egress''),
     (''requestId'', DStr request), (''disposition'', DStr disposition), (''attempt'', DNat 1),
     (''statements'', DArr statements)]"

definition trace_inputs :: "'c ctx \<Rightarrow> string \<Rightarrow> string list" where
  "trace_inputs x body = (case sj_body (x_serde x) body of
       None \<Rightarrow> []
     | Some statements \<Rightarrow>
         map (\<lambda>m. unwrap_or [] (Option.bind (btree_get ''sql'' m) (sj_string (x_serde x)))) statements)"

definition trace :: "'c ctx \<Rightarrow> nat \<Rightarrow> atomic_statement list \<Rightarrow> string \<Rightarrow> string \<Rightarrow> 'c st \<Rightarrow> string + raw" where
  "trace x handle statements body request s =
     (case c_statements (x_compiler x) (s_compiler s) handle of
        Inl _ \<Rightarrow> Inl ''plan''
      | Inr driver \<Rightarrow>
          (let inputs = trace_inputs x body;
               traced = map (\<lambda>(index, (d, a)). DObj (
                   [(''index'', DNat index), (''operation'', DStr (operation_str (as_operation a)))] @
                   dskip ''resource'' DStr (as_resource a) @
                   [(''inputSql'', DStr (if index < length inputs then inputs ! index else [])),
                    (''executedSql'', DStr (ds_sql d)), (''parameters'', DArr (trace_parameters x d))]))
                 (enumerate 0 (zip driver statements))
           in Inr (to_raw (x_serde x) (trace_doc request ''executed'' traced))))"

record atomic_start =
  at_placement :: placement
  at_compiled :: compiled
  at_auth :: string
  at_binding :: binding
  at_idempotency :: "idempotency option"
  at_transaction_id :: string
  at_request_id :: string
  at_trace :: "string option"
  at_debug :: bool

definition atomic_statements_of :: "compiled \<Rightarrow> atomic_statement list" where
  "atomic_statements_of c = map (\<lambda>s. \<lparr>as_operation = ss_operation s, as_resource = ss_resource s,
     as_limits = ss_limits s, as_explain_resource = ss_explain_resource s\<rparr>) (cd_statements c)"

definition start_atomic :: "'c ctx \<Rightarrow> atomic_start \<Rightarrow> 'c st \<Rightarrow> 'c res" where
  "start_atomic x st s =
     (let compiled = at_compiled st;
          statements = atomic_statements_of compiled;
          timeout_ms = strictest statements sl_timeout_ms;
          now = now_ms x;
          budget = (case at_placement st of Direct \<Rightarrow> timeout_ms | Owner \<Rightarrow> lim_transaction_ms (x_limits x))
      in if statements = [] then Fault ''atomic_statements'' s
         else (case opt_filter (\<lambda>deadline. deadline \<le> MAX_TIME_MS) (checked_add u64_max now budget) of
            None \<Rightarrow> Fault ''deadline'' s
          | Some deadline_ms \<Rightarrow>
              (case Option.bind (parse_json x (at_auth st)) (field_text ''role'') of
                 None \<Rightarrow> Fault ''role'' s
               | Some role \<Rightarrow>
                   (case (case at_trace st of None \<Rightarrow> Inr None
                          | Some body \<Rightarrow> map_sum id Some
                              (trace x (cd_handle compiled) statements body (at_request_id st) s)) of
                      Inl e \<Rightarrow> Fault e s
                    | Inr tr \<Rightarrow>
                        (let run = \<lparr>ar_placement = at_placement st, ar_transaction_id = at_transaction_id st,
                               ar_request_id = at_request_id st, ar_auth = at_auth st, ar_role = role,
                               ar_binding = at_binding st, ar_handle = cd_handle compiled,
                               ar_statements = statements,
                               ar_versions = \<lparr>vs_schema = cd_schema_version compiled,
                                              vs_policy = cd_policy_version compiled\<rparr>,
                               ar_idempotency = at_idempotency st, ar_started_at_ms = now,
                               ar_expires_at_ms = (if at_placement st = Owner then Some deadline_ms else None),
                               ar_debug = at_debug st, ar_trace = tr, ar_results = None, ar_usage = None,
                               ar_mutations = [], ar_checks_passed = False\<rparr>;
                             mode = (if read_only compiled then Read else Write)
                         in wait x Client (Some (at_request_id st)) AtomicOpen
                              (\<lambda>i. Open i (at_binding st) mode timeout_ms deadline_ms)
                              (volatile_mut x (\<lambda>v. v\<lparr>v_atomic := Some run, v_connection := Opening\<rparr>) s))))))"

section \<open>The request kind\<close>

definition request_event :: "'c ctx \<Rightarrow> json \<Rightarrow> 'c st \<Rightarrow> 'c res" where
  "request_event x operation s =
     (if on_owner x \<or> s_volatile s \<noteq> None then Done (respond_error x C_Internal s)
      else (case read_execute x operation of
          Inl code \<Rightarrow> Done (respond_error x code s)
        | Inr request \<Rightarrow>
            if er_snapshot request \<noteq> snapshot_of x then Done (respond_error x C_Stale s)
            else wait x Client (Some (request_id x))
              (RequestBinding (to_raw (x_serde x) (DVal operation)))
              (\<lambda>i. CheckBinding i (er_binding request) None) s))"

text \<open>The handle of a compile is recorded twice: for a fault in this step, and as live.\<close>

definition allocate :: "'c ctx \<Rightarrow> nat \<Rightarrow> 'c st \<Rightarrow> 'c st" where
  "allocate x handle s =
     volatile_mut x (\<lambda>v. v\<lparr>v_handles := v_handles v @ [handle]\<rparr>)
       (s\<lparr>s_allocated := s_allocated s @ [handle]\<rparr>)"

definition mutated_resources :: "compiled \<Rightarrow> string list" where
  "mutated_resources c = List.map_filter ss_resource (filter (\<lambda>s. ss_operation s \<noteq> Select) (cd_statements c))"

definition idempotency_value :: "idempotency \<Rightarrow> json" where
  "idempotency_value i = json_obj [(''keyHash'', JString (ip_key_hash i)), (''fingerprint'', JString (ip_fingerprint i))]"

definition forward_owner :: "'c ctx \<Rightarrow> string \<Rightarrow> execute_request \<Rightarrow> string \<Rightarrow> idempotency option \<Rightarrow> 'c st \<Rightarrow> 'c res" where
  "forward_owner x request request_fields auth_text idempotency s =
     (case (case idempotency of Some i \<Rightarrow> slice (ip_key_hash i) 0 32 | None \<Rightarrow> entropy_id (x_host x)) of
        None \<Rightarrow> Fault ''validation_id'' s
      | Some hex \<Rightarrow>
          (case sj_value (x_serde x) auth_text of
             None \<Rightarrow> Fault ''auth'' s
           | Some auth \<Rightarrow>
               (let input = json_obj ([(''kind'', JString ''atomic''), (''validationId'', JString (''cval_'' @ hex)),
                      (''auth'', auth), (''request'', JString (er_body request_fields)),
                      (''databaseBinding'', er_binding_value request_fields),
                      (''snapshot'', JString (er_snapshot request_fields))] @
                      (case idempotency of None \<Rightarrow> [] | Some i \<Rightarrow> [(''idempotency'', idempotency_value i)]))
                in wait x Client (Some request) AtomicForward
                     (\<lambda>i. Forward i (''tx_'' @ hex) Lane_Client (to_raw (x_serde x) (DVal input))) s)))"

definition has_debug :: "json \<Rightarrow> bool" where
  "has_debug auth = (case json_get ''access'' auth of
     Some (JArray access) \<Rightarrow> JString ''debug'' \<in> set access | _ \<Rightarrow> False)"

definition request_compiled ::
  "'c ctx \<Rightarrow> string \<Rightarrow> execute_request \<Rightarrow> string \<Rightarrow> compiled \<Rightarrow> 'c st \<Rightarrow> 'c res" where
  "request_compiled x rid request auth_text compiled s =
     (let write = (\<not> read_only compiled) in
      case (if write then request_idempotency x request else Inr None) of
        Inl code \<Rightarrow> Done (abort_error x code s)
      | Inr idempotency \<Rightarrow>
          if write \<and> c_triggered_checks (x_compiler x) (mutated_resources compiled) \<noteq> [] then
            forward_owner x rid request auth_text idempotency (release x (cd_handle compiled) s)
          else start_atomic x
            \<lparr>at_placement = Direct, at_compiled = compiled, at_auth = auth_text,
             at_binding = er_binding request, at_idempotency = idempotency,
             at_transaction_id = (case idempotency of
                 Some i \<Rightarrow> ''atomic_'' @ take 24 (ip_key_hash i) | None \<Rightarrow> ''atomic_'' @ rid),
             at_request_id = rid, at_trace = (if er_trace request then Some (er_body request) else None),
             at_debug = (er_trace request \<and> has_debug (er_auth request))\<rparr> s)"

definition request_checked :: "'c ctx \<Rightarrow> string option \<Rightarrow> raw \<Rightarrow> 'c st \<Rightarrow> 'c res" where
  "request_checked x rid operation s =
     (let rid = unwrap_or (request_id x) rid in
      case sj_value (x_serde x) operation of
        None \<Rightarrow> Fault ''request_operation'' s
      | Some operation \<Rightarrow>
          (case read_execute x operation of
             Inl _ \<Rightarrow> Fault ''request_operation'' s
           | Inr request \<Rightarrow>
               (let auth_text = canon x (er_auth request) in
                case c_compile (x_compiler x) (s_compiler s) auth_text (er_body request) of
                  (Inl e, c) \<Rightarrow>
                    Done (abort x (if er_key request \<noteq> None then error_reply (x_serde x) C_Internal
                                   else core_error_reply (x_serde x) e)
                      (log_core_error x e (s\<lparr>s_compiler := c\<rparr>)))
                | (Inr compiled, c) \<Rightarrow>
                    request_compiled x rid request auth_text compiled
                      (allocate x (cd_handle compiled) (s\<lparr>s_compiler := c\<rparr>)))))"

definition public_code :: "string \<Rightarrow> bool" where
  "public_code code = is_some_and (\<lambda>rest. rest \<noteq> [] \<and>
     list_all (\<lambda>b. is_ascii_uppercase b \<or> is_ascii_digit b \<or> b = CHR ''_'') rest)
     (strip_prefix ''POLICYSQL_'' code)"

definition shaped_reply :: "'c ctx \<Rightarrow> json \<Rightarrow> raw option" where
  "shaped_reply x reply =
     (case json_get ''ok'' reply of
        Some (JBool True) \<Rightarrow>
          if exact_object reply [''ok'', ''value''] [] then
            map_option (\<lambda>v. value_reply (x_serde x) (to_raw (x_serde x) (DVal v)))
              (opt_filter is_object (json_get ''value'' reply))
          else None
      | Some (JBool False) \<Rightarrow>
          if exact_object reply [''ok'', ''error''] [] then
            (case json_get ''error'' reply of
               None \<Rightarrow> None
             | Some error \<Rightarrow>
                 if exact_object error [''code'', ''message'', ''path''] [] \<and>
                    is_some_and public_code (field_text ''code'' error) \<and>
                    is_some_and is_string (json_get ''message'' error) \<and>
                    is_some_and (\<lambda>path. is_null path \<or> is_string path) (json_get ''path'' error)
                 then Some (to_raw (x_serde x) (DVal reply)) else None)
          else None
      | _ \<Rightarrow> None)"

definition owner_replied :: "'c ctx \<Rightarrow> json \<Rightarrow> 'c st \<Rightarrow> 'c st" where
  "owner_replied x reply s =
     (let s = clear_work s in
      case shaped_reply x reply of
        Some r \<Rightarrow> respond r s
      | None \<Rightarrow> respond_error x C_Internal (log_value x (json_obj
          [(''event'', JString ''owner_reply_rejected''), (''requestId'', jopt JString (s_request s))]) s))"

section \<open>The owner's atomic input\<close>

text \<open>\<open>busy\<close> of \<open>step.rs\<close>: what a client event gets while other work is in progress.\<close>

definition busy :: "'c st \<Rightarrow> code option" where
  "busy s = (if volatile_is (\<lambda>v. is_some (v_deferred v)) s then Some C_Internal
     else map_option (\<lambda>w. case wk_lane w of Client \<Rightarrow> C_Internal | Background \<Rightarrow> C_Unavailable) (work_of s))"

definition atomic_input :: "'c ctx \<Rightarrow> json \<Rightarrow> 'c st \<Rightarrow> 'c res" where
  "atomic_input x input s =
     (if is_some_and (\<lambda>snapshot. snapshot \<noteq> snapshot_of x) (field_text ''snapshot'' input) then
        Done (snapshot_skew x ''atomic'' s)
      else (case read_atomic x input of
          Inl code \<Rightarrow> Done (respond_error x code s)
        | Inr parsed \<Rightarrow>
            if bd_snapshot (ai_binding parsed) \<noteq> ai_snapshot parsed then Done (respond_error x C_Stale s)
            else if busy s \<noteq> None \<or> is_some_and (\<lambda>r. r_kind r = Interactive) (record_of s) \<or>
                    connection_of s \<noteq> Conn_None then Done (respond_error x C_Internal s)
            else wait x Client (Some (request_id x)) (AtomicBinding (to_raw (x_serde x) (DVal input)))
              (\<lambda>i. CheckBinding i (ai_binding parsed) None) s))"

definition atomic_input_checked :: "'c ctx \<Rightarrow> string option \<Rightarrow> raw \<Rightarrow> 'c st \<Rightarrow> 'c res" where
  "atomic_input_checked x rid input s =
     (let rid = unwrap_or (request_id x) rid in
      case sj_value (x_serde x) input of
        None \<Rightarrow> Fault ''atomic_input'' s
      | Some input \<Rightarrow>
          (case read_atomic x input of
             Inl _ \<Rightarrow> Fault ''atomic_input'' s
           | Inr parsed \<Rightarrow>
               (let auth_text = canon x (ai_auth parsed) in
                case c_compile (x_compiler x) (s_compiler s) auth_text (ai_body parsed) of
                  (Inl e, c) \<Rightarrow>
                    Done (abort x (if ai_idempotency parsed \<noteq> None then error_reply (x_serde x) C_Internal
                                   else core_error_reply (x_serde x) e)
                      (log_core_error x e (s\<lparr>s_compiler := c\<rparr>)))
                | (Inr compiled, c) \<Rightarrow>
                    (let s = allocate x (cd_handle compiled) (s\<lparr>s_compiler := c\<rparr>) in
                     if read_only compiled then Done (abort_error x C_Invalid s)
                     else start_atomic x
                       \<lparr>at_placement = Owner, at_compiled = compiled, at_auth = auth_text,
                        at_binding = ai_binding parsed, at_idempotency = ai_idempotency parsed,
                        at_transaction_id = (case ai_idempotency parsed of
                            Some i \<Rightarrow> ''atomic_'' @ take 24 (ip_key_hash i)
                          | None \<Rightarrow> ''atomic_'' @ trim_start_matches ''tx_'' (x_owner x)),
                        at_request_id = rid, at_trace = None, at_debug = False\<rparr> s))))"

section \<open>The execution\<close>

definition atomic_expired :: "'c ctx \<Rightarrow> 'c st \<Rightarrow> bool" where
  "atomic_expired x s = (atomic_on_owner s \<and>
     (rollback_requested s \<or>
      is_none_or (\<lambda>deadline. now_ms x \<ge> deadline) (Option.bind (record_of s) r_expires_at_ms)))"

definition expire_atomic :: "'c ctx \<Rightarrow> work_lane \<Rightarrow> 'c st \<Rightarrow> 'c res" where
  "expire_atomic x lane s = close_error x lane Expired C_Unavailable s"

definition atomic_execute :: "'c ctx \<Rightarrow> work_lane \<Rightarrow> string \<Rightarrow> 'c st \<Rightarrow> 'c res" where
  "atomic_execute x lane request s =
     (case atomic_run_of s of
        None \<Rightarrow> Fault ''no_atomic'' s
      | Some a \<Rightarrow>
          (case plan_calls x (ar_handle a) s of
             Inl e \<Rightarrow> Fault e s
           | Inr (calls, max_response_bytes) \<Rightarrow>
               wait x lane (Some request) AtomicExecute
                 (\<lambda>i. Execute i calls (ar_trace a) max_response_bytes) s))"

definition atomic_query :: "'c ctx \<Rightarrow> work_lane \<Rightarrow> string \<Rightarrow> 'c st \<Rightarrow> 'c res" where
  "atomic_query x lane request s =
     (if atomic_expired x s then expire_atomic x lane s
      else (case atomic_run_of s of
          None \<Rightarrow> Fault ''no_atomic'' s
        | Some a \<Rightarrow>
            (case ar_idempotency a of
               Some i \<Rightarrow> wait x lane (Some request) AtomicLookup
                 (\<lambda>n. Execute n [\<lparr>dc_sql = LOOKUP_SQL, dc_args = [(''key_hash'', JString (ip_key_hash i))]\<rparr>]
                    None LOOKUP_BYTES) s
             | None \<Rightarrow> atomic_execute x lane request s)))"

definition binding_value_of :: "binding \<Rightarrow> json" where
  "binding_value_of b = json_obj [(''version'', jnat (bd_version b)), (''scope'', JString (bd_scope b)),
     (''databaseId'', JString (bd_database_id b)), (''generation'', JString (bd_generation b)),
     (''snapshot'', JString (bd_snapshot b))]"

definition atomic_record :: "'c ctx \<Rightarrow> 'c st \<Rightarrow> string + tx_record" where
  "atomic_record x s =
     (case atomic_run_of s of None \<Rightarrow> Inl ''no_atomic'' | Some a \<Rightarrow>
     (case parse_json x (ar_auth a) of None \<Rightarrow> Inl ''auth'' | Some auth \<Rightarrow>
     (case to_json x (binding_value_of (ar_binding a)) of None \<Rightarrow> Inl ''binding'' | Some binding_json \<Rightarrow>
     (case auth_fingerprint (x_sha x) (sj_f64 (x_serde x)) auth binding_json of
        Inl _ \<Rightarrow> Inl ''identity'' | Inr fingerprint \<Rightarrow>
     (case replay_identity (x_sha x) (sj_f64 (x_serde x)) auth binding_json of
        Inl _ \<Rightarrow> Inl ''identity'' | Inr replay \<Rightarrow>
     Inr \<lparr>r_owner = x_owner x, r_kind = Atomic, r_phase = Active,
       r_identity = \<lparr>idn_auth_fingerprint = fingerprint, idn_replay = replay,
         idn_start_fingerprint = (case ar_idempotency a of
             None \<Rightarrow> x_sha x (ar_transaction_id a) | Some i \<Rightarrow> ip_fingerprint i),
         idn_mode = Write\<rparr>,
       r_binding = ar_binding a, r_snapshot = bd_snapshot (ar_binding a),
       r_expires_at_ms = ar_expires_at_ms a, r_next_sequence = 1, r_last = None,
       r_counters = counters_default, r_mutations = [], r_versions = None,
       r_atomic = Some \<lparr>ai_transaction_id = ar_transaction_id a,
         ai_key_hash = map_option ip_key_hash (ar_idempotency a)\<rparr>\<rparr>)))))"

section \<open>Replay\<close>

definition atomic_meta :: "atomic_run \<Rightarrow> string \<Rightarrow> string \<Rightarrow> doc" where
  "atomic_meta a request checks = DObj [(''requestId'', DStr request),
     (''policyVersion'', DStr (vs_policy (ar_versions a))), (''schemaVersion'', DStr (vs_schema (ar_versions a))),
     (''role'', DStr (ar_role a)), (''commitChecks'', DStr checks)]"

definition atomic_reply_doc :: "string \<Rightarrow> raw \<Rightarrow> doc \<Rightarrow> raw option \<Rightarrow> doc" where
  "atomic_reply_doc transaction_id results meta debug = DObj (
     [(''transactionId'', DStr transaction_id), (''status'', DStr ''committed''), (''results'', DRaw results),
      (''meta'', meta)] @
     dskip ''debug'' (\<lambda>t. DObj [(''executionTrace'', DRaw t)]) debug)"

definition stored_checks :: "json option \<Rightarrow> string option" where
  "stored_checks v = (case v of
       None \<Rightarrow> Some ''not_triggered''
     | Some (JString checks) \<Rightarrow>
         if checks = ''passed'' then Some ''passed''
         else if checks = ''not_triggered'' then Some ''not_triggered'' else None
     | Some _ \<Rightarrow> None)"

definition replay_stored :: "'c ctx \<Rightarrow> atomic_run \<Rightarrow> string \<Rightarrow> string \<Rightarrow> raw option" where
  "replay_stored x a stored request =
     (case sj_stored (x_serde x) stored of None \<Rightarrow> None | Some t \<Rightarrow>
     (case sj_string (x_serde x) (st_transaction_id t) of None \<Rightarrow> None | Some transaction_id \<Rightarrow>
     (case sj_string (x_serde x) (st_original_request_id t) of None \<Rightarrow> None | Some original \<Rightarrow>
     (case stored_checks (st_commit_checks t) of None \<Rightarrow> None | Some checks \<Rightarrow>
      if as_u64 (st_version t) = Some 1 \<and> starts_with ''['' (st_results t) \<and> starts_with ''{'' (st_usage t) \<and>
         starts_with ''atomic_'' transaction_id \<and>
         is_none_or (\<lambda>status. as_text status = Some ''committed'') (st_status t)
      then Some (value_reply (x_serde x) (to_raw (x_serde x)
        (atomic_reply_doc transaction_id (st_results t) (atomic_meta a original checks)
          (if ar_debug a
           then Some (to_raw (x_serde x) (trace_doc request ''idempotency_replay'' [])) else None))))
      else None))))"

definition lookup_returned :: "'c ctx \<Rightarrow> work_lane \<Rightarrow> string \<Rightarrow> driver_result list \<Rightarrow> 'c st \<Rightarrow> 'c res" where
  "lookup_returned x lane request results s =
     (let s = set_connection x Conn_Open s in
      if atomic_expired x s then expire_atomic x lane s
      else (case results of
          [result] \<Rightarrow>
            (case dr_rows result of
               [] \<Rightarrow> atomic_execute x lane request s
             | [row] \<Rightarrow>
                 (case atomic_run_of s of
                    None \<Rightarrow> Fault ''no_atomic'' s
                  | Some a \<Rightarrow>
                      if (case row of [] \<Rightarrow> None | v # _ \<Rightarrow> as_text v) \<noteq>
                         map_option ip_fingerprint (ar_idempotency a)
                      then close_error x lane Failed C_IdempotencyConflict s
                      else (case Option.bind (case row of _ # v # _ \<Rightarrow> as_text v | _ \<Rightarrow> None)
                              (\<lambda>stored. replay_stored x a stored request) of
                          None \<Rightarrow> close_error x lane Failed C_Internal s
                        | Some reply \<Rightarrow> wait x lane (Some request) (AtomicReplay reply) Rollback
                            (set_connection x Closing s)))
             | _ \<Rightarrow> close_error x lane Failed C_Internal s)
        | _ \<Rightarrow> close_error x lane Failed C_Internal s))"

section \<open>The envelope\<close>

definition raw_result_of :: "operation \<Rightarrow> driver_result \<Rightarrow> raw_result" where
  "raw_result_of operation result = \<lparr>rr_columns = dr_columns result, rr_rows = dr_rows result,
     rr_affected_rows = (if operation \<noteq> Select \<and> dr_columns result \<noteq> [] then length (dr_rows result)
                         else dr_rows_affected result)\<rparr>"

text \<open>The first loop: each statement is validated within what the earlier ones left. A failure
  carries its reply and the error to log.\<close>

fun validate_all :: "'c ctx \<Rightarrow> 'c \<Rightarrow> nat \<Rightarrow> nat \<Rightarrow> (driver_result \<times> atomic_statement) list \<Rightarrow> result_budget
     \<Rightarrow> (code + core_error) + validated list" where
  "validate_all x c handle index [] left = Inr []"
| "validate_all x c handle index ((result, statement) # rest) left =
     (case codec_failure result of
        Some code \<Rightarrow> Inl (Inl code)
      | None \<Rightarrow>
          (case c_validate (x_compiler x) c handle index (raw_result_of (as_operation statement) result) left of
             Inl e \<Rightarrow> Inl (Inr e)
           | Inr v \<Rightarrow>
               (case validate_all x c handle (Suc index) rest
                   \<lparr>rb_raw_bytes = sat_sub (rb_raw_bytes left) (vd_raw_bytes v),
                    rb_values = sat_sub (rb_values left) (vd_values v),
                    rb_result_bytes = sat_sub (rb_result_bytes left) (rows_bytes (sj_f64 (x_serde x)) v)\<rparr> of
                  Inl e \<Rightarrow> Inl e
                | Inr vs \<Rightarrow> Inr (v # vs))))"

record envelope_sum =
  es_shaped :: "raw list"
  es_mutations :: "mutation list"
  es_usage :: atomic_usage
  es_duration :: f64

definition envelope_start :: envelope_sum where
  "envelope_start = \<lparr>es_shaped = [], es_mutations = [],
     es_usage = \<lparr>au_rows_returned = 0, au_rows_affected = 0, au_rows_read = 0, au_rows_written = 0,
       au_query_duration_ms = F_fin 0\<rparr>, es_duration = F_fin 0\<rparr>"

text \<open>The second loop: the results, the mutations and the usage.\<close>

definition sum_statement :: "'c ctx \<Rightarrow> nat \<Rightarrow> validated \<Rightarrow> atomic_statement \<Rightarrow> driver_result \<Rightarrow> envelope_sum
     \<Rightarrow> string + envelope_sum" where
  "sum_statement x index v a raw e =
     (case shape_statement x None (as_operation a) v of
        Inl f \<Rightarrow> Inl f
      | Inr shaped \<Rightarrow>
          (let u = es_usage e; changed = (as_operation a \<noteq> Select);
               added = (case as_resource a of
                   Some resource \<Rightarrow> if changed \<and> vd_affected_rows v > 0
                     then [\<lparr>mu_index = index, mu_operation = as_operation a, mu_resource = resource\<rparr>] else []
                 | None \<Rightarrow> [])
           in if added \<noteq> [] \<and> index > u32_max then Inl ''index''
              else Inr \<lparr>es_shaped = es_shaped e @ [shaped], es_mutations = es_mutations e @ added,
                es_usage = \<lparr>au_rows_returned = wrap_add u64_max (au_rows_returned u) (length (vd_rows v)),
                  au_rows_affected = (if changed then sat_add u64_max (au_rows_affected u) (vd_affected_rows v)
                                      else au_rows_affected u),
                  au_rows_read = sat_add u64_max (au_rows_read u) (us_rows_read (dr_usage raw)),
                  au_rows_written = sat_add u64_max (au_rows_written u) (us_rows_written (dr_usage raw)),
                  au_query_duration_ms = au_query_duration_ms u\<rparr>,
                es_duration = f64_add (x_rnd x) (es_duration e) (us_query_duration_ms (dr_usage raw))\<rparr>))"

fun sum_all :: "'c ctx \<Rightarrow> nat \<Rightarrow> (validated \<times> atomic_statement \<times> driver_result) list \<Rightarrow> envelope_sum
     \<Rightarrow> string + envelope_sum" where
  "sum_all x index [] e = Inr e"
| "sum_all x index ((v, a, raw) # rest) e =
     (case sum_statement x index v a raw e of Inl f \<Rightarrow> Inl f | Inr e' \<Rightarrow> sum_all x (Suc index) rest e')"

definition checks_text :: "bool \<Rightarrow> string" where
  "checks_text passed = (if passed then ''passed'' else ''not_triggered'')"

definition atomic_response :: "'c ctx \<Rightarrow> atomic_run \<Rightarrow> raw \<Rightarrow> raw" where
  "atomic_response x a results = to_raw (x_serde x)
     (atomic_reply_doc (ar_transaction_id a) results
        (atomic_meta a (ar_request_id a) (checks_text (ar_checks_passed a)))
        (opt_filter (\<lambda>_. ar_debug a) (ar_trace a)))"

definition atomic_commit :: "'c ctx \<Rightarrow> work_lane \<Rightarrow> string \<Rightarrow> 'c st \<Rightarrow> 'c res" where
  "atomic_commit x lane request s =
     (if atomic_expired x s then expire_atomic x lane s
      else wait x lane (Some request) AtomicCommit Commit (set_connection x Closing s))"

definition usage_doc :: "atomic_usage \<Rightarrow> doc" where
  "usage_doc u = DObj [(''rowsReturned'', DNat (au_rows_returned u)), (''rowsAffected'', DNat (au_rows_affected u)),
     (''rowsRead'', DNat (au_rows_read u)), (''rowsWritten'', DNat (au_rows_written u)),
     (''queryDurationMs'', DF64 (au_query_duration_ms u))]"

definition terminal_text :: "'c ctx \<Rightarrow> atomic_run \<Rightarrow> string + string" where
  "terminal_text x a =
     (case ar_results a of None \<Rightarrow> Inl ''atomic_results'' | Some results \<Rightarrow>
     (case ar_usage a of None \<Rightarrow> Inl ''atomic_usage'' | Some usage \<Rightarrow>
      Inr (sj_write (x_serde x) (DObj [(''version'', DNat 1), (''transactionId'', DStr (ar_transaction_id a)),
        (''status'', DStr ''committed''), (''results'', DRaw results), (''usage'', usage_doc usage),
        (''originalRequestId'', DStr (ar_request_id a)), (''replayed'', DBool False),
        (''commitChecks'', DStr (checks_text (ar_checks_passed a)))]))))"

definition insert_or_commit :: "'c ctx \<Rightarrow> work_lane \<Rightarrow> string \<Rightarrow> 'c st \<Rightarrow> 'c res" where
  "insert_or_commit x lane request s =
     (if atomic_expired x s then expire_atomic x lane s
      else (case atomic_run_of s of
          None \<Rightarrow> Fault ''no_atomic'' s
        | Some a \<Rightarrow>
            (case ar_idempotency a of
               None \<Rightarrow> atomic_commit x lane request s
             | Some i \<Rightarrow>
                 (case terminal_text x a of
                    Inl e \<Rightarrow> Fault e s
                  | Inr text \<Rightarrow> wait x lane (Some request) AtomicInsert
                      (\<lambda>n. Execute n [\<lparr>dc_sql = INSERT_SQL, dc_args =
                          [(''fingerprint'', JString (ip_fingerprint i)), (''key_hash'', JString (ip_key_hash i)),
                           (''response_json'', JString text)]\<rparr>] None NO_RESULT_BYTES) s))))"

definition triggered_atomic :: "'c ctx \<Rightarrow> 'c st \<Rightarrow> triggered_check list" where
  "triggered_atomic x s = (case atomic_run_of s of
       None \<Rightarrow> [] | Some a \<Rightarrow> sorted_checks x (map mu_resource (ar_mutations a)))"

text \<open>After the envelope is measured: the direct placement goes on, the owner runs its checks.\<close>

definition atomic_proceed :: "'c ctx \<Rightarrow> work_lane \<Rightarrow> string \<Rightarrow> atomic_run \<Rightarrow> 'c st \<Rightarrow> 'c res" where
  "atomic_proceed x lane request a s =
     (if ar_placement a = Direct then insert_or_commit x lane request s
      else (let checks = triggered_atomic x s in
        if checks = [] then atomic_commit_binding x lane request s
        else (case find (\<lambda>check. tc_id check \<notin> set (h_configured_checks (x_host x))) checks of
            Some missing \<Rightarrow> close_error x lane Failed C_CheckRejected (log_value x (json_obj
              [(''event'', JString ''commit_check_unconfigured''), (''requestId'', JString request),
               (''check'', JString (tc_id missing))]) s)
          | None \<Rightarrow> issue x lane (Some request)
              \<lparr>cc_sequence = 0, cc_digest = [], cc_auth = ar_auth a, cc_checks = checks, cc_index = 0\<rparr> s)))"

definition atomic_measure ::
  "'c ctx \<Rightarrow> work_lane \<Rightarrow> string \<Rightarrow> atomic_run \<Rightarrow> envelope_sum \<Rightarrow> 'c st \<Rightarrow> 'c res" where
  "atomic_measure x lane request atomic e s =
     (if \<not> f64_is_finite (es_duration e) \<or> f64_lt0 (es_duration e) then close_error x lane Failed C_Internal s
      else
        (let usage = (es_usage e)\<lparr>au_query_duration_ms := round_ms (x_rnd x) (es_duration e)\<rparr>;
             results = raw_of (x_serde x) (''['' @ join '','' (es_shaped e) @ '']'');
             a = atomic\<lparr>ar_results := Some results, ar_usage := Some usage, ar_mutations := es_mutations e\<rparr>;
             s = on_volatile (\<lambda>v. v\<lparr>v_atomic := Some a\<rparr>) s;
             measured = sat_add u64_max (length (atomic_response x a results)) RESPONSE_RESERVE_BYTES
         in if measured > lim_max_response_bytes (x_limits x) then close_error x lane Failed C_LimitExceeded s
            else atomic_proceed x lane request a s))"

definition atomic_validated ::
  "'c ctx \<Rightarrow> work_lane \<Rightarrow> string \<Rightarrow> atomic_run \<Rightarrow> driver_result list \<Rightarrow> validated list \<Rightarrow> 'c st \<Rightarrow> 'c res" where
  "atomic_validated x lane request atomic results validated s =
     (let statements = ar_statements atomic;
          rows = sum_list (map (\<lambda>v. length (vd_rows v)) validated);
          bytes = sum_list (map (rows_bytes (sj_f64 (x_serde x))) validated)
      in if rows > strictest statements sl_max_rows \<or> bytes > strictest statements sl_max_result_bytes
         then close_error x lane Failed C_LimitExceeded s
         else if sat_sub (now_ms x) (ar_started_at_ms atomic) > strictest statements sl_timeout_ms
         then close_error x lane Failed C_Timeout s
         else (case sum_all x 0 (zip validated (zip statements results)) envelope_start of
             Inl f \<Rightarrow> Fault f s
           | Inr e \<Rightarrow> atomic_measure x lane request atomic e s))"

definition atomic_executed :: "'c ctx \<Rightarrow> work_lane \<Rightarrow> string \<Rightarrow> driver_result list \<Rightarrow> 'c st \<Rightarrow> 'c res" where
  "atomic_executed x lane request results s =
     (let s = set_connection x Conn_Open s in
      if atomic_expired x s then expire_atomic x lane s
      else (case atomic_run_of s of
          None \<Rightarrow> Fault ''no_atomic'' s
        | Some atomic \<Rightarrow>
            if length results \<noteq> length (ar_statements atomic) then close_error x lane Failed C_Internal s
            else (case c_raw_result_bound (x_compiler x) (s_compiler s) (ar_handle atomic) of
                Inl _ \<Rightarrow> Fault ''plan'' s
              | Inr raw_bytes \<Rightarrow>
                  (case validate_all x (s_compiler s) (ar_handle atomic) 0 (zip results (ar_statements atomic))
                      \<lparr>rb_raw_bytes = raw_bytes, rb_values = lim_max_json_values (x_limits x),
                       rb_result_bytes = strictest (ar_statements atomic) sl_max_result_bytes\<rparr> of
                     Inl (Inl code) \<Rightarrow> close_error x lane Failed code s
                   | Inl (Inr e) \<Rightarrow> close x lane Failed (Some (core_error_reply (x_serde x) e)) (log_core_error x e s)
                   | Inr validated \<Rightarrow> atomic_validated x lane request atomic results validated s))))"

section \<open>Completion\<close>

definition observe_effect :: "'c ctx \<Rightarrow> atomic_run \<Rightarrow> 'c st \<Rightarrow> string + effect" where
  "observe_effect x a s =
     (let driver = (case c_statements (x_compiler x) (s_compiler s) (ar_handle a) of Inl _ \<Rightarrow> [] | Inr d \<Rightarrow> d);
          cap = (case c_raw_result_bound (x_compiler x) (s_compiler s) (ar_handle a) of Inl _ \<Rightarrow> 0 | Inr n \<Rightarrow> n)
      in case all_inr (map (\<lambda>(_, d). driver_call_of (ds_cost_sql d) d)
                (filter (\<lambda>(t, _). as_operation t \<noteq> Insert) (zip (ar_statements a) driver))) of
           Inl e \<Rightarrow> Inl e
         | Inr calls \<Rightarrow> Inr (Observe calls
             \<lparr>oc_request_id = ar_request_id a, oc_binding = ar_binding a,
              oc_statements = map (\<lambda>t. \<lparr>os_operation = operation_str (as_operation t), os_resource = as_resource t,
                os_explain_resource = as_explain_resource t\<rparr>) (ar_statements a)\<rparr> cap))"

definition observe_atomic :: "'c ctx \<Rightarrow> 'c st \<Rightarrow> 'c res" where
  "observe_atomic x s =
     (case atomic_run_of s of
        None \<Rightarrow> Fault ''no_atomic'' s
      | Some a \<Rightarrow> (case observe_effect x a s of Inl e \<Rightarrow> Fault e s | Inr eff \<Rightarrow> Done (push eff s)))"

definition atomic_committed :: "'c ctx \<Rightarrow> work_lane \<Rightarrow> string \<Rightarrow> 'c st \<Rightarrow> 'c res" where
  "atomic_committed x lane request s =
     (let s = set_connection x Conn_None s in
      case atomic_run_of s of
        None \<Rightarrow> Fault ''no_atomic'' s
      | Some a \<Rightarrow>
          (let s = on_volatile (\<lambda>v. v\<lparr>v_atomic := None\<rparr>) s in
           case ar_results a of
             None \<Rightarrow> Fault ''atomic_results'' s
           | Some results \<Rightarrow>
               (let reply = value_reply (x_serde x) (atomic_response x a results) in
                case observe_effect x a s of
                  Inl e \<Rightarrow> Fault e s
                | Inr eff \<Rightarrow>
                    (let s = release x (ar_handle a) (push eff s) in
                     if ar_placement a = Direct then Done (clear_work (respond reply s))
                     else wait x lane (Some request)
                       (Reply (Some reply) (Some reply) []
                         [to_raw (x_serde x) (DVal (json_obj [(''event'', JString ''transaction_terminal_unrecorded''),
                            (''transactionId'', JString (ar_transaction_id a)), (''requestId'', JString request)]))]
                         False None)
                       Persist (set_phase x Committed s)))))"

definition atomic_replayed :: "'c ctx \<Rightarrow> work_lane \<Rightarrow> string \<Rightarrow> raw \<Rightarrow> 'c st \<Rightarrow> 'c res" where
  "atomic_replayed x lane request reply s =
     (let owner = atomic_on_owner s in
      and_then (if owner then Done s else observe_atomic x s) (\<lambda>s.
        let s = on_volatile (\<lambda>v. v\<lparr>v_atomic := None\<rparr>) (release_all x (set_connection x Conn_None s))
        in if \<not> owner then Done (clear_work (respond reply s))
           else wait x lane (Some request)
             (plain_reply (Some reply) (Some (error_reply (x_serde x) C_Internal))) Persist
             (set_phase x Committed s)))"

definition atomic_execute_failed ::
  "'c ctx \<Rightarrow> work_lane \<Rightarrow> task \<Rightarrow> err_class \<Rightarrow> nat option \<Rightarrow> string option \<Rightarrow> string option \<Rightarrow> 'c st \<Rightarrow> 'c res" where
  "atomic_execute_failed x lane task class statement database_code cause s =
     (let s = set_connection x Conn_Open s in
      if atomic_expired x s then expire_atomic x lane s
      else
        (let later_write = is_some_and (\<lambda>a. has_later_write (ar_statements a)) (atomic_run_of s)
         in case execute_failed_reply x (execute_failure task class later_write) class
                   \<lparr>fd_statement = statement, fd_database_code = database_code, fd_cause = cause,
                    fd_versions = map_option ar_versions (atomic_run_of s)\<rparr> s of
              (reply, s) \<Rightarrow> close x lane Failed (Some reply) s))"

definition atomic_opened :: "'c ctx \<Rightarrow> work_lane \<Rightarrow> string \<Rightarrow> 'c st \<Rightarrow> 'c res" where
  "atomic_opened x lane request s =
     (let s = set_connection x Conn_Open s in
      if \<not> atomic_on_owner s then atomic_query x lane request s
      else (case atomic_record x s of
          Inl e \<Rightarrow> Fault e s
        | Inr r \<Rightarrow> wait x lane (Some request) AtomicPersist Persist (s\<lparr>s_durable := Some (Live r)\<rparr>)))"

definition atomic_commit_bound :: "'c ctx \<Rightarrow> work_lane \<Rightarrow> string \<Rightarrow> 'c st \<Rightarrow> 'c res" where
  "atomic_commit_bound x lane request s =
     (if \<not> is_some_and (\<lambda>r. r_snapshot r = snapshot_of x) (record_of s)
      then close_error x lane Failed C_Unavailable s
      else insert_or_commit x lane request s)"

definition atomic_outcome :: "'c ctx \<Rightarrow> work_lane \<Rightarrow> string option \<Rightarrow> task \<Rightarrow> event \<Rightarrow> 'c st \<Rightarrow> 'c res" where
  "atomic_outcome x lane rid task event s =
     (let request = unwrap_or (request_id x) rid; bad = Fault ''unexpected_atomic_outcome'' s in
      case task of
        RequestBinding operation \<Rightarrow> (case event of
            Ev_BindingChecked _ allowed \<Rightarrow> if allowed then request_checked x rid operation s
              else Done (abort_error x C_BindingRejected s)
          | Ev_BindingCheckFailed _ class \<Rightarrow> Done (abort_error x (for_class class) s)
          | _ \<Rightarrow> bad)
      | AtomicBinding input \<Rightarrow> (case event of
            Ev_BindingChecked _ allowed \<Rightarrow> if allowed then atomic_input_checked x rid input s
              else Done (abort_error x C_BindingRejected s)
          | Ev_BindingCheckFailed _ class \<Rightarrow> Done (abort_error x (for_class class) s)
          | _ \<Rightarrow> bad)
      | AtomicForward \<Rightarrow> (case event of
            Ev_OwnerReplied _ reply \<Rightarrow> Done (owner_replied x reply s)
          | Ev_ForwardFailed _ _ \<Rightarrow> Done (abort_error x C_Internal s)
          | _ \<Rightarrow> bad)
      | AtomicOpen \<Rightarrow> (case event of
            Ev_Opened _ \<Rightarrow> atomic_opened x lane request s
          | Ev_OpenFailed _ class \<Rightarrow> Done (abort_error x (for_class class) s)
          | _ \<Rightarrow> bad)
      | AtomicPersist \<Rightarrow> (case event of
            Ev_Persisted _ \<Rightarrow> (case Option.bind (record_of s) r_expires_at_ms of
                None \<Rightarrow> Fault ''atomic_record'' s
              | Some at_ms \<Rightarrow> wait x lane (Some request) AtomicTimer (\<lambda>i. SetTimer i at_ms) s)
          | Ev_PersistFailed _ \<Rightarrow> close_error x lane Failed C_Internal s
          | _ \<Rightarrow> bad)
      | AtomicTimer \<Rightarrow> (case event of
            Ev_TimerFailed _ \<Rightarrow> close_error x lane Failed C_Internal s
          | Ev_TimerSet _ \<Rightarrow> atomic_query x lane request s
          | _ \<Rightarrow> bad)
      | AtomicLookup \<Rightarrow> (case event of
            Ev_Executed _ results \<Rightarrow> lookup_returned x lane request results s
          | Ev_ExecuteFailed _ class statement database_code cause \<Rightarrow>
              atomic_execute_failed x lane AtomicLookup class statement database_code cause s
          | _ \<Rightarrow> bad)
      | AtomicExecute \<Rightarrow> (case event of
            Ev_Executed _ results \<Rightarrow> atomic_executed x lane request results s
          | Ev_ExecuteFailed _ class statement database_code cause \<Rightarrow>
              atomic_execute_failed x lane AtomicExecute class statement database_code cause s
          | _ \<Rightarrow> bad)
      | AtomicInsert \<Rightarrow> (case event of
            Ev_Executed _ _ \<Rightarrow> atomic_commit x lane request (set_connection x Conn_Open s)
          | Ev_ExecuteFailed _ class statement database_code cause \<Rightarrow>
              atomic_execute_failed x lane AtomicInsert class statement database_code cause s
          | _ \<Rightarrow> bad)
      | AtomicCommitBinding \<Rightarrow> (case event of
            Ev_BindingChecked _ allowed \<Rightarrow> if allowed then atomic_commit_bound x lane request s
              else close_error x lane Failed C_BindingRejected s
          | Ev_BindingCheckFailed _ class \<Rightarrow> close_error x lane Failed (for_class class) s
          | _ \<Rightarrow> bad)
      | AtomicCommit \<Rightarrow> (case event of
            Ev_Committed _ \<Rightarrow> atomic_committed x lane request s
          | Ev_CommitFailed _ class \<Rightarrow>
              close_error x lane Failed (commit_failure class) (set_connection x Conn_Open s)
          | _ \<Rightarrow> bad)
      | AtomicReplay reply \<Rightarrow> (case event of
            Ev_RolledBack _ \<Rightarrow> atomic_replayed x lane request reply s
          | Ev_RollbackFailed _ _ \<Rightarrow> atomic_replayed x lane request reply s
          | _ \<Rightarrow> bad)
      | _ \<Rightarrow> bad)"

definition waits_on_validator :: "'c st \<Rightarrow> bool" where
  "waits_on_validator s = (work_task_is is_validator (work_of s) \<or>
     volatile_is (\<lambda>v. is_some (v_deferred v)) s)"

definition is_atomic_effect_task :: "task \<Rightarrow> bool" where
  "is_atomic_effect_task t =
     (t \<in> {AtomicPersist, AtomicTimer, AtomicLookup, AtomicExecute, AtomicCommitBinding, AtomicInsert})"

definition atomic_timer :: "'c ctx \<Rightarrow> bool \<Rightarrow> 'c st \<Rightarrow> 'c res" where
  "atomic_timer x due s =
     (if \<not> due then Done s
      else if waits_on_validator s then expire_validating x s
      else (case work_of s of
          None \<Rightarrow> close x Background Expired None s
        | Some w \<Rightarrow>
            if is_atomic_effect_task (wk_task w)
            then Done (volatile_mut x (\<lambda>v. v\<lparr>v_rollback_requested := True\<rparr>) s)
            else Done s))"

end
