(* ===== verification/Tx_Dispatch.thy ===== *)
theory Tx_Dispatch
  imports Tx_Atomic
begin

text \<open>
  The transitions of the step machine
  (\<^verbatim>\<open>src/crates/policysql-transaction/src/machine/step.rs\<close>): client inputs (\<open>begin\<close>, the commands and
  their statements), the outcomes of awaited effects, the timer, the dispatch of an event, and a
  whole step (\<open>run\<close>) from the texts it reads to the texts and effects it leaves.
\<close>

section \<open>Begin\<close>

definition parse_mode :: "string option \<Rightarrow> mode option" where
  "parse_mode t = (if t = Some ''read'' then Some Read else if t = Some ''write'' then Some Write else None)"

definition begin_tx :: "'c ctx \<Rightarrow> json \<Rightarrow> 'c st \<Rightarrow> 'c res" where
  "begin_tx x input s =
     (if \<not> exact_object input [''kind'', ''transactionId'', ''startFingerprint'', ''mode'', ''auth'',
           ''databaseBinding'', ''snapshot''] [''expected''] then Done (respond_error x C_Invalid s)
      else (case (parse_mode (field_text ''mode'' input), opt_filter hex64 (field_text ''startFingerprint'' input),
                  field_text ''snapshot'' input, field_text ''transactionId'' input = Some (x_owner x),
                  is_some_and is_object (json_get ''auth'' input)) of
          (Some mode, Some start, Some snapshot, True, True) \<Rightarrow>
            if snapshot \<noteq> snapshot_of x then
              Done (respond_error x C_Conflict (log_value x (json_obj
                [(''event'', JString ''owner_snapshot_skew''), (''input'', JString ''begin''),
                 (''requestId'', jopt JString (s_request s))]) s))
            else
              (let binding_value = unwrap_or JNull (json_get ''databaseBinding'' input) in
               case parse_binding x binding_value of
                 None \<Rightarrow> Done (respond_error x C_BindingRejected s)
               | Some binding \<Rightarrow>
                   if bd_snapshot binding \<noteq> snapshot then Done (respond_error x C_Stale s)
                   else (case (Option.bind (json_get ''auth'' input) (to_json x), to_json x binding_value) of
                       (Some auth, Some binding_json) \<Rightarrow>
                         (case (auth_fingerprint (x_sha x) (sj_f64 (x_serde x)) auth binding_json,
                                replay_identity (x_sha x) (sj_f64 (x_serde x)) auth binding_json) of
                            (Inr fingerprint, Inr replay) \<Rightarrow>
                              (case busy s of
                                 Some code \<Rightarrow> Done (respond_error x code s)
                               | None \<Rightarrow>
                                   wait x Client (Some (request_id x))
                                     (BeginBinding \<lparr>idn_auth_fingerprint = fingerprint, idn_replay = replay,
                                        idn_start_fingerprint = start, idn_mode = mode\<rparr> binding snapshot)
                                     (\<lambda>i. CheckBinding i binding None) s)
                          | _ \<Rightarrow> Done (respond_error x C_Internal s))
                     | _ \<Rightarrow> Done (respond_error x C_Internal s)))
        | _ \<Rightarrow> Done (respond_error x C_Invalid s)))"

definition begin_checked ::
  "'c ctx \<Rightarrow> string option \<Rightarrow> identity \<Rightarrow> binding \<Rightarrow> string \<Rightarrow> 'c st \<Rightarrow> 'c res" where
  "begin_checked x rid identity binding snapshot s =
     (let request = unwrap_or (request_id x) rid in
      case s_durable s of
        Some (Tombstone _) \<Rightarrow> Done (respond_error x C_Unavailable s)
      | Some (Live r) \<Rightarrow>
          if r_kind r \<noteq> Interactive \<or>
             idn_start_fingerprint (r_identity r) \<noteq> idn_start_fingerprint identity \<or>
             idn_auth_fingerprint (r_identity r) \<noteq> idn_auth_fingerprint identity \<or>
             r_snapshot r \<noteq> snapshot \<or> r_binding r \<noteq> binding
          then Done (respond_error x C_Conflict s)
          else if r_phase r \<in> {Committing, CommitUnknown, Discarded} then Done (respond_error x C_Unavailable s)
          else if r_phase r = Active \<and> connection_of s \<noteq> Conn_Open then
            persist_reply x (Some request) (error_reply (x_serde x) C_Unavailable)
              (error_reply (x_serde x) C_Internal) (set_phase x Failed s)
          else Done (respond (value_reply (x_serde x) (public_state x r request)) s)
      | None \<Rightarrow>
          (case opt_filter (\<lambda>deadline. deadline \<le> MAX_TIME_MS)
                  (checked_add u64_max (now_ms x) (lim_transaction_ms (x_limits x))) of
             None \<Rightarrow> Fault ''deadline'' s
           | Some expires_at_ms \<Rightarrow>
               wait x Client (Some request) (BeginOpen identity binding snapshot expires_at_ms)
                 (\<lambda>i. Open i binding (idn_mode identity) (lim_begin_timeout_ms (x_limits x)) expires_at_ms)
                 (set_connection x Opening s)))"

section \<open>Commands\<close>

datatype command_kind = Statement_cmd | Commit_cmd | Rollback_cmd

fun command_kind_str :: "command_kind \<Rightarrow> string" where
  "command_kind_str Statement_cmd = ''statement''"
| "command_kind_str Commit_cmd = ''commit''"
| "command_kind_str Rollback_cmd = ''rollback''"

record tx_command =
  cm_kind :: command_kind
  cm_auth :: json
  cm_binding :: "binding option"
  cm_binding_json :: json
  cm_snapshot :: string
  cm_text :: string
  cm_members :: "(string \<times> raw) list"
  cm_sequence :: "nat option"

definition members_ok :: "command_kind \<Rightarrow> (string \<times> raw) list \<Rightarrow> bool" where
  "members_ok kind members =
     (let statement = (kind = Statement_cmd);
          allowed = (if statement then [''sequence'', ''sql'', ''params'', ''expect''] else [''sequence'']);
          required = (if statement then [''sequence'', ''sql'', ''params''] else [''sequence''])
      in list_all (\<lambda>(key, _). key \<in> set allowed) members \<and>
         list_all (\<lambda>key. btree_get key members \<noteq> None) required \<and>
         (statement \<longrightarrow> is_some_and (starts_with [CHR 0x22]) (btree_get ''sql'' members) \<and>
                        is_some_and (starts_with ''{'') (btree_get ''params'' members)))"

definition parse_command :: "'c ctx \<Rightarrow> command_kind \<Rightarrow> json \<Rightarrow> tx_command option" where
  "parse_command x kind input =
     (if \<not> exact_object input [''kind'', ''transactionId'', ''auth'', ''command'', ''databaseBinding'', ''snapshot''] []
      then None
      else (case (field_text ''command'' input, field_text ''snapshot'' input, field_text ''transactionId'' input,
                  Option.bind (opt_filter is_object (json_get ''auth'' input)) (to_json x),
                  json_get ''databaseBinding'' input) of
          (Some text, Some snapshot, Some _, Some auth, Some binding_value) \<Rightarrow>
            (case sj_members (x_serde x) text of
               None \<Rightarrow> None
             | Some members \<Rightarrow>
                 if \<not> members_ok kind members then None
                 else Some \<lparr>cm_kind = kind, cm_auth = auth, cm_binding = parse_binding x binding_value,
                   cm_binding_json = unwrap_or JNull (to_json x binding_value), cm_snapshot = snapshot,
                   cm_text = text, cm_members = members,
                   cm_sequence = Option.bind (btree_get ''sequence'' members) (sequence_value x)\<rparr>)
        | _ \<Rightarrow> None))"

definition digest_of :: "'c ctx \<Rightarrow> tx_command \<Rightarrow> string option" where
  "digest_of x c = map_option (command_digest (x_sha x) (sj_f64 (x_serde x)) (command_kind_str (cm_kind c)))
     (parse_json x (cm_text c))"

definition compile_command :: "'c ctx \<Rightarrow> tx_command \<Rightarrow> 'c \<Rightarrow> (core_error + compiled) \<times> 'c" where
  "compile_command x c = compile_members x (canon x (cm_auth c)) (cm_members c)"

definition may_repeat :: "'c ctx \<Rightarrow> tx_command \<Rightarrow> 'c \<Rightarrow> bool \<times> 'c" where
  "may_repeat x c = may_repeat_members x (canon x (cm_auth c)) (cm_members c)"

definition statement_compiled ::
  "'c ctx \<Rightarrow> tx_command \<Rightarrow> tx_record \<Rightarrow> nat \<Rightarrow> nat option \<Rightarrow> binding \<Rightarrow> compiled \<Rightarrow> 'c st \<Rightarrow> 'c res" where
  "statement_compiled x c r sequence deadline check compiled s =
     (let handle = cd_handle compiled in
      if idn_mode (r_identity r) = Read \<and> \<not> read_only compiled then close_error x Client Failed C_ModeViolation s
      else (case cd_statements compiled of
          [summary] \<Rightarrow>
            (case digest_of x c of
               None \<Rightarrow> Done (respond_error x C_Internal (release x handle s))
             | Some digest \<Rightarrow>
                 wait x Client (Some (request_id x))
                   (StatementBinding sequence digest handle (ss_operation summary) (ss_resource summary)
                      \<lparr>vs_schema = cd_schema_version compiled, vs_policy = cd_policy_version compiled\<rparr>
                      (ss_explain_resource summary))
                   (\<lambda>i. CheckBinding i check deadline) s)
        | _ \<Rightarrow> close_error x Client Failed C_Internal s))"

definition statement ::
  "'c ctx \<Rightarrow> tx_command \<Rightarrow> tx_record \<Rightarrow> nat \<Rightarrow> nat option \<Rightarrow> binding \<Rightarrow> 'c st \<Rightarrow> 'c res" where
  "statement x c r sequence deadline check s =
     (if ct_statements (r_counters r) \<ge> lim_max_transaction_statements (x_limits x)
      then close_error x Client Failed C_TransactionLimit s
      else (case compile_command x c (s_compiler s) of
          (Inl e, k) \<Rightarrow> (let s = log_core_error x e (s\<lparr>s_compiler := k\<rparr>)
                        in close x Client Failed (Some (core_error_reply (x_serde x) e)) s)
        | (Inr compiled, k) \<Rightarrow>
            statement_compiled x c r sequence deadline check compiled
              (allocate x (cd_handle compiled) (s\<lparr>s_compiler := k\<rparr>))))"

text \<open>The last part of \<open>command\<close>: the record is active, the caller is its own, the connection is
  open and nothing is in progress.\<close>

definition command_run :: "'c ctx \<Rightarrow> tx_command \<Rightarrow> tx_record \<Rightarrow> string \<Rightarrow> nat \<Rightarrow> 'c st \<Rightarrow> 'c res" where
  "command_run x c r request sequence s =
     (let deadline = r_expires_at_ms r; check = r_binding r in
      case cm_kind c of
        Statement_cmd \<Rightarrow> statement x c r sequence deadline check s
      | Commit_cmd \<Rightarrow>
          (case digest_of x c of
             None \<Rightarrow> Fault ''commit_digest'' s
           | Some digest \<Rightarrow>
               wait x Client (Some request)
                 (CommitBinding sequence digest
                    (if triggered x r \<noteq> [] then Some (canon x (cm_auth c)) else None) False)
                 (\<lambda>i. CheckBinding i check deadline) s)
      | Rollback_cmd \<Rightarrow>
          (case digest_of x c of
             None \<Rightarrow> Fault ''rollback_digest'' s
           | Some digest \<Rightarrow>
               wait x Client (Some request) (RollbackBinding sequence digest)
                 (\<lambda>i. CheckBinding i check deadline) s))"

definition same_snapshot :: "'c ctx \<Rightarrow> tx_command \<Rightarrow> binding \<Rightarrow> tx_record \<Rightarrow> bool" where
  "same_snapshot x c binding r =
     (auth_fingerprint (x_sha x) (sj_f64 (x_serde x)) (cm_auth c) (cm_binding_json c)
        = Inr (idn_auth_fingerprint (r_identity r)) \<and>
      binding = r_binding r \<and> cm_snapshot c = r_snapshot r)"

definition command_live :: "'c ctx \<Rightarrow> tx_command \<Rightarrow> tx_record \<Rightarrow> binding \<Rightarrow> string \<Rightarrow> 'c st \<Rightarrow> 'c res" where
  "command_live x c r binding request s =
     (case busy s of
        Some code \<Rightarrow> Done (respond_error x code s)
      | None \<Rightarrow>
          (let active = (r_phase r = Active);
               expired = is_none_or (\<lambda>deadline. now_ms x \<ge> deadline) (r_expires_at_ms r)
           in if \<not> same_snapshot x c binding r then Done (respond_error x C_Unavailable s)
              else if r_snapshot r \<noteq> snapshot_of x then
                (if \<not> active then Done (respond_error x C_Unavailable s)
                 else close_error x Client Failed C_Unavailable s)
              else if active \<and> (expired \<or> connection_of s \<noteq> Conn_Open) then
                (if expired then close_error x Client Expired C_Unavailable (log_unavailable x ''expired'' s)
                 else close_error x Client Failed C_Unavailable (log_unavailable x ''owner_lost'' s))
              else (case cm_sequence c of
                  None \<Rightarrow> Done (respond_error x C_Invalid s)
                | Some sequence \<Rightarrow>
                    if \<not> active then Done (respond_error x C_Unavailable s)
                    else if sequence \<noteq> r_next_sequence r then close_error x Client Failed C_Conflict s
                    else command_run x c r request sequence s)))"

text \<open>The middle part: COMMIT may have been sent.\<close>

definition command_unsure :: "'c ctx \<Rightarrow> tx_command \<Rightarrow> tx_record \<Rightarrow> string \<Rightarrow> 'c st \<Rightarrow> 'c res" where
  "command_unsure x c r request s =
     (if is_some_and (\<lambda>w. wk_lane w = Client) (work_of s) then Done (respond_error x C_Internal s)
      else
        (let answer = (if cm_kind c = Commit_cmd \<and> cm_sequence c = Some (r_next_sequence r)
                       then C_OutcomeUnknown else C_Unavailable)
         in if r_phase r = Committing then
              persist_reply x (Some request) (error_reply (x_serde x) answer) (error_reply (x_serde x) answer)
                (set_phase x CommitUnknown ((release_all x s)\<lparr>s_volatile := None\<rparr>))
            else Done (respond_error x answer s)))"

definition command_after_retry :: "'c ctx \<Rightarrow> tx_command \<Rightarrow> tx_record \<Rightarrow> binding \<Rightarrow> string \<Rightarrow> 'c st \<Rightarrow> 'c res" where
  "command_after_retry x c r binding request s =
     (if r_phase r \<in> {Committing, CommitUnknown} then command_unsure x c r request s
      else command_live x c r binding request s)"

definition command_retry :: "'c ctx \<Rightarrow> tx_command \<Rightarrow> tx_record \<Rightarrow> binding \<Rightarrow> string \<Rightarrow> 'c st \<Rightarrow> 'c res" where
  "command_retry x c r binding request s =
     (case (cm_sequence c, r_last r) of
        (Some sequence, Some prior) \<Rightarrow>
          if wrap_add u64_max sequence 1 = r_next_sequence r then
            (case (if cm_kind c = Statement_cmd then may_repeat x c (s_compiler s) else (True, s_compiler s)) of
               (repeats, k) \<Rightarrow>
                 (let s = s\<lparr>s_compiler := k\<rparr> in
                  if \<not> repeats then command_after_retry x c r binding request s
                  else (case digest_of x c of
                      None \<Rightarrow> Done (respond_error x C_Internal s)
                    | Some digest \<Rightarrow>
                        if digest = rp_digest prior
                        then Done (respond (value_reply (x_serde x) (rp_response prior)) s)
                        else command_after_retry x c r binding request s)))
          else command_after_retry x c r binding request s
      | _ \<Rightarrow> command_after_retry x c r binding request s)"

definition command_owned :: "'c ctx \<Rightarrow> tx_command \<Rightarrow> tx_record \<Rightarrow> string \<Rightarrow> 'c st \<Rightarrow> 'c res" where
  "command_owned x c r request s =
     (case cm_binding c of
        None \<Rightarrow> Done (respond_error x C_Unavailable s)
      | Some binding \<Rightarrow>
          if replay_identity (x_sha x) (sj_f64 (x_serde x)) (cm_auth c) (cm_binding_json c)
               \<noteq> Inr (idn_replay (r_identity r))
          then Done (respond_error x C_Unavailable s)
          else command_retry x c r binding request s)"

definition command_parsed :: "'c ctx \<Rightarrow> tx_command \<Rightarrow> json \<Rightarrow> 'c st \<Rightarrow> 'c res" where
  "command_parsed x c input s =
     (let request = request_id x;
          s = s\<lparr>s_request := Some request\<rparr>;
          owned = (field_text ''transactionId'' input = Some (x_owner x))
      in case s_durable s of
           Some (Live r) \<Rightarrow>
             if owned \<and> r_kind r = Interactive then command_owned x c r request s
             else Done (respond_error x C_Unavailable s)
         | Some (Tombstone _) \<Rightarrow>
             if owned then Done (respond_error x (if cm_kind c = Commit_cmd then C_OutcomeUnknown else C_Unavailable) s)
             else Done (respond_error x C_Unavailable s)
         | None \<Rightarrow> Done (respond_error x C_Unavailable s))"

definition command :: "'c ctx \<Rightarrow> command_kind \<Rightarrow> json \<Rightarrow> 'c st \<Rightarrow> 'c res" where
  "command x kind input s =
     (case Option.bind (field_text ''command'' input)
             (\<lambda>text. strict_check (x_usize_max x) (sj_events (x_serde x)) text None) of
        Some DuplicateKey \<Rightarrow> Done (respond_error x C_Invalid s)
      | Some TooDeep \<Rightarrow> Done (respond_error x C_JsonTooDeep s)
      | _ \<Rightarrow>
          (case parse_command x kind input of
             None \<Rightarrow> Done (respond_error x C_Invalid s)
           | Some c \<Rightarrow> command_parsed x c input s))"

section \<open>A statement's results\<close>

definition observe_statement ::
  "'c ctx \<Rightarrow> string option \<Rightarrow> operation \<Rightarrow> string option \<Rightarrow> nat option \<Rightarrow> driver_statement list \<Rightarrow> nat \<Rightarrow> 'c st \<Rightarrow> 'c res" where
  "observe_statement x rid operation resource explain_resource observed cap s =
     (if operation = Insert then Done s
      else (case observed of
          [] \<Rightarrow> Done s
        | d # _ \<Rightarrow>
            (case driver_call_of (ds_cost_sql d) d of
               Inl e \<Rightarrow> Fault e s
             | Inr call \<Rightarrow>
                 (case record_of s of
                    None \<Rightarrow> Fault ''statement_record'' s
                  | Some r \<Rightarrow> Done (push (Observe [call]
                      \<lparr>oc_request_id = unwrap_or (request_id x) rid, oc_binding = r_binding r,
                       oc_statements = [\<lparr>os_operation = operation_str operation, os_resource = resource,
                         os_explain_resource = explain_resource\<rparr>]\<rparr> cap) s)))))"

text \<open>The record after a statement completed.\<close>

definition statement_done ::
  "'c ctx \<Rightarrow> nat \<Rightarrow> string \<Rightarrow> operation \<Rightarrow> string option \<Rightarrow> versions \<Rightarrow> nat \<Rightarrow> usage \<Rightarrow> nat \<Rightarrow> raw \<Rightarrow> tx_record \<Rightarrow> tx_record" where
  "statement_done x sequence digest operation resource versions result_bytes usage affected response r =
     (let index = ct_statements (r_counters r) in
      r\<lparr>r_next_sequence := wrap_add u64_max sequence 1,
        r_last := Some \<lparr>rp_digest = digest, rp_response = raw_of (x_serde x) response\<rparr>,
        r_counters := \<lparr>ct_statements = wrap_add u32_max index 1, ct_result_bytes = result_bytes, ct_usage = usage\<rparr>,
        r_mutations := r_mutations r @ (case resource of
            Some name \<Rightarrow> if operation \<noteq> Select \<and> affected > 0
              then [\<lparr>mu_index = index, mu_operation = operation, mu_resource = name\<rparr>] else []
          | None \<Rightarrow> []),
        r_versions := Some versions\<rparr>)"

definition add_usage :: "'c ctx \<Rightarrow> usage \<Rightarrow> usage \<Rightarrow> usage" where
  "add_usage x u v = \<lparr>us_rows_read = sat_add u64_max (us_rows_read u) (us_rows_read v),
     us_rows_written = sat_add u64_max (us_rows_written u) (us_rows_written v),
     us_query_duration_ms = round_ms (x_rnd x)
       (f64_add (x_rnd x) (us_query_duration_ms u) (us_query_duration_ms v))\<rparr>"

definition executed_store ::
  "'c ctx \<Rightarrow> work_lane \<Rightarrow> string \<Rightarrow> raw \<Rightarrow> usage \<Rightarrow> tx_record \<Rightarrow> 'c st \<Rightarrow> 'c res" where
  "executed_store x lane request response usage done_record s =
     (if length (durable_to_json (x_serde x) (Live done_record)) > MAX_DURABLE_BYTES
      then close_error x lane Failed C_TransactionLimit s
      else
        (let previous = map_option (durable_to_json (x_serde x)) (s_durable s);
             s = s\<lparr>s_durable := Some (Live done_record)\<rparr>;
             s = log_value x (json_obj [(''event'', JString ''transaction_usage''),
               (''transactionId'', JString (x_owner x)), (''requestId'', JString request),
               (''usage'', usage_json usage)]) s
         in wait x lane (Some request)
              (Reply (Some (value_reply (x_serde x) response)) (Some (error_reply (x_serde x) C_Internal)) [] []
                 True previous) Persist s))"

definition executed_shaped ::
  "'c ctx \<Rightarrow> work_lane \<Rightarrow> string option \<Rightarrow> nat \<Rightarrow> string \<Rightarrow> operation \<Rightarrow> string option \<Rightarrow> versions \<Rightarrow>
     driver_result \<Rightarrow> validated \<Rightarrow> 'c st \<Rightarrow> 'c res" where
  "executed_shaped x lane rid sequence digest operation resource versions result v s =
     (let request = unwrap_or (request_id x) rid in
      case shape_statement x (Some sequence) operation v of
        Inl e \<Rightarrow> Fault e s
      | Inr shaped \<Rightarrow>
          (case record_of s of
             None \<Rightarrow> Fault ''statement_record'' s
           | Some r \<Rightarrow>
               (let result_bytes = sat_add u64_max (ct_result_bytes (r_counters r)) (length shaped);
                    usage = add_usage x (ct_usage (r_counters r)) (dr_usage result)
                in if result_bytes > lim_max_transaction_result_bytes (x_limits x)
                   then close_error x lane Failed C_TransactionLimit s
                   else if \<not> usage_is_valid usage \<or> \<not> f64_is_finite (us_query_duration_ms (dr_usage result))
                   then close_error x lane Failed C_Internal s
                   else
                     (let response = statement_response x (x_owner x) sequence shaped request
                      in executed_store x lane request response usage
                           (statement_done x sequence digest operation resource versions result_bytes usage
                              (vd_affected_rows v) response r) s))))"

definition executed_validated ::
  "'c ctx \<Rightarrow> work_lane \<Rightarrow> string option \<Rightarrow> nat \<Rightarrow> string \<Rightarrow> nat \<Rightarrow> operation \<Rightarrow> string option \<Rightarrow> versions \<Rightarrow>
     nat option \<Rightarrow> driver_result \<Rightarrow> validated \<Rightarrow> 'c st \<Rightarrow> 'c res" where
  "executed_validated x lane rid sequence digest handle operation resource versions explain_resource result v s =
     (let observed = (case c_statements (x_compiler x) (s_compiler s) handle of Inl _ \<Rightarrow> [] | Inr d \<Rightarrow> d);
          cap = (case c_raw_result_bound (x_compiler x) (s_compiler s) handle of Inl _ \<Rightarrow> 0 | Inr n \<Rightarrow> n)
      in and_then
           (observe_statement x rid operation resource explain_resource observed cap (release x handle s))
           (executed_shaped x lane rid sequence digest operation resource versions result v))"

definition executed ::
  "'c ctx \<Rightarrow> work_lane \<Rightarrow> string option \<Rightarrow> nat \<Rightarrow> string \<Rightarrow> nat \<Rightarrow> operation \<Rightarrow> string option \<Rightarrow> versions \<Rightarrow>
     nat option \<Rightarrow> driver_result list \<Rightarrow> 'c st \<Rightarrow> 'c res" where
  "executed x lane rid sequence digest handle operation resource versions explain_resource results s =
     (let s = set_connection x Conn_Open s in
      if rollback_requested s then expire_client x lane (release x handle s)
      else (case results of
          [result] \<Rightarrow>
            (case codec_failure result of
               Some code \<Rightarrow> close_error x lane Failed code (release x handle s)
             | None \<Rightarrow>
                 (case statement_budget x handle s of
                    Inl e \<Rightarrow> Fault e s
                  | Inr budget \<Rightarrow>
                      (case c_validate (x_compiler x) (s_compiler s) handle 0 (raw_result_of operation result) budget of
                         Inl e \<Rightarrow> close x lane Failed (Some (core_error_reply (x_serde x) e))
                           (log_core_error x e (release x handle s))
                       | Inr v \<Rightarrow> executed_validated x lane rid sequence digest handle operation resource versions
                           explain_resource result v s)))
        | _ \<Rightarrow> close_error x lane Failed C_Internal (release x handle s)))"

end
