(* ===== verification/Tx_Run.thy ===== *)
theory Tx_Run
  imports Tx_Dispatch
begin

text \<open>
  Outcomes, the timer, the dispatch of an event and a whole step
  (\<^verbatim>\<open>src/crates/policysql-transaction/src/machine/step.rs\<close>, \<open>consume\<close>, \<open>outcome\<close>, \<open>stale\<close>, \<open>timer\<close>,
  \<open>forwarded\<close>, \<open>dispatch\<close>, \<open>run_dispatch\<close>, \<open>run\<close>). Each arm of \<open>consume\<close> that is more than a call is
  a definition of its own.
\<close>

section \<open>Arms of consume\<close>

definition begin_opened ::
  "'c ctx \<Rightarrow> work_lane \<Rightarrow> string option \<Rightarrow> identity \<Rightarrow> binding \<Rightarrow> string \<Rightarrow> nat \<Rightarrow> 'c st \<Rightarrow> 'c res" where
  "begin_opened x lane rid identity binding snapshot expires_at_ms s =
     wait x lane rid BeginPersist Persist
       ((set_connection x Conn_Open s)\<lparr>s_durable := Some (Live
          \<lparr>r_owner = x_owner x, r_kind = Interactive, r_phase = Active, r_identity = identity,
           r_binding = binding, r_snapshot = snapshot, r_expires_at_ms = Some expires_at_ms,
           r_next_sequence = 1, r_last = None, r_counters = counters_default, r_mutations = [],
           r_versions = None, r_atomic = None\<rparr>)\<rparr>)"

definition begin_timer_set :: "'c ctx \<Rightarrow> work_lane \<Rightarrow> string option \<Rightarrow> 'c st \<Rightarrow> 'c res" where
  "begin_timer_set x lane rid s =
     (if rollback_requested s then expire_client x lane s
      else
        (let request = unwrap_or (request_id x) rid in
         case record_of s of
           None \<Rightarrow> Fault ''begin_record'' s
         | Some r \<Rightarrow>
             Done (respond (value_reply (x_serde x) (public_state x r request))
               (log_value x (json_obj [(''event'', JString ''transaction_started''),
                  (''transactionId'', JString (x_owner x)), (''mode'', JString (mode_str (idn_mode (r_identity r)))),
                  (''requestId'', JString request)]) s))))"

definition statement_bound ::
  "'c ctx \<Rightarrow> work_lane \<Rightarrow> string option \<Rightarrow> nat \<Rightarrow> string \<Rightarrow> nat \<Rightarrow> operation \<Rightarrow> string option \<Rightarrow> versions \<Rightarrow>
     nat option \<Rightarrow> 'c st \<Rightarrow> 'c res" where
  "statement_bound x lane rid sequence digest handle operation resource versions explain_resource =
     recheck x lane (\<lambda>s.
       (case plan_calls x handle s of
          Inl e \<Rightarrow> Fault e s
        | Inr (calls, max_response_bytes) \<Rightarrow>
            wait x lane rid
              (StatementExecute sequence digest handle operation resource versions (now_ms x) explain_resource)
              (\<lambda>i. Execute i calls None max_response_bytes) s))"

definition statement_failed ::
  "'c ctx \<Rightarrow> work_lane \<Rightarrow> nat \<Rightarrow> versions \<Rightarrow> err_class \<Rightarrow> nat option \<Rightarrow> string option \<Rightarrow> string option \<Rightarrow>
     'c st \<Rightarrow> 'c res" where
  "statement_failed x lane handle versions class statement_index database_code cause s =
     (let s = release x handle (set_connection x Conn_Open s) in
      if rollback_requested s then expire_client x lane s
      else (case execute_failed_reply x (for_class class) class
                \<lparr>fd_statement = statement_index, fd_database_code = database_code, fd_cause = cause,
                 fd_versions = Some versions\<rparr> s of
          (reply, s) \<Rightarrow> close x lane Failed (Some reply) s))"

definition commit_bound ::
  "'c ctx \<Rightarrow> work_lane \<Rightarrow> string option \<Rightarrow> nat \<Rightarrow> string \<Rightarrow> string option \<Rightarrow> bool \<Rightarrow> 'c st \<Rightarrow> 'c res" where
  "commit_bound x lane rid sequence digest auth passed =
     recheck x lane (\<lambda>s.
       (case auth of
          Some a \<Rightarrow> start_checks x lane rid sequence digest a s
        | None \<Rightarrow> wait x lane rid (CommitPersist sequence digest passed) Persist (set_phase x Committing s)))"

text \<open>The one deadline check of \<open>committing\<close>.\<close>

definition commit_persisted ::
  "'c ctx \<Rightarrow> work_lane \<Rightarrow> string option \<Rightarrow> nat \<Rightarrow> string \<Rightarrow> bool \<Rightarrow> 'c st \<Rightarrow> 'c res" where
  "commit_persisted x lane rid sequence digest passed s =
     (case Option.bind (record_of s) r_expires_at_ms of
        None \<Rightarrow> Fault ''committing_record'' s
      | Some expires \<Rightarrow>
          if now_ms x \<ge> expires \<or> rollback_requested s then close_error x lane Expired C_Unavailable s
          else wait x lane rid (CommitSend sequence digest passed) Commit (set_connection x Closing s))"

definition committed ::
  "'c ctx \<Rightarrow> work_lane \<Rightarrow> string option \<Rightarrow> string \<Rightarrow> bool \<Rightarrow> 'c st \<Rightarrow> 'c res" where
  "committed x lane rid digest passed s =
     (let s = set_connection x Conn_None s;
          request = unwrap_or (request_id x) rid;
          response = terminal_response x (x_owner x) ''committed'' request passed
      in case record_of s of
           None \<Rightarrow> Fault ''commit_record'' s
         | Some r \<Rightarrow>
             and_then (complete_command x Committed digest response s) (\<lambda>s.
               let terminal = to_raw (x_serde x) (DVal (terminal_log x ''committed'' request (ct_usage (r_counters r))));
                   unrecorded = to_raw (x_serde x) (DVal (json_obj
                     [(''event'', JString ''transaction_terminal_unrecorded''),
                      (''transactionId'', JString (x_owner x)), (''requestId'', JString request)]));
                   reply = value_reply (x_serde x) response
               in wait x lane (Some request)
                    (Reply (Some reply) (Some reply) [terminal] [unrecorded, terminal] False None) Persist s))"

definition commit_failed :: "'c ctx \<Rightarrow> work_lane \<Rightarrow> string option \<Rightarrow> err_class \<Rightarrow> 'c st \<Rightarrow> 'c res" where
  "commit_failed x lane rid class s =
     (let s = set_connection x Conn_None s; request = unwrap_or (request_id x) rid in
      if class = NotCommitted then close_error x lane Failed C_Unavailable s
      else
        (let unknown = error_reply (x_serde x) C_OutcomeUnknown
         in wait x lane (Some request) (plain_reply (Some unknown) (Some unknown)) Persist
              (set_phase x CommitUnknown (log_value x (json_obj
                 [(''event'', JString ''transaction_commit_outcome_unknown''),
                  (''transactionId'', JString (x_owner x)), (''requestId'', JString request)]) s))))"

definition rollback_bound :: "'c ctx \<Rightarrow> work_lane \<Rightarrow> string option \<Rightarrow> nat \<Rightarrow> string \<Rightarrow> 'c st \<Rightarrow> 'c res" where
  "rollback_bound x lane rid sequence digest =
     recheck x lane (\<lambda>s. wait x lane rid (RollbackSend sequence digest) Rollback (set_connection x Closing s))"

definition rolled_back :: "'c ctx \<Rightarrow> work_lane \<Rightarrow> string option \<Rightarrow> string \<Rightarrow> 'c st \<Rightarrow> 'c res" where
  "rolled_back x lane rid digest s =
     (let s = set_connection x Conn_None s;
          request = unwrap_or (request_id x) rid;
          response = terminal_response x (x_owner x) ''rolled_back'' request False
      in case record_of s of
           None \<Rightarrow> Fault ''rollback_record'' s
         | Some r \<Rightarrow>
             and_then (complete_command x RolledBack digest response s) (\<lambda>s.
               wait x lane (Some request)
                 (Reply (Some (value_reply (x_serde x) response)) (Some (error_reply (x_serde x) C_Internal))
                    [to_raw (x_serde x) (DVal (terminal_log x ''rolled_back'' request (ct_usage (r_counters r))))] []
                    False None) Persist s))"

definition push_logs :: "raw list \<Rightarrow> 'c st \<Rightarrow> 'c st" where
  "push_logs logs s = s\<lparr>s_effects := s_effects s @ map Log logs\<rparr>"

definition respond_opt :: "raw option \<Rightarrow> 'c st \<Rightarrow> 'c st" where
  "respond_opt reply s = (case reply of None \<Rightarrow> s | Some r \<Rightarrow> respond r s)"

definition reply_persisted :: "'c ctx \<Rightarrow> raw option \<Rightarrow> raw list \<Rightarrow> bool \<Rightarrow> 'c st \<Rightarrow> 'c res" where
  "reply_persisted x reply logs expire_after s =
     (let s = respond_opt reply (push_logs logs s) in
      if expire_after \<and> rollback_requested s then
        close x Background Expired None (log_unavailable x ''expired'' (clear_work s))
      else Done s)"

definition reply_persist_failed ::
  "'c ctx \<Rightarrow> work_lane \<Rightarrow> raw option \<Rightarrow> raw list \<Rightarrow> bool \<Rightarrow> string option \<Rightarrow> 'c st \<Rightarrow> 'c res" where
  "reply_persist_failed x lane failure failure_logs expire_after restore s =
     (let s = push_logs failure_logs s in
      if expire_after then
        (case restore of
           None \<Rightarrow> Fault ''statement_restore'' s
         | Some previous \<Rightarrow>
             (case durable_parse (x_serde x) previous (x_owner x) of
                Inl _ \<Rightarrow> Fault ''statement_restore'' s
              | Inr d \<Rightarrow> close x lane Failed failure (s\<lparr>s_durable := Some d\<rparr>)))
      else Done ((respond_opt failure s)\<lparr>s_reset := True\<rparr>))"

section \<open>consume\<close>

definition consume :: "'c ctx \<Rightarrow> work_lane \<Rightarrow> string option \<Rightarrow> task \<Rightarrow> event \<Rightarrow> 'c st \<Rightarrow> 'c res" where
  "consume x lane rid task event s =
     (let bad = Fault ''unexpected_outcome'' s in
      case task of
        BeginBinding identity binding snapshot \<Rightarrow> (case event of
            Ev_BindingChecked _ allowed \<Rightarrow> if allowed then begin_checked x rid identity binding snapshot s
              else Done (respond_error x C_BindingRejected s)
          | Ev_BindingCheckFailed _ class \<Rightarrow> Done (respond_error x (for_class class) s)
          | _ \<Rightarrow> bad)
      | BeginOpen identity binding snapshot expires_at_ms \<Rightarrow> (case event of
            Ev_Opened _ \<Rightarrow> begin_opened x lane rid identity binding snapshot expires_at_ms s
          | Ev_OpenFailed _ class \<Rightarrow> Done (respond_error x (for_class class) (set_connection x Conn_None s))
          | _ \<Rightarrow> bad)
      | BeginPersist \<Rightarrow> (case event of
            Ev_Persisted _ \<Rightarrow> (case Option.bind (record_of s) r_expires_at_ms of
                None \<Rightarrow> Fault ''begin_record'' s
              | Some at_ms \<Rightarrow> wait x lane rid BeginTimer (\<lambda>i. SetTimer i at_ms) s)
          | Ev_PersistFailed _ \<Rightarrow> close_error x lane Failed C_Internal s
          | _ \<Rightarrow> bad)
      | BeginTimer \<Rightarrow> (case event of
            Ev_TimerFailed _ \<Rightarrow> close_error x lane Failed C_Internal s
          | Ev_TimerSet _ \<Rightarrow> begin_timer_set x lane rid s
          | _ \<Rightarrow> bad)
      | StatementBinding sequence digest handle operation resource versions explain_resource \<Rightarrow> (case event of
            Ev_BindingChecked _ allowed \<Rightarrow>
              if allowed then statement_bound x lane rid sequence digest handle operation resource versions
                explain_resource s
              else close_error x lane Failed C_BindingRejected s
          | Ev_BindingCheckFailed _ class \<Rightarrow> close_error x lane Failed (for_class class) s
          | _ \<Rightarrow> bad)
      | StatementExecute sequence digest handle operation resource versions started explain_resource \<Rightarrow> (case event of
            Ev_Executed _ results \<Rightarrow> executed x lane rid sequence digest handle operation resource versions
              explain_resource results s
          | Ev_ExecuteFailed _ class statement_index database_code cause \<Rightarrow>
              statement_failed x lane handle versions class statement_index database_code cause s
          | _ \<Rightarrow> bad)
      | CommitBinding sequence digest auth passed \<Rightarrow> (case event of
            Ev_BindingChecked _ allowed \<Rightarrow>
              if allowed then commit_bound x lane rid sequence digest auth passed s
              else close_error x lane Failed C_BindingRejected s
          | Ev_BindingCheckFailed _ class \<Rightarrow> close_error x lane Failed (for_class class) s
          | _ \<Rightarrow> bad)
      | ValidatingPersist checks \<Rightarrow> (case event of
            Ev_Persisted _ \<Rightarrow> validating_persisted x lane rid checks s
          | Ev_PersistFailed _ \<Rightarrow> close_error x lane Failed C_Internal s
          | _ \<Rightarrow> bad)
      | Validator checks \<Rightarrow> (case event of
            Ev_ValidatorReplied _ ok decision \<Rightarrow>
              verdict_arrived x lane rid checks (ok \<and> allowed_decision decision) s
          | Ev_ValidatorFailed _ _ \<Rightarrow> verdict_arrived x lane rid checks False s
          | _ \<Rightarrow> bad)
      | CommitPersist sequence digest passed \<Rightarrow> (case event of
            Ev_Persisted _ \<Rightarrow> commit_persisted x lane rid sequence digest passed s
          | Ev_PersistFailed _ \<Rightarrow> close_error x lane Failed C_Internal s
          | _ \<Rightarrow> bad)
      | CommitSend sequence digest passed \<Rightarrow> (case event of
            Ev_Committed _ \<Rightarrow> committed x lane rid digest passed s
          | Ev_CommitFailed _ class \<Rightarrow> commit_failed x lane rid class s
          | _ \<Rightarrow> bad)
      | RollbackBinding sequence digest \<Rightarrow> (case event of
            Ev_BindingChecked _ allowed \<Rightarrow>
              if allowed then rollback_bound x lane rid sequence digest s
              else close_error x lane Failed C_BindingRejected s
          | Ev_BindingCheckFailed _ class \<Rightarrow> close_error x lane Failed (for_class class) s
          | _ \<Rightarrow> bad)
      | RollbackSend sequence digest \<Rightarrow> (case event of
            Ev_RolledBack _ \<Rightarrow> rolled_back x lane rid digest s
          | Ev_RollbackFailed _ _ \<Rightarrow> rolled_back x lane rid digest s
          | _ \<Rightarrow> bad)
      | CloseRollback phase reply \<Rightarrow> (case event of
            Ev_RolledBack _ \<Rightarrow> persist_phase x lane rid phase reply (set_connection x Conn_None s)
          | Ev_RollbackFailed _ _ \<Rightarrow> persist_phase x lane rid phase reply (set_connection x Conn_None s)
          | _ \<Rightarrow> bad)
      | Reply reply failure logs failure_logs expire_after restore \<Rightarrow> (case event of
            Ev_Persisted _ \<Rightarrow> reply_persisted x reply logs expire_after s
          | Ev_PersistFailed _ \<Rightarrow> reply_persist_failed x lane failure failure_logs expire_after restore s
          | _ \<Rightarrow> bad)
      | ResetAfterPersist \<Rightarrow> (case event of
            Ev_Persisted _ \<Rightarrow> Done (s\<lparr>s_reset := True\<rparr>)
          | Ev_PersistFailed _ \<Rightarrow> Done (s\<lparr>s_reset := True\<rparr>)
          | _ \<Rightarrow> bad)
      | _ \<Rightarrow> bad)"

section \<open>outcome\<close>

definition is_atomic_task :: "task \<Rightarrow> bool" where
  "is_atomic_task t = (case t of RequestBinding _ \<Rightarrow> True | AtomicForward \<Rightarrow> True | AtomicBinding _ \<Rightarrow> True
     | AtomicOpen \<Rightarrow> True | AtomicPersist \<Rightarrow> True | AtomicTimer \<Rightarrow> True | AtomicLookup \<Rightarrow> True
     | AtomicExecute \<Rightarrow> True | AtomicCommitBinding \<Rightarrow> True | AtomicInsert \<Rightarrow> True | AtomicCommit \<Rightarrow> True
     | AtomicReplay _ \<Rightarrow> True | _ \<Rightarrow> False)"

definition is_validator_event :: "event \<Rightarrow> bool" where
  "is_validator_event e = (case e of Ev_ValidatorReplied _ _ _ \<Rightarrow> True | Ev_ValidatorFailed _ _ \<Rightarrow> True | _ \<Rightarrow> False)"

definition stale :: "'c ctx \<Rightarrow> event \<Rightarrow> 'c st \<Rightarrow> 'c res" where
  "stale x event s =
     (let idle = is_none_or (\<lambda>v. v_pending v = None) (s_volatile s);
          terminal = (case s_durable s of None \<Rightarrow> idle | Some d \<Rightarrow> is_terminal (durable_phase d));
          revoked = (is_validator_event event \<and> Option.bind (s_volatile s) v_revoked_validator = outcome_id event)
      in if terminal \<or> revoked then
           Done (log_value x (json_obj [(''event'', JString ''tx_outcome_ignored''),
             (''transactionId'', JString (x_owner x)), (''id'', jopt jnat (outcome_id event))]) s)
         else Fault ''outcome_not_pending'' s)"

definition drop_finished_work :: "'c st \<Rightarrow> 'c st" where
  "drop_finished_work = on_volatile (\<lambda>v. if v_pending v = None then v\<lparr>v_work := None\<rparr> else v)"

fun map_res :: "('c st \<Rightarrow> 'c st) \<Rightarrow> 'c res \<Rightarrow> 'c res" where
  "map_res f (Done s) = Done (f s)"
| "map_res f (Fault reason s) = Fault reason (f s)"

definition pending_is :: "nat \<Rightarrow> awaited \<Rightarrow> pending option \<Rightarrow> bool" where
  "pending_is i expected p = is_some_and (\<lambda>p. pn_id p = i \<and> pn_effect p = expected) p"

definition outcome :: "'c ctx \<Rightarrow> event \<Rightarrow> 'c st \<Rightarrow> 'c res" where
  "outcome x event s =
     (case (outcome_id event, answers event) of
        (Some i, Some expected) \<Rightarrow>
          if \<not> pending_is i expected (Option.bind (s_volatile s) v_pending) then
            (if pending_is i expected (map_option cw_pending (Option.bind (s_volatile s) v_callback))
             then callback_outcome x event s else stale x event s)
          else (case s_volatile s of
              None \<Rightarrow> Fault ''no_volatile'' s
            | Some v \<Rightarrow>
                (let s = s\<lparr>s_volatile := Some (v\<lparr>v_pending := None, v_work := None\<rparr>)\<rparr> in
                 case v_work v of
                   None \<Rightarrow> Fault ''no_work'' s
                 | Some w \<Rightarrow>
                     (let s = s\<lparr>s_request := wk_request_id w\<rparr> in
                      map_res drop_finished_work
                        (if is_atomic_task (wk_task w)
                         then atomic_outcome x (wk_lane w) (wk_request_id w) (wk_task w) event s
                         else consume x (wk_lane w) (wk_request_id w) (wk_task w) event s))))
      | _ \<Rightarrow> Fault ''not_outcome'' s)"

section \<open>timer\<close>

definition is_deferring_task :: "task \<Rightarrow> bool" where
  "is_deferring_task t = (case t of
       BeginBinding _ _ _ \<Rightarrow> True | BeginOpen _ _ _ _ \<Rightarrow> True | BeginPersist \<Rightarrow> True | BeginTimer \<Rightarrow> True
     | StatementBinding _ _ _ _ _ _ _ \<Rightarrow> True | StatementExecute _ _ _ _ _ _ _ _ \<Rightarrow> True
     | CommitBinding _ _ _ _ \<Rightarrow> True | ValidatingPersist _ \<Rightarrow> True | RollbackBinding _ _ \<Rightarrow> True
     | Reply _ _ _ _ expire_after _ \<Rightarrow> expire_after | _ \<Rightarrow> False)"

definition timer :: "'c ctx \<Rightarrow> 'c st \<Rightarrow> 'c res" where
  "timer x s =
     (case record_of s of
        None \<Rightarrow> Done s
      | Some r \<Rightarrow>
          (let phase = r_phase r; due = is_some_and (\<lambda>deadline. now_ms x \<ge> deadline) (r_expires_at_ms r) in
           if r_kind r = Atomic then atomic_timer x (due \<and> phase = Active) s
           else if \<not> due \<or> phase \<notin> {Active, Validating} then Done s
           else if phase = Validating \<and> waits_on_validator s then expire_validating x s
           else (case work_of s of
               Some w \<Rightarrow>
                 if wk_lane w = Client \<and> is_deferring_task (wk_task w)
                 then Done (volatile_mut x (\<lambda>v. v\<lparr>v_rollback_requested := True\<rparr>) s)
                 else Done s
             | None \<Rightarrow> close x Background Expired None s)))"

section \<open>dispatch and run\<close>

definition forwarded :: "'c ctx \<Rightarrow> json \<Rightarrow> 'c st \<Rightarrow> 'c res" where
  "forwarded x input s =
     (case input_kind input of
        Some kind \<Rightarrow>
          if kind = ''begin'' then begin_tx x input s
          else if kind = ''statement'' then command x Statement_cmd input s
          else if kind = ''commit'' then command x Commit_cmd input s
          else if kind = ''rollback'' then command x Rollback_cmd input s
          else if kind = ''callbackQuery'' then callback_query x input s
          else if kind = ''atomic'' then atomic_input x input s
          else Done (respond_error x C_Invalid s)
      | None \<Rightarrow> Done (respond_error x C_Invalid s))"

definition dispatch :: "'c ctx \<Rightarrow> event \<Rightarrow> 'c st \<Rightarrow> 'c res" where
  "dispatch x event s =
     (case event of
        Ev_Abandon \<Rightarrow> Done (abandon x s)
      | Ev_Request operation \<Rightarrow> request_event x operation s
      | Ev_Forwarded input \<Rightarrow> if on_owner x then forwarded x input s else Done (respond_error x C_Internal s)
      | Ev_TimerFired \<Rightarrow> if on_owner x then timer x s else Done s
      | _ \<Rightarrow> outcome x event s)"

definition checked_dispatch :: "'c ctx \<Rightarrow> event \<Rightarrow> 'c st \<Rightarrow> 'c res" where
  "checked_dispatch x event s =
     and_then (dispatch x event s) (\<lambda>s. case check_output x s of None \<Rightarrow> Done s | Some reason \<Rightarrow> Fault reason s)"

definition run_dispatch :: "'c ctx \<Rightarrow> event \<Rightarrow> 'c st \<Rightarrow> 'c st" where
  "run_dispatch x event s =
     (case checked_dispatch x event s of
        Done s' \<Rightarrow> s'
      | Fault reason s' \<Rightarrow>
          fail_closed x reason event False
            (s'\<lparr>s_compiler := release_handles x (s_allocated s') (s_compiler s'), s_allocated := [],
               s_durable := s_durable s, s_volatile := s_volatile s, s_effects := [], s_reset := False\<rparr>))"

datatype stored_state = Absent | Unreadable unreadable | Readable durable

definition init_st :: "'c \<Rightarrow> 'c st" where
  "init_st c = \<lparr>s_compiler = c, s_durable = None, s_volatile = None, s_effects = [], s_reset = False,
     s_request = None, s_allocated = [], s_abandoned = False\<rparr>"

fun readable_durable :: "stored_state \<Rightarrow> durable option" where
  "readable_durable (Readable d) = Some d"
| "readable_durable _ = None"

definition is_atomic_event :: "event \<Rightarrow> bool" where
  "is_atomic_event event = (case event of Ev_Forwarded input \<Rightarrow> input_kind input = Some ''atomic'' | _ \<Rightarrow> False)"

text \<open>The step on parsed inputs: \<open>stored\<close> is the record as read, \<open>volatile_text\<close> the text given and
  \<open>volatile_state\<close> what it reads as.\<close>

definition run_parsed :: "'c ctx \<Rightarrow> stored_state \<Rightarrow> string option \<Rightarrow> volatile option option \<Rightarrow> event \<Rightarrow> 'c \<Rightarrow> 'c st" where
  "run_parsed x stored volatile_text volatile_state event c =
     (let s = init_st c in
      case stored of
        Unreadable reason \<Rightarrow>
          if volatile_state = None \<and> is_atomic_event event then
            run_dispatch x event (log_value x (json_obj [(''event'', JString ''tx_state_discarded''),
              (''transactionId'', JString (x_owner x)), (''reason'', JString (unreadable_str reason))]) s)
          else discard x reason event (s\<lparr>s_volatile := Option.bind volatile_state id\<rparr>)
      | _ \<Rightarrow>
          if volatile_state = Some None then
            (let handles = readable_handles x (unwrap_or [] volatile_text) (h_owner (x_host x))
                   (max_volatile_bytes (x_usize_max x) (x_limits x))
             in fail_closed x ''volatile_invalid'' event True
                  (s\<lparr>s_compiler := release_handles x handles c, s_durable := readable_durable stored\<rparr>))
          else run_dispatch x event
            (s\<lparr>s_durable := readable_durable stored, s_volatile := Option.bind volatile_state id\<rparr>))"

text \<open>\<open>run\<close>: the context of a step is made from the host facts; \<open>x\<close> supplies the rest.\<close>

definition owner_of :: "host_facts \<Rightarrow> string option \<Rightarrow> string option" where
  "owner_of host durable = (case h_owner host of
       Some owner \<Rightarrow> Some owner
     | None \<Rightarrow> (case durable of None \<Rightarrow> Some [] | Some _ \<Rightarrow> None))"

definition run :: "'c ctx \<Rightarrow> string option \<Rightarrow> string option \<Rightarrow> string \<Rightarrow> string \<Rightarrow> 'c \<Rightarrow> (step_output \<times> 'c) option" where
  "run x durable volatile event_text host_text c =
     (case sj_host (x_serde x) host_text of None \<Rightarrow> None | Some host \<Rightarrow>
      if \<not> host_is_valid host then None
      else (case owner_of host durable of None \<Rightarrow> None | Some owner \<Rightarrow>
      if length event_text > max_event_bytes (x_usize_max x) (x_limits x) then None
      else (case sj_event (x_serde x) event_text of None \<Rightarrow> None | Some event \<Rightarrow>
        (let x = x\<lparr>x_host := host, x_owner := owner\<rparr>;
             stored = (case durable of None \<Rightarrow> Absent
               | Some text \<Rightarrow> (case durable_parse (x_serde x) text owner of
                     Inr d \<Rightarrow> Readable d | Inl reason \<Rightarrow> Unreadable reason));
             volatile_state = map_option (\<lambda>text. volatile_parse (x_serde x) text (h_owner host)
               (max_volatile_bytes (x_usize_max x) (x_limits x))) volatile
         in Some (finish_output x (run_parsed x stored volatile volatile_state event c))))))"

end
