(* ===== verification/Tx_Frame.thy ===== *)
theory Tx_Frame
  imports Tx_Run
begin

text \<open>
  What every handler of the step machine leaves alone, proved once. The locale \<open>step_frame\<close> is the
  interface between the primitives of a step and its handlers: a preorder \<open>R\<close> on step states that
  each primitive update keeps, where \<open>E\<close> says which effects may be emitted. Inside it every
  handler of \<open>step.rs\<close>, \<open>checks.rs\<close> and \<open>atomic.rs\<close> is shown to keep \<open>R\<close>; the interpretations at
  the end instantiate \<open>R\<close> with the relations the safety properties need.
\<close>

named_theorems frame

text \<open>A durable state a step may write: of this owner, or of the record it replaces.\<close>

definition own_durable :: "'c ctx \<Rightarrow> 'c st \<Rightarrow> durable \<Rightarrow> bool" where
  "own_durable x s d = (durable_owner d = x_owner x \<or>
     (\<exists>d0. s_durable s = Some d0 \<and> durable_owner d = durable_owner d0))"

text \<open>A volatile part a step may write: dropped, or the same line of effect ids continued.\<close>

definition same_line :: "'c ctx \<Rightarrow> 'c st \<Rightarrow> volatile option \<Rightarrow> bool" where
  "same_line x s v = is_none_or (\<lambda>w. v_v w = v_v (volatile_of x s) \<and> v_owner w = v_owner (volatile_of x s) \<and>
     v_next_effect_id (volatile_of x s) \<le> v_next_effect_id w) v"

definition no_commit :: "effect \<Rightarrow> bool" where
  "no_commit e = (\<forall>i. e \<noteq> Commit i)"

lemma no_commit_simps [simp]:
  "no_commit (Forward i o' l q)" "no_commit (Open i b m t d)" "no_commit (CheckBinding i b e)"
  "no_commit (Execute i c z n)" "no_commit (Rollback i)" "no_commit (SetTimer i a)" "no_commit (Persist i)"
  "no_commit (CallValidator i u p g t)" "no_commit (Respond l q)" "no_commit (Observe c y n)"
  "no_commit (Log q)" "no_commit Reset" "\<not> no_commit (Commit i)"
  by (simp_all add: no_commit_def)

lemma volatile_of_updates [simp]:
  "volatile_of x (s\<lparr>s_compiler := c\<rparr>) = volatile_of x s"
  "volatile_of x (s\<lparr>s_request := q\<rparr>) = volatile_of x s"
  "volatile_of x (s\<lparr>s_allocated := a\<rparr>) = volatile_of x s"
  "volatile_of x (s\<lparr>s_durable := d\<rparr>) = volatile_of x s"
  "volatile_of x (s\<lparr>s_effects := es\<rparr>) = volatile_of x s"
  "volatile_of x (s\<lparr>s_reset := b\<rparr>) = volatile_of x s"
  "volatile_of x (s\<lparr>s_abandoned := b\<rparr>) = volatile_of x s"
  "volatile_of x (s\<lparr>s_volatile := Some v\<rparr>) = v"
  "volatile_of x (push e s) = volatile_of x s"
  "s_durable (push e s) = s_durable s"
  by (simp_all add: volatile_of_def push_def)

text \<open>When the outcome of a task may emit \<open>Commit\<close>: the interactive commit whose \<open>committing\<close> record is
  stored, before its deadline and with no expiry requested; or an atomic execution that is not
  expired, after its idempotency row, or without a key after its last check.\<close>

definition commit_guard :: "'c ctx \<Rightarrow> task \<Rightarrow> event \<Rightarrow> 'c st \<Rightarrow> bool" where
  "commit_guard x task event s =
     (case (task, event) of
        (CommitPersist _ _ _, Ev_Persisted _) \<Rightarrow>
          is_some_and (\<lambda>deadline. now_ms x < deadline) (Option.bind (record_of s) r_expires_at_ms) \<and>
          \<not> rollback_requested s
      | (AtomicInsert, Ev_Executed _ _) \<Rightarrow> \<not> atomic_expired x s
      | (AtomicCommitBinding, Ev_BindingChecked _ allowed) \<Rightarrow>
          allowed \<and> is_some_and (\<lambda>r. r_snapshot r = snapshot_of x) (record_of s) \<and> \<not> atomic_expired x s \<and>
          is_some_and (\<lambda>a. ar_idempotency a = None) (atomic_run_of s)
      | (AtomicExecute, Ev_Executed _ _) \<Rightarrow>
          is_some_and (\<lambda>a. ar_placement a = Direct \<and> ar_idempotency a = None) (atomic_run_of s)
      | _ \<Rightarrow> False)"

text \<open>The event answers the effect the client lane awaits.\<close>

definition awaits :: "event \<Rightarrow> volatile \<Rightarrow> bool" where
  "awaits event v = (case (outcome_id event, answers event) of
     (Some i, Some expected) \<Rightarrow> pending_is i expected (v_pending v) | _ \<Rightarrow> False)"

lemma run_updates [simp]:
  "atomic_run_of (set_connection x c s) = atomic_run_of s"
  "rollback_requested (set_connection x c s) = rollback_requested s"
  "record_of (set_connection x c s) = record_of s"
  by (simp_all add: atomic_run_of_def set_connection_def volatile_mut_def volatile_of_def fresh_volatile_def
      rollback_requested_def volatile_is_def record_of_def split: option.split)

lemma atomic_expired_set_connection [simp]: "atomic_expired x (set_connection x c s) = atomic_expired x s"
  by (simp add: atomic_expired_def atomic_on_owner_def)

lemmas frame_splits = option.split sum.split prod.split if_split list.split

locale step_frame =
  fixes x :: "'c ctx" and E :: "effect \<Rightarrow> bool" and R :: "'c st \<Rightarrow> 'c st \<Rightarrow> bool"
  assumes refl [frame]: "R s s"
    and trans: "R s t \<Longrightarrow> R t u \<Longrightarrow> R s u"
    and effect_ok [frame]: "no_commit e \<Longrightarrow> E e"
    and push_ok: "E e \<Longrightarrow> R s (push e s)"
    and compiler_ok: "R s (s\<lparr>s_compiler := k\<rparr>)"
    and request_ok: "R s (s\<lparr>s_request := q\<rparr>)"
    and allocated_ok: "R s (s\<lparr>s_allocated := a\<rparr>)"
    and reset_ok: "R s (s\<lparr>s_reset := True\<rparr>)"
    and abandoned_ok: "R s (s\<lparr>s_abandoned := True\<rparr>)"
    and volatile_ok: "same_line x s v \<Longrightarrow> R s (s\<lparr>s_volatile := v\<rparr>)"
    and durable_ok: "own_durable x s d \<Longrightarrow> R s (s\<lparr>s_durable := Some d\<rparr>)"
begin

lemma push_frame [frame]: "R s t \<Longrightarrow> E e \<Longrightarrow> R s (push e t)"
  using trans push_ok by blast

lemma compiler_frame [frame]: "R s t \<Longrightarrow> R s (t\<lparr>s_compiler := c\<rparr>)"
  using trans compiler_ok by blast

lemma request_frame [frame]: "R s t \<Longrightarrow> R s (t\<lparr>s_request := q\<rparr>)"
  using trans request_ok by blast

lemma allocated_frame [frame]: "R s t \<Longrightarrow> R s (t\<lparr>s_allocated := a\<rparr>)"
  using trans allocated_ok by blast

lemma reset_frame [frame]: "R s t \<Longrightarrow> R s (t\<lparr>s_reset := True\<rparr>)"
  using trans reset_ok by blast

lemma abandoned_frame [frame]: "R s t \<Longrightarrow> R s (t\<lparr>s_abandoned := True\<rparr>)"
  using trans abandoned_ok by blast

lemma volatile_frame [frame]: "R s t \<Longrightarrow> same_line x t v \<Longrightarrow> R s (t\<lparr>s_volatile := v\<rparr>)"
  using trans volatile_ok by blast

lemma durable_frame [frame]: "R s t \<Longrightarrow> own_durable x t d \<Longrightarrow> R s (t\<lparr>s_durable := Some d\<rparr>)"
  using trans durable_ok by blast

lemma same_line_None [frame]: "same_line x t None"
  by (simp add: same_line_def)

lemma same_line_Some [frame]:
  "v_v w = v_v (volatile_of x t) \<Longrightarrow> v_owner w = v_owner (volatile_of x t) \<Longrightarrow>
     v_next_effect_id (volatile_of x t) \<le> v_next_effect_id w \<Longrightarrow> same_line x t (Some w)"
  by (simp add: same_line_def)

lemma volatile_mut_frame [frame]:
  assumes "R s t" and "\<And>v. v_v (f v) = v_v v" and "\<And>v. v_owner (f v) = v_owner v"
    and "\<And>v. v_next_effect_id (f v) = v_next_effect_id v"
  shows "R s (volatile_mut x f t)"
  using assms by (simp add: volatile_mut_def frame)

lemma on_volatile_frame [frame]:
  assumes "R s t" and "\<And>v. v_v (f v) = v_v v" and "\<And>v. v_owner (f v) = v_owner v"
    and "\<And>v. v_next_effect_id (f v) = v_next_effect_id v"
  shows "R s (on_volatile f t)"
proof (cases "s_volatile t")
  case None
  then have "on_volatile f t = t\<lparr>s_volatile := None\<rparr>" by (simp add: on_volatile_def)
  then show ?thesis using assms(1) by (simp add: frame)
next
  case (Some v)
  then have "volatile_of x t = v" by (simp add: volatile_of_def)
  with Some assms show ?thesis by (simp add: on_volatile_def frame)
qed

lemma wait_frame [frame]:
  "R s t \<Longrightarrow> (\<And>i. E (eff i)) \<Longrightarrow> R s (res_state (wait x lane rid task eff t))"
  by (simp add: wait_def Let_def frame)

lemma respond_frame [frame]:
  "R s t \<Longrightarrow> R s (respond q t)" "R s t \<Longrightarrow> R s (respond_callback q t)" "R s t \<Longrightarrow> R s (log_value x j t)"
  "R s t \<Longrightarrow> R s (respond_error x c t)" "R s t \<Longrightarrow> R s (respond_callback_error x c t)"
  by (simp_all add: respond_def respond_callback_def log_value_def respond_error_def
      respond_callback_error_def frame)

lemma log_frame [frame]:
  "R s t \<Longrightarrow> R s (log_core_error x e t)" "R s t \<Longrightarrow> R s (log_database_code x k d t)"
  "R s t \<Longrightarrow> R s (log_unavailable x why t)" "R s t \<Longrightarrow> R s (snapshot_skew x what t)"
  by (simp_all add: log_core_error_def log_database_code_def log_unavailable_def snapshot_skew_def frame
      split: option.split json.split)

lemma execute_failed_reply_frame [frame]: "R s t \<Longrightarrow> R s (snd (execute_failed_reply x c k d t))"
  by (simp add: execute_failed_reply_def Let_def frame)

lemma release_frame [frame]:
  "R s t \<Longrightarrow> R s (release_all x t)" "R s t \<Longrightarrow> R s (release x h t)" "R s t \<Longrightarrow> R s (allocate x h t)"
  by (simp_all add: release_all_def release_def allocate_def frame volatile_of_def split: option.split)

lemma set_phase_frame [frame]: "R s t \<Longrightarrow> R s (set_phase x p t)"
  by (simp add: set_phase_def frame own_durable_def split: option.split durable.split)

lemma set_connection_frame [frame]: "R s t \<Longrightarrow> R s (set_connection x c t)"
  by (simp add: set_connection_def frame)

lemma clear_work_frame [frame]: "R s t \<Longrightarrow> R s (clear_work t)"
  by (simp add: clear_work_def frame)

lemma persist_frame [frame]:
  "R s t \<Longrightarrow> R s (res_state (persist_phase x lane rid p q t))"
  "R s t \<Longrightarrow> R s (res_state (persist_reply x rid q' f t))"
  by (simp_all add: persist_phase_def persist_reply_def Let_def frame split: option.split)

lemma revoke_frame [frame]: "R s t \<Longrightarrow> R s (revoke t)"
  by (simp add: revoke_def frame)

lemma close_frame [frame]:
  "R s t \<Longrightarrow> R s (res_state (close x lane p q t))" "R s t \<Longrightarrow> R s (res_state (close_error x lane p c t))"
  by (simp_all add: close_error_def close_def Let_def frame)

lemma expire_client_frame [frame]: "R s t \<Longrightarrow> R s (res_state (expire_client x lane t))"
  by (simp add: expire_client_def frame)

lemma recheck_frame [frame]:
  "R s t \<Longrightarrow> (R s t \<Longrightarrow> R s (res_state (k t))) \<Longrightarrow> R s (res_state (recheck x lane k t))"
  by (simp add: recheck_def frame split: option.split)

lemma complete_command_frame [frame]: "R s t \<Longrightarrow> R s (res_state (complete_command x p d q t))"
  by (auto simp: complete_command_def record_of_def own_durable_def split: option.split durable.split intro!: frame)

lemma and_then_frame [frame]:
  "R s (res_state r) \<Longrightarrow> (\<And>t. R s t \<Longrightarrow> R s (res_state (k t))) \<Longrightarrow> R s (res_state (and_then r k))"
  by (cases r) simp_all

lemma answer_frame [frame]:
  "R s t \<Longrightarrow> R s (answer_waiting x b t)" "R s t \<Longrightarrow> R s (answer_lanes x c d t)"
  "R s t \<Longrightarrow> R s (answer_event x b event t)"
  by (simp_all add: answer_waiting_def answer_lanes_def answer_event_def Let_def frame
      split: option.split event.split)

lemma or_reset_frame [frame]: "R s (res_state r) \<Longrightarrow> R s (or_reset r)"
  by (cases r) (simp_all add: or_reset_def frame)

lemma abandon_frame [frame]: "R s t \<Longrightarrow> R s (abandon x t)"
  by (simp add: abandon_def Let_def frame split: option.split)

text \<open>\<open>fail_closed\<close> starts from no effects.\<close>

lemma fail_closed_frame: "R (s\<lparr>s_effects := []\<rparr>) (fail_closed x why event vu s)"
proof -
  have tail: "R r (case n of Some p \<Rightarrow> or_reset (wait x Background None ResetAfterPersist Persist (set_phase x p u))
      | None \<Rightarrow> u\<lparr>s_reset := True\<rparr>)" if "R r u" for r u n
    using that by (simp add: frame split: option.split)
  show ?thesis unfolding fail_closed_def Let_def by (rule tail) (simp add: frame)
qed

lemma discard_frame [frame]: "R s t \<Longrightarrow> R s (discard x why event t)"
proof -
  have close_line: "R s (or_reset (if b then wait x Background None (CloseRollback Discarded None) Rollback
        (on_volatile (\<lambda>v. v\<lparr>v_work := None, v_connection := Closing\<rparr>) u)
      else if connection_of u \<noteq> Conn_None then wait x Background None ResetAfterPersist Persist (u\<lparr>s_volatile := None\<rparr>)
      else wait x Background None (plain_reply None None) Persist (u\<lparr>s_volatile := None\<rparr>)))"
    if "R s u" for u b using that by (simp add: frame)
  assume "R s t"
  then show ?thesis unfolding discard_def Let_def
    by (intro close_line) (simp add: frame own_durable_def split: option.split event.split)
qed

section \<open>checks.rs\<close>

lemma start_checks_frame [frame]: "R s t \<Longrightarrow> R s (res_state (start_checks x lane rid n d a t))"
  by (simp add: start_checks_def Let_def frame split: option.split)

lemma issue_frame [frame]: "R s t \<Longrightarrow> R s (res_state (issue x lane rid cs t))"
  by (simp add: issue_def Let_def frame split: option.split sum.split prod.split)

lemma validating_persisted_frame [frame]: "R s t \<Longrightarrow> R s (res_state (validating_persisted x lane rid cs t))"
  by (simp add: validating_persisted_def Let_def frame)

lemma atomic_commit_binding_frame [frame]: "R s t \<Longrightarrow> R s (res_state (atomic_commit_binding x lane q t))"
  by (simp add: atomic_commit_binding_def frame split: option.split)

lemma verdict_frame [frame]:
  "R s t \<Longrightarrow> R s (res_state (verdict x lane rid cs ok t))"
  "R s t \<Longrightarrow> R s (res_state (verdict_arrived x lane rid cs ok t))"
  by (simp_all add: verdict_arrived_def verdict_def Let_def frame split: option.split)

lemma expire_validating_frame [frame]: "R s t \<Longrightarrow> R s (res_state (expire_validating x t))"
  by (auto simp: expire_validating_def volatile_mut_def Let_def frame split: option.split)

lemma wait_callback_frame [frame]:
  "R s t \<Longrightarrow> (\<And>i. E (eff i)) \<Longrightarrow> R s (res_state (wait_callback x q h task eff t))"
  by (simp add: wait_callback_def Let_def frame)

lemma fail_validation_frame [frame]:
  "R s t \<Longrightarrow> R s (res_state (fail_validation x q t))"
  "R s t \<Longrightarrow> R s (res_state (fail_validation_code x c t))"
  by (simp_all add: fail_validation_code_def fail_validation_def Let_def frame split: option.split)

lemma callback_compile_frame [frame]:
  "R s t \<Longrightarrow> R s (res_state (callback_compile x text cap ms n b d t))"
  by (simp add: callback_compile_def Let_def frame split: option.split sum.split prod.split)

lemma callback_retry_frame [frame]: "R s t \<Longrightarrow> R s (res_state (callback_retry x text cap ms n b d t))"
  by (simp add: callback_retry_def Let_def frame split: option.split prod.split)

lemma callback_query_frame [frame]: "R s t \<Longrightarrow> R s (res_state (callback_query x input t))"
  by (simp add: callback_query_def frame split: option.split prod.split)

lemma after_callback_frame [frame]: "R s t \<Longrightarrow> R s (res_state (after_callback x t))"
  by (simp add: after_callback_def Let_def frame split: option.split task.split)

lemma callback_failed_frame [frame]: "R s t \<Longrightarrow> R s (res_state (callback_failed x live q t))"
  by (simp add: callback_failed_def frame)

lemma callback_executed_frame [frame]:
  "R s t \<Longrightarrow> R s (res_state (callback_executed x cap q n d h vs rs t))"
  by (simp add: callback_executed_def Let_def frame split: option.split sum.split list.split)

lemma callback_bound_frame [frame]:
  "R s t \<Longrightarrow> R s (res_state (callback_bound x cap q th n d h vs t))"
  by (simp add: callback_bound_def frame split: option.split sum.split prod.split)

lemma callback_outcome_frame [frame]: "R s t \<Longrightarrow> R s (res_state (callback_outcome x event t))"
  by (simp add: callback_outcome_def Let_def split_def frame
      split: option.split event.split callback_task.split)

section \<open>atomic.rs\<close>

lemma abort_frame [frame]: "R s t \<Longrightarrow> R s (abort x q t)" "R s t \<Longrightarrow> R s (abort_error x c t)"
  by (simp_all add: abort_error_def abort_def frame)

lemma start_atomic_frame [frame]: "R s t \<Longrightarrow> R s (res_state (start_atomic x st t))"
  by (simp add: start_atomic_def Let_def frame split: option.split sum.split)

lemma request_event_frame [frame]: "R s t \<Longrightarrow> R s (res_state (request_event x input t))"
  by (simp add: request_event_def frame split: sum.split)

lemma forward_owner_frame [frame]: "R s t \<Longrightarrow> R s (res_state (forward_owner x q er a i t))"
  by (simp add: forward_owner_def Let_def frame split: option.split)

lemma request_checked_frame [frame]:
  "R s t \<Longrightarrow> R s (res_state (request_compiled x q er a c t))"
  "R s t \<Longrightarrow> R s (res_state (request_checked x rid q t))"
  by (simp_all add: request_checked_def request_compiled_def Let_def frame split: option.split sum.split prod.split)

lemma owner_replied_frame [frame]: "R s t \<Longrightarrow> R s (owner_replied x j t)"
  by (simp add: owner_replied_def Let_def frame split: option.split)

lemma atomic_input_frame [frame]:
  "R s t \<Longrightarrow> R s (res_state (atomic_input x input t))"
  "R s t \<Longrightarrow> R s (res_state (atomic_input_checked x rid q t))"
  by (simp_all add: atomic_input_checked_def atomic_input_def Let_def frame
      split: option.split sum.split prod.split)

lemma expire_atomic_frame [frame]: "R s t \<Longrightarrow> R s (res_state (expire_atomic x lane t))"
  by (simp add: expire_atomic_def frame)

lemma atomic_execute_frame [frame]:
  "R s t \<Longrightarrow> R s (res_state (atomic_execute x lane q t))"
  "R s t \<Longrightarrow> R s (res_state (atomic_query x lane q t))"
  by (simp_all add: atomic_query_def atomic_execute_def frame split: option.split sum.split prod.split)

lemma lookup_returned_frame [frame]: "R s t \<Longrightarrow> R s (res_state (lookup_returned x lane q rs t))"
  by (simp add: lookup_returned_def Let_def frame split: option.split list.split)

lemma atomic_commit_frame:
  "R s t \<Longrightarrow> (\<not> atomic_expired x t \<Longrightarrow> \<forall>i. E (Commit i)) \<Longrightarrow> R s (res_state (atomic_commit x lane q t))"
  by (simp add: atomic_commit_def frame)

lemma insert_or_commit_frame:
  "R s t \<Longrightarrow> (\<not> atomic_expired x t \<Longrightarrow> is_some_and (\<lambda>a. ar_idempotency a = None) (atomic_run_of t) \<Longrightarrow> \<forall>i. E (Commit i))
     \<Longrightarrow> R s (res_state (insert_or_commit x lane q t))"
  by (simp add: insert_or_commit_def frame atomic_commit_frame split: option.split sum.split)

lemma atomic_proceed_frame:
  assumes "R s t" and "atomic_run_of t = Some a"
    and "ar_placement a = Direct \<Longrightarrow> ar_idempotency a = None \<Longrightarrow> \<forall>i. E (Commit i)"
  shows "R s (res_state (atomic_proceed x lane q a t))"
  using assms
  by (auto simp: atomic_proceed_def Let_def frame split: option.split intro!: insert_or_commit_frame)

lemma atomic_measure_frame:
  assumes "R s t" and "atomic_run_of t = Some a"
    and "ar_placement a = Direct \<Longrightarrow> ar_idempotency a = None \<Longrightarrow> \<forall>i. E (Commit i)"
  shows "R s (res_state (atomic_measure x lane q a e t))"
proof -
  obtain v where "s_volatile t = Some v" using assms(2) by (auto simp: atomic_run_of_def bind_eq_Some_conv)
  then have "atomic_run_of (on_volatile (\<lambda>v. v\<lparr>v_atomic := Some b\<rparr>) t) = Some b" for b
    by (simp add: atomic_run_of_def on_volatile_def)
  then show ?thesis
    using assms(1,3) by (auto simp: atomic_measure_def Let_def frame intro!: atomic_proceed_frame)
qed

lemma atomic_executed_frame:
  assumes "R s t"
    and "is_some_and (\<lambda>a. ar_placement a = Direct \<and> ar_idempotency a = None) (atomic_run_of t) \<Longrightarrow> \<forall>i. E (Commit i)"
  shows "R s (res_state (atomic_executed x lane q rs t))"
proof -
  have "R s (res_state (atomic_validated x lane q a rs vs u))"
    if "R s u" "atomic_run_of u = Some a" "atomic_run_of t = Some a" for u a vs
    using that assms(2) by (simp add: atomic_validated_def Let_def frame atomic_measure_frame split: sum.split)
  with assms(1) show ?thesis
    by (simp add: atomic_executed_def Let_def frame split: option.split sum.split)
qed

lemma atomic_committed_frame [frame]:
  "R s t \<Longrightarrow> R s (res_state (observe_atomic x t))"
  "R s t \<Longrightarrow> R s (res_state (atomic_committed x lane q t))"
proof -
  have o: "observe_effect x a u = Inr e \<Longrightarrow> E e" for a u e
    by (auto simp: observe_effect_def Let_def split: sum.splits intro!: effect_ok)
  show "R s t \<Longrightarrow> R s (res_state (observe_atomic x t))" for s t
    by (simp add: observe_atomic_def frame o split: option.split sum.split)
  show "R s t \<Longrightarrow> R s (res_state (atomic_committed x lane q t))"
    by (simp add: atomic_committed_def Let_def frame o split: option.split sum.split)
qed

lemma atomic_replayed_frame [frame]: "R s t \<Longrightarrow> R s (res_state (atomic_replayed x lane q r t))"
  by (simp add: atomic_replayed_def Let_def frame)

lemma atomic_execute_failed_frame [frame]:
  "R s t \<Longrightarrow> R s (res_state (atomic_execute_failed x lane task k st db cause t))"
  by (simp add: atomic_execute_failed_def Let_def frame split_def)

lemma atomic_opened_frame [frame]: "R s t \<Longrightarrow> R s (res_state (atomic_opened x lane q t))"
proof -
  have "atomic_record x u = Inr r \<Longrightarrow> r_owner r = x_owner x" for u r
    by (auto simp: atomic_record_def split: option.splits sum.splits)
  then show "R s t \<Longrightarrow> R s (res_state (atomic_opened x lane q t))"
    by (simp add: atomic_opened_def Let_def frame own_durable_def split: sum.split)
qed

lemma atomic_outcome_frame:
  assumes "R s t" and "commit_guard x task event t \<Longrightarrow> \<forall>i. E (Commit i)"
  shows "R s (res_state (atomic_outcome x lane rid task event t))"
proof -
  have g: "task = AtomicInsert \<Longrightarrow> event = Ev_Executed j rs \<Longrightarrow> \<not> atomic_expired x t \<Longrightarrow> \<forall>i. E (Commit i)"
    "task = AtomicCommitBinding \<Longrightarrow> event = Ev_BindingChecked j True \<Longrightarrow>
       is_some_and (\<lambda>r. r_snapshot r = snapshot_of x) (record_of t) \<Longrightarrow> \<not> atomic_expired x t \<Longrightarrow>
       is_some_and (\<lambda>a. ar_idempotency a = None) (atomic_run_of t) \<Longrightarrow> \<forall>i. E (Commit i)"
    "task = AtomicExecute \<Longrightarrow> event = Ev_Executed j rs \<Longrightarrow>
       is_some_and (\<lambda>a. ar_placement a = Direct \<and> ar_idempotency a = None) (atomic_run_of t) \<Longrightarrow> \<forall>i. E (Commit i)"
    for j rs using assms(2) by (simp_all add: commit_guard_def)
  have "R s (res_state (atomic_commit x lane q (set_connection x Conn_Open t)))"
    if "task = AtomicInsert" "event = Ev_Executed j rs" for j rs q
    by (rule atomic_commit_frame) (use assms(1) that g in \<open>simp_all add: frame\<close>)
  note g = g this
  show ?thesis
    using assms(1)
    by (cases task; cases event)
      (simp_all add: atomic_outcome_def Let_def frame atomic_commit_frame atomic_executed_frame
        atomic_commit_bound_def insert_or_commit_frame g split: option.split)
qed

lemma atomic_timer_frame [frame]: "R s t \<Longrightarrow> R s (res_state (atomic_timer x due t))"
  by (simp add: atomic_timer_def frame split: option.split)

section \<open>step.rs\<close>

lemma begin_frame [frame]:
  "R s t \<Longrightarrow> R s (res_state (begin_tx x input t))"
  "R s t \<Longrightarrow> R s (res_state (begin_checked x rid idn b sn t))"
  "R s t \<Longrightarrow> R s (res_state (begin_opened x lane rid idn b sn e t))"
  "R s t \<Longrightarrow> R s (res_state (begin_timer_set x lane rid t))"
  by (simp_all add: begin_tx_def begin_checked_def begin_opened_def begin_timer_set_def Let_def own_durable_def
      frame split: option.split sum.split prod.split durable.split bool.split)

lemma statement_frame [frame]:
  "R s t \<Longrightarrow> R s (res_state (statement_compiled x c r n d b k t))"
  "R s t \<Longrightarrow> R s (res_state (statement x c r n d b t))"
  by (simp_all add: statement_def statement_compiled_def Let_def frame
      split: option.split sum.split prod.split list.split)

lemma command_run_frame [frame]: "R s t \<Longrightarrow> R s (res_state (command_run x c r q n t))"
  by (simp add: command_run_def Let_def frame split: option.split command_kind.split)

lemma command_live_frame [frame]: "R s t \<Longrightarrow> R s (res_state (command_live x c r b q t))"
  by (simp add: command_live_def Let_def frame split: option.split)

lemma command_unsure_frame [frame]: "R s t \<Longrightarrow> R s (res_state (command_unsure x c r q t))"
  by (simp add: command_unsure_def Let_def frame)

lemma command_after_retry_frame [frame]: "R s t \<Longrightarrow> R s (res_state (command_after_retry x c r b q t))"
  by (simp add: command_after_retry_def frame)

lemma command_retry_frame [frame]: "R s t \<Longrightarrow> R s (res_state (command_retry x c r b q t))"
  by (simp add: command_retry_def Let_def split_def frame split: option.split)

lemma command_frame [frame]: "R s t \<Longrightarrow> R s (res_state (command x kind input t))"
  by (simp add: command_def command_parsed_def command_owned_def Let_def frame
      split: option.split strict_error.split durable.split)

lemma observe_statement_frame [frame]:
  "R s t \<Longrightarrow> R s (res_state (observe_statement x rid op res ex ds cap t))"
  by (simp add: observe_statement_def frame split: option.split list.split sum.split)

lemma executed_store_frame [frame]:
  "R s t \<Longrightarrow> own_durable x t (Live r) \<Longrightarrow> R s (res_state (executed_store x lane q rs u r t))"
  by (simp add: executed_store_def Let_def frame)

lemma executed_shaped_frame [frame]:
  "R s t \<Longrightarrow> R s (res_state (executed_shaped x lane rid n d op res vs dr v t))"
proof -
  have "record_of t = Some r \<Longrightarrow> own_durable x t (Live (statement_done x n d op res vs b u a q r))" for r b u a q
    by (auto simp: own_durable_def record_of_def statement_done_def Let_def split: option.splits durable.splits)
  then show "R s t \<Longrightarrow> R s (res_state (executed_shaped x lane rid n d op res vs dr v t))"
    by (simp add: executed_shaped_def Let_def frame split: option.split sum.split)
qed

lemma executed_frame [frame]:
  "R s t \<Longrightarrow> R s (res_state (executed x lane rid n d h op res vs ex rs t))"
  by (simp add: executed_def executed_validated_def Let_def frame split: option.split list.split sum.split)

lemma statement_bound_frame [frame]:
  "R s t \<Longrightarrow> R s (res_state (statement_bound x lane rid n d h op res vs ex t))"
  by (simp add: statement_bound_def frame split: sum.split prod.split)

lemma statement_failed_frame [frame]:
  "R s t \<Longrightarrow> R s (res_state (statement_failed x lane h vs k st db cause t))"
  by (simp add: statement_failed_def Let_def split_def frame)

lemma commit_bound_frame [frame]:
  "R s t \<Longrightarrow> R s (res_state (commit_bound x lane rid n d a p t))"
  "R s t \<Longrightarrow> R s (res_state (rollback_bound x lane rid n d t))"
  by (simp_all add: commit_bound_def rollback_bound_def frame split: option.split)

lemma commit_persisted_frame:
  assumes "R s t"
    and "is_some_and (\<lambda>deadline. now_ms x < deadline) (Option.bind (record_of t) r_expires_at_ms) \<Longrightarrow>
      \<not> rollback_requested t \<Longrightarrow> \<forall>i. E (Commit i)"
  shows "R s (res_state (commit_persisted x lane rid n d p t))"
  using assms by (auto simp: commit_persisted_def frame not_le split: option.split)

lemma committed_frame [frame]:
  "R s t \<Longrightarrow> R s (res_state (committed x lane rid d p t))"
  "R s t \<Longrightarrow> R s (res_state (commit_failed x lane rid k t))"
  "R s t \<Longrightarrow> R s (res_state (rolled_back x lane rid d t))"
  by (simp_all add: committed_def commit_failed_def rolled_back_def Let_def frame split: option.split)

lemma push_logs_frame [frame]: "R s t \<Longrightarrow> R s (push_logs ls t)"
proof (induction ls arbitrary: t)
  case Nil
  then show ?case by (simp add: push_logs_def)
next
  case (Cons l ls)
  have "push_logs (l # ls) t = push_logs ls (push (Log l) t)" by (simp add: push_logs_def push_def)
  then show ?case using Cons by (simp add: frame)
qed

lemma respond_opt_frame [frame]: "R s t \<Longrightarrow> R s (respond_opt q t)"
  by (simp add: respond_opt_def frame split: option.split)

lemma reply_persisted_frame [frame]:
  "R s t \<Longrightarrow> R s (res_state (reply_persisted x q ls ex t))"
  "R s t \<Longrightarrow> R s (res_state (reply_persist_failed x lane q ls ex re t))"
  by (auto simp: reply_persisted_def reply_persist_failed_def Let_def frame own_durable_def
      dest: durable_parse_owner split: option.split sum.split)

lemma consume_frame:
  assumes "R s t" and "commit_guard x task event t \<Longrightarrow> \<forall>i. E (Commit i)"
  shows "R s (res_state (consume x lane rid task event t))"
proof -
  have "R s (res_state (commit_persisted x lane rid n d p t))"
    if "task = CommitPersist n d p" "event = Ev_Persisted i" for n d p i
    by (rule commit_persisted_frame) (use assms that in \<open>simp_all add: commit_guard_def\<close>)
  then show ?thesis
    using assms(1) by (cases task; cases event) (simp_all add: consume_def Let_def frame split: option.split)
qed

lemma stale_frame [frame]: "R s t \<Longrightarrow> R s (res_state (stale x event t))"
  by (simp add: stale_def Let_def frame)

lemma drop_finished_work_frame [frame]: "R s t \<Longrightarrow> R s (drop_finished_work t)"
  by (simp add: drop_finished_work_def frame)

lemma map_res_frame [frame]: "R s (f (res_state r)) \<Longrightarrow> R s (res_state (map_res f r))"
  by (cases r) simp_all

lemma timer_frame [frame]: "R s t \<Longrightarrow> R s (res_state (timer x t))"
  by (simp add: timer_def Let_def frame split: option.split)

lemma forwarded_frame [frame]: "R s t \<Longrightarrow> R s (res_state (forwarded x input t))"
  by (simp add: forwarded_def frame split: option.split)

text \<open>The outcome of the client lane's awaited effect, when its work may emit \<open>Commit\<close> only under the
  guard.\<close>

lemma outcome_frame:
  assumes "\<And>v w. s_volatile s = Some v \<Longrightarrow> v_work v = Some w \<Longrightarrow> awaits event v \<Longrightarrow>
      commit_guard x (wk_task w) event s \<Longrightarrow> \<forall>i. E (Commit i)"
  shows "R s (res_state (outcome x event s))"
proof -
  have "R s (res_state (atomic_outcome x lane rid (wk_task w) event u))" and
    "R s (res_state (consume x lane rid (wk_task w) event u))"
    if v: "s_volatile s = Some v" "v_work v = Some w" and a: "awaits event v"
      and u: "u = s\<lparr>s_volatile := Some (v\<lparr>v_pending := None, v_work := None\<rparr>), s_request := rid'\<rparr>"
    for v w lane rid rid' u
  proof -
    have "R s u" using v by (simp add: u frame volatile_of_def)
    moreover have "commit_guard x (wk_task w) event u = commit_guard x (wk_task w) event s"
      by (simp add: u commit_guard_def record_of_def rollback_requested_def volatile_is_def atomic_expired_def
          atomic_on_owner_def atomic_run_of_def v split: task.split event.split)
    ultimately show "R s (res_state (atomic_outcome x lane rid (wk_task w) event u))"
      and "R s (res_state (consume x lane rid (wk_task w) event u))"
      using assms [OF v a] by (auto intro: atomic_outcome_frame consume_frame)
  qed
  then show ?thesis
    by (auto simp: outcome_def Let_def frame volatile_of_def awaits_def split: option.split)
qed

lemma dispatch_frame:
  assumes "\<And>v w. s_volatile s = Some v \<Longrightarrow> v_work v = Some w \<Longrightarrow> awaits event v \<Longrightarrow>
      commit_guard x (wk_task w) event s \<Longrightarrow> \<forall>i. E (Commit i)"
  shows "R s (res_state (dispatch x event s))"
  using outcome_frame [of s event, OF assms]
  by (cases event) (simp_all add: dispatch_def frame)

end

section \<open>Interpretations\<close>

text \<open>The effects of a step are only added to, and every added effect satisfies \<open>E\<close>.\<close>

definition adds :: "(effect \<Rightarrow> bool) \<Rightarrow> 'c st \<Rightarrow> 'c st \<Rightarrow> bool" where
  "adds E s t = (\<exists>es. s_effects t = s_effects s @ es \<and> list_all E es)"

lemma adds_frame:
  assumes "\<And>e. no_commit e \<Longrightarrow> E e"
  shows "step_frame x E (adds E)"
proof
  show "adds E s u" if "adds E s t" "adds E t u" for s t u :: "'c st"
    using that by (fastforce simp: adds_def)
qed (use assms in \<open>auto simp: adds_def push_def\<close>)

interpretation no_commit_adds: step_frame x no_commit "adds no_commit" for x
  by (rule adds_frame)

text \<open>The owner of the durable state and of the volatile part, and its version, stay.\<close>

definition keeps_owner :: "'c ctx \<Rightarrow> 'c st \<Rightarrow> 'c st \<Rightarrow> bool" where
  "keeps_owner x s t =
     ((is_none_or (\<lambda>d. durable_owner d = x_owner x) (s_durable s) \<longrightarrow>
       is_none_or (\<lambda>d. durable_owner d = x_owner x) (s_durable t)) \<and>
      (v_v (volatile_of x s) = TX_STATE_VERSION \<and> v_owner (volatile_of x s) = v_owner (fresh_volatile x) \<longrightarrow>
       v_v (volatile_of x t) = TX_STATE_VERSION \<and> v_owner (volatile_of x t) = v_owner (fresh_volatile x)))"

interpretation keeps_owner: step_frame x "\<lambda>_. True" "keeps_owner x" for x
proof
  show "keeps_owner x s (s\<lparr>s_volatile := v\<rparr>)" if "same_line x s v" for s v
    using that by (cases v) (auto simp: keeps_owner_def same_line_def volatile_of_def fresh_volatile_def)
  show "keeps_owner x s u" if "keeps_owner x s t" "keeps_owner x t u" for s t u
    using that unfolding keeps_owner_def by blast
  show "keeps_owner x s (s\<lparr>s_durable := Some d\<rparr>)" if "own_durable x s d" for s d
    using that by (auto simp: keeps_owner_def own_durable_def)
qed (simp_all add: keeps_owner_def)

end
