(* ===== verification/Tx_Safety.thy ===== *)
theory Tx_Safety
  imports Tx_Frame
begin

text \<open>
  Safety of a whole step: when \<open>Commit\<close> may be emitted, what every step leaves behind, and what the
  fail-closed paths do to a commit that may have been sent.
\<close>

section \<open>Commit\<close>

text \<open>The state a step is dispatched on, from the parsed inputs.\<close>

definition start_st :: "'c \<Rightarrow> stored_state \<Rightarrow> volatile option option \<Rightarrow> 'c st" where
  "start_st c stored volatile_state =
     (init_st c)\<lparr>s_durable := readable_durable stored, s_volatile := Option.bind volatile_state id\<rparr>"

lemma init_st_simps [simp]:
  "s_effects (init_st c) = []" "s_volatile (init_st c) = None" "s_durable (init_st c) = None"
  "\<not> s_reset (init_st c)" "\<not> s_abandoned (init_st c)" "s_request (init_st c) = None"
  by (simp_all add: init_st_def)

lemma adds_set: "adds E s t \<Longrightarrow> e \<in> set (s_effects t) \<Longrightarrow> e \<in> set (s_effects s) \<or> E e"
  by (auto simp: adds_def list_all_iff)

lemma dispatch_commit:
  assumes "Commit i \<in> set (s_effects (res_state (dispatch x event s)))"
    and "Commit i \<notin> set (s_effects s)"
  shows "\<exists>v w. s_volatile s = Some v \<and> v_work v = Some w \<and> awaits event v \<and> commit_guard x (wk_task w) event s"
proof (rule ccontr)
  assume c: "\<not> ?thesis"
  have "adds no_commit s (res_state (dispatch x event s))"
    by (rule no_commit_adds.dispatch_frame) (use c in blast)
  with assms show False by (auto dest: adds_set)
qed

lemma fail_closed_no_commit: "Commit i \<notin> set (s_effects (fail_closed x why event vu s))"
  using no_commit_adds.fail_closed_frame [where s = s and x = x and why = why and event = event and vu = vu] by (auto dest: adds_set)

lemma discard_no_commit:
  "Commit i \<notin> set (s_effects s) \<Longrightarrow> Commit i \<notin> set (s_effects (discard x why event s))"
  using adds_set [OF no_commit_adds.discard_frame [OF no_commit_adds.refl]] by fastforce

lemma checked_dispatch_Done:
  "checked_dispatch x event s = Done t \<Longrightarrow> dispatch x event s = Done t \<and> check_output x t = None"
  by (cases "dispatch x event s") (auto simp: checked_dispatch_def split: option.splits)

lemma run_dispatch_commit:
  assumes "Commit i \<in> set (s_effects (run_dispatch x event s))" and "Commit i \<notin> set (s_effects s)"
  shows "\<exists>v w. s_volatile s = Some v \<and> v_work v = Some w \<and> awaits event v \<and> commit_guard x (wk_task w) event s"
proof (cases "checked_dispatch x event s")
  case (Done t)
  then show ?thesis
    using assms dispatch_commit [of i x event s]
    by (auto simp: run_dispatch_def dest!: checked_dispatch_Done)
next
  case (Fault why t)
  then show ?thesis using assms(1) by (simp add: run_dispatch_def fail_closed_no_commit)
qed

lemma log_value_commit [simp]: "Commit i \<in> set (s_effects (log_value x j s)) \<longleftrightarrow> Commit i \<in> set (s_effects s)"
  by (simp add: log_value_def push_def)

text \<open>The branches of a step.\<close>

fun is_unreadable :: "stored_state \<Rightarrow> bool" where
  "is_unreadable (Unreadable why) = True"
| "is_unreadable _ = False"

lemma run_parsed_dispatch:
  assumes "\<not> is_unreadable stored" and "vs \<noteq> Some None"
  shows "run_parsed x stored vt vs event c = run_dispatch x event (start_st c stored vs)"
  using assms by (cases stored) (simp_all add: run_parsed_def start_st_def Let_def)

lemma run_parsed_invalid:
  assumes "\<not> is_unreadable stored"
  shows "run_parsed x stored vt (Some None) event c =
    fail_closed x ''volatile_invalid'' event True
      ((init_st c)\<lparr>s_compiler := release_handles x (readable_handles x (unwrap_or [] vt) (h_owner (x_host x))
         (max_volatile_bytes (x_usize_max x) (x_limits x))) c, s_durable := readable_durable stored\<rparr>)"
  using assms by (cases stored) (simp_all add: run_parsed_def Let_def)

lemma run_parsed_commit:
  assumes "Commit i \<in> set (s_effects (run_parsed x stored vt vs event c))"
  shows "\<exists>v w. vs = Some (Some v) \<and> v_work v = Some w \<and> awaits event v \<and>
    commit_guard x (wk_task w) event (start_st c stored vs)"
proof (cases "is_unreadable stored")
  case True
  then obtain why where stored: "stored = Unreadable why" by (cases stored) auto
  show ?thesis
  proof (cases "vs = None \<and> is_atomic_event event")
    case True
    then show ?thesis
      using assms stored run_dispatch_commit [of i x event "log_value x j (init_st c)" for j]
      by (auto simp: run_parsed_def Let_def log_value_def push_def)
  next
    case False
    then show ?thesis
      using assms stored discard_no_commit [of i "(init_st c)\<lparr>s_volatile := Option.bind vs id\<rparr>"]
      by (auto simp: run_parsed_def Let_def)
  qed
next
  case ok: False
  show ?thesis
  proof (cases "vs = Some None")
    case True
    then show ?thesis using assms ok by (simp add: run_parsed_invalid fail_closed_no_commit)
  next
    case vs: False
    have "Commit i \<notin> set (s_effects (start_st c stored vs))" by (simp add: start_st_def)
    from run_dispatch_commit [OF assms [unfolded run_parsed_dispatch [OF ok vs]] this]
    show ?thesis using vs by (cases vs) (auto simp: start_st_def)
  qed
qed

section \<open>What a step leaves\<close>

text \<open>The batch rule: at most one awaited effect, and it is the last one.\<close>

definition batch_ok :: "effect list \<Rightarrow> bool" where
  "batch_ok es = (list_all (\<lambda>e. \<not> is_awaited e) (butlast es))"

text \<open>An awaited effect is recorded as pending on one of the two lanes, except the \<open>Persist\<close> of
  \<open>Abandon\<close>, after which no outcome follows.\<close>

definition recorded :: "'c st \<Rightarrow> effect \<Rightarrow> bool" where
  "recorded s e = (\<not> is_awaited e \<or> (s_abandoned s \<and> s_volatile s = None) \<or>
     effect_id e = map_option pn_id (Option.bind (s_volatile s) v_pending) \<or>
     effect_id e = map_option (\<lambda>cb. pn_id (cw_pending cb)) (Option.bind (s_volatile s) v_callback))"

definition leaves_ok :: "'c st \<Rightarrow> bool" where
  "leaves_ok s = (s_reset s \<or>
     (is_none_or volatile_is_consistent (s_volatile s) \<and> is_none_or record_is_consistent (record_of s) \<and>
      batch_ok (s_effects s) \<and> list_all (recorded s) (s_effects s)))"

lemma awaited_at_most_one:
  assumes "\<not> length (filter P es) > 1" and "length (filter P es) = 1 \<Longrightarrow> es \<noteq> [] \<and> P (last es)"
  shows "list_all (\<lambda>e. \<not> P e) (butlast es)"
proof (cases "filter P es = []")
  case True
  then show ?thesis by (auto simp: filter_empty_conv list_all_iff dest: in_set_butlastD)
next
  case False
  then have one: "length (filter P es) = 1" using assms(1) by (cases "filter P es") auto
  then have "es \<noteq> []" and last: "P (last es)" using assms(2) by auto
  then have "filter P es = filter P (butlast es) @ [last es]"
    by (metis append_butlast_last_id filter.simps(1,2) filter_append)
  with one have "filter P (butlast es) = []" by simp
  then show ?thesis by (simp add: filter_empty_conv list_all_iff)
qed

lemma find_awaited:
  "list_all (\<lambda>e. \<not> P e) (butlast es) \<Longrightarrow> e \<in> set es \<Longrightarrow> P e \<Longrightarrow> find P es = Some e"
  by (induction es) (auto split: if_splits)

lemma check_output_leaves_ok:
  assumes "check_output x s = None"
  shows "leaves_ok s"
proof (cases "s_reset s")
  case False
  let ?es = "s_effects s"
  note c = assms [unfolded check_output_def Let_def]
  have vol: "is_none_or volatile_is_consistent (s_volatile s)"
    using c False by (auto simp: is_some_and_iff is_none_or_iff split: if_splits)
  have rec: "is_none_or record_is_consistent (record_of s)"
    using c False by (auto simp: is_some_and_iff is_none_or_iff split: if_splits)
  have "\<not> length (filter is_awaited ?es) > 1"
    "length (filter is_awaited ?es) = 1 \<Longrightarrow> ?es \<noteq> [] \<and> is_awaited (last ?es)"
    using c False by (auto split: if_splits)
  then have b: "batch_ok ?es" unfolding batch_ok_def by (rule awaited_at_most_one)
  have f: "is_none_or (recorded s) (find is_awaited ?es)"
    using c False by (auto simp: is_some_and_iff is_none_or_iff recorded_def split: if_splits)
  have "recorded s e" if e: "e \<in> set ?es" for e
  proof (cases "is_awaited e")
    case True
    then have "find is_awaited ?es = Some e" using b e by (auto simp: batch_ok_def intro: find_awaited)
    then show ?thesis using f by simp
  qed (simp add: recorded_def)
  with vol rec b show ?thesis by (simp add: leaves_ok_def list_all_iff)
qed (simp add: leaves_ok_def)

section \<open>Failing closed\<close>

text \<open>The replies and logs before the last effect of a fail-closed path are not awaited, and leave
  the durable state alone.\<close>

definition quiet :: "'c st \<Rightarrow> 'c st \<Rightarrow> bool" where
  "quiet s t = ((\<exists>es. s_effects t = s_effects s @ es \<and> list_all (\<lambda>e. \<not> is_awaited e) es) \<and>
     s_durable t = s_durable s \<and> s_reset t = s_reset s \<and> s_abandoned t = s_abandoned s)"

lemma quiet_refl [simp]: "quiet s s"
  by (simp add: quiet_def)

lemma quiet_push: "quiet s t \<Longrightarrow> \<not> is_awaited e \<Longrightarrow> quiet s (push e t)"
  by (auto simp: quiet_def push_def)

lemma quiet_steps:
  "quiet s t \<Longrightarrow> quiet s (respond q t)" "quiet s t \<Longrightarrow> quiet s (respond_error x c t)"
  "quiet s t \<Longrightarrow> quiet s (respond_callback q t)" "quiet s t \<Longrightarrow> quiet s (log_value x j t)"
  "quiet s t \<Longrightarrow> quiet s (release_all x t)" "quiet s t \<Longrightarrow> quiet s (t\<lparr>s_volatile := v\<rparr>)"
  by (simp_all add: respond_def respond_error_def respond_callback_def log_value_def quiet_push)
    (auto simp: release_all_def quiet_def split: option.split)

lemma quiet_answers:
  "quiet s t \<Longrightarrow> quiet s (answer_waiting x b t)" "quiet s t \<Longrightarrow> quiet s (answer_lanes x c d t)"
  "quiet s t \<Longrightarrow> quiet s (answer_event x b event t)"
  by (simp_all add: answer_waiting_def answer_lanes_def answer_event_def Let_def quiet_steps
      split: option.split event.split)

lemma seed_id_bounds: "1 \<le> seed_id x \<and> seed_id x < MAX_SAFE_INTEGER"
proof -
  have "entropy_u64 (x_host x) 0 mod 2 ^ 48 < 2 ^ 48" by simp
  then show ?thesis by (auto simp: seed_id_def MAX_SAFE_INTEGER_def)
qed

text \<open>A background wait on a fresh volatile part.\<close>

definition waiting_volatile :: "'c ctx \<Rightarrow> task \<Rightarrow> volatile" where
  "waiting_volatile x t = (fresh_volatile x)\<lparr>v_next_effect_id := seed_id x + 1,
     v_pending := Some \<lparr>pn_id = seed_id x, pn_effect = awaited_by t\<rparr>,
     v_work := Some \<lparr>wk_lane = Background, wk_request_id = None, wk_task = t\<rparr>\<rparr>"

lemma wait_fresh:
  "s_volatile s = None \<Longrightarrow> wait x Background None t eff s =
     Done (push (eff (seed_id x)) (s\<lparr>s_volatile := Some (waiting_volatile x t)\<rparr>))"
  using seed_id_bounds [of x]
  by (simp add: wait_def Let_def volatile_of_def waiting_volatile_def fresh_volatile_def)

lemma waiting_volatile_consistent:
  assumes "x_owner x = [] \<or> owner_name (x_owner x)" and "\<not> is_verdict t"
  shows "volatile_is_consistent (waiting_volatile x t)"
  using assms seed_id_bounds [of x]
  by (auto simp: volatile_is_consistent_def vol_defs waiting_volatile_def fresh_volatile_def work_task_is_def)

text \<open>The phases a fail-closed path writes keep the record consistent.\<close>

lemma closing_phase_consistent:
  assumes "record_is_consistent r"
    and "r_phase r \<in> {Active, Validating} \<and> p = Failed \<or> r_phase r = Committing \<and> p = CommitUnknown"
  shows "record_is_consistent (r\<lparr>r_phase := p, r_expires_at_ms := None\<rparr>)"
  using assms by (auto simp: record_is_consistent_def rec_defs split: kind.splits)

lemma set_phase_volatile [simp]: "s_volatile (set_phase x p s) = s_volatile s"
  by (simp add: set_phase_def split: option.split durable.split)

lemma set_phase_effects [simp]: "s_effects (set_phase x p s) = s_effects s"
  by (simp add: set_phase_def split: option.split durable.split)

lemma leaves_ok_reset: "leaves_ok (s\<lparr>s_reset := True\<rparr>)"
  by (simp add: leaves_ok_def)

lemma leaves_ok_persist:
  assumes "list_all (\<lambda>e. \<not> is_awaited e) (s_effects u)" and "s_volatile u = None"
    and "is_none_or record_is_consistent (record_of u)"
    and "x_owner x = [] \<or> owner_name (x_owner x)" and "\<not> is_verdict t" and "eff (seed_id x) = e"
    and "effect_id e = Some (seed_id x)"
  shows "leaves_ok (or_reset (wait x Background None t eff u))"
  using assms waiting_volatile_consistent [OF assms(4,5)]
  by (auto simp: wait_fresh or_reset_def leaves_ok_def push_def record_of_def batch_ok_def recorded_def
      waiting_volatile_def list_all_iff is_awaited_id)

lemma fail_closed_leaves_ok:
  assumes "is_none_or record_is_consistent (record_of s)"
    and "x_owner x = [] \<or> owner_name (x_owner x)"
  shows "leaves_ok (fail_closed x why event vu s)"
proof -
  define u where "u b j = (release_all x (answer_event x b event (answer_lanes x C_Internal C_Internal
      (answer_waiting x b (log_value x j (s\<lparr>s_effects := []\<rparr>))))))\<lparr>s_volatile := None\<rparr>" for b j
  have q: "quiet (s\<lparr>s_effects := []\<rparr>) (u b j)" for b j
    by (simp add: u_def quiet_steps quiet_answers)
  have eff: "list_all (\<lambda>e. \<not> is_awaited e) (s_effects (u b j))" and dur: "s_durable (u b j) = s_durable s" for b j
    using q [of b j] by (auto simp: quiet_def)
  have vol: "s_volatile (u b j) = None" for b j by (simp add: u_def)
  have rec: "is_none_or record_is_consistent (record_of (set_phase x p (u b j)))"
    if "map_option durable_phase (s_durable s) = Some p'"
      "p' \<in> {Active, Validating} \<and> p = Failed \<or> p' = Committing \<and> p = CommitUnknown" for p p' b j
    using that assms(1) closing_phase_consistent
    by (auto simp: set_phase_def dur record_of_def split: option.splits durable.splits)
  have ok: "leaves_ok (or_reset (wait x Background None ResetAfterPersist Persist (set_phase x p (u b j))))"
    if "map_option durable_phase (s_durable s) = Some p'"
      "p' \<in> {Active, Validating} \<and> p = Failed \<or> p' = Committing \<and> p = CommitUnknown" for p p' b j
    by (rule leaves_ok_persist [OF _ _ rec [OF that] assms(2) _ HOL.refl])
      (simp_all add: eff vol is_verdict_def)
  show ?thesis
    unfolding fail_closed_def Let_def
    by (auto simp: u_def [symmetric] leaves_ok_reset ok split: option.split phase.split)
qed

lemma answers_volatile [simp]:
  "s_volatile (respond q s) = s_volatile s" "s_volatile (respond_error x c s) = s_volatile s"
  "s_volatile (respond_callback q s) = s_volatile s" "s_volatile (log_value x j s) = s_volatile s"
  "s_volatile (answer_lanes x c d s) = s_volatile s" "s_volatile (push e s) = s_volatile s"
  by (simp_all add: respond_def respond_error_def respond_callback_def log_value_def push_def
      answer_lanes_def Let_def)

text \<open>An idle open volatile part that is consistent holds nothing but its connection and handles.\<close>

lemma idle_open_closing_consistent:
  assumes "volatile_is_consistent v" and "v_pending v = None" and "v_callback v = None" and "v_atomic v = None"
    and "v_next_effect_id v < MAX_SAFE_INTEGER"
  shows "volatile_is_consistent (v\<lparr>v_handles := [], v_connection := Closing,
      v_next_effect_id := v_next_effect_id v + 1,
      v_pending := Some \<lparr>pn_id = v_next_effect_id v, pn_effect = Aw_Rollback\<rparr>,
      v_work := Some \<lparr>wk_lane = Background, wk_request_id = None, wk_task = CloseRollback p q\<rparr>\<rparr>)"
proof -
  have "v_work v = None" using assms(1,2) by (auto simp: volatile_is_consistent_def vol_paired_def split: option.splits)
  moreover have "v_deferred v = None"
    using assms(1,3) by (auto simp: volatile_is_consistent_def vol_deferred_def callback_executing_def is_none_or_iff)
  moreover have "v_capability v = None"
    using assms(1) \<open>v_work v = None\<close>
    by (auto simp: volatile_is_consistent_def vol_capability_def work_task_is_def is_none_or_iff)
  ultimately show ?thesis
    using assms by (auto simp: volatile_is_consistent_def vol_defs work_task_is_def is_verdict_def)
qed

lemma close_discarded_leaves_ok:
  assumes "list_all (\<lambda>e. \<not> is_awaited e) (s_effects u)" and "s_volatile u = Some (v\<lparr>v_handles := []\<rparr>)"
    and "volatile_is_consistent v" and "v_pending v = None" and "v_callback v = None" and "v_atomic v = None"
    and "record_of u = None"
  shows "leaves_ok (or_reset (wait x Background None (CloseRollback Discarded None) Rollback
    (on_volatile (\<lambda>v. v\<lparr>v_work := None, v_connection := Closing\<rparr>) u)))"
proof (cases "v_next_effect_id v < MAX_SAFE_INTEGER")
  case True
  from idle_open_closing_consistent [OF assms(3-6) True, of Discarded None] assms(1,2,7) True
  show ?thesis
    by (auto simp: wait_def Let_def or_reset_def leaves_ok_def on_volatile_def volatile_of_def push_def record_of_def
        batch_ok_def recorded_def list_all_iff)
next
  case False
  then show ?thesis
    using assms(2) by (simp add: wait_def Let_def or_reset_def on_volatile_def volatile_of_def leaves_ok_def)
qed

lemma discard_leaves_ok:
  assumes "s_effects s = []" and "x_owner x = [] \<or> owner_name (x_owner x)"
    and "\<And>v. s_volatile s = Some v \<Longrightarrow> volatile_is_consistent v"
    and "\<And>v. s_volatile s = Some v \<Longrightarrow> v_pending v = None \<Longrightarrow> v_callback v = None \<Longrightarrow> v_atomic v = None"
  shows "leaves_ok (discard x why event s)"
proof -
  define a where "a j = answer_lanes x C_OutcomeUnknown C_Unavailable
      (case work_of (log_value x j s) of
         Some w \<Rightarrow> if wk_lane w = Client then respond_error x (unsure_code (is_commit_task (wk_task w))) (log_value x j s)
           else log_value x j s
       | None \<Rightarrow> log_value x j s)" for j
  define b where "b j = (case event of
        Ev_Forwarded input \<Rightarrow>
          (if input_kind input = Some ''commit'' then respond_error x C_OutcomeUnknown (a j)
           else if input_kind input = Some ''atomic'' then respond_error x C_Internal (a j)
           else if input_kind input = Some ''callbackQuery''
             then respond_callback (error_reply (x_serde x) C_Unavailable) (a j)
           else respond_error x C_Unavailable (a j))
      | _ \<Rightarrow> a j)" for j
  have qa: "quiet s (a j)" for j by (simp add: a_def quiet_steps quiet_answers split: option.split)
  have qb: "quiet s (b j)" for j using qa by (simp add: b_def quiet_steps split: event.split)
  have va: "s_volatile (a j) = s_volatile s" for j by (simp add: a_def split: option.split)
  have vb: "s_volatile (b j) = s_volatile s" for j by (simp add: b_def va split: event.split)
  define u where "u j = (release_all x (b j))\<lparr>s_durable := Some (Tombstone (x_owner x))\<rparr>" for j
  have eff: "list_all (\<lambda>e. \<not> is_awaited e) (s_effects (u j))" for j
    using quiet_steps(5) [OF qb [of j], where x = x] assms(1) by (auto simp: u_def quiet_def)
  have rec: "record_of (u j) = None" "record_of ((u j)\<lparr>s_volatile := w\<rparr>) = None" for j w
    by (simp_all add: u_def record_of_def)
  have vol: "s_volatile (u j) = map_option (\<lambda>v. v\<lparr>v_handles := []\<rparr>) (s_volatile s)" for j
    by (simp add: u_def release_all_def vb split: option.split)
  have "leaves_ok (or_reset (if volatile_is (\<lambda>v. v_connection v = Conn_Open \<and> v_pending v = None \<and> v_callback v = None) (b j)
      then wait x Background None (CloseRollback Discarded None) Rollback
        (on_volatile (\<lambda>v. v\<lparr>v_work := None, v_connection := Closing\<rparr>) (u j))
      else if connection_of (u j) \<noteq> Conn_None then wait x Background None ResetAfterPersist Persist ((u j)\<lparr>s_volatile := None\<rparr>)
      else wait x Background None (plain_reply None None) Persist ((u j)\<lparr>s_volatile := None\<rparr>)))" for j
  proof (cases "volatile_is (\<lambda>v. v_connection v = Conn_Open \<and> v_pending v = None \<and> v_callback v = None) (b j)")
    case True
    then obtain v where v: "s_volatile s = Some v" "v_pending v = None" "v_callback v = None"
      by (auto simp: volatile_is_def vb is_some_and_iff)
    have "leaves_ok (or_reset (wait x Background None (CloseRollback Discarded None) Rollback
        (on_volatile (\<lambda>v. v\<lparr>v_work := None, v_connection := Closing\<rparr>) (u j))))"
      by (rule close_discarded_leaves_ok [OF eff _ assms(3) [OF v(1)] v(2,3) assms(4) [OF v] rec(1)])
        (simp add: vol v(1))
    with True show ?thesis by simp
  next
    case False
    have p: "leaves_ok (or_reset (wait x Background None t Persist ((u j)\<lparr>s_volatile := None\<rparr>)))"
      if "\<not> is_verdict t" for t
      by (rule leaves_ok_persist [OF _ _ _ assms(2) that HOL.refl]) (simp_all add: eff rec)
    show ?thesis using False by (simp add: p is_verdict_def plain_reply_def)
  qed
  then show ?thesis
    unfolding discard_def Let_def a_def [symmetric] b_def [symmetric] u_def [symmetric] .
qed

text \<open>Every step leaves consistent state and a well-formed batch.\<close>

lemma run_dispatch_leaves_ok:
  assumes "is_none_or record_is_consistent (record_of s)" and "x_owner x = [] \<or> owner_name (x_owner x)"
  shows "leaves_ok (run_dispatch x event s)"
proof (cases "checked_dispatch x event s")
  case (Done t)
  then show ?thesis by (auto simp: run_dispatch_def dest!: checked_dispatch_Done intro: check_output_leaves_ok)
next
  case (Fault why t)
  then show ?thesis
    using assms by (simp add: run_dispatch_def) (rule fail_closed_leaves_ok; simp add: record_of_def)
qed

lemma run_parsed_leaves_ok:
  assumes own: "x_owner x = [] \<or> owner_name (x_owner x)"
    and rec: "\<And>r. stored = Readable (Live r) \<Longrightarrow> record_is_consistent r"
    and vol: "\<And>v. vs = Some (Some v) \<Longrightarrow> volatile_is_consistent v"
    and run: "\<And>v. is_unreadable stored \<Longrightarrow> vs = Some (Some v) \<Longrightarrow> v_pending v = None \<Longrightarrow> v_callback v = None \<Longrightarrow>
      v_atomic v = None"
  shows "leaves_ok (run_parsed x stored vt vs event c)"
proof (cases "is_unreadable stored")
  case True
  then obtain why where stored: "stored = Unreadable why" by (cases stored) auto
  have "leaves_ok (discard x why event ((init_st c)\<lparr>s_volatile := Option.bind vs id\<rparr>))"
    by (rule discard_leaves_ok) (use own vol run stored in \<open>auto split: bind_splits\<close>)
  moreover have "leaves_ok (run_dispatch x event (log_value x j (init_st c)))" for j
    by (rule run_dispatch_leaves_ok [OF _ own]) (simp add: record_of_def log_value_def push_def)
  ultimately show ?thesis using stored by (simp add: run_parsed_def Let_def)
next
  case ok: False
  have r: "is_none_or record_is_consistent (record_of s)" if "s_durable s = readable_durable stored" for s
    using that rec by (cases stored) (auto simp: record_of_def split: durable.split)
  show ?thesis
  proof (cases "vs = Some None")
    case True
    show ?thesis unfolding True run_parsed_invalid [OF ok] by (rule fail_closed_leaves_ok [OF r own]) simp
  next
    case False
    show ?thesis unfolding run_parsed_dispatch [OF ok False]
      by (rule run_dispatch_leaves_ok [OF r own]) (simp add: start_st_def)
  qed
qed

end
