(* ===== verification/Tx_Commit.thy ===== *)
theory Tx_Commit
  imports Tx_Safety
begin

text \<open>
  A commit that may have been sent is never turned into a definite rejection: from a \<open>committing\<close>
  record whose \<open>Commit\<close> is awaited, no event, in order or out of order, leads to a phase that says
  the transaction did not commit, except the adapter's proof that no COMMIT was sent.
\<close>

named_theorems durable_simps

lemma push_durable [durable_simps]: "s_durable (push e s) = s_durable s"
  by (simp add: push_def)

lemma volatile_durable [durable_simps]:
  "s_durable (volatile_mut x f s) = s_durable s" "s_durable (on_volatile f s) = s_durable s"
  by (simp_all add: volatile_mut_def on_volatile_def)

lemma reply_durable [durable_simps]:
  "s_durable (respond q s) = s_durable s" "s_durable (respond_error x c s) = s_durable s"
  "s_durable (respond_callback q s) = s_durable s" "s_durable (respond_callback_error x c s) = s_durable s"
  "s_durable (log_value x j s) = s_durable s" "s_durable (log_core_error x e s) = s_durable s"
  "s_durable (log_database_code x k d s) = s_durable s" "s_durable (snapshot_skew x what s) = s_durable s"
  by (simp_all add: respond_def respond_error_def respond_callback_def respond_callback_error_def log_value_def
      log_core_error_def log_database_code_def snapshot_skew_def durable_simps split: option.split json.split)

lemma plumbing_durable [durable_simps]:
  "s_durable (set_connection x c s) = s_durable s" "s_durable (release x h s) = s_durable s"
  "s_durable (release_all x s) = s_durable s" "s_durable (allocate x h s) = s_durable s"
  "s_durable (clear_work s) = s_durable s" "s_durable (drop_finished_work s) = s_durable s"
  by (simp_all add: set_connection_def release_def release_all_def allocate_def clear_work_def drop_finished_work_def
      durable_simps split: option.split)

lemma wait_durable [durable_simps]:
  "s_durable (res_state (wait x lane rid task eff s)) = s_durable s"
  "s_durable (res_state (wait_callback x q h cb eff s)) = s_durable s"
  by (simp_all add: wait_def wait_callback_def Let_def durable_simps)

lemma execute_failed_reply_durable [durable_simps]:
  "s_durable (snd (execute_failed_reply x c k d s)) = s_durable s"
  by (simp add: execute_failed_reply_def Let_def durable_simps)

text \<open>Inputs that only answer or ask for a binding check.\<close>

lemma input_durable [durable_simps]:
  "s_durable (res_state (begin_tx x input s)) = s_durable s"
  "s_durable (res_state (request_event x input s)) = s_durable s"
  "s_durable (res_state (atomic_input x input s)) = s_durable s"
  "s_durable (res_state (stale x event s)) = s_durable s"
  by (simp_all add: begin_tx_def request_event_def atomic_input_def stale_def Let_def durable_simps
      split: option.split sum.split prod.split bool.split)

lemma work_of_updates [simp]:
  "work_of (s\<lparr>s_compiler := c\<rparr>) = work_of s" "work_of (s\<lparr>s_request := q\<rparr>) = work_of s"
  "work_of (push e s) = work_of s" "work_of (respond_callback q' s) = work_of s"
  by (simp_all add: work_of_def)

text \<open>A record whose COMMIT is awaited by a client.\<close>

definition commit_sent :: "'c st \<Rightarrow> bool" where
  "commit_sent s = (is_some_and (\<lambda>r. r_phase r = Committing \<and> r_kind r = Interactive) (record_of s) \<and>
     is_some_and volatile_is_consistent (s_volatile s) \<and>
     is_some_and (\<lambda>w. wk_lane w = Client \<and> (case wk_task w of CommitSend _ _ _ \<Rightarrow> True | _ \<Rightarrow> False)) (work_of s))"

lemma commit_sentE:
  assumes "commit_sent s"
  obtains r v w n d p where "s_durable s = Some (Live r)" "record_of s = Some r" "r_phase r = Committing"
    "r_kind r = Interactive" "s_volatile s = Some v" "volatile_is_consistent v" "v_work v = Some w"
    "work_of s = Some w" "wk_lane w = Client" "wk_task w = CommitSend n d p" "v_deferred v = None"
proof -
  from assms obtain r v w where r: "record_of s = Some r" "r_phase r = Committing" "r_kind r = Interactive"
    and v: "s_volatile s = Some v" "volatile_is_consistent v"
    and w: "work_of s = Some w" "wk_lane w = Client" "case wk_task w of CommitSend _ _ _ \<Rightarrow> True | _ \<Rightarrow> False"
    unfolding commit_sent_def is_some_and_iff by blast
  from w(3) obtain n d p where t: "wk_task w = CommitSend n d p" by (cases "wk_task w") simp_all
  have vw: "v_work v = Some w" using w(1) v(1) by (simp add: work_of_def)
  then have "v_deferred v = None"
    using v(2) by (auto simp: volatile_is_consistent_def vol_deferred_def is_none_or_iff)
  moreover have "s_durable s = Some (Live r)"
    using r(1) by (auto simp: record_of_def split: option.splits durable.splits)
  ultimately show ?thesis using that r v w t vw by blast
qed

lemma commit_sent_command:
  assumes "commit_sent s"
  shows "s_durable (res_state (command x kind input s)) = s_durable s"
proof -
  from assms obtain r w where r: "s_durable s = Some (Live r)" "r_phase r = Committing"
    and w: "work_of s = Some w" "wk_lane w = Client" by (rule commit_sentE)
  have u: "s_durable (res_state (command_after_retry x c r b q t)) = s_durable t" if "work_of t = work_of s" for c b q t
    using that r w by (simp add: command_after_retry_def command_unsure_def durable_simps)
  have "s_durable (res_state (command_retry x c r b q t)) = s_durable t" if "work_of t = work_of s" for c b q t
    using that by (simp add: command_retry_def Let_def split_def u durable_simps split: option.split)
  then show ?thesis
    using r by (simp add: command_def command_parsed_def command_owned_def Let_def durable_simps
        split: option.split strict_error.split)
qed

lemma commit_sent_not_live: "commit_sent s \<Longrightarrow> capability_live h s = None"
  by (erule commit_sentE) (simp add: capability_live_def Let_def split: option.split)

lemma commit_sent_callback_query:
  assumes "commit_sent s"
  shows "s_durable (res_state (callback_query x input s)) = s_durable s"
  using commit_sent_not_live [OF assms] by (simp add: callback_query_def durable_simps split: option.split prod.split)

lemma after_callback_busy:
  assumes "s_volatile s = Some v" and "v_deferred v = None" and "v_work v = Some w"
  shows "s_durable (res_state (after_callback x s)) = s_durable s"
  using assms by (simp add: after_callback_def Let_def on_volatile_def work_of_def)

lemma commit_sent_callback_outcome:
  assumes "commit_sent s"
  shows "s_durable (res_state (callback_outcome x event s)) = s_durable s"
proof -
  from assms obtain r v w where v: "s_volatile s = Some v" "v_work v = Some w" "v_deferred v = None"
    and r: "record_of s = Some r" "r_phase r = Committing" "r_kind r = Interactive" by (rule commit_sentE)
  let ?u = "on_volatile (\<lambda>v. v\<lparr>v_callback := None\<rparr>) s"
  have nl: "capability_live h ?u = None" for h
    using r by (simp add: capability_live_def Let_def record_of_def durable_simps split: option.split)
  have after: "s_durable (res_state (after_callback x t)) = s_durable t"
    if "\<exists>v'. s_volatile t = Some v' \<and> v_deferred v' = None \<and> v_work v' = Some w" for t
    using that after_callback_busy by blast
  have vol: "\<exists>v'. s_volatile (respond_callback_error x c (release x h ?u)) = Some v' \<and> v_deferred v' = None \<and> v_work v' = Some w"
    for c h using v by (simp add: respond_callback_error_def release_def on_volatile_def)
  have vol2: "\<exists>v'. s_volatile (respond_callback_error x c (snd (execute_failed_reply x k e d (release x h ?u)))) = Some v' \<and>
      v_deferred v' = None \<and> v_work v' = Some w" for c h k e d
    using v by (simp add: respond_callback_error_def release_def on_volatile_def execute_failed_reply_def Let_def
        log_database_code_def split: option.split)
  show ?thesis
    by (simp add: callback_outcome_def Let_def nl callback_failed_def callback_bound_def callback_executed_def after
        vol vol2 split_def durable_simps split: option.split event.split callback_task.split)
qed

text \<open>The phases that do not reject the commit.\<close>

definition commit_open :: "'c st \<Rightarrow> bool" where
  "commit_open s = is_some_and (\<lambda>d. durable_phase d \<in> {Committing, Committed, CommitUnknown}) (s_durable s)"

lemma commit_sent_open: "commit_sent s \<Longrightarrow> s_durable t = s_durable s \<Longrightarrow> commit_open t"
  by (erule commit_sentE) (simp add: commit_open_def)

lemma committed_open:
  assumes "committed x lane rid d p s = Done t"
  shows "commit_open t"
proof -
  obtain r where r: "record_of s = Some r" using assms by (auto simp: committed_def Let_def split: option.splits)
  have "\<exists>d'. s_durable t = Some d' \<and> durable_phase d' = Committed"
    using assms r
    by (auto simp: committed_def Let_def complete_command_def set_phase_def wait_def push_def
        split: option.splits if_splits)
  then show ?thesis by (auto simp: commit_open_def)
qed

lemma commit_failed_open:
  assumes "commit_failed x lane rid k s = Done t" and "k \<noteq> NotCommitted" and "s_durable s = Some (Live r)"
  shows "commit_open t"
  using assms
  by (auto simp: commit_failed_def Let_def wait_def push_def set_phase_def durable_simps commit_open_def split: if_splits)

definition not_committed :: "event \<Rightarrow> bool" where
  "not_committed event = (case event of Ev_CommitFailed _ k \<Rightarrow> k = NotCommitted | _ \<Rightarrow> False)"

lemma map_res_DoneE: "map_res f r = Done t \<Longrightarrow> (\<And>u. r = Done u \<Longrightarrow> t = f u \<Longrightarrow> P) \<Longrightarrow> P"
  by (cases r) auto

lemma commit_sent_outcome:
  assumes "commit_sent s" and "\<not> not_committed event" and "outcome x event s = Done t"
  shows "commit_open t"
proof -
  from assms(1) obtain r v w n d p where v: "s_volatile s = Some v" "v_work v = Some w" "volatile_is_consistent v"
    and t: "wk_task w = CommitSend n d p" and r: "s_durable s = Some (Live r)" by (rule commit_sentE)
  obtain i e where ie: "outcome_id event = Some i" "answers event = Some e"
    using assms(3) by (auto simp: outcome_def split: option.splits)
  show ?thesis
  proof (cases "pending_is i e (v_pending v)")
    case False
    then have "res_state (outcome x event s) = res_state (callback_outcome x event s) \<or>
        res_state (outcome x event s) = res_state (stale x event s)"
      by (simp add: outcome_def ie v(1))
    then have "s_durable t = s_durable s"
      using assms(3) commit_sent_callback_outcome [OF assms(1)] by (auto simp: input_durable)
    then show ?thesis by (rule commit_sent_open [OF assms(1)])
  next
    case True
    let ?s = "s\<lparr>s_volatile := Some (v\<lparr>v_pending := None, v_work := None\<rparr>), s_request := wk_request_id w\<rparr>"
    have "e = Aw_Commit"
      using True v t by (auto simp: pending_is_def is_some_and_iff volatile_is_consistent_def vol_paired_def)
    moreover have "map_res drop_finished_work (consume x (wk_lane w) (wk_request_id w) (wk_task w) event ?s) = Done t"
      using assms(3) True v t by (simp add: outcome_def ie is_atomic_task_def)
    then obtain u where u: "consume x (wk_lane w) (wk_request_id w) (wk_task w) event ?s = Done u"
      and t': "t = drop_finished_work u" by (rule map_res_DoneE)
    ultimately have "commit_open u"
      using assms(2) t r ie(2)
      by (cases event) (auto simp: consume_def not_committed_def intro: committed_open commit_failed_open)
    then show ?thesis by (simp add: t' commit_open_def plumbing_durable)
  qed
qed

lemma abandon_open:
  assumes "commit_sent s"
  shows "commit_open (abandon x s)"
  using assms by (rule commit_sentE) (simp add: abandon_def Let_def set_phase_def commit_open_def durable_simps)

lemma commit_sent_dispatch:
  assumes "commit_sent s" and "\<not> not_committed event" and "dispatch x event s = Done t"
  shows "commit_open t"
proof -
  have timer: "timer x s = Done s"
    using assms(1) by (rule commit_sentE) (simp add: timer_def Let_def)
  have fw: "s_durable (res_state (forwarded x input s)) = s_durable s" for input
    using assms(1)
    by (simp add: forwarded_def durable_simps commit_sent_command commit_sent_callback_query split: option.split)
  have inputs: "s_durable (res_state (dispatch x event s)) = s_durable s"
    if "outcome_id event = None" "event \<noteq> Ev_Abandon"
    using that timer fw by (cases event) (simp_all add: dispatch_def durable_simps)
  show ?thesis
  proof (cases "outcome_id event = None \<and> event \<noteq> Ev_Abandon")
    case True
    then show ?thesis using inputs assms(3) commit_sent_open [OF assms(1)] by simp
  next
    case False
    then show ?thesis
      using assms abandon_open [OF assms(1), of x] commit_sent_outcome [OF assms(1,2), of x t]
      by (cases event) (auto simp: dispatch_def)
  qed
qed

lemma fail_closed_open:
  assumes "s_durable s = Some (Live r)" and "r_phase r = Committing"
  shows "commit_open (fail_closed x why event vu s)"
proof -
  have q: "quiet (s\<lparr>s_effects := []\<rparr>) (release_all x (answer_event x b event (answer_lanes x C_Internal C_Internal
      (answer_waiting x b (log_value x j (s\<lparr>s_effects := []\<rparr>))))))" for b j
    by (simp add: quiet_steps quiet_answers)
  have "s_durable (release_all x (answer_event x b event (answer_lanes x C_Internal C_Internal
      (answer_waiting x b (log_value x j (s\<lparr>s_effects := []\<rparr>)))))) = Some (Live r)" for b j
    using q [of b j] assms(1) by (simp add: quiet_def)
  then show ?thesis
    using assms by (simp add: fail_closed_def Let_def wait_fresh or_reset_def set_phase_def commit_open_def push_def)
qed

lemma run_dispatch_open:
  assumes "commit_sent s" and "\<not> not_committed event"
  shows "commit_open (run_dispatch x event s)"
proof (cases "checked_dispatch x event s")
  case (Done t)
  then show ?thesis
    using commit_sent_dispatch [OF assms] by (auto simp: run_dispatch_def dest!: checked_dispatch_Done)
next
  case (Fault why t)
  from assms(1) obtain r where "s_durable s = Some (Live r)" "r_phase r = Committing" by (rule commit_sentE)
  with Fault show ?thesis by (simp add: run_dispatch_def fail_closed_open)
qed

end
