(* ===== verification/Tx_Settled.thy ===== *)
theory Tx_Settled
  imports Tx_Commit
begin

text \<open>
  Phases that a step does not leave. The locale \<open>settled_phases\<close> states what a set of phases needs
  to be closed under every event: it holds no phase in which work goes on, and with
  \<open>committing\<close> it holds \<open>commit_unknown\<close>. Inside it every event of a step is shown to keep an
  interactive record in the set, whatever is awaited. It is interpreted for the phases of a commit
  that may have been sent, and for each terminal phase.
\<close>

section \<open>Settled states\<close>

definition safe_task :: "phase set \<Rightarrow> task \<Rightarrow> bool" where
  "safe_task P t = (case t of
       CommitSend _ _ _ \<Rightarrow> Committed \<in> P \<and> CommitUnknown \<in> P
     | Reply _ _ _ _ expire_after _ \<Rightarrow> \<not> expire_after
     | BeginBinding _ _ _ \<Rightarrow> True
     | ResetAfterPersist \<Rightarrow> True
     | CloseRollback phase _ \<Rightarrow> phase \<in> P
     | _ \<Rightarrow> False)"

definition settled_volatile :: "phase set \<Rightarrow> volatile \<Rightarrow> bool" where
  "settled_volatile P v = (v_deferred v = None \<and> is_none_or (\<lambda>w. safe_task P (wk_task w)) (v_work v))"

definition settled_record :: "phase set \<Rightarrow> tx_record \<Rightarrow> bool" where
  "settled_record P r = (r_kind r = Interactive \<and> r_phase r \<in> P)"

definition settled :: "phase set \<Rightarrow> 'c st \<Rightarrow> bool" where
  "settled P s = (is_some_and (settled_record P) (record_of s) \<and> is_none_or (settled_volatile P) (s_volatile s))"

lemma safe_task_simps [simp]:
  "safe_task P (CommitSend n d p) \<longleftrightarrow> Committed \<in> P \<and> CommitUnknown \<in> P"
  "safe_task P (Reply q f l m e z) \<longleftrightarrow> \<not> e" "safe_task P (BeginBinding i b t)" "safe_task P ResetAfterPersist"
  "safe_task P (CloseRollback ph q) \<longleftrightarrow> ph \<in> P"
  by (simp_all add: safe_task_def)

lemma record_of_Live: "record_of s = Some r \<longleftrightarrow> s_durable s = Some (Live r)"
  by (auto simp: record_of_def split: option.splits durable.splits)

lemma settledE:
  assumes "settled P s"
  obtains r where "s_durable s = Some (Live r)" "record_of s = Some r" "r_kind r = Interactive" "r_phase r \<in> P"
    "is_none_or (settled_volatile P) (s_volatile s)"
  using assms unfolding settled_def settled_record_def is_some_and_iff record_of_Live by blast

text \<open>What only answers, logs or releases keeps a settled state.\<close>

named_theorems settled_intro

lemma settled_cong: "settled P s \<Longrightarrow> s_durable t = s_durable s \<Longrightarrow> s_volatile t = s_volatile s \<Longrightarrow> settled P t"
  by (simp add: settled_def record_of_def)

lemma settled_on_volatile:
  "settled P s \<Longrightarrow> (\<And>v. settled_volatile P v \<Longrightarrow> settled_volatile P (f v)) \<Longrightarrow> settled P (on_volatile f s)"
  by (auto simp: settled_def on_volatile_def record_of_def is_none_or_iff split: option.splits)

lemma settled_volatile_None [settled_intro]: "settled P s \<Longrightarrow> settled P (s\<lparr>s_volatile := None\<rparr>)"
  by (simp add: settled_def record_of_def)

lemma settled_fields [settled_intro]:
  "settled P s \<Longrightarrow> settled P (s\<lparr>s_request := q\<rparr>)" "settled P s \<Longrightarrow> settled P (s\<lparr>s_compiler := c\<rparr>)"
  "settled P s \<Longrightarrow> settled P (s\<lparr>s_reset := b\<rparr>)" "settled P s \<Longrightarrow> settled P (s\<lparr>s_effects := es\<rparr>)"
  "settled P s \<Longrightarrow> settled P (s\<lparr>s_abandoned := b\<rparr>)" "settled P s \<Longrightarrow> settled P (s\<lparr>s_allocated := a\<rparr>)"
  by (simp_all add: settled_def record_of_def)

lemma settled_push [settled_intro]: "settled P s \<Longrightarrow> settled P (push e s)"
  by (simp add: push_def settled_intro)

lemma settled_replies [settled_intro]:
  "settled P s \<Longrightarrow> settled P (respond q s)" "settled P s \<Longrightarrow> settled P (respond_error x c s)"
  "settled P s \<Longrightarrow> settled P (respond_callback q s)" "settled P s \<Longrightarrow> settled P (respond_callback_error x c s)"
  "settled P s \<Longrightarrow> settled P (log_value x j s)" "settled P s \<Longrightarrow> settled P (snapshot_skew x i s)"
  "settled P s \<Longrightarrow> settled P (log_database_code x k d s)" "settled P s \<Longrightarrow> settled P (push_logs ls s)"
  "settled P s \<Longrightarrow> settled P (respond_opt oq s)" "settled P s \<Longrightarrow> settled P (log_unavailable x i s)"
  by (simp_all add: respond_def respond_error_def respond_callback_def respond_callback_error_def log_value_def snapshot_skew_def
      log_database_code_def push_logs_def respond_opt_def log_unavailable_def settled_intro split: option.split)

lemma settled_execute_failed_reply [settled_intro]:
  "settled P s \<Longrightarrow> settled P (snd (execute_failed_reply x c k d s))"
  by (simp add: execute_failed_reply_def Let_def settled_intro)

lemma settled_release [settled_intro]:
  "settled P s \<Longrightarrow> settled P (release x h s)" "settled P s \<Longrightarrow> settled P (release_all x s)"
  "settled P s \<Longrightarrow> settled P (drop_finished_work s)" "settled P s \<Longrightarrow> settled P (clear_work s)" "settled P s \<Longrightarrow> settled P (revoke s)"
proof -
  assume s: "settled P s"
  show "settled P (release x h s)" unfolding release_def
    by (rule settled_on_volatile) (simp_all add: settled_intro s settled_volatile_def)
  show "settled P (release_all x s)"
    using s by (cases "s_volatile s") (simp_all add: release_all_def settled_def settled_volatile_def record_of_def)
  show "settled P (drop_finished_work s)" "settled P (clear_work s)" "settled P (revoke s)"
    unfolding drop_finished_work_def clear_work_def revoke_def
    by (rule settled_on_volatile, simp_all add: s settled_volatile_def)+
qed

lemma settled_fresh: "settled_volatile P (fresh_volatile x)"
  by (simp add: settled_volatile_def fresh_volatile_def)

lemma settled_volatile_of: "settled P s \<Longrightarrow> settled_volatile P (volatile_of x s)"
  by (auto simp: volatile_of_def settled_def settled_fresh is_none_or_iff split: option.split)

lemma settled_volatile_mut:
  "settled P s \<Longrightarrow> (\<And>v. settled_volatile P v \<Longrightarrow> settled_volatile P (f v)) \<Longrightarrow> settled P (volatile_mut x f s)"
  by (simp add: volatile_mut_def settled_def settled_volatile_of record_of_def)

lemma settled_set_connection [settled_intro]: "settled P s \<Longrightarrow> settled P (set_connection x c s)"
  unfolding set_connection_def by (rule settled_volatile_mut) (simp_all add: settled_volatile_def)

lemma settled_wait [settled_intro]:
  "settled P s \<Longrightarrow> safe_task P task \<Longrightarrow> settled P (res_state (wait x lane rid task eff s))"
  using settled_volatile_of [of P s x]
  by (auto simp: wait_def Let_def push_def settled_def record_of_def settled_volatile_def)

lemma settled_set_phase [settled_intro]:
  "settled P s \<Longrightarrow> p \<in> P \<Longrightarrow> p \<noteq> Discarded \<Longrightarrow> settled P (set_phase x p s)"
  by (erule settledE) (simp add: set_phase_def settled_def settled_record_def record_of_def)

lemma settled_durable [settled_intro]:
  "settled P s \<Longrightarrow> settled_record P r \<Longrightarrow> settled P (s\<lparr>s_durable := Some (Live r)\<rparr>)"
  by (simp add: settled_def record_of_def)

lemma settled_and_then [settled_intro]:
  "settled P (res_state r) \<Longrightarrow> (\<And>u. settled P u \<Longrightarrow> settled P (res_state (f u))) \<Longrightarrow> settled P (res_state (and_then r f))"
  by (cases r) simp_all

lemma settled_map_res: "settled P (res_state r) \<Longrightarrow> (\<And>u. settled P u \<Longrightarrow> settled P (f u)) \<Longrightarrow> settled P (res_state (map_res f r))"
  by (cases r) simp_all

lemma settled_complete_command [settled_intro]:
  assumes "settled P s" and "p \<in> P" and "p \<noteq> Discarded"
  shows "settled P (res_state (complete_command x p d q s))"
proof -
  have "settled_record P r" if "record_of s = Some r" for r using assms(1) that by (simp add: settled_def)
  then have "settled_record P (r\<lparr>r_next_sequence := n, r_last := l\<rparr>)" if "record_of s = Some r" for r n l
    using that by (simp add: settled_record_def)
  then show ?thesis using assms by (simp add: complete_command_def settled_intro split: option.split)
qed

lemma settled_committed [settled_intro]:
  "settled P s \<Longrightarrow> Committed \<in> P \<Longrightarrow> settled P (res_state (committed x lane rid d p s))"
  by (simp add: committed_def Let_def settled_intro split: option.split)

section \<open>Closed sets of phases\<close>

locale settled_phases =
  fixes P :: "phase set"
  assumes no_live: "Active \<notin> P" "Validating \<notin> P" "Discarded \<notin> P"
    and unknown: "Committing \<in> P \<Longrightarrow> CommitUnknown \<in> P"
begin

lemma phase_cases: "p \<in> P \<Longrightarrow> p \<noteq> Active \<and> p \<noteq> Validating \<and> p \<noteq> Discarded"
  using no_live by metis

lemma persist_phase_settled [settled_intro]:
  assumes "settled P s" and "p \<in> P"
  shows "settled P (res_state (persist_phase x lane rid p q s))"
  using assms phase_cases [OF assms(2)]
  by (simp add: persist_phase_def Let_def plain_reply_def settled_intro split: option.split)

lemma close_settled [settled_intro]:
  assumes "settled P s" and "p \<in> P"
  shows "settled P (res_state (close x lane p q s))"
proof -
  have "settled P (on_volatile (\<lambda>v. v\<lparr>v_atomic := None\<rparr>) (release_all x (revoke s)))"
    by (rule settled_on_volatile) (simp_all add: settled_intro assms settled_volatile_def)
  then show ?thesis using assms by (simp add: close_def Let_def settled_intro)
qed

lemma begin_settled:
  assumes "settled P s"
  shows "settled P (res_state (begin_tx x input s))"
  using assms
  by (simp add: begin_tx_def Let_def settled_intro split: option.split sum.split prod.split bool.split)

lemma begin_checked_settled:
  assumes "settled P s"
  shows "settled P (res_state (begin_checked x rid identity binding snapshot s))"
proof -
  obtain r where r: "s_durable s = Some (Live r)" "r_phase r \<in> P" using assms by (rule settledE)
  then show ?thesis
    using assms phase_cases [OF r(2)] by (auto simp: begin_checked_def Let_def settled_intro)
qed

lemma command_settled:
  assumes "settled P s"
  shows "settled P (res_state (command x kind input s))"
proof -
  obtain r where r: "s_durable s = Some (Live r)" "r_phase r \<in> P" using assms by (rule settledE)
  note ph = phase_cases [OF r(2)]
  have live: "settled P (res_state (command_live x c r b q t))" if "settled P t" for c b q and t :: "'a st"
    using that ph by (simp add: command_live_def Let_def settled_intro split: option.split)
  have unsure: "settled P (res_state (command_unsure x c r q t))" if "settled P t" "r_phase r \<in> {Committing, CommitUnknown}"
    for c q and t :: "'a st"
    using that r(2) unknown
    by (auto simp: command_unsure_def Let_def persist_reply_def plain_reply_def intro!: settled_intro)
  have after: "settled P (res_state (command_after_retry x c r b q t))" if "settled P t" for c b q and t :: "'a st"
    using live [OF that] unsure [OF that] by (simp add: command_after_retry_def)
  have "settled P (res_state (command_retry x c r b q t))" if "settled P t" for c b q and t :: "'a st"
    using that by (simp add: command_retry_def Let_def split_def after settled_intro split: option.split)
  then show ?thesis
    using assms r
    by (simp add: command_def command_parsed_def command_owned_def Let_def settled_intro split: option.split strict_error.split)
qed

lemma not_live_settled: "settled P s \<Longrightarrow> capability_live h s = None"
  by (erule settledE) (auto simp: capability_live_def Let_def dest: phase_cases split: option.split)

lemma callback_query_settled:
  assumes "settled P s"
  shows "settled P (res_state (callback_query x input s))"
  using assms not_live_settled [OF assms] by (simp add: callback_query_def settled_intro split: option.split prod.split)

lemma after_callback_settled:
  assumes "settled P s"
  shows "settled P (res_state (after_callback x s))"
proof -
  obtain r where r: "s_durable s = Some (Live r)" "r_phase r \<in> P" "is_none_or (settled_volatile P) (s_volatile s)"
    using assms by (rule settledE)
  have d: "Option.bind (s_volatile s) v_deferred = None"
    using r(3) by (cases "s_volatile s") (simp_all add: settled_volatile_def)
  have "settled P (on_volatile (\<lambda>v. v\<lparr>v_deferred := None\<rparr>) s)"
    by (rule settled_on_volatile) (simp_all add: assms settled_volatile_def)
  then show ?thesis using r(1,2) by (simp add: after_callback_def d Let_def on_volatile_def close_settled)
qed

lemma callback_outcome_settled:
  assumes "settled P s"
  shows "settled P (res_state (callback_outcome x event s))"
proof -
  let ?u = "on_volatile (\<lambda>v. v\<lparr>v_callback := None\<rparr>) s"
  have u: "settled P ?u" by (rule settled_on_volatile) (simp_all add: assms settled_volatile_def)
  have nl: "capability_live h ?u = None" for h using u by (rule not_live_settled)
  show ?thesis
    using assms u
    by (simp add: callback_outcome_def Let_def nl callback_failed_def callback_bound_def callback_executed_def split_def
        after_callback_settled settled_intro split: option.split event.split callback_task.split)
qed

lemma consume_settled:
  assumes "settled P s" and "safe_task P task" and "\<not> not_committed event \<or> Committed \<notin> P \<or> CommitUnknown \<notin> P"
  shows "settled P (res_state (consume x lane rid task event s))"
proof -
  consider n d p where "task = CommitSend n d p" "Committed \<in> P" "CommitUnknown \<in> P"
    | q f l m z where "task = Reply q f l m False z" | i b t where "task = BeginBinding i b t"
    | "task = ResetAfterPersist" | ph q where "task = CloseRollback ph q" "ph \<in> P"
    using assms(2) by (cases task) (auto simp: safe_task_def)
  then show ?thesis
    using assms(1,3)
    by cases (cases event; force simp: consume_def begin_checked_settled reply_persisted_def reply_persist_failed_def Let_def
        commit_failed_def not_committed_def plain_reply_def settled_intro)+
qed

lemma outcome_settled:
  assumes "settled P s" and "\<not> not_committed event \<or> Committed \<notin> P \<or> CommitUnknown \<notin> P"
  shows "settled P (res_state (outcome x event s))"
proof -
  obtain r where r: "s_durable s = Some (Live r)" "is_none_or (settled_volatile P) (s_volatile s)"
    using assms(1) by (rule settledE)
  have stale: "settled P (res_state (stale x event s))"
    using assms(1) by (simp add: stale_def Let_def settled_intro)
  have taken: "settled P (s\<lparr>s_volatile := Some (v\<lparr>v_pending := None, v_work := None\<rparr>)\<rparr>)" if "s_volatile s = Some v" for v
    using assms(1) that by (simp add: settled_def record_of_def settled_volatile_def)
  have safe: "safe_task P (wk_task w) \<and> \<not> is_atomic_task (wk_task w)" if "s_volatile s = Some v" "v_work v = Some w" for v w
    using r(2) that by (auto simp: settled_volatile_def safe_task_def is_atomic_task_def split: task.splits)
  show ?thesis
    using assms stale taken safe
    by (simp add: outcome_def Let_def callback_outcome_settled settled_map_res consume_settled settled_intro split: option.split)
qed

lemma dispatch_settled:
  assumes "settled P s" and "\<not> not_committed event \<or> Committed \<notin> P \<or> CommitUnknown \<notin> P" and "on_owner x"
  shows "settled P (res_state (dispatch x event s))"
proof -
  obtain r where r: "s_durable s = Some (Live r)" "record_of s = Some r" "r_kind r = Interactive" "r_phase r \<in> P"
    using assms(1) by (rule settledE)
  note ph = phase_cases [OF r(4)]
  have timer: "timer x s = Done s" using r ph by (simp add: timer_def Let_def)
  have abandon: "settled P (abandon x s)"
    using assms(1) r ph unknown by (auto simp: abandon_def Let_def durable_simps settled_intro split: phase.split)
  have request: "settled P (res_state (request_event x input s))" for input
    using assms by (simp add: request_event_def settled_intro)
  have atomic: "settled P (res_state (atomic_input x input s))" for input
    using assms r by (simp add: atomic_input_def settled_intro split: sum.split)
  have forwarded: "settled P (res_state (forwarded x input s))" for input
    using assms atomic
    by (simp add: forwarded_def begin_settled command_settled callback_query_settled settled_intro split: option.split)
  show ?thesis
    using assms timer abandon request forwarded outcome_settled [OF assms(1,2)]
    by (cases event) (simp_all add: dispatch_def)
qed

lemma fail_closed_settled:
  assumes "settled P s"
  shows "settled P (fail_closed x why event vu s)"
proof -
  obtain r where r: "s_durable s = Some (Live r)" "r_phase r \<in> P" using assms by (rule settledE)
  note ph = phase_cases [OF r(2)]
  have "settled P (answer_waiting x b t)" "settled P (answer_lanes x c d t)" "settled P (answer_event x b event t)"
    if "settled P t" for b c d and t :: "'a st"
    using that by (simp_all add: answer_waiting_def answer_lanes_def answer_event_def Let_def settled_intro
        split: option.split event.split)
  note a = this
  have reset: "settled P (or_reset u)" if "settled P (res_state u)" for u :: "'a res"
    using that by (cases u) (simp_all add: or_reset_def settled_intro)
  have u: "Committing \<in> P \<Longrightarrow> CommitUnknown \<in> P" by (rule unknown)
  show ?thesis
    using assms r ph u
    by (cases "r_phase r") (simp_all add: fail_closed_def Let_def a reset settled_intro)
qed

lemma run_dispatch_settled:
  assumes "settled P s" and "\<not> not_committed event \<or> Committed \<notin> P \<or> CommitUnknown \<notin> P" and "on_owner x"
  shows "settled P (run_dispatch x event s)"
proof (cases "checked_dispatch x event s")
  case (Done t)
  then have "dispatch x event s = Done t" by (auto dest: checked_dispatch_Done)
  then show ?thesis using dispatch_settled [OF assms] Done by (simp add: run_dispatch_def)
next
  case (Fault why t)
  have "settled P (t\<lparr>s_compiler := c, s_allocated := [], s_durable := s_durable s, s_volatile := s_volatile s,
      s_effects := [], s_reset := False\<rparr>)" for c
    using assms(1) by (simp add: settled_def record_of_def)
  with Fault show ?thesis by (simp add: run_dispatch_def fail_closed_settled)
qed

end

interpretation commit_phases: settled_phases "{Committing, Committed, CommitUnknown}"
  by unfold_locales simp_all

lemma terminal_phase_settled: "is_terminal p \<Longrightarrow> p \<noteq> Discarded \<Longrightarrow> settled_phases {p}"
  by unfold_locales auto

end
