(* ===== verification/Tx_Demo.thy ===== *)
theory Tx_Demo
  imports Tx_Step
begin

text \<open>
  A concrete deployment for the witnesses: a compiler with one plan, constant texts in place of
  \<open>serde_json\<close>, an owner with an active interactive transaction, and its volatile part.
\<close>

definition demo_owner :: string where
  "demo_owner = ''tx_aaaaaaaaaaaaaaaaaaaaaaaaaaaaaaaa''"

definition demo_hash :: string where
  "demo_hash = ''aaaaaaaaaaaaaaaaaaaaaaaaaaaaaaaaaaaaaaaaaaaaaaaaaaaaaaaaaaaaaaaa''"

definition demo_binding :: binding where
  "demo_binding = \<lparr>bd_version = 1, bd_scope = ''s'', bd_database_id = ''d'', bd_generation = ''g'',
     bd_snapshot = ''v1''\<rparr>"

definition demo_versions :: versions where
  "demo_versions = \<lparr>vs_schema = ''s1'', vs_policy = ''p1''\<rparr>"

definition demo_wire :: "durable_wire" where
  "demo_wire = to_wire (Tombstone demo_owner)"

definition demo_serde :: serde where
  "demo_serde = \<lparr>sj_tree = \<lambda>_. Some (JNumber (PosInt 1)), sj_events = \<lambda>_. (JtScalar, True), sj_f64 = \<lambda>_. ''0'',
     sj_value = \<lambda>_. Some (JObject [(''v'', JNumber (PosInt 1))]), sj_string = \<lambda>_. None,
     sj_members = \<lambda>text. Some (if text = ''{}'' then [(''sequence'', ''1'')]
       else [(''params'', ''{}''), (''sequence'', ''1''), (''sql'', [CHR 0x22, CHR 0x22])]), sj_body = \<lambda>_. None, sj_write = \<lambda>_. ''{}'', sj_valid = \<lambda>_. True,
     sj_binding = \<lambda>_. Some demo_binding, sj_idempotency = \<lambda>_. None, sj_stored = \<lambda>_. None,
     sj_durable = \<lambda>_. Some demo_wire, sj_durable_text = \<lambda>_. ''{}'', sj_volatile = \<lambda>_. None,
     sj_volatile_text = \<lambda>_. ''{}'', sj_event = \<lambda>_. None, sj_host = \<lambda>_. None\<rparr>"

text \<open>One plan: a \<open>SELECT\<close> of one column, with one row as its result.\<close>

definition demo_compiled :: compiled where
  "demo_compiled = \<lparr>cd_handle = 3, cd_statements = [\<lparr>ss_operation = Select, ss_resource = Some ''a'',
     ss_limits = \<lparr>sl_max_rows = 10, sl_max_result_bytes = 1000, sl_timeout_ms = 1000\<rparr>, ss_explain_resource = None\<rparr>],
     cd_schema_version = ''s1'', cd_policy_version = ''p1''\<rparr>"

definition demo_validated :: validated where
  "demo_validated = \<lparr>vd_raw_bytes = 10, vd_values = 1, vd_columns = [''a''], vd_rows = [[JNumber (PosInt 1)]],
     vd_redactions = [[False]], vd_affected_rows = 0, vd_result_columns = [''{}''], vd_operation_check = False\<rparr>"

definition demo_compiler :: "unit compiler" where
  "demo_compiler = \<lparr>c_snapshot = ''v1'', c_compile = \<lambda>c _ _. (Inr demo_compiled, c),
     c_statements = \<lambda>_ _. Inr [\<lparr>ds_sql = ''q'', ds_client_parameters = [], ds_server_parameters = [], ds_cost_sql = ''q''\<rparr>],
     c_raw_result_bound = \<lambda>_ _. Inr 1000,
     c_validate = \<lambda>_ _ _ _ budget. if 10 \<le> rb_raw_bytes budget \<and> 1 \<le> rb_values budget \<and> 9 \<le> rb_result_bytes budget
       then Inr demo_validated else Inl (core_error_new ''POLICYSQL_LIMIT_EXCEEDED'' ''''),
     c_release = \<lambda>c _. c, c_triggered_checks = \<lambda>_. []\<rparr>"

definition demo_limits :: limits where
  "demo_limits = \<lparr>lim_transaction_ms = 30000, lim_max_transaction_statements = 16,
     lim_max_transaction_result_bytes = 65536, lim_begin_timeout_ms = 5000, lim_max_callback_rows = 100,
     lim_max_statements = 8, lim_max_request_bytes = 65536, lim_max_result_bytes = 65536, lim_max_json_values = 65536,
     lim_max_response_bytes = 65536\<rparr>"

definition demo_host :: "nat \<Rightarrow> host_facts" where
  "demo_host now = \<lparr>h_now_ms = now, h_entropy = demo_hash, h_request_id = ''r1'', h_owner = Some demo_owner,
     h_configured_checks = []\<rparr>"

definition demo_ctx :: "nat \<Rightarrow> unit ctx" where
  "demo_ctx now = \<lparr>x_compiler = demo_compiler, x_limits = demo_limits, x_host = demo_host now, x_owner = demo_owner,
     x_serde = demo_serde, x_sha = \<lambda>_. demo_hash, x_rnd = F_fin, x_usize_max = 4294967295,
     x_alphabetic = \<lambda>_. False, x_uppercase = \<lambda>_. False\<rparr>"

definition demo_record :: "phase \<Rightarrow> tx_record" where
  "demo_record p = \<lparr>r_owner = demo_owner, r_kind = Interactive, r_phase = p,
     r_identity = \<lparr>idn_auth_fingerprint = demo_hash, idn_replay = demo_hash, idn_start_fingerprint = demo_hash,
       idn_mode = Write\<rparr>,
     r_binding = demo_binding, r_snapshot = ''v1'', r_expires_at_ms = (if has_deadline p then Some 1000 else None),
     r_next_sequence = 1, r_last = None, r_counters = counters_default, r_mutations = [], r_versions = None,
     r_atomic = None\<rparr>"

definition demo_volatile :: "task \<Rightarrow> volatile" where
  "demo_volatile t = \<lparr>v_v = 1, v_owner = Some demo_owner, v_next_effect_id = 8, v_connection = Conn_Open, v_handles = [],
     v_pending = Some \<lparr>pn_id = 7, pn_effect = awaited_by t\<rparr>,
     v_work = Some \<lparr>wk_lane = Client, wk_request_id = Some ''r1'', wk_task = t\<rparr>,
     v_rollback_requested = False, v_callback = None, v_capability = None, v_deferred = None,
     v_revoked_validator = None, v_atomic = None\<rparr>"

lemmas demo_defs = demo_owner_def demo_hash_def demo_binding_def demo_versions_def demo_wire_def demo_serde_def
  demo_compiled_def demo_validated_def demo_compiler_def demo_limits_def demo_host_def demo_ctx_def demo_record_def demo_volatile_def

lemma demo_ctx_simps [simp]:
  "x_owner (demo_ctx n) = demo_owner" "x_host (demo_ctx n) = demo_host n" "x_serde (demo_ctx n) = demo_serde"
  "now_ms (demo_ctx n) = n" "snapshot_of (demo_ctx n) = ''v1''" "request_id (demo_ctx n) = ''r1''"
  by (simp_all add: demo_ctx_def demo_host_def now_ms_def snapshot_of_def request_id_def demo_compiler_def)

lemma demo_owner_name [simp]: "owner_name demo_owner"
  by code_simp

lemma demo_record_consistent [simp]: "p \<notin> {Committed, RolledBack, Discarded} \<Longrightarrow> record_is_consistent (demo_record p)"
proof -
  have h: "hex64 demo_hash" "binding_is_valid demo_binding" "short_text ''v1''" "demo_owner \<noteq> []" by code_simp+
  then show "p \<notin> {Committed, RolledBack, Discarded} \<Longrightarrow> ?thesis"
    by (simp add: record_is_consistent_def rec_defs demo_record_def counters_default_def usage_is_valid_def
        MAX_TIME_MS_def MAX_SAFE_INTEGER_def MAX_MUTATIONS_def) (simp add: demo_binding_def)
qed

lemma demo_volatile_consistent [simp]: "\<not> is_verdict t \<Longrightarrow> volatile_is_consistent (demo_volatile t)"
proof -
  have "valid_request_id ''r1''" by code_simp
  then show "\<not> is_verdict t \<Longrightarrow> ?thesis"
    by (simp add: volatile_is_consistent_def vol_defs demo_volatile_def work_task_is_def MAX_SAFE_INTEGER_def)
qed

lemma demo_serde_simps [simp]:
  "sj_write demo_serde d = ''{}''" "sj_valid demo_serde q" "sj_durable_text demo_serde w = ''{}''"
  "sj_volatile_text demo_serde v = ''{}''"
  by (simp_all add: demo_serde_def)

lemma demo_parse_json: "parse_json (demo_ctx n) text = Some (JNumber (PosInt 1))"
  by (simp add: parse_json_def canonical_parse_def parse_with_max_depth_def demo_serde_def MAX_DEPTH_def)

lemma demo_limit_simps [simp]: "\<not> max_volatile_bytes (x_usize_max (demo_ctx n)) (x_limits (demo_ctx n)) < Suc (Suc 0)"
  by (simp add: demo_ctx_def demo_limits_def max_volatile_bytes_def volatile_bytes_def max_request_len_def
      Let_def bound_consts rust_arith)

definition demo_capability :: capability where
  "demo_capability = \<lparr>cp_token_hash = demo_hash, cp_expires_at_ms = 900, cp_check = ''k'', cp_session = ''{}'',
     cp_role = ''auditor'', cp_next_sequence = 1, cp_last = None, cp_rows = 0, cp_result_bytes = 0\<rparr>"

definition demo_checks :: commit_checks where
  "demo_checks = \<lparr>cc_sequence = 1, cc_digest = demo_hash, cc_auth = ''{}'', cc_checks = [], cc_index = 0\<rparr>"

lemma demo_record_of [simp]: "r_phase (demo_record p) = p" "r_kind (demo_record p) = Interactive"
  "r_owner (demo_record p) = demo_owner" "r_snapshot (demo_record p) = ''v1''"
  "r_expires_at_ms (demo_record p) = (if has_deadline p then Some 1000 else None)" "r_next_sequence (demo_record p) = 1"
  "r_last (demo_record p) = None"
  by (simp_all add: demo_record_def)

lemma demo_request_id [simp]: "valid_request_id ''r1''"
  by code_simp

lemma demo_host_valid [simp]: "n \<le> MAX_TIME_MS \<Longrightarrow> host_is_valid (demo_host n)"
proof -
  have "hex64 demo_hash" by code_simp
  then show "n \<le> MAX_TIME_MS \<Longrightarrow> ?thesis" by (simp add: host_is_valid_def demo_host_def)
qed

end
