(* ===== verification/Tx_Owner.thy ===== *)
theory Tx_Owner
  imports Tx_Settled Tx_Demo
begin

text \<open>
  An owner over time: the store, the memory between steps, and every way they change, as
  \<^verbatim>\<open>src/crates/policysql-transaction/src/machine/mod.rs\<close> (\<open>Output\<close>) and
  \<^verbatim>\<open>src/crates/policysql-transaction/src/machine/io.rs\<close> (\<open>Effect\<close>) document the host's side of a step. A
  step runs on the memory, or on the store with no volatile part; what it returns is kept in
  memory, and is written when it emitted \<open>Persist\<close>, where the write may or may not take effect;
  \<open>Reset\<close> and a crash drop the memory. The contexts a step may run in are a parameter: the clock,
  the entropy, the requests and even the runtime may change from step to step.
\<close>

record owner =
  ow_store :: "durable option"
  ow_memory :: "(durable option \<times> volatile option) option"

definition current_state :: "owner \<Rightarrow> durable option \<times> volatile option" where
  "current_state w = (case ow_memory w of Some m \<Rightarrow> m | None \<Rightarrow> (ow_store w, None))"

text \<open>The next state of the owner after a step that ended in \<open>t\<close>; \<open>written\<close> says whether a write took
  effect.\<close>

definition after_step :: "'c st \<Rightarrow> bool \<Rightarrow> owner \<Rightarrow> owner" where
  "after_step t written w = \<lparr>
     ow_store = (if written \<and> list_ex (\<lambda>e. case e of Persist _ \<Rightarrow> True | _ \<Rightarrow> False) (s_effects t) then s_durable t else ow_store w),
     ow_memory = (if s_reset t then None
                  else Some (s_durable t, if volatile_is volatile_is_idle t then None else s_volatile t))\<rparr>"

definition loaded :: "'c \<Rightarrow> durable option \<times> volatile option \<Rightarrow> 'c st" where
  "loaded c m = (init_st c)\<lparr>s_durable := fst m, s_volatile := snd m\<rparr>"

inductive owner_step :: "'c ctx set \<Rightarrow> (event \<Rightarrow> bool) \<Rightarrow> owner \<Rightarrow> owner \<Rightarrow> bool" for X allowed where
  event: "x \<in> X \<Longrightarrow> allowed e \<Longrightarrow>
    owner_step X allowed w (after_step (run_dispatch x e (loaded c (current_state w))) written w)"
| crash: "owner_step X allowed w (w\<lparr>ow_memory := None\<rparr>)"

inductive reach :: "'c ctx set \<Rightarrow> (event \<Rightarrow> bool) \<Rightarrow> owner \<Rightarrow> owner \<Rightarrow> bool" for X allowed where
  here: "reach X allowed w w"
| step: "reach X allowed u w \<Longrightarrow> owner_step X allowed w w' \<Longrightarrow> reach X allowed u w'"

section \<open>Settled owners\<close>

definition settled_state :: "phase set \<Rightarrow> durable option \<times> volatile option \<Rightarrow> bool" where
  "settled_state P m = (is_some_and (\<lambda>d. case d of Live r \<Rightarrow> settled_record P r | Tombstone _ \<Rightarrow> False) (fst m) \<and>
     is_none_or (settled_volatile P) (snd m))"

definition settled_owner :: "phase set \<Rightarrow> owner \<Rightarrow> bool" where
  "settled_owner P w = (settled_state P (ow_store w, None) \<and> is_none_or (settled_state P) (ow_memory w))"

lemma settled_state_Live: "settled_state P m \<longleftrightarrow> (\<exists>r. fst m = Some (Live r) \<and> settled_record P r) \<and>
    is_none_or (settled_volatile P) (snd m)"
proof -
  have "is_some_and (\<lambda>d. case d of Live r \<Rightarrow> settled_record P r | Tombstone _ \<Rightarrow> False) d \<longleftrightarrow>
      (\<exists>r. d = Some (Live r) \<and> settled_record P r)" for d
    by (cases d; cases "the d") auto
  then show ?thesis by (simp add: settled_state_def)
qed

lemma settled_state_iff: "settled P s \<longleftrightarrow> settled_state P (s_durable s, s_volatile s)"
  by (auto simp: settled_def settled_state_def record_of_def split: option.split durable.split)

lemma settled_loaded: "settled_owner P w \<Longrightarrow> settled P (loaded c (current_state w))"
  by (auto simp: settled_state_iff loaded_def settled_owner_def current_state_def split: option.split)

lemma settled_after_step:
  assumes "settled_owner P w" and "settled P t"
  shows "settled_owner P (after_step t written w)"
  using assms by (auto simp: settled_owner_def after_step_def settled_state_iff) (simp_all add: settled_state_def)

context settled_phases
begin

lemma owner_step_settled:
  assumes "owner_step X allowed w w'" and "settled_owner P w" and "\<And>x. x \<in> X \<Longrightarrow> on_owner x"
    and "\<And>e. allowed e \<Longrightarrow> \<not> not_committed e \<or> Committed \<notin> P \<or> CommitUnknown \<notin> P"
  shows "settled_owner P w'"
  using assms(1)
proof (cases rule: owner_step.cases)
  case (event x e c written)
  have "settled P (run_dispatch x e (loaded c (current_state w)))"
    by (rule run_dispatch_settled) (use assms(2-4) event settled_loaded in simp_all)
  then show ?thesis unfolding event(1) by (rule settled_after_step [OF assms(2)])
next
  case crash
  then show ?thesis using assms(2) by (simp add: settled_owner_def)
qed

lemma reach_settled:
  assumes "reach X allowed u w" and "settled_owner P u" and "\<And>x. x \<in> X \<Longrightarrow> on_owner x"
    and "\<And>e. allowed e \<Longrightarrow> \<not> not_committed e \<or> Committed \<notin> P \<or> CommitUnknown \<notin> P"
  shows "settled_owner P w"
  using assms(1,2)
proof (induction rule: reach.induct)
  case (step u w w')
  then show ?case using owner_step_settled assms(3,4) by blast
qed

end

text \<open>The phase an owner would report, now and after losing its memory.\<close>

definition owner_phases :: "owner \<Rightarrow> phase set" where
  "owner_phases w = set (map durable_phase (List.map_filter id [ow_store w, fst (current_state w)]))"

lemma settled_owner_phases: "settled_owner P w \<Longrightarrow> owner_phases w \<subseteq> P \<and> owner_phases w \<noteq> {}"
  by (auto simp: settled_owner_def settled_state_Live owner_phases_def current_state_def settled_record_def
      map_filter_def split: option.splits)

section \<open>Properties\<close>

text \<open>
  C6. From the moment a COMMIT is awaited, an interactive transaction is never reported as
  not committed: over any sequence of steps in any order, with any requests, timers and outcomes,
  with writes that take effect or not, crashes and restarts between them, both the stored record
  and the record in memory stay \<open>committing\<close>, \<open>committed\<close> or \<open>commit_unknown\<close>, as long as the
  adapter does not report that no COMMIT was sent.
\<close>

theorem commit_never_undone:
  assumes "reach X (\<lambda>e. \<not> not_committed e) u w" and "\<And>x. x \<in> X \<Longrightarrow> on_owner x"
    and "ow_store u = Some (Live r)" and "ow_memory u = Some (Some (Live r), Some v)"
    and "r_kind r = Interactive" and "r_phase r = Committing" and "v_deferred v = None"
    and "v_work v = Some \<lparr>wk_lane = lane, wk_request_id = rid, wk_task = CommitSend n d passed\<rparr>"
  shows "owner_phases w \<subseteq> {Committing, Committed, CommitUnknown} \<and> owner_phases w \<noteq> {}"
proof -
  have "settled_owner {Committing, Committed, CommitUnknown} u"
    using assms(3-8) by (simp add: settled_owner_def settled_state_def settled_record_def settled_volatile_def)
  then show ?thesis using commit_phases.reach_settled [OF assms(1)] assms(2) settled_owner_phases by blast
qed

definition demo_sent :: owner where
  "demo_sent = \<lparr>ow_store = Some (Live (demo_record Committing)),
     ow_memory = Some (Some (Live (demo_record Committing)), Some (demo_volatile (CommitSend 1 demo_hash False)))\<rparr>"

lemma commit_never_undone_witness:
  "reach {demo_ctx 500} (\<lambda>e. \<not> not_committed e) demo_sent (demo_sent\<lparr>ow_memory := None\<rparr>) \<and>
   owner_phases (demo_sent\<lparr>ow_memory := None\<rparr>) \<subseteq> {Committing, Committed, CommitUnknown}"
proof -
  have r: "reach {demo_ctx 500} (\<lambda>e. \<not> not_committed e) demo_sent (demo_sent\<lparr>ow_memory := None\<rparr>)"
    by (blast intro: reach.intros owner_step.crash)
  have o: "on_owner (demo_ctx 500)" by (simp add: on_owner_def demo_owner_def)
  from commit_never_undone [OF r, of "demo_record Committing" "demo_volatile (CommitSend 1 demo_hash False)" Client "Some ''r1''"
      1 demo_hash False] o r show ?thesis
    by (simp add: demo_sent_def demo_volatile_def)
qed

text \<open>
  C7. A terminal phase is final: once an interactive transaction is \<open>committed\<close>, \<open>rolled_back\<close>,
  \<open>failed\<close>, \<open>expired\<close> or \<open>commit_unknown\<close> in the store and in memory, no sequence of events,
  writes and crashes changes that phase, and no later event turns one outcome into another.
\<close>

theorem terminal_phase_is_final:
  assumes "reach X allowed u w" and "\<And>x. x \<in> X \<Longrightarrow> on_owner x" and "is_terminal p" and "p \<noteq> Discarded"
    and "settled_owner {p} u"
  shows "owner_phases w = {p}"
proof -
  have "settled_owner {p} w"
    using settled_phases.reach_settled [OF terminal_phase_settled [OF assms(3,4)] assms(1,5,2)] by auto
  then show ?thesis using settled_owner_phases [of "{p}" w] by blast
qed

lemma terminal_phase_is_final_witness:
  "reach {demo_ctx 500} (\<lambda>_. True) \<lparr>ow_store = Some (Live (demo_record Expired)), ow_memory = None\<rparr>
     (after_step (run_dispatch (demo_ctx 500) Ev_TimerFired (loaded () (Some (Live (demo_record Expired)), None))) True
       \<lparr>ow_store = Some (Live (demo_record Expired)), ow_memory = None\<rparr>) \<and>
   owner_phases (after_step (run_dispatch (demo_ctx 500) Ev_TimerFired (loaded () (Some (Live (demo_record Expired)), None))) True
       \<lparr>ow_store = Some (Live (demo_record Expired)), ow_memory = None\<rparr>) = {Expired}"
proof -
  let ?u = "\<lparr>ow_store = Some (Live (demo_record Expired)), ow_memory = None\<rparr>"
  let ?w = "after_step (run_dispatch (demo_ctx 500) Ev_TimerFired (loaded () (current_state ?u))) True ?u"
  have r: "reach {demo_ctx 500} (\<lambda>_. True) ?u ?w" by (rule reach.step [OF reach.here owner_step.event]) simp_all
  have "settled_owner {Expired} ?u" "on_owner (demo_ctx 500)"
    by (simp_all add: settled_owner_def settled_state_def settled_record_def on_owner_def demo_owner_def)
  with terminal_phase_is_final [OF r, of Expired] r show ?thesis by (simp add: current_state_def)
qed

end
