(* ===== verification/Tx_Checks_Laws.thy ===== *)
theory Tx_Checks_Laws
  imports Tx_Checks Tx_Demo
begin

text \<open>
  Laws of the commit checks (\<^verbatim>\<open>src/crates/policysql-transaction/src/machine/step/checks.rs\<close>): the capability
  token and its encoding, the order of the checks, the rights of a callback's session, what a
  callback query needs, what the queries of one check may return, and what a denial does.
\<close>

section \<open>Lemmas\<close>

lemma or_xor_zero: "(d :: nat) OR (a XOR b) = 0 \<longleftrightarrow> d = 0 \<and> a = b"
  by (auto simp: bit_eq_iff bit_or_iff bit_xor_iff)

lemma fold_difference:
  "fold (\<lambda>(a, b) difference. difference OR (byte a XOR byte b)) ps d = 0 \<longleftrightarrow>
     d = 0 \<and> list_all (\<lambda>(a, b). a = b) ps"
proof (induction ps arbitrary: d)
  case (Cons p ps)
  then show ?case by (cases p) (auto simp: or_xor_zero dest: byte_inj)
qed simp

lemma zip_all_eq: "length l = length r \<Longrightarrow> list_all (\<lambda>(a, b). a = b) (zip l r) \<longleftrightarrow> l = r"
  by (induction l r rule: list_induct2) auto

lemma same_hash_iff: "same_hash l r \<longleftrightarrow> l = r"
  unfolding same_hash_def fold_difference using zip_all_eq [of l r] by auto

text \<open>Base64url: every chunk gives one more character than it has bytes.\<close>

lemma alphabet_length [simp]: "length ALPHABET = 64"
  by (simp add: ALPHABET_def)

lemma alphabet_chars: "list_all (\<lambda>c. is_ascii_alphanumeric c \<or> c = CHR ''-'' \<or> c = CHR ''_'') ALPHABET"
  by code_simp

lemma alphabet_distinct: "distinct ALPHABET"
  by code_simp

lemma and_63: "(n :: nat) AND 63 = n mod 64"
  using take_bit_eq_mask [of 6 n] by (simp add: mask_eq_exp_minus_1 take_bit_eq_mod)

lemma chunk_text_length: "length (chunk_text c) = length c + 1"
  by (simp add: chunk_text_def)

lemma chunk_text_chars: "c \<in> set (chunk_text b) \<Longrightarrow> is_ascii_alphanumeric c \<or> c = CHR ''-'' \<or> c = CHR ''_''"
  using alphabet_chars by (auto simp: chunk_text_def and_63 list_all_iff)

lemma base64url_chars: "c \<in> set (base64url b) \<Longrightarrow> is_ascii_alphanumeric c \<or> c = CHR ''-'' \<or> c = CHR ''_''"
  by (auto simp: base64url_def dest: chunk_text_chars)

lemma base64url_length: "length (base64url b) = length b + (length b + 2) div 3"
proof (induction b rule: chunks3.induct)
  case (1 a b c rest)
  then show ?case by (simp add: base64url_def chunk_text_length)
qed (simp_all add: base64url_def chunk_text_length)

lemma or_push:
  assumes "b < 2 ^ n"
  shows "push_bit n a OR b = push_bit n a + (b :: nat)"
proof (rule disjunctive_add [symmetric])
  fix k
  have "take_bit n b = b" using assms by (rule take_bit_nat_eq_self)
  then have "bit b k \<Longrightarrow> k < n" by (metis bit_take_bit_iff)
  then show "\<not> bit (push_bit n a) k \<or> \<not> bit b k" by (auto simp: bit_push_bit_iff)
qed

lemma chunk_triple_simps:
  assumes "a < 256" "b < 256" "c < (256 :: nat)"
  shows "chunk_triple [a] = a * 65536" "chunk_triple [a, b] = a * 65536 + b * 256"
    "chunk_triple [a, b, c] = a * 65536 + b * 256 + c"
proof -
  have ab: "push_bit 16 a OR push_bit 8 b = a * 65536 + b * 256"
    using or_push [of "push_bit 8 b" 16 a] assms by (simp add: push_bit_eq_mult)
  have "push_bit 8 (a * 256 + b) OR c = a * 65536 + b * 256 + c"
    using or_push [of c 8 "a * 256 + b"] assms by (simp add: push_bit_eq_mult)
  then show "chunk_triple [a, b, c] = a * 65536 + b * 256 + c"
    using ab by (simp add: chunk_triple_def push_bit_eq_mult algebra_simps)
  show "chunk_triple [a] = a * 65536" "chunk_triple [a, b] = a * 65536 + b * 256"
    using ab by (simp_all add: chunk_triple_def push_bit_eq_mult)
qed

lemma chunk_text_digits: "chunk_text c = map (\<lambda>i. ALPHABET ! (chunk_triple c div 2 ^ (18 - 6 * i) mod 64)) [0..<length c + 1]"
  by (simp add: chunk_text_def and_63 drop_bit_eq_div)

lemma alphabet_nth_eq: "ALPHABET ! (a mod 64) = ALPHABET ! (b mod 64) \<longleftrightarrow> a mod 64 = b mod 64"
  by (rule nth_eq_iff_index_eq [OF alphabet_distinct]) simp_all

lemma digits_64:
  assumes "t < 64 * 64 * 64 * (64 :: nat)"
  shows "t = (t div 2 ^ 18 mod 64) * 262144 + (t div 2 ^ 12 mod 64) * 4096 + (t div 2 ^ 6 mod 64) * 64 + t mod 64"
proof -
  have d: "t div 2 ^ 6 = t div 64" "t div 2 ^ 12 = t div 64 div 64" "t div 2 ^ 18 = t div 64 div 64 div 64"
    by (simp_all add: div_mult2_eq [symmetric])
  have "t div 64 div 64 div 64 < 64" using assms by (simp add: div_less_iff_less_mult)
  then have "t div 64 div 64 div 64 mod 64 = t div 64 div 64 div 64" by simp
  moreover have "t = t div 64 * 64 + t mod 64" by simp
  moreover have "t div 64 = t div 64 div 64 * 64 + t div 64 mod 64" by (metis div_mult_mod_eq)
  moreover have "t div 64 div 64 = t div 64 div 64 div 64 * 64 + t div 64 div 64 mod 64" by (metis div_mult_mod_eq)
  ultimately show ?thesis unfolding d by linarith
qed

lemma bytes_eq:
  assumes "b < 256" "x < 256" "b' < 256" "x' < 256" and "a * 65536 + b * 256 + x = a' * 65536 + b' * 256 + (x' :: nat)"
  shows "a = a' \<and> b = b' \<and> x = x'"
proof -
  have e: "(a * 256 + b) * 256 + x = (a' * 256 + b') * 256 + x'" using assms(5) by simp
  have x: "x = x'" using e mixed_radix(2) [OF assms(2)] mixed_radix(2) [OF assms(4)] by metis
  have ab: "a * 256 + b = a' * 256 + b'" using e mixed_radix(1) [OF assms(2)] mixed_radix(1) [OF assms(4)] by metis
  then have "b = b'" "a = a'" using mixed_radix [OF assms(1)] mixed_radix [OF assms(3)] by metis+
  with x show ?thesis by simp
qed

text \<open>The bytes of a chunk, with zeros for the missing ones.\<close>

lemma chunk_triple_padded:
  assumes "1 \<le> length c" and "length c \<le> 3" and "list_all (\<lambda>b. b < 256) c"
  shows "\<exists>a b x. chunk_triple c = a * 65536 + b * 256 + x \<and> a < 256 \<and> b < 256 \<and> x < 256 \<and>
    c = take (length c) [a, b, x] \<and> (length c \<le> 2 \<longrightarrow> x = 0) \<and> (length c = 1 \<longrightarrow> b = 0)"
proof -
  consider a where "c = [a]" | a b where "c = [a, b]" | a b x where "c = [a, b, x]"
    using assms(1,2) by (cases c rule: chunks3.cases) auto
  then show ?thesis
  proof cases
    case (1 a)
    with assms(3) show ?thesis using chunk_triple_simps(1) [of a 0 0] by (intro exI [of _ a] exI [of _ 0]) simp
  next
    case (2 a b)
    with assms(3) show ?thesis using chunk_triple_simps(2) [of a b 0]
      by (intro exI [of _ a] exI [of _ b] exI [of _ 0]) simp
  next
    case (3 a b x)
    with assms(3) show ?thesis using chunk_triple_simps(3) [of a b x]
      by (intro exI [of _ a] exI [of _ b] exI [of _ x]) simp
  qed
qed

lemma chunk_text_inj:
  assumes "length c = length d" and "1 \<le> length c" and "length c \<le> 3" and "list_all (\<lambda>b. b < 256) c"
    and "list_all (\<lambda>b. b < 256) d" and "chunk_text c = chunk_text d"
  shows "c = d"
proof -
  obtain a b x where c: "chunk_triple c = a * 65536 + b * 256 + x" "a < 256" "b < 256" "x < 256"
    "c = take (length c) [a, b, x]" "length c \<le> 2 \<longrightarrow> x = 0" "length c = 1 \<longrightarrow> b = 0"
    using chunk_triple_padded [of c] assms by blast
  obtain a' b' x' where d: "chunk_triple d = a' * 65536 + b' * 256 + x'" "a' < 256" "b' < 256" "x' < 256"
    "d = take (length d) [a', b', x']" "length d \<le> 2 \<longrightarrow> x' = 0" "length d = 1 \<longrightarrow> b' = 0"
    using chunk_triple_padded [of d] assms by auto
  have e: "chunk_triple c div 2 ^ (18 - 6 * i) mod 64 = chunk_triple d div 2 ^ (18 - 6 * i) mod 64"
    if "i < length c + 1" for i
  proof -
    have "chunk_text c ! i = chunk_text d ! i" using assms(6) by simp
    then show ?thesis using that assms(1) by (simp add: chunk_text_digits alphabet_nth_eq del: upt_Suc)
  qed
  have low: "n * 256 mod 64 = 0" "n * 65536 div 64 mod 64 = 0" for n :: nat
    using mod_mult_self2_is_0 [of "n * 4" 64] mod_mult_self2_is_0 [of "n * 16" 64] by (simp_all add: mult.commute)
  have two: "chunk_triple c div 2 ^ 6 mod 64 = chunk_triple d div 2 ^ 6 mod 64"
  proof (cases "length c = 1")
    case True
    then show ?thesis using c(1,6,7) d(1,6,7) assms(1) low(2) by simp
  next
    case False
    then show ?thesis using e [of 2] assms(2) by simp
  qed
  have three: "chunk_triple c mod 64 = chunk_triple d mod 64"
  proof (cases "length c = 3")
    case True
    then show ?thesis using e [of 3] by simp
  next
    case False
    then have "x = 0" "x' = 0" using c(6) d(6) assms(1,3) by auto
    then have "chunk_triple c = (a * 256 + b) * 256" "chunk_triple d = (a' * 256 + b') * 256" using c d by simp_all
    then show ?thesis using low(1) by metis
  qed
  have bound: "chunk_triple c < 64 * 64 * 64 * 64" "chunk_triple d < 64 * 64 * 64 * 64" using c d by linarith+
  have "chunk_triple c = chunk_triple d"
  proof -
    have "chunk_triple c div 2 ^ 18 mod 64 = chunk_triple d div 2 ^ 18 mod 64"
      "chunk_triple c div 2 ^ 12 mod 64 = chunk_triple d div 2 ^ 12 mod 64"
      using e [of 0] e [of 1] assms(2) by (cases c; simp)+
    with two three digits_64 [OF bound(1)] digits_64 [OF bound(2)] show ?thesis by metis
  qed
  then have "a = a' \<and> b = b' \<and> x = x'" using c d by (intro bytes_eq) simp_all
  then show ?thesis using c(5) d(5) assms(1) by simp
qed

lemma base64url_short_inj:
  assumes "length a = length b" and "length a \<le> 2" and "list_all (\<lambda>n. n < 256) a" and "list_all (\<lambda>n. n < 256) b"
    and "base64url a = base64url b"
  shows "a = b"
proof -
  have one: "base64url c = chunk_text c" if "length c \<le> 2" "c \<noteq> []" for c
    using that by (cases c rule: chunks3.cases) (simp_all add: base64url_def)
  show ?thesis
  proof (cases "a = []")
    case True
    then show ?thesis using assms(1) by simp
  next
    case False
    then have "1 \<le> length a" by (simp add: Suc_leI)
    moreover have "b \<noteq> []" using False assms(1) by auto
    ultimately show ?thesis using assms one [of a] one [of b] False by (intro chunk_text_inj) simp_all
  qed
qed

lemma base64url_inj:
  "length a = length b \<Longrightarrow> list_all (\<lambda>n. n < 256) a \<Longrightarrow> list_all (\<lambda>n. n < 256) b \<Longrightarrow>
     base64url a = base64url b \<Longrightarrow> a = b"
proof (induction a arbitrary: b rule: chunks3.induct)
  case (1 p q r rest)
  then obtain p' q' r' rest' where b: "b = p' # q' # r' # rest'" "length rest = length rest'"
    by (cases b rule: chunks3.cases) auto
  have "chunk_text [p, q, r] @ base64url rest = chunk_text [p', q', r'] @ base64url rest'"
    using "1.prems"(4) by (simp add: b base64url_def)
  then have "chunk_text [p, q, r] = chunk_text [p', q', r']" "base64url rest = base64url rest'"
    by (simp_all add: chunk_text_length)
  then show ?case using "1.IH" [of rest'] "1.prems" b chunk_text_inj [of "[p, q, r]" "[p', q', r']"] by simp
qed (use base64url_short_inj in force)+

text \<open>The entropy of valid host facts.\<close>

lemma hex_val_bound: "hex_val c = Some d \<Longrightarrow> d < 16"
  by (auto simp: hex_val_def Let_def split: if_splits)

lemma hex_val_lower: "is_hex_lower c \<Longrightarrow> \<exists>d. hex_val c = Some d"
  by (auto simp: hex_val_def Let_def is_hex_lower_def is_ascii_digit_def)

lemma hex_val_lower_inj: "is_hex_lower a \<Longrightarrow> is_hex_lower b \<Longrightarrow> hex_val a = hex_val b \<Longrightarrow> a = b"
  by (rule byte_inj) (auto simp: hex_val_def Let_def is_hex_lower_def is_ascii_digit_def split: if_splits)

lemma slice_two:
  assumes "length s = 64" and "i < 32"
  shows "slice s (i * 2) (i * 2 + 2) = Some [s ! (2 * i), s ! (2 * i + 1)]"
proof -
  have "drop (i * 2) s = s ! (i * 2) # s ! (i * 2 + 1) # drop (i * 2 + 2) s"
    using assms Cons_nth_drop_Suc [of "i * 2" s] Cons_nth_drop_Suc [of "i * 2 + 1" s] by simp
  then show ?thesis using assms by (simp add: slice_def mult.commute)
qed

lemma all_some_map: "(\<And>i. i \<in> set xs \<Longrightarrow> f i = Some (g i)) \<Longrightarrow> all_some (map f xs) = Some (map g xs)"
  by (induction xs) auto

definition hex_byte :: "string \<Rightarrow> nat \<Rightarrow> nat" where
  "hex_byte s i = 16 * unwrap_or 0 (hex_val (s ! (2 * i))) + unwrap_or 0 (hex_val (s ! (2 * i + 1)))"

lemma hex64_nth: "hex64 s \<Longrightarrow> i < 64 \<Longrightarrow> is_hex_lower (s ! i)"
  by (simp add: hex64_def list_all_length)

lemma entropy_bytes_hex:
  assumes "hex64 (h_entropy h)"
  shows "entropy_bytes h = Some (map (hex_byte (h_entropy h)) [0..<32])"
proof -
  have "Option.bind (slice (h_entropy h) (i * 2) (i * 2 + 2)) (hex_number 0) = Some (hex_byte (h_entropy h) i)"
    if "i < 32" for i
  proof -
    have "is_hex_lower (h_entropy h ! (2 * i))" "is_hex_lower (h_entropy h ! (2 * i + 1))"
      using assms that by (simp_all add: hex64_nth)
    then obtain a b where "hex_val (h_entropy h ! (2 * i)) = Some a" "hex_val (h_entropy h ! (2 * i + 1)) = Some b"
      using hex_val_lower by blast
    then show ?thesis using slice_two [of "h_entropy h" i] assms that by (simp add: hex64_def hex_byte_def)
  qed
  then show ?thesis unfolding entropy_bytes_def by (intro all_some_map) simp
qed

lemma hex_byte_bound: "hex_byte s i < 256"
proof -
  have "unwrap_or 0 (hex_val c) < 16" for c by (cases "hex_val c") (auto dest: hex_val_bound)
  from this [of "s ! (2 * i)"] this [of "s ! (2 * i + 1)"] show ?thesis by (simp add: hex_byte_def)
qed

lemma hex_byte_inj:
  assumes "hex64 s" "hex64 t" and "i < 32" and "hex_byte s i = hex_byte t i"
  shows "s ! (2 * i) = t ! (2 * i) \<and> s ! (2 * i + 1) = t ! (2 * i + 1)"
proof -
  have l: "is_hex_lower (s ! (2 * i))" "is_hex_lower (t ! (2 * i))" "is_hex_lower (s ! (2 * i + 1))"
    "is_hex_lower (t ! (2 * i + 1))" using assms by (simp_all add: hex64_nth)
  obtain a b a' b' where v: "hex_val (s ! (2 * i)) = Some a" "hex_val (s ! (2 * i + 1)) = Some b"
    "hex_val (t ! (2 * i)) = Some a'" "hex_val (t ! (2 * i + 1)) = Some b'" using l [THEN hex_val_lower] by blast
  have "a * 16 + b = a' * 16 + b'" using assms(4) unfolding hex_byte_def v by simp
  then have "b = b'" "a = a'"
    using mixed_radix [OF hex_val_bound [OF v(2)]] mixed_radix [OF hex_val_bound [OF v(4)]] by metis+
  then show ?thesis using v l hex_val_lower_inj by metis
qed

lemma hex_bytes_inj:
  assumes "hex64 s" "hex64 t" and "map (hex_byte s) [0..<32] = map (hex_byte t) [0..<32]"
  shows "s = t"
proof (rule nth_equalityI)
  show "length s = length t" using assms by (simp add: hex64_def)
next
  fix k assume "k < length s"
  then have "k < 64" using assms(1) by (simp add: hex64_def)
  then have i: "k div 2 < 32" by simp
  then have "hex_byte s (k div 2) = hex_byte t (k div 2)" using assms(3) by (simp add: list_eq_iff_nth_eq del: upt_Suc)
  from hex_byte_inj [OF assms(1,2) i this] show "s ! k = t ! k"
    by (cases "even k") (auto elim!: evenE oddE)
qed

section \<open>Properties\<close>

text \<open>
  A host with valid facts can always issue a capability token, the token has the syntax that
  a callback query must present, and two hosts issue the same token only from the same entropy:
  the encoding loses nothing of the 256 bits.
\<close>

theorem capability_token_faithful:
  assumes "host_is_valid h" and "host_is_valid h'"
  shows "\<exists>bytes bytes'. entropy_bytes h = Some bytes \<and> entropy_bytes h' = Some bytes' \<and>
    token_syntax (base64url bytes) \<and> (base64url bytes = base64url bytes' \<longleftrightarrow> h_entropy h = h_entropy h')"
proof -
  have e: "hex64 (h_entropy h)" "hex64 (h_entropy h')" using assms by (simp_all add: host_is_valid_def)
  let ?b = "map (hex_byte (h_entropy h)) [0..<32]" and ?b' = "map (hex_byte (h_entropy h')) [0..<32]"
  have "token_syntax (base64url ?b)"
    by (auto simp: token_syntax_def base64url_length list_all_iff dest: base64url_chars)
  moreover have "base64url ?b = base64url ?b' \<longleftrightarrow> h_entropy h = h_entropy h'"
    using base64url_inj [of ?b ?b'] hex_bytes_inj [OF e] by (auto simp: list_all_iff hex_byte_bound)
  ultimately show ?thesis using entropy_bytes_hex [OF e(1)] entropy_bytes_hex [OF e(2)] by blast
qed

lemma capability_token_faithful_witness:
  "host_is_valid (demo_host 500) \<and> (\<exists>bytes. entropy_bytes (demo_host 500) = Some bytes \<and> token_syntax (base64url bytes))"
proof -
  have h: "host_is_valid (demo_host 500)" by (simp add: MAX_TIME_MS_def)
  from capability_token_faithful [OF h h] h show ?thesis by blast
qed

text \<open>Triggered checks: sorted and without repetition.\<close>

lemma dedup_ids_Cons: "dedup_ids (a # xs) \<noteq> [] \<and> tc_id (hd (dedup_ids (a # xs))) = tc_id a"
  by (induction "a # xs" arbitrary: a xs rule: dedup_ids.induct) auto

lemma dedup_ids_set: "tc_id ` set (dedup_ids xs) = tc_id ` set xs \<and> set (dedup_ids xs) \<subseteq> set xs"
  by (induction xs rule: dedup_ids.induct) auto

lemma dedup_ids_sorted: "sorted (map tc_id xs) \<Longrightarrow> sorted_wrt (<) (map tc_id (dedup_ids xs))"
proof (induction xs rule: dedup_ids.induct)
  case (1 a b rest)
  show ?case
  proof (cases "tc_id b = tc_id a")
    case True
    with 1 show ?thesis by simp
  next
    case False
    then have "tc_id a < tc_id b" using "1.prems" by (simp add: less_le)
    moreover have "tc_id b \<le> tc_id c" if "c \<in> set (dedup_ids (b # rest))" for c
      using that dedup_ids_set [of "b # rest"] "1.prems" by auto
    ultimately have "tc_id a < tc_id c" if "c \<in> set (dedup_ids (b # rest))" for c
      using that by (meson less_le_trans)
    then show ?thesis using 1 False by auto
  qed
qed simp_all

text \<open>
  The checks of a commit are called in ascending order of their ids, each id once, and they
  are exactly the checks the compiler names for the changed resources.
\<close>

theorem sorted_checks_order:
  "sorted_wrt (<) (map tc_id (sorted_checks x resources)) \<and>
   set (map tc_id (sorted_checks x resources)) =
     (if resources = [] then {} else set (map tc_id (c_triggered_checks (x_compiler x) resources)))"
  using dedup_ids_sorted [of "sort_key tc_id (c_triggered_checks (x_compiler x) resources)"]
    dedup_ids_set [of "sort_key tc_id (c_triggered_checks (x_compiler x) resources)"]
  by (simp add: sorted_checks_def)

text \<open>Members of an object.\<close>

lemma json_get_append:
  "json_get k (JObject (ms @ ns)) = (case json_get k (JObject ms) of None \<Rightarrow> json_get k (JObject ns) | r \<Rightarrow> r)"
  by (induction ms) (auto split: option.splits)

lemma json_get_filter:
  "json_get k (JObject (filter (\<lambda>(key, _). P key) ms)) = (if P k then json_get k (JObject ms) else None)"
  by (induction ms) auto

text \<open>
  A callback runs under the check's role and no other right of the caller's session: its
  session names that role, lists it among the roles of the commit's session, grants exactly
  \<open>execute\<close>, and is the commit's session in every other member.
\<close>

theorem callback_session_rights:
  assumes "callback_session auth role = Some session"
  shows "json_get ''role'' session = Some (JString role) \<and>
    json_get ''access'' session = Some (JArray [JString ''execute'']) \<and>
    (\<exists>roles. json_get ''roles'' session = Some (JArray roles) \<and> JString role \<in> set roles \<and>
       set roles \<subseteq> insert (JString role) (case json_get ''roles'' auth of Some (JArray rs) \<Rightarrow> set rs | _ \<Rightarrow> {})) \<and>
    (\<forall>key. key \<notin> {''role'', ''roles'', ''access''} \<longrightarrow> json_get key session = json_get key auth)"
proof -
  obtain members where auth: "auth = JObject members" using assms by (cases auth) auto
  obtain roles where roles: "(json_get ''roles'' auth = Some (JArray roles) \<or> json_get ''roles'' auth = None \<and> roles = [])"
    and session: "session = JObject (filter (\<lambda>(key, _). key \<notin> {''role'', ''roles'', ''access''}) members @
       [(''role'', JString role), (''roles'', JArray (if JString role \<in> set roles then roles else roles @ [JString role])),
        (''access'', JArray [JString ''execute''])])"
    using assms by (auto simp: auth Let_def split: option.splits json.splits)
  show ?thesis
    unfolding session json_get_append json_get_filter using roles by (auto simp: auth split: option.splits)
qed

lemma callback_session_rights_witness:
  "\<exists>session. callback_session (JObject [(''role'', JString ''user''), (''roles'', JArray [JString ''user'']), (''sub'', JString ''u1'')])
       ''auditor'' = Some session \<and> json_get ''role'' session = Some (JString ''auditor'') \<and>
     json_get ''sub'' session = Some (JString ''u1'')"
proof -
  let ?auth = "JObject [(''role'', JString ''user''), (''roles'', JArray [JString ''user'']), (''sub'', JString ''u1'')]"
  obtain session where s: "callback_session ?auth ''auditor'' = Some session" by (simp add: Let_def)
  from callback_session_rights [OF this] have "json_get ''role'' session = Some (JString ''auditor'')"
    "json_get ''sub'' session = json_get ''sub'' ?auth" by auto
  with s show ?thesis by simp
qed

text \<open>What a step leaves on the callback lane and of the capability.\<close>

definition callback_of :: "'c st \<Rightarrow> callback_work option" where
  "callback_of s = Option.bind (s_volatile s) v_callback"

definition capability_of :: "'c st \<Rightarrow> capability option" where
  "capability_of s = Option.bind (s_volatile s) v_capability"

lemma lane_simps [simp]:
  "callback_of (push e s) = callback_of s" "capability_of (push e s) = capability_of s"
  "callback_of (s\<lparr>s_request := q\<rparr>) = callback_of s" "capability_of (s\<lparr>s_request := q\<rparr>) = capability_of s"
  "callback_of (s\<lparr>s_compiler := c\<rparr>) = callback_of s" "capability_of (s\<lparr>s_compiler := c\<rparr>) = capability_of s"
  "callback_of (s\<lparr>s_durable := d\<rparr>) = callback_of s" "capability_of (s\<lparr>s_durable := d\<rparr>) = capability_of s"
  "callback_of (s\<lparr>s_allocated := a\<rparr>) = callback_of s" "capability_of (s\<lparr>s_allocated := a\<rparr>) = capability_of s"
  "callback_of (s\<lparr>s_volatile := Some v\<rparr>) = v_callback v" "capability_of (s\<lparr>s_volatile := Some v\<rparr>) = v_capability v"
  by (simp_all add: callback_of_def capability_of_def push_def)

lemma lane_volatile_of: "v_callback (volatile_of x s) = callback_of s" "v_capability (volatile_of x s) = capability_of s"
  by (simp_all add: volatile_of_def callback_of_def capability_of_def fresh_volatile_def split: option.split)

lemma lane_on_volatile:
  "(\<And>v. v_callback (f v) = v_callback v) \<Longrightarrow> callback_of (on_volatile f s) = callback_of s"
  "(\<And>v. v_capability (f v) = v_capability v) \<Longrightarrow> capability_of (on_volatile f s) = capability_of s"
  "(\<And>v. v_callback (f v) = v_callback v) \<Longrightarrow> callback_of (volatile_mut x f s) = callback_of s"
  "(\<And>v. v_capability (f v) = v_capability v) \<Longrightarrow> capability_of (volatile_mut x f s) = capability_of s"
  by (simp_all add: on_volatile_def volatile_mut_def lane_volatile_of)
    (simp_all add: callback_of_def capability_of_def option.map_comp bind_map_option comp_def split: option.split)

lemma lane_steps [simp]:
  "callback_of (respond_callback q s) = callback_of s" "capability_of (respond_callback q s) = capability_of s"
  "callback_of (release x h s) = callback_of s" "capability_of (release x h s) = capability_of s"
  "callback_of (release_all x s) = callback_of s" "capability_of (release_all x s) = capability_of s"
  "callback_of (log_core_error x e s) = callback_of s"
  "callback_of (set_connection x c s) = callback_of s" "capability_of (set_connection x c s) = capability_of s"
  "callback_of (set_phase x p s) = callback_of s" "capability_of (set_phase x p s) = capability_of s"
  "callback_of (clear_work s) = callback_of s" "capability_of (clear_work s) = capability_of s"
  "callback_of (revoke s) = callback_of s" "capability_of (revoke s) = None"
  by (simp_all add: respond_callback_def release_def release_all_def log_core_error_def log_value_def set_connection_def
      set_phase_def clear_work_def revoke_def lane_on_volatile split: option.split json.split durable.split)
    (auto simp: callback_of_def capability_of_def on_volatile_def split: option.split bind_splits)

lemma lane_wait [simp]:
  "callback_of (res_state (wait x lane rid task eff s)) = callback_of s"
  "capability_of (res_state (wait x lane rid task eff s)) = capability_of s"
  by (simp_all add: wait_def Let_def lane_volatile_of)

lemma lane_persist_phase [simp]:
  "callback_of (res_state (persist_phase x lane rid p q s)) = callback_of s"
  "capability_of (res_state (persist_phase x lane rid p q s)) = capability_of s"
  by (simp_all add: persist_phase_def Let_def respond_def split: option.split)

lemma lane_close [simp]:
  "callback_of (res_state (close x lane p q s)) = callback_of s"
  "\<not> volatile_is callback_executing s \<Longrightarrow> capability_of (res_state (close x lane p q s)) = None"
  by (simp_all add: close_def Let_def lane_on_volatile)

lemma executing_callback: "callback_of s = None \<Longrightarrow> \<not> volatile_is callback_executing s"
  by (auto simp: volatile_is_def callback_executing_def callback_of_def is_some_and_iff)

text \<open>A failed validation leaves neither a callback nor a capability.\<close>

lemma lane_fail_validation:
  "callback_of (res_state (fail_validation x q s)) = None"
  "capability_of (res_state (fail_validation x q s)) = None"
proof -
  define u where "u = (let s = respond_callback q s; cb = v_callback (volatile_of x s);
      s = volatile_mut x (\<lambda>v. v\<lparr>v_callback := None\<rparr>) s
    in case cb of None \<Rightarrow> s | Some cb \<Rightarrow> release x (callback_handle (cw_task cb)) s)"
  have cb: "callback_of u = None"
    by (auto simp: u_def Let_def volatile_mut_def split: option.split)
  define t where "t = u\<lparr>s_volatile := Some ((volatile_of x u)\<lparr>v_capability := None,
      v_revoked_validator := map_option pn_id (v_pending (volatile_of x u)), v_pending := None, v_work := None\<rparr>)\<rparr>"
  have t: "callback_of t = None" "capability_of t = None" by (simp_all add: t_def lane_volatile_of cb)
  have r: "res_state (fail_validation x q s) = t \<or>
      (\<exists>i. res_state (fail_validation x q s) = res_state (close x Client Failed (Some (error_reply (x_serde x) C_CheckRejected))
        (t\<lparr>s_request := i\<rparr>)))"
    unfolding fail_validation_def Let_def close_error_def u_def [unfolded Let_def, symmetric] t_def [symmetric]
    by (auto split: option.split)
  have e: "\<not> volatile_is callback_executing (t\<lparr>s_request := w\<rparr>)" for w
    using t(1) by (intro executing_callback) simp
  show "callback_of (res_state (fail_validation x q s)) = None"
    "capability_of (res_state (fail_validation x q s)) = None"
    using r t e by auto
qed

lemma Done_state: "r = Done t \<Longrightarrow> t = res_state r"
  by simp

text \<open>
  C37. No callback query reaches the database without its capability: a query is accepted on the
  callback lane only while the commit waits on its validator over an open connection, with a
  token of the right syntax whose hash is the capability's, before the capability and the
  transaction expire, under the snapshot of the transaction, and in sequence.
\<close>

theorem callback_needs_capability:
  assumes "callback_query x input s = Done t" and "callback_of s = None" and "callback_of t = Some cb"
  shows "\<exists>v cap token r at_ms. s_volatile s = Some v \<and> v_capability v = Some cap \<and> v_connection v = Conn_Open \<and>
    work_task_is is_validator (v_work v) \<and> field_text ''capability'' input = Some token \<and> token_syntax token \<and>
    x_sha x token = cp_token_hash cap \<and> now_ms x < cp_expires_at_ms cap \<and>
    record_of s = Some r \<and> r_snapshot r = snapshot_of x \<and> r_expires_at_ms r = Some at_ms \<and> now_ms x < at_ms \<and>
    cw_token_hash cb = cp_token_hash cap \<and>
    (\<exists>digest handle versions. cw_task cb = CbBinding (cp_next_sequence cap) digest handle versions)"
proof -
  have fv: "fail_validation x q u \<noteq> Done t" "fail_validation_code x c u \<noteq> Done t" for q c u
    using assms(3) lane_fail_validation(1) [of x q u] lane_fail_validation(1) [of x "error_reply (x_serde x) c" u]
    by (auto simp: fail_validation_code_def)
  obtain token body cap where tok: "field_text ''capability'' input = Some token" "field_text ''command'' input = Some body"
    and live: "capability_live None s = Some cap" and pres: "presented x token cap"
    using assms by (auto simp: callback_query_def respond_callback_error_def fv split: if_splits option.splits)
  obtain v where v: "s_volatile s = Some v" "v_capability v = Some cap" "v_connection v = Conn_Open"
    "work_task_is is_validator (v_work v)"
    using live by (auto simp: capability_live_def Let_def split: option.splits if_splits)
  obtain members sequence r where rec: "record_of s = Some r" "r_snapshot r = snapshot_of x"
      "\<not> is_none_or (\<lambda>deadline. now_ms x \<ge> deadline) (r_expires_at_ms r)"
    and ret: "callback_retry x body cap members sequence (r_binding r)
      (map_option (\<lambda>deadline. min deadline (cp_expires_at_ms cap)) (r_expires_at_ms r)) s = Done t"
    using assms tok live pres
    by (auto simp: callback_query_def respond_callback_error_def fv split: if_splits option.splits)
  obtain u where comp: "callback_compile x body cap members sequence (r_binding r)
      (map_option (\<lambda>deadline. min deadline (cp_expires_at_ms cap)) (r_expires_at_ms r)) u = Done t"
    and seq: "sequence = cp_next_sequence cap"
    using ret assms(2,3)
    by (auto simp: callback_retry_def Let_def fv split: if_splits option.splits prod.splits)
  show ?thesis
    using comp assms(3) tok v rec pres seq
    by (auto simp: callback_compile_def Let_def fv wait_callback_def presented_def same_hash_iff is_none_or_iff not_le
        split: if_splits option.splits prod.splits sum.splits)
qed

text \<open>A query with the token of the live capability, while its validator runs.\<close>

definition demo_validation :: string where
  "demo_validation = ''cval_'' @ drop 3 demo_owner"

definition demo_query :: json where
  "demo_query = JObject [(''kind'', JString ''callback''), (''validationId'', JString demo_validation),
     (''capability'', JString (take 43 demo_hash)), (''command'', JString ''q'')]"

definition demo_validating :: "unit st" where
  "demo_validating = \<lparr>s_compiler = (), s_durable = Some (Live (demo_record Validating)),
     s_volatile = Some ((demo_volatile (Validator demo_checks))\<lparr>v_capability := Some demo_capability\<rparr>),
     s_effects = [], s_reset = False, s_request = None, s_allocated = [], s_abandoned = False\<rparr>"

lemma demo_query_fields:
  "exact_object demo_query [''kind'', ''validationId'', ''capability'', ''command''] []"
  "field_text ''validationId'' demo_query = Some demo_validation"
  "field_text ''capability'' demo_query = Some (take 43 demo_hash)" "field_text ''command'' demo_query = Some ''q''"
  "strip_prefix ''cval_'' demo_validation = Some (drop 3 demo_owner)"
  "strip_prefix ''tx_'' demo_owner = Some (drop 3 demo_owner)" "token_syntax (take 43 demo_hash)"
  by code_simp+

lemma demo_capability_live:
  "capability_live None demo_validating = Some demo_capability" "record_of demo_validating = Some (demo_record Validating)"
  "\<not> volatile_is (\<lambda>v. is_some (v_callback v)) demo_validating" "r_binding (demo_record p) = demo_binding"
  by (simp_all add: capability_live_def demo_validating_def demo_volatile_def work_task_is_def is_validator_def record_of_def
      volatile_is_def demo_record_def)

lemma demo_parse_callback: "parse_callback (demo_ctx n) ''q'' =
    Some ([(''params'', ''{}''), (''sequence'', ''1''), (''sql'', [CHR 0x22, CHR 0x22])], 1)"
  by (simp add: parse_callback_def demo_serde_def btree_get_def sequence_value_def demo_parse_json sequence_number_def
      starts_with_def MAX_SAFE_INTEGER_def)

lemma demo_query_accepted:
  "\<exists>t cb. callback_query (demo_ctx 500) demo_query demo_validating = Done t \<and> callback_of demo_validating = None \<and>
     callback_of t = Some cb \<and> s_effects t = [CheckBinding 8 demo_binding (Some 900)]"
proof -
  have "callback_query (demo_ctx 500) demo_query demo_validating =
    callback_retry (demo_ctx 500) ''q'' demo_capability [(''params'', ''{}''), (''sequence'', ''1''), (''sql'', [CHR 0x22, CHR 0x22])]
      1 demo_binding (Some 900) demo_validating"
    by (simp add: callback_query_def demo_query_fields demo_capability_live demo_parse_callback presented_def same_hash_iff)
      (simp add: demo_ctx_def demo_capability_def)
  moreover have "compile_members (demo_ctx n) ''{}'' [(''params'', ''{}''), (''sequence'', ''1''), (''sql'', [CHR 0x22, CHR 0x22])] c =
      (Inr demo_compiled, c)" for n c by (simp add: compile_members_def btree_get_def demo_ctx_def demo_compiler_def)
  moreover have "callback_digest_of (demo_ctx n) ''q'' = Some demo_hash" for n
    by (simp add: callback_digest_of_def demo_parse_json callback_digest_def) (simp add: demo_ctx_def)
  ultimately show ?thesis
    by (simp add: callback_retry_def callback_compile_def demo_capability_def read_only_def demo_compiled_def Let_def
        wait_callback_def volatile_mut_def volatile_of_def demo_validating_def demo_volatile_def push_def callback_of_def
        MAX_SAFE_INTEGER_def demo_ctx_def demo_limits_def)
qed

lemma callback_needs_capability_witness:
  "\<exists>t cb. callback_query (demo_ctx 500) demo_query demo_validating = Done t \<and> callback_of t = Some cb \<and>
     cw_token_hash cb = demo_hash"
proof -
  obtain t cb where q: "callback_query (demo_ctx 500) demo_query demo_validating = Done t"
    "callback_of demo_validating = None" "callback_of t = Some cb" using demo_query_accepted by blast
  from callback_needs_capability [OF this] have "cw_token_hash cb = demo_hash"
    by (auto simp: demo_validating_def demo_capability_def)
  with q show ?thesis by blast
qed

text \<open>
  What the queries of one check return is bounded: whatever a database result leads to, a
  capability that is still live afterwards has returned no more rows than
  \<open>max_callback_rows\<close> and no more bytes than \<open>max_transaction_result_bytes\<close>.
\<close>

theorem callback_results_bounded:
  assumes "callback_executed x (Some cap) request sequence digest handle versions results s = Done t"
    and "capability_of t = Some cap'"
  shows "cp_rows cap' \<le> lim_max_callback_rows (x_limits x) \<and>
    cp_result_bytes cap' \<le> lim_max_transaction_result_bytes (x_limits x) \<and>
    cp_next_sequence cap' = wrap_add u64_max sequence 1 \<and> cp_last cap' \<noteq> None"
proof -
  have fv: "fail_validation x q u \<noteq> Done t" "fail_validation_code x c u \<noteq> Done t" for q c u
    using assms(2) lane_fail_validation(2) [of x q u] lane_fail_validation(2) [of x "error_reply (x_serde x) c" u]
    by (auto simp: fail_validation_code_def)
  show ?thesis
    using assms
    by (auto simp: callback_executed_def Let_def fv capability_of_def on_volatile_def respond_callback_def push_def
        split: list.splits option.splits sum.splits if_splits bind_splits)
qed

lemma demo_callback_executed:
  "\<exists>t cap. callback_executed (demo_ctx 500) (Some demo_capability) ''r1'' 1 demo_hash 3 demo_versions
     [\<lparr>dr_columns = [''a''], dr_rows = [[JNumber (PosInt 1)]], dr_rows_affected = 0, dr_usage = ct_usage counters_default\<rparr>]
     demo_validating = Done t \<and> capability_of t = Some cap"
  by (simp add: callback_executed_def codec_failure_def statement_budget_def callback_response_def redactions_of_def
      demo_ctx_def demo_compiler_def demo_limits_def demo_validated_def demo_serde_def demo_capability_def Let_def
      respond_callback_def push_def on_volatile_def release_def demo_validating_def demo_volatile_def capability_of_def
      rust_arith raw_of_def value_reply_def to_raw_def)

lemma callback_results_bounded_witness:
  "\<exists>t cap. callback_executed (demo_ctx 500) (Some demo_capability) ''r1'' 1 demo_hash 3 demo_versions
     [\<lparr>dr_columns = [''a''], dr_rows = [[JNumber (PosInt 1)]], dr_rows_affected = 0, dr_usage = ct_usage counters_default\<rparr>]
     demo_validating = Done t \<and> capability_of t = Some cap \<and> cp_rows cap \<le> 100"
proof -
  obtain t cap where e: "callback_executed (demo_ctx 500) (Some demo_capability) ''r1'' 1 demo_hash 3 demo_versions
     [\<lparr>dr_columns = [''a''], dr_rows = [[JNumber (PosInt 1)]], dr_rows_affected = 0, dr_usage = ct_usage counters_default\<rparr>]
     demo_validating = Done t" "capability_of t = Some cap" using demo_callback_executed by blast
  from callback_results_bounded [OF this] have "cp_rows cap \<le> 100" by (simp add: demo_ctx_def demo_limits_def)
  with e show ?thesis by blast
qed

text \<open>
  A denied check ends the transaction: unless a callback query holds the connection (the
  verdict then waits for it), the open connection is rolled back, no capability is left, and
  the waiting commit will be answered \<open>POLICYSQL_COMMIT_CHECK_REJECTED\<close> with the record
  \<open>failed\<close>.
\<close>

theorem denied_check_rolls_back:
  assumes "s_volatile s = Some v" and "v_connection v = Conn_Open" and "\<not> callback_executing v"
    and "v_next_effect_id v < MAX_SAFE_INTEGER"
  shows "\<exists>t w. verdict_arrived x Client rid checks False s = Done t \<and> s_volatile t = Some w \<and>
    s_effects t = s_effects s @ [Rollback (v_next_effect_id v)] \<and> s_durable t = s_durable s \<and>
    v_capability w = None \<and> v_connection w = Closing \<and> v_handles w = [] \<and>
    v_pending w = Some \<lparr>pn_id = v_next_effect_id v, pn_effect = Aw_Rollback\<rparr> \<and>
    v_work w = Some \<lparr>wk_lane = Client, wk_request_id = Some (unwrap_or (request_id x) rid),
      wk_task = CloseRollback Failed (Some (error_reply (x_serde x) C_CheckRejected))\<rparr>"
  using assms
  by (simp add: verdict_arrived_def verdict_def close_error_def close_def Let_def on_volatile_def volatile_is_def
      callback_executing_def revoke_def release_all_def connection_of_def set_connection_def volatile_mut_def
      volatile_of_def wait_def push_def)

lemma denied_check_rolls_back_witness:
  "\<exists>t. verdict_arrived (demo_ctx 500) Client (Some ''r1'') demo_checks False demo_validating = Done t \<and>
     s_effects t = [Rollback 8]"
proof -
  have "s_volatile demo_validating = Some ((demo_volatile (Validator demo_checks))\<lparr>v_capability := Some demo_capability\<rparr>)"
    "\<not> callback_executing ((demo_volatile (Validator demo_checks))\<lparr>v_capability := Some demo_capability\<rparr>)"
    by (simp_all add: demo_validating_def callback_executing_def demo_volatile_def)
  from denied_check_rolls_back [OF this(1) _ this(2), of "demo_ctx 500" "Some ''r1''" demo_checks] show ?thesis
    by (auto simp: demo_validating_def demo_volatile_def MAX_SAFE_INTEGER_def)
qed

end
