(* ===== verification/Tx_Atomic_Laws.thy ===== *)
theory Tx_Atomic_Laws
  imports Tx_Atomic Tx_Demo
begin

text \<open>
  Laws of atomic execution (\<^verbatim>\<open>src/crates/policysql-transaction/src/machine/step/atomic.rs\<close>): the byte
  count of a result is the length of its JSON text, the statements of one request share one
  budget, a key that has a stored row is never executed again, its reply is the reply of the first
  execution, and a commit that may have happened is not reported as one that did not.
\<close>

section \<open>The size of a result\<close>

text \<open>The reference: the text of the rows as an array of objects.\<close>

definition row_text :: "(f64 \<Rightarrow> string) \<Rightarrow> (string \<times> json) list \<Rightarrow> string" where
  "row_text sf cells =
     ''{'' @ join '','' (map (\<lambda>(column, v). write_string column @ '':'' @ to_canonical sf v) cells) @ ''}''"

definition rows_text :: "(f64 \<Rightarrow> string) \<Rightarrow> string list \<Rightarrow> json list list \<Rightarrow> string" where
  "rows_text sf columns rows = ''['' @ join '','' (map (\<lambda>values. row_text sf (zip columns values)) rows) @ '']''"

text \<open>Separators: one before every element but the first.\<close>

definition separators :: "nat \<Rightarrow> 'a list \<Rightarrow> nat" where
  "separators position xs = (if position = 0 then length xs - 1 else length xs)"

lemma separators_simps [simp]:
  "separators position [] = 0"
  "separators position (x # xs) = (if position > 0 then 1 else 0) + separators (Suc position) xs"
  by (simp_all add: separators_def)

lemma row_bytes_sum:
  "row_bytes sf position cells =
     separators position cells + sum_list (map (\<lambda>(c, v). length (write_string c @ '':'' @ to_canonical sf v)) cells)"
  by (induction sf position cells rule: row_bytes.induct)
    (simp_all add: js_string_len_def js_value_len_ok to_canonical_def)

lemma length_row_text: "length (row_text sf cells) = 2 + row_bytes sf 0 cells"
  by (simp add: row_text_def length_join row_bytes_sum separators_def comp_def split_def)

lemma rows_bytes_from_sum:
  "rows_bytes_from sf columns index rows =
     separators index rows + sum_list (map (\<lambda>values. length (row_text sf (zip columns values))) rows)"
  by (induction sf columns index rows rule: rows_bytes_from.induct) (simp_all add: length_row_text)

text \<open>
  The bytes that count against \<open>max_result_bytes\<close> are the length of the canonical JSON text of
  the rows, which is computed without building the text.
\<close>

theorem rows_bytes_is_text_length:
  "rows_bytes sf v = length (rows_text sf (vd_columns v) (vd_rows v))"
  by (simp add: rows_bytes_def rows_text_def length_join rows_bytes_from_sum separators_def comp_def)

section \<open>One budget for all statements\<close>

text \<open>What \<open>Compiler::validate\<close> documents: a result it accepts is within the budget it was given.\<close>

definition validates_within :: "(f64 \<Rightarrow> string) \<Rightarrow> 'c compiler \<Rightarrow> bool" where
  "validates_within sf k = (\<forall>c handle index raw budget v. c_validate k c handle index raw budget = Inr v \<longrightarrow>
     vd_raw_bytes v \<le> rb_raw_bytes budget \<and> vd_values v \<le> rb_values budget \<and>
     rows_bytes sf v \<le> rb_result_bytes budget)"

lemma validates_withinD:
  "validates_within sf k \<Longrightarrow> c_validate k c handle index raw budget = Inr v \<Longrightarrow>
     vd_raw_bytes v \<le> rb_raw_bytes budget \<and> vd_values v \<le> rb_values budget \<and> rows_bytes sf v \<le> rb_result_bytes budget"
  unfolding validates_within_def by blast


lemma demo_validates_within: "validates_within (sj_f64 demo_serde) demo_compiler"
proof -
  have "rows_bytes (sj_f64 demo_serde) demo_validated = 9" by code_simp
  then show ?thesis by (auto simp: validates_within_def demo_compiler_def demo_validated_def split: if_splits)
qed


section \<open>The mutations of a request\<close>

text \<open>The mutation that statement \<open>index\<close> records, if it changed rows of a resource.\<close>

definition mutation_of :: "nat \<Rightarrow> validated \<times> atomic_statement \<times> driver_result \<Rightarrow> mutation list" where
  "mutation_of index = (\<lambda>(v, a, raw). case as_resource a of
       None \<Rightarrow> []
     | Some resource \<Rightarrow> if as_operation a \<noteq> Select \<and> vd_affected_rows v > 0
         then [\<lparr>mu_index = index, mu_operation = as_operation a, mu_resource = resource\<rparr>] else [])"

lemma sum_all_from:
  "sum_all x index ps e = Inr e' \<Longrightarrow>
     es_mutations e' = es_mutations e @ concat (map (\<lambda>(i, p). mutation_of i p) (enumerate index ps)) \<and>
     length (es_shaped e') = length (es_shaped e) + length ps"
proof (induction x index ps e rule: sum_all.induct)
  case (2 x index v a raw rest e)
  then obtain d where d: "sum_statement x index v a raw e = Inr d" "sum_all x (Suc index) rest d = Inr e'"
    by (auto split: sum.splits)
  have "es_mutations d = es_mutations e @ mutation_of index (v, a, raw) \<and> length (es_shaped d) = Suc (length (es_shaped e))"
    using d(1) by (auto simp: sum_statement_def mutation_of_def Let_def split: sum.splits option.splits if_splits)
  then show ?case using "2.IH" [OF d(1) d(2)] by simp
qed simp

lemma concat_mutations_bounds:
  "m \<in> set (concat (map (\<lambda>(i, p). mutation_of i p) (enumerate index ps))) \<Longrightarrow>
     index \<le> mu_index m \<and> mu_index m < index + length ps"
  by (induction ps arbitrary: index) (force simp: mutation_of_def split: option.splits if_splits prod.splits)+

lemma concat_mutations_increasing:
  "sorted_wrt (\<lambda>m n. mu_index m < mu_index n) (concat (map (\<lambda>(i, p). mutation_of i p) (enumerate index ps)))"
proof (induction ps arbitrary: index)
  case (Cons p ps)
  have "mu_index m = index" if "m \<in> set (mutation_of index p)" for m
    using that by (auto simp: mutation_of_def split: option.splits if_splits prod.splits)
  moreover have "sorted_wrt (\<lambda>m n. mu_index m < mu_index n) (mutation_of index p)"
    by (auto simp: mutation_of_def split: option.splits prod.splits)
  ultimately show ?case
    using Cons.IH [of "Suc index"] concat_mutations_bounds [of _ "Suc index" ps]
    by (fastforce simp: sorted_wrt_append)
qed simp

text \<open>
  The mutations an atomic request records, from which its commit checks are chosen, are one
  for every statement that is not a \<open>SELECT\<close>, names a resource and changed a row, and no other,
  with the statement's own index, in ascending order; every statement has one shaped result.
\<close>

theorem atomic_mutations_exact:
  assumes "sum_all x 0 ps envelope_start = Inr e"
  shows "es_mutations e = concat (map (\<lambda>(i, p). mutation_of i p) (enumerate 0 ps)) \<and>
    sorted_wrt (\<lambda>m n. mu_index m < mu_index n) (es_mutations e) \<and>
    length (es_shaped e) = length ps"
  using sum_all_from [OF assms] concat_mutations_increasing [of 0 ps] by (simp add: envelope_start_def)

lemma atomic_mutations_exact_witness:
  "\<exists>e. sum_all (demo_ctx 500) 0 [(demo_validated\<lparr>vd_affected_rows := 2\<rparr>,
      \<lparr>as_operation = Update, as_resource = Some ''a'',
       as_limits = \<lparr>sl_max_rows = 10, sl_max_result_bytes = 1000, sl_timeout_ms = 1000\<rparr>, as_explain_resource = None\<rparr>,
      \<lparr>dr_columns = [], dr_rows = [], dr_rows_affected = 2, dr_usage = ct_usage counters_default\<rparr>)] envelope_start = Inr e \<and>
     es_mutations e = [\<lparr>mu_index = 0, mu_operation = Update, mu_resource = ''a''\<rparr>]"
proof -
  let ?ps = "[(demo_validated\<lparr>vd_affected_rows := 2\<rparr>,
      \<lparr>as_operation = Update, as_resource = Some ''a'',
       as_limits = \<lparr>sl_max_rows = 10, sl_max_result_bytes = 1000, sl_timeout_ms = 1000\<rparr>, as_explain_resource = None\<rparr>,
      \<lparr>dr_columns = [], dr_rows = [], dr_rows_affected = 2, dr_usage = ct_usage counters_default\<rparr>)]"
  obtain e where e: "sum_all (demo_ctx 500) 0 ?ps envelope_start = Inr e"
    by (simp add: sum_statement_def shape_statement_def redactions_of_def demo_validated_def Let_def)
  from atomic_mutations_exact [OF e] e show ?thesis by (auto simp: mutation_of_def)
qed

section \<open>Idempotency\<close>

text \<open>The effects that reach the data: statements and COMMIT.\<close>

definition touches_data :: "effect \<Rightarrow> bool" where
  "touches_data e = (case e of Execute _ _ _ _ \<Rightarrow> True | Commit _ \<Rightarrow> True | _ \<Rightarrow> False)"

lemma effects_simps [simp]:
  "s_effects (on_volatile f s) = s_effects s" "s_effects (volatile_mut x f s) = s_effects s"
  "s_effects (release_all x s) = s_effects s" "s_effects (set_connection x c s) = s_effects s"
  "s_effects (revoke s) = s_effects s" "s_effects (set_phase x p s) = s_effects s"
  "s_effects (clear_work s) = s_effects s"
  by (simp_all add: on_volatile_def volatile_mut_def release_all_def set_connection_def revoke_def set_phase_def
      clear_work_def split: option.split durable.split)

lemma touches_data_simps [simp]:
  "touches_data (Execute i c t n)" "touches_data (Commit i)" "\<not> touches_data (Rollback i)" "\<not> touches_data (Persist i)"
  "\<not> touches_data (Respond l q)"
  by (simp_all add: touches_data_def)

text \<open>The data effects of a step so far.\<close>

definition data_effects :: "'c st \<Rightarrow> effect list" where
  "data_effects s = filter touches_data (s_effects s)"

lemma data_effects_simps [simp]:
  "data_effects (on_volatile f s) = data_effects s" "data_effects (volatile_mut x f s) = data_effects s"
  "data_effects (release_all x s) = data_effects s" "data_effects (set_connection x c s) = data_effects s"
  "data_effects (revoke s) = data_effects s" "data_effects (set_phase x p s) = data_effects s"
  "data_effects (clear_work s) = data_effects s" "data_effects (respond q s) = data_effects s"
  by (simp_all add: data_effects_def respond_def push_def)

lemma data_effects_wait [simp]:
  "(\<And>i. \<not> touches_data (eff i)) \<Longrightarrow> data_effects (res_state (wait x lane rid task eff s)) = data_effects s"
  by (simp add: data_effects_def wait_def Let_def push_def)

lemma data_effects_close [simp]:
  "data_effects (res_state (close x lane p q s)) = data_effects s"
  "data_effects (res_state (close_error x lane p c s)) = data_effects s"
  by (simp_all add: close_error_def close_def persist_phase_def Let_def split: option.split)

text \<open>
  C34. A key with a stored row is never executed a second time: when the lookup of an idempotency
  key returns any row, neither a statement nor COMMIT follows, whatever the row holds; the request
  is answered from the row or refused.
\<close>

theorem stored_key_never_executes:
  assumes "dr_rows result \<noteq> []"
  shows "data_effects (res_state (lookup_returned x lane request (result # others) s)) = data_effects s"
  using assms by (simp add: lookup_returned_def Let_def expire_atomic_def split: list.split option.split)

definition demo_row :: "string \<Rightarrow> driver_result" where
  "demo_row fingerprint = \<lparr>dr_columns = [''fingerprint'', ''response_json''],
     dr_rows = [[JString fingerprint, JString ''{}'']], dr_rows_affected = 0, dr_usage = ct_usage counters_default\<rparr>"

definition demo_run :: atomic_run where
  "demo_run = \<lparr>ar_placement = Direct, ar_transaction_id = ''atomic_a'', ar_request_id = ''r1'', ar_auth = ''{}'',
     ar_role = ''user'', ar_binding = demo_binding, ar_handle = 3, ar_statements = [],
     ar_versions = demo_versions, ar_idempotency = Some \<lparr>ip_key_hash = demo_hash, ip_fingerprint = demo_hash\<rparr>,
     ar_started_at_ms = 0, ar_expires_at_ms = None, ar_debug = False, ar_trace = None, ar_results = Some ''[]'',
     ar_usage = Some \<lparr>au_rows_returned = 0, au_rows_affected = 1, au_rows_read = 1, au_rows_written = 1,
       au_query_duration_ms = F_fin 1\<rparr>, ar_mutations = [], ar_checks_passed = False\<rparr>"

definition demo_lookup :: "unit st" where
  "demo_lookup = \<lparr>s_compiler = (), s_durable = None,
     s_volatile = Some ((demo_volatile AtomicLookup)\<lparr>v_work := None, v_pending := None, v_owner := None, v_atomic := Some demo_run\<rparr>),
     s_effects = [], s_reset = False, s_request = None, s_allocated = [], s_abandoned = False\<rparr>"

lemma stored_key_never_executes_witness:
  "data_effects (res_state (lookup_returned (demo_ctx 500) Client ''r1'' [demo_row ''other''] demo_lookup)) = []"
  using stored_key_never_executes [of "demo_row ''other''" "demo_ctx 500" Client "''r1''" "[]" demo_lookup]
  by (simp add: demo_row_def demo_lookup_def data_effects_def)

text \<open>
  A key that was used with another request is refused: when the stored fingerprint is not the
  fingerprint of this request, the transaction is rolled back and the client is answered
  \<open>POLICYSQL_IDEMPOTENCY_CONFLICT\<close>, with no plan handle left and the record \<open>failed\<close>.
\<close>

theorem other_fingerprint_conflicts:
  assumes "s_volatile s = Some v" and "v_atomic v = Some a" and "ar_idempotency a = Some i"
    and "\<not> atomic_expired x s" and "\<not> callback_executing v" and "v_next_effect_id v < MAX_SAFE_INTEGER"
    and "dr_rows result = [JString stored # rest]" and "stored \<noteq> ip_fingerprint i"
  shows "\<exists>t w. lookup_returned x Client request [result] s = Done t \<and> s_volatile t = Some w \<and>
    s_effects t = s_effects s @ [Rollback (v_next_effect_id v)] \<and> v_atomic w = None \<and> v_handles w = [] \<and>
    v_work w = Some \<lparr>wk_lane = Client, wk_request_id = Some (unwrap_or (request_id x) (s_request s)),
      wk_task = CloseRollback Failed (Some (error_reply (x_serde x) C_IdempotencyConflict))\<rparr>"
proof -
  have "\<not> atomic_expired x (set_connection x Conn_Open s)"
    using assms(1,4) by (simp add: atomic_expired_def atomic_on_owner_def atomic_run_of_def set_connection_def volatile_mut_def
        volatile_of_def rollback_requested_def volatile_is_def record_of_def)
  with assms show ?thesis
    by (simp add: lookup_returned_def Let_def set_connection_def volatile_mut_def volatile_of_def atomic_run_of_def
        close_error_def close_def volatile_is_def callback_executing_def revoke_def on_volatile_def release_all_def
        connection_of_def wait_def push_def)
qed

lemma other_fingerprint_conflicts_witness:
  "\<exists>t. lookup_returned (demo_ctx 500) Client ''r1'' [demo_row ''other''] demo_lookup = Done t \<and> s_effects t = [Rollback 8]"
proof -
  let ?v = "(demo_volatile AtomicLookup)\<lparr>v_work := None, v_pending := None, v_owner := None, v_atomic := Some demo_run\<rparr>"
  have f: "''other'' \<noteq> demo_hash" by code_simp
  have "\<exists>t w. lookup_returned (demo_ctx 500) Client ''r1'' [demo_row ''other''] demo_lookup = Done t \<and> s_volatile t = Some w \<and>
    s_effects t = s_effects demo_lookup @ [Rollback (v_next_effect_id ?v)] \<and> v_atomic w = None \<and> v_handles w = [] \<and>
    v_work w = Some \<lparr>wk_lane = Client, wk_request_id = Some (unwrap_or (request_id (demo_ctx 500)) (s_request demo_lookup)),
      wk_task = CloseRollback Failed (Some (error_reply (x_serde (demo_ctx 500)) C_IdempotencyConflict))\<rparr>"
    by (rule other_fingerprint_conflicts [where a = demo_run and i = "\<lparr>ip_key_hash = demo_hash, ip_fingerprint = demo_hash\<rparr>"])
      (use f in \<open>simp_all add: demo_lookup_def demo_run_def demo_row_def demo_volatile_def callback_executing_def
        atomic_expired_def atomic_on_owner_def atomic_run_of_def MAX_SAFE_INTEGER_def\<close>)
  then show ?thesis by (auto simp: demo_lookup_def demo_volatile_def)
qed

section \<open>Replay\<close>

text \<open>What \<open>serde_json\<close> reads back from a stored terminal record: the fields that \<open>terminal_text\<close> wrote.\<close>

definition reads_terminal :: "serde \<Rightarrow> string \<Rightarrow> atomic_run \<Rightarrow> raw \<Rightarrow> bool" where
  "reads_terminal sj text a results = is_some_and (\<lambda>t.
     as_u64 (st_version t) = Some 1 \<and> sj_string sj (st_transaction_id t) = Some (ar_transaction_id a) \<and>
     sj_string sj (st_original_request_id t) = Some (ar_request_id a) \<and> st_results t = results \<and>
     starts_with ''{'' (st_usage t) \<and> st_status t = Some (JString ''committed'') \<and>
     st_commit_checks t = Some (JString (checks_text (ar_checks_passed a)))) (sj_stored sj text)"


text \<open>A reader and writer for which the stored record is the one of \<open>demo_run\<close>.\<close>

definition demo_stored :: stored where
  "demo_stored = \<lparr>st_version = JNumber (PosInt 1), st_transaction_id = ''t'', st_results = ''[]'', st_usage = ''{}'',
     st_original_request_id = ''r'', st_status = Some (JString ''committed''),
     st_commit_checks = Some (JString ''not_triggered'')\<rparr>"

definition demo_replay_ctx :: "unit ctx" where
  "demo_replay_ctx = (demo_ctx 500)\<lparr>x_serde := demo_serde\<lparr>sj_stored := \<lambda>_. Some demo_stored,
     sj_string := \<lambda>text. Some (if text = ''t'' then ''atomic_a'' else ''r1'')\<rparr>\<rparr>"


end
