(* ===== verification/Tx_Command_Laws.thy ===== *)
theory Tx_Command_Laws
  imports Tx_Run Tx_Demo
begin

text \<open>
  Laws of the interactive commands (\<^verbatim>\<open>src/crates/policysql-transaction/src/machine/step.rs\<close>): an exact
  retry is answered from the record, a caller who is not the transaction's own changes nothing, a
  commit of unknown outcome stays unknown, and, as sequences of steps, a commit whose effects
  succeed is answered \<open>committed\<close> and a transaction whose deadline passes ends \<open>expired\<close>.
\<close>

section \<open>Commands\<close>

lemma respond_simps [simp]:
  "s_durable (respond q s) = s_durable s" "s_volatile (respond q s) = s_volatile s"
  "s_effects (respond q s) = s_effects s @ [Respond Lane_Client q]" "s_compiler (respond q s) = s_compiler s"
  by (simp_all add: respond_def push_def)


text \<open>A command that repeats the last one, on a record that has one.\<close>

definition demo_auth :: json where
  "demo_auth = JObject [(''principal'', JString ''p''), (''subject'', JString ''u1''), (''role'', JString ''user''),
     (''session'', JObject [])]"

definition demo_binding_json :: json where
  "demo_binding_json = JObject [(''version'', JNumber (PosInt 1)), (''scope'', JString ''s''),
     (''databaseId'', JString ''d''), (''generation'', JString ''g''), (''snapshot'', JString ''v1'')]"

definition demo_command :: "nat \<Rightarrow> tx_command" where
  "demo_command n = \<lparr>cm_kind = Commit_cmd, cm_auth = demo_auth, cm_binding = Some demo_binding,
     cm_binding_json = demo_binding_json, cm_snapshot = ''v1'', cm_text = ''{}'', cm_members = [(''sequence'', ''1'')],
     cm_sequence = Some n\<rparr>"

definition demo_input :: json where
  "demo_input = JObject [(''transactionId'', JString demo_owner)]"

definition demo_idle :: "tx_record \<Rightarrow> unit st" where
  "demo_idle r = \<lparr>s_compiler = (), s_durable = Some (Live r), s_volatile = None, s_effects = [], s_reset = False,
     s_request = None, s_allocated = [], s_abandoned = False\<rparr>"

lemma demo_replay_identity:
  "replay_identity (x_sha (demo_ctx n)) (sj_f64 demo_serde) demo_auth demo_binding_json = Inr demo_hash"
proof -
  have "\<not> isl (auth_read (Some demo_auth))" "id_binding (Some demo_binding_json) = Inr demo_binding_json"
    "\<not> isl (without_snapshot demo_binding_json)" by code_simp+
  then show ?thesis by (auto simp: replay_identity_def demo_ctx_def split: sum.split)
qed

lemma demo_digest: "digest_of (demo_ctx n) (demo_command k) = Some demo_hash"
  by (simp add: digest_of_def demo_parse_json command_digest_def) (simp add: demo_ctx_def)

lemma demo_input_owner [simp]: "field_text ''transactionId'' demo_input = Some demo_owner"
  by (simp add: field_text_def demo_input_def)


text \<open>
  C32. A command that is not the transaction's own changes nothing: when it names another
  transaction, comes with an unreadable binding, or its session's replay identity is not the
  record's, the only effect is the reply \<open>POLICYSQL_TRANSACTION_UNAVAILABLE\<close>; the record, the
  volatile part and the compiler's handles stay as they were.
\<close>

theorem stranger_changes_nothing:
  assumes "s_durable s = Some (Live r)"
    and "field_text ''transactionId'' input \<noteq> Some (x_owner x) \<or> r_kind r = Atomic \<or> cm_binding c = None \<or>
      replay_identity (x_sha x) (sj_f64 (x_serde x)) (cm_auth c) (cm_binding_json c) \<noteq> Inr (idn_replay (r_identity r))"
  shows "\<exists>t. command_parsed x c input s = Done t \<and> s_durable t = s_durable s \<and> s_volatile t = s_volatile s \<and>
    s_compiler t = s_compiler s \<and>
    s_effects t = s_effects s @ [Respond Lane_Client (error_reply (x_serde x) C_Unavailable)]"
  using assms
  by (auto simp: command_parsed_def command_owned_def Let_def respond_error_def split: option.split kind.splits)

lemma stranger_changes_nothing_witness:
  "\<exists>t. command_parsed (demo_ctx 500) (demo_command 1) (JObject []) (demo_idle (demo_record Active)) = Done t \<and>
     s_effects t = [Respond Lane_Client (error_reply demo_serde C_Unavailable)]"
  using stranger_changes_nothing [of "demo_idle (demo_record Active)" "demo_record Active" "JObject []" "demo_ctx 500" "demo_command 1"]
  by (auto simp: demo_idle_def field_text_def)



section \<open>Sequences of steps\<close>

text \<open>The state the next step starts from, when the texts of this step are stored and read back.\<close>

definition resume :: "'c st \<Rightarrow> 'c st" where
  "resume s = (init_st (s_compiler s))\<lparr>s_durable := s_durable s, s_volatile := s_volatile s\<rparr>"

lemma resume_simps [simp]:
  "s_durable (resume s) = s_durable s" "s_volatile (resume s) = s_volatile s" "s_effects (resume s) = []"
  "record_of (resume s) = record_of s"
  by (simp_all add: resume_def init_st_def record_of_def)

text \<open>A state that waits for effect \<open>i\<close> of kind \<open>a\<close> in client task \<open>task\<close>.\<close>

definition waits :: "nat \<Rightarrow> work_lane \<Rightarrow> string option \<Rightarrow> task \<Rightarrow> 'c st \<Rightarrow> bool" where
  "waits i lane rid task s = is_some_and (\<lambda>v. v_pending v = Some \<lparr>pn_id = i, pn_effect = awaited_by task\<rparr> \<and>
     v_work v = Some \<lparr>wk_lane = lane, wk_request_id = rid, wk_task = task\<rparr> \<and>
     \<not> v_rollback_requested v) (s_volatile s)"

lemma waitsE:
  assumes "waits i lane rid task s"
  obtains v where "s_volatile s = Some v" "v_pending v = Some \<lparr>pn_id = i, pn_effect = awaited_by task\<rparr>"
    "v_work v = Some \<lparr>wk_lane = lane, wk_request_id = rid, wk_task = task\<rparr>" "\<not> v_rollback_requested v"
  using assms unfolding waits_def is_some_and_iff by blast

text \<open>What the machine sees when the awaited effect is answered.\<close>

definition taken :: "string option \<Rightarrow> 'c st \<Rightarrow> 'c st" where
  "taken rid s = (on_volatile (\<lambda>v. v\<lparr>v_pending := None, v_work := None\<rparr>) s)\<lparr>s_request := rid\<rparr>"

lemma dispatch_outcome: "outcome_id event \<noteq> None \<Longrightarrow> dispatch x event s = outcome x event s"
  by (cases event) (simp_all add: dispatch_def)

lemma dispatch_waiting:
  assumes "waits i lane rid task s" and "outcome_id event = Some i" and "answers event = Some (awaited_by task)"
    and "\<not> is_atomic_task task"
  shows "dispatch x event s = map_res drop_finished_work (consume x lane rid task event (taken rid s))"
  using assms(1)
proof (rule waitsE)
  fix v assume "s_volatile s = Some v" "v_pending v = Some \<lparr>pn_id = i, pn_effect = awaited_by task\<rparr>"
    "v_work v = Some \<lparr>wk_lane = lane, wk_request_id = rid, wk_task = task\<rparr>"
  then show ?thesis
    using assms(2-4) by (simp add: dispatch_outcome outcome_def pending_is_def taken_def on_volatile_def)
qed

lemmas step_defs = is_atomic_task_def consume_def taken_def on_volatile_def record_of_def rollback_requested_def
  volatile_is_def wait_def volatile_of_def Let_def set_phase_def push_def drop_finished_work_def waits_def

lemma step_commit_bound:
  assumes "waits i Client rid (CommitBinding n d None passed) s" and "s_durable s = Some (Live r)"
    and "r_snapshot r = snapshot_of x" and "r_expires_at_ms r = Some deadline" and "now_ms x < deadline"
    and "s_volatile s = Some v" and "v_next_effect_id v < MAX_SAFE_INTEGER"
  shows "\<exists>t w. dispatch x (Ev_BindingChecked i True) s = Done t \<and> s_durable t = Some (Live (r\<lparr>r_phase := Committing\<rparr>)) \<and>
    s_effects t = s_effects s @ [Persist (v_next_effect_id v)] \<and> s_volatile t = Some w \<and>
    v_next_effect_id w = v_next_effect_id v + 1 \<and> v_connection w = v_connection v \<and>
    waits (v_next_effect_id v) Client rid (CommitPersist n d passed) t"
proof -
  have r: "r\<lparr>r_phase := Committing, r_expires_at_ms := Some deadline\<rparr> = r\<lparr>r_phase := Committing\<rparr>"
    using assms(4) by simp
  show ?thesis
    using assms(1)
  proof (rule waitsE)
    fix u assume u: "s_volatile s = Some u" "\<not> v_rollback_requested u"
      "v_pending u = Some \<lparr>pn_id = i, pn_effect = awaited_by (CommitBinding n d None passed)\<rparr>"
    then show ?thesis
      using assms r
      by (simp add: dispatch_waiting [OF assms(1)] commit_bound_def recheck_def step_defs)
  qed
qed

lemma step_commit_persisted:
  assumes "waits i Client rid (CommitPersist n d passed) s" and "s_durable s = Some (Live r)"
    and "r_expires_at_ms r = Some deadline" and "now_ms x < deadline"
    and "s_volatile s = Some v" and "v_next_effect_id v < MAX_SAFE_INTEGER"
  shows "\<exists>t w. dispatch x (Ev_Persisted i) s = Done t \<and> s_durable t = s_durable s \<and>
    s_effects t = s_effects s @ [Commit (v_next_effect_id v)] \<and> s_volatile t = Some w \<and>
    v_next_effect_id w = v_next_effect_id v + 1 \<and> v_connection w = Closing \<and>
    waits (v_next_effect_id v) Client rid (CommitSend n d passed) t"
  using assms(1)
proof (rule waitsE)
  fix u assume u: "s_volatile s = Some u" "\<not> v_rollback_requested u"
    "v_pending u = Some \<lparr>pn_id = i, pn_effect = awaited_by (CommitPersist n d passed)\<rparr>"
  then show ?thesis
    using assms
    by (simp add: dispatch_waiting [OF assms(1)] commit_persisted_def set_connection_def volatile_mut_def step_defs)
qed

definition terminal_reply :: "'c ctx \<Rightarrow> string \<Rightarrow> string option \<Rightarrow> bool \<Rightarrow> raw" where
  "terminal_reply x status rid passed =
     value_reply (x_serde x) (terminal_response x (x_owner x) status (unwrap_or (request_id x) rid) passed)"

lemma step_committed:
  assumes "waits i Client rid (CommitSend n d passed) s" and "s_durable s = Some (Live r)"
    and "r_next_sequence r < MAX_SAFE_INTEGER" and "s_volatile s = Some v" and "v_next_effect_id v < MAX_SAFE_INTEGER"
  shows "\<exists>t w r' logs failed_logs. dispatch x (Ev_Committed i) s = Done t \<and> s_durable t = Some (Live r') \<and> r_phase r' = Committed \<and>
    r_next_sequence r' = r_next_sequence r + 1 \<and> s_volatile t = Some w \<and> v_connection w = Conn_None \<and>
    waits (v_next_effect_id v) Client (Some (unwrap_or (request_id x) rid))
      (Reply (Some (terminal_reply x ''committed'' rid passed)) (Some (terminal_reply x ''committed'' rid passed))
        logs failed_logs False None) t"
  using assms(1)
proof (rule waitsE)
  fix u assume u: "s_volatile s = Some u" "\<not> v_rollback_requested u"
    "v_pending u = Some \<lparr>pn_id = i, pn_effect = awaited_by (CommitSend n d passed)\<rparr>"
  have "checked_add u64_max (r_next_sequence r) 1 = Some (r_next_sequence r + 1)"
    using assms(3) by (simp add: rust_arith MAX_SAFE_INTEGER_def)
  then show ?thesis
    using assms u
    by (simp add: dispatch_waiting [OF assms(1)] committed_def complete_command_def set_connection_def volatile_mut_def
        terminal_reply_def step_defs)
qed

lemma step_reply:
  assumes "waits i Client rid (Reply (Some reply) failure logs failed_logs False restore) s"
  shows "\<exists>t w. dispatch x (Ev_Persisted i) s = Done t \<and> s_durable t = s_durable s \<and>
    s_effects t = s_effects s @ map Log logs @ [Respond Lane_Client reply] \<and>
    s_volatile t = Some w \<and> v_connection w = connection_of s \<and> v_work w = None \<and> v_pending w = None"
  using assms
proof (rule waitsE)
  fix u assume u: "s_volatile s = Some u"
    "v_pending u = Some \<lparr>pn_id = i, pn_effect = awaited_by (Reply (Some reply) failure logs failed_logs False restore)\<rparr>"
  then show ?thesis
    by (simp add: dispatch_waiting [OF assms] reply_persisted_def push_logs_def respond_opt_def respond_def connection_of_def
        step_defs)
qed

text \<open>
  C9. A commit whose effects succeed ends committed: with no check left to run and the deadline in
  the future when the binding is checked and when the \<open>committing\<close> record is stored, the four
  steps that follow the outcomes of the binding check, the first write, COMMIT and the second
  write all succeed; COMMIT is sent exactly in the second, and the last one answers the client
  \<open>committed\<close> from a \<open>committed\<close> record with no connection left.
\<close>

theorem commit_completes:
  assumes "waits i Client rid (CommitBinding n d None passed) s" and "s_durable s = Some (Live r)"
    and "s_volatile s = Some v" and "r_snapshot r = snapshot_of x1" and "r_expires_at_ms r = Some deadline"
    and "now_ms x1 < deadline" and "now_ms x2 < deadline" and "r_next_sequence r < MAX_SAFE_INTEGER"
    and "v_next_effect_id v + 2 < MAX_SAFE_INTEGER"
  shows "\<exists>s1 s2 s3 s4. dispatch x1 (Ev_BindingChecked i True) s = Done s1 \<and>
    dispatch x2 (Ev_Persisted (v_next_effect_id v)) (resume s1) = Done s2 \<and>
    dispatch x3 (Ev_Committed (v_next_effect_id v + 1)) (resume s2) = Done s3 \<and>
    dispatch x4 (Ev_Persisted (v_next_effect_id v + 2)) (resume s3) = Done s4 \<and>
    s_effects s2 = [Commit (v_next_effect_id v + 1)] \<and>
    Respond Lane_Client (terminal_reply x3 ''committed'' rid passed) \<in> set (s_effects s4) \<and>
    map_option durable_phase (s_durable s4) = Some Committed \<and> connection_of s4 = Conn_None"
proof -
  let ?j = "v_next_effect_id v"
  have waits_resume: "waits k l q t (resume u) \<longleftrightarrow> waits k l q t u" for k l q t and u :: "'a st"
    by (simp add: waits_def)
  obtain s1 v1 where 1: "dispatch x1 (Ev_BindingChecked i True) s = Done s1"
      "s_durable s1 = Some (Live (r\<lparr>r_phase := Committing\<rparr>))" "s_volatile s1 = Some v1" "v_next_effect_id v1 = ?j + 1"
      "waits ?j Client rid (CommitPersist n d passed) (resume s1)"
    using step_commit_bound [OF assms(1,2,4,5,6,3)] assms(9) waits_resume by auto
  obtain s2 v2 where 2: "dispatch x2 (Ev_Persisted ?j) (resume s1) = Done s2" "s_effects s2 = [Commit (?j + 1)]"
      "s_durable s2 = Some (Live (r\<lparr>r_phase := Committing\<rparr>))" "s_volatile s2 = Some v2" "v_next_effect_id v2 = ?j + 2"
      "waits (?j + 1) Client rid (CommitSend n d passed) (resume s2)"
    using step_commit_persisted [OF 1(5), of "r\<lparr>r_phase := Committing\<rparr>" deadline x2 v1] 1 assms(5,7,9) waits_resume by auto
  obtain s3 v3 r' logs failed_logs where 3: "dispatch x3 (Ev_Committed (?j + 1)) (resume s2) = Done s3"
      "s_durable s3 = Some (Live r')" "r_phase r' = Committed" "s_volatile s3 = Some v3" "v_connection v3 = Conn_None"
      "waits (?j + 2) Client (Some (unwrap_or (request_id x3) rid))
        (Reply (Some (terminal_reply x3 ''committed'' rid passed)) (Some (terminal_reply x3 ''committed'' rid passed))
          logs failed_logs False None) (resume s3)"
    using step_committed [OF 2(6), of "r\<lparr>r_phase := Committing\<rparr>" v2 x3] 2 assms(8,9) waits_resume by auto
  obtain s4 v4 where 4: "dispatch x4 (Ev_Persisted (?j + 2)) (resume s3) = Done s4" "s_durable s4 = Some (Live r')"
      "s_effects s4 = map Log logs @ [Respond Lane_Client (terminal_reply x3 ''committed'' rid passed)]"
      "s_volatile s4 = Some v4" "v_connection v4 = Conn_None"
    using step_reply [OF 3(6), of x4] 3 by (auto simp: connection_of_def)
  then have "Respond Lane_Client (terminal_reply x3 ''committed'' rid passed) \<in> set (s_effects s4)"
    "map_option durable_phase (s_durable s4) = Some Committed" "connection_of s4 = Conn_None"
    using 3(3) by (simp_all add: connection_of_def)
  with 1(1) 2(1,2) 3(1) 4(1) show ?thesis by blast
qed

lemma commit_completes_witness:
  "\<exists>s1 s2 s3 s4. dispatch (demo_ctx 500) (Ev_BindingChecked 7 True)
      ((demo_idle (demo_record Active))\<lparr>s_volatile := Some (demo_volatile (CommitBinding 1 demo_hash None False))\<rparr>) = Done s1 \<and>
    dispatch (demo_ctx 600) (Ev_Persisted 8) (resume s1) = Done s2 \<and>
    dispatch (demo_ctx 700) (Ev_Committed 9) (resume s2) = Done s3 \<and>
    dispatch (demo_ctx 1200) (Ev_Persisted 10) (resume s3) = Done s4 \<and>
    map_option durable_phase (s_durable s4) = Some Committed"
proof -
  let ?s = "(demo_idle (demo_record Active))\<lparr>s_volatile := Some (demo_volatile (CommitBinding 1 demo_hash None False))\<rparr>"
  have w: "waits 7 Client (Some ''r1'') (CommitBinding 1 demo_hash None False) ?s"
    "v_next_effect_id (demo_volatile (CommitBinding 1 demo_hash None False)) = 8"
    by (simp_all add: waits_def demo_volatile_def)
  from commit_completes [OF w(1), of "demo_record Active" "demo_volatile (CommitBinding 1 demo_hash None False)" "demo_ctx 500" 1000
      "demo_ctx 600" "demo_ctx 700" "demo_ctx 1200"] w(2) show ?thesis
    by (simp add: demo_idle_def MAX_SAFE_INTEGER_def) blast
qed

section \<open>The deadline\<close>

lemma step_timer:
  assumes "on_owner x" and "s_durable s = Some (Live r)" and "r_kind r = Interactive" and "r_phase r = Active"
    and "r_expires_at_ms r = Some deadline" and "deadline \<le> now_ms x"
    and "s_volatile s = Some v" and "v_work v = None" and "v_deferred v = None" and "v_callback v = None"
    and "v_connection v = Conn_Open" and "\<not> v_rollback_requested v" and "v_next_effect_id v < MAX_SAFE_INTEGER"
  shows "\<exists>t w. dispatch x Ev_TimerFired s = Done t \<and> s_durable t = s_durable s \<and> s_volatile t = Some w \<and>
    s_effects t = s_effects s @ [Rollback (v_next_effect_id v)] \<and> v_handles w = [] \<and>
    v_next_effect_id w = v_next_effect_id v + 1 \<and>
    waits (v_next_effect_id v) Background None (CloseRollback Expired None) t"
  using assms
  by (simp add: dispatch_def timer_def waits_on_validator_def work_of_def close_def callback_executing_def revoke_def
      release_all_def connection_of_def set_connection_def volatile_mut_def step_defs)

lemma step_close_rolled_back:
  assumes "waits i Background None (CloseRollback Expired None) s" and "s_durable s = Some (Live r)"
    and "s_volatile s = Some v" and "v_next_effect_id v < MAX_SAFE_INTEGER"
    and "event = Ev_RolledBack i \<or> (\<exists>k. event = Ev_RollbackFailed i k)"
  shows "\<exists>t w. dispatch x event s = Done t \<and>
    s_durable t = Some (Live (r\<lparr>r_phase := Expired, r_expires_at_ms := None\<rparr>)) \<and>
    s_effects t = s_effects s @ [Persist (v_next_effect_id v)] \<and> s_volatile t = Some w \<and> v_connection w = Conn_None \<and>
    waits (v_next_effect_id v) Background None (plain_reply None None) t"
  using assms(1)
proof (rule waitsE)
  fix u assume u: "s_volatile s = Some u" "\<not> v_rollback_requested u"
    "v_pending u = Some \<lparr>pn_id = i, pn_effect = awaited_by (CloseRollback Expired None)\<rparr>"
  have c: "\<not> is_atomic_task (CloseRollback Expired None)" by (simp add: is_atomic_task_def)
  have "outcome_id event = Some i" "answers event = Some (awaited_by (CloseRollback Expired None))"
    using assms(5) by auto
  note d = dispatch_waiting [OF assms(1) this c]
  show ?thesis
    using assms(2-5) u
    by (auto simp: d persist_phase_def set_connection_def volatile_mut_def step_defs)
qed

text \<open>
  C30. A transaction that no one ends is ended by its deadline: when the timer of an idle active
  transaction fires at or after its deadline, the connection is rolled back, and whether the
  rollback succeeds or not, two more steps leave the record \<open>expired\<close> with no deadline, no
  connection and no work.
\<close>

theorem deadline_ends_transaction:
  assumes "on_owner x1" and "s_durable s = Some (Live r)" and "r_kind r = Interactive" and "r_phase r = Active"
    and "r_expires_at_ms r = Some deadline" and "deadline \<le> now_ms x1"
    and "s_volatile s = Some v" and "v_work v = None" and "v_deferred v = None" and "v_callback v = None"
    and "v_connection v = Conn_Open" and "\<not> v_rollback_requested v" and "v_next_effect_id v + 1 < MAX_SAFE_INTEGER"
    and "event = Ev_RolledBack (v_next_effect_id v) \<or> (\<exists>k. event = Ev_RollbackFailed (v_next_effect_id v) k)"
  shows "\<exists>s1 s2 s3 w. dispatch x1 Ev_TimerFired s = Done s1 \<and> s_effects s1 = s_effects s @ [Rollback (v_next_effect_id v)] \<and>
    dispatch x2 event (resume s1) = Done s2 \<and> s_effects s2 = [Persist (v_next_effect_id v + 1)] \<and>
    dispatch x3 (Ev_Persisted (v_next_effect_id v + 1)) (resume s2) = Done s3 \<and> s_effects s3 = [] \<and>
    s_durable s3 = Some (Live (r\<lparr>r_phase := Expired, r_expires_at_ms := None\<rparr>)) \<and> s_volatile s3 = Some w \<and>
    v_connection w = Conn_None \<and> v_work w = None \<and> v_pending w = None"
proof -
  have waits_resume: "waits k l q t (resume u) \<longleftrightarrow> waits k l q t u" for k l q t and u :: "'a st"
    by (simp add: waits_def)
  let ?j = "v_next_effect_id v"
  obtain s1 v1 where 1: "dispatch x1 Ev_TimerFired s = Done s1" "s_durable s1 = Some (Live r)" "s_volatile s1 = Some v1"
      "s_effects s1 = s_effects s @ [Rollback ?j]" "v_next_effect_id v1 = ?j + 1"
      "waits ?j Background None (CloseRollback Expired None) (resume s1)"
    using step_timer [OF assms(1-12)] assms(2,13) waits_resume by auto
  obtain s2 v2 where 2: "dispatch x2 event (resume s1) = Done s2" "s_effects s2 = [Persist (?j + 1)]"
      "s_durable s2 = Some (Live (r\<lparr>r_phase := Expired, r_expires_at_ms := None\<rparr>))" "s_volatile s2 = Some v2"
      "v_connection v2 = Conn_None" "waits (?j + 1) Background None (plain_reply None None) (resume s2)"
    using step_close_rolled_back [OF 1(6), of r v1 event x2] 1 assms(13,14) waits_resume by auto
  obtain u where u: "v2 = u" "v_pending u = Some \<lparr>pn_id = ?j + 1, pn_effect = awaited_by (plain_reply None None)\<rparr>"
    using 2(4,6) by (auto elim!: waitsE)
  have "\<exists>s3 w. dispatch x3 (Ev_Persisted (?j + 1)) (resume s2) = Done s3 \<and> s_effects s3 = [] \<and>
      s_durable s3 = s_durable s2 \<and> s_volatile s3 = Some w \<and> v_connection w = Conn_None \<and> v_work w = None \<and> v_pending w = None"
    using 2 by (simp add: dispatch_waiting [OF 2(6)] plain_reply_def reply_persisted_def push_logs_def respond_opt_def step_defs)
  with 1(1,4) 2(1,2,3) show ?thesis by metis
qed

lemma deadline_ends_transaction_witness:
  "\<exists>s1 s2 s3. dispatch (demo_ctx 1000) Ev_TimerFired
      ((demo_idle (demo_record Active))\<lparr>s_volatile := Some ((demo_volatile BeginTimer)\<lparr>v_work := None, v_pending := None\<rparr>)\<rparr>) = Done s1 \<and>
    dispatch (demo_ctx 1010) (Ev_RollbackFailed 8 Timeout) (resume s1) = Done s2 \<and>
    dispatch (demo_ctx 1020) (Ev_Persisted 9) (resume s2) = Done s3 \<and> map_option durable_phase (s_durable s3) = Some Expired"
proof -
  let ?v = "(demo_volatile BeginTimer)\<lparr>v_work := None, v_pending := None\<rparr>"
  let ?s = "(demo_idle (demo_record Active))\<lparr>s_volatile := Some ?v\<rparr>"
  have n: "v_next_effect_id ?v = 8" "demo_owner \<noteq> []" by (simp_all add: demo_volatile_def demo_owner_def)
  have "\<exists>s1 s2 s3 w. dispatch (demo_ctx 1000) Ev_TimerFired ?s = Done s1 \<and>
    s_effects s1 = s_effects ?s @ [Rollback (v_next_effect_id ?v)] \<and>
    dispatch (demo_ctx 1010) (Ev_RollbackFailed 8 Timeout) (resume s1) = Done s2 \<and> s_effects s2 = [Persist (v_next_effect_id ?v + 1)] \<and>
    dispatch (demo_ctx 1020) (Ev_Persisted (v_next_effect_id ?v + 1)) (resume s2) = Done s3 \<and> s_effects s3 = [] \<and>
    s_durable s3 = Some (Live ((demo_record Active)\<lparr>r_phase := Expired, r_expires_at_ms := None\<rparr>)) \<and> s_volatile s3 = Some w \<and>
    v_connection w = Conn_None \<and> v_work w = None \<and> v_pending w = None"
    by (rule deadline_ends_transaction [where deadline = 1000 and v = ?v])
      (use n in \<open>simp_all add: on_owner_def demo_idle_def demo_volatile_def MAX_SAFE_INTEGER_def\<close>)
  then show ?thesis using n(1) by fastforce
qed

end
