(* ===== verification/Tx_Json.thy ===== *)
theory Tx_Json
  imports Tx_Run
begin

text \<open>
  The JSON side of a step: the wire form of the effects
  (\<^verbatim>\<open>src/crates/policysql-transaction/src/machine/io.rs\<close>, the \<open>Serialize\<close> derives of \<open>Effect\<close> and what
  it holds) and the entry points
  (\<^verbatim>\<open>src/crates/policysql-transaction/src/machine/mod.rs\<close>, \<open>step_json\<close>, \<open>step\<close>, \<open>output_json\<close>).
\<close>

section \<open>Effects\<close>

definition driver_call_doc :: "driver_call \<Rightarrow> doc" where
  "driver_call_doc c = DObj [(''sql'', DStr (dc_sql c)), (''args'', DObj (map (\<lambda>(k, v). (k, DVal v)) (dc_args c)))]"

definition binding_doc :: "binding \<Rightarrow> doc" where
  "binding_doc b = DObj [(''version'', DNat (bd_version b)), (''scope'', DStr (bd_scope b)),
     (''databaseId'', DStr (bd_database_id b)), (''generation'', DStr (bd_generation b)),
     (''snapshot'', DStr (bd_snapshot b))]"

definition observed_statement_doc :: "observed_statement \<Rightarrow> doc" where
  "observed_statement_doc o' = DObj ([(''operation'', DStr (os_operation o'))] @ dskip ''resource'' DStr (os_resource o') @
     [(''explainResource'', dopt DNat (os_explain_resource o'))])"

definition observe_context_doc :: "observe_context \<Rightarrow> doc" where
  "observe_context_doc c = DObj [(''requestId'', DStr (oc_request_id c)), (''binding'', binding_doc (oc_binding c)),
     (''statements'', DArr (map observed_statement_doc (oc_statements c)))]"

definition capability_grant_doc :: "capability_grant \<Rightarrow> doc" where
  "capability_grant_doc g = DObj [(''token'', DStr (cg_token g)), (''expiresAtMs'', DNat (cg_expires_at_ms g))]"

fun lane_str :: "lane \<Rightarrow> string" where
  "lane_str Lane_Client = ''client''"
| "lane_str Lane_Callback = ''callback''"

text \<open>\<open>#[serde(tag = "type", rename_all = "camelCase")]\<close>: the variant's name is the first member.\<close>

definition tagged :: "string \<Rightarrow> (string \<times> doc) list \<Rightarrow> doc" where
  "tagged name members = DObj ((''type'', DStr name) # members)"

fun effect_doc :: "effect \<Rightarrow> doc" where
  "effect_doc (Forward i owner l input) = tagged ''forward''
     [(''id'', DNat i), (''owner'', DStr owner), (''lane'', DStr (lane_str l)), (''input'', DRaw input)]"
| "effect_doc (Open i binding m timeout_ms deadline_ms) = tagged ''open''
     [(''id'', DNat i), (''binding'', binding_doc binding), (''mode'', DStr (mode_str m)),
      (''timeoutMs'', DNat timeout_ms), (''deadlineMs'', DNat deadline_ms)]"
| "effect_doc (CheckBinding i binding deadline_ms) = tagged ''checkBinding''
     ([(''id'', DNat i), (''binding'', binding_doc binding)] @ dskip ''deadlineMs'' DNat deadline_ms)"
| "effect_doc (Execute i statements traced max_response_bytes) = tagged ''execute''
     [(''id'', DNat i), (''statements'', DArr (map driver_call_doc statements)), (''trace'', dopt DRaw traced),
      (''maxResponseBytes'', DNat max_response_bytes)]"
| "effect_doc (Commit i) = tagged ''commit'' [(''id'', DNat i)]"
| "effect_doc (Rollback i) = tagged ''rollback'' [(''id'', DNat i)]"
| "effect_doc (SetTimer i at_ms) = tagged ''setTimer'' [(''id'', DNat i), (''atMs'', DNat at_ms)]"
| "effect_doc (Persist i) = tagged ''persist'' [(''id'', DNat i)]"
| "effect_doc (CallValidator i check payload capability timeout_ms) = tagged ''callValidator''
     [(''id'', DNat i), (''check'', DStr check), (''payload'', DRaw payload),
      (''capability'', capability_grant_doc capability), (''timeoutMs'', DNat timeout_ms)]"
| "effect_doc (Respond l reply) = tagged ''respond'' [(''lane'', DStr (lane_str l)), (''reply'', DRaw reply)]"
| "effect_doc (Observe statements context max_response_bytes) = tagged ''observe''
     [(''statements'', DArr (map driver_call_doc statements)), (''context'', observe_context_doc context),
      (''maxResponseBytes'', DNat max_response_bytes)]"
| "effect_doc (Log entry) = tagged ''log'' [(''record'', DRaw entry)]"
| "effect_doc Reset = tagged ''reset'' []"

section \<open>Entry points\<close>

definition quoted :: "string \<Rightarrow> string" where
  "quoted t = [CHR 0x22] @ t @ [CHR 0x22]"

definition INTERNAL_OUTPUT :: string where
  "INTERNAL_OUTPUT = ''{'' @ quoted ''error'' @ '':{'' @ quoted ''code'' @ '':'' @ quoted ''POLICYSQL_INTERNAL'' @ '','' @
     quoted ''message'' @ '':'' @ quoted ''The request could not be completed.'' @ '','' @ quoted ''path'' @ '':null}}''"

definition output_doc :: "step_output \<Rightarrow> doc" where
  "output_doc out = DObj [(''durable'', dopt DStr (out_durable out)), (''volatile'', dopt DStr (out_volatile out)),
     (''effects'', DArr (map effect_doc (out_effects out)))]"

definition output_json :: "serde \<Rightarrow> step_output \<Rightarrow> string" where
  "output_json sj out = sj_write sj (output_doc out)"

definition step_json ::
  "'c ctx \<Rightarrow> string option \<Rightarrow> string option \<Rightarrow> string \<Rightarrow> string \<Rightarrow> 'c \<Rightarrow> string \<times> 'c" where
  "step_json x durable volatile event host c = (case run x durable volatile event host c of
       Some (out, c') \<Rightarrow> (output_json (x_serde x) out, c')
     | None \<Rightarrow> (INTERNAL_OUTPUT, c))"

section \<open>The wire form determines the effect\<close>

lemma lane_str_inj: "lane_str a = lane_str b \<longleftrightarrow> a = b"
  by (cases a; cases b) simp_all

lemma mode_str_inj: "mode_str a = mode_str b \<longleftrightarrow> a = b"
  by (cases a; cases b) simp_all

lemma dopt_inj: "(\<And>a b. f a = f b \<longleftrightarrow> a = b) \<Longrightarrow> (\<And>a. f a \<noteq> DNull) \<Longrightarrow> dopt f p = dopt f q \<longleftrightarrow> p = q"
  by (cases p; cases q) (simp_all add: dopt_def, metis)

lemma dskip_inj: "(\<And>a b. f a = f b \<longleftrightarrow> a = b) \<Longrightarrow> dskip n f p = dskip n f q \<longleftrightarrow> p = q"
  by (cases p; cases q) (simp_all add: dskip_def)

lemma binding_doc_inj: "binding_doc a = binding_doc b \<longleftrightarrow> a = (b :: binding)"
  by (auto simp: binding_doc_def intro: binding.equality)

lemma driver_call_doc_inj: "driver_call_doc a = driver_call_doc b \<longleftrightarrow> a = (b :: driver_call)"
proof -
  have "map (\<lambda>(k, v). (k, DVal v)) p = map (\<lambda>(k, v). (k, DVal v)) q \<Longrightarrow> p = q" for p q :: btree
    by (induction p arbitrary: q) (auto simp: Cons_eq_map_conv)
  then show ?thesis by (auto simp: driver_call_doc_def intro: driver_call.equality)
qed

lemma map_inj_eq: "(\<And>a b. f a = f b \<longleftrightarrow> a = b) \<Longrightarrow> map f xs = map f ys \<longleftrightarrow> xs = ys"
  by (metis inj_map_eq_map inj_def)

lemma observe_context_doc_inj: "observe_context_doc a = observe_context_doc b \<longleftrightarrow> a = (b :: observe_context)"
proof -
  have "observed_statement_doc p = observed_statement_doc q \<longleftrightarrow> p = q" for p q :: observed_statement
    by (cases "os_resource p"; cases "os_resource q")
      (auto simp: observed_statement_doc_def dskip_def dopt_inj intro: observed_statement.equality)
  then have "map observed_statement_doc p = map observed_statement_doc q \<longleftrightarrow> p = q" for p q by (rule map_inj_eq)
  then show ?thesis by (auto simp: observe_context_doc_def binding_doc_inj intro: observe_context.equality)
qed

lemma capability_grant_doc_inj: "capability_grant_doc a = capability_grant_doc b \<longleftrightarrow> a = (b :: capability_grant)"
  by (auto simp: capability_grant_doc_def intro: capability_grant.equality)

lemmas doc_inj = lane_str_inj mode_str_inj binding_doc_inj driver_call_doc_inj observe_context_doc_inj capability_grant_doc_inj
  map_inj_eq [OF driver_call_doc_inj]

text \<open>
  The host can tell every effect from its JSON: two effects have the same wire form only when
  they are the same effect with the same arguments, so no tag, id, lane or argument is lost or
  shared between variants.
\<close>

theorem effect_doc_determines_effect: "effect_doc a = effect_doc b \<longleftrightarrow> a = b"
  by (cases a; cases b) (simp_all add: tagged_def doc_inj dopt_inj dskip_inj)

end
