(* ===== verification/Sql_Ast.thy ===== *)
theory Sql_Ast
  imports Rust_Std
begin

text \<open>
  The syntax trees of the \<open>turso_parser\<close> crate, as \<^verbatim>\<open>src/crates/policysql-parser/src/lib.rs\<close> reads them,
  \<^verbatim>\<open>src/crates/policysql-sqlite/src/lib.rs\<close> builds them and \<^verbatim>\<open>src/crates/policysql-sqlite/src/complexity.rs\<close> measures
  them: the types and fields those files name. A field they only test for presence is whether it is
  present, and a variant they only refuse with a catch-all arm is the variant \<open>Other\<close> of its type.

  A \<open>Name\<close> is what was given to \<open>Name::from_string\<close>, an identifier in the form it is written in, or
  to \<open>Name::exact\<close>. \<open>name_str\<close> is the identifier, by SQL's rule for double quotes.
\<close>

section \<open>Names\<close>

datatype name = From_String string | Exact string

definition double_quote :: char where "double_quote = CHR 0x22"

fun undouble :: "char \<Rightarrow> string \<Rightarrow> string" where
  "undouble q (c # d # cs) = (if c = q \<and> d = q then c # undouble q cs else c # undouble q (d # cs))"
| "undouble q cs = cs"

fun name_str :: "name \<Rightarrow> string" where
  "name_str (Exact s) = s"
| "name_str (From_String s) =
     (if 2 \<le> length s \<and> hd s = double_quote \<and> last s = double_quote then undouble double_quote (butlast (tl s)) else s)"

definition replace_doubled :: "char \<Rightarrow> string \<Rightarrow> string" where
  "replace_doubled q v = concat (map (\<lambda>c. if c = q then [q, q] else [c]) v)"

lemma replace_doubled_simps [simp]:
  "replace_doubled q [] = []"
  "replace_doubled q (c # v) = (if c = q then q # q # replace_doubled q v else c # replace_doubled q v)"
  by (simp_all add: replace_doubled_def)

lemma undouble_doubled [simp]: "undouble q (replace_doubled q v) = v"
proof (induction v)
  case (Cons c v)
  have "undouble q (c # replace_doubled q w) = c # undouble q (replace_doubled q w)" if "c \<noteq> q" for w
    using that by (cases "replace_doubled q w") auto
  with Cons show ?case by auto
qed simp

datatype qualified_name = QualifiedName (qn_db_name: "name option") (qn_name: name)

definition qualified_single :: "name \<Rightarrow> qualified_name" where "qualified_single n = QualifiedName None n"

text \<open>An alias is explicit or made up by the parser.\<close>

datatype as_alias = As_Name (as_explicit: bool) (as_name: name)

section \<open>Expressions and selects\<close>

datatype literal_node =
    Lit_Numeric string | Lit_String string | Lit_Null | Lit_True | Lit_False | Lit_Other

datatype operator =
    Op_Equals | Op_NotEquals | Op_Less | Op_LessEquals | Op_Greater | Op_GreaterEquals | Op_And | Op_Or | Op_Is | Op_IsNot
  | Op_Concat | Op_Other

datatype like_operator = Lo_Like | Lo_Glob | Lo_Other

datatype unary_operator = Uo_Not | Uo_Negative | Uo_Other

datatype sort_order = So_Asc | So_Desc

datatype join_flag = Jf_Inner | Jf_Left | Jf_Outer | Jf_Other

datatype join_operator = Jo_Comma | Jo_TypedJoin "join_flag set option"

datatype type_name = Type (ty_name: string) (ty_sized: bool) (ty_array_dimensions: nat)

datatype 'e sorted_column = SortedColumn (sc_expr: 'e) (sc_order: "sort_order option") (sc_nulls: bool)

datatype 'e over =
    Over_Name name
  | Over_Window (ow_base: bool) (ow_partition_by: "'e list") (ow_order_by: "'e sorted_column list") (ow_frame: bool)

datatype 'e function_tail = FunctionTail (ft_filter: "'e option") (ft_over: "'e over option")

datatype 'e result_column = Rc_Expr 'e "as_alias option" | Rc_Star | Rc_TableStar name

datatype 'e group_by = GroupBy (gb_exprs: "'e list") (gb_having: "'e option")

datatype 'e limit = Limit (lm_expr: 'e) (lm_offset: "'e option")

datatype 'e join_constraint = Jc_On 'e | Jc_Using

datatype ('e, 't) joined_select_table =
  JoinedSelectTable (js_operator: join_operator) (js_table: 't) (js_constraint: "'e join_constraint option")

datatype ('e, 't) from_clause = FromClause (fc_select: 't) (fc_joins: "('e, 't) joined_select_table list")

datatype ('e, 't) one_select =
    OneSelect (os_distinctness: bool) (os_columns: "'e result_column list") (os_from: "('e, 't) from_clause option")
      (os_where: "'e option") (os_group_by: "'e group_by option") (os_windows: bool)
  | Values "'e list list"

datatype 's cte = Cte (ct_tbl_name: name) (ct_columns: bool) (ct_materialized_any: bool) (ct_select: 's)

datatype 's with_clause = With (wi_recursive: bool) (wi_ctes: "'s cte list")

datatype expr =
    E_Literal literal_node
  | E_Id name
  | E_Name name
  | E_Qualified name name
  | E_DoublyQualified name name name
  | E_Variable "string option" nat
  | E_Parenthesized "expr list"
  | E_Subquery select
  | E_Exists select
  | E_Unary unary_operator expr
  | E_Cast expr "type_name option"
  | E_Case "expr option" "(expr \<times> expr) list" "expr option"
  | E_FunctionCall name bool "expr list" "expr sorted_column list" "expr sorted_column list" "expr function_tail"
  | E_FunctionCallStar name "expr function_tail"
  | E_Binary expr operator expr
  | E_Collate expr
  | E_IsNull expr
  | E_NotNull expr
  | E_Between expr bool expr expr
  | E_InList expr bool "expr list"
  | E_InSelect expr bool select
  | E_Like expr bool like_operator expr "expr option"
  | E_Other
and select = SelectNode
  (sn_with: "select with_clause option")
  (sn_body: "(expr, select_table) one_select")
  (sn_compounds: "(expr, select_table) one_select list")
  (sn_order_by: "expr sorted_column list")
  (sn_limit: "expr limit option")
and select_table =
    St_Table qualified_name "as_alias option" bool
  | St_TableCall qualified_name "expr list" "as_alias option"
  | St_Select select "as_alias option"
  | St_Sub "(expr, select_table) from_clause" "as_alias option"

section \<open>Statements\<close>

record update_set =
  us_col_names :: "name list"
  us_expr :: expr

text \<open>\<open>UpsertDo::Set\<close> is \<open>Some\<close> of its assignments and condition.\<close>

datatype upsert = Upsert
  (up_index: "(expr sorted_column list \<times> expr option) option")
  (up_set: "(update_set list \<times> expr option) option")
  (up_next: "upsert option")

datatype insert_body = Ib_Select select "upsert option" | Ib_DefaultValues

record insert_stmt =
  in_with :: bool
  in_or_conflict :: bool
  in_tbl_name :: qualified_name
  in_columns :: "name list"
  in_body :: insert_body
  in_returning :: "expr result_column list"

record update_stmt =
  ud_with :: bool
  ud_or_conflict :: bool
  ud_tbl_name :: qualified_name
  ud_indexed :: bool
  ud_sets :: "update_set list"
  ud_from :: bool
  ud_where_clause :: "expr option"
  ud_returning :: "expr result_column list"
  ud_order_by :: "expr sorted_column list"
  ud_limit :: "expr limit option"

record delete_stmt =
  de_with :: bool
  de_tbl_name :: qualified_name
  de_indexed :: bool
  de_where_clause :: "expr option"
  de_returning :: "expr result_column list"
  de_order_by :: "expr sorted_column list"
  de_limit :: "expr limit option"

datatype stmt = Stmt_Select select | Stmt_Insert insert_stmt | Stmt_Update update_stmt | Stmt_Delete delete_stmt | Stmt_Other

datatype cmd = Cmd_Stmt stmt | Cmd_Explain stmt | Cmd_ExplainQueryPlan stmt

end
