(* ===== verification/Sql_Complexity.thy ===== *)
theory Sql_Complexity
  imports Sql_Ast
begin

text \<open>
  The counts of the statement about to be printed (\<^verbatim>\<open>src/crates/policysql-sqlite/src/complexity.rs\<close>): the height of its
  tallest expression, the deepest expression recursion of the parser, the widest result and the
  variables used as patterns. \<open>Inl ()\<close> is \<open>Uncountable\<close>.

  The counter's \<open>&mut self\<close> is the measure threaded through. The functions on the parts of a select
  are parametrised by what they call on expressions and on tables, and \<open>expression\<close>, \<open>select\<close> and
  \<open>select_table\<close> tie the knot. The loop down and up the left spine of an operator chain is \<open>spine\<close>,
  which handles the operators from the innermost one out.
\<close>

record measure_counts =
  ms_height :: nat
  ms_recursion :: nat
  ms_columns :: nat
  ms_pattern_variables :: "string list"

type_synonym 'a counted = "measure_counts \<Rightarrow> unit + 'a \<times> measure_counts"
type_synonym count_expr = "expr \<Rightarrow> nat \<Rightarrow> nat counted"

definition MAX_RESULT_COLUMNS :: nat where "MAX_RESULT_COLUMNS = 2000"
definition MAX_HOST_PARAMETERS :: nat where "MAX_HOST_PARAMETERS = 32766"
definition MAX_LIKE_PATTERN_BYTES :: nat where "MAX_LIKE_PATTERN_BYTES = 50000"

text \<open>\<open>MAX_PARSER_DEPTH\<close> is a constant of the parser crate, the argument \<open>limit\<close>.\<close>

definition height_exceeded :: "nat \<Rightarrow> measure_counts \<Rightarrow> bool" where
  "height_exceeded limit m = (limit < ms_height m)"

definition recursion_exceeded :: "nat \<Rightarrow> measure_counts \<Rightarrow> bool" where
  "recursion_exceeded limit m = (limit < ms_recursion m)"

section \<open>Parts\<close>

text \<open>The tallest of a loop's expressions.\<close>

definition tallest :: "nat list \<Rightarrow> nat" where "tallest hs = foldl max 0 hs"

definition heights :: "count_expr \<Rightarrow> expr list \<Rightarrow> nat \<Rightarrow> nat counted" where
  "heights f es base m = try_ok (traverse_st (\<lambda>e. f e base) es m) (\<lambda>(hs, m). Inr (tallest hs, m))"

definition option_list :: "'a option \<Rightarrow> 'a list" where
  "option_list x = (case x of None \<Rightarrow> [] | Some y \<Rightarrow> [y])"

definition sorted_heights :: "count_expr \<Rightarrow> expr sorted_column list \<Rightarrow> nat \<Rightarrow> nat counted" where
  "sorted_heights f columns base = heights f (map sc_expr columns) base"

definition each :: "count_expr \<Rightarrow> expr list \<Rightarrow> nat \<Rightarrow> unit counted" where
  "each f es base m = try_ok (traverse_st (\<lambda>e. f e base) es m) (\<lambda>(hs, m). Inr ((), m))"

definition sorted_columns :: "count_expr \<Rightarrow> expr sorted_column list \<Rightarrow> nat \<Rightarrow> unit counted" where
  "sorted_columns f columns base = each f (map sc_expr columns) base"

definition limit_at :: "count_expr \<Rightarrow> expr limit option \<Rightarrow> nat \<Rightarrow> unit counted" where
  "limit_at f limit base = (case limit of
       None \<Rightarrow> (\<lambda>m. Inr ((), m))
     | Some l \<Rightarrow> each f (lm_expr l # option_list (lm_offset l)) base)"

definition result_column_at :: "count_expr \<Rightarrow> expr result_column \<Rightarrow> nat \<Rightarrow> unit counted" where
  "result_column_at f column base m = (case column of
       Rc_Expr e _ \<Rightarrow> try_ok (f e base m) (\<lambda>(_, m). Inr ((), m))
     | Rc_Star \<Rightarrow> Inl ()
     | Rc_TableStar _ \<Rightarrow> Inl ())"

definition result_columns :: "count_expr \<Rightarrow> expr result_column list \<Rightarrow> nat \<Rightarrow> unit counted" where
  "result_columns f columns base m =
     try_ok (traverse_st (\<lambda>column. result_column_at f column base) columns
       (m\<lparr>ms_columns := max (ms_columns m) (length columns)\<rparr>)) (\<lambda>(_, m). Inr ((), m))"

definition tail_at :: "count_expr \<Rightarrow> expr function_tail \<Rightarrow> nat \<Rightarrow> nat counted" where
  "tail_at f tail frame m =
     try_ok (heights f (option_list (ft_filter tail)) frame m) (\<lambda>(filter_height, m).
     (case ft_over tail of
        None \<Rightarrow> Inr (filter_height, m)
      | Some (Over_Name _) \<Rightarrow> Inl ()
      | Some (Over_Window base partition_by order_by frame_clause) \<Rightarrow>
          if frame_clause then Inl ()
          else try_ok (heights f partition_by frame m) (\<lambda>(partition_height, m).
            try_ok (sorted_heights f order_by frame m) (\<lambda>(order_height, m).
              Inr (max (max filter_height partition_height) order_height, m)))))"

definition join_at :: "count_expr \<Rightarrow> ('t \<Rightarrow> nat \<Rightarrow> unit counted) \<Rightarrow> (expr, 't) joined_select_table \<Rightarrow> nat \<Rightarrow> unit counted" where
  "join_at f t join base m =
     try_ok (t (js_table join) base m) (\<lambda>(_, m).
     (case js_constraint join of
        None \<Rightarrow> Inr ((), m)
      | Some (Jc_On e) \<Rightarrow> try_ok (f e base m) (\<lambda>(_, m). Inr ((), m))
      | Some Jc_Using \<Rightarrow> Inl ()))"

definition from_at :: "count_expr \<Rightarrow> ('t \<Rightarrow> nat \<Rightarrow> unit counted) \<Rightarrow> (expr, 't) from_clause \<Rightarrow> nat \<Rightarrow> unit counted" where
  "from_at f t from base m =
     try_ok (t (fc_select from) base m) (\<lambda>(_, m).
     try_ok (traverse_st (\<lambda>join. join_at f t join base) (fc_joins from) m) (\<lambda>(_, m). Inr ((), m)))"

definition one_select_at :: "count_expr \<Rightarrow> ('t \<Rightarrow> nat \<Rightarrow> unit counted) \<Rightarrow> (expr, 't) one_select \<Rightarrow> nat \<Rightarrow> unit counted" where
  "one_select_at f t os base m = (case os of
       OneSelect distinctness columns from where_clause group_by windows \<Rightarrow>
         if windows then Inl ()
         else try_ok (result_columns f columns base m) (\<lambda>(_, m).
           try_ok (case from of None \<Rightarrow> Inr ((), m) | Some from \<Rightarrow> from_at f t from base m) (\<lambda>(_, m).
           try_ok (each f (option_list where_clause) base m) (\<lambda>(_, m).
             (case group_by of
                None \<Rightarrow> Inr ((), m)
              | Some g \<Rightarrow> each f (gb_exprs g @ option_list (gb_having g)) base m))))
     | Values rows \<Rightarrow> each f (concat rows) base m)"

section \<open>The counter\<close>

definition pattern :: "expr \<Rightarrow> measure_counts \<Rightarrow> measure_counts" where
  "pattern e m = (case e of
       E_Variable (Some name) _ \<Rightarrow> m\<lparr>ms_pattern_variables := ms_pattern_variables m @ [name]\<rparr>
     | _ \<Rightarrow> m)"

definition wrapped :: "bool \<Rightarrow> nat \<Rightarrow> nat \<Rightarrow> nat counted" where
  "wrapped leaf height right m =
     (let height = (if leaf then 1 else 1 + max height right)
      in Inr (height, m\<lparr>ms_height := max (ms_height m) height\<rparr>))"

section \<open>Recursion\<close>

text \<open>The recursive calls are on the parts of a node, which are smaller.\<close>

lemma loop_cong [fundef_cong]:
  assumes "es = es'" "base = base'" "m = m'" "\<And>e b u. e \<in> set es' \<Longrightarrow> f e b u = g e b u"
  shows "heights f es base m = heights g es' base' m'" and "each f es base m = each g es' base' m'"
  unfolding heights_def each_def using assms by (auto cong: traverse_st_cong)

lemma sorted_cong [fundef_cong]:
  assumes "cs = cs'" "base = base'" "m = m'" "\<And>e b u. e \<in> sc_expr ` set cs' \<Longrightarrow> f e b u = g e b u"
  shows "sorted_heights f cs base m = sorted_heights g cs' base' m'" and "sorted_columns f cs base m = sorted_columns g cs' base' m'"
  unfolding sorted_heights_def sorted_columns_def using assms by (auto intro!: loop_cong)

lemma limit_cong [fundef_cong]:
  assumes "l = l'" "base = base'" "m = m'" "\<And>x e b u. l' = Some x \<Longrightarrow> e \<in> set_limit x \<Longrightarrow> f e b u = g e b u"
  shows "limit_at f l base m = limit_at g l' base' m'"
  unfolding limit_at_def using assms
  by (auto split: option.splits intro!: loop_cong simp: option_list_def limit.set_sel)

lemma result_columns_cong [fundef_cong]:
  assumes "cs = cs'" "base = base'" "m = m'" "\<And>c e b u. c \<in> set cs' \<Longrightarrow> e \<in> set_result_column c \<Longrightarrow> f e b u = g e b u"
  shows "result_columns f cs base m = result_columns g cs' base' m'"
proof -
  have "result_column_at f c b u = result_column_at g c b u" if "c \<in> set cs'" for c b u
    using assms(4) [OF that] by (cases c) (auto simp: result_column_at_def)
  then show ?thesis unfolding result_columns_def using assms(1-3) by (auto cong: traverse_st_cong)
qed

lemma tail_cong [fundef_cong]:
  assumes "t = t'" "base = base'" "m = m'" "\<And>e b u. e \<in> set_function_tail t' \<Longrightarrow> f e b u = g e b u"
  shows "tail_at f t base m = tail_at g t' base' m'"
proof -
  obtain filter over where t: "t' = FunctionTail filter over" by (cases t')
  have "heights f (option_list filter) base' u = heights g (option_list filter) base' u" for u
    using assms(4) t by (intro loop_cong) (auto simp: option_list_def split: option.splits)
  moreover have "heights f ps base' u = heights g ps base' u" "sorted_heights f os base' u = sorted_heights g os base' u"
    if "over = Some (Over_Window b ps os fr)" for b ps os fr u
    by (intro loop_cong sorted_cong refl assms(4); use t that in \<open>force simp: sorted_column.set_sel\<close>)+
  ultimately show ?thesis
    unfolding tail_at_def using assms(1-3) t by (auto split: option.splits over.splits intro!: try_ok_cong)
qed

lemma from_cong [fundef_cong]:
  assumes "x = x'" "base = base'" "m = m'" "\<And>e b u. e \<in> set1_from_clause x' \<Longrightarrow> f e b u = g e b u"
    and "\<And>t b u. t \<in> set2_from_clause x' \<Longrightarrow> h t b u = k t b u"
  shows "from_at f h x base m = from_at g k x' base' m'"
proof -
  obtain t js where x: "x' = FromClause t js" by (cases x')
  have "join_at f h j b u = join_at g k j b u" if "j \<in> set js" for j b u
  proof (cases j)
    case (JoinedSelectTable jo t' on)
    have "h t' b v = k t' b v" for v using that x JoinedSelectTable by (intro assms(5)) force
    moreover have "f e b v = g e b v" if "on = Some (Jc_On e)" for e v
      using \<open>j \<in> set js\<close> that x JoinedSelectTable by (intro assms(4)) force
    ultimately show ?thesis
      using JoinedSelectTable by (auto simp: join_at_def intro!: try_ok_cong split: option.splits join_constraint.splits)
  qed
  then show ?thesis
    unfolding from_at_def using assms x by (auto intro!: try_ok_cong traverse_st_cong)
qed

lemma one_select_cong [fundef_cong]:
  assumes "x = x'" "base = base'" "m = m'" "\<And>e b u. e \<in> set1_one_select x' \<Longrightarrow> f e b u = g e b u"
    and "\<And>t b u. t \<in> set2_one_select x' \<Longrightarrow> h t b u = k t b u"
  shows "one_select_at f h x base m = one_select_at g k x' base' m'"
proof (cases x')
  case (OneSelect d cs fr wh gb w)
  have "result_columns f cs b u = result_columns g cs b u" for b u
    by (intro result_columns_cong refl assms(4)) (use OneSelect in auto)
  moreover have "from_at f h y b u = from_at g k y b u" if "fr = Some y" for y b u
    by (intro from_cong refl assms(4,5)) (use OneSelect that in auto)
  moreover have "each f (option_list wh) b u = each g (option_list wh) b u" for b u
    using assms(4) OneSelect by (intro loop_cong) (auto simp: option_list_def split: option.splits)
  moreover have "each f (gb_exprs y @ option_list (gb_having y)) b u = each g (gb_exprs y @ option_list (gb_having y)) b u"
    if "gb = Some y" for y b u
    using assms(4) OneSelect that by (cases y) (auto intro!: loop_cong simp: option_list_def split: option.splits)
  ultimately show ?thesis
    unfolding one_select_at_def using assms(1-3) OneSelect by (auto intro!: try_ok_cong split: option.splits)
next
  case (Values rows)
  then show ?thesis
    unfolding one_select_at_def using assms(1-4) by (auto intro!: loop_cong)
qed

text \<open>Sizes of the parts.\<close>

lemma mem_size_list: "x \<in> set xs \<Longrightarrow> f x \<le> size_list f xs"
  by (erule size_list_estimation') simp

lemma mem_size_list_trans: "x \<in> set xs \<Longrightarrow> n \<le> f x \<Longrightarrow> n \<le> size_list f xs"
  using mem_size_list [of x xs f] by simp

lemma size_sorted [termination_simp]: "e \<in> sc_expr ` set cs \<Longrightarrow> f e \<le> size_list (size_sorted_column f) cs"
  by (auto intro!: mem_size_list_trans split: sorted_column.splits) (metis le_add1 sorted_column.collapse sorted_column.size_gen(1))

lemma size_limit [termination_simp]: "e \<in> set_limit l \<Longrightarrow> f e \<le> size_limit f l"
  by (cases l) (auto split: option.splits)

lemma size_result_column [termination_simp]:
  "c \<in> set cs \<Longrightarrow> e \<in> set_result_column c \<Longrightarrow> f e \<le> size_list (size_result_column f) cs"
  by (cases c) (auto intro!: mem_size_list_trans)

lemma size_sorted_column: "e \<in> set_sorted_column x \<Longrightarrow> f e \<le> size_sorted_column f x"
  by (cases x) simp

lemma size_over: "e \<in> set_over w \<Longrightarrow> f e \<le> size_over f w"
proof (cases w)
  case (Over_Window b ps os fr)
  assume "e \<in> set_over w"
  with Over_Window consider "e \<in> set ps" | x where "x \<in> set os" "e \<in> set_sorted_column x" by auto
  then show ?thesis
  proof cases
    case 1
    then show ?thesis using mem_size_list [of e ps f] Over_Window by simp
  next
    case 2
    then have "f e \<le> size_list (size_sorted_column f) os" by (blast intro: mem_size_list_trans size_sorted_column)
    then show ?thesis using Over_Window by simp
  qed
qed simp

lemma size_tail [termination_simp]: "e \<in> set_function_tail t \<Longrightarrow> f e \<le> size_function_tail f t"
  by (cases t) (auto dest: size_over [of e _ f])

lemma size_constraint: "e \<in> set_join_constraint j \<Longrightarrow> f e \<le> size_join_constraint f j"
  by (cases j) auto

lemma size_joined: "e \<in> set1_joined_select_table j \<Longrightarrow> f e \<le> size_joined_select_table f g j"
    "t \<in> set2_joined_select_table j \<Longrightarrow> g t \<le> size_joined_select_table f g j"
  by (cases j; auto dest: size_constraint [of _ _ f])+

lemma size_from [termination_simp]: "e \<in> set1_from_clause x \<Longrightarrow> f e \<le> size_from_clause f g x"
    "t \<in> set2_from_clause x \<Longrightarrow> g t \<le> size_from_clause f g x"
proof -
  obtain t' js where x: "x = FromClause t' js" by (cases x)
  have "f e \<le> size_list (size_joined_select_table f g) js" if "j \<in> set js" "e \<in> set1_joined_select_table j" for j
    by (rule mem_size_list_trans [where x = j]) (use that size_joined(1) [of e j f g] in auto)
  moreover have "g t \<le> size_list (size_joined_select_table f g) js" if "j \<in> set js" "t \<in> set2_joined_select_table j" for j
    by (rule mem_size_list_trans [where x = j]) (use that size_joined(2) [of t j g f] in auto)
  ultimately show "e \<in> set1_from_clause x \<Longrightarrow> f e \<le> size_from_clause f g x"
    "t \<in> set2_from_clause x \<Longrightarrow> g t \<le> size_from_clause f g x"
    by (force simp: x)+
qed

lemma size_group_by: "e \<in> set_group_by y \<Longrightarrow> f e \<le> size_group_by f y"
  by (cases y) (auto dest: mem_size_list [of e _ f] split: option.splits)

lemma size_rows: "e \<in> set row \<Longrightarrow> row \<in> set rows \<Longrightarrow> f e \<le> size_list (size_list f) rows"
  by (rule mem_size_list_trans [where x = row]) (auto intro: mem_size_list)

lemma size_one_select [termination_simp]: "e \<in> set1_one_select x \<Longrightarrow> f e \<le> size_one_select f g x"
    "t \<in> set2_one_select x \<Longrightarrow> g t \<le> size_one_select f g x"
proof -
  show "f e \<le> size_one_select f g x" if e: "e \<in> set1_one_select x"
  proof (cases x)
    case (OneSelect d cs fr wh gb w)
    with e consider c where "c \<in> set cs" "e \<in> set_result_column c" | y where "fr = Some y" "e \<in> set1_from_clause y"
      | "wh = Some e" | y where "gb = Some y" "e \<in> set_group_by y" by (auto simp: elem_set)
    then show ?thesis
      by cases (use OneSelect size_result_column [of _ cs e f] size_from(1) [of e _ f g] size_group_by [of e _ f] in fastforce)+
  next
    case (Values rows)
    with e obtain row where "row \<in> set rows" "e \<in> set row" by auto
    with Values size_rows [of e row rows f] show ?thesis by simp
  qed
  show "g t \<le> size_one_select f g x" if "t \<in> set2_one_select x"
    using that size_from(2) [of t _ g f] by (cases x) fastforce+
qed

lemma size_ctes [termination_simp]: "s \<in> ct_select ` set (wi_ctes w) \<Longrightarrow> f s \<le> size_with_clause f w"
proof -
  assume "s \<in> ct_select ` set (wi_ctes w)"
  then obtain c where "c \<in> set (wi_ctes w)" "s = ct_select c" by blast
  moreover have "f (ct_select c) \<le> size_cte f c" for c by (cases c) simp
  ultimately show ?thesis using mem_size_list_trans [of c "wi_ctes w" "f s" "size_cte f"] by (cases w) auto
qed

lemma set_option_list [simp]: "set (option_list x) = set_option x"
  by (cases x) (auto simp: option_list_def)

definition case_parts :: "'a option \<Rightarrow> ('a \<times> 'a) list \<Rightarrow> 'a option \<Rightarrow> 'a list" where
  "case_parts base pairs else_expr = option_list base @ concat (map (\<lambda>(w, t). [w, t]) pairs) @ option_list else_expr"

lemma size_case_parts [termination_simp]:
  "e \<in> set (case_parts base pairs els) \<Longrightarrow> f e \<le> size_option f base + size_list (size_prod f f) pairs + size_option f els"
proof -
  assume "e \<in> set (case_parts base pairs els)"
  then consider "base = Some e" | w t where "(w, t) \<in> set pairs" "e = w \<or> e = t" | "els = Some e"
    by (auto simp: case_parts_def elem_set)
  then show ?thesis
  proof cases
    case (2 w t)
    then show ?thesis using mem_size_list [of "(w, t)" pairs "size_prod f f"] by auto
  qed auto
qed

lemma size_case_parts_pairs:
  "(e :: expr) \<in> set (case_parts base pairs els) \<Longrightarrow>
     size e \<le> size_option size base + size_list (\<lambda>x. Suc (size (fst x) + size (snd x))) pairs + size_option size els"
proof -
  have "size_prod size size = (\<lambda>x :: expr \<times> expr. Suc (size (fst x) + size (snd x)))" by (auto simp: fun_eq_iff)
  then show "e \<in> set (case_parts base pairs els) \<Longrightarrow> ?thesis" using size_case_parts [of e base pairs els size] by simp
qed

lemma select_parts_smaller [termination_simp]:
  "sn_with s = Some w \<Longrightarrow> x \<in> ct_select ` set (wi_ctes w) \<Longrightarrow> size x < size s"
  "e \<in> set1_one_select (sn_body s) \<Longrightarrow> size e < size s"
  "t \<in> set2_one_select (sn_body s) \<Longrightarrow> size t < size s"
  "os \<in> set (sn_compounds s) \<Longrightarrow> e \<in> set1_one_select os \<Longrightarrow> size e < size s"
  "os \<in> set (sn_compounds s) \<Longrightarrow> t \<in> set2_one_select os \<Longrightarrow> size t < size s"
  "e \<in> sc_expr ` set (sn_order_by s) \<Longrightarrow> size e < size s"
  "sn_limit s = Some l \<Longrightarrow> e \<in> set_limit l \<Longrightarrow> size e < size s"
proof -
  obtain w' body compounds order_by limit where s: "s = SelectNode w' body compounds order_by limit" by (cases s)
  show "size x < size s" if "sn_with s = Some w" "x \<in> ct_select ` set (wi_ctes w)"
    using size_ctes [OF that(2), of size] that(1) by (simp add: s)
  show "size e < size s" if "e \<in> set1_one_select (sn_body s)"
    using size_one_select(1) [OF that, of size size] by (simp add: s)
  show "size t < size s" if "t \<in> set2_one_select (sn_body s)"
    using size_one_select(2) [OF that, of size size] by (simp add: s)
  show "size e < size s" if "os \<in> set (sn_compounds s)" "e \<in> set1_one_select os"
    using mem_size_list [OF that(1), of "size_one_select size size"] size_one_select(1) [OF that(2), of size size] by (simp add: s)
  show "size t < size s" if "os \<in> set (sn_compounds s)" "t \<in> set2_one_select os"
    using mem_size_list [OF that(1), of "size_one_select size size"] size_one_select(2) [OF that(2), of size size] by (simp add: s)
  show "size e < size s" if "e \<in> sc_expr ` set (sn_order_by s)"
    using size_sorted [OF that, of size] by (simp add: s)
  show "size e < size s" if "sn_limit s = Some l" "e \<in> set_limit l"
    using size_limit [OF that(2), of size] that(1) by (simp add: s)
qed

lemma select_expr_smaller [termination_simp]:
  "size e < size (s :: select) \<Longrightarrow> Suc (Suc (3 * size e)) < 3 * size s"
  by simp

section \<open>Expressions, selects and tables\<close>

text \<open>One \<open>parse_expr\<close> call entered at recursion depth \<open>base\<close>, and its height.\<close>

function expression :: count_expr and spine :: count_expr and operand :: count_expr
  and select_at :: "select \<Rightarrow> nat \<Rightarrow> unit counted" and table_at :: "select_table \<Rightarrow> nat \<Rightarrow> unit counted" where
  "expression e base m = spine e (base + 1) (m\<lparr>ms_recursion := max (ms_recursion m) (base + 1)\<rparr>)"
| "spine e frame m = (case e of
       E_Binary l op r \<Rightarrow>
         try_ok (spine l frame m) (\<lambda>(h, m). try_ok (expression r frame m) (\<lambda>(right, m). wrapped False h right m))
     | E_Collate l \<Rightarrow> try_ok (spine l frame m) (\<lambda>(h, m). wrapped False h 0 m)
     | E_IsNull l \<Rightarrow> try_ok (spine l frame m) (\<lambda>(h, m). wrapped False h 0 m)
     | E_NotNull l \<Rightarrow> try_ok (spine l frame m) (\<lambda>(h, m). wrapped False h 0 m)
     | E_Between l negated lo hi \<Rightarrow>
         try_ok (spine l frame m) (\<lambda>(h, m). try_ok (expression lo frame m) (\<lambda>(start, m).
           try_ok (expression hi frame m) (\<lambda>(stop, m). wrapped False h (max start stop) m)))
     | E_InList l negated rhs \<Rightarrow>
         try_ok (spine l frame m) (\<lambda>(h, m).
           try_ok (heights expression rhs frame m) (\<lambda>(right, m). wrapped (rhs = []) h right m))
     | E_InSelect l negated rhs \<Rightarrow>
         try_ok (spine l frame m) (\<lambda>(h, m). try_ok (select_at rhs frame m) (\<lambda>(_, m). wrapped False h 1 m))
     | E_Like l negated op rhs escape \<Rightarrow>
         try_ok (spine l frame m) (\<lambda>(h, m). try_ok (expression rhs frame (pattern rhs m)) (\<lambda>(right, m).
           (case escape of
              None \<Rightarrow> wrapped False h right m
            | Some escape \<Rightarrow> try_ok (expression escape frame (pattern escape m)) (\<lambda>(other, m).
                wrapped False h (max right other) m))))
     | _ \<Rightarrow> try_ok (operand e frame m) (\<lambda>(h, m). Inr (h, m\<lparr>ms_height := max (ms_height m) h\<rparr>)))"
| "operand e frame m = (case e of
       E_Literal l \<Rightarrow> Inr (1, m)
     | E_Id n \<Rightarrow> Inr (1, m)
     | E_Qualified q n \<Rightarrow> Inr (1, m)
     | E_DoublyQualified d q n \<Rightarrow> Inr (1, m)
     | E_Variable n i \<Rightarrow> Inr (1, m)
     | E_Parenthesized es \<Rightarrow> try_ok (heights expression es frame m) (\<lambda>(h, m). Inr (1 + h, m))
     | E_Subquery s \<Rightarrow> try_ok (select_at s frame m) (\<lambda>(_, m). Inr (1, m))
     | E_Exists s \<Rightarrow> try_ok (select_at s frame m) (\<lambda>(_, m). Inr (1, m))
     | E_Unary op inner \<Rightarrow> try_ok (expression inner frame m) (\<lambda>(h, m). Inr (1 + h, m))
     | E_Cast inner t \<Rightarrow> try_ok (expression inner frame m) (\<lambda>(h, m). Inr (1 + h, m))
     | E_Case base pairs els \<Rightarrow>
         try_ok (heights expression (case_parts base pairs els) frame m) (\<lambda>(h, m). Inr (1 + h, m))
     | E_FunctionCall n d arguments order_by within_group tail \<Rightarrow>
         try_ok (heights expression arguments frame m) (\<lambda>(h1, m).
         try_ok (sorted_heights expression order_by frame m) (\<lambda>(h2, m).
         try_ok (sorted_heights expression within_group frame m) (\<lambda>(h3, m).
         try_ok (tail_at expression tail frame m) (\<lambda>(h4, m). Inr (1 + max (max (max h1 h2) h3) h4, m)))))
     | E_FunctionCallStar n tail \<Rightarrow> try_ok (tail_at expression tail frame m) (\<lambda>(h, m). Inr (1 + h, m))
     | _ \<Rightarrow> Inl ())"
| "select_at s base m =
     try_ok (case sn_with s of
         None \<Rightarrow> Inr ([], m)
       | Some w \<Rightarrow> traverse_st (\<lambda>s. select_at s base) (map ct_select (wi_ctes w)) m) (\<lambda>(_, m).
     try_ok (one_select_at expression table_at (sn_body s) base m) (\<lambda>(_, m).
     try_ok (traverse_st (\<lambda>os. one_select_at expression table_at os base) (sn_compounds s) m) (\<lambda>(_, m).
     try_ok (sorted_columns expression (sn_order_by s) base m) (\<lambda>(_, m).
       limit_at expression (sn_limit s) base m))))"
| "table_at t base m = (case t of
       St_Table n a i \<Rightarrow> Inr ((), m)
     | St_TableCall n arguments a \<Rightarrow> each expression arguments base m
     | St_Select s a \<Rightarrow> select_at s base m
     | St_Sub f a \<Rightarrow> from_at expression table_at f base m)"
  by pat_completeness auto
termination
  by (relation "measure (case_sum (case_sum (\<lambda>(e, _). 3 * size e + 2) (\<lambda>(e, _). 3 * size e + 1))
      (case_sum (\<lambda>(e, _). 3 * size e) (case_sum (\<lambda>(s, _). 3 * size s) (\<lambda>(t, _). 3 * size t))))")
   (auto simp: termination_simp dest!: size_case_parts_pairs size_from(2) [where f = size and g = size])

declare expression.simps [simp del] spine.simps [simp del] operand.simps [simp del] select_at.simps [simp del] table_at.simps [simp del]

section \<open>Statements\<close>

fun count_upsert :: "upsert \<Rightarrow> unit counted" where
  "count_upsert (Upsert index do_set next) m =
     try_ok (case index of
         None \<Rightarrow> Inr ((), m)
       | Some (targets, where_clause) \<Rightarrow> each expression (map sc_expr targets @ option_list where_clause) 0 m) (\<lambda>(_, m).
     try_ok (case do_set of
         None \<Rightarrow> Inr ((), m)
       | Some (sets, where_clause) \<Rightarrow> each expression (map us_expr sets @ option_list where_clause) 0 m) (\<lambda>(_, m).
     (case next of None \<Rightarrow> Inr ((), m) | Some u \<Rightarrow> count_upsert u m)))"

definition count_statement :: "stmt \<Rightarrow> unit counted" where
  "count_statement st m = (case st of
       Stmt_Select s \<Rightarrow> select_at s 0 m
     | Stmt_Insert i \<Rightarrow>
         if in_with i then Inl ()
         else try_ok (case in_body i of
             Ib_Select s upsert \<Rightarrow> try_ok (select_at s 0 m) (\<lambda>(_, m).
               (case upsert of None \<Rightarrow> Inr ((), m) | Some u \<Rightarrow> count_upsert u m))
           | Ib_DefaultValues \<Rightarrow> Inr ((), m)) (\<lambda>(_, m). result_columns expression (in_returning i) 0 m)
     | Stmt_Update u \<Rightarrow>
         if ud_with u \<or> ud_from u then Inl ()
         else try_ok (each expression (map us_expr (ud_sets u)) 0 m) (\<lambda>(_, m).
           try_ok (each expression (option_list (ud_where_clause u)) 0 m) (\<lambda>(_, m).
           try_ok (sorted_columns expression (ud_order_by u) 0 m) (\<lambda>(_, m).
           try_ok (limit_at expression (ud_limit u) 0 m) (\<lambda>(_, m).
             result_columns expression (ud_returning u) 0 m))))
     | Stmt_Delete d \<Rightarrow>
         if de_with d then Inl ()
         else try_ok (each expression (option_list (de_where_clause d)) 0 m) (\<lambda>(_, m).
           try_ok (sorted_columns expression (de_order_by d) 0 m) (\<lambda>(_, m).
           try_ok (limit_at expression (de_limit d) 0 m) (\<lambda>(_, m).
             result_columns expression (de_returning d) 0 m)))
     | Stmt_Other \<Rightarrow> Inl ())"

definition measure_default :: measure_counts where
  "measure_default = \<lparr>ms_height = 0, ms_recursion = 0, ms_columns = 0, ms_pattern_variables = []\<rparr>"

definition measure_stmt :: "stmt \<Rightarrow> unit + measure_counts" where
  "measure_stmt st = try_ok (count_statement st measure_default) (\<lambda>(_, m). Inr m)"

end
