(* ===== verification/Sql_Parameters.thy ===== *)
theory Sql_Parameters
  imports Pol_Compile
begin

text \<open>
  The client parameters of a statement (\<^verbatim>\<open>src/crates/policysql-sqlite/src/parameter_contracts.rs\<close>): the one
  pass that finds every parameter, its type, the columns whose contract binds its value and whether
  SQL NULL is proved safe for it, and the validation of the supplied values against that analysis.

  The visitor's \<open>&mut self\<close> is the analysis threaded through. Its functions on selects, projections and
  orders are written out in \<open>expr_at\<close>, where they recur.
\<close>

section \<open>Errors\<close>

datatype complexity_cause = Height | Recursion | Columns | Parameters | LikePattern | ColumnMetadata | DatabaseExpressionDepth

datatype emit_error =
    UnsupportedStatement | EE_UnknownResource | EE_UnknownColumn | MissingServerParameter string | LiteralRequiresParameter
  | UnsupportedValue | TooManyLiterals | Formatting | EE_InvariantViolation string | TooComplex complexity_cause | ReparseFailed

datatype verification_error = EmptyProtectedSql | ProfileMismatch | VE_InvariantViolation string

datatype compile_error =
    CE_Emit emit_error | ClientParameterMismatch | ClientParameterTypeMismatch | CE_Verification verification_error

section \<open>Analysis\<close>

record client_parameter_contract =
  cpc_logical_type :: logical_type
  cpc_nullable :: bool
  cpc_columns :: "bound_column list"

record client_parameter_analysis =
  cpa_parameters :: "(string \<times> client_parameter_contract) list"
  cpa_type_conflict :: bool

definition parameter_names :: "client_parameter_analysis \<Rightarrow> string set" where
  "parameter_names a = fst ` set (cpa_parameters a)"

text \<open>\<open>contracts\<close>: \<open>None\<close> for a type conflict.\<close>

definition contracts :: "client_parameter_analysis \<Rightarrow> (string \<times> client_parameter_contract) list option" where
  "contracts a = (if cpa_type_conflict a then None else Some (cpa_parameters a))"

definition column_value_descriptor :: "catalog \<Rightarrow> bound_column \<Rightarrow> value_descriptor option" where
  "column_value_descriptor c column =
     map_option cd_value (Option.bind (resource_by_id c (cid_resource (bc_id column))) (\<lambda>r. column_by_id r (bc_id column)))"

datatype position = Assignment bound_column | Compared bound_column | Other

definition direct_column :: "bound_expr \<Rightarrow> bound_column option" where
  "direct_column e = (case e of Column c \<Rightarrow> Some c | _ \<Rightarrow> None)"

definition compared_with :: "bound_expr \<Rightarrow> position" where
  "compared_with e = (case direct_column e of None \<Rightarrow> Other | Some c \<Rightarrow> Compared c)"

definition parameter :: "catalog \<Rightarrow> string \<times> logical_type \<times> position \<Rightarrow> client_parameter_analysis \<Rightarrow>
  client_parameter_analysis" where
  "parameter c = (\<lambda>(name, logical_type, position) a.
     let (column, nullable) = (case position of
             Assignment column \<Rightarrow> (Some column, is_some_and vd_nullable (column_value_descriptor c column))
           | Compared column \<Rightarrow> (Some column, False)
           | Other \<Rightarrow> (None, False));
         contract = unwrap_or \<lparr>cpc_logical_type = logical_type, cpc_nullable = nullable, cpc_columns = []\<rparr>
           (bt_get (cpa_parameters a) name);
         columns = (case column of
             None \<Rightarrow> cpc_columns contract
           | Some column \<Rightarrow>
               if list_ex (\<lambda>known. bc_id known = bc_id column) (cpc_columns contract) then cpc_columns contract
               else cpc_columns contract @ [column])
     in \<lparr>cpa_parameters = bt_insert name
           (contract\<lparr>cpc_nullable := cpc_nullable contract \<and> nullable, cpc_columns := columns\<rparr>) (cpa_parameters a),
         cpa_type_conflict = (cpa_type_conflict a \<or> cpc_logical_type contract \<noteq> logical_type)\<rparr>)"

fun expr_at :: "catalog \<Rightarrow> position \<Rightarrow> bound_expr \<Rightarrow> client_parameter_analysis \<Rightarrow> client_parameter_analysis" where
  "expr_at c position (ClientParameter name t) a = parameter c (name, t, position) a"
| "expr_at c position (Equal l r) a = expr_at c (compared_with l) r (expr_at c (compared_with r) l a)"
| "expr_at c position (NotEqual l r) a = expr_at c (compared_with l) r (expr_at c (compared_with r) l a)"
| "expr_at c position (Less l r) a = expr_at c (compared_with l) r (expr_at c (compared_with r) l a)"
| "expr_at c position (LessEqual l r) a = expr_at c (compared_with l) r (expr_at c (compared_with r) l a)"
| "expr_at c position (Greater l r) a = expr_at c (compared_with l) r (expr_at c (compared_with r) l a)"
| "expr_at c position (GreaterEqual l r) a = expr_at c (compared_with l) r (expr_at c (compared_with r) l a)"
| "expr_at c position (Like l r) a = expr_at c (compared_with l) r (expr_at c (compared_with r) l a)"
| "expr_at c position (Glob l r) a = expr_at c (compared_with l) r (expr_at c (compared_with r) l a)"
| "expr_at c position (Least l r) a = expr_at c (compared_with l) r (expr_at c (compared_with r) l a)"
| "expr_at c position (Concat l r) a = expr_at c (compared_with l) r (expr_at c (compared_with r) l a)"
| "expr_at c position (And l r) a = expr_at c Other r (expr_at c Other l a)"
| "expr_at c position (Or l r) a = expr_at c Other r (expr_at c Other l a)"
| "expr_at c position (ConditionalOutput l r) a = expr_at c Other r (expr_at c Other l a)"
| "expr_at c position (Not e) a = expr_at c Other e a"
| "expr_at c position (IsNull e) a = expr_at c Other e a"
| "expr_at c position (CastText e) a = expr_at c Other e a"
| "expr_at c position (In e vs negated) a = fold (expr_at c (compared_with e)) vs (expr_at c Other e a)"
| "expr_at c position (ScalarFunction f arguments t) a = fold (expr_at c Other) arguments a"
| "expr_at c position (Exists (BoundSelect r al js ps pr gb hv ob li off)) a =
     (case off of None \<Rightarrow> id | Some e \<Rightarrow> expr_at c Other e)
     ((case li of None \<Rightarrow> id | Some e \<Rightarrow> expr_at c Other e)
     (fold (\<lambda>d. expr_at c Other (od_expression d)) ob
     ((case hv of None \<Rightarrow> id | Some e \<Rightarrow> expr_at c Other e)
     ((case pr of None \<Rightarrow> id | Some e \<Rightarrow> expr_at c Other e)
     (fold (\<lambda>j. expr_at c Other (jn_on j)) js
     (fold (\<lambda>p. expr_at c Other (pj_expression p)) ps a))))))"
| "expr_at c position (Case branches else_expression t) a =
     (case else_expression of None \<Rightarrow> id | Some e \<Rightarrow> expr_at c Other e)
     (fold (\<lambda>b a. expr_at c Other (snd b) (expr_at c Other (fst b) a)) branches a)"
| "expr_at c position (RowNumber r partition_by order_by) a = fold (\<lambda>d. expr_at c Other (od_expression d)) order_by a"
| "expr_at c position (Column column) a = a"
| "expr_at c position (ServerParameter name t) a = a"
| "expr_at c position (Literal v) a = a"
| "expr_at c position (CountAll r) a = a"

definition optional_at :: "catalog \<Rightarrow> bound_expr option \<Rightarrow> client_parameter_analysis \<Rightarrow> client_parameter_analysis" where
  "optional_at c e a = (case e of None \<Rightarrow> a | Some e \<Rightarrow> expr_at c Other e a)"

definition projections_at :: "catalog \<Rightarrow> bound_projection list \<Rightarrow> client_parameter_analysis \<Rightarrow> client_parameter_analysis" where
  "projections_at c ps a = fold (\<lambda>p. expr_at c Other (pj_expression p)) ps a"

definition assignment_at :: "catalog \<Rightarrow> bound_assignment \<Rightarrow> client_parameter_analysis \<Rightarrow> client_parameter_analysis" where
  "assignment_at c b a = expr_at c (Assignment (ba_column b)) (ba_value b) a"

definition statement_at :: "catalog \<Rightarrow> bound_statement \<Rightarrow> client_parameter_analysis \<Rightarrow> client_parameter_analysis" where
  "statement_at c statement a = (case statement of
       Select select \<Rightarrow> expr_at c Other (Exists select) a
     | ConstantSelect ps \<Rightarrow> projections_at c ps a
     | JsonCollectionSelect j \<Rightarrow> optional_at c (bj_predicate j) (expr_at c Other (bj_path j) a)
     | Insert i \<Rightarrow> projections_at c (bi_returning i) (fold (assignment_at c) (concat (bi_rows i)) a)
     | Update u \<Rightarrow> projections_at c (bu_returning u) (optional_at c (bu_predicate u)
         (fold (assignment_at c) (bu_assignments u) a))
     | Delete d \<Rightarrow> projections_at c (bd_returning d) (optional_at c (bd_predicate d) a))"

definition analyze_client_parameters :: "bound_statement \<Rightarrow> catalog \<Rightarrow> client_parameter_analysis" where
  "analyze_client_parameters statement c =
     statement_at c statement \<lparr>cpa_parameters = [], cpa_type_conflict = False\<rparr>"

section \<open>Validation\<close>

definition logical_value_matches :: "logical_value \<Rightarrow> logical_type \<Rightarrow> nat \<Rightarrow> bool" where
  "logical_value_matches v expected max_bytes_per_value = (case v of
       LV_String _ \<Rightarrow> expected \<in> {LT_String, LT_Date, LT_DateTime, LT_Instant}
     | LV_Boolean _ \<Rightarrow> expected = LT_Boolean
     | LV_Int64 i \<Rightarrow> expected = LT_Int64 \<or> expected = LT_Integer \<and> -9007199254740991 \<le> i \<and> i \<le> 9007199254740991
     | LV_Number _ \<Rightarrow> expected = LT_Number
     | LV_Json _ \<Rightarrow> expected = LT_Json
     | LV_Bytes b \<Rightarrow> expected = LT_Bytes \<and> length b \<le> max_bytes_per_value
     | LV_Null \<Rightarrow> False)"

definition validate_contract :: "(rat \<Rightarrow> f64) \<Rightarrow> (string \<Rightarrow> string \<Rightarrow> bool option) \<Rightarrow> catalog \<Rightarrow> (string \<times> logical_value) list \<Rightarrow>
  nat \<Rightarrow> string \<times> client_parameter_contract \<Rightarrow> compile_error + unit" where
  "validate_contract rnd is_match c vs max_bytes_per_value = (\<lambda>(name, contract).
     try_ok (ok_or ClientParameterMismatch (bt_get vs name)) (\<lambda>v.
     let proven_null = (v = LV_Null \<and> cpc_nullable contract) in
     if \<not> proven_null \<and> \<not> logical_value_matches v (cpc_logical_type contract) max_bytes_per_value
     then Inl ClientParameterTypeMismatch
     else for_each (\<lambda>column.
       try_ok (ok_or ClientParameterTypeMismatch (column_value_descriptor c column)) (\<lambda>descriptor.
         require (value_satisfies_contract rnd is_match v descriptor max_bytes_per_value) ClientParameterTypeMismatch))
       (cpc_columns contract)))"

definition validate_client_parameters :: "(rat \<Rightarrow> f64) \<Rightarrow> (string \<Rightarrow> string \<Rightarrow> bool option) \<Rightarrow> client_parameter_analysis \<Rightarrow>
  catalog \<Rightarrow> (string \<times> logical_value) list \<Rightarrow> nat \<Rightarrow> compile_error + unit" where
  "validate_client_parameters rnd is_match a c vs max_bytes_per_value =
     (if map fst (cpa_parameters a) \<noteq> map fst vs then Inl ClientParameterMismatch
      else try_ok (ok_or ClientParameterTypeMismatch (contracts a)) (\<lambda>cs.
        for_each (validate_contract rnd is_match c vs max_bytes_per_value) cs))"

section \<open>Occurrences\<close>

text \<open>The reference: every occurrence of a client parameter, with its type and position, from left to
  right.\<close>

type_synonym occurrence = "string \<times> logical_type \<times> position"

fun occurrences :: "position \<Rightarrow> bound_expr \<Rightarrow> occurrence list" where
  "occurrences position (ClientParameter name t) = [(name, t, position)]"
| "occurrences position (Equal l r) = occurrences (compared_with r) l @ occurrences (compared_with l) r"
| "occurrences position (NotEqual l r) = occurrences (compared_with r) l @ occurrences (compared_with l) r"
| "occurrences position (Less l r) = occurrences (compared_with r) l @ occurrences (compared_with l) r"
| "occurrences position (LessEqual l r) = occurrences (compared_with r) l @ occurrences (compared_with l) r"
| "occurrences position (Greater l r) = occurrences (compared_with r) l @ occurrences (compared_with l) r"
| "occurrences position (GreaterEqual l r) = occurrences (compared_with r) l @ occurrences (compared_with l) r"
| "occurrences position (Like l r) = occurrences (compared_with r) l @ occurrences (compared_with l) r"
| "occurrences position (Glob l r) = occurrences (compared_with r) l @ occurrences (compared_with l) r"
| "occurrences position (Least l r) = occurrences (compared_with r) l @ occurrences (compared_with l) r"
| "occurrences position (Concat l r) = occurrences (compared_with r) l @ occurrences (compared_with l) r"
| "occurrences position (And l r) = occurrences Other l @ occurrences Other r"
| "occurrences position (Or l r) = occurrences Other l @ occurrences Other r"
| "occurrences position (ConditionalOutput l r) = occurrences Other l @ occurrences Other r"
| "occurrences position (Not e) = occurrences Other e"
| "occurrences position (IsNull e) = occurrences Other e"
| "occurrences position (CastText e) = occurrences Other e"
| "occurrences position (In e vs negated) = occurrences Other e @ concat (map (occurrences (compared_with e)) vs)"
| "occurrences position (ScalarFunction f arguments t) = concat (map (occurrences Other) arguments)"
| "occurrences position (Exists (BoundSelect r al js ps pr gb hv ob li off)) =
     concat (map (\<lambda>p. occurrences Other (pj_expression p)) ps) @
     concat (map (\<lambda>j. occurrences Other (jn_on j)) js) @
     (case pr of None \<Rightarrow> [] | Some e \<Rightarrow> occurrences Other e) @
     (case hv of None \<Rightarrow> [] | Some e \<Rightarrow> occurrences Other e) @
     concat (map (\<lambda>d. occurrences Other (od_expression d)) ob) @
     (case li of None \<Rightarrow> [] | Some e \<Rightarrow> occurrences Other e) @
     (case off of None \<Rightarrow> [] | Some e \<Rightarrow> occurrences Other e)"
| "occurrences position (Case branches else_expression t) =
     concat (map (\<lambda>b. occurrences Other (fst b) @ occurrences Other (snd b)) branches) @
     (case else_expression of None \<Rightarrow> [] | Some e \<Rightarrow> occurrences Other e)"
| "occurrences position (RowNumber r partition_by order_by) = concat (map (\<lambda>d. occurrences Other (od_expression d)) order_by)"
| "occurrences position (Column column) = []"
| "occurrences position (ServerParameter name t) = []"
| "occurrences position (Literal v) = []"
| "occurrences position (CountAll r) = []"

definition occurrences_optional :: "bound_expr option \<Rightarrow> occurrence list" where
  "occurrences_optional e = (case e of None \<Rightarrow> [] | Some e \<Rightarrow> occurrences Other e)"

definition occurrences_projections :: "bound_projection list \<Rightarrow> occurrence list" where
  "occurrences_projections ps = concat (map (\<lambda>p. occurrences Other (pj_expression p)) ps)"

definition occurrences_assignments :: "bound_assignment list \<Rightarrow> occurrence list" where
  "occurrences_assignments as = concat (map (\<lambda>b. occurrences (Assignment (ba_column b)) (ba_value b)) as)"

definition statement_occurrences :: "bound_statement \<Rightarrow> occurrence list" where
  "statement_occurrences statement = (case statement of
       Select select \<Rightarrow> occurrences Other (Exists select)
     | ConstantSelect ps \<Rightarrow> occurrences_projections ps
     | JsonCollectionSelect j \<Rightarrow> occurrences Other (bj_path j) @ occurrences_optional (bj_predicate j)
     | Insert i \<Rightarrow> occurrences_assignments (concat (bi_rows i)) @ occurrences_projections (bi_returning i)
     | Update u \<Rightarrow> occurrences_assignments (bu_assignments u) @ occurrences_optional (bu_predicate u) @
         occurrences_projections (bu_returning u)
     | Delete d \<Rightarrow> occurrences_optional (bd_predicate d) @ occurrences_projections (bd_returning d))"

lemma fold_concat_map:
  "(\<And>x a. x \<in> set xs \<Longrightarrow> f x a = fold g (h x) a) \<Longrightarrow> fold f xs a = fold g (concat (map h xs)) a"
  by (induction xs arbitrary: a) auto

lemma expr_at_occurrences: "expr_at c position e a = fold (parameter c) (occurrences position e) a"
proof (induction c position e a rule: expr_at.induct)
  case (20 c position r al js ps pr gb hv ob li off a)
  let ?f = "parameter c"
  have "fold (\<lambda>p. expr_at c Other (pj_expression p)) ps a = fold ?f (concat (map (\<lambda>p. occurrences Other (pj_expression p)) ps)) a"
    "fold (\<lambda>j. expr_at c Other (jn_on j)) js a = fold ?f (concat (map (\<lambda>j. occurrences Other (jn_on j)) js)) a"
    "fold (\<lambda>d. expr_at c Other (od_expression d)) ob a = fold ?f (concat (map (\<lambda>d. occurrences Other (od_expression d)) ob)) a" for a
    by (rule fold_concat_map; rule 20; assumption)+
  moreover have "(case e of None \<Rightarrow> id | Some e \<Rightarrow> expr_at c Other e) a = fold ?f (case e of None \<Rightarrow> [] | Some e \<Rightarrow> occurrences Other e) a"
    if "e \<in> {pr, hv, li, off}" for e a
    using that 20 by (auto split: option.splits)
  ultimately show ?case by simp
next
  case (21 c position branches else_expression t a)
  have "fold (\<lambda>b a. expr_at c Other (snd b) (expr_at c Other (fst b) a)) branches a =
      fold (parameter c) (concat (map (\<lambda>b. occurrences Other (fst b) @ occurrences Other (snd b)) branches)) a"
    using 21 by (intro fold_concat_map) simp
  with 21 show ?case by (auto split: option.splits)
qed (auto intro!: fold_concat_map)

lemma statement_at_occurrences: "statement_at c st a = fold (parameter c) (statement_occurrences st) a"
proof -
  have "optional_at c e a = fold (parameter c) (occurrences_optional e) a"
    "projections_at c ps a = fold (parameter c) (occurrences_projections ps) a"
    "fold (assignment_at c) as a = fold (parameter c) (occurrences_assignments as) a" for e ps as a
    by (auto simp: optional_at_def occurrences_optional_def projections_at_def occurrences_projections_def
        assignment_at_def occurrences_assignments_def expr_at_occurrences intro!: fold_concat_map split: option.splits)
  then show ?thesis
    by (cases st) (simp_all add: statement_at_def statement_occurrences_def expr_at_occurrences del: expr_at.simps occurrences.simps)
qed

lemma analyze_occurrences:
  "analyze_client_parameters st c = fold (parameter c) (statement_occurrences st) \<lparr>cpa_parameters = [], cpa_type_conflict = False\<rparr>"
  by (simp add: analyze_client_parameters_def statement_at_occurrences)

section \<open>What the analysis knows of a parameter\<close>

text \<open>The whole value of an assignment to a column the catalog declares nullable.\<close>

definition stores_null :: "catalog \<Rightarrow> position \<Rightarrow> bool" where
  "stores_null c p = (\<exists>column d. p = Assignment column \<and> column_value_descriptor c column = Some d \<and> vd_nullable d)"

definition position_column :: "position \<Rightarrow> bound_column option" where
  "position_column p = (case p of Assignment column \<Rightarrow> Some column | Compared column \<Rightarrow> Some column | Other \<Rightarrow> None)"

definition contract_ok :: "catalog \<Rightarrow> occurrence set \<Rightarrow> bool \<Rightarrow> string \<Rightarrow> client_parameter_contract \<Rightarrow> bool" where
  "contract_ok c occs conflict n k = (
     (cpc_nullable k \<longleftrightarrow> (\<forall>t p. (n, t, p) \<in> occs \<longrightarrow> stores_null c p)) \<and>
     bc_id ` set (cpc_columns k) = {bc_id column |column t p. (n, t, p) \<in> occs \<and> position_column p = Some column} \<and>
     distinct (map bc_id (cpc_columns k)) \<and>
     (conflict \<or> (\<forall>t p. (n, t, p) \<in> occs \<longrightarrow> t = cpc_logical_type k)))"

definition analysis_ok :: "catalog \<Rightarrow> occurrence set \<Rightarrow> client_parameter_analysis \<Rightarrow> bool" where
  "analysis_ok c occs a = (bt_ok (cpa_parameters a) \<and> parameter_names a = fst ` occs \<and>
     (\<forall>n k. bt_get (cpa_parameters a) n = Some k \<longrightarrow> contract_ok c occs (cpa_type_conflict a) n k))"

text \<open>The columns of a contract with one more position.\<close>

definition add_constraint :: "bound_column option \<Rightarrow> bound_column list \<Rightarrow> bound_column list" where
  "add_constraint column columns = (case column of None \<Rightarrow> columns
     | Some column \<Rightarrow> if list_ex (\<lambda>known. bc_id known = bc_id column) columns then columns else columns @ [column])"

lemma add_constraint_set:
  "bc_id ` set (add_constraint column columns) = bc_id ` set columns \<union> bc_id ` set_option column"
  "distinct (map bc_id columns) \<Longrightarrow> distinct (map bc_id (add_constraint column columns))"
  subgoal by (cases column) (auto simp: add_constraint_def list_ex_iff intro: rev_image_eqI)
  subgoal by (cases column) (auto simp: add_constraint_def list_ex_iff)
  done

lemma parameter_alt:
  "parameter c (n, t, p) a =
     (let k = unwrap_or \<lparr>cpc_logical_type = t, cpc_nullable = stores_null c p, cpc_columns = []\<rparr> (bt_get (cpa_parameters a) n)
      in \<lparr>cpa_parameters = bt_insert n (k\<lparr>cpc_nullable := cpc_nullable k \<and> stores_null c p,
            cpc_columns := add_constraint (position_column p) (cpc_columns k)\<rparr>) (cpa_parameters a),
          cpa_type_conflict = (cpa_type_conflict a \<or> cpc_logical_type k \<noteq> t)\<rparr>)"
  by (cases p) (simp_all add: parameter_def position_column_def stores_null_def is_some_and_iff add_constraint_def Let_def)

lemma analysis_ok_new:
  assumes "analysis_ok c occs a" and "bt_get (cpa_parameters a) n = None"
  shows "(n, t, p) \<in> occs \<longleftrightarrow> False"
  using assms by (force simp: analysis_ok_def parameter_names_def bt_get_def map_of_eq_None_iff)

lemma parameter_ok:
  assumes ok: "analysis_ok c occs a"
  shows "analysis_ok c (insert (n, t, p) occs) (parameter c (n, t, p) a)"
proof -
  let ?k = "unwrap_or \<lparr>cpc_logical_type = t, cpc_nullable = stores_null c p, cpc_columns = []\<rparr> (bt_get (cpa_parameters a) n)"
  let ?k' = "?k\<lparr>cpc_nullable := cpc_nullable ?k \<and> stores_null c p, cpc_columns := add_constraint (position_column p) (cpc_columns ?k)\<rparr>"
  let ?x = "cpa_type_conflict a \<or> cpc_logical_type ?k \<noteq> t"
  have "contract_ok c (insert (n, t, p) occs) ?x n ?k'"
  proof (cases "bt_get (cpa_parameters a) n")
    case None
    have "(n, t', p') \<notin> occs" for t' p' using analysis_ok_new [OF ok None] by blast
    then show ?thesis using None add_constraint_set
      by (auto simp: contract_ok_def)
  next
    case (Some k)
    then have "contract_ok c occs (cpa_type_conflict a) n k" using ok by (simp add: analysis_ok_def)
    then show ?thesis using Some add_constraint_set
      by (auto simp: contract_ok_def)
  qed
  moreover have "contract_ok c (insert (n, t, p) occs) ?x m k" if "m \<noteq> n" "bt_get (cpa_parameters a) m = Some k" for m k
  proof -
    have "contract_ok c occs (cpa_type_conflict a) m k" using ok that by (simp add: analysis_ok_def)
    then show ?thesis using that(1) by (auto simp: contract_ok_def)
  qed
  ultimately show ?thesis
    using ok by (auto simp: analysis_ok_def parameter_alt Let_def parameter_names_def)
qed

lemma analyze_ok: "analysis_ok c (set (statement_occurrences st)) (analyze_client_parameters st c)"
proof -
  have "analysis_ok c (occs \<union> set os) (fold (parameter c) os a)" if "analysis_ok c occs a" for os occs a
    using that
  proof (induction os arbitrary: occs a)
    case (Cons o' os)
    obtain n t p where o': "o' = (n, t, p)" by (cases o')
    from Cons.IH [OF parameter_ok [OF Cons.prems, of n t p]] show ?case by (simp add: o')
  qed simp
  moreover have "analysis_ok c {} \<lparr>cpa_parameters = [], cpa_type_conflict = False\<rparr>"
    by (simp add: analysis_ok_def parameter_names_def)
  ultimately show ?thesis unfolding analyze_occurrences by (metis sup_bot_left)
qed

section \<open>Properties\<close>

lemma same_descriptor: "bc_id x = bc_id y \<Longrightarrow> column_value_descriptor c x = column_value_descriptor c y"
  by (simp add: column_value_descriptor_def)

text \<open>\<open>UPDATE notes SET body = :body\<close> on a nullable column.\<close>

definition note_column :: bound_column where
  "note_column = \<lparr>bc_id = ColumnId 1 0, bc_type = LT_String, bc_usage = U_Write\<rparr>"

definition note_value :: value_descriptor where
  "note_value = \<lparr>vd_logical_type = LT_String, vd_representation = VR_String, vd_nullable = True, vd_format = None,
     vd_storage = None, vd_constraints = None, vd_json_schema = None\<rparr>"

definition note_catalog :: catalog where
  "note_catalog = \<lparr>cat_snapshot = ''s1'', cat_resources = [(''notes'', \<lparr>rd_id = 1, rd_name = ''notes'', rd_source = ''notes'',
     rd_columns = [(''body'', \<lparr>cd_id = ColumnId 1 0, cd_name = ''body'', cd_value = note_value, cd_declared_type_bytes = 0\<rparr>)]\<rparr>)]\<rparr>"

definition note_update :: bound_statement where
  "note_update = Update \<lparr>bu_resource = 1,
     bu_assignments = [\<lparr>ba_column = note_column, ba_value = ClientParameter ''body'' LT_String\<rparr>],
     bu_predicate = None, bu_returning = []\<rparr>"

lemma note_descriptor: "column_value_descriptor note_catalog note_column = Some note_value"
  by (simp add: column_value_descriptor_def note_catalog_def note_column_def resource_by_id_def column_by_id_def)

lemma note_analysis: "analyze_client_parameters note_update note_catalog =
  \<lparr>cpa_parameters = [(''body'', \<lparr>cpc_logical_type = LT_String, cpc_nullable = True, cpc_columns = [note_column]\<rparr>)],
   cpa_type_conflict = False\<rparr>"
  by (simp add: analyze_client_parameters_def statement_at_def note_update_def assignment_at_def optional_at_def
      projections_at_def parameter_def note_descriptor) (simp add: note_value_def)

lemma note_occurrences: "statement_occurrences note_update = [(''body'', LT_String, Assignment note_column)]"
  by (simp add: statement_occurrences_def note_update_def occurrences_assignments_def occurrences_optional_def
      occurrences_projections_def)

text \<open>
  C26. The analysis of a statement finds exactly its client parameters, and of each exactly what its
  occurrences say: NULL is proved safe if and only if every occurrence is the whole value of an
  assignment to a nullable column, the binding columns are those of its assignments and comparisons,
  each once, and without a reported conflict all occurrences have the contract's type.
\<close>

theorem parameter_analysis_exact:
  "parameter_names (analyze_client_parameters st c) = fst ` set (statement_occurrences st) \<and>
   (\<forall>(n, k) \<in> set (cpa_parameters (analyze_client_parameters st c)).
      contract_ok c (set (statement_occurrences st)) (cpa_type_conflict (analyze_client_parameters st c)) n k)"
  using analyze_ok [of c st] by (auto simp: analysis_ok_def bt_set_get)

lemma parameter_analysis_exact_witness:
  "parameter_names (analyze_client_parameters note_update note_catalog) = {''body''} \<and>
   contract_ok note_catalog {(''body'', LT_String, Assignment note_column)} False ''body''
     \<lparr>cpc_logical_type = LT_String, cpc_nullable = True, cpc_columns = [note_column]\<rparr>"
  using parameter_analysis_exact [of note_update note_catalog] by (simp add: note_analysis note_occurrences)

text \<open>
  C25. When a request's parameter values are accepted, every occurrence of every parameter in the
  statement has a value: one that matches the occurrence's type, or NULL, and then the occurrence is
  an assignment to a column that may hold NULL; and it satisfies the contract of the column it is
  assigned to or compared with.
\<close>

theorem accepted_values_fit_every_use:
  assumes "validate_client_parameters rnd is_match (analyze_client_parameters st c) c vs m = Inr ()"
    and "(n, t, p) \<in> set (statement_occurrences st)"
  shows "\<exists>v. bt_get vs n = Some v \<and> (if v = LV_Null then stores_null c p else logical_value_matches v t m) \<and>
    (\<forall>column. position_column p = Some column \<longrightarrow>
      (\<exists>d. column_value_descriptor c column = Some d \<and> value_satisfies_contract rnd is_match v d m))"
proof -
  let ?a = "analyze_client_parameters st c"
  have ok: "analysis_ok c (set (statement_occurrences st)) ?a" by (rule analyze_ok)
  have "fst (n, t, p) \<in> fst ` set (statement_occurrences st)" using assms(2) by (rule imageI)
  then have "n \<in> fst ` set (cpa_parameters ?a)" using ok by (simp add: analysis_ok_def parameter_names_def)
  then obtain k where k: "(n, k) \<in> set (cpa_parameters ?a)" by auto
  have x: "\<not> cpa_type_conflict ?a" and each: "validate_contract rnd is_match c vs m (n, k) = Inr ()"
    using assms(1) k by (auto simp: validate_client_parameters_def contracts_def result_simps split: if_splits)
  have "bt_get (cpa_parameters ?a) n = Some k" using ok k by (simp add: analysis_ok_def bt_set_get)
  then have c: "contract_ok c (set (statement_occurrences st)) False n k" using ok x by (simp add: analysis_ok_def)
  obtain v where v: "bt_get vs n = Some v" "v = LV_Null \<and> cpc_nullable k \<or> logical_value_matches v (cpc_logical_type k) m"
    "\<forall>column \<in> set (cpc_columns k). \<exists>d. column_value_descriptor c column = Some d \<and> value_satisfies_contract rnd is_match v d m"
    using each by (auto simp: validate_contract_def result_simps Let_def split: if_splits)
  have "if v = LV_Null then stores_null c p else logical_value_matches v t m"
    using v(2) c assms(2) by (auto simp: contract_ok_def logical_value_matches_def)
  moreover have "\<exists>d. column_value_descriptor c column = Some d \<and> value_satisfies_contract rnd is_match v d m"
    if "position_column p = Some column" for column
  proof -
    have "bc_id column \<in> bc_id ` set (cpc_columns k)"
      using c assms(2) that unfolding contract_ok_def by blast
    then obtain column' where "column' \<in> set (cpc_columns k)" "bc_id column = bc_id column'" by auto
    with v(3) same_descriptor [of column column'] show ?thesis by auto
  qed
  ultimately show ?thesis using v(1) by blast
qed

lemma accepted_values_fit_every_use_witness:
  "stores_null note_catalog (Assignment note_column)"
proof -
  have "validate_client_parameters (\<lambda>q. F_fin q) (\<lambda>_ _. None) (analyze_client_parameters note_update note_catalog) note_catalog
      [(''body'', LV_Null)] 10 = Inr ()"
    by (simp add: note_analysis validate_client_parameters_def contracts_def validate_contract_def bt_get_def Let_def
        note_descriptor value_satisfies_contract_def) (simp add: note_value_def)
  from accepted_values_fit_every_use [OF this, of "''body''" LT_String "Assignment note_column"] show ?thesis
    by (simp add: note_occurrences bt_get_def)
qed

end
