(* ===== verification/Sql_Emit.thy ===== *)
theory Sql_Emit
  imports Sql_Complexity Sql_Parameters
begin

text \<open>
  The emitter of the SQLite profile (\<^verbatim>\<open>src/crates/policysql-sqlite/src/lib.rs\<close>, \<open>TypedSqliteEmitter\<close> and
  \<open>AstEmitState\<close>): a protected plan becomes a syntax tree built from identifiers of the catalog and typed
  nodes, with every string, byte and JSON literal moved to a server parameter, and the tree is measured
  before it is printed. The \<open>&mut self\<close> of \<open>AstEmitState\<close> is the record \<open>emit_state\<close>, threaded through.

  Three things the emitter calls are arguments: \<open>show_f64\<close> prints a float, \<open>print\<close> is the \<open>to_string\<close> of
  the parser crate's statements, and \<open>depth\<close> its limit \<open>MAX_EXPR_DEPTH\<close>.
\<close>

record emitted_sql =
  em_sql :: string
  em_server_parameters :: "(string \<times> logical_value) list"
  em_column_metadata_bytes :: nat
  em_pattern_variables :: "string list"

record emitted_column =
  ec_alias_bytes :: nat
  ec_declared_type_bytes :: nat

record emit_state =
  es_aliases :: "(nat \<times> string) list"
  es_server_parameters :: "(string \<times> logical_value) list"
  es_next_literal :: nat
  es_parameter_indices :: "(string \<times> nat) list"
  es_next_parameter :: nat
  es_columns :: "emitted_column list"

definition TABLE_ALIAS :: string where "TABLE_ALIAS = ''__policysql_t0''"
definition CHECK_COLUMN :: string where "CHECK_COLUMN = ''__policysql_check''"
definition VISIBILITY_COLUMN_PREFIX :: string where "VISIBILITY_COLUMN_PREFIX = ''__policysql_visibility_''"

section \<open>Aliases\<close>

definition table_alias :: "nat \<Rightarrow> string" where
  "table_alias n = ''__policysql_t'' @ show_nat n"

type_synonym alias_state = "(nat \<times> string) list \<times> nat"

fun allocate_nested_aliases :: "bound_expr \<Rightarrow> alias_state \<Rightarrow> alias_state" where
  "allocate_nested_aliases (Exists (BoundSelect r al js ps pr gb hv ob li off)) (aliases, next) =
     (let s = (if bt_has aliases r then (aliases, next) else (bt_insert r (table_alias next) aliases, next + 1))
      in case pr of None \<Rightarrow> s | Some p \<Rightarrow> allocate_nested_aliases p s)"
| "allocate_nested_aliases (Equal l r) s = allocate_nested_aliases r (allocate_nested_aliases l s)"
| "allocate_nested_aliases (NotEqual l r) s = allocate_nested_aliases r (allocate_nested_aliases l s)"
| "allocate_nested_aliases (Less l r) s = allocate_nested_aliases r (allocate_nested_aliases l s)"
| "allocate_nested_aliases (LessEqual l r) s = allocate_nested_aliases r (allocate_nested_aliases l s)"
| "allocate_nested_aliases (Greater l r) s = allocate_nested_aliases r (allocate_nested_aliases l s)"
| "allocate_nested_aliases (GreaterEqual l r) s = allocate_nested_aliases r (allocate_nested_aliases l s)"
| "allocate_nested_aliases (And l r) s = allocate_nested_aliases r (allocate_nested_aliases l s)"
| "allocate_nested_aliases (Or l r) s = allocate_nested_aliases r (allocate_nested_aliases l s)"
| "allocate_nested_aliases (Like l r) s = allocate_nested_aliases r (allocate_nested_aliases l s)"
| "allocate_nested_aliases (Glob l r) s = allocate_nested_aliases r (allocate_nested_aliases l s)"
| "allocate_nested_aliases (Least l r) s = allocate_nested_aliases r (allocate_nested_aliases l s)"
| "allocate_nested_aliases (Concat l r) s = allocate_nested_aliases r (allocate_nested_aliases l s)"
| "allocate_nested_aliases (ConditionalOutput v visible_if) s = allocate_nested_aliases visible_if (allocate_nested_aliases v s)"
| "allocate_nested_aliases (Not e) s = allocate_nested_aliases e s"
| "allocate_nested_aliases (IsNull e) s = allocate_nested_aliases e s"
| "allocate_nested_aliases (CastText e) s = allocate_nested_aliases e s"
| "allocate_nested_aliases (ScalarFunction f arguments t) s = fold allocate_nested_aliases arguments s"
| "allocate_nested_aliases (In e vs negated) s = fold allocate_nested_aliases vs (allocate_nested_aliases e s)"
| "allocate_nested_aliases (Case branches else_expression t) s =
     (let s = fold (\<lambda>b s. allocate_nested_aliases (snd b) (allocate_nested_aliases (fst b) s)) branches s
      in case else_expression of None \<Rightarrow> s | Some e \<Rightarrow> allocate_nested_aliases e s)"
| "allocate_nested_aliases (Column c) s = s"
| "allocate_nested_aliases (ClientParameter n t) s = s"
| "allocate_nested_aliases (ServerParameter n t) s = s"
| "allocate_nested_aliases (Literal v) s = s"
| "allocate_nested_aliases (CountAll r) s = s"
| "allocate_nested_aliases (RowNumber r partition_by order_by) s = s"

definition join_aliases :: "bound_join list \<Rightarrow> alias_state \<Rightarrow> alias_state" where
  "join_aliases joins s = fold (\<lambda>(index, join) (aliases, next).
     (bt_insert (jn_resource join) (table_alias (index + 1)) aliases, index + 2)) (enumerate 0 joins) s"

definition aliases_for_statement :: "bound_statement \<Rightarrow> (nat \<times> string) list" where
  "aliases_for_statement statement = (case statement of
       ConstantSelect ps \<Rightarrow> []
     | JsonCollectionSelect j \<Rightarrow> [(bj_resource j, TABLE_ALIAS)]
     | Insert i \<Rightarrow> [(bi_resource i, [])]
     | Update u \<Rightarrow> [(bu_resource u, [])]
     | Delete d \<Rightarrow> [(bd_resource d, [])]
     | Select s \<Rightarrow>
         let st = join_aliases (bs_joins s) ([(bs_resource s, TABLE_ALIAS)], 1)
         in fst (case bs_predicate s of None \<Rightarrow> st | Some p \<Rightarrow> allocate_nested_aliases p st))"

section \<open>Leaves\<close>

definition quoted_name :: "string \<Rightarrow> name" where
  "quoted_name v = From_String (double_quote # replace_doubled double_quote v @ [double_quote])"

definition qualified_name_of :: "string \<Rightarrow> qualified_name" where
  "qualified_name_of v = qualified_single (quoted_name v)"

definition alias_of :: "string \<Rightarrow> as_alias" where
  "alias_of v = As_Name True (quoted_name v)"

definition no_tail :: "expr function_tail" where
  "no_tail = FunctionTail None None"

definition parenthesized :: "expr \<Rightarrow> expr" where
  "parenthesized e = E_Parenthesized [e]"

definition call :: "string \<Rightarrow> expr list \<Rightarrow> expr" where
  "call f arguments = E_FunctionCall (Exact f) False arguments [] [] no_tail"

type_synonym 'a emits = "emit_state \<Rightarrow> emit_error + 'a \<times> emit_state"

definition emit_column :: "catalog \<Rightarrow> bound_column \<Rightarrow> expr emits" where
  "emit_column c column s =
     try_ok (ok_or EE_UnknownResource (resource_by_id c (cid_resource (bc_id column)))) (\<lambda>resource.
     try_ok (ok_or EE_UnknownColumn (column_by_id resource (bc_id column))) (\<lambda>descriptor.
     try_ok (ok_or EE_UnknownResource (bt_get (es_aliases s) (cid_resource (bc_id column)))) (\<lambda>alias.
       Inr (if alias = [] then E_Id (quoted_name (cd_name descriptor))
            else E_Qualified (quoted_name alias) (quoted_name (cd_name descriptor)), s))))"

definition emit_parameter :: "string \<Rightarrow> expr emits" where
  "emit_parameter v s =
     (let name = '':'' @ v in
      case bt_get (es_parameter_indices s) name of
        Some index \<Rightarrow> Inr (E_Variable (Some name) index, s)
      | None \<Rightarrow>
          try_ok (ok_or TooManyLiterals (checked_add u32_max (es_next_parameter s) 1)) (\<lambda>index.
            Inr (E_Variable (Some name) index,
              s\<lparr>es_next_parameter := index, es_parameter_indices := bt_insert name index (es_parameter_indices s)\<rparr>)))"

function literal_parameter :: "logical_value \<Rightarrow> expr emits" where
  "literal_parameter v s =
     (let suffix = ''literal_'' @ show_nat (es_next_literal s) in
      try_ok (ok_or TooManyLiterals (checked_add u64_max (es_next_literal s) 1)) (\<lambda>next.
      (case from_trusted_suffix suffix of
         Inl _ \<Rightarrow> Inl (EE_InvariantViolation ''literal name'')
       | Inr name \<Rightarrow>
           let t = s\<lparr>es_next_literal := next, es_server_parameters := bt_insert name v (es_server_parameters s)\<rparr> in
           if bt_has (es_server_parameters s) name then literal_parameter v t else emit_parameter name t)))"
  by pat_completeness auto
termination
  by (relation "measure (\<lambda>(_, s). Suc u64_max - es_next_literal s)")
    (auto simp: checked_add_def result_simps split: if_splits)

declare literal_parameter.simps [simp del]

definition f64_neg :: "f64 \<Rightarrow> f64" where
  "f64_neg x = (case x of F_nan \<Rightarrow> F_nan | F_inf pos \<Rightarrow> F_inf (\<not> pos) | F_fin q \<Rightarrow> F_fin (- q))"

definition emit_literal :: "(f64 \<Rightarrow> string) \<Rightarrow> logical_value \<Rightarrow> expr emits" where
  "emit_literal show_f64 v s = (case v of
       LV_Null \<Rightarrow> Inr (E_Literal Lit_Null, s)
     | LV_Boolean b \<Rightarrow> Inr (E_Literal (if b then Lit_True else Lit_False), s)
     | LV_Int64 i \<Rightarrow>
         if i < 0 then Inr (E_Unary Uo_Negative (E_Literal (Lit_Numeric (show_nat (nat (- i))))), s)
         else Inr (E_Literal (Lit_Numeric (show_int i)), s)
     | LV_Number x \<Rightarrow>
         if f64_is_finite x \<and> f64_lt0 x then Inr (E_Unary Uo_Negative (E_Literal (Lit_Numeric (show_f64 (f64_neg x)))), s)
         else if f64_is_finite x then Inr (E_Literal (Lit_Numeric (show_f64 x)), s)
         else Inl UnsupportedValue
     | _ \<Rightarrow> literal_parameter v s)"

section \<open>Expressions and selects\<close>

definition push_column :: "nat \<Rightarrow> nat \<Rightarrow> emit_state \<Rightarrow> emit_state" where
  "push_column alias_bytes declared s =
     s\<lparr>es_columns := es_columns s @ [\<lparr>ec_alias_bytes = alias_bytes, ec_declared_type_bytes = declared\<rparr>]\<rparr>"

definition declared_type_bytes_of :: "catalog \<Rightarrow> bound_expr \<Rightarrow> nat" where
  "declared_type_bytes_of c e =
     (let direct = (case e of ConditionalOutput v _ \<Rightarrow> direct_column v | other \<Rightarrow> direct_column other) in
      case Option.bind direct (\<lambda>column. Option.bind (resource_by_id c (cid_resource (bc_id column)))
             (\<lambda>resource. column_by_id resource (bc_id column))) of
        None \<Rightarrow> 0
      | Some d \<Rightarrow> cd_declared_type_bytes d)"

text \<open>\<open>CASE WHEN e THEN TRUE ELSE FALSE END\<close>.\<close>

definition truth_case :: "expr \<Rightarrow> expr" where
  "truth_case e = E_Case None [(e, E_Literal Lit_True)] (Some (E_Literal Lit_False))"

definition sort_order_of :: "sort_direction \<Rightarrow> sort_order" where
  "sort_order_of d = (case d of Ascending \<Rightarrow> So_Asc | Descending \<Rightarrow> So_Desc)"

definition function_name :: "scalar_function \<Rightarrow> string" where
  "function_name f = (case f of Lower \<Rightarrow> ''LOWER'' | Upper \<Rightarrow> ''UPPER'' | JsonExtract \<Rightarrow> ''JSON_EXTRACT'')"

definition join_operator_of :: "join_kind \<Rightarrow> join_operator" where
  "join_operator_of k = Jo_TypedJoin (Some (case k of JoinInner \<Rightarrow> {Jf_Inner} | JoinLeft \<Rightarrow> {Jf_Left}))"

text \<open>\<open>option.map(f).transpose()?\<close>.\<close>

definition optionally :: "('a \<Rightarrow> 'b emits) \<Rightarrow> 'a option \<Rightarrow> 'b option emits" where
  "optionally f x s = (case x of
       None \<Rightarrow> Inr (None, s)
     | Some y \<Rightarrow> try_ok (f y s) (\<lambda>(z, s). Inr (Some z, s)))"

lemma optionally_cong [fundef_cong]:
  assumes "x = x'" "s = s'" "\<And>y u. x' = Some y \<Longrightarrow> f y u = g y u"
  shows "optionally f x s = optionally g x' s'"
  using assms by (auto simp: optionally_def split: option.splits)

definition select_statement :: "expr result_column list \<Rightarrow> (expr, select_table) from_clause option \<Rightarrow> expr option \<Rightarrow>
  expr group_by option \<Rightarrow> expr sorted_column list \<Rightarrow> expr limit option \<Rightarrow> select" where
  "select_statement columns from where_clause group_by order_by limit =
     SelectNode None (OneSelect False columns from where_clause group_by False) [] order_by limit"

text \<open>The parts of a select, parametrised by the emission of their expressions.\<close>

type_synonym emit_fun = "bound_expr \<Rightarrow> expr emits"

definition emit_sorted :: "emit_fun \<Rightarrow> bound_order \<Rightarrow> expr sorted_column emits" where
  "emit_sorted f d s =
     try_ok (f (od_expression d) s) (\<lambda>(e, s). Inr (SortedColumn e (Some (sort_order_of (od_direction d))) False, s))"

definition emit_projection :: "emit_fun \<Rightarrow> catalog \<Rightarrow> nat \<times> bound_projection \<Rightarrow> expr result_column list emits" where
  "emit_projection f c = (\<lambda>(index, p) s.
     try_ok (f (pj_expression p) s) (\<lambda>(x, s).
     let s = push_column (length (pj_output_name p)) (declared_type_bytes_of c (pj_expression p)) s in
     (case pj_expression p of
        ConditionalOutput _ visible_if \<Rightarrow>
          let visibility = VISIBILITY_COLUMN_PREFIX @ show_nat index in
          try_ok (f visible_if (push_column (length visibility) 0 s)) (\<lambda>(w, s).
            Inr ([Rc_Expr x (Some (alias_of (pj_output_name p))), Rc_Expr (truth_case w) (Some (alias_of visibility))], s))
      | _ \<Rightarrow> Inr ([Rc_Expr x (Some (alias_of (pj_output_name p)))], s))))"

definition emit_projections :: "emit_fun \<Rightarrow> catalog \<Rightarrow> bound_projection list \<Rightarrow> expr result_column list emits" where
  "emit_projections f c ps s =
     try_ok (traverse_st (emit_projection f c) (enumerate 0 ps) s) (\<lambda>(columns, s). Inr (concat columns, s))"

definition emit_join :: "emit_fun \<Rightarrow> catalog \<Rightarrow> bound_join \<Rightarrow> (expr, select_table) joined_select_table emits" where
  "emit_join f c j s =
     try_ok (ok_or EE_UnknownResource (resource_by_id c (jn_resource j))) (\<lambda>joined.
     try_ok (ok_or EE_UnknownResource (bt_get (es_aliases s) (jn_resource j))) (\<lambda>alias.
     try_ok (f (jn_on j) s) (\<lambda>(on, s).
       Inr (JoinedSelectTable (join_operator_of (jn_kind j))
         (St_Table (qualified_name_of (rd_source joined)) (Some (alias_of alias)) False) (Some (Jc_On on)), s))))"

definition emit_group :: "emit_fun \<Rightarrow> catalog \<Rightarrow> bound_select \<Rightarrow> expr group_by option emits" where
  "emit_group f c sel s =
     (if bs_group_by sel = [] \<and> bs_having sel = None then Inr (None, s)
      else try_ok (traverse_st (emit_column c) (bs_group_by sel) s) (\<lambda>(exprs, s).
        try_ok (optionally f (bs_having sel) s) (\<lambda>(having, s). Inr (Some (GroupBy exprs having), s))))"

definition emit_limit :: "emit_fun \<Rightarrow> bound_select \<Rightarrow> expr limit option emits" where
  "emit_limit f sel s = (case bs_limit sel of
       Some l \<Rightarrow> try_ok (f l s) (\<lambda>(l, s). try_ok (optionally f (bs_offset sel) s) (\<lambda>(off, s). Inr (Some (Limit l off), s)))
     | None \<Rightarrow> if bs_offset sel = None then Inr (None, s) else Inl (EE_InvariantViolation ''OFFSET requires LIMIT''))"

definition select_node :: "emit_fun \<Rightarrow> catalog \<Rightarrow> string \<Rightarrow> bound_select \<Rightarrow> select emits" where
  "select_node f c source sel s =
     (if bs_projections sel = [] then Inl (EE_InvariantViolation ''empty projection'')
      else try_ok (ok_or EE_UnknownResource (bt_get (es_aliases s) (bs_resource sel))) (\<lambda>root_alias.
      try_ok (traverse_st (emit_join f c) (bs_joins sel) s) (\<lambda>(joins, s).
      try_ok (emit_group f c sel s) (\<lambda>(group_by, s).
      try_ok (traverse_st (emit_sorted f) (bs_order_by sel) s) (\<lambda>(order_by, s).
      try_ok (emit_limit f sel s) (\<lambda>(limit, s).
      try_ok (emit_projections f c (bs_projections sel) s) (\<lambda>(columns, s).
      try_ok (optionally f (bs_predicate sel) s) (\<lambda>(where_clause, s).
        Inr (select_statement columns
          (Some (FromClause (St_Table (qualified_name_of source) (Some (alias_of root_alias)) False) joins))
          where_clause group_by order_by limit, s)))))))))"

text \<open>The expressions a select passes on, all smaller than it.\<close>

definition projection_parts :: "bound_projection \<Rightarrow> bound_expr set" where
  "projection_parts p = insert (pj_expression p) (case pj_expression p of ConditionalOutput _ w \<Rightarrow> {w} | _ \<Rightarrow> {})"

definition select_parts :: "bound_select \<Rightarrow> bound_expr set" where
  "select_parts sel = jn_on ` set (bs_joins sel) \<union> od_expression ` set (bs_order_by sel) \<union>
     \<Union> (projection_parts ` set (bs_projections sel)) \<union> set_option (bs_predicate sel) \<union> set_option (bs_having sel) \<union>
     set_option (bs_limit sel) \<union> set_option (bs_offset sel)"

lemma projection_part_smaller: "e \<in> projection_parts p \<Longrightarrow> size e \<le> size (pj_expression p)"
  by (auto simp: projection_parts_def split: bound_expr.splits)

lemma select_part_smaller [termination_simp]: "e \<in> select_parts sel \<Longrightarrow> size e < size sel"
proof -
  obtain r al js ps pr gb hv ob li off where sel: "sel = BoundSelect r al js ps pr gb hv ob li off" by (cases sel)
  assume "e \<in> select_parts sel"
  then consider j where "j \<in> set js" "e = jn_on j" | d where "d \<in> set ob" "e = od_expression d"
    | p where "p \<in> set ps" "e \<in> projection_parts p" | "pr = Some e" | "hv = Some e" | "li = Some e" | "off = Some e"
    by (auto simp: select_parts_def sel elem_set)
  then show ?thesis
  proof cases
    case (3 p)
    then show ?thesis using projection_part_smaller [of e p] projection_expression_smaller [of p ps] by (simp add: sel)
  qed (auto simp: sel dest!: join_on_smaller order_expression_smaller)
qed

lemma emit_projection_cong:
  assumes "\<And>e u. e \<in> projection_parts (snd p) \<Longrightarrow> f e u = g e u"
  shows "emit_projection f c p s = emit_projection g c p s"
  using assms by (auto simp: emit_projection_def projection_parts_def Let_def case_prod_beta
      split: bound_expr.splits intro!: try_ok_cong)

lemma emit_projections_cong:
  assumes "\<And>e u. e \<in> \<Union> (projection_parts ` set ps) \<Longrightarrow> f e u = g e u"
  shows "emit_projections f c ps s = emit_projections g c ps s"
proof -
  have "traverse_st (emit_projection f c) (enumerate 0 ps) u = traverse_st (emit_projection g c) (enumerate 0 ps) u" for u
    by (intro traverse_st_cong refl emit_projection_cong assms) (force simp: in_set_enumerate_eq dest: nth_mem)
  then show ?thesis by (simp add: emit_projections_def)
qed

lemma select_node_cong [fundef_cong]:
  assumes "c = c'" "source = source'" "sel = sel'" "s = s'" "\<And>e u. e \<in> select_parts sel' \<Longrightarrow> f e u = g e u"
  shows "select_node f c source sel s = select_node g c' source' sel' s'"
proof -
  have "traverse_st (emit_join f c) (bs_joins sel') u = traverse_st (emit_join g c) (bs_joins sel') u" for u
    by (intro traverse_st_cong refl) (auto simp: emit_join_def select_parts_def intro!: try_ok_cong assms(5))
  moreover have "emit_group f c sel' u = emit_group g c sel' u" for u
    by (auto simp: emit_group_def select_parts_def intro!: try_ok_cong optionally_cong assms(5))
  moreover have "traverse_st (emit_sorted f) (bs_order_by sel') u = traverse_st (emit_sorted g) (bs_order_by sel') u" for u
    by (intro traverse_st_cong refl) (auto simp: emit_sorted_def select_parts_def intro!: try_ok_cong assms(5))
  moreover have "emit_limit f sel' u = emit_limit g sel' u" for u
    by (auto simp: emit_limit_def select_parts_def intro!: try_ok_cong optionally_cong assms(5) split: option.splits)
  moreover have "emit_projections f c (bs_projections sel') u = emit_projections g c (bs_projections sel') u" for u
    by (intro emit_projections_cong assms(5)) (auto simp: select_parts_def)
  moreover have "optionally f (bs_predicate sel') u = optionally g (bs_predicate sel') u" for u
    by (auto simp: select_parts_def intro!: optionally_cong assms(5))
  ultimately show ?thesis unfolding select_node_def using assms(1-4) by simp
qed

lemma emit_sorted_cong [fundef_cong]:
  assumes "d = d'" "s = s'" "\<And>u. f (od_expression d') u = g (od_expression d') u"
  shows "emit_sorted f d s = emit_sorted g d' s'"
  using assms by (simp add: emit_sorted_def)

fun emit_expr :: "(f64 \<Rightarrow> string) \<Rightarrow> catalog \<Rightarrow> bound_expr \<Rightarrow> expr emits" where
  "emit_expr fmt c (Column column) s = emit_column c column s"
| "emit_expr fmt c (ClientParameter name t) s = emit_parameter name s"
| "emit_expr fmt c (ServerParameter name t) s =
     (if \<not> bt_has (es_server_parameters s) name then Inl (MissingServerParameter name) else emit_parameter name s)"
| "emit_expr fmt c (Literal v) s = emit_literal fmt v s"
| "emit_expr fmt c (Equal l r) s = try_ok (emit_expr fmt c l s) (\<lambda>(l, s).
     try_ok (emit_expr fmt c r s) (\<lambda>(r, s). Inr (parenthesized (E_Binary l Op_Equals r), s)))"
| "emit_expr fmt c (NotEqual l r) s = try_ok (emit_expr fmt c l s) (\<lambda>(l, s).
     try_ok (emit_expr fmt c r s) (\<lambda>(r, s). Inr (parenthesized (E_Binary l Op_NotEquals r), s)))"
| "emit_expr fmt c (Less l r) s = try_ok (emit_expr fmt c l s) (\<lambda>(l, s).
     try_ok (emit_expr fmt c r s) (\<lambda>(r, s). Inr (parenthesized (E_Binary l Op_Less r), s)))"
| "emit_expr fmt c (LessEqual l r) s = try_ok (emit_expr fmt c l s) (\<lambda>(l, s).
     try_ok (emit_expr fmt c r s) (\<lambda>(r, s). Inr (parenthesized (E_Binary l Op_LessEquals r), s)))"
| "emit_expr fmt c (Greater l r) s = try_ok (emit_expr fmt c l s) (\<lambda>(l, s).
     try_ok (emit_expr fmt c r s) (\<lambda>(r, s). Inr (parenthesized (E_Binary l Op_Greater r), s)))"
| "emit_expr fmt c (GreaterEqual l r) s = try_ok (emit_expr fmt c l s) (\<lambda>(l, s).
     try_ok (emit_expr fmt c r s) (\<lambda>(r, s). Inr (parenthesized (E_Binary l Op_GreaterEquals r), s)))"
| "emit_expr fmt c (And l r) s = try_ok (emit_expr fmt c l s) (\<lambda>(l, s).
     try_ok (emit_expr fmt c r s) (\<lambda>(r, s). Inr (parenthesized (E_Binary l Op_And r), s)))"
| "emit_expr fmt c (Or l r) s = try_ok (emit_expr fmt c l s) (\<lambda>(l, s).
     try_ok (emit_expr fmt c r s) (\<lambda>(r, s). Inr (parenthesized (E_Binary l Op_Or r), s)))"
| "emit_expr fmt c (Like l r) s = try_ok (emit_expr fmt c l s) (\<lambda>(l, s).
     try_ok (emit_expr fmt c r s) (\<lambda>(r, s). Inr (parenthesized (E_Like l False Lo_Like r None), s)))"
| "emit_expr fmt c (Glob l r) s = try_ok (emit_expr fmt c l s) (\<lambda>(l, s).
     try_ok (emit_expr fmt c r s) (\<lambda>(r, s). Inr (parenthesized (E_Like l False Lo_Glob r None), s)))"
| "emit_expr fmt c (Not e) s = try_ok (emit_expr fmt c e s) (\<lambda>(e, s). Inr (parenthesized (E_Unary Uo_Not e), s))"
| "emit_expr fmt c (IsNull e) s = try_ok (emit_expr fmt c e s) (\<lambda>(e, s).
     Inr (parenthesized (E_Binary e Op_Is (E_Literal Lit_Null)), s))"
| "emit_expr fmt c (In e vs negated) s =
     (if vs = [] then Inl (EE_InvariantViolation ''empty IN list'')
      else try_ok (emit_expr fmt c e s) (\<lambda>(e, s). try_ok (traverse_st (emit_expr fmt c) vs s) (\<lambda>(vs, s).
        Inr (parenthesized (E_InList e negated vs), s))))"
| "emit_expr fmt c (Least l r) s = try_ok (emit_expr fmt c l s) (\<lambda>(l, s).
     try_ok (emit_expr fmt c r s) (\<lambda>(r, s). Inr (call ''MIN'' [l, r], s)))"
| "emit_expr fmt c (Concat l r) s = try_ok (emit_expr fmt c l s) (\<lambda>(l, s).
     try_ok (emit_expr fmt c r s) (\<lambda>(r, s). Inr (parenthesized (E_Binary l Op_Concat r), s)))"
| "emit_expr fmt c (CastText e) s = try_ok (emit_expr fmt c e s) (\<lambda>(e, s). Inr (E_Cast e (Some (Type ''TEXT'' False 0)), s))"
| "emit_expr fmt c (Case branches else_expression t) s =
     try_ok (traverse_st (\<lambda>b s. try_ok (emit_expr fmt c (fst b) s) (\<lambda>(w, s).
       try_ok (emit_expr fmt c (snd b) s) (\<lambda>(v, s). Inr ((w, v), s)))) branches s) (\<lambda>(pairs, s).
     try_ok (optionally (emit_expr fmt c) else_expression s) (\<lambda>(els, s). Inr (E_Case None pairs els, s)))"
| "emit_expr fmt c (ConditionalOutput v visible_if) s =
     try_ok (emit_expr fmt c visible_if s) (\<lambda>(w, s). try_ok (emit_expr fmt c v s) (\<lambda>(v, s).
       Inr (E_Case None [(w, v)] (Some (E_Literal Lit_Null)), s)))"
| "emit_expr fmt c (Exists select) s =
     try_ok (ok_or EE_UnknownResource (resource_by_id c (bs_resource select))) (\<lambda>resource.
     try_ok (select_node (emit_expr fmt c) c (rd_source resource) select (s\<lparr>es_columns := []\<rparr>)) (\<lambda>(nested, t).
       Inr (E_Exists nested, t\<lparr>es_columns := es_columns s\<rparr>)))"
| "emit_expr fmt c (CountAll r) s = Inr (E_FunctionCallStar (Exact ''COUNT'') no_tail, s)"
| "emit_expr fmt c (ScalarFunction f arguments t) s =
     try_ok (traverse_st (emit_expr fmt c) arguments s) (\<lambda>(arguments, s). Inr (call (function_name f) arguments, s))"
| "emit_expr fmt c (RowNumber r partition_by order_by) s =
     try_ok (traverse_st (emit_column c) partition_by s) (\<lambda>(partition_by, s).
     try_ok (traverse_st (emit_sorted (emit_expr fmt c)) order_by s) (\<lambda>(order_by, s).
       Inr (E_FunctionCall (Exact ''ROW_NUMBER'') False [] [] []
         (FunctionTail None (Some (Over_Window False partition_by order_by False))), s)))"

section \<open>Statements\<close>

definition emit_check_column :: "emit_fun \<Rightarrow> bound_expr \<Rightarrow> expr result_column emits" where
  "emit_check_column f check s =
     try_ok (f check (push_column (length CHECK_COLUMN) 0 s)) (\<lambda>(w, s).
       Inr (Rc_Expr (truth_case w) (Some (alias_of CHECK_COLUMN)), s))"

text \<open>The \<open>RETURNING\<close> of an insert or an update: the projections, then the operation check.\<close>

definition emit_checked_returning :: "emit_fun \<Rightarrow> catalog \<Rightarrow> string \<Rightarrow> bound_projection list \<Rightarrow> bound_expr option \<Rightarrow>
  expr result_column list emits" where
  "emit_checked_returning f c missing returning check s =
     try_ok (emit_projections f c returning s) (\<lambda>(columns, s).
     try_ok (ok_or (EE_InvariantViolation missing) check) (\<lambda>check.
     try_ok (emit_check_column f check s) (\<lambda>(column, s). Inr (columns @ [column], s))))"

definition insert_columns :: "resource_descriptor \<Rightarrow> bound_assignment list \<Rightarrow> emit_error + name list" where
  "insert_columns resource row = traverse (\<lambda>b.
     map_sum id (\<lambda>d. quoted_name (cd_name d)) (ok_or EE_UnknownColumn (column_by_id resource (bc_id (ba_column b))))) row"

definition emit_insert_row :: "emit_fun \<Rightarrow> bound_assignment list \<Rightarrow> bound_assignment list \<Rightarrow> expr list emits" where
  "emit_insert_row f first row s =
     (if length row \<noteq> length first \<or> list_ex (\<lambda>(l, r). bc_id (ba_column l) \<noteq> bc_id (ba_column r)) (zip row first)
      then Inl (EE_InvariantViolation ''INSERT rows have inconsistent columns'')
      else traverse_st (\<lambda>b. f (ba_value b)) row s)"

definition emit_insert :: "emit_fun \<Rightarrow> catalog \<Rightarrow> bound_insert \<Rightarrow> bound_expr option \<Rightarrow> stmt emits" where
  "emit_insert f c i check s =
     try_ok (ok_or EE_UnknownResource (resource_by_id c (bi_resource i))) (\<lambda>resource.
     (case bi_rows i of
        [] \<Rightarrow> Inl (EE_InvariantViolation ''empty INSERT'')
      | first # _ \<Rightarrow>
          try_ok (insert_columns resource first) (\<lambda>columns.
          try_ok (traverse_st (emit_insert_row f first) (bi_rows i) s) (\<lambda>(rows, s).
          try_ok (emit_checked_returning f c ''INSERT requires operation check'' (bi_returning i) check s) (\<lambda>(returning, s).
            Inr (Stmt_Insert \<lparr>in_with = False, in_or_conflict = False, in_tbl_name = qualified_name_of (rd_source resource),
                in_columns = columns, in_body = Ib_Select (SelectNode None (Values rows) [] [] None) None,
                in_returning = returning\<rparr>, s))))))"

definition emit_set :: "emit_fun \<Rightarrow> resource_descriptor \<Rightarrow> bound_assignment \<Rightarrow> update_set emits" where
  "emit_set f resource b s =
     try_ok (ok_or EE_UnknownColumn (column_by_id resource (bc_id (ba_column b)))) (\<lambda>column.
     try_ok (f (ba_value b) s) (\<lambda>(e, s). Inr (\<lparr>us_col_names = [quoted_name (cd_name column)], us_expr = e\<rparr>, s)))"

definition emit_update :: "emit_fun \<Rightarrow> catalog \<Rightarrow> bound_update \<Rightarrow> bound_expr option \<Rightarrow> stmt emits" where
  "emit_update f c u check s =
     try_ok (ok_or EE_UnknownResource (resource_by_id c (bu_resource u))) (\<lambda>resource.
     if bu_assignments u = [] then Inl (EE_InvariantViolation ''empty UPDATE'')
     else try_ok (traverse_st (emit_set f resource) (bu_assignments u) s) (\<lambda>(sets, s).
     try_ok (emit_checked_returning f c ''UPDATE requires operation check'' (bu_returning u) check s) (\<lambda>(returning, s).
     try_ok (optionally f (bu_predicate u) s) (\<lambda>(where_clause, s).
       Inr (Stmt_Update \<lparr>ud_with = False, ud_or_conflict = False, ud_tbl_name = qualified_name_of (rd_source resource),
           ud_indexed = False, ud_sets = sets, ud_from = False, ud_where_clause = where_clause, ud_returning = returning,
           ud_order_by = [], ud_limit = None\<rparr>, s)))))"

definition emit_delete :: "emit_fun \<Rightarrow> catalog \<Rightarrow> bound_delete \<Rightarrow> stmt emits" where
  "emit_delete f c d s =
     try_ok (ok_or EE_UnknownResource (resource_by_id c (bd_resource d))) (\<lambda>resource.
     try_ok (optionally f (bd_predicate d) s) (\<lambda>(where_clause, s).
     try_ok (emit_projections f c (bd_returning d) s) (\<lambda>(returning, s).
       Inr (Stmt_Delete \<lparr>de_with = False, de_tbl_name = qualified_name_of (rd_source resource), de_indexed = False,
           de_where_clause = where_clause, de_returning = returning, de_order_by = [], de_limit = None\<rparr>, s))))"

definition emit_select :: "emit_fun \<Rightarrow> catalog \<Rightarrow> bound_select \<Rightarrow> stmt emits" where
  "emit_select f c sel s =
     try_ok (ok_or EE_UnknownResource (resource_by_id c (bs_resource sel))) (\<lambda>resource.
     try_ok (select_node f c (rd_source resource) sel s) (\<lambda>(select, s). Inr (Stmt_Select select, s)))"

definition emit_constant_select :: "emit_fun \<Rightarrow> catalog \<Rightarrow> bound_projection list \<Rightarrow> stmt emits" where
  "emit_constant_select f c ps s =
     (if ps = [] then Inl (EE_InvariantViolation ''empty projection'')
      else try_ok (emit_projections f c ps s) (\<lambda>(columns, s).
        Inr (Stmt_Select (select_statement columns None None None [] None), s)))"

definition JSON_ALIAS :: string where "JSON_ALIAS = ''__policysql_json''"

definition emit_json_collection :: "emit_fun \<Rightarrow> catalog \<Rightarrow> bound_json_collection_select \<Rightarrow> stmt emits" where
  "emit_json_collection f c j s =
     try_ok (ok_or EE_UnknownResource (resource_by_id c (bj_resource j))) (\<lambda>resource.
     try_ok (ok_or EE_UnknownColumn (column_by_id resource (bc_id (bj_document j)))) (\<lambda>column.
     let element = E_Qualified (quoted_name JSON_ALIAS) (quoted_name ''value'');
         document = E_Qualified (quoted_name TABLE_ALIAS) (quoted_name (cd_name column)) in
     try_ok (f (bj_path j) (push_column (length (bj_output_name j)) 0 s)) (\<lambda>(path, s).
     try_ok (optionally f (bj_predicate j) s) (\<lambda>(where_clause, s).
       Inr (Stmt_Select (select_statement
         [Rc_Expr (call ''JSON_GROUP_ARRAY'' [element]) (Some (alias_of (bj_output_name j)))]
         (Some (FromClause (St_Table (qualified_name_of (rd_source resource)) (Some (alias_of TABLE_ALIAS)) False)
           [JoinedSelectTable Jo_Comma
             (St_TableCall (qualified_single (Exact (if bj_recursive j then ''JSON_TREE'' else ''JSON_EACH'')))
               [document, path] (Some (alias_of JSON_ALIAS))) None]))
         where_clause None [] None), s)))))"

definition emit_statement :: "(f64 \<Rightarrow> string) \<Rightarrow> protected_plan \<Rightarrow> catalog \<Rightarrow> stmt emits" where
  "emit_statement show_f64 plan c s =
     (let f = emit_expr show_f64 c in
      case pp_statement plan of
        Select sel \<Rightarrow> emit_select f c sel s
      | ConstantSelect ps \<Rightarrow> emit_constant_select f c ps s
      | JsonCollectionSelect j \<Rightarrow> emit_json_collection f c j s
      | Insert i \<Rightarrow> emit_insert f c i (pp_operation_check plan) s
      | Update u \<Rightarrow> emit_update f c u (pp_operation_check plan) s
      | Delete d \<Rightarrow> emit_delete f c d s)"

definition emit_start :: "protected_plan \<Rightarrow> emit_state" where
  "emit_start plan = \<lparr>es_aliases = aliases_for_statement (pp_statement plan), es_server_parameters = pp_server_values plan,
     es_next_literal = 0, es_parameter_indices = [], es_next_parameter = 0, es_columns = []\<rparr>"

definition column_metadata :: "emitted_column list \<Rightarrow> nat" where
  "column_metadata columns = sum_list (map (\<lambda>x. 2 * ec_alias_bytes x + 2 * ec_declared_type_bytes x + 32) columns)"

definition emit :: "(f64 \<Rightarrow> string) \<Rightarrow> (stmt \<Rightarrow> string) \<Rightarrow> nat \<Rightarrow> protected_plan \<Rightarrow> catalog \<Rightarrow> emit_error + emitted_sql" where
  "emit show_f64 print depth plan c =
     try_ok (emit_statement show_f64 plan c (emit_start plan)) (\<lambda>(statement, s).
     (case measure_stmt statement of
        Inl _ \<Rightarrow> Inl (EE_InvariantViolation ''uncountable emitted node'')
      | Inr m \<Rightarrow>
          if MAX_RESULT_COLUMNS < ms_columns m then Inl (TooComplex Columns)
          else if MAX_HOST_PARAMETERS < es_next_parameter s then Inl (TooComplex Parameters)
          else if height_exceeded depth m then Inl (TooComplex Height)
          else if recursion_exceeded depth m then Inl (TooComplex Recursion)
          else Inr \<lparr>em_sql = print statement, em_server_parameters = es_server_parameters s,
            em_column_metadata_bytes = column_metadata (es_columns s), em_pattern_variables = ms_pattern_variables m\<rparr>))"

end
