(* ===== verification/Sql_Meaning.thy ===== *)
theory Sql_Meaning
  imports Sql_Emit Pol_Semantics
begin

text \<open>
  What an emitted syntax tree means on the database, the reference the emitter is proved against. The
  rows of a table map column names to values and a scope maps the alias of each table in it to its
  current row; the primitive operations of the database are the record \<open>dbms\<close>. From the same
  primitives \<open>sql_of\<close> makes the operations of bound statements, and \<open>logical\<close> reads a database by
  resources and ordinals instead of names, so that both sides speak of the same database.

  Only the nodes the emitter builds have a meaning; the others evaluate to null.
\<close>

section \<open>The database\<close>

type_synonym prow = "string \<Rightarrow> logical_value"
type_synonym scope = "string \<Rightarrow> prow option"
type_synonym tables = "string \<Rightarrow> prow list"

record dbms =
  db_compare :: "operator \<Rightarrow> logical_value \<Rightarrow> logical_value \<Rightarrow> logical_value"
  db_like :: "like_operator \<Rightarrow> logical_value \<Rightarrow> logical_value \<Rightarrow> logical_value"
  db_in :: "logical_value \<Rightarrow> logical_value list \<Rightarrow> bool \<Rightarrow> logical_value"
  db_concat :: "logical_value \<Rightarrow> logical_value \<Rightarrow> logical_value"
  db_cast :: "string \<Rightarrow> logical_value \<Rightarrow> logical_value"
  db_function :: "string \<Rightarrow> logical_value list \<Rightarrow> logical_value"
  db_truth_other :: "logical_value \<Rightarrow> bool option"
  db_count :: logical_value
  db_row_number :: "logical_value list \<Rightarrow> logical_value list \<Rightarrow> logical_value"
  db_numeric :: "string \<Rightarrow> logical_value"
  db_negate :: "logical_value \<Rightarrow> logical_value"

definition comparison_node :: "comparison_operator \<Rightarrow> operator" where
  "comparison_node op = (case op of
       CO_Equal \<Rightarrow> Op_Equals | CO_NotEqual \<Rightarrow> Op_NotEquals | CO_Less \<Rightarrow> Op_Less | CO_LessEqual \<Rightarrow> Op_LessEquals
     | CO_Greater \<Rightarrow> Op_Greater | CO_GreaterEqual \<Rightarrow> Op_GreaterEquals | CO_Like \<Rightarrow> Op_Other)"

definition sql_of :: "dbms \<Rightarrow> (string \<Rightarrow> logical_value) \<Rightarrow> sql" where
  "sql_of d clients = \<lparr>
     sq_compare = (\<lambda>op. if op = CO_Like then db_like d Lo_Like else db_compare d (comparison_node op)),
     sq_in = db_in d, sq_glob = db_like d Lo_Glob, sq_least = (\<lambda>a b. db_function d ''MIN'' [a, b]),
     sq_concat = db_concat d, sq_cast_text = db_cast d ''TEXT'', sq_function = (\<lambda>f. db_function d (function_name f)),
     sq_truth_other = db_truth_other d, sq_client = clients, sq_count = (\<lambda>_. db_count d),
     sq_row_number = (\<lambda>_. db_row_number d)\<rparr>"

text \<open>The value of a host variable: the server's, or else the client's.\<close>

definition bound_values :: "(string \<times> logical_value) list \<Rightarrow> (string \<Rightarrow> logical_value) \<Rightarrow> string option \<Rightarrow> logical_value" where
  "bound_values servers clients variable = (case variable of
       Some (_ # name) \<Rightarrow> unwrap_or (clients name) (bt_get servers name)
     | _ \<Rightarrow> LV_Null)"

definition lrow :: "catalog \<Rightarrow> nat \<Rightarrow> prow \<Rightarrow> row" where
  "lrow c r prow = (\<lambda>i. case Option.bind (resource_by_id c r) (\<lambda>resource. column_by_id resource (ColumnId r i)) of
       None \<Rightarrow> LV_Null
     | Some descriptor \<Rightarrow> prow (cd_name descriptor))"

definition logical :: "catalog \<Rightarrow> tables \<Rightarrow> database" where
  "logical c tables = (\<lambda>r. case resource_by_id c r of
       None \<Rightarrow> []
     | Some resource \<Rightarrow> map (lrow c r) (tables (rd_source resource)))"

section \<open>Selects\<close>

text \<open>The scopes of the rows of \<open>FROM\<close> and \<open>WHERE\<close>; \<open>h\<close> decides an expression in a scope.\<close>

type_synonym holds_in = "scope \<Rightarrow> expr \<Rightarrow> bool"

definition table_scan :: "tables \<Rightarrow> select_table \<Rightarrow> (string \<times> prow list) option" where
  "table_scan tables t = (case t of
       St_Table q (Some a) _ \<Rightarrow> Some (name_str (as_name a), tables (name_str (qn_name q)))
     | _ \<Rightarrow> None)"

definition constraint_holds :: "holds_in \<Rightarrow> expr join_constraint option \<Rightarrow> scope \<Rightarrow> bool" where
  "constraint_holds h constraint scope = (case constraint of Some (Jc_On e) \<Rightarrow> h scope e | _ \<Rightarrow> True)"

definition join_scopes :: "holds_in \<Rightarrow> tables \<Rightarrow> scope \<Rightarrow> (expr, select_table) joined_select_table \<Rightarrow> scope list" where
  "join_scopes h tables scope j = (case table_scan tables (js_table j) of
       None \<Rightarrow> []
     | Some (a, rows) \<Rightarrow>
         let matches = filter (\<lambda>row. constraint_holds h (js_constraint j) (scope(a \<mapsto> row))) rows in
         if js_operator j = Jo_TypedJoin (Some {Jf_Left}) \<and> matches = [] then [scope(a \<mapsto> (\<lambda>_. LV_Null))]
         else map (\<lambda>row. scope(a \<mapsto> row)) matches)"

fun joined_scopes :: "holds_in \<Rightarrow> tables \<Rightarrow> scope \<Rightarrow> (expr, select_table) joined_select_table list \<Rightarrow> scope list" where
  "joined_scopes h tables scope [] = [scope]"
| "joined_scopes h tables scope (j # js) = concat (map (\<lambda>s. joined_scopes h tables s js) (join_scopes h tables scope j))"

definition from_scopes :: "holds_in \<Rightarrow> tables \<Rightarrow> scope \<Rightarrow> (expr, select_table) from_clause \<Rightarrow> scope list" where
  "from_scopes h tables scope from = (case table_scan tables (fc_select from) of
       None \<Rightarrow> []
     | Some (a, rows) \<Rightarrow> concat (map (\<lambda>row. joined_scopes h tables (scope(a \<mapsto> row)) (fc_joins from)) rows))"

definition select_scopes :: "holds_in \<Rightarrow> tables \<Rightarrow> scope \<Rightarrow> select \<Rightarrow> scope list" where
  "select_scopes h tables scope s = (case sn_body s of
       OneSelect _ _ (Some from) where_clause _ _ \<Rightarrow>
         filter (\<lambda>s. is_none_or (h s) where_clause) (from_scopes h tables scope from)
     | _ \<Rightarrow> [])"

lemma join_scopes_cong:
  assumes "\<And>s e. js_constraint j = Some (Jc_On e) \<Longrightarrow> h s e = k s e"
  shows "join_scopes h tables scope j = join_scopes k tables scope j"
proof -
  have same: "constraint_holds h (js_constraint j) = constraint_holds k (js_constraint j)"
    using assms by (auto simp: constraint_holds_def fun_eq_iff split: option.splits join_constraint.splits)
  show ?thesis unfolding join_scopes_def same by (rule refl)
qed

lemma joined_scopes_cong:
  assumes "\<And>s j e. j \<in> set js \<Longrightarrow> js_constraint j = Some (Jc_On e) \<Longrightarrow> h s e = k s e"
  shows "joined_scopes h tables scope js = joined_scopes k tables scope js"
  using assms
proof (induction js arbitrary: scope)
  case (Cons j js)
  have "join_scopes h tables scope j = join_scopes k tables scope j"
    by (rule join_scopes_cong) (use Cons.prems in auto)
  moreover have "joined_scopes h tables s js = joined_scopes k tables s js" for s
    by (rule Cons.IH) (use Cons.prems in auto)
  ultimately show ?case by simp
qed simp

lemma select_scopes_cong [fundef_cong]:
  assumes "tables = tables'" "scope = scope'" "s = s'"
    and "\<And>u e. e \<in> set1_one_select (sn_body s') \<Longrightarrow> h u e = k u e"
  shows "select_scopes h tables scope s = select_scopes k tables' scope' s'"
proof (cases "sn_body s'")
  case (OneSelect d cs fr wh gb w)
  have "is_none_or (h u) wh = is_none_or (k u) wh" for u
    using assms(4) OneSelect by (cases wh) auto
  moreover have "joined_scopes h tables' u (fc_joins y) = joined_scopes k tables' u (fc_joins y)" if "fr = Some y" for u y
  proof (rule joined_scopes_cong)
    fix v j e
    assume "j \<in> set (fc_joins y)" "js_constraint j = Some (Jc_On e)"
    then have "j \<in> set (fc_joins y)" "e \<in> set1_joined_select_table j" by (auto intro: joined_select_table.set_sel)
    then have "e \<in> set1_from_clause y" by (cases y) auto
    then show "h v e = k v e" using OneSelect that by (intro assms(4)) simp
  qed
  ultimately show ?thesis
    using assms(1-3) OneSelect by (auto simp: select_scopes_def from_scopes_def split: option.splits)
qed (use assms in \<open>simp add: select_scopes_def\<close>)

section \<open>Expressions\<close>

definition binary_value :: "dbms \<Rightarrow> operator \<Rightarrow> logical_value \<Rightarrow> logical_value \<Rightarrow> logical_value" where
  "binary_value d op l r =
     (let t = truth (sql_of d (\<lambda>_. LV_Null)) in
      case op of
        Op_And \<Rightarrow> of_truth (and3 (t l) (t r))
      | Op_Or \<Rightarrow> of_truth (or3 (t l) (t r))
      | Op_Is \<Rightarrow> LV_Boolean (l = r)
      | Op_Concat \<Rightarrow> db_concat d l r
      | _ \<Rightarrow> db_compare d op l r)"

definition is_true :: "dbms \<Rightarrow> logical_value \<Rightarrow> bool" where
  "is_true d v = (truth (sql_of d (\<lambda>_. LV_Null)) v = Some True)"

definition literal_value :: "dbms \<Rightarrow> literal_node \<Rightarrow> logical_value" where
  "literal_value d l = (case l of
       Lit_Numeric t \<Rightarrow> db_numeric d t
     | Lit_True \<Rightarrow> LV_Boolean True
     | Lit_False \<Rightarrow> LV_Boolean False
     | _ \<Rightarrow> LV_Null)"

text \<open>The window of a call and the limit of a select are smaller than the expression.\<close>

lemma window_parts_smaller:
  assumes "ft_over tail = Some (Over_Window b partition_by order_by fr)"
  shows "x \<in> set partition_by \<Longrightarrow> size x \<le> size_function_tail size tail"
    and "y \<in> set order_by \<Longrightarrow> size (sc_expr y) \<le> size_function_tail size tail"
proof -
  obtain filter where t: "tail = FunctionTail filter (Some (Over_Window b partition_by order_by fr))"
    using assms by (cases tail) auto
  show "size x \<le> size_function_tail size tail" if "x \<in> set partition_by"
    using that by (intro size_tail [where f = size]) (simp add: t)
  show "size (sc_expr y) \<le> size_function_tail size tail" if "y \<in> set order_by"
    using that by (intro size_tail [where f = size]) (auto simp: t intro!: bexI [of _ y] sorted_column.set_sel)
qed

lemma limit_smaller: "sn_limit s = Some l \<Longrightarrow> size (lm_expr l) < size s"
  by (rule select_parts_smaller(7)) (auto intro: limit.set_sel)

function eval_ast :: "dbms \<Rightarrow> (string option \<Rightarrow> logical_value) \<Rightarrow> tables \<Rightarrow> scope \<Rightarrow> expr \<Rightarrow> logical_value" where
  "eval_ast d b tables scope e = (case e of
       E_Literal l \<Rightarrow> literal_value d l
     | E_Id n \<Rightarrow> (case scope [] of None \<Rightarrow> LV_Null | Some row \<Rightarrow> row (name_str n))
     | E_Qualified q n \<Rightarrow> (case scope (name_str q) of None \<Rightarrow> LV_Null | Some row \<Rightarrow> row (name_str n))
     | E_Variable v _ \<Rightarrow> b v
     | E_Parenthesized es \<Rightarrow> (case es of [x] \<Rightarrow> eval_ast d b tables scope x | _ \<Rightarrow> LV_Null)
     | E_Exists s \<Rightarrow> LV_Boolean (select_scopes (\<lambda>u x. is_true d (eval_ast d b tables u x)) tables scope s \<noteq> [] \<and>
         (case sn_limit s of None \<Rightarrow> True | Some l \<Rightarrow> eval_ast d b tables scope (lm_expr l) \<noteq> LV_Int64 0))
     | E_Unary op x \<Rightarrow>
         (case op of
            Uo_Not \<Rightarrow> of_truth (map_option HOL.Not (truth (sql_of d (\<lambda>_. LV_Null)) (eval_ast d b tables scope x)))
          | Uo_Negative \<Rightarrow> db_negate d (eval_ast d b tables scope x)
          | Uo_Other \<Rightarrow> LV_Null)
     | E_Cast x t \<Rightarrow> (case t of None \<Rightarrow> LV_Null | Some t \<Rightarrow> db_cast d (ty_name t) (eval_ast d b tables scope x))
     | E_Case None pairs els \<Rightarrow>
         first_true (sql_of d (\<lambda>_. LV_Null)) (map (\<lambda>p. (eval_ast d b tables scope (fst p), eval_ast d b tables scope (snd p))) pairs)
           (case els of None \<Rightarrow> LV_Null | Some x \<Rightarrow> eval_ast d b tables scope x)
     | E_FunctionCall n _ arguments _ _ tail \<Rightarrow>
         (case ft_over tail of
            None \<Rightarrow> db_function d (name_str n) (map (eval_ast d b tables scope) arguments)
          | Some (Over_Window _ partition_by order_by _) \<Rightarrow>
              db_row_number d (map (eval_ast d b tables scope) partition_by)
                (map (\<lambda>x. eval_ast d b tables scope (sc_expr x)) order_by)
          | Some (Over_Name _) \<Rightarrow> LV_Null)
     | E_FunctionCallStar n tail \<Rightarrow> db_count d
     | E_Binary l op r \<Rightarrow> binary_value d op (eval_ast d b tables scope l) (eval_ast d b tables scope r)
     | E_InList x negated xs \<Rightarrow> db_in d (eval_ast d b tables scope x) (map (eval_ast d b tables scope) xs) negated
     | E_Like l False op r None \<Rightarrow> db_like d op (eval_ast d b tables scope l) (eval_ast d b tables scope r)
     | _ \<Rightarrow> LV_Null)"
  by pat_completeness auto
termination
  by (relation "measure (\<lambda>(d, b, tables, scope, e). size e)")
    (auto simp: termination_simp less_Suc_eq_le dest: mem_size_list [where f = size] select_parts_smaller(2) limit_smaller
      window_parts_smaller)

declare eval_ast.simps [simp del]

text \<open>The nodes the emitter builds, evaluated.\<close>

lemma name_str_quoted [simp]: "name_str (quoted_name v) = v"
  by (simp add: quoted_name_def)

lemma eval_ast_simps [simp]:
  "eval_ast d b tables scope (E_Literal l) = literal_value d l"
  "eval_ast d b tables scope (E_Id n) = (case scope [] of None \<Rightarrow> LV_Null | Some row \<Rightarrow> row (name_str n))"
  "eval_ast d b tables scope (E_Qualified q n) = (case scope (name_str q) of None \<Rightarrow> LV_Null | Some row \<Rightarrow> row (name_str n))"
  "eval_ast d b tables scope (E_Variable v i) = b v"
  "eval_ast d b tables scope (parenthesized x) = eval_ast d b tables scope x"
  "eval_ast d b tables scope (E_Binary x op y) = binary_value d op (eval_ast d b tables scope x) (eval_ast d b tables scope y)"
  "eval_ast d b tables scope (E_Like x False lo y None) = db_like d lo (eval_ast d b tables scope x) (eval_ast d b tables scope y)"
  "eval_ast d b tables scope (E_InList x negated xs) =
     db_in d (eval_ast d b tables scope x) (map (eval_ast d b tables scope) xs) negated"
  "eval_ast d b tables scope (E_Unary Uo_Not x) =
     of_truth (map_option HOL.Not (truth (sql_of d (\<lambda>_. LV_Null)) (eval_ast d b tables scope x)))"
  "eval_ast d b tables scope (E_Unary Uo_Negative x) = db_negate d (eval_ast d b tables scope x)"
  "eval_ast d b tables scope (E_Cast x (Some t)) = db_cast d (ty_name t) (eval_ast d b tables scope x)"
  "eval_ast d b tables scope (call f xs) = db_function d f (map (eval_ast d b tables scope) xs)"
  "eval_ast d b tables scope (E_FunctionCallStar n tail) = db_count d"
  "eval_ast d b tables scope (E_Case None pairs els) =
     first_true (sql_of d (\<lambda>_. LV_Null)) (map (\<lambda>p. (eval_ast d b tables scope (fst p), eval_ast d b tables scope (snd p))) pairs)
       (case els of None \<Rightarrow> LV_Null | Some x \<Rightarrow> eval_ast d b tables scope x)"
  "eval_ast d b tables scope (E_FunctionCall n ds xs ob wg (FunctionTail fl (Some (Over_Window bs ps os fr)))) =
     db_row_number d (map (eval_ast d b tables scope) ps) (map (\<lambda>x. eval_ast d b tables scope (sc_expr x)) os)"
  "eval_ast d b tables scope (E_Exists s) =
     LV_Boolean (select_scopes (\<lambda>u x. is_true d (eval_ast d b tables u x)) tables scope s \<noteq> [] \<and>
       (case sn_limit s of None \<Rightarrow> True | Some l \<Rightarrow> eval_ast d b tables scope (lm_expr l) \<noteq> LV_Int64 0))"
  by (simp_all add: eval_ast.simps [of d b tables scope] parenthesized_def call_def no_tail_def)

lemma truth_sql_of: "truth (sql_of d x) v = truth (sql_of d y) v"
  by (cases v) (simp_all add: sql_of_def)

lemma first_true_sql_of: "first_true (sql_of d x) bs e = first_true (sql_of d y) bs e"
  by (induction bs) (auto simp: truth_sql_of [of d x _ y])

end
