(* ===== verification/Sql_Emit_Laws.thy ===== *)
theory Sql_Emit_Laws
  imports Sql_Meaning
begin

text \<open>
  The emitter keeps the meaning of what it emits (\<^verbatim>\<open>src/crates/policysql-sqlite/src/lib.rs\<close>): the tree of an
  expression, evaluated on the database with the parameters that are bound to the statement, has the
  value of the bound expression, and so have the rows of a select. The proof goes over the emitter's
  state with the accumulator interface: the server parameters only ever grow, by fresh names.
\<close>

section \<open>Steps that extend\<close>

context accumulator
begin

lemma extends_one:
  assumes "extends P f" and "\<And>u x. P u x \<Longrightarrow> Q u (k x)"
  shows "extends Q (\<lambda>s. try_ok (f s) (\<lambda>(x, s). Inr (k x, s)))"
  by (rule extends_bind [OF assms(1)]) (rule extends_return, use assms(2) in blast)

lemma extends_two:
  assumes "extends P f" and "extends R g" and "\<And>u x y. P u x \<Longrightarrow> R u y \<Longrightarrow> Q u (k x y)"
  shows "extends Q (\<lambda>s. try_ok (f s) (\<lambda>(x, s). try_ok (g s) (\<lambda>(y, s). Inr (k x y, s))))"
proof (rule extends_bind [OF assms(1)])
  fix x
  show "extends (\<lambda>u z. P u x \<longrightarrow> Q u z) (\<lambda>s. try_ok (g s) (\<lambda>(y, s). Inr (k x y, s)))"
    by (rule extends_one [OF assms(2)]) (use assms(3) in blast)
qed

lemma extends_guard: "(p \<Longrightarrow> extends Q f) \<Longrightarrow> extends Q (\<lambda>s. if p then f s else Inl e)"
  by (cases p) (simp_all add: extends_fail)

lemma extends_ok_or:
  assumes "\<And>x. y = Some x \<Longrightarrow> extends Q (k x)"
  shows "extends Q (\<lambda>s. try_ok (ok_or e y) (\<lambda>x. k x s))"
  using assms by (cases y) (simp_all add: extends_fail)

end

section \<open>The emitter's state\<close>

definition literal_name :: "nat \<Rightarrow> string" where
  "literal_name k = SERVER_PARAMETER_PREFIX @ ''literal_'' @ show_nat k"

definition reserved_names :: "(string \<times> logical_value) list \<Rightarrow> bool" where
  "reserved_names m = (\<forall>n v. bt_get m n = Some v \<longrightarrow> starts_with SERVER_PARAMETER_PREFIX n)"

definition holds_all :: "(string \<times> logical_value) list \<Rightarrow> (string \<times> logical_value) list \<Rightarrow> bool" where
  "holds_all m m' = (\<forall>n v. bt_get m n = Some v \<longrightarrow> bt_get m' n = Some v)"

definition emit_ok :: "(nat \<times> string) list \<Rightarrow> server_values \<Rightarrow> emit_state \<Rightarrow> bool" where
  "emit_ok al sv s = (es_aliases s = al \<and> reserved_names (es_server_parameters s) \<and> holds_all sv (es_server_parameters s) \<and>
     (\<forall>k. es_next_literal s \<le> k \<longrightarrow> bt_get (es_server_parameters s) (literal_name k) = None))"

definition emit_le :: "emit_state \<Rightarrow> emit_state \<Rightarrow> bool" where
  "emit_le s t = (holds_all (es_server_parameters s) (es_server_parameters t) \<and>
     (reserved_names (es_server_parameters s) \<longrightarrow> reserved_names (es_server_parameters t)))"

interpretation em: accumulator "emit_ok al sv" emit_le for al sv
  by unfold_locales (auto simp: emit_le_def holds_all_def)

section \<open>Meaning\<close>

text \<open>A scope of the emitted statement and the rows of the resources in it.\<close>

definition related :: "catalog \<Rightarrow> (nat \<times> string) list \<Rightarrow> env \<Rightarrow> scope \<Rightarrow> bool" where
  "related c al env scope = (\<forall>r a. bt_get al r = Some a \<longrightarrow> env r = map_option (lrow c r) (scope a))"

definition separate :: "(nat \<times> string) list \<Rightarrow> bool" where
  "separate al = (\<forall>r r' a. bt_get al r = Some a \<longrightarrow> bt_get al r' = Some a \<longrightarrow> r = r')"

lemma related_update:
  assumes "related c al env scope" "separate al" "bt_get al r = Some a"
  shows "related c al (env(r \<mapsto> lrow c r row)) (scope(a \<mapsto> row))"
  using assms by (auto simp: related_def separate_def)

lemma lrow_null: "lrow c r (\<lambda>_. LV_Null) = null_row"
  by (auto simp: lrow_def null_row_def fun_eq_iff split: option.splits)

text \<open>What the database reads as a number: the digits of a 64-bit integer, and its sign.\<close>

definition reads_integers :: "dbms \<Rightarrow> bool" where
  "reads_integers d = (\<forall>n. n < 2 ^ 63 \<longrightarrow> db_numeric d (show_nat n) = LV_Int64 (int n) \<and>
     db_negate d (LV_Int64 (int n)) = LV_Int64 (- int n))"

definition tree_means :: "catalog \<Rightarrow> (nat \<times> string) list \<Rightarrow> server_values \<Rightarrow> emit_state \<Rightarrow> bound_expr \<Rightarrow> expr \<Rightarrow> bool" where
  "tree_means c al sv u e x = (\<forall>d clients tables env scope. reads_integers d \<longrightarrow> related c al env scope \<longrightarrow>
     eval_ast d (bound_values (es_server_parameters u) clients) tables scope x = eval (sql_of d clients) sv (logical c tables) env e)"

text \<open>The expressions whose meaning the database's rules determine: integers of 64 bits and no
  floating-point literal, whose printed digits may read as an integer; parameters with the names the
  binder and the policy compiler give them; \<open>EXISTS\<close> in the one form the binder gives it.\<close>

definition plain_literal :: "logical_value \<Rightarrow> bool" where
  "plain_literal v = (case v of LV_Number _ \<Rightarrow> False | LV_Int64 i \<Rightarrow> \<bar>i\<bar> < 2 ^ 63 | _ \<Rightarrow> True)"

definition plain_limit :: "bound_expr option \<Rightarrow> bool" where
  "plain_limit l = is_none_or (\<lambda>e. case e of Literal (LV_Int64 i) \<Rightarrow> \<bar>i\<bar> < 2 ^ 63 | _ \<Rightarrow> False) l"

fun plain :: "server_values \<Rightarrow> bound_expr \<Rightarrow> bool" where
  "plain sv (Column c) = True"
| "plain sv (ClientParameter n t) = (\<not> starts_with SERVER_PARAMETER_PREFIX n)"
| "plain sv (ServerParameter n t) = bt_has sv n"
| "plain sv (Literal v) = plain_literal v"
| "plain sv (Equal l r) = (plain sv l \<and> plain sv r)"
| "plain sv (NotEqual l r) = (plain sv l \<and> plain sv r)"
| "plain sv (Less l r) = (plain sv l \<and> plain sv r)"
| "plain sv (LessEqual l r) = (plain sv l \<and> plain sv r)"
| "plain sv (Greater l r) = (plain sv l \<and> plain sv r)"
| "plain sv (GreaterEqual l r) = (plain sv l \<and> plain sv r)"
| "plain sv (And l r) = (plain sv l \<and> plain sv r)"
| "plain sv (Or l r) = (plain sv l \<and> plain sv r)"
| "plain sv (Not e) = plain sv e"
| "plain sv (IsNull e) = plain sv e"
| "plain sv (In e vs negated) = (plain sv e \<and> (\<forall>v \<in> set vs. plain sv v))"
| "plain sv (Like l r) = (plain sv l \<and> plain sv r)"
| "plain sv (Glob l r) = (plain sv l \<and> plain sv r)"
| "plain sv (Least l r) = (plain sv l \<and> plain sv r)"
| "plain sv (Concat l r) = (plain sv l \<and> plain sv r)"
| "plain sv (CastText e) = plain sv e"
| "plain sv (Case bs els t) = ((\<forall>b \<in> set bs. plain sv (fst b) \<and> plain sv (snd b)) \<and> (case els of None \<Rightarrow> True | Some e \<Rightarrow> plain sv e))"
| "plain sv (ConditionalOutput v w) = (plain sv v \<and> plain sv w)"
| "plain sv (Exists (BoundSelect r al js ps pr gb hv ob li off)) =
     (js = [] \<and> gb = [] \<and> hv = None \<and> off = None \<and> plain_limit li \<and> (\<forall>d \<in> set ob. plain sv (od_expression d)) \<and>
      (case pr of None \<Rightarrow> True | Some e \<Rightarrow> plain sv e) \<and> (\<forall>p \<in> set ps. plain sv (pj_expression p)))"
| "plain sv (CountAll r) = True"
| "plain sv (ScalarFunction f xs t) = (\<forall>x \<in> set xs. plain sv x)"
| "plain sv (RowNumber r cs ob) = (\<forall>d \<in> set ob. plain sv (od_expression d))"

section \<open>Leaves\<close>

lemma column_means: "em.extends al sv (\<lambda>u x. tree_means c al sv u (Column column) x) (emit_column c column)"
  unfolding emit_column_def
proof (rule em.extendsI)
  fix s x t
  assume "emit_ok al sv s" and run: "try_ok (ok_or EE_UnknownResource (resource_by_id c (cid_resource (bc_id column)))) (\<lambda>resource.
     try_ok (ok_or EE_UnknownColumn (column_by_id resource (bc_id column))) (\<lambda>descriptor.
     try_ok (ok_or EE_UnknownResource (bt_get (es_aliases s) (cid_resource (bc_id column)))) (\<lambda>alias.
       Inr (if alias = [] then E_Id (quoted_name (cd_name descriptor))
            else E_Qualified (quoted_name alias) (quoted_name (cd_name descriptor)), s)))) = Inr (x, t)"
  then obtain resource descriptor al_name where r: "resource_by_id c (cid_resource (bc_id column)) = Some resource"
      "column_by_id resource (bc_id column) = Some descriptor" "bt_get al (cid_resource (bc_id column)) = Some al_name"
    and x: "x = (if al_name = [] then E_Id (quoted_name (cd_name descriptor)) else E_Qualified (quoted_name al_name) (quoted_name (cd_name descriptor)))"
    and t: "t = s"
    by (auto simp: result_simps emit_ok_def)
  have "tree_means c al sv u (Column column) x" for u
    using r by (cases "bc_id column") (auto simp: tree_means_def x related_def env_get_def lrow_def split: option.splits)
  with \<open>emit_ok al sv s\<close> t show "emit_ok al sv t \<and> emit_le s t \<and> (\<forall>u. emit_le t u \<longrightarrow> tree_means c al sv u (Column column) x)"
    using em.le_refl by blast
qed

lemma parameter_emitted:
  assumes "emit_ok al sv s" "emit_parameter n s = Inr (x, t)"
  shows "emit_ok al sv t" "emit_le s t" "es_server_parameters t = es_server_parameters s" "\<exists>i. x = E_Variable (Some ('':'' @ n)) i"
  using assms by (auto simp: emit_parameter_def Let_def result_simps emit_ok_def emit_le_def holds_all_def split: option.splits)

lemma client_parameter_means:
  assumes "\<not> starts_with SERVER_PARAMETER_PREFIX n"
  shows "em.extends al sv (\<lambda>u x. tree_means c al sv u (ClientParameter n t) x) (emit_parameter n)"
proof (rule em.extendsI)
  fix s x s'
  assume s: "emit_ok al sv s" and run: "emit_parameter n s = Inr (x, s')"
  note p = parameter_emitted [OF s run]
  have "tree_means c al sv u (ClientParameter n t) x" if "emit_le s' u" for u
  proof -
    have "bt_get (es_server_parameters u) n = None"
      using that p(1) assms by (auto simp: emit_le_def emit_ok_def reserved_names_def)
    then show ?thesis using p(4) by (auto simp: tree_means_def bound_values_def sql_of_def)
  qed
  with p show "emit_ok al sv s' \<and> emit_le s s' \<and> (\<forall>u. emit_le s' u \<longrightarrow> tree_means c al sv u (ClientParameter n t) x)" by blast
qed

lemma server_parameter_means:
  assumes "bt_has sv n"
  shows "em.extends al sv (\<lambda>u x. tree_means c al sv u (ServerParameter n t) x) (emit_parameter n)"
proof (rule em.extendsI)
  fix s x s'
  assume s: "emit_ok al sv s" and run: "emit_parameter n s = Inr (x, s')"
  note p = parameter_emitted [OF s run]
  obtain v where v: "bt_get sv n = Some v" using assms by (auto simp: bt_get_has)
  have "tree_means c al sv u (ServerParameter n t) x" if "emit_le s' u" for u
  proof -
    have "bt_get (es_server_parameters u) n = Some v"
      using that p(1) v by (auto simp: emit_le_def emit_ok_def holds_all_def)
    then show ?thesis using p(4) v by (auto simp: tree_means_def bound_values_def)
  qed
  with p show "emit_ok al sv s' \<and> emit_le s s' \<and> (\<forall>u. emit_le s' u \<longrightarrow> tree_means c al sv u (ServerParameter n t) x)" by blast
qed

lemma literal_suffix_ok: "from_trusted_suffix (''literal_'' @ show_nat k) = Inr (literal_name k)"
  using show_nat_digits [of k]
  by (auto simp: from_trusted_suffix_def canonical_key_def literal_name_def is_ascii_lowercase_def byte_def)

lemma digit_inj: "a < 10 \<Longrightarrow> b < 10 \<Longrightarrow> char_of (48 + a) = (char_of (48 + b) :: char) \<Longrightarrow> a = (b :: nat)"
  using byte_char_of [of "48 + a"] byte_char_of [of "48 + b"] by simp

lemma show_nat_inj: "show_nat n = show_nat m \<longleftrightarrow> n = m"
proof (induction n arbitrary: m rule: show_nat.induct)
  case (1 n)
  show ?case
  proof
    assume same: "show_nat n = show_nat m"
    show "n = m"
    proof (cases "n < 10")
      case True
      then have "m < 10" using same show_nat_nonempty [of "m div 10"]
        by (cases "m < 10") (auto simp: show_nat.simps [of m] show_nat.simps [of n])
      with True same show ?thesis by (auto simp: show_nat.simps [of m] show_nat.simps [of n] intro: digit_inj)
    next
      case False
      then have m: "\<not> m < 10" using same by (cases "m < 10") (auto simp: show_nat.simps [of m] show_nat.simps [of n])
      with False same have "show_nat (n div 10) = show_nat (m div 10)" "n mod 10 = m mod 10"
        by (auto simp: show_nat.simps [of m] show_nat.simps [of n] intro: digit_inj)
      with 1 [OF False] show ?thesis by (metis div_mult_mod_eq)
    qed
  qed simp
qed

lemma literal_name_inj: "literal_name j = literal_name k \<longleftrightarrow> j = k"
  by (simp add: literal_name_def show_nat_inj)

text \<open>A literal name that is free is taken at once.\<close>

lemma literal_parameter_fresh:
  assumes "bt_get (es_server_parameters s) (literal_name (es_next_literal s)) = None" "es_next_literal s < u64_max"
  shows "literal_parameter v s = emit_parameter (literal_name (es_next_literal s))
    (s\<lparr>es_next_literal := es_next_literal s + 1,
       es_server_parameters := bt_insert (literal_name (es_next_literal s)) v (es_server_parameters s)\<rparr>)"
  using assms by (subst literal_parameter.simps)
    (simp add: literal_suffix_ok [simplified] checked_add_def Let_def bt_get_has)

lemma literal_parameter_full: "u64_max \<le> es_next_literal s \<Longrightarrow> literal_parameter v s = Inl TooManyLiterals"
  by (subst literal_parameter.simps) (simp add: checked_add_def Let_def)

lemma literal_parameter_means:
  "em.extends al sv (\<lambda>u x. tree_means c al sv u (Literal v) x) (literal_parameter v)"
proof (rule em.extendsI)
  fix s x s'
  assume s: "emit_ok al sv s" and run: "literal_parameter v s = Inr (x, s')"
  let ?n = "literal_name (es_next_literal s)"
  let ?t = "s\<lparr>es_next_literal := es_next_literal s + 1, es_server_parameters := bt_insert ?n v (es_server_parameters s)\<rparr>"
  have fresh: "bt_get (es_server_parameters s) ?n = None" using s by (simp add: emit_ok_def)
  have "es_next_literal s < u64_max" using run literal_parameter_full [of s v] by fastforce
  then have run': "emit_parameter ?n ?t = Inr (x, s')" using run literal_parameter_fresh [OF fresh] by simp
  have t: "emit_ok al sv ?t" "emit_le s ?t"
    using s fresh by (auto simp: emit_ok_def emit_le_def holds_all_def reserved_names_def literal_name_inj)
      (auto simp: literal_name_def starts_with_def)
  note p = parameter_emitted [OF t(1) run']
  have "tree_means c al sv u (Literal v) x" if "emit_le s' u" for u
  proof -
    have "bt_get (es_server_parameters u) ?n = Some v"
      using that p(3) by (auto simp: emit_le_def holds_all_def)
    then show ?thesis using p(4) by (auto simp: tree_means_def bound_values_def)
  qed
  with p t(2) show "emit_ok al sv s' \<and> emit_le s s' \<and> (\<forall>u. emit_le s' u \<longrightarrow> tree_means c al sv u (Literal v) x)"
    using em.le_trans by blast
qed

lemma literal_means:
  assumes "plain_literal v"
  shows "em.extends al sv (\<lambda>u x. tree_means c al sv u (Literal v) x) (emit_literal fmt v)"
proof (cases v)
  case (LV_Int64 i)
  show ?thesis
  proof (cases "i < 0")
    case True
    then have "eval_ast d b tables scope (E_Unary Uo_Negative (E_Literal (Lit_Numeric (show_nat (nat (- i)))))) = LV_Int64 i"
      if "reads_integers d" for d b tables scope
    proof -
      obtain n where n: "i = - int n" "n < 2 ^ 63"
      proof
        show "i = - int (nat (- i))" using True by simp
        show "nat (- i) < 2 ^ 63" using True assms LV_Int64 by (simp add: plain_literal_def)
      qed
      then have "db_numeric d (show_nat n) = LV_Int64 (int n)" "db_negate d (LV_Int64 (int n)) = LV_Int64 (- int n)"
        using that by (simp_all add: reads_integers_def)
      then show ?thesis by (simp add: n(1) literal_value_def)
    qed
    then show ?thesis
      using True LV_Int64 unfolding emit_literal_def by (auto simp: tree_means_def intro!: em.extends_return)
  next
    case False
    then have "eval_ast d b tables scope (E_Literal (Lit_Numeric (show_int i))) = LV_Int64 i"
      if "reads_integers d" for d b tables scope
      using that assms LV_Int64 by (auto simp: reads_integers_def literal_value_def plain_literal_def show_int_def)
    then show ?thesis
      using False LV_Int64 unfolding emit_literal_def by (auto simp: tree_means_def intro!: em.extends_return)
  qed
qed (use assms in \<open>simp_all add: emit_literal_def [abs_def] plain_literal_def literal_parameter_means\<close>,
    auto simp: tree_means_def literal_value_def intro!: em.extends_return)

section \<open>Expressions\<close>

text \<open>The same truth on both sides.\<close>

definition db_truth :: "dbms \<Rightarrow> logical_value \<Rightarrow> bool option" where
  "db_truth d v = truth (sql_of d (\<lambda>_. LV_Null)) v"

definition db_first :: "dbms \<Rightarrow> (logical_value \<times> logical_value) list \<Rightarrow> logical_value \<Rightarrow> logical_value" where
  "db_first d bs e = first_true (sql_of d (\<lambda>_. LV_Null)) bs e"

lemma truth_same: "truth (sql_of d clients) v = db_truth d v" "first_true (sql_of d clients) bs e = db_first d bs e"
  unfolding db_truth_def db_first_def by (rule truth_sql_of, rule first_true_sql_of)

lemma sql_of_simps [simp]:
  "sq_compare (sql_of d clients) op = (if op = CO_Like then db_like d Lo_Like else db_compare d (comparison_node op))"
  "sq_in (sql_of d clients) = db_in d" "sq_glob (sql_of d clients) = db_like d Lo_Glob"
  "sq_least (sql_of d clients) = (\<lambda>a b. db_function d ''MIN'' [a, b])" "sq_concat (sql_of d clients) = db_concat d"
  "sq_cast_text (sql_of d clients) = db_cast d ''TEXT''" "sq_function (sql_of d clients) f = db_function d (function_name f)"
  "sq_client (sql_of d clients) = clients" "sq_count (sql_of d clients) r = db_count d"
  "sq_row_number (sql_of d clients) r = db_row_number d"
  by (simp_all add: sql_of_def)

lemma trees_same:
  assumes "list_all2 (tree_means c al sv u) es xs" "reads_integers d" "related c al env scope"
  shows "map (eval_ast d (bound_values (es_server_parameters u) clients) tables scope) xs = map (eval (sql_of d clients) sv (logical c tables) env) es"
  using assms(1) by (induction rule: list_all2_induct) (use assms(2,3) in \<open>auto simp: tree_means_def\<close>)

lemma tree_optional:
  assumes "rel_option (tree_means c al sv u) e x" "reads_integers d" "related c al env scope"
  shows "(case x of None \<Rightarrow> LV_Null | Some x \<Rightarrow> eval_ast d (bound_values (es_server_parameters u) clients) tables scope x) =
    (case e of None \<Rightarrow> LV_Null | Some e \<Rightarrow> eval (sql_of d clients) sv (logical c tables) env e)"
  using assms by (cases rule: option.rel_cases) (auto simp: tree_means_def)

lemma optionally_extends:
  assumes "\<And>e. x = Some e \<Longrightarrow> em.extends al sv (\<lambda>u y. Q u e y) (f e)"
  shows "em.extends al sv (\<lambda>u y. rel_option (Q u) x y) (optionally f x)"
proof (cases x)
  case None
  then show ?thesis unfolding optionally_def by (auto intro!: em.extends_return)
next
  case (Some e)
  then show ?thesis unfolding optionally_def using em.extends_one [OF assms [OF Some], of "\<lambda>u y. rel_option (Q u) x y" Some]
    by simp
qed

text \<open>The parts of a select.\<close>

definition sorted_means :: "catalog \<Rightarrow> (nat \<times> string) list \<Rightarrow> server_values \<Rightarrow> emit_state \<Rightarrow> bound_order \<Rightarrow> expr sorted_column \<Rightarrow> bool" where
  "sorted_means c al sv u d x = (tree_means c al sv u (od_expression d) (sc_expr x) \<and> sc_order x = Some (sort_order_of (od_direction d)))"

definition projection_means :: "catalog \<Rightarrow> (nat \<times> string) list \<Rightarrow> server_values \<Rightarrow> emit_state \<Rightarrow> nat \<times> bound_projection \<Rightarrow>
  expr result_column list \<Rightarrow> bool" where
  "projection_means c al sv u = (\<lambda>(i, p) columns. \<exists>x. tree_means c al sv u (pj_expression p) x \<and> (case pj_expression p of
       ConditionalOutput _ w \<Rightarrow> \<exists>y. tree_means c al sv u w y \<and> columns = [Rc_Expr x (Some (alias_of (pj_output_name p))),
         Rc_Expr (truth_case y) (Some (alias_of (VISIBILITY_COLUMN_PREFIX @ show_nat i)))]
     | _ \<Rightarrow> columns = [Rc_Expr x (Some (alias_of (pj_output_name p)))]))"

definition join_means :: "catalog \<Rightarrow> (nat \<times> string) list \<Rightarrow> server_values \<Rightarrow> emit_state \<Rightarrow> bound_join \<Rightarrow>
  (expr, select_table) joined_select_table \<Rightarrow> bool" where
  "join_means c al sv u j x = (\<exists>resource a on. resource_by_id c (jn_resource j) = Some resource \<and> bt_get al (jn_resource j) = Some a \<and>
     tree_means c al sv u (jn_on j) on \<and> x = JoinedSelectTable (join_operator_of (jn_kind j))
       (St_Table (qualified_name_of (rd_source resource)) (Some (alias_of a)) False) (Some (Jc_On on)))"

definition group_means :: "catalog \<Rightarrow> (nat \<times> string) list \<Rightarrow> server_values \<Rightarrow> emit_state \<Rightarrow> bound_select \<Rightarrow> expr group_by option \<Rightarrow> bool" where
  "group_means c al sv u sel g = (case g of
       None \<Rightarrow> bs_group_by sel = [] \<and> bs_having sel = None
     | Some g \<Rightarrow> list_all2 (tree_means c al sv u) (map Column (bs_group_by sel)) (gb_exprs g) \<and>
         rel_option (tree_means c al sv u) (bs_having sel) (gb_having g))"

definition limit_means :: "catalog \<Rightarrow> (nat \<times> string) list \<Rightarrow> server_values \<Rightarrow> emit_state \<Rightarrow> bound_select \<Rightarrow> expr limit option \<Rightarrow> bool" where
  "limit_means c al sv u sel l = (case l of
       None \<Rightarrow> bs_limit sel = None \<and> bs_offset sel = None
     | Some l \<Rightarrow> (\<exists>e. bs_limit sel = Some e \<and> tree_means c al sv u e (lm_expr l)) \<and>
         rel_option (tree_means c al sv u) (bs_offset sel) (lm_offset l))"

definition select_means :: "catalog \<Rightarrow> (nat \<times> string) list \<Rightarrow> server_values \<Rightarrow> string \<Rightarrow> emit_state \<Rightarrow> bound_select \<Rightarrow> select \<Rightarrow> bool" where
  "select_means c al sv source u sel s = (\<exists>a columns joins wh gb ob li. bt_get al (bs_resource sel) = Some a \<and>
     s = select_statement (concat columns)
       (Some (FromClause (St_Table (qualified_name_of source) (Some (alias_of a)) False) joins)) wh gb ob li \<and>
     list_all2 (projection_means c al sv u) (enumerate 0 (bs_projections sel)) columns \<and>
     list_all2 (join_means c al sv u) (bs_joins sel) joins \<and> rel_option (tree_means c al sv u) (bs_predicate sel) wh \<and>
     group_means c al sv u sel gb \<and> list_all2 (sorted_means c al sv u) (bs_order_by sel) ob \<and> limit_means c al sv u sel li)"

lemma sorted_extends:
  assumes "em.extends al sv (\<lambda>u x. tree_means c al sv u (od_expression d) x) (f (od_expression d))"
  shows "em.extends al sv (\<lambda>u x. sorted_means c al sv u d x) (emit_sorted f d)"
  unfolding emit_sorted_def by (rule em.extends_one [OF assms]) (simp add: sorted_means_def)

lemma push_column_extends:
  assumes "em.extends al sv Q f"
  shows "em.extends al sv Q (\<lambda>s. f (push_column a b s))"
proof (rule em.extendsI)
  fix s y t
  assume s: "emit_ok al sv s" and run: "f (push_column a b s) = Inr (y, t)"
  have "emit_ok al sv (push_column a b s)" and le: "emit_le (push_column a b s) t = emit_le s t"
    using s by (simp_all add: push_column_def emit_ok_def emit_le_def)
  from em.extendsD [OF assms this(1) run] le show "emit_ok al sv t \<and> emit_le s t \<and> (\<forall>u. emit_le t u \<longrightarrow> Q u y)" by blast
qed

lemma projection_extends:
  assumes "\<And>e. e \<in> projection_parts p \<Longrightarrow> em.extends al sv (\<lambda>u x. tree_means c al sv u e x) (f e)"
  shows "em.extends al sv (\<lambda>u columns. projection_means c al sv u (i, p) columns) (emit_projection f c (i, p))"
proof -
  have e: "em.extends al sv (\<lambda>u x. tree_means c al sv u (pj_expression p) x) (f (pj_expression p))"
    by (rule assms) (simp add: projection_parts_def)
  show ?thesis
  proof (cases "\<exists>v w. pj_expression p = ConditionalOutput v w")
    case True
    then obtain v w where p: "pj_expression p = ConditionalOutput v w" by blast
    have w: "em.extends al sv (\<lambda>u x. tree_means c al sv u w x) (f w)"
      by (rule assms) (simp add: projection_parts_def p)
    show ?thesis
      unfolding emit_projection_def projection_means_def prod.case Let_def p bound_expr.case
      by (rule em.extends_bind [OF e [unfolded p]], rule push_column_extends, rule push_column_extends, rule em.extends_one [OF w]) blast
  next
    case False
    have case_other: "(case e of ConditionalOutput _ w \<Rightarrow> F w | _ \<Rightarrow> G) = G" if "\<nexists>v w. e = ConditionalOutput v w"
      for e and F :: "bound_expr \<Rightarrow> 'z" and G
      using that by (cases e) auto
    show ?thesis
      unfolding emit_projection_def projection_means_def prod.case Let_def case_other [OF False]
      by (rule em.extends_bind [OF e], rule push_column_extends, rule em.extends_return) blast
  qed
qed

lemma projections_extend:
  assumes "\<And>p e. p \<in> set ps \<Longrightarrow> e \<in> projection_parts p \<Longrightarrow> em.extends al sv (\<lambda>u x. tree_means c al sv u e x) (f e)"
  shows "em.extends al sv (\<lambda>u columns. \<exists>cs. columns = concat cs \<and> list_all2 (projection_means c al sv u) (enumerate 0 ps) cs)
    (emit_projections f c ps)"
  unfolding emit_projections_def
proof (rule em.extends_one)
  show "em.extends al sv (\<lambda>u cs. list_all2 (projection_means c al sv u) (enumerate 0 ps) cs)
      (traverse_st (emit_projection f c) (enumerate 0 ps))"
  proof (rule em.extends_traverse)
    fix x
    assume "x \<in> set (enumerate 0 ps)"
    then have "snd x \<in> snd ` set (enumerate 0 ps)" by (rule imageI)
    then have "snd x \<in> set ps" by (simp only: list.set_map [symmetric] map_snd_enumerate)
    then show "em.extends al sv (\<lambda>u y. projection_means c al sv u x y) (emit_projection f c x)"
      using projection_extends [of "snd x" al sv c f "fst x"] assms by simp
  qed
qed blast

lemma join_extends:
  assumes "em.extends al sv (\<lambda>u x. tree_means c al sv u (jn_on j) x) (f (jn_on j))"
  shows "em.extends al sv (\<lambda>u x. join_means c al sv u j x) (emit_join f c j)"
proof (rule em.extendsI)
  fix s x t
  assume s: "emit_ok al sv s" and "emit_join f c j s = Inr (x, t)"
  then obtain resource a on where "resource_by_id c (jn_resource j) = Some resource" "bt_get al (jn_resource j) = Some a"
    "f (jn_on j) s = Inr (on, t)" "x = JoinedSelectTable (join_operator_of (jn_kind j))
       (St_Table (qualified_name_of (rd_source resource)) (Some (alias_of a)) False) (Some (Jc_On on))"
    by (auto simp: emit_join_def result_simps emit_ok_def)
  with em.extendsD [OF assms s this(3)] show "emit_ok al sv t \<and> emit_le s t \<and> (\<forall>u. emit_le t u \<longrightarrow> join_means c al sv u j x)"
    by (auto simp: join_means_def)
qed

lemma columns_extend:
  "em.extends al sv (\<lambda>u xs. list_all2 (tree_means c al sv u) (map Column cs) xs) (traverse_st (emit_column c) cs)"
  using em.extends_traverse [of cs al sv "\<lambda>u column. tree_means c al sv u (Column column)" "emit_column c"] column_means
  by (simp add: list_all2_map1)

lemma group_extends:
  assumes "\<And>e. bs_having sel = Some e \<Longrightarrow> em.extends al sv (\<lambda>u x. tree_means c al sv u e x) (f e)"
  shows "em.extends al sv (\<lambda>u x. group_means c al sv u sel x) (emit_group f c sel)"
proof (cases "bs_group_by sel = [] \<and> bs_having sel = None")
  case True
  then show ?thesis unfolding emit_group_def by (auto simp: group_means_def intro!: em.extends_return)
next
  case False
  have "em.extends al sv (\<lambda>u x. group_means c al sv u sel x)
      (\<lambda>s. try_ok (traverse_st (emit_column c) (bs_group_by sel) s) (\<lambda>(exprs, s).
        try_ok (optionally f (bs_having sel) s) (\<lambda>(having, s). Inr (Some (GroupBy exprs having), s))))"
    by (rule em.extends_two [OF columns_extend optionally_extends [OF assms]]) (simp_all add: group_means_def)
  then show ?thesis using False unfolding emit_group_def [abs_def] by (simp only: if_False)
qed

lemma limit_extends:
  assumes "\<And>e. e \<in> set_option (bs_limit sel) \<union> set_option (bs_offset sel) \<Longrightarrow> em.extends al sv (\<lambda>u x. tree_means c al sv u e x) (f e)"
  shows "em.extends al sv (\<lambda>u x. limit_means c al sv u sel x) (emit_limit f sel)"
proof (cases "bs_limit sel")
  case None
  then show ?thesis
    unfolding emit_limit_def by (cases "bs_offset sel") (auto simp: limit_means_def intro!: em.extends_return em.extends_fail)
next
  case (Some l)
  have "em.extends al sv (\<lambda>u x. limit_means c al sv u sel x) (\<lambda>s. try_ok (f l s) (\<lambda>(l, s).
      try_ok (optionally f (bs_offset sel) s) (\<lambda>(off, s). Inr (Some (Limit l off), s))))"
    by (rule em.extends_two [OF assms optionally_extends [OF assms]]) (simp_all add: limit_means_def Some)
  then show ?thesis unfolding emit_limit_def [abs_def] Some by simp
qed

lemma alias_extends:
  assumes "\<And>a. bt_get al r = Some a \<Longrightarrow> em.extends al sv Q (k a)"
  shows "em.extends al sv Q (\<lambda>s. try_ok (ok_or e (bt_get (es_aliases s) r)) (\<lambda>a. k a s))"
proof (rule em.extendsI)
  fix s y t
  assume s: "emit_ok al sv s" and "try_ok (ok_or e (bt_get (es_aliases s) r)) (\<lambda>a. k a s) = Inr (y, t)"
  then obtain a where "bt_get al r = Some a" "k a s = Inr (y, t)" by (auto simp: result_simps emit_ok_def)
  with em.extendsD [OF assms s] show "emit_ok al sv t \<and> emit_le s t \<and> (\<forall>u. emit_le t u \<longrightarrow> Q u y)" by blast
qed

lemma select_node_extends:
  assumes parts: "\<And>e. e \<in> select_parts sel \<Longrightarrow> em.extends al sv (\<lambda>u x. tree_means c al sv u e x) (f e)"
  shows "em.extends al sv (\<lambda>u s. select_means c al sv source u sel s) (select_node f c source sel)"
proof -
  have joins: "em.extends al sv (\<lambda>u js. list_all2 (join_means c al sv u) (bs_joins sel) js) (traverse_st (emit_join f c) (bs_joins sel))"
    by (intro em.extends_traverse join_extends parts) (auto simp: select_parts_def)
  have group: "em.extends al sv (\<lambda>u x. group_means c al sv u sel x) (emit_group f c sel)"
    by (intro group_extends parts) (auto simp: select_parts_def)
  have order: "em.extends al sv (\<lambda>u xs. list_all2 (sorted_means c al sv u) (bs_order_by sel) xs) (traverse_st (emit_sorted f) (bs_order_by sel))"
    by (intro em.extends_traverse sorted_extends parts) (auto simp: select_parts_def)
  have limit: "em.extends al sv (\<lambda>u x. limit_means c al sv u sel x) (emit_limit f sel)"
    by (intro limit_extends parts) (auto simp: select_parts_def)
  have columns: "em.extends al sv (\<lambda>u columns. \<exists>cs. columns = concat cs \<and>
      list_all2 (projection_means c al sv u) (enumerate 0 (bs_projections sel)) cs) (emit_projections f c (bs_projections sel))"
    by (intro projections_extend parts) (auto simp: select_parts_def)
  have pr: "em.extends al sv (\<lambda>u x. rel_option (tree_means c al sv u) (bs_predicate sel) x) (optionally f (bs_predicate sel))"
    by (intro optionally_extends parts) (auto simp: select_parts_def)
  have "em.extends al sv (\<lambda>u s. select_means c al sv source u sel s) (\<lambda>s.
      try_ok (ok_or EE_UnknownResource (bt_get (es_aliases s) (bs_resource sel))) (\<lambda>root_alias.
      try_ok (traverse_st (emit_join f c) (bs_joins sel) s) (\<lambda>(joins, s).
      try_ok (emit_group f c sel s) (\<lambda>(group_by, s).
      try_ok (traverse_st (emit_sorted f) (bs_order_by sel) s) (\<lambda>(order_by, s).
      try_ok (emit_limit f sel s) (\<lambda>(limit, s).
      try_ok (emit_projections f c (bs_projections sel) s) (\<lambda>(columns, s).
      try_ok (optionally f (bs_predicate sel) s) (\<lambda>(where_clause, s).
        Inr (select_statement columns
          (Some (FromClause (St_Table (qualified_name_of source) (Some (alias_of root_alias)) False) joins))
          where_clause group_by order_by limit, s)))))))))"
    by (rule alias_extends, rule em.extends_bind [OF joins], rule em.extends_bind [OF group], rule em.extends_bind [OF order],
        rule em.extends_bind [OF limit], rule em.extends_bind [OF columns], rule em.extends_bind [OF pr], rule em.extends_return)
      (unfold select_means_def, blast)
  then show ?thesis unfolding select_node_def [abs_def] by (cases "bs_projections sel = []") (simp_all only: if_True if_False em.extends_fail simp_thms)
qed

lemma plain_limit_iff: "plain_limit l \<longleftrightarrow> l = None \<or> (\<exists>i. l = Some (Literal (LV_Int64 i)) \<and> \<bar>i\<bar> < 2 ^ 63)"
proof (cases l)
  case (Some e)
  show ?thesis
  proof (cases e)
    case (Literal v)
    then show ?thesis using Some by (cases v) (simp_all add: plain_limit_def)
  qed (simp_all add: plain_limit_def Some)
qed (simp add: plain_limit_def)

lemma plain_parts:
  assumes "plain sv (Exists sel)" and "e \<in> select_parts sel"
  shows "plain sv e"
proof -
  obtain r al js ps pr gb hv ob li off where sel: "sel = BoundSelect r al js ps pr gb hv ob li off" by (cases sel)
  have w: "plain sv e" if "plain sv (pj_expression p)" "e \<in> projection_parts p" for p
    using that by (auto simp: projection_parts_def split: bound_expr.splits)
  show ?thesis
    using assms by (auto simp: sel select_parts_def plain_limit_iff plain_literal_def elem_set dest: w split: option.splits)
qed

text \<open>A nested select reads the rows its bound form reads.\<close>

lemma nested_scopes:
  assumes "bt_get al r = Some a" "separate al" "related c al env scope" "resource_by_id c r = Some resource" "reads_integers d"
    and "rel_option (tree_means c al sv u) pr wh"
  shows "select_scopes (\<lambda>u' x. is_true d (eval_ast d (bound_values (es_server_parameters u) clients) tables u' x)) tables scope
      (select_statement columns (Some (FromClause (St_Table (qualified_name_of (rd_source resource)) (Some (alias_of a)) False) [])) wh gb ob li) \<noteq> []
    \<longleftrightarrow> (\<exists>row \<in> set (logical c tables r). case pr of None \<Rightarrow> True
        | Some p \<Rightarrow> truth (sql_of d clients) (eval (sql_of d clients) sv (logical c tables) (env(r \<mapsto> row)) p) = Some True)"
proof -
  have row: "is_none_or (\<lambda>x. is_true d (eval_ast d (bound_values (es_server_parameters u) clients) tables (scope(a \<mapsto> row)) x)) wh \<longleftrightarrow>
      (case pr of None \<Rightarrow> True | Some p \<Rightarrow>
        truth (sql_of d clients) (eval (sql_of d clients) sv (logical c tables) (env(r \<mapsto> lrow c r row)) p) = Some True)" for row
    using assms(6) assms(5) related_update [OF assms(3,2,1), of row]
    by (cases rule: option.rel_cases) (auto simp: tree_means_def is_true_def truth_same)
  show ?thesis
    by (simp add: select_scopes_def select_statement_def from_scopes_def table_scan_def alias_of_def qualified_name_of_def
        qualified_single_def filter_empty_conv row logical_def assms(4))
qed

lemma exists_means:
  assumes "plain sv (Exists sel)" "separate al" "resource_by_id c (bs_resource sel) = Some resource"
    and "select_means c al sv (rd_source resource) u sel s"
  shows "tree_means c al sv u (Exists sel) (E_Exists s)"
proof -
  obtain r sal js ps pr gb hv ob li off where sel: "sel = BoundSelect r sal js ps pr gb hv ob li off" by (cases sel)
  obtain a columns wh g o' l where a: "bt_get al r = Some a" and s: "s = select_statement (concat columns)
      (Some (FromClause (St_Table (qualified_name_of (rd_source resource)) (Some (alias_of a)) False) [])) wh g o' l"
    and wh: "rel_option (tree_means c al sv u) pr wh" and l: "limit_means c al sv u sel l"
    using assms(1,4) by (auto simp: select_means_def sel)
  have limit: "(case sn_limit s of None \<Rightarrow> True
      | Some l \<Rightarrow> eval_ast d (bound_values (es_server_parameters u) clients) tables scope (lm_expr l) \<noteq> LV_Int64 0) \<longleftrightarrow>
      li \<noteq> Some (Literal (LV_Int64 0))" if "reads_integers d" "related c al env scope" for d clients tables scope env
    using l assms(1) that by (cases l) (auto simp: s select_statement_def limit_means_def sel plain_limit_iff tree_means_def)
  show ?thesis
    unfolding tree_means_def
  proof (intro allI impI)
    fix d clients tables env scope
    assume d: "reads_integers d" and rel: "related c al env scope"
    show "eval_ast d (bound_values (es_server_parameters u) clients) tables scope (E_Exists s) =
      eval (sql_of d clients) sv (logical c tables) env (Exists sel)"
      unfolding eval_ast_simps limit [OF d rel]
      using nested_scopes [OF a assms(2) rel assms(3) [unfolded sel bound_select.sel] d wh] by (simp add: sel s)
  qed
qed

lemma row_number_means:
  assumes "list_all2 (tree_means c al sv u) (map Column cs) xs" "list_all2 (sorted_means c al sv u) ob ys"
  shows "tree_means c al sv u (RowNumber r cs ob)
    (E_FunctionCall (Exact ''ROW_NUMBER'') False [] [] [] (FunctionTail None (Some (Over_Window False xs ys False))))"
  unfolding tree_means_def
proof (intro allI impI)
  fix d clients tables env scope
  assume a: "reads_integers d" "related c al env scope"
  have "map (\<lambda>x. eval_ast d (bound_values (es_server_parameters u) clients) tables scope (sc_expr x)) ys =
      map (\<lambda>o'. eval (sql_of d clients) sv (logical c tables) env (od_expression o')) ob"
    using assms(2) by (induction rule: list_all2_induct) (use a in \<open>auto simp: sorted_means_def tree_means_def\<close>)
  then show "eval_ast d (bound_values (es_server_parameters u) clients) tables scope
      (E_FunctionCall (Exact ''ROW_NUMBER'') False [] [] [] (FunctionTail None (Some (Over_Window False xs ys False)))) =
    eval (sql_of d clients) sv (logical c tables) env (RowNumber r cs ob)"
    using trees_same [OF assms(1) a, of clients tables] by (simp add: comp_def)
qed

lemma case_means:
  assumes "list_all2 (\<lambda>b y. tree_means c al sv u (fst b) (fst y) \<and> tree_means c al sv u (snd b) (snd y)) bs pairs"
    and "rel_option (tree_means c al sv u) els x"
  shows "tree_means c al sv u (Case bs els t) (E_Case None pairs x)"
  unfolding tree_means_def
proof (intro allI impI)
  fix d clients tables env scope
  assume a: "reads_integers d" "related c al env scope"
  have "map (\<lambda>p. (eval_ast d (bound_values (es_server_parameters u) clients) tables scope (fst p),
        eval_ast d (bound_values (es_server_parameters u) clients) tables scope (snd p))) pairs =
      map (\<lambda>b. (eval (sql_of d clients) sv (logical c tables) env (fst b), eval (sql_of d clients) sv (logical c tables) env (snd b))) bs"
    using assms(1) by (induction rule: list_all2_induct) (use a in \<open>auto simp: tree_means_def\<close>)
  then show "eval_ast d (bound_values (es_server_parameters u) clients) tables scope (E_Case None pairs x) =
    eval (sql_of d clients) sv (logical c tables) env (Case bs els t)"
    using tree_optional [OF assms(2) a, of clients tables] by (simp add: truth_same)
qed

lemma list_means:
  assumes "list_all2 (tree_means c al sv u) es xs"
  shows "tree_means c al sv u (ScalarFunction f es t) (call (function_name f) xs)"
    and "tree_means c al sv u e x \<Longrightarrow> tree_means c al sv u (In e es negated) (parenthesized (E_InList x negated xs))"
  using assms unfolding tree_means_def [of _ _ _ _ "ScalarFunction f es t"] tree_means_def [of _ _ _ _ "In e es negated"] tree_means_def [of _ _ _ _ e]
  by (auto simp: trees_same)

text \<open>The operators of two operands.\<close>

lemma binary_means:
  assumes "tree_means c al sv u l x" "tree_means c al sv u r y"
  shows "tree_means c al sv u (Equal l r) (parenthesized (E_Binary x Op_Equals y))"
    "tree_means c al sv u (NotEqual l r) (parenthesized (E_Binary x Op_NotEquals y))"
    "tree_means c al sv u (Less l r) (parenthesized (E_Binary x Op_Less y))"
    "tree_means c al sv u (LessEqual l r) (parenthesized (E_Binary x Op_LessEquals y))"
    "tree_means c al sv u (Greater l r) (parenthesized (E_Binary x Op_Greater y))"
    "tree_means c al sv u (GreaterEqual l r) (parenthesized (E_Binary x Op_GreaterEquals y))"
    "tree_means c al sv u (And l r) (parenthesized (E_Binary x Op_And y))"
    "tree_means c al sv u (Or l r) (parenthesized (E_Binary x Op_Or y))"
    "tree_means c al sv u (Like l r) (parenthesized (E_Like x False Lo_Like y None))"
    "tree_means c al sv u (Glob l r) (parenthesized (E_Like x False Lo_Glob y None))"
    "tree_means c al sv u (Least l r) (call ''MIN'' [x, y])"
    "tree_means c al sv u (Concat l r) (parenthesized (E_Binary x Op_Concat y))"
  using assms unfolding tree_means_def by (simp_all add: binary_value_def comparison_node_def truth_same Let_def)

text \<open>
  The tree of an expression has the value of the expression.
\<close>

lemma emit_expr_means:
  assumes "separate al" and "plain sv e"
  shows "em.extends al sv (\<lambda>u x. tree_means c al sv u e x) (emit_expr fmt c e)"
  using assms(2)
proof (induction e rule: measure_induct_rule [where f = size])
  case (less e)
  have IH: "em.extends al sv (\<lambda>u x. tree_means c al sv u e' x) (emit_expr fmt c e')" if "size e' < size e" "plain sv e'" for e'
    using less.IH that by blast
  show ?case
  proof (cases e)
    case (Column column)
    show ?thesis unfolding Column emit_expr.simps [abs_def] by (rule column_means)
  next
    case (ClientParameter n t)
    then show ?thesis using less.prems unfolding ClientParameter emit_expr.simps [abs_def] by (intro client_parameter_means) simp
  next
    case (ServerParameter n t)
    then have n: "bt_has sv n" using less.prems by simp
    show ?thesis
      unfolding ServerParameter
    proof (rule em.extendsI)
      fix s x s'
      assume s: "emit_ok al sv s" and "emit_expr fmt c (ServerParameter n t) s = Inr (x, s')"
      then have "emit_parameter n s = Inr (x, s')" by (simp split: if_splits)
      from em.extendsD [OF server_parameter_means [OF n] s this]
      show "emit_ok al sv s' \<and> emit_le s s' \<and> (\<forall>u. emit_le s' u \<longrightarrow> tree_means c al sv u (ServerParameter n t) x)" by blast
    qed
  next
    case (Literal v)
    then show ?thesis using less.prems unfolding Literal emit_expr.simps [abs_def] by (intro literal_means) simp
  next
    case (Equal l r)
    show ?thesis
      unfolding Equal emit_expr.simps [abs_def] by (rule em.extends_two [OF IH IH]) (use less.prems Equal in \<open>auto intro: binary_means\<close>)
  next
    case (NotEqual l r)
    show ?thesis
      unfolding NotEqual emit_expr.simps [abs_def] by (rule em.extends_two [OF IH IH]) (use less.prems NotEqual in \<open>auto intro: binary_means\<close>)
  next
    case (Less l r)
    show ?thesis
      unfolding Less emit_expr.simps [abs_def] by (rule em.extends_two [OF IH IH]) (use less.prems Less in \<open>auto intro: binary_means\<close>)
  next
    case (LessEqual l r)
    show ?thesis
      unfolding LessEqual emit_expr.simps [abs_def] by (rule em.extends_two [OF IH IH]) (use less.prems LessEqual in \<open>auto intro: binary_means\<close>)
  next
    case (Greater l r)
    show ?thesis
      unfolding Greater emit_expr.simps [abs_def] by (rule em.extends_two [OF IH IH]) (use less.prems Greater in \<open>auto intro: binary_means\<close>)
  next
    case (GreaterEqual l r)
    show ?thesis
      unfolding GreaterEqual emit_expr.simps [abs_def] by (rule em.extends_two [OF IH IH]) (use less.prems GreaterEqual in \<open>auto intro: binary_means\<close>)
  next
    case (And l r)
    show ?thesis
      unfolding And emit_expr.simps [abs_def] by (rule em.extends_two [OF IH IH]) (use less.prems And in \<open>auto intro: binary_means\<close>)
  next
    case (Or l r)
    show ?thesis
      unfolding Or emit_expr.simps [abs_def] by (rule em.extends_two [OF IH IH]) (use less.prems Or in \<open>auto intro: binary_means\<close>)
  next
    case (Like l r)
    show ?thesis
      unfolding Like emit_expr.simps [abs_def] by (rule em.extends_two [OF IH IH]) (use less.prems Like in \<open>auto intro: binary_means\<close>)
  next
    case (Glob l r)
    show ?thesis
      unfolding Glob emit_expr.simps [abs_def] by (rule em.extends_two [OF IH IH]) (use less.prems Glob in \<open>auto intro: binary_means\<close>)
  next
    case (Least l r)
    show ?thesis
      unfolding Least emit_expr.simps [abs_def] by (rule em.extends_two [OF IH IH]) (use less.prems Least in \<open>auto intro: binary_means\<close>)
  next
    case (Concat l r)
    show ?thesis
      unfolding Concat emit_expr.simps [abs_def] by (rule em.extends_two [OF IH IH]) (use less.prems Concat in \<open>auto intro: binary_means\<close>)
  next
    case (Not x)
    show ?thesis
      unfolding Not emit_expr.simps [abs_def]
      by (rule em.extends_one [OF IH]) (use less.prems Not in \<open>auto simp: tree_means_def truth_same\<close>)
  next
    case (IsNull x)
    show ?thesis
      unfolding IsNull emit_expr.simps [abs_def]
      by (rule em.extends_one [OF IH]) (use less.prems IsNull in \<open>auto simp: tree_means_def binary_value_def literal_value_def\<close>)
  next
    case (CastText x)
    show ?thesis
      unfolding CastText emit_expr.simps [abs_def]
      by (rule em.extends_one [OF IH]) (use less.prems CastText in \<open>auto simp: tree_means_def\<close>)
  next
    case (CountAll r)
    show ?thesis unfolding CountAll emit_expr.simps [abs_def] by (rule em.extends_return) (simp add: tree_means_def)
  next
    case (ConditionalOutput v w)
    show ?thesis
      unfolding ConditionalOutput emit_expr.simps [abs_def]
      by (rule em.extends_two [OF IH [of w] IH [of v]])
        (use less.prems ConditionalOutput in \<open>auto simp: tree_means_def truth_same literal_value_def\<close>)
  next
    case (ScalarFunction f xs t)
    have "em.extends al sv (\<lambda>u ys. list_all2 (tree_means c al sv u) xs ys) (traverse_st (emit_expr fmt c) xs)"
      by (intro em.extends_traverse IH) (use less.prems ScalarFunction in \<open>auto dest: mem_size_list [where f = size]\<close>)
    then show ?thesis
      unfolding ScalarFunction emit_expr.simps [abs_def] by (rule em.extends_one) (rule list_means)
  next
    case (In x vs negated)
    have vs: "em.extends al sv (\<lambda>u ys. list_all2 (tree_means c al sv u) vs ys) (traverse_st (emit_expr fmt c) vs)"
      by (intro em.extends_traverse IH) (use less.prems In in \<open>auto dest: mem_size_list [where f = size]\<close>)
    have "em.extends al sv (\<lambda>u y. tree_means c al sv u (In x vs negated) y) (\<lambda>s. try_ok (emit_expr fmt c x s) (\<lambda>(e, s).
        try_ok (traverse_st (emit_expr fmt c) vs s) (\<lambda>(vs, s). Inr (parenthesized (E_InList e negated vs), s))))"
      by (rule em.extends_two [OF IH [of x] vs])
        (use less.prems In in \<open>auto intro: list_means\<close>)
    then show ?thesis
      unfolding In emit_expr.simps [abs_def] by (cases "vs = []") (simp_all only: if_True if_False em.extends_fail simp_thms)
  next
    case (RowNumber r cs ob)
    have "em.extends al sv (\<lambda>u ys. list_all2 (sorted_means c al sv u) ob ys) (traverse_st (emit_sorted (emit_expr fmt c)) ob)"
      by (intro em.extends_traverse sorted_extends IH) (use less.prems RowNumber in \<open>auto dest: order_expression_smaller\<close>)
    then show ?thesis
      unfolding RowNumber emit_expr.simps [abs_def]
      by (rule em.extends_two [OF columns_extend]) (rule row_number_means)
  next
    case (Case bs els t)
    have b: "em.extends al sv (\<lambda>u y. tree_means c al sv u (fst b) (fst y) \<and> tree_means c al sv u (snd b) (snd y))
        (\<lambda>s. try_ok (emit_expr fmt c (fst b) s) (\<lambda>(w, s). try_ok (emit_expr fmt c (snd b) s) (\<lambda>(v, s). Inr ((w, v), s))))"
      if "b \<in> set bs" for b
      by (rule em.extends_two [OF IH [of "fst b"] IH [of "snd b"]]) (use less.prems Case that case_branch_smaller [OF that] in auto)
    have els: "em.extends al sv (\<lambda>u y. rel_option (tree_means c al sv u) els y) (optionally (emit_expr fmt c) els)"
      by (intro optionally_extends IH) (use less.prems Case in auto)
    show ?thesis
      unfolding Case emit_expr.simps [abs_def]
      by (rule em.extends_two [OF em.extends_traverse [OF b] els]) (assumption, rule case_means)
  next
    case (Exists sel)
    have parts: "em.extends al sv (\<lambda>u x. tree_means c al sv u e' x) (emit_expr fmt c e')" if "e' \<in> select_parts sel" for e'
      using that select_part_smaller [OF that] plain_parts [of sv sel e'] less.prems by (intro IH) (simp_all add: Exists)
    show ?thesis
    proof (rule em.extendsI)
      fix s x t
      assume s: "emit_ok al sv s" and "emit_expr fmt c e s = Inr (x, t)"
      then obtain resource node t' where r: "resource_by_id c (bs_resource sel) = Some resource"
        and run: "select_node (emit_expr fmt c) c (rd_source resource) sel (s\<lparr>es_columns := []\<rparr>) = Inr (node, t')"
        and x: "x = E_Exists node" "t = t'\<lparr>es_columns := es_columns s\<rparr>"
        by (auto simp: Exists result_simps)
      have s': "emit_ok al sv (s\<lparr>es_columns := []\<rparr>)" using s by (simp add: emit_ok_def)
      note n = em.extendsD [OF select_node_extends [OF parts] s' run]
      have "tree_means c al sv u e x" if "emit_le t u" for u
        unfolding Exists x using n(3) [of u] that less.prems by (intro exists_means [OF _ assms(1) r]) (simp_all add: Exists x emit_le_def)
      with n show "emit_ok al sv t \<and> emit_le s t \<and> (\<forall>u. emit_le t u \<longrightarrow> tree_means c al sv u e x)"
        by (simp add: x emit_ok_def emit_le_def)
    qed
  qed
qed

end
