(* ===== verification/Sql_Literals.thy ===== *)
theory Sql_Literals
  imports Sql_Emit_Laws
begin

text \<open>
  The loop of \<^verbatim>\<open>src/crates/policysql-sqlite/src/lib.rs\<close>, \<open>literal\<close>, that looks for a free name for a literal.
\<close>

definition literal_taken :: "emit_state \<Rightarrow> nat \<Rightarrow> bool" where
  "literal_taken s k = bt_has (es_server_parameters s) (literal_name k)"

lemma has_insert: "bt_has (bt_insert k v m) l \<longleftrightarrow> l = k \<or> bt_has m l"
  by (simp add: bt_has_def)

lemma literal_parameter_step:
  assumes "literal_taken s (es_next_literal s)" "es_next_literal s < u64_max"
  shows "\<exists>t. literal_parameter v s = literal_parameter v t \<and> es_next_literal t = es_next_literal s + 1 \<and>
    (\<forall>k. literal_taken t k = literal_taken s k)"
  using assms by (subst literal_parameter.simps)
    (auto simp: literal_suffix_ok [simplified] checked_add_def Let_def literal_taken_def has_insert intro!: exI)

lemma literal_search:
  "literal_parameter v s = Inl TooManyLiterals \<or>
   (\<exists>k u. es_next_literal s \<le> k \<and> \<not> literal_taken s k \<and> {es_next_literal s..<k} \<subseteq> {j. literal_taken s j} \<and>
      literal_parameter v s = emit_parameter (literal_name k) u \<and> bt_get (es_server_parameters u) (literal_name k) = Some v \<and>
      es_next_literal u = k + 1)"
proof (induction "u64_max - es_next_literal s" arbitrary: s rule: less_induct)
  case less
  let ?n = "es_next_literal s"
  consider (full) "u64_max \<le> ?n" | (free) "?n < u64_max" "\<not> literal_taken s ?n" | (taken) "?n < u64_max" "literal_taken s ?n"
    by linarith
  then show ?case
  proof cases
    case full
    then show ?thesis by (simp add: literal_parameter_full)
  next
    case free
    then have "bt_get (es_server_parameters s) (literal_name ?n) = None" by (simp add: literal_taken_def bt_get_has)
    from literal_parameter_fresh [OF this free(1), of v] free(2) show ?thesis by (intro disjI2 exI [of _ ?n]) auto
  next
    case taken
    obtain t where t: "literal_parameter v s = literal_parameter v t" "es_next_literal t = ?n + 1"
      "\<forall>k. literal_taken t k = literal_taken s k"
      using literal_parameter_step [OF taken(2,1)] by blast
    have same: "literal_taken t = literal_taken s" using t(3) by blast
    have "u64_max - es_next_literal t < u64_max - ?n" using taken(1) t(2) by simp
    from less [OF this] consider "literal_parameter v t = Inl TooManyLiterals"
      | k u where "?n + 1 \<le> k" "\<not> literal_taken s k" "{?n + 1..<k} \<subseteq> {j. literal_taken s j}"
        "literal_parameter v t = emit_parameter (literal_name k) u" "bt_get (es_server_parameters u) (literal_name k) = Some v"
        "es_next_literal u = k + 1"
      unfolding same t(2) by blast
    then show ?thesis
    proof cases
      case (2 k u)
      moreover have "{?n..<k} \<subseteq> {j. literal_taken s j}"
      proof
        fix j assume j: "j \<in> {?n..<k}"
        show "j \<in> {j. literal_taken s j}"
        proof (cases "j = ?n")
          case False
          then have "j \<in> {?n + 1..<k}" using j by simp
          then show ?thesis using 2(3) by blast
        qed (use taken(2) in simp)
      qed
      ultimately show ?thesis unfolding t(1) by (intro disjI2 exI [of _ k] exI [of _ u]) simp
    qed (simp add: t(1))
  qed
qed

lemma literals_taken_bound: "{n..<k} \<subseteq> {j. literal_taken s j} \<Longrightarrow> k \<le> n + length (es_server_parameters s)"
proof -
  assume "{n..<k} \<subseteq> {j. literal_taken s j}"
  then have "literal_name ` {n..<k} \<subseteq> set (map fst (es_server_parameters s))"
    by (auto simp: literal_taken_def bt_has_def bt_get_def dest!: map_of_SomeD)
  from card_mono [OF _ this] have "k - n \<le> card (set (map fst (es_server_parameters s)))"
    by (simp add: card_image inj_on_def literal_name_inj)
  also have "\<dots> \<le> length (es_server_parameters s)" using card_length [of "map fst (es_server_parameters s)"] by simp
  finally show ?thesis by simp
qed

text \<open>
  C29. The loop that names a literal ends. It takes the first free name at or after its counter, after at most as
  many steps as there are server parameters, binds the literal under that name, and moves the counter past it;
  otherwise the counter is used up and the statement is refused with \<open>TooManyLiterals\<close>.
\<close>

theorem literal_search_ends:
  "literal_parameter v s = Inl TooManyLiterals \<or>
   (\<exists>k u. es_next_literal s \<le> k \<and> k \<le> es_next_literal s + length (es_server_parameters s) \<and>
      \<not> literal_taken s k \<and> {es_next_literal s..<k} \<subseteq> {j. literal_taken s j} \<and>
      literal_parameter v s = emit_parameter (literal_name k) u \<and> bt_get (es_server_parameters u) (literal_name k) = Some v \<and>
      es_next_literal u = k + 1)"
  using literal_search [of v s] literals_taken_bound by blast

end
