(* ===== verification/Sql_Results.thy ===== *)
theory Sql_Results
  imports Sql_Emit
begin

text \<open>
  The descriptors of a statement's result columns (\<^verbatim>\<open>src/crates/policysql-sqlite/src/lib.rs\<close>,
  \<open>result_descriptors\<close> and what it calls): name, type and representation of each projection, whether it
  may be null, and the column that tells a redacted value from a null. JSON columns are described through the
  schema of the document and the path into it, which is parsed here too.
\<close>

record result_column_descriptor =
  rcd_name :: string
  rcd_value :: value_descriptor
  rcd_possible_types :: "logical_type list"
  rcd_redacted_on_null :: bool
  rcd_visibility_column :: "string option"

type_synonym client_values = "(string \<times> logical_value) list"

section \<open>JSON paths\<close>

datatype json_path_segment = JP_Property string | JP_Index

definition path_error :: emit_error where
  "path_error = EE_InvariantViolation ''invalid SQLite JSON path''"

text \<open>The loop over the bytes after \<open>$\<close>; its index is the rest of the text.\<close>

function json_path_segments :: "string \<Rightarrow> emit_error + json_path_segment list" where
  "json_path_segments bytes = (case bytes of
       [] \<Rightarrow> Inr []
     | b # rest \<Rightarrow>
         if b = CHR ''.'' then
           (let name = takeWhile (\<lambda>c. c \<noteq> CHR ''.'' \<and> c \<noteq> CHR ''['') rest in
            if name = [] then Inl path_error
            else try_ok (json_path_segments (drop (length name) rest)) (\<lambda>output. Inr (JP_Property name # output)))
         else if b = CHR ''['' then
           (let digits = takeWhile is_ascii_digit rest in
            if digits = [] then Inl path_error
            else (case drop (length digits) rest of
                [] \<Rightarrow> Inl path_error
              | d # rest \<Rightarrow>
                  if d = CHR '']'' then try_ok (json_path_segments rest) (\<lambda>output. Inr (JP_Index # output))
                  else Inl path_error))
         else Inl path_error)"
  by pat_completeness auto
termination
  by (relation "measure length") (auto dest: arg_cong [of _ _ length])

declare json_path_segments.simps [simp del]

definition parse_json_path :: "string \<Rightarrow> emit_error + json_path_segment list" where
  "parse_json_path path = (case path of
       [] \<Rightarrow> Inl path_error
     | b # rest \<Rightarrow> if b = CHR ''$'' then json_path_segments rest else Inl path_error)"

section \<open>JSON schemas\<close>

definition schema_branches :: "json_value_schema \<Rightarrow> json_value_schema list" where
  "schema_branches schema = schema # jvs_any_of schema"

definition segment_schema :: "json_path_segment \<Rightarrow> json_value_schema \<Rightarrow> json_value_schema option" where
  "segment_schema segment schema = (case segment of
       JP_Property name \<Rightarrow> bt_get (jvs_properties schema) name
     | JP_Index \<Rightarrow> jvs_items schema)"

definition step_candidates :: "json_path_segment \<Rightarrow> json_value_schema list \<Rightarrow> emit_error + json_value_schema list" where
  "step_candidates segment candidates =
     (let candidates = List.map_filter (segment_schema segment) (concat (map schema_branches candidates)) in
      if candidates = [] then Inl (EE_InvariantViolation ''JSON path is outside the Catalog Schema'')
      else Inr candidates)"

definition json_schema_candidates :: "json_value_schema \<Rightarrow> string \<Rightarrow> emit_error + json_value_schema list" where
  "json_schema_candidates schema path =
     try_ok (parse_json_path path) (\<lambda>segments. fold_st step_candidates segments [schema])"

definition json_path_value :: "bound_expr \<Rightarrow> client_values \<Rightarrow> emit_error + string" where
  "json_path_value path clients = (case path of
       Literal (LV_String p) \<Rightarrow> Inr p
     | ClientParameter name _ \<Rightarrow> (case bt_get clients name of
           Some (LV_String p) \<Rightarrow> Inr p
         | _ \<Rightarrow> Inl (EE_InvariantViolation ''JSON path value is invalid''))
     | _ \<Rightarrow> Inl (EE_InvariantViolation ''JSON path is not typed''))"

lemma property_smaller [termination_simp]:
  "(n, s) \<in> set ps \<Longrightarrow> size s < Suc (size_list (size_prod (\<lambda>_. 0) size) ps + k)"
  "x \<in> set ps \<Longrightarrow> size (snd x) < Suc (size_list (size_prod (\<lambda>_. 0) size) ps + k)"
  using list_member_smaller [of "(n, s)" ps "size_prod (\<lambda>_. 0) size"] list_member_smaller [of x ps "size_prod (\<lambda>_. 0) size"]
  by (auto simp: prod.size_neq split: prod.splits) (cases x; simp)

fun collect_json_schemas :: "json_value_schema \<Rightarrow> json_value_schema list" where
  "collect_json_schemas (JsonValueSchema types properties items required additional any_of) =
     JsonValueSchema types properties items required additional any_of #
       concat (map (\<lambda>p. collect_json_schemas (snd p)) properties) @
       (case items of None \<Rightarrow> [] | Some s \<Rightarrow> collect_json_schemas s) @
       concat (map collect_json_schemas any_of)"

fun collect_json_types :: "json_value_schema \<Rightarrow> bool \<Rightarrow> json_schema_type set" where
  "collect_json_types (JsonValueSchema types properties items required additional any_of) recursive =
     set types \<union> \<Union> (set (map (\<lambda>s. collect_json_types s recursive) any_of)) \<union>
     (if recursive then \<Union> (set (map (\<lambda>p. collect_json_types (snd p) True) properties)) \<union>
        (case items of None \<Rightarrow> {} | Some s \<Rightarrow> collect_json_types s True)
      else {})"

definition column_schema :: "catalog \<Rightarrow> nat \<Rightarrow> column_id \<Rightarrow> emit_error + json_value_schema" where
  "column_schema c resource column =
     ok_or (EE_InvariantViolation ''JSON Schema is unavailable'')
       (Option.bind (resource_by_id c resource) (\<lambda>r. Option.bind (column_by_id r column) (\<lambda>d. vd_json_schema (cd_value d))))"

definition item_schemas :: "bool \<Rightarrow> json_value_schema \<Rightarrow> json_value_schema list" where
  "item_schemas recursive branch =
     (if recursive then collect_json_schemas branch
      else map snd (jvs_properties branch) @ option_list (jvs_items branch))"

definition json_collection_item_schema :: "bound_json_collection_select \<Rightarrow> catalog \<Rightarrow> client_values \<Rightarrow> emit_error + json_value_schema" where
  "json_collection_item_schema select c clients =
     try_ok (column_schema c (bj_resource select) (bc_id (bj_document select))) (\<lambda>schema.
     try_ok (json_path_value (bj_path select) clients) (\<lambda>path.
     try_ok (json_schema_candidates schema path) (\<lambda>targets.
     let items = concat (map (item_schemas (bj_recursive select)) (concat (map schema_branches targets))) in
     (case items of
        [] \<Rightarrow> Inl (EE_InvariantViolation ''JSON collection path has no finite element Schema'')
      | [item] \<Rightarrow> Inr item
      | _ \<Rightarrow> Inr (JsonValueSchema [] [] None [] False items)))))"

definition ordered_json_types :: "(json_schema_type \<times> logical_type) list" where
  "ordered_json_types = [(JS_Boolean, LT_Boolean), (JS_Integer, LT_Integer), (JS_Number, LT_Number),
     (JS_String, LT_String), (JS_Array, LT_Json), (JS_Object, LT_Json)]"

definition push_type :: "json_schema_type set \<Rightarrow> json_schema_type \<times> logical_type \<Rightarrow> logical_type list \<Rightarrow> logical_type list" where
  "push_type schema_types entry output =
     (if fst entry \<in> schema_types \<and> snd entry \<notin> set output then output @ [snd entry] else output)"

definition json_extract_types :: "bound_expr list \<Rightarrow> catalog \<Rightarrow> client_values \<Rightarrow> emit_error + logical_type list" where
  "json_extract_types arguments c clients =
     try_ok (ok_or (EE_InvariantViolation ''JSON document provenance is unavailable'')
       (case arguments of [] \<Rightarrow> None | a # _ \<Rightarrow> direct_column a)) (\<lambda>column.
     try_ok (column_schema c (cid_resource (bc_id column)) (bc_id column)) (\<lambda>schema.
     try_ok (case arguments of
         _ # path # _ \<Rightarrow> json_path_value path clients
       | _ \<Rightarrow> Inl (EE_InvariantViolation ''JSON path is not typed'')) (\<lambda>path.
     try_ok (if path = [] then Inr [schema] else json_schema_candidates schema path) (\<lambda>candidates.
     let schema_types = \<Union> (set (map (\<lambda>s. collect_json_types s (path = [])) candidates));
         output = fold (push_type schema_types) ordered_json_types [] in
     if output = [] then Inl (EE_InvariantViolation ''JSON path has no value type'') else Inr output))))"

section \<open>Nullability\<close>

definition left_joined :: "bound_select option \<Rightarrow> nat \<Rightarrow> bool" where
  "left_joined select resource =
     is_some_and (\<lambda>s. list_ex (\<lambda>j. jn_resource j = resource \<and> jn_kind j = JoinLeft) (bs_joins s)) select"

definition arity_error :: emit_error where
  "arity_error = EE_InvariantViolation ''registered function arity''"

text \<open>\<open>result.unwrap_or(true)\<close>.\<close>

definition unless_false :: "emit_error + bool \<Rightarrow> bool" where
  "unless_false r = (case r of Inl _ \<Rightarrow> True | Inr b \<Rightarrow> b)"

text \<open>\<open>a? || b?\<close> looks at \<open>b\<close> only when \<open>a\<close> is false.\<close>

function expression_nullable :: "catalog \<Rightarrow> bound_select option \<Rightarrow> bound_expr \<Rightarrow> emit_error + bool" where
  "expression_nullable c select e = (case e of
       Column column \<Rightarrow>
         try_ok (ok_or EE_UnknownColumn (column_value_descriptor c column)) (\<lambda>d.
           Inr (vd_nullable d \<or> left_joined select (cid_resource (bc_id column))))
     | ScalarFunction f arguments _ \<Rightarrow>
         if f = JsonExtract then Inr True
         else (case arguments of [] \<Rightarrow> Inl arity_error | a # _ \<Rightarrow> expression_nullable c select a)
     | Concat l r \<Rightarrow>
         try_ok (expression_nullable c select l) (\<lambda>n. if n then Inr True else expression_nullable c select r)
     | CastText inner \<Rightarrow> expression_nullable c select inner
     | Case branches els _ \<Rightarrow>
         Inr (els = None \<or> list_ex (\<lambda>b. unless_false (expression_nullable c select (snd b))) branches \<or>
           (case els of None \<Rightarrow> False | Some v \<Rightarrow> unless_false (expression_nullable c select v)))
     | ClientParameter _ _ \<Rightarrow> Inr False
     | ServerParameter _ _ \<Rightarrow> Inr False
     | Literal _ \<Rightarrow> Inr False
     | _ \<Rightarrow> Inl (EE_InvariantViolation ''registered function argument''))"
  by pat_completeness auto
termination
  by (relation "measure (\<lambda>(_, _, e). size e)") (auto simp: termination_simp less_Suc_eq_le)

declare expression_nullable.simps [simp del]

section \<open>Descriptors\<close>

definition representation_of :: "logical_type \<Rightarrow> value_representation" where
  "representation_of t = (case t of
       LT_Boolean \<Rightarrow> VR_Boolean
     | LT_Integer \<Rightarrow> VR_Number
     | LT_Number \<Rightarrow> VR_Number
     | LT_Bytes \<Rightarrow> VR_Base64
     | LT_Json \<Rightarrow> VR_Json
     | _ \<Rightarrow> VR_String)"

definition plain_descriptor :: "logical_type \<Rightarrow> value_representation \<Rightarrow> bool \<Rightarrow> string option \<Rightarrow> json_value_schema option \<Rightarrow> value_descriptor" where
  "plain_descriptor t shown_as nullable format schema =
     \<lparr>vd_logical_type = t, vd_representation = shown_as, vd_nullable = nullable, vd_format = format,
      vd_storage = None, vd_constraints = None, vd_json_schema = schema\<rparr>"

definition described_column :: "string \<Rightarrow> value_descriptor \<Rightarrow> logical_type list \<Rightarrow> result_column_descriptor" where
  "described_column name value possible_types =
     \<lparr>rcd_name = name, rcd_value = value, rcd_possible_types = possible_types, rcd_redacted_on_null = False,
      rcd_visibility_column = None\<rparr>"

definition direct_expression_format :: "bound_expr \<Rightarrow> catalog \<Rightarrow> string option" where
  "direct_expression_format e c =
     Option.bind (direct_column e) (\<lambda>column. Option.bind (column_value_descriptor c column) vd_format)"

definition case_format :: "(bound_expr \<times> bound_expr) list \<Rightarrow> bound_expr option \<Rightarrow> catalog \<Rightarrow> string option" where
  "case_format branches els c = (case map (\<lambda>b. direct_expression_format (snd b) c) branches of
       [] \<Rightarrow> None
     | first # formats \<Rightarrow>
         if first \<noteq> None \<and> list_all (\<lambda>f. f = first) formats \<and> is_none_or (\<lambda>v. direct_expression_format v c = first) els
         then first else None)"

definition compound_result_descriptor :: "bound_projection \<Rightarrow> catalog \<Rightarrow> bound_select option \<Rightarrow> emit_error + result_column_descriptor option" where
  "compound_result_descriptor projection c select =
     (let describe = (\<lambda>t nullable format. Inr (Some (described_column (pj_output_name projection)
            (plain_descriptor t (representation_of t) nullable format None) [t])))
      in case pj_expression projection of
        Concat l r \<Rightarrow>
          try_ok (try_ok (expression_nullable c select l) (\<lambda>n. if n then Inr True else expression_nullable c select r))
            (\<lambda>nullable. describe LT_String nullable None)
      | CastText inner \<Rightarrow> try_ok (expression_nullable c select inner) (\<lambda>nullable. describe LT_String nullable None)
      | Case branches els t \<Rightarrow>
          describe t (els = None \<or> list_ex (\<lambda>b. unless_false (expression_nullable c select (snd b))) branches \<or>
            is_some_and (\<lambda>v. unless_false (expression_nullable c select v)) els) (case_format branches els c)
      | _ \<Rightarrow> Inr None)"

definition scalar_result_descriptor :: "bound_projection \<Rightarrow> catalog \<Rightarrow> bound_select option \<Rightarrow> client_values \<Rightarrow>
  emit_error + result_column_descriptor option" where
  "scalar_result_descriptor projection c select clients = (case pj_expression projection of
       ScalarFunction function arguments logical_type \<Rightarrow>
         try_ok (if function = JsonExtract then Inr True
            else (case arguments of [] \<Rightarrow> Inl arity_error | a # _ \<Rightarrow> expression_nullable c select a)) (\<lambda>nullable.
         try_ok (if function = JsonExtract then json_extract_types arguments c clients else Inr [logical_type]) (\<lambda>possible_types.
         (case possible_types of
            [] \<Rightarrow> Inl (EE_InvariantViolation ''empty result type union'')
          | t # _ \<Rightarrow> Inr (Some (described_column (pj_output_name projection)
              (plain_descriptor t (representation_of t) nullable None None) possible_types)))))
     | _ \<Rightarrow> Inr None)"

definition column_result_descriptor :: "catalog \<Rightarrow> bound_select option \<Rightarrow> nat \<Rightarrow> string \<Rightarrow> bound_column \<Rightarrow> bool \<Rightarrow>
  emit_error + result_column_descriptor" where
  "column_result_descriptor c select index name column conditional =
     try_ok (ok_or EE_UnknownResource (resource_by_id c (cid_resource (bc_id column)))) (\<lambda>source.
     try_ok (ok_or EE_UnknownColumn (column_by_id source (bc_id column))) (\<lambda>d.
     let nullable_join = left_joined select (cid_resource (bc_id column));
         value = (cd_value d)\<lparr>vd_nullable := vd_nullable (cd_value d) \<or> conditional \<or> nullable_join\<rparr> in
     Inr \<lparr>rcd_name = name, rcd_value = value, rcd_possible_types = [vd_logical_type value], rcd_redacted_on_null = conditional,
       rcd_visibility_column = (if conditional then Some (VISIBILITY_COLUMN_PREFIX @ show_nat index) else None)\<rparr>))"

definition literal_result_descriptor :: "string \<Rightarrow> logical_value \<Rightarrow> emit_error + result_column_descriptor" where
  "literal_result_descriptor name value = (case value of
       LV_Int64 _ \<Rightarrow> Inr (described_column name (plain_descriptor LT_Integer VR_Number False None None) [LT_Integer])
     | LV_Number _ \<Rightarrow> Inr (described_column name (plain_descriptor LT_Number VR_Number False None None) [LT_Number])
     | _ \<Rightarrow> Inl UnsupportedStatement)"

definition projected_column :: "bound_expr \<Rightarrow> emit_error + bound_column \<times> bool" where
  "projected_column e = (case e of
       Column column \<Rightarrow> Inr (column, False)
     | ConditionalOutput value _ \<Rightarrow> (case value of
           Column column \<Rightarrow> Inr (column, True)
         | _ \<Rightarrow> Inl (EE_InvariantViolation ''conditional output is not a direct column''))
     | _ \<Rightarrow> Inl (EE_InvariantViolation ''projection is not a permitted output shape''))"

definition counts_rows :: "bound_expr \<Rightarrow> bool" where
  "counts_rows e = (case e of CountAll _ \<Rightarrow> True | RowNumber _ _ _ \<Rightarrow> True | _ \<Rightarrow> False)"

definition projection_descriptor :: "catalog \<Rightarrow> bound_select option \<Rightarrow> client_values \<Rightarrow> nat \<times> bound_projection \<Rightarrow>
  emit_error + result_column_descriptor" where
  "projection_descriptor c select clients = (\<lambda>(index, projection).
     let name = pj_output_name projection; e = pj_expression projection in
     case e of
       Literal value \<Rightarrow> literal_result_descriptor name value
     | _ \<Rightarrow>
         if counts_rows e then Inr (described_column name (plain_descriptor LT_Int64 VR_Number False None None) [LT_Int64])
         else try_ok (scalar_result_descriptor projection c select clients) (\<lambda>scalar.
           (case scalar of
              Some descriptor \<Rightarrow> Inr descriptor
            | None \<Rightarrow>
                try_ok (compound_result_descriptor projection c select) (\<lambda>compound.
                (case compound of
                   Some descriptor \<Rightarrow> Inr descriptor
                 | None \<Rightarrow> try_ok (projected_column e) (\<lambda>(column, conditional).
                     column_result_descriptor c select index name column conditional))))))"

definition described_parts :: "bound_statement \<Rightarrow> nat option \<times> bound_projection list \<times> bound_select option" where
  "described_parts statement = (case statement of
       Select s \<Rightarrow> (Some (bs_resource s), bs_projections s, Some s)
     | ConstantSelect ps \<Rightarrow> (None, ps, None)
     | JsonCollectionSelect j \<Rightarrow> (None, [], None)
     | Insert i \<Rightarrow> (Some (bi_resource i), bi_returning i, None)
     | Update u \<Rightarrow> (Some (bu_resource u), bu_returning u, None)
     | Delete d \<Rightarrow> (Some (bd_resource d), bd_returning d, None))"

definition result_descriptors :: "bound_statement \<Rightarrow> catalog \<Rightarrow> client_values \<Rightarrow> emit_error + result_column_descriptor list" where
  "result_descriptors statement c clients = (case statement of
       JsonCollectionSelect j \<Rightarrow>
         try_ok (json_collection_item_schema j c clients) (\<lambda>item_schema.
           Inr [described_column (bj_output_name j) (plain_descriptor LT_Json VR_Json False None
             (Some (JsonValueSchema [JS_Array] [] (Some item_schema) [] False []))) [LT_Json]])
     | _ \<Rightarrow> (case described_parts statement of (resource, projections, select) \<Rightarrow>
         if is_some_and (\<lambda>r. resource_by_id c r = None) resource then Inl EE_UnknownResource
         else traverse (projection_descriptor c select clients) (enumerate 0 projections)))"

end
