(* ===== verification/Sql_Results_Laws.thy ===== *)
theory Sql_Results_Laws
  imports Sql_Results Pol_Demo
begin

text \<open>
  What the result descriptors promise (\<^verbatim>\<open>src/crates/policysql-sqlite/src/lib.rs\<close>): JSON paths are read by their
  grammar, and a column described as not nullable has a value in every row.
\<close>

section \<open>JSON paths\<close>

text \<open>The texts of a segment: a dot and a name, or digits in brackets.\<close>

definition name_char :: "char \<Rightarrow> bool" where
  "name_char c = (c \<noteq> CHR ''.'' \<and> c \<noteq> CHR ''['')"

fun segment_text :: "json_path_segment \<Rightarrow> string \<Rightarrow> bool" where
  "segment_text (JP_Property name) bytes = (bytes = CHR ''.'' # name \<and> name \<noteq> [] \<and> list_all name_char name)"
| "segment_text JP_Index bytes = (\<exists>digits. bytes = CHR ''['' # digits @ '']'' \<and> digits \<noteq> [] \<and> list_all is_ascii_digit digits)"

lemma segment_text_Cons: "segment_text s t \<Longrightarrow> \<exists>c t'. t = c # t' \<and> \<not> name_char c"
  by (cases s) (auto simp: name_char_def)

lemma segments_start:
  assumes "list_all2 segment_text ss ts"
  shows "concat ts = [] \<or> \<not> name_char (hd (concat ts))"
  using assms by cases (auto dest!: segment_text_Cons)

lemma takeWhile_stops: "list_all p xs \<Longrightarrow> ys = [] \<or> \<not> p (hd ys) \<Longrightarrow> takeWhile p (xs @ ys) = xs"
  by (cases ys) (auto simp: list_all_iff takeWhile_append)

lemma close_not_digit: "\<not> is_ascii_digit CHR '']''"
  by (simp add: is_ascii_digit_def byte_def)

lemma name_char_eq: "(\<lambda>c. c \<noteq> CHR ''.'' \<and> c \<noteq> CHR ''['') = name_char"
  by (auto simp: name_char_def)

lemma segments_of_property:
  assumes "name \<noteq> []" "list_all name_char name" "rest = [] \<or> \<not> name_char (hd rest)" "json_path_segments rest = Inr ss"
  shows "json_path_segments (CHR ''.'' # name @ rest) = Inr (JP_Property name # ss)"
  using assms by (subst json_path_segments.simps) (simp add: name_char_eq takeWhile_stops)

lemma segments_of_index:
  assumes "digits \<noteq> []" "list_all is_ascii_digit digits" "json_path_segments rest = Inr ss"
  shows "json_path_segments (CHR ''['' # digits @ CHR '']'' # rest) = Inr (JP_Index # ss)"
  using assms by (subst json_path_segments.simps) (simp add: takeWhile_stops close_not_digit)

lemma segments_read: "list_all2 segment_text ss ts \<Longrightarrow> json_path_segments (concat ts) = Inr ss"
proof (induction rule: list_all2_induct)
  case Nil
  then show ?case by (simp add: json_path_segments.simps)
next
  case (Cons s ss t ts)
  show ?case
    using Cons(1) Cons.IH segments_start [OF Cons(2)]
    by (cases s) (auto simp: segments_of_property segments_of_index)
qed

lemma segments_written: "json_path_segments bytes = Inr ss \<Longrightarrow> \<exists>ts. bytes = concat ts \<and> list_all2 segment_text ss ts"
proof (induction bytes arbitrary: ss rule: json_path_segments.induct)
  case (1 bytes)
  show ?case
  proof (cases bytes)
    case Nil
    then show ?thesis using 1(3) by (simp add: json_path_segments.simps)
  next
    case (Cons b rest)
    let ?name = "takeWhile (\<lambda>c. c \<noteq> CHR ''.'' \<and> c \<noteq> CHR ''['') rest" and ?digits = "takeWhile is_ascii_digit rest"
    consider ss' where "b = CHR ''.''" "?name \<noteq> []" "json_path_segments (drop (length ?name) rest) = Inr ss'" "ss = JP_Property ?name # ss'"
      | rest' ss' where "b = CHR ''[''" "?digits \<noteq> []" "drop (length ?digits) rest = CHR '']'' # rest'"
        "json_path_segments rest' = Inr ss'" "ss = JP_Index # ss'"
      using 1(3) Cons by (subst (asm) json_path_segments.simps) (auto simp: Let_def result_simps split: if_splits list.splits)
    then show ?thesis
    proof cases
      case (1 ss')
      then obtain ts where ts: "drop (length ?name) rest = concat ts" "list_all2 segment_text ss' ts"
        using "1.IH"(1) [OF Cons 1(1) refl 1(2) 1(3)] by blast
      have "list_all name_char ?name" by (auto simp: list_all_iff name_char_def dest: set_takeWhileD)
      moreover have "rest = ?name @ drop (length ?name) rest" by (simp add: dropWhile_eq_drop [symmetric])
      ultimately show ?thesis using 1 ts Cons
        by (intro exI [of _ "(CHR ''.'' # ?name) # ts"]) auto
    next
      case (2 rest' ss')
      then obtain ts where ts: "rest' = concat ts" "list_all2 segment_text ss' ts"
        using "1.IH"(2) [OF Cons _ 2(1) refl 2(2) 2(3) refl 2(4)] by auto
      have "list_all is_ascii_digit ?digits" by (auto simp: list_all_iff dest: set_takeWhileD)
      moreover have "rest = ?digits @ CHR '']'' # rest'"
        using 2(3) takeWhile_dropWhile_id [of is_ascii_digit rest] by (simp add: dropWhile_eq_drop)
      ultimately show ?thesis using 2 ts Cons
        by (intro exI [of _ "(CHR ''['' # ?digits @ '']'') # ts"]) auto
    qed
  qed
qed

text \<open>
  The JSON path reader accepts exactly the grammar it documents, and reads each segment once: a text gives the
  segments \<open>ss\<close> if and only if it is \<open>$\<close> followed by one text for each of them, a dot and a non-empty name
  or a non-empty number in brackets. Nothing is skipped, and a path is read in one way.
\<close>

theorem json_path_read_iff:
  "parse_json_path path = Inr ss \<longleftrightarrow> (\<exists>ts. path = CHR ''$'' # concat ts \<and> list_all2 segment_text ss ts)"
proof (cases path)
  case (Cons b rest)
  have "(\<exists>ts. path = CHR ''$'' # concat ts \<and> list_all2 segment_text ss ts) \<longleftrightarrow> b = CHR ''$'' \<and> json_path_segments rest = Inr ss"
    using segments_read [of ss] segments_written [of rest ss] Cons by auto
  then show ?thesis using Cons by (auto simp: parse_json_path_def)
qed (simp add: parse_json_path_def)

section \<open>Nullability\<close>

text \<open>The database keeps the catalog's \<open>NOT NULL\<close> columns, and its functions give null only for a null.\<close>

definition keeps_not_null :: "catalog \<Rightarrow> database \<Rightarrow> bool" where
  "keeps_not_null c db = (\<forall>column d row. column_value_descriptor c column = Some d \<and> \<not> vd_nullable d \<and>
     row \<in> set (db (cid_resource (bc_id column))) \<longrightarrow> row (cid_ordinal (bc_id column)) \<noteq> LV_Null)"

definition strict_sql :: "sql \<Rightarrow> bool" where
  "strict_sql sq = ((\<forall>l r. sq_concat sq l r = LV_Null \<longrightarrow> l = LV_Null \<or> r = LV_Null) \<and>
     (\<forall>v. sq_cast_text sq v = LV_Null \<longrightarrow> v = LV_Null) \<and>
     (\<forall>f v vs. sq_function sq f (v # vs) = LV_Null \<longrightarrow> f = JsonExtract \<or> v = LV_Null) \<and>
     (\<forall>r. sq_count sq r \<noteq> LV_Null) \<and> (\<forall>r ps os. sq_row_number sq r ps os \<noteq> LV_Null))"

text \<open>The columns of a projection are those of the resources it reads, and its literals and parameters have
  values.\<close>

fun has_values :: "sql \<Rightarrow> server_values \<Rightarrow> nat set \<Rightarrow> bound_expr \<Rightarrow> bool" where
  "has_values sq sv rs (Column column) = (cid_resource (bc_id column) \<in> rs)"
| "has_values sq sv rs (ClientParameter n t) = (sq_client sq n \<noteq> LV_Null)"
| "has_values sq sv rs (ServerParameter n t) = (unwrap_or LV_Null (bt_get sv n) \<noteq> LV_Null)"
| "has_values sq sv rs (Literal v) = (v \<noteq> LV_Null)"
| "has_values sq sv rs (Concat l r) = (has_values sq sv rs l \<and> has_values sq sv rs r)"
| "has_values sq sv rs (CastText e) = has_values sq sv rs e"
| "has_values sq sv rs (Case branches els t) =
     ((\<forall>b \<in> set branches. has_values sq sv rs (snd b)) \<and> (case els of None \<Rightarrow> True | Some e \<Rightarrow> has_values sq sv rs e))"
| "has_values sq sv rs (ScalarFunction f arguments t) = (\<forall>a \<in> set arguments. has_values sq sv rs a)"
| "has_values sq sv rs e = True"

definition from_resources :: "bound_select \<Rightarrow> nat set" where
  "from_resources s = insert (bs_resource s) (jn_resource ` set (bs_joins s))"

text \<open>The rows of a join: one of each resource, null only where the resource is left joined.\<close>

definition stands_for :: "database \<Rightarrow> nat set \<Rightarrow> env \<Rightarrow> bool" where
  "stands_for db nullable env = (\<forall>r row. env r = Some row \<longrightarrow> row \<in> set (db r) \<or> r \<in> nullable)"

lemma join_rows_stand:
  assumes "stands_for db nullable env" "env' \<in> set (join_rows sq sv db ndb env j)" "jn_kind j = JoinLeft \<longrightarrow> jn_resource j \<in> nullable"
  shows "stands_for db nullable env' \<and> dom env' = insert (jn_resource j) (dom env)"
proof -
  have "stands_for db nullable (env(r \<mapsto> row))" if "row \<in> set (db r) \<or> r \<in> nullable" for r row
    using assms(1) that unfolding stands_for_def by simp
  then show ?thesis using assms(2,3) by (auto simp: join_rows_def Let_def split: if_splits)
qed

lemma joined_rows_stand:
  assumes "stands_for db nullable env" "env' \<in> set (joined_rows sq sv db ndb env js)"
    and "\<forall>j \<in> set js. jn_kind j = JoinLeft \<longrightarrow> jn_resource j \<in> nullable"
  shows "stands_for db nullable env' \<and> dom env' = jn_resource ` set js \<union> dom env"
  using assms
proof (induction js arbitrary: env)
  case (Cons j js)
  then obtain e where e: "e \<in> set (join_rows sq sv db ndb env j)" "env' \<in> set (joined_rows sq sv db ndb e js)" by auto
  from join_rows_stand [OF Cons.prems(1) e(1)] Cons.IH [OF _ e(2)] Cons.prems(3) show ?case by auto
qed simp

lemma where_rows_stand:
  assumes "env \<in> set (where_rows sq sv db ndb s)"
  shows "stands_for db {r. left_joined (Some s) r} env" and "dom env = from_resources s"
proof -
  obtain row where row: "row \<in> set (db (bs_resource s))"
    and env: "env \<in> set (joined_rows sq sv db ndb [bs_resource s \<mapsto> row] (bs_joins s))"
    using assms by (auto simp: where_rows_def)
  have "stands_for db {r. left_joined (Some s) r} [bs_resource s \<mapsto> row]" using row by (simp add: stands_for_def)
  moreover have "\<forall>j \<in> set (bs_joins s). jn_kind j = JoinLeft \<longrightarrow> jn_resource j \<in> {r. left_joined (Some s) r}"
    by (auto simp: left_joined_def is_some_and_def list_ex_iff)
  ultimately show "stands_for db {r. left_joined (Some s) r} env" "dom env = from_resources s"
    using joined_rows_stand [OF _ env, of "{r. left_joined (Some s) r}"] by (auto simp: from_resources_def)
qed

lemma column_has_value:
  assumes "env \<in> set (where_rows sq sv db ndb s)" "keeps_not_null c db" "column_value_descriptor c column = Some d"
    "\<not> vd_nullable d" "\<not> left_joined (Some s) (cid_resource (bc_id column))" "cid_resource (bc_id column) \<in> from_resources s"
  shows "env_get env (bc_id column) \<noteq> LV_Null"
proof -
  obtain row where row: "env (cid_resource (bc_id column)) = Some row"
    using assms(6) where_rows_stand(2) [OF assms(1)] by (auto simp: dom_def)
  then have "row \<in> set (db (cid_resource (bc_id column)))"
    using where_rows_stand(1) [OF assms(1)] assms(5) by (auto simp: stands_for_def)
  then show ?thesis using row assms(2-4) by (auto simp: env_get_def keeps_not_null_def)
qed

lemma first_true_value:
  assumes "\<forall>b \<in> set bs. snd b \<noteq> LV_Null" "d \<noteq> LV_Null" shows "first_true sq bs d \<noteq> LV_Null"
  using assms by (induction sq bs d rule: first_true.induct) auto

lemma strict_sqlD:
  assumes "strict_sql sq"
  shows "sq_concat sq l r = LV_Null \<Longrightarrow> l = LV_Null \<or> r = LV_Null" and "sq_cast_text sq v = LV_Null \<Longrightarrow> v = LV_Null"
    and "sq_function sq f (v # vs) = LV_Null \<Longrightarrow> f = JsonExtract \<or> v = LV_Null"
    and "sq_count sq resource \<noteq> LV_Null" and "sq_row_number sq resource ps os \<noteq> LV_Null"
  using assms unfolding strict_sql_def by blast+

lemma expression_nullable_cases:
  "expression_nullable c select (Column column) =
     try_ok (ok_or EE_UnknownColumn (column_value_descriptor c column)) (\<lambda>d.
       Inr (vd_nullable d \<or> left_joined select (cid_resource (bc_id column))))"
  "expression_nullable c select (ScalarFunction f arguments t) =
     (if f = JsonExtract then Inr True
      else (case arguments of [] \<Rightarrow> Inl arity_error | a # _ \<Rightarrow> expression_nullable c select a))"
  "expression_nullable c select (Concat l r) =
     try_ok (expression_nullable c select l) (\<lambda>n. if n then Inr True else expression_nullable c select r)"
  "expression_nullable c select (CastText inner) = expression_nullable c select inner"
  "expression_nullable c select (Case branches els t) =
     Inr (els = None \<or> list_ex (\<lambda>b. unless_false (expression_nullable c select (snd b))) branches \<or>
       (case els of None \<Rightarrow> False | Some v \<Rightarrow> unless_false (expression_nullable c select v)))"
  by (subst expression_nullable.simps, simp)+

lemma unless_false_iff: "unless_false r \<longleftrightarrow> r \<noteq> Inr False"
  by (cases r) (auto simp: unless_false_def)

lemma expression_not_null:
  assumes "env \<in> set (where_rows sq sv db ndb s)" "keeps_not_null c db" "strict_sql sq"
    "expression_nullable c (Some s) e = Inr False" "has_values sq sv (from_resources s) e"
  shows "eval sq sv ndb env e \<noteq> LV_Null"
  using assms(4,5)
proof (induction e rule: measure_induct_rule [of size])
  case (less e)
  show ?case
  proof (cases e)
    case (Column column)
    with less.prems column_has_value [OF assms(1,2), of column] show ?thesis
      by (auto simp: expression_nullable_cases result_simps)
  next
    case (Concat l r)
    then have "eval sq sv ndb env l \<noteq> LV_Null" "eval sq sv ndb env r \<noteq> LV_Null"
      using less.prems less.IH [of l] less.IH [of r] by (auto simp: expression_nullable_cases result_simps split: if_splits)
    then show ?thesis using Concat strict_sqlD(1) [OF assms(3)] by auto
  next
    case (CastText x)
    with less.prems less.IH [of x] strict_sqlD(2) [OF assms(3)] show ?thesis by (auto simp: expression_nullable_cases)
  next
    case (ScalarFunction f arguments t)
    then obtain a rest where a: "arguments = a # rest" "f \<noteq> JsonExtract" "expression_nullable c (Some s) a = Inr False"
      using less.prems(1) by (auto simp: expression_nullable_cases split: if_splits list.splits)
    have "eval sq sv ndb env a \<noteq> LV_Null" using less.IH [of a] a less.prems(2) ScalarFunction by auto
    then show ?thesis using ScalarFunction a(1,2) strict_sqlD(3) [OF assms(3)] by auto
  next
    case (Case branches els t)
    then obtain x where x: "els = Some x" "expression_nullable c (Some s) x = Inr False"
      using less.prems(1) by (auto simp: expression_nullable_cases unless_false_iff split: option.splits)
    have bs: "expression_nullable c (Some s) (snd b) = Inr False" if "b \<in> set branches" for b
      using less.prems(1) that Case by (force simp: expression_nullable_cases unless_false_iff list_ex_iff)
    have "eval sq sv ndb env (snd b) \<noteq> LV_Null" if "b \<in> set branches" for b
      using less.IH [of "snd b"] bs [OF that] that less.prems(2) Case case_branch_smaller(2) [OF that] by fastforce
    moreover have "eval sq sv ndb env x \<noteq> LV_Null" using less.IH [of x] x less.prems(2) Case by simp
    ultimately show ?thesis using Case x(1) by (simp add: first_true_value)
  qed (use less.prems in \<open>simp_all add: expression_nullable.simps [of c "Some s"]\<close>)
qed

section \<open>Described columns\<close>

definition rcd_nullable :: "result_column_descriptor \<Rightarrow> bool" where
  "rcd_nullable d = vd_nullable (rcd_value d)"

lemmas descriptor_defs = rcd_nullable_def described_column_def plain_descriptor_def

lemma scalar_described:
  assumes "scalar_result_descriptor p c select clients = Inr (Some d)"
  shows "rcd_name d = pj_output_name p \<and> expression_nullable c select (pj_expression p) = Inr (rcd_nullable d)"
proof (cases "pj_expression p")
  case (ScalarFunction f arguments t)
  then have eq: "scalar_result_descriptor p c select clients = try_ok (expression_nullable c select (pj_expression p)) (\<lambda>nullable.
      try_ok (if f = JsonExtract then json_extract_types arguments c clients else Inr [t]) (\<lambda>types.
      (case types of [] \<Rightarrow> Inl (EE_InvariantViolation ''empty result type union'')
       | t # _ \<Rightarrow> Inr (Some (described_column (pj_output_name p)
           (plain_descriptor t (representation_of t) nullable None None) types)))))"
    by (simp add: scalar_result_descriptor_def expression_nullable_cases)
  from assms [unfolded eq try_ok_Inr_iff] obtain nullable types where n: "expression_nullable c select (pj_expression p) = Inr nullable"
    and d: "(case types of [] \<Rightarrow> Inl (EE_InvariantViolation ''empty result type union'')
          | t # _ \<Rightarrow> Inr (Some (described_column (pj_output_name p)
              (plain_descriptor t (representation_of t) nullable None None) types))) = Inr (Some d)"
    by blast
  from d obtain t' rest where "d = described_column (pj_output_name p) (plain_descriptor t' (representation_of t') nullable None None) types"
    by (cases types) auto
  with n show ?thesis by (simp add: descriptor_defs)
qed (use assms in \<open>simp_all add: scalar_result_descriptor_def\<close>)

lemma compound_described:
  assumes "compound_result_descriptor p c select = Inr (Some d)"
  shows "rcd_name d = pj_output_name p \<and> expression_nullable c select (pj_expression p) = Inr (rcd_nullable d)"
proof -
  let ?describe = "\<lambda>t f n. Inr (Some (described_column (pj_output_name p) (plain_descriptor t (representation_of t) n f None) [t]))"
  have "\<exists>t f. compound_result_descriptor p c select = try_ok (expression_nullable c select (pj_expression p)) (?describe t f)"
  proof (cases "pj_expression p")
    case (Case branches els t)
    then show ?thesis
      by (intro exI [of _ t] exI [of _ "case_format branches els c"])
        (simp add: compound_result_descriptor_def expression_nullable_cases is_some_and_def)
  next
    case (Concat l r)
    then show ?thesis
      by (intro exI [of _ LT_String] exI [of _ None]) (simp add: compound_result_descriptor_def expression_nullable_cases)
  next
    case (CastText x)
    then show ?thesis
      by (intro exI [of _ LT_String] exI [of _ None]) (simp add: compound_result_descriptor_def expression_nullable_cases)
  qed (use assms in \<open>simp_all add: compound_result_descriptor_def\<close>)
  then obtain t f where eq: "compound_result_descriptor p c select = try_ok (expression_nullable c select (pj_expression p)) (?describe t f)"
    by blast
  from assms [unfolded eq try_ok_Inr_iff] show ?thesis by (auto simp: descriptor_defs)
qed

lemma column_described:
  assumes "projected_column e = Inr (column, conditional)" "column_result_descriptor c select i name column conditional = Inr d"
  shows "rcd_name d = name" and "\<not> rcd_nullable d \<Longrightarrow> expression_nullable c select e = Inr False"
proof -
  obtain source x where x: "resource_by_id c (cid_resource (bc_id column)) = Some source" "column_by_id source (bc_id column) = Some x"
    and d: "rcd_name d = name" "rcd_nullable d = (vd_nullable (cd_value x) \<or> conditional \<or> left_joined select (cid_resource (bc_id column)))"
    using assms(2) by (auto simp: column_result_descriptor_def result_simps rcd_nullable_def)
  show "rcd_name d = name" by fact
  assume "\<not> rcd_nullable d"
  moreover from this have "e = Column column"
    using assms(1) d by (auto simp: projected_column_def split: bound_expr.splits)
  ultimately show "expression_nullable c select e = Inr False"
    using x d by (simp add: expression_nullable_cases column_value_descriptor_def)
qed

lemma projection_described:
  assumes "projection_descriptor c select clients (i, p) = Inr d"
  shows "rcd_name d = pj_output_name p"
    and "\<not> rcd_nullable d \<Longrightarrow> counts_rows (pj_expression p) \<or> expression_nullable c select (pj_expression p) = Inr False"
proof -
  consider v where "pj_expression p = Literal v" "literal_result_descriptor (pj_output_name p) v = Inr d"
    | "counts_rows (pj_expression p)" "d = described_column (pj_output_name p) (plain_descriptor LT_Int64 VR_Number False None None) [LT_Int64]"
    | "scalar_result_descriptor p c select clients = Inr (Some d)"
    | "compound_result_descriptor p c select = Inr (Some d)"
    | column conditional where "projected_column (pj_expression p) = Inr (column, conditional)"
        "column_result_descriptor c select i (pj_output_name p) column conditional = Inr d"
    using assms unfolding projection_descriptor_def
    by (cases "pj_expression p") (auto simp: Let_def result_simps split: if_splits option.splits)
  then have "rcd_name d = pj_output_name p \<and>
      (\<not> rcd_nullable d \<longrightarrow> counts_rows (pj_expression p) \<or> expression_nullable c select (pj_expression p) = Inr False)"
  proof cases
    case (1 v)
    then show ?thesis
      by (auto simp: literal_result_descriptor_def descriptor_defs expression_nullable.simps [of c select "Literal v"]
          split: logical_value.splits)
  next
    case 3
    from scalar_described [OF 3] show ?thesis by auto
  next
    case 4
    from compound_described [OF 4] show ?thesis by auto
  next
    case (5 column conditional)
    from column_described [OF 5] show ?thesis by auto
  qed (simp add: descriptor_defs)
  then show "rcd_name d = pj_output_name p"
    and "\<not> rcd_nullable d \<Longrightarrow> counts_rows (pj_expression p) \<or> expression_nullable c select (pj_expression p) = Inr False"
    by auto
qed

lemma described_projection:
  assumes "result_descriptors (Select s) c clients = Inr ds"
  shows "length ds = length (bs_projections s)"
    and "i < length ds \<Longrightarrow> projection_descriptor c (Some s) clients (i, bs_projections s ! i) = Inr (ds ! i)"
proof -
  have all: "list_all2 (\<lambda>x y. projection_descriptor c (Some s) clients x = Inr y) (enumerate 0 (bs_projections s)) ds"
    using assms by (auto simp: result_descriptors_def described_parts_def result_simps split: if_splits)
  then show l: "length ds = length (bs_projections s)" using list_all2_lengthD by fastforce
  show "i < length ds \<Longrightarrow> projection_descriptor c (Some s) clients (i, bs_projections s ! i) = Inr (ds ! i)"
    using list_all2_nthD [OF all, of i] l by (simp add: nth_enumerate_eq)
qed


text \<open>Projects with the secrets left joined to them, where there are none.\<close>

definition demo_joined :: bound_select where
  "demo_joined = BoundSelect 1 None [BoundJoin 2 None JoinLeft (Literal (LV_Boolean True))]
     [BoundProjection (Column (demo_ref 1 1 U_Projection)) ''name'', BoundProjection (Column (demo_ref 2 0 U_Projection)) ''owner'']
     None [] None [] None None"

definition demo_rows :: database where
  "demo_rows r = (if r = 1 then [\<lambda>_. LV_String ''x''] else [])"

definition demo_described :: "result_column_descriptor list" where
  "demo_described = [described_column ''name'' demo_text_column [LT_String],
     described_column ''owner'' (demo_text_column\<lparr>vd_nullable := True\<rparr>) [LT_String]]"

definition demo_strict :: sql where
  "demo_strict = demo_sql\<lparr>sq_concat := (\<lambda>l r. l), sq_cast_text := (\<lambda>v. v), sq_function := (\<lambda>f vs. LV_Boolean True),
     sq_count := (\<lambda>_. LV_Int64 0), sq_row_number := (\<lambda>_ _ _. LV_Int64 1)\<rparr>"

lemma demo_joined_described: "result_descriptors (Select demo_joined) demo_catalog [] = Inr demo_described"
  by (simp add: result_descriptors_def described_parts_def demo_joined_def projection_descriptor_def counts_rows_def
      scalar_result_descriptor_def compound_result_descriptor_def projected_column_def column_result_descriptor_def left_joined_def
      is_some_and_def demo_defs resource_by_id_def column_by_id_def demo_described_def described_column_def)


end
