(* ===== verification/Gw_Seal.thy ===== *)
theory Gw_Seal
  imports Sql_Results
begin

text \<open>
  Sealed execution plans (\<^verbatim>\<open>src/crates/policysql-execution/src/lib.rs\<close>) and how the SQLite profile seals one
  (\<^verbatim>\<open>src/crates/policysql-sqlite/src/lib.rs\<close>, \<open>SqliteInvariantVerifier\<close>, \<open>check_pattern_lengths\<close> and the four
  \<open>compile_verified_*\<close>): emit, validate the client's values, re-parse the emitted text, compare it and
  everything bound to it with the protected plan.

  \<open>backend\<close> holds what the sealing calls outside of the crates: the printing of floats and statements and the
  parser of the \<open>turso_parser\<close> crate (\<open>be_parse\<close>: the commands of a text, \<open>None\<close> for a syntax error) with its depth
  limit, and the decimal and pattern libraries of the value checks. The builder methods \<open>with_*\<close> of the candidate
  and of the verifier are record updates; the constants \<open>PROFILE_ID\<close> and \<open>CHECK_COLUMN\<close> are valid names,
  so the constructors that check them do not fail. \<open>decode_string_literal\<close> of
  \<^verbatim>\<open>src/crates/policysql-parser/src/lib.rs\<close> is the inverse of the verifier's own encoder.
\<close>

section \<open>Plans\<close>

record execution_limits =
  el_max_rows :: nat
  el_max_result_bytes :: nat
  el_timeout_ms :: nat
  el_max_bytes_per_value :: nat

record candidate_plan =
  cp_protected_sql :: string
  cp_client_parameters :: "(string \<times> logical_value) list"
  cp_server_parameters :: "(string \<times> logical_value) list"
  cp_result :: "result_column_descriptor list"
  cp_operation :: operation_kind
  cp_limits :: execution_limits
  cp_snapshot :: string
  cp_profile_id :: string
  cp_expected_affected_rows :: "nat option"
  cp_expected_result_rows :: "nat option"
  cp_operation_check_column :: "string option"
  cp_column_metadata_bytes :: nat

definition candidate_new :: "string \<Rightarrow> operation_kind \<Rightarrow> execution_limits \<Rightarrow> string \<Rightarrow> string \<Rightarrow> candidate_plan" where
  "candidate_new protected_sql operation limits snapshot profile_id =
     \<lparr>cp_protected_sql = protected_sql, cp_client_parameters = [], cp_server_parameters = [], cp_result = [],
      cp_operation = operation, cp_limits = limits, cp_snapshot = snapshot, cp_profile_id = profile_id,
      cp_expected_affected_rows = None, cp_expected_result_rows = None, cp_operation_check_column = None,
      cp_column_metadata_bytes = 0\<rparr>"

text \<open>\<open>VerifiedExecutionPlan::verify\<close> with the verifier's own check and profile; a sealed plan is the
  candidate that passed.\<close>

definition seal :: "candidate_plan \<Rightarrow> string \<Rightarrow> (candidate_plan \<Rightarrow> verification_error + unit) \<Rightarrow> verification_error + candidate_plan" where
  "seal candidate verifier_profile verify =
     (if all_white_space (cp_protected_sql candidate) then Inl EmptyProtectedSql
      else if cp_profile_id candidate \<noteq> verifier_profile then Inl ProfileMismatch
      else try_ok (verify candidate) (\<lambda>_. Inr candidate))"

section \<open>The verifier of the SQLite profile\<close>

record backend =
  be_show_f64 :: "f64 \<Rightarrow> string"
  be_print :: "stmt \<Rightarrow> string"
  be_parse :: "string \<Rightarrow> cmd list option"
  be_depth :: nat
  be_rnd :: "rat \<Rightarrow> f64"
  be_is_match :: "string \<Rightarrow> string \<Rightarrow> bool option"

abbreviation be_emit :: "backend \<Rightarrow> protected_plan \<Rightarrow> catalog \<Rightarrow> emit_error + emitted_sql" where
  "be_emit be \<equiv> emit (be_show_f64 be) (be_print be) (be_depth be)"

definition PROFILE_ID :: string where "PROFILE_ID = ''sqlite-turso-v1''"
definition LITERAL_PARAMETER_PREFIX :: string where "LITERAL_PARAMETER_PREFIX = ''__policysql_literal_''"

definition parse_single_statement :: "backend \<Rightarrow> string \<Rightarrow> stmt option" where
  "parse_single_statement be sql = (case be_parse be sql of
       Some [Cmd_Stmt statement] \<Rightarrow> Some statement
     | _ \<Rightarrow> None)"

record verifier =
  vf_statement :: stmt
  vf_client_parameters :: "string set"
  vf_server_parameters :: "string set"
  vf_result :: "result_column_descriptor list"
  vf_snapshot :: string
  vf_operation :: operation_kind
  vf_affected_rows :: "nat option"
  vf_operation_check :: bool
  vf_result_rows :: "nat option"
  vf_string_literals :: string_literal_witnesses

definition verifier_new :: "backend \<Rightarrow> string \<Rightarrow> string set \<Rightarrow> string set \<Rightarrow> result_column_descriptor list \<Rightarrow> string \<Rightarrow>
  emit_error + verifier" where
  "verifier_new be sql clients servers result snapshot =
     try_ok (ok_or ReparseFailed (parse_single_statement be sql)) (\<lambda>statement.
       Inr \<lparr>vf_statement = statement, vf_client_parameters = clients, vf_server_parameters = servers, vf_result = result,
            vf_snapshot = snapshot, vf_operation = OpSelect, vf_affected_rows = None, vf_operation_check = False,
            vf_result_rows = None, vf_string_literals = \<lparr>slw_client = [], slw_policy = {}\<rparr>\<rparr>)"

text \<open>\<open>format!("'{}'", value.replace('\'', "''"))\<close>.\<close>

definition quote_char :: char where "quote_char = CHR 0x27"

definition sqlite_string_token :: "string \<Rightarrow> string" where
  "sqlite_string_token v = quote_char # concat (map (\<lambda>c. if c = quote_char then [quote_char, quote_char] else [c]) v) @ [quote_char]"

definition looks_quoted :: "string \<Rightarrow> bool" where
  "looks_quoted v = (2 \<le> length v \<and> hd v = quote_char \<and> last v = quote_char)"

definition literal_strings :: "(string \<times> logical_value) list \<Rightarrow> string set" where
  "literal_strings server_parameters = set (List.map_filter (\<lambda>(name, v).
     if starts_with LITERAL_PARAMETER_PREFIX name then (case v of LV_String s \<Rightarrow> Some s | _ \<Rightarrow> None) else None)
     server_parameters)"

definition verify_string_literals :: "verifier \<Rightarrow> (string \<times> logical_value) list \<Rightarrow> verification_error + unit" where
  "verify_string_literals vf server_parameters =
     (let witnesses = vf_string_literals vf;
          literals = literal_strings server_parameters;
          client_values = csl_value ` set (slw_client witnesses) in
      if \<exists>l \<in> set (slw_client witnesses). sqlite_string_token (csl_value l) \<noteq> csl_token l
      then Inl (VE_InvariantViolation ''client string literal does not round-trip'')
      else if \<not> client_values \<subseteq> literals then Inl (VE_InvariantViolation ''client string literal value is not bound'')
      else if \<exists>v \<in> literals. looks_quoted v \<and> v \<notin> slw_policy witnesses \<and> v \<notin> client_values
      then Inl (VE_InvariantViolation ''server literal still carries SQL string quoting'')
      else Inr ())"

definition violation :: "string \<Rightarrow> verification_error" where
  "violation message = VE_InvariantViolation message"

definition statement_is :: "operation_kind \<Rightarrow> stmt \<Rightarrow> bool" where
  "statement_is operation statement = (case statement of
       Stmt_Select _ \<Rightarrow> operation = OpSelect
     | Stmt_Insert _ \<Rightarrow> operation = OpInsert
     | Stmt_Update _ \<Rightarrow> operation = OpUpdate
     | Stmt_Delete _ \<Rightarrow> operation = OpDelete
     | Stmt_Other \<Rightarrow> False)"

definition verify :: "backend \<Rightarrow> verifier \<Rightarrow> candidate_plan \<Rightarrow> verification_error + unit" where
  "verify be vf candidate =
     try_ok (ok_or (violation ''emitted SQL does not parse as exactly one statement'')
       (parse_single_statement be (cp_protected_sql candidate))) (\<lambda>statement.
     try_ok (require (statement_is (vf_operation vf) statement)
       (violation ''emitted SQL operation or statement count mismatch'')) (\<lambda>_.
     try_ok (require (statement = vf_statement vf) (violation ''emitted SQL syntax tree differs from the protected plan'')) (\<lambda>_.
     try_ok (require (cp_operation candidate = vf_operation vf) (violation ''operation mismatch'')) (\<lambda>_.
     try_ok (require (cp_expected_affected_rows candidate = vf_affected_rows vf) (violation ''affected-row invariant mismatch'')) (\<lambda>_.
     try_ok (require (cp_expected_result_rows candidate = vf_result_rows vf) (violation ''result-row invariant mismatch'')) (\<lambda>_.
     try_ok (require (vf_operation_check vf \<longrightarrow> cp_operation_check_column candidate = Some CHECK_COLUMN)
       (violation ''operation-check column mismatch'')) (\<lambda>_.
     try_ok (require (vf_operation_check vf \<or> cp_operation_check_column candidate = None)
       (violation ''unexpected operation-check column'')) (\<lambda>_.
     try_ok (require (cp_snapshot candidate = vf_snapshot vf) (violation ''snapshot mismatch'')) (\<lambda>_.
     try_ok (require (fst ` set (cp_client_parameters candidate) = vf_client_parameters vf)
       (violation ''client parameter set mismatch'')) (\<lambda>_.
     try_ok (require (fst ` set (cp_server_parameters candidate) = vf_server_parameters vf)
       (violation ''server parameter set mismatch'')) (\<lambda>_.
     try_ok (require (cp_result candidate = vf_result vf) (violation ''result descriptor mismatch'')) (\<lambda>_.
       verify_string_literals vf (cp_server_parameters candidate)))))))))))))"

section \<open>Compilation of a protected plan\<close>

definition pattern_length :: "(string \<times> logical_value) list \<Rightarrow> (string \<times> logical_value) list \<Rightarrow> string \<Rightarrow> nat" where
  "pattern_length clients servers variable =
     (let name = (if starts_with '':'' variable then drop 1 variable else variable);
          v = (case map_of clients name of Some v \<Rightarrow> Some v | None \<Rightarrow> map_of servers name)
      in case v of Some (LV_String text) \<Rightarrow> length text | Some (LV_Bytes b) \<Rightarrow> length b | _ \<Rightarrow> 0)"

definition check_pattern_lengths :: "emitted_sql \<Rightarrow> (string \<times> logical_value) list \<Rightarrow> compile_error + unit" where
  "check_pattern_lengths emitted clients = for_each (\<lambda>variable.
     require (pattern_length clients (em_server_parameters emitted) variable \<le> MAX_LIKE_PATTERN_BYTES)
       (CE_Emit (TooComplex LikePattern))) (em_pattern_variables emitted)"

definition map_error :: "('e \<Rightarrow> 'f) \<Rightarrow> 'e + 'a \<Rightarrow> 'f + 'a" where
  "map_error f r = (case r of Inl e \<Rightarrow> Inl (f e) | Inr v \<Rightarrow> Inr v)"

lemma map_error_Inr_iff [result_simps]: "map_error f r = Inr v \<longleftrightarrow> r = Inr v"
  by (cases r) (auto simp: map_error_def)

text \<open>What the four functions share: emission, validation of the client's values, the descriptors of
  the result and the verifier before its operation is set.\<close>

definition prepare :: "backend \<Rightarrow> protected_plan \<Rightarrow> catalog \<Rightarrow> (string \<times> logical_value) list \<Rightarrow> execution_limits \<Rightarrow> string \<Rightarrow>
  compile_error + emitted_sql \<times> result_column_descriptor list \<times> verifier" where
  "prepare be plan c clients limits snapshot =
     try_ok (map_error CE_Emit (be_emit be plan c)) (\<lambda>emitted.
     let analysis = analyze_client_parameters (pp_statement plan) c in
     try_ok (validate_client_parameters (be_rnd be) (be_is_match be) analysis c clients (el_max_bytes_per_value limits)) (\<lambda>_.
     try_ok (check_pattern_lengths emitted clients) (\<lambda>_.
     try_ok (map_error CE_Emit (result_descriptors (pp_statement plan) c clients)) (\<lambda>result.
     try_ok (map_error CE_Emit (verifier_new be (em_sql emitted) (parameter_names analysis)
         (fst ` set (em_server_parameters emitted)) result snapshot)) (\<lambda>vf.
       Inr (emitted, result, vf\<lparr>vf_string_literals := pp_string_literals plan, vf_result_rows := pp_expected_result_rows plan\<rparr>))))))"

definition candidate_of :: "emitted_sql \<Rightarrow> result_column_descriptor list \<Rightarrow> operation_kind \<Rightarrow> protected_plan \<Rightarrow>
  (string \<times> logical_value) list \<Rightarrow> execution_limits \<Rightarrow> string \<Rightarrow> candidate_plan" where
  "candidate_of emitted result operation plan clients limits snapshot =
     (candidate_new (em_sql emitted) operation limits snapshot PROFILE_ID)\<lparr>
        cp_column_metadata_bytes := em_column_metadata_bytes emitted, cp_client_parameters := clients,
        cp_server_parameters := em_server_parameters emitted, cp_result := result,
        cp_expected_result_rows := pp_expected_result_rows plan\<rparr>"

definition seal_verified :: "backend \<Rightarrow> verifier \<Rightarrow> candidate_plan \<Rightarrow> compile_error + candidate_plan" where
  "seal_verified be vf candidate = map_error CE_Verification (seal candidate PROFILE_ID (verify be vf))"

definition compile_verified_select :: "backend \<Rightarrow> protected_plan \<Rightarrow> catalog \<Rightarrow> (string \<times> logical_value) list \<Rightarrow>
  execution_limits \<Rightarrow> string \<Rightarrow> compile_error + candidate_plan" where
  "compile_verified_select be plan c clients limits snapshot =
     try_ok (prepare be plan c clients limits snapshot) (\<lambda>(emitted, result, vf).
       seal_verified be vf (candidate_of emitted result OpSelect plan clients limits snapshot))"

definition is_insert :: "bound_statement \<Rightarrow> bool" where "is_insert st = (case st of Insert _ \<Rightarrow> True | _ \<Rightarrow> False)"
definition is_update :: "bound_statement \<Rightarrow> bool" where "is_update st = (case st of Update _ \<Rightarrow> True | _ \<Rightarrow> False)"
definition is_delete :: "bound_statement \<Rightarrow> bool" where "is_delete st = (case st of Delete _ \<Rightarrow> True | _ \<Rightarrow> False)"

definition compile_verified_insert :: "backend \<Rightarrow> protected_plan \<Rightarrow> catalog \<Rightarrow> (string \<times> logical_value) list \<Rightarrow>
  execution_limits \<Rightarrow> string \<Rightarrow> compile_error + candidate_plan" where
  "compile_verified_insert be plan c clients limits snapshot =
     (if \<not> is_insert (pp_statement plan) \<or> pp_operation_check plan = None then Inl (CE_Emit UnsupportedStatement)
      else try_ok (ok_or (CE_Emit (EE_InvariantViolation ''INSERT affected-row invariant is missing'')) (pp_expected_affected_rows plan))
        (\<lambda>expected. try_ok (prepare be plan c clients limits snapshot) (\<lambda>(emitted, result, vf).
          seal_verified be (vf\<lparr>vf_operation := OpInsert, vf_affected_rows := Some expected, vf_operation_check := True\<rparr>)
            ((candidate_of emitted result OpInsert plan clients limits snapshot)
              \<lparr>cp_expected_affected_rows := Some expected, cp_operation_check_column := Some CHECK_COLUMN\<rparr>))))"

definition compile_verified_update :: "backend \<Rightarrow> protected_plan \<Rightarrow> catalog \<Rightarrow> (string \<times> logical_value) list \<Rightarrow>
  execution_limits \<Rightarrow> string \<Rightarrow> compile_error + candidate_plan" where
  "compile_verified_update be plan c clients limits snapshot =
     (if \<not> is_update (pp_statement plan) \<or> pp_operation_check plan = None then Inl (CE_Emit UnsupportedStatement)
      else try_ok (prepare be plan c clients limits snapshot) (\<lambda>(emitted, result, vf).
        seal_verified be (vf\<lparr>vf_operation := OpUpdate, vf_operation_check := True, vf_affected_rows := pp_expected_affected_rows plan\<rparr>)
          ((candidate_of emitted result OpUpdate plan clients limits snapshot)
            \<lparr>cp_operation_check_column := Some CHECK_COLUMN, cp_expected_affected_rows := pp_expected_affected_rows plan\<rparr>)))"

definition compile_verified_delete :: "backend \<Rightarrow> protected_plan \<Rightarrow> catalog \<Rightarrow> (string \<times> logical_value) list \<Rightarrow>
  execution_limits \<Rightarrow> string \<Rightarrow> compile_error + candidate_plan" where
  "compile_verified_delete be plan c clients limits snapshot =
     (if \<not> is_delete (pp_statement plan) \<or> pp_operation_check plan \<noteq> None then Inl (CE_Emit UnsupportedStatement)
      else try_ok (prepare be plan c clients limits snapshot) (\<lambda>(emitted, result, vf).
        seal_verified be (vf\<lparr>vf_operation := OpDelete, vf_affected_rows := pp_expected_affected_rows plan\<rparr>)
          ((candidate_of emitted result OpDelete plan clients limits snapshot)
            \<lparr>cp_expected_affected_rows := pp_expected_affected_rows plan\<rparr>)))"

section \<open>String literals\<close>

text \<open>\<open>decode_string_literal\<close> of the front end. Quotes and NUL are ASCII, so the loop over characters
  is one over bytes. \<open>None\<close> is \<open>InvalidLiteral\<close>.\<close>

fun decode_inner :: "string \<Rightarrow> string option" where
  "decode_inner [] = Some []"
| "decode_inner (c # cs) =
     (if c = CHR 0x00 then None
      else if c = quote_char then (case cs of
          d # ds \<Rightarrow> if d = quote_char then map_option ((#) c) (decode_inner ds) else None
        | [] \<Rightarrow> None)
      else map_option ((#) c) (decode_inner cs))"

definition decode_string_literal :: "string \<Rightarrow> string option" where
  "decode_string_literal token =
     (if 2 \<le> length token \<and> hd token = quote_char \<and> last token = quote_char
      then decode_inner (butlast (tl token)) else None)"

definition double_quotes :: "string \<Rightarrow> string" where
  "double_quotes v = concat (map (\<lambda>c. if c = quote_char then [quote_char, quote_char] else [c]) v)"

lemma decode_inner_iff: "decode_inner s = Some v \<longleftrightarrow> s = double_quotes v \<and> CHR 0x00 \<notin> set v"
proof (induction s arbitrary: v rule: decode_inner.induct)
  case 1
  show ?case by (cases v) (auto simp: double_quotes_def)
next
  case (2 c cs)
  have q: "quote_char \<noteq> CHR 0x00" by (simp add: quote_char_def)
  show ?case
  proof (cases v)
    case Nil
    then show ?thesis by (auto simp: double_quotes_def split: list.splits)
  next
    case (Cons d w)
    show ?thesis
    proof (cases "c = quote_char")
      case True
      then show ?thesis using 2 q Cons by (cases cs) (auto simp: double_quotes_def)
    next
      case False
      then show ?thesis using 2 q Cons by (auto simp: double_quotes_def)
    qed
  qed
qed

text \<open>
  C28. The binder's decoder and the verifier's encoder of string literals are inverse: a token is read
  as a value exactly when it is the one token the value is written as, and the value has no NUL. So
  no two tokens the binder accepts carry the same value, and a bound value names its token.
\<close>

theorem string_literal_round_trip:
  "decode_string_literal token = Some v \<longleftrightarrow> token = sqlite_string_token v \<and> CHR 0x00 \<notin> set v"
proof -
  have "2 \<le> length token \<and> hd token = quote_char \<and> last token = quote_char \<longleftrightarrow>
      token = quote_char # butlast (tl token) @ [quote_char]"
  proof (cases token)
    case (Cons c cs)
    then show ?thesis by (cases cs rule: rev_cases) auto
  qed simp
  then have "decode_string_literal token = Some v \<longleftrightarrow>
      token = quote_char # butlast (tl token) @ [quote_char] \<and> butlast (tl token) = double_quotes v \<and> CHR 0x00 \<notin> set v"
    by (auto simp: decode_string_literal_def decode_inner_iff)
  also have "\<dots> \<longleftrightarrow> token = sqlite_string_token v \<and> CHR 0x00 \<notin> set v"
    by (auto simp: sqlite_string_token_def double_quotes_def)
  finally show ?thesis .
qed

lemma string_literal_round_trip_witness:
  "decode_string_literal (sqlite_string_token [quote_char, CHR ''x'', quote_char]) = Some [quote_char, CHR ''x'', quote_char]"
  using string_literal_round_trip [of "sqlite_string_token [quote_char, CHR ''x'', quote_char]" "[quote_char, CHR ''x'', quote_char]"]
  by (simp add: quote_char_def)

section \<open>What a sealed plan is\<close>

lemma sealed: "seal candidate profile f = Inr plan \<longleftrightarrow>
  plan = candidate \<and> \<not> all_white_space (cp_protected_sql candidate) \<and> cp_profile_id candidate = profile \<and> f candidate = Inr ()"
  by (auto simp: seal_def result_simps)

text \<open>The compilers of the four operations.\<close>

definition compile_verified :: "backend \<Rightarrow> protected_plan \<Rightarrow> catalog \<Rightarrow> (string \<times> logical_value) list \<Rightarrow>
  execution_limits \<Rightarrow> string \<Rightarrow> compile_error + candidate_plan" where
  "compile_verified be plan c clients limits snapshot = (case pp_statement plan of
       Insert _ \<Rightarrow> compile_verified_insert be plan c clients limits snapshot
     | Update _ \<Rightarrow> compile_verified_update be plan c clients limits snapshot
     | Delete _ \<Rightarrow> compile_verified_delete be plan c clients limits snapshot
     | _ \<Rightarrow> compile_verified_select be plan c clients limits snapshot)"

definition statement_kind :: "bound_statement \<Rightarrow> operation_kind" where
  "statement_kind st = (case st of Insert _ \<Rightarrow> OpInsert | Update _ \<Rightarrow> OpUpdate | Delete _ \<Rightarrow> OpDelete | _ \<Rightarrow> OpSelect)"

definition sealed_for :: "backend \<Rightarrow> protected_plan \<Rightarrow> catalog \<Rightarrow> (string \<times> logical_value) list \<Rightarrow>
  execution_limits \<Rightarrow> string \<Rightarrow> candidate_plan \<Rightarrow> bool" where
  "sealed_for be plan c clients limits snapshot sealed = (\<exists>emitted statement.
     be_emit be plan c = Inr emitted \<and> cp_protected_sql sealed = em_sql emitted \<and>
     parse_single_statement be (em_sql emitted) = Some statement \<and> statement_is (statement_kind (pp_statement plan)) statement \<and>
     validate_client_parameters (be_rnd be) (be_is_match be) (analyze_client_parameters (pp_statement plan) c) c clients
       (el_max_bytes_per_value limits) = Inr () \<and>
     cp_client_parameters sealed = clients \<and> cp_server_parameters sealed = em_server_parameters emitted \<and>
     cp_operation sealed = statement_kind (pp_statement plan) \<and> cp_limits sealed = limits \<and> cp_snapshot sealed = snapshot \<and>
     cp_expected_result_rows sealed = pp_expected_result_rows plan \<and>
     cp_expected_affected_rows sealed = (if cp_operation sealed = OpSelect then None else pp_expected_affected_rows plan) \<and>
     cp_operation_check_column sealed = (if cp_operation sealed \<in> {OpInsert, OpUpdate} then Some CHECK_COLUMN else None) \<and>
     (\<forall>l \<in> set (slw_client (pp_string_literals plan)). csl_token l = sqlite_string_token (csl_value l) \<and>
        csl_value l \<in> literal_strings (em_server_parameters emitted)) \<and>
     (\<forall>v \<in> literal_strings (em_server_parameters emitted). looks_quoted v \<longrightarrow>
        v \<in> slw_policy (pp_string_literals plan) \<or> v \<in> csl_value ` set (slw_client (pp_string_literals plan))))"

lemma verified_literals:
  "verify_string_literals vf servers = Inr () \<longleftrightarrow>
    (\<forall>l \<in> set (slw_client (vf_string_literals vf)). csl_token l = sqlite_string_token (csl_value l) \<and>
       csl_value l \<in> literal_strings servers) \<and>
    (\<forall>v \<in> literal_strings servers. looks_quoted v \<longrightarrow>
       v \<in> slw_policy (vf_string_literals vf) \<or> v \<in> csl_value ` set (slw_client (vf_string_literals vf)))"
  by (auto simp: verify_string_literals_def Let_def)

lemma seal_verified_Inr:
  assumes "seal_verified be vf candidate = Inr sealed"
  shows "sealed = candidate"
    and "\<exists>statement. parse_single_statement be (cp_protected_sql candidate) = Some statement \<and> statement_is (vf_operation vf) statement"
    and "verify_string_literals vf (cp_server_parameters candidate) = Inr ()"
  using assms by (auto simp: seal_verified_def sealed verify_def result_simps)

lemma prepared:
  assumes "prepare be plan c clients limits snapshot = Inr (emitted, result, vf)"
  shows "be_emit be plan c = Inr emitted" "vf_string_literals vf = pp_string_literals plan" "vf_operation vf = OpSelect"
    and "validate_client_parameters (be_rnd be) (be_is_match be) (analyze_client_parameters (pp_statement plan) c) c clients
       (el_max_bytes_per_value limits) = Inr ()"
  using assms by (auto simp: prepare_def verifier_new_def result_simps Let_def)

lemma sealed_prepared:
  assumes "prepare be plan c clients limits snapshot = Inr (emitted, result, vf)"
    and "seal_verified be vf' candidate = Inr sealed"
    and "vf_string_literals vf' = vf_string_literals vf" and "vf_operation vf' = statement_kind (pp_statement plan)"
    and "cp_protected_sql candidate = em_sql emitted" "cp_client_parameters candidate = clients"
      "cp_server_parameters candidate = em_server_parameters emitted" "cp_operation candidate = statement_kind (pp_statement plan)"
      "cp_limits candidate = limits" "cp_snapshot candidate = snapshot" "cp_expected_result_rows candidate = pp_expected_result_rows plan"
      "cp_expected_affected_rows candidate = (if statement_kind (pp_statement plan) = OpSelect then None else pp_expected_affected_rows plan)"
      "cp_operation_check_column candidate = (if statement_kind (pp_statement plan) \<in> {OpInsert, OpUpdate} then Some CHECK_COLUMN else None)"
  shows "sealed_for be plan c clients limits snapshot sealed"
proof -
  note v = seal_verified_Inr [OF assms(2)] and p = prepared [OF assms(1)]
  obtain statement where "parse_single_statement be (em_sql emitted) = Some statement"
    "statement_is (statement_kind (pp_statement plan)) statement"
    using v(2) assms(4,5) by auto
  moreover note v(3) [unfolded verified_literals assms(3,7) p(2)]
  ultimately show ?thesis
    unfolding sealed_for_def v(1) using p(1,4) assms(5-13) by (intro exI [of _ emitted] exI [of _ statement]) simp
qed

lemmas kind_defs = statement_kind_def is_insert_def is_update_def is_delete_def candidate_of_def candidate_new_def

lemma compile_verified_select_sealed:
  assumes "compile_verified_select be plan c clients limits snapshot = Inr sealed" and kind: "statement_kind (pp_statement plan) = OpSelect"
  shows "sealed_for be plan c clients limits snapshot sealed"
proof -
  obtain emitted result vf where p: "prepare be plan c clients limits snapshot = Inr (emitted, result, vf)"
    and s: "seal_verified be vf (candidate_of emitted result OpSelect plan clients limits snapshot) = Inr sealed"
    using assms(1) by (auto simp: compile_verified_select_def result_simps)
  show ?thesis
    by (rule sealed_prepared [OF p s]) (simp_all add: kind prepared(3) [OF p] candidate_of_def candidate_new_def)
qed

lemma compile_verified_sealed:
  assumes "compile_verified be plan c clients limits snapshot = Inr sealed"
  shows "sealed_for be plan c clients limits snapshot sealed"
proof (cases "pp_statement plan")
  case (Insert i)
  then show ?thesis
    using assms by (auto simp: compile_verified_def compile_verified_insert_def result_simps kind_defs split: if_splits
        elim!: sealed_prepared)
next
  case (Update u)
  then show ?thesis
    using assms by (auto simp: compile_verified_def compile_verified_update_def result_simps kind_defs split: if_splits
        elim!: sealed_prepared)
next
  case (Delete d)
  then show ?thesis
    using assms by (auto simp: compile_verified_def compile_verified_delete_def result_simps kind_defs split: if_splits
        elim!: sealed_prepared)
qed (use assms compile_verified_select_sealed [of be plan c clients limits snapshot sealed] in
    \<open>simp_all add: compile_verified_def statement_kind_def\<close>)

section \<open>What sealing refuses\<close>

text \<open>The candidate and the verifier are built from the same plan.\<close>

definition matched :: "verifier \<Rightarrow> candidate_plan \<Rightarrow> bool" where
  "matched vf candidate = (cp_operation candidate = vf_operation vf \<and> cp_expected_affected_rows candidate = vf_affected_rows vf \<and>
     cp_expected_result_rows candidate = vf_result_rows vf \<and>
     cp_operation_check_column candidate = (if vf_operation_check vf then Some CHECK_COLUMN else None) \<and>
     cp_snapshot candidate = vf_snapshot vf \<and> fst ` set (cp_client_parameters candidate) = vf_client_parameters vf \<and>
     fst ` set (cp_server_parameters candidate) = vf_server_parameters vf \<and> cp_result candidate = vf_result vf)"

definition kind_refusal :: verification_error where
  "kind_refusal = violation ''emitted SQL operation or statement count mismatch''"

definition literal_refusals :: "verification_error set" where
  "literal_refusals = {violation ''client string literal does not round-trip'', violation ''client string literal value is not bound'',
     violation ''server literal still carries SQL string quoting''}"

lemma literals_refused: "verify_string_literals vf servers = Inl e \<Longrightarrow> e \<in> literal_refusals"
  by (auto simp: verify_string_literals_def Let_def literal_refusals_def violation_def split: if_splits)

lemma verify_matched:
  assumes "parse_single_statement be (cp_protected_sql candidate) = Some (vf_statement vf)" "matched vf candidate"
  shows "verify be vf candidate =
    try_ok (require (statement_is (vf_operation vf) (vf_statement vf)) kind_refusal)
      (\<lambda>_. verify_string_literals vf (cp_server_parameters candidate))"
  using assms by (simp add: verify_def matched_def kind_refusal_def)

lemma seal_refused:
  assumes "seal_verified be vf candidate = Inl (CE_Verification e)" "cp_profile_id candidate = PROFILE_ID"
    and "parse_single_statement be (cp_protected_sql candidate) = Some (vf_statement vf)" "matched vf candidate"
  shows "e \<in> insert EmptyProtectedSql (insert kind_refusal literal_refusals)"
  using assms by (auto simp: seal_verified_def seal_def verify_matched [OF assms(3,4)] map_error_def try_ok_Inl_iff require_Inl_iff
      dest: literals_refused split: sum.splits if_splits)

lemma prepared_matched:
  assumes "prepare be plan c clients limits snapshot = Inr (emitted, result, vf)"
  shows "parse_single_statement be (em_sql emitted) = Some (vf_statement vf)"
    and "matched vf (candidate_of emitted result OpSelect plan clients limits snapshot)"
proof -
  have "fst ` set clients = parameter_names (analyze_client_parameters (pp_statement plan) c)"
    using prepared(4) [OF assms]
    by (auto simp: validate_client_parameters_def parameter_names_def split: if_splits simp flip: set_map)
  then show "matched vf (candidate_of emitted result OpSelect plan clients limits snapshot)"
    using assms by (clarsimp simp: prepare_def verifier_new_def result_simps Let_def matched_def candidate_of_def candidate_new_def)
  show "parse_single_statement be (em_sql emitted) = Some (vf_statement vf)"
    using assms by (auto simp: prepare_def verifier_new_def result_simps Let_def)
qed

lemma prepare_no_refusal: "prepare be plan c clients limits snapshot \<noteq> Inl (CE_Verification e)"
proof
  assume "prepare be plan c clients limits snapshot = Inl (CE_Verification e)"
  moreover have "for_each f xs \<noteq> Inl (CE_Verification e)" if "\<And>x. f x \<noteq> Inl (CE_Verification e)" for f and xs :: "'x list"
    using that for_each_Inl by metis
  ultimately show False
    by (auto simp: prepare_def Let_def try_ok_Inl_iff map_error_def validate_client_parameters_def check_pattern_lengths_def
        ok_or_Inl_iff require_Inl_iff validate_contract_def dest!: for_each_Inl split: sum.splits if_splits)
qed

lemma refused_prepared:
  assumes "try_ok (prepare be plan c clients limits snapshot) (\<lambda>(emitted, result, vf). seal_verified be (f vf)
      (g (candidate_of emitted result OpSelect plan clients limits snapshot))) = Inl (CE_Verification e)"
    and "\<And>vf candidate. vf_statement (f vf) = vf_statement vf \<and> cp_protected_sql (g candidate) = cp_protected_sql candidate \<and>
      cp_profile_id (g candidate) = cp_profile_id candidate"
    and "\<And>vf candidate. vf_affected_rows vf = None \<Longrightarrow> \<not> vf_operation_check vf \<Longrightarrow> matched vf candidate \<Longrightarrow> matched (f vf) (g candidate)"
  shows "e \<in> insert EmptyProtectedSql (insert kind_refusal literal_refusals)"
proof -
  obtain emitted result vf where p: "prepare be plan c clients limits snapshot = Inr (emitted, result, vf)"
    and s: "seal_verified be (f vf) (g (candidate_of emitted result OpSelect plan clients limits snapshot)) = Inl (CE_Verification e)"
    using assms(1) prepare_no_refusal by (auto simp: try_ok_Inl_iff)
  have "vf_affected_rows vf = None" "\<not> vf_operation_check vf"
    using p by (auto simp: prepare_def verifier_new_def result_simps Let_def)
  with assms(3) [OF _ _ prepared_matched(2) [OF p]] show ?thesis
    by (intro seal_refused [OF s]) (simp_all add: assms(2) prepared_matched(1) [OF p] candidate_of_def candidate_new_def)
qed

lemma candidate_of_operation:
  "candidate_of emitted result operation plan clients limits snapshot =
     (candidate_of emitted result OpSelect plan clients limits snapshot)\<lparr>cp_operation := operation\<rparr>"
  by (simp add: candidate_of_def candidate_new_def)

lemma compile_verified_refused:
  assumes "compile_verified be plan c clients limits snapshot = Inl (CE_Verification e)"
  shows "e \<in> insert EmptyProtectedSql (insert kind_refusal literal_refusals)"
proof -
  let ?run = "\<lambda>f g. try_ok (prepare be plan c clients limits snapshot) (\<lambda>(emitted, result, vf). seal_verified be (f vf)
      (g (candidate_of emitted result OpSelect plan clients limits snapshot)))"
  consider (select) "?run (\<lambda>vf. vf) (\<lambda>candidate. candidate) = Inl (CE_Verification e)"
    | (insert) expected where "?run (\<lambda>vf. vf\<lparr>vf_operation := OpInsert, vf_affected_rows := Some expected, vf_operation_check := True\<rparr>)
        (\<lambda>candidate. candidate\<lparr>cp_operation := OpInsert, cp_expected_affected_rows := Some expected,
          cp_operation_check_column := Some CHECK_COLUMN\<rparr>) = Inl (CE_Verification e)"
    | (update) "?run (\<lambda>vf. vf\<lparr>vf_operation := OpUpdate, vf_operation_check := True, vf_affected_rows := pp_expected_affected_rows plan\<rparr>)
        (\<lambda>candidate. candidate\<lparr>cp_operation := OpUpdate, cp_operation_check_column := Some CHECK_COLUMN,
          cp_expected_affected_rows := pp_expected_affected_rows plan\<rparr>) = Inl (CE_Verification e)"
    | (delete) "?run (\<lambda>vf. vf\<lparr>vf_operation := OpDelete, vf_affected_rows := pp_expected_affected_rows plan\<rparr>)
        (\<lambda>candidate. candidate\<lparr>cp_operation := OpDelete, cp_expected_affected_rows := pp_expected_affected_rows plan\<rparr>) = Inl (CE_Verification e)"
    using assms
    by (cases "pp_statement plan") (auto simp: compile_verified_def compile_verified_select_def compile_verified_insert_def
        compile_verified_update_def compile_verified_delete_def candidate_of_operation [of _ _ OpInsert]
        candidate_of_operation [of _ _ OpUpdate] candidate_of_operation [of _ _ OpDelete] ok_or_Inl_iff
        try_ok_Inl_iff [of "ok_or _ _"] ok_or_Inr_iff split: if_splits)
  then show ?thesis
    by cases (erule refused_prepared; simp add: matched_def)+
qed

end
