(* ===== verification/Sql_Bind.thy ===== *)
theory Sql_Bind
  imports Gw_Seal
begin

text \<open>
  The binder of the SQL front end (\<^verbatim>\<open>src/crates/policysql-parser/src/lib.rs\<close>): a statement's syntax tree becomes a bound
  statement, every name resolved against the catalog, every parameter given the type its place proves, and
  everything outside the supported subset refused.

  \<open>BindState\<close> is the list of scopes, an argument, and the trace of parameters and string literals, threaded through.
  The functions on parts of an expression are parametrised by the binding of the parts, and \<open>bind_boolean\<close> and
  \<open>bind_scalar\<close> tie the knot. \<open>parse\<close> is the parser crate and \<open>rnd\<close> the rounding of a decimal to a
  float. \<open>decode_string_literal\<close> is in \<open>Gw_Seal\<close>, beside its inverse.
\<close>

section \<open>Errors, limits and documents\<close>

datatype bind_error =
    BE_Empty | InvalidSql | MultipleStatements | Unsupported string | MissingFrom | BE_UnknownResource | BE_UnknownColumn
  | AmbiguousColumn | DuplicateAlias | ImplicitRowId | ProjectionLimit | JoinLimit | ParameterLimit | ExpressionDepth
  | PositionalParameter | UnsupportedParameterPrefix | BE_InvalidParameterName | BE_ReservedParameterNamespace
  | UnprovableParameterType | IncompatibleTypes | InvalidLiteral | BE_NullComparison | InvalidLimit | InvalidResultName
  | DuplicateResultName | DuplicateWriteColumn | InsertArity

record binding_limits =
  bl_max_expression_depth :: nat
  bl_max_parameters :: nat
  bl_max_projections :: nat
  bl_max_joins :: nat

definition binding_limits_default :: binding_limits where
  "binding_limits_default = \<lparr>bl_max_expression_depth = 32, bl_max_parameters = 1024, bl_max_projections = 128, bl_max_joins = 8\<rparr>"

record bind_trace =
  bt_parameters :: "string set"
  bt_string_literals :: "client_string_literal list"

definition new_trace :: bind_trace where
  "new_trace = \<lparr>bt_parameters = {}, bt_string_literals = []\<rparr>"

record source_span =
  ss_start :: nat
  ss_end :: nat

record bound_document =
  bdoc_statement :: bound_statement
  bdoc_source_span :: source_span
  bdoc_parameters :: "string set"
  bdoc_string_literals :: "client_string_literal list"

record source_scope =
  sco_resource :: resource_descriptor
  sco_alias :: "string option"
  sco_qualifier :: string
  sco_columns :: "(string \<times> column_descriptor) list"

text \<open>What is fixed while a statement is bound: the limits, the catalog and the rounding of floats.\<close>

record front =
  fr_limits :: binding_limits
  fr_catalog :: catalog
  fr_rnd :: "rat \<Rightarrow> f64"

type_synonym 'a binds = "bind_trace \<Rightarrow> bind_error + 'a \<times> bind_trace"

section \<open>Names and literals\<close>

definition eq_ignore_ascii_case :: "string \<Rightarrow> string \<Rightarrow> bool" where
  "eq_ignore_ascii_case a b = (canonical_name a = canonical_name b)"

definition explicit_alias :: "as_alias option \<Rightarrow> string option" where
  "explicit_alias alias = (case alias of Some a \<Rightarrow> if as_explicit a then Some (name_str (as_name a)) else None | None \<Rightarrow> None)"

definition bound_column_of :: "column_descriptor \<Rightarrow> column_usage \<Rightarrow> bound_column" where
  "bound_column_of column usage = \<lparr>bc_id = cd_id column, bc_type = vd_logical_type (cd_value column), bc_usage = usage\<rparr>"

definition result_name_of :: "string \<Rightarrow> bind_error + string" where
  "result_name_of name = (case result_name_new name of Inl _ \<Rightarrow> Inl InvalidResultName | Inr n \<Rightarrow> Inr n)"

fun unique_result_names :: "string set \<Rightarrow> bound_projection list \<Rightarrow> bind_error + unit" where
  "unique_result_names names [] = Inr ()"
| "unique_result_names names (p # ps) =
     (let name = canonical_name (pj_output_name p) in
      if starts_with ''__policysql_'' name then Inl InvalidResultName
      else if name \<in> names then Inl DuplicateResultName
      else unique_result_names (insert name names) ps)"

definition ensure_unique_result_names :: "bound_projection list \<Rightarrow> bind_error + unit" where
  "ensure_unique_result_names ps = unique_result_names {} ps"

definition bind_literal :: "(rat \<Rightarrow> f64) \<Rightarrow> literal_node \<Rightarrow> logical_type option \<Rightarrow> bind_error + bound_expr \<times> logical_type" where
  "bind_literal rnd l expected =
     try_ok (case l of
         Lit_String token \<Rightarrow> (case decode_string_literal token of None \<Rightarrow> Inl InvalidLiteral | Some v \<Rightarrow> Inr (LV_String v, LT_String))
       | Lit_Numeric v \<Rightarrow> (case parse_i64 v of
             Some i \<Rightarrow> Inr (LV_Int64 i, LT_Int64)
           | None \<Rightarrow> (case parse_f64 rnd v of None \<Rightarrow> Inl InvalidLiteral | Some x \<Rightarrow> Inr (LV_Number x, LT_Number)))
       | Lit_True \<Rightarrow> Inr (LV_Boolean True, LT_Boolean)
       | Lit_False \<Rightarrow> Inr (LV_Boolean False, LT_Boolean)
       | Lit_Null \<Rightarrow> Inl BE_NullComparison
       | Lit_Other \<Rightarrow> Inl (Unsupported ''literal'')) (\<lambda>(value, logical_type).
     if is_some_and (\<lambda>e. e \<noteq> logical_type) expected then Inl IncompatibleTypes
     else Inr (Literal value, logical_type))"

section \<open>Sources\<close>

definition bind_source :: "catalog \<Rightarrow> select_table \<Rightarrow> bind_error + source_scope" where
  "bind_source c table = (case table of
       St_Table name alias indexed \<Rightarrow>
         if qn_db_name name \<noteq> None then Inl (Unsupported ''database qualifier'')
         else if indexed then Inl (Unsupported ''INDEXED BY'')
         else try_ok (ok_or BE_UnknownResource (catalog_resource c (name_str (qn_name name)))) (\<lambda>resource.
           let alias = map_option canonical_name (explicit_alias alias) in
           Inr \<lparr>sco_resource = resource, sco_alias = alias, sco_qualifier = unwrap_or (canonical_name (rd_name resource)) alias,
             sco_columns = fold (\<lambda>column. bt_insert (canonical_name (cd_name column)) column) (map snd (rd_columns resource)) []\<rparr>)
     | _ \<Rightarrow> Inl (Unsupported ''table source''))"

definition is_row_id :: "string \<Rightarrow> bool" where
  "is_row_id name = (name \<in> {''rowid'', ''_rowid_'', ''oid''})"

definition resolve_name :: "source_scope list \<Rightarrow> string option \<Rightarrow> string \<Rightarrow> bind_error + column_descriptor" where
  "resolve_name scopes qualifier name =
     (if is_row_id (canonical_name name) then Inl ImplicitRowId
      else (case qualifier of
          Some q \<Rightarrow>
            try_ok (ok_or BE_UnknownResource (find (\<lambda>scope. eq_ignore_ascii_case (sco_qualifier scope) q) scopes)) (\<lambda>scope.
              ok_or BE_UnknownColumn (bt_get (sco_columns scope) (canonical_name name)))
        | None \<Rightarrow>
            (case List.map_filter (\<lambda>scope. bt_get (sco_columns scope) (canonical_name name)) scopes of
               [] \<Rightarrow> Inl BE_UnknownColumn
             | [column] \<Rightarrow> Inr column
             | _ \<Rightarrow> Inl AmbiguousColumn)))"

definition resolve_direct_column :: "source_scope list \<Rightarrow> expr \<Rightarrow> bind_error + column_descriptor" where
  "resolve_direct_column scopes e = (case e of
       E_Id name \<Rightarrow> resolve_name scopes None (name_str name)
     | E_Name name \<Rightarrow> resolve_name scopes None (name_str name)
     | E_Qualified source name \<Rightarrow> resolve_name scopes (Some (name_str source)) (name_str name)
     | _ \<Rightarrow> Inl (Unsupported ''derived projection''))"

definition resolved_column :: "source_scope list \<Rightarrow> column_usage \<Rightarrow> expr \<Rightarrow> bind_error + bound_column" where
  "resolved_column scopes usage e = try_ok (resolve_direct_column scopes e) (\<lambda>column. Inr (bound_column_of column usage))"

definition direction_of :: "sort_order option \<Rightarrow> sort_direction" where
  "direction_of order = (case order of Some So_Desc \<Rightarrow> Descending | _ \<Rightarrow> Ascending)"

section \<open>Parts of expressions\<close>

type_synonym bind_typed = "logical_type option \<Rightarrow> expr \<Rightarrow> (bound_expr \<times> logical_type) binds"

definition check_depth :: "front \<Rightarrow> nat \<Rightarrow> bind_error + unit" where
  "check_depth fr depth = (if bl_max_expression_depth (fr_limits fr) < depth then Inl ExpressionDepth else Inr ())"

definition is_variable :: "expr \<Rightarrow> bool" where
  "is_variable e = (case e of E_Variable _ _ \<Rightarrow> True | _ \<Rightarrow> False)"

definition no_function_tail :: "expr function_tail \<Rightarrow> bool" where
  "no_function_tail t = (ft_filter t = None \<and> ft_over t = None)"

definition count_last :: "source_scope list \<Rightarrow> bind_error + bound_expr" where
  "count_last scopes = (if scopes = [] then Inl MissingFrom else Inr (CountAll (rd_id (sco_resource (last scopes)))))"

definition bind_comparison :: "bind_typed \<Rightarrow> expr \<Rightarrow> expr \<Rightarrow> (bound_expr \<times> bound_expr) binds" where
  "bind_comparison f left right tr =
     (if is_variable left \<and> is_variable right then Inl UnprovableParameterType
      else if is_variable left then
        try_ok (f None right tr) (\<lambda>((r, right_type), tr).
        try_ok (f (Some right_type) left tr) (\<lambda>((l, _), tr). Inr ((l, r), tr)))
      else
        try_ok (f None left tr) (\<lambda>((l, left_type), tr).
        try_ok (f (Some left_type) right tr) (\<lambda>((r, right_type), tr).
          if left_type \<noteq> right_type then Inl IncompatibleTypes else Inr ((l, r), tr))))"

definition bind_in_list :: "bind_typed \<Rightarrow> expr \<Rightarrow> bool \<Rightarrow> expr list \<Rightarrow> bound_expr binds" where
  "bind_in_list f lhs negated rhs tr =
     try_ok (if is_variable lhs then
         (case find (\<lambda>v. \<not> is_variable v) rhs of
            None \<Rightarrow> Inl UnprovableParameterType
          | Some first \<Rightarrow> try_ok (f None first tr) (\<lambda>((_, logical_type), tr). f (Some logical_type) lhs tr))
       else f None lhs tr) (\<lambda>((expression, logical_type), tr).
     try_ok (traverse_st (f (Some logical_type)) rhs tr) (\<lambda>(vs, tr). Inr (In expression (map fst vs) negated, tr)))"

definition comparison_of :: "operator \<Rightarrow> (bound_expr \<Rightarrow> bound_expr \<Rightarrow> bound_expr) option" where
  "comparison_of op = (case op of
       Op_Equals \<Rightarrow> Some Equal
     | Op_NotEquals \<Rightarrow> Some NotEqual
     | Op_Less \<Rightarrow> Some Less
     | Op_LessEquals \<Rightarrow> Some LessEqual
     | Op_Greater \<Rightarrow> Some Greater
     | Op_GreaterEquals \<Rightarrow> Some GreaterEqual
     | _ \<Rightarrow> None)"

definition bind_variable :: "front \<Rightarrow> string option \<Rightarrow> logical_type option \<Rightarrow> (bound_expr \<times> logical_type) binds" where
  "bind_variable fr name expected tr =
     try_ok (ok_or PositionalParameter name) (\<lambda>name.
     try_ok (ok_or UnsupportedParameterPrefix (strip_prefix '':'' name)) (\<lambda>name.
     (case client_parameter_name_new name of
        Inl ReservedParameterNamespace \<Rightarrow> Inl BE_ReservedParameterNamespace
      | Inl _ \<Rightarrow> Inl BE_InvalidParameterName
      | Inr name \<Rightarrow>
          try_ok (ok_or UnprovableParameterType expected) (\<lambda>logical_type.
          let parameters = insert name (bt_parameters tr) in
          if bl_max_parameters (fr_limits fr) < card parameters then Inl ParameterLimit
          else Inr ((ClientParameter name logical_type, logical_type), tr\<lparr>bt_parameters := parameters\<rparr>)))))"

definition bind_literal_node :: "front \<Rightarrow> literal_node \<Rightarrow> logical_type option \<Rightarrow> (bound_expr \<times> logical_type) binds" where
  "bind_literal_node fr l expected tr =
     try_ok (bind_literal (fr_rnd fr) l expected) (\<lambda>(b, logical_type).
     Inr ((b, logical_type), (case (l, b) of
         (Lit_String token, Literal (LV_String v)) \<Rightarrow>
           tr\<lparr>bt_string_literals := bt_string_literals tr @ [\<lparr>csl_token = token, csl_value = v\<rparr>]\<rparr>
       | _ \<Rightarrow> tr)))"

definition bind_column :: "source_scope list \<Rightarrow> column_usage \<Rightarrow> logical_type option \<Rightarrow> expr \<Rightarrow> (bound_expr \<times> logical_type) binds" where
  "bind_column scopes usage expected e tr =
     try_ok (resolve_direct_column scopes e) (\<lambda>column.
     let logical_type = vd_logical_type (cd_value column) in
     if is_some_and (\<lambda>x. x \<noteq> logical_type) expected then Inl IncompatibleTypes
     else Inr ((Column (bound_column_of column usage), logical_type), tr))"

definition bind_concat :: "bind_typed \<Rightarrow> expr \<Rightarrow> expr \<Rightarrow> logical_type option \<Rightarrow> (bound_expr \<times> logical_type) binds" where
  "bind_concat f left right expected tr =
     (if is_some_and (\<lambda>x. x \<noteq> LT_String) expected then Inl IncompatibleTypes
      else try_ok (f (Some LT_String) left tr) (\<lambda>((l, _), tr).
        try_ok (f (Some LT_String) right tr) (\<lambda>((r, _), tr). Inr ((Concat l r, LT_String), tr))))"

definition bind_cast_text :: "bind_typed \<Rightarrow> expr \<Rightarrow> type_name option \<Rightarrow> logical_type option \<Rightarrow> (bound_expr \<times> logical_type) binds" where
  "bind_cast_text f e type_name expected tr = (case type_name of
       None \<Rightarrow> Inl (Unsupported ''CAST type'')
     | Some t \<Rightarrow>
         if ty_array_dimensions t \<noteq> 0 \<or> ty_sized t \<or> \<not> eq_ignore_ascii_case (ty_name t) ''text'' \<or>
           is_some_and (\<lambda>x. x \<noteq> LT_String) expected
         then Inl (Unsupported ''CAST type'')
         else try_ok (f None e tr) (\<lambda>((inner, _), tr). Inr ((CastText inner, LT_String), tr)))"

fun bind_branches :: "(expr \<Rightarrow> bound_expr binds) \<Rightarrow> bind_typed \<Rightarrow> logical_type option \<Rightarrow> (expr \<times> expr) list \<Rightarrow>
  ((bound_expr \<times> bound_expr) list \<times> logical_type option) binds" where
  "bind_branches g f result_type [] tr = Inr (([], result_type), tr)"
| "bind_branches g f result_type ((condition, result) # pairs) tr =
     try_ok (g condition tr) (\<lambda>(condition, tr).
     try_ok (f result_type result tr) (\<lambda>((result, branch_type), tr).
     try_ok (bind_branches g f (Some branch_type) pairs tr) (\<lambda>((branches, result_type), tr).
       Inr (((condition, result) # branches, result_type), tr))))"

definition bind_option :: "('a \<Rightarrow> 'b binds) \<Rightarrow> 'a option \<Rightarrow> 'b option binds" where
  "bind_option f x tr = (case x of
       None \<Rightarrow> Inr (None, tr)
     | Some y \<Rightarrow> try_ok (f y tr) (\<lambda>(z, tr). Inr (Some z, tr)))"

definition bind_case :: "(expr \<Rightarrow> bound_expr binds) \<Rightarrow> bind_typed \<Rightarrow> (expr \<times> expr) list \<Rightarrow> expr option \<Rightarrow> logical_type option \<Rightarrow>
  (bound_expr \<times> logical_type) binds" where
  "bind_case g f pairs els expected tr =
     try_ok (bind_branches g f expected pairs tr) (\<lambda>((branches, result_type), tr).
     try_ok (ok_or UnprovableParameterType result_type) (\<lambda>result_type.
     try_ok (bind_option (f (Some result_type)) els tr) (\<lambda>(els, tr).
       Inr ((Case branches (map_option fst els) result_type, result_type), tr))))"

definition scalar_signature :: "string \<Rightarrow> (scalar_function \<times> logical_type list \<times> logical_type) option" where
  "scalar_signature name =
     (if name = ''lower'' then Some (Lower, [LT_String], LT_String)
      else if name = ''upper'' then Some (Upper, [LT_String], LT_String)
      else if name = ''json_extract'' then Some (JsonExtract, [LT_Json, LT_String], LT_Json)
      else None)"

definition bind_registered_scalar :: "bind_typed \<Rightarrow> string \<Rightarrow> expr list \<Rightarrow> logical_type option \<Rightarrow> (bound_expr \<times> logical_type) binds" where
  "bind_registered_scalar f name arguments expected tr =
     try_ok (ok_or (Unsupported ''scalar function'') (scalar_signature (canonical_name name))) (\<lambda>(function, signature, return_type).
     if length arguments \<noteq> length signature \<or> is_some_and (\<lambda>x. x \<noteq> return_type) expected then Inl IncompatibleTypes
     else try_ok (traverse_st (\<lambda>(argument, expected). f (Some expected) argument) (zip arguments signature) tr) (\<lambda>(arguments, tr).
       Inr ((ScalarFunction function (map fst arguments) return_type, return_type), tr)))"

definition bind_row_number :: "source_scope list \<Rightarrow> bool \<Rightarrow> expr list \<Rightarrow> expr sorted_column list \<Rightarrow> expr sorted_column list \<Rightarrow>
  expr function_tail \<Rightarrow> bind_error + bound_expr" where
  "bind_row_number scopes distinctness arguments argument_order within_group tail =
     (if distinctness \<or> arguments \<noteq> [] \<or> argument_order \<noteq> [] \<or> within_group \<noteq> [] \<or> ft_filter tail \<noteq> None
      then Inl (Unsupported ''ROW_NUMBER option'')
      else (case ft_over tail of
          Some (Over_Window base partition_by order_by frame_clause) \<Rightarrow>
            if base \<or> frame_clause \<or> order_by = [] then Inl (Unsupported ''window shape'')
            else try_ok (traverse (resolved_column scopes U_Window) partition_by) (\<lambda>partition_by.
              try_ok (traverse (\<lambda>order.
                if sc_nulls order then Inl (Unsupported ''window NULLS ordering'')
                else try_ok (resolved_column scopes U_Window (sc_expr order)) (\<lambda>column.
                  Inr (column, direction_of (sc_order order)))) order_by) (\<lambda>order_by.
              let resource = cid_resource (bc_id (fst (hd order_by))) in
              if list_ex (\<lambda>column. cid_resource (bc_id column) \<noteq> resource) partition_by \<or>
                 list_ex (\<lambda>order. cid_resource (bc_id (fst order)) \<noteq> resource) order_by
              then Inl (Unsupported ''multi-resource window'')
              else Inr (RowNumber resource partition_by (map (\<lambda>(column, direction). BoundOrder (Column column) direction) order_by))))
        | _ \<Rightarrow> Inl (Unsupported ''ROW_NUMBER without inline window'')))"


text \<open>\<open>bind_projection\<close>, where \<open>f\<close> binds a scalar for a projection at depth 0.\<close>

definition is_derived :: "expr \<Rightarrow> bool" where
  "is_derived e = (case e of E_Case _ _ _ \<Rightarrow> True | E_Cast _ _ \<Rightarrow> True | E_Binary _ op _ \<Rightarrow> op = Op_Concat | _ \<Rightarrow> False)"

definition is_scalar_name :: "string \<Rightarrow> bool" where
  "is_scalar_name name = (canonical_name name \<in> {''lower'', ''upper'', ''json_extract''})"

definition bind_projected_column :: "source_scope list \<Rightarrow> expr \<Rightarrow> (bound_expr \<times> string) binds" where
  "bind_projected_column scopes e tr =
     try_ok (resolve_direct_column scopes e) (\<lambda>column. Inr ((Column (bound_column_of column U_Projection), cd_name column), tr))"

definition bind_projected :: "bind_typed \<Rightarrow> source_scope list \<Rightarrow> as_alias option \<Rightarrow> expr \<Rightarrow> (bound_expr \<times> string) binds" where
  "bind_projected f scopes alias e tr = (case e of
       E_FunctionCallStar name tail \<Rightarrow>
         if eq_ignore_ascii_case (name_str name) ''count'' \<and> no_function_tail tail
         then try_ok (count_last scopes) (\<lambda>b. Inr ((b, ''count''), tr))
         else bind_projected_column scopes e tr
     | E_FunctionCall name distinctness arguments order_by within_group tail \<Rightarrow>
         if eq_ignore_ascii_case (name_str name) ''row_number''
         then try_ok (bind_row_number scopes distinctness arguments order_by within_group tail) (\<lambda>b. Inr ((b, ''row_number''), tr))
         else if is_scalar_name (name_str name)
         then try_ok (f None e tr) (\<lambda>((b, _), tr). Inr ((b, canonical_name (name_str name)), tr))
         else bind_projected_column scopes e tr
     | _ \<Rightarrow>
         if is_derived e then
           try_ok (ok_or InvalidResultName (explicit_alias alias)) (\<lambda>output_name.
           try_ok (f None e tr) (\<lambda>((b, _), tr). Inr ((b, output_name), tr)))
         else bind_projected_column scopes e tr)"

definition bind_projection :: "bind_typed \<Rightarrow> source_scope list \<Rightarrow> expr result_column \<Rightarrow> bound_projection binds" where
  "bind_projection f scopes result tr = (case result of
       Rc_Expr e alias \<Rightarrow>
         try_ok (bind_projected f scopes alias e tr) (\<lambda>((b, default_name), tr).
         try_ok (result_name_of (unwrap_or default_name (explicit_alias alias))) (\<lambda>output_name.
           Inr (BoundProjection b output_name, tr)))
     | _ \<Rightarrow> Inl (Unsupported ''star projection''))"

text \<open>\<open>EXISTS (SELECT 1 ...)\<close> needs no column: a lone unnamed \<open>1\<close> is accepted as its projection.\<close>

definition exists_column :: "bind_typed \<Rightarrow> source_scope list \<Rightarrow> bool \<Rightarrow> expr result_column \<Rightarrow> bound_projection binds" where
  "exists_column f scopes single column tr =
     (if single then (case column of
          Rc_Expr e alias \<Rightarrow>
            if e = E_Literal (Lit_Numeric ''1'') \<and> explicit_alias alias = None
            then try_ok (result_name_of ''exists_value'') (\<lambda>name. Inr (BoundProjection (Literal (LV_Int64 1)) name, tr))
            else bind_projection f scopes column tr
        | _ \<Rightarrow> Inl (Unsupported ''subquery projection''))
      else bind_projection f scopes column tr)"

definition exists_source :: "catalog \<Rightarrow> source_scope list \<Rightarrow> bool \<Rightarrow> (expr, select_table) from_clause option \<Rightarrow> expr group_by option \<Rightarrow>
  bool \<Rightarrow> bind_error + source_scope" where
  "exists_source c scopes distinctness from group_by windows =
     (if distinctness \<or> group_by \<noteq> None \<or> windows then Inl (Unsupported ''subquery shape'')
      else try_ok (ok_or MissingFrom from) (\<lambda>from.
        if fc_joins from \<noteq> [] then Inl (Unsupported ''subquery JOIN'')
        else try_ok (bind_source c (fc_select from)) (\<lambda>source.
          if list_ex (\<lambda>scope. rd_id (sco_resource scope) = rd_id (sco_resource source)) scopes
          then Inl (Unsupported ''same-resource correlation'')
          else Inr source)))"

text \<open>\<open>bind_exists\<close>, where \<open>f\<close> and \<open>g\<close> bind a projected scalar and a filter in the subquery's scopes.\<close>

definition bind_exists :: "(source_scope list \<Rightarrow> bind_typed) \<Rightarrow> (source_scope list \<Rightarrow> expr \<Rightarrow> bound_expr binds) \<Rightarrow> front \<Rightarrow>
  source_scope list \<Rightarrow> nat \<Rightarrow> select \<Rightarrow> bound_expr binds" where
  "bind_exists f g fr scopes depth s tr =
     try_ok (check_depth fr depth) (\<lambda>_.
     if sn_with s \<noteq> None \<or> sn_compounds s \<noteq> [] \<or> sn_order_by s \<noteq> [] \<or> sn_limit s \<noteq> None
     then Inl (Unsupported ''subquery option'')
     else (case sn_body s of
         OneSelect distinctness columns from where_clause group_by windows \<Rightarrow>
           try_ok (exists_source (fr_catalog fr) scopes distinctness from group_by windows) (\<lambda>source.
           let nested = scopes @ [source] in
           try_ok (traverse_st (exists_column (f nested) nested (length columns = 1)) columns tr) (\<lambda>(projections, tr).
           try_ok (ensure_unique_result_names projections) (\<lambda>_.
           try_ok (bind_option (g nested) where_clause tr) (\<lambda>(predicate, tr).
             Inr (Exists (BoundSelect (rd_id (sco_resource source)) (sco_alias source) [] projections predicate [] None [] None None), tr)))))
       | _ \<Rightarrow> Inl (Unsupported ''subquery VALUES'')))"

text \<open>Each part binds only the expressions it was given.\<close>

lemma bind_comparison_cong [fundef_cong]:
  assumes "l = l'" "r = r'" "tr = tr'" "\<And>x e u. e \<in> {l', r'} \<Longrightarrow> f x e u = g x e u"
  shows "bind_comparison f l r tr = bind_comparison g l' r' tr'"
  unfolding bind_comparison_def using assms by simp

lemma bind_in_list_cong [fundef_cong]:
  assumes "l = l'" "n = n'" "rs = rs'" "tr = tr'" "\<And>x e u. e \<in> insert l' (set rs') \<Longrightarrow> f x e u = g x e u"
  shows "bind_in_list f l n rs tr = bind_in_list g l' n' rs' tr'"
proof -
  have "f x e = g x e" if "e \<in> insert l' (set rs')" for x e using assms(5) [OF that] by (rule ext)
  moreover have "traverse_st (f x) rs' u = traverse_st (g x) rs' u" for x u
    using assms(5) by (auto intro!: traverse_st_cong)
  moreover have "v \<in> set rs'" if "find P rs' = Some v" for P v
    using that by (auto simp: find_Some_iff)
  ultimately show ?thesis
    unfolding bind_in_list_def assms(1-4) by (auto split: option.splits)
qed

lemma bind_concat_cong [fundef_cong]:
  assumes "l = l'" "r = r'" "x = x'" "tr = tr'" "\<And>x e u. e \<in> {l', r'} \<Longrightarrow> f x e u = g x e u"
  shows "bind_concat f l r x tr = bind_concat g l' r' x' tr'"
  unfolding bind_concat_def using assms by simp

lemma bind_cast_text_cong [fundef_cong]:
  assumes "e = e'" "t = t'" "x = x'" "tr = tr'" "\<And>x u. f x e' u = g x e' u"
  shows "bind_cast_text f e t x tr = bind_cast_text g e' t' x' tr'"
  unfolding bind_cast_text_def assms(1-4) assms(5) by (rule refl)

lemma bind_branches_cong:
  assumes "\<And>e u. e \<in> fst ` set ps \<Longrightarrow> g e u = g' e u" "\<And>x e u. e \<in> snd ` set ps \<Longrightarrow> f x e u = f' x e u"
  shows "bind_branches g f x ps tr = bind_branches g' f' x ps tr"
  using assms
proof (induction ps arbitrary: x tr)
  case (Cons p ps)
  then have "bind_branches g f y ps u = bind_branches g' f' y ps u" for y u by simp
  with Cons.prems show ?case by (cases p) simp
qed simp

lemma bind_option_cong [fundef_cong]:
  assumes "x = x'" "tr = tr'" "\<And>e u. x' = Some e \<Longrightarrow> f e u = g e u"
  shows "bind_option f x tr = bind_option g x' tr'"
  unfolding bind_option_def using assms by (auto split: option.splits)

lemma bind_case_cong [fundef_cong]:
  assumes "ps = ps'" "els = els'" "x = x'" "tr = tr'" "\<And>e u. e \<in> fst ` set ps' \<Longrightarrow> g e u = g' e u"
    and "\<And>x e u. e \<in> snd ` set ps' \<union> set_option els' \<Longrightarrow> f x e u = f' x e u"
  shows "bind_case g f ps els x tr = bind_case g' f' ps' els' x' tr'"
proof -
  have "bind_branches g f x' ps' tr' = bind_branches g' f' x' ps' tr'"
    using assms(5,6) by (intro bind_branches_cong) auto
  moreover have "bind_option (f y) els' u = bind_option (f' y) els' u" for y u
    using assms(6) by (intro bind_option_cong) auto
  ultimately show ?thesis unfolding bind_case_def assms(1-4) by simp
qed

lemma bind_registered_scalar_cong [fundef_cong]:
  assumes "n = n'" "es = es'" "x = x'" "tr = tr'" "\<And>x e u. e \<in> set es' \<Longrightarrow> f x e u = g x e u"
  shows "bind_registered_scalar f n es x tr = bind_registered_scalar g n' es' x' tr'"
proof -
  have "traverse_st (\<lambda>(e, x). f (Some x) e) (zip es' xs) u = traverse_st (\<lambda>(e, x). g (Some x) e) (zip es' xs) u" for xs u
    using assms(5) by (auto intro!: traverse_st_cong dest: set_zip_leftD)
  then show ?thesis unfolding bind_registered_scalar_def assms(1-4) by (simp only:)
qed

lemma bind_projection_cong:
  assumes "\<And>x e u. e \<in> set_result_column c \<Longrightarrow> f x e u = g x e u"
  shows "bind_projection f scopes c tr = bind_projection g scopes c tr"
proof (cases c)
  case (Rc_Expr e a)
  with assms have eq: "f x e u = g x e u" for x u by simp
  have "bind_projected f scopes a e tr = bind_projected g scopes a e tr"
    unfolding bind_projected_def eq by (rule refl)
  with Rc_Expr show ?thesis by (simp add: bind_projection_def)
qed (simp_all add: bind_projection_def)

lemma bind_exists_cong [fundef_cong]:
  assumes "fr = fr'" "scopes = scopes'" "d = d'" "s = s'" "tr = tr'"
    and f: "\<And>sc x e u. e \<in> set1_one_select (sn_body s') \<Longrightarrow> f sc x e u = f' sc x e u"
    and g: "\<And>sc e u. e \<in> set1_one_select (sn_body s') \<Longrightarrow> g sc e u = g' sc e u"
  shows "bind_exists f g fr scopes d s tr = bind_exists f' g' fr' scopes' d' s' tr'"
proof (cases "sn_body s'")
  case (OneSelect dist cs fc wh gb w)
  have "exists_column (f sc) sc b c u = exists_column (f' sc) sc b c u" if "c \<in> set cs" for sc b c u
    using that f bind_projection_cong [of c "f sc" "f' sc"]
    by (fastforce simp: exists_column_def OneSelect intro: bind_projection_cong split: result_column.splits)
  then have "traverse_st (exists_column (f sc) sc b) cs u = traverse_st (exists_column (f' sc) sc b) cs u" for sc b u
    by (auto intro: traverse_st_cong)
  moreover have "bind_option (g sc) wh u = bind_option (g' sc) wh u" for sc u
    using g by (intro bind_option_cong) (auto simp: OneSelect)
  ultimately show ?thesis unfolding bind_exists_def assms(1-5) OneSelect by simp
qed (simp add: bind_exists_def assms(1-5))

section \<open>Expressions\<close>

text \<open>The test of \<open>IS NULL\<close> written with an operator.\<close>

definition is_null_test :: "operator \<Rightarrow> expr \<Rightarrow> bool" where
  "is_null_test op right = ((op = Op_Is \<or> op = Op_IsNot) \<and> right = E_Literal Lit_Null)"

definition negated_if :: "bool \<Rightarrow> bound_expr \<Rightarrow> bound_expr" where
  "negated_if negated b = (if negated then Not b else b)"

function bind_boolean :: "front \<Rightarrow> source_scope list \<Rightarrow> column_usage \<Rightarrow> nat \<Rightarrow> expr \<Rightarrow> bound_expr binds"
  and bind_scalar :: "front \<Rightarrow> source_scope list \<Rightarrow> column_usage \<Rightarrow> nat \<Rightarrow> bind_typed" where
  "bind_boolean fr scopes usage depth e tr =
     try_ok (check_depth fr depth) (\<lambda>_. case e of
       E_Binary left op right \<Rightarrow>
         if is_null_test op right then
           try_ok (bind_scalar fr scopes usage (depth + 1) None left tr) (\<lambda>((l, _), tr).
             Inr (negated_if (op = Op_IsNot) (IsNull l), tr))
         else (case comparison_of op of
             Some compare \<Rightarrow>
               try_ok (bind_comparison (\<lambda>x e. bind_scalar fr scopes usage (depth + 1) x e) left right tr) (\<lambda>((l, r), tr).
                 Inr (compare l r, tr))
           | None \<Rightarrow>
               if op = Op_And \<or> op = Op_Or then
                 try_ok (bind_boolean fr scopes usage (depth + 1) left tr) (\<lambda>(l, tr).
                 try_ok (bind_boolean fr scopes usage (depth + 1) right tr) (\<lambda>(r, tr).
                   Inr (if op = Op_And then And l r else Or l r, tr)))
               else Inl (Unsupported ''boolean expression''))
     | E_Unary op inner \<Rightarrow>
         if op = Uo_Not then try_ok (bind_boolean fr scopes usage (depth + 1) inner tr) (\<lambda>(b, tr). Inr (Not b, tr))
         else Inl (Unsupported ''boolean expression'')
     | E_IsNull inner \<Rightarrow> try_ok (bind_scalar fr scopes usage (depth + 1) None inner tr) (\<lambda>((b, _), tr). Inr (IsNull b, tr))
     | E_NotNull inner \<Rightarrow> try_ok (bind_scalar fr scopes usage (depth + 1) None inner tr) (\<lambda>((b, _), tr). Inr (Not (IsNull b), tr))
     | E_InList lhs negated rhs \<Rightarrow>
         if rhs = [] then Inl (Unsupported ''boolean expression'')
         else bind_in_list (\<lambda>x e. bind_scalar fr scopes usage (depth + 1) x e) lhs negated rhs tr
     | E_Like lhs negated op rhs escape \<Rightarrow>
         if escape = None \<and> op \<noteq> Lo_Other then
           try_ok (bind_comparison (\<lambda>x e. bind_scalar fr scopes usage (depth + 1) x e) lhs rhs tr) (\<lambda>((l, r), tr).
             Inr (negated_if negated (if op = Lo_Like then Like l r else Glob l r), tr))
         else Inl (Unsupported ''boolean expression'')
     | E_Parenthesized items \<Rightarrow>
         (case items of
            [item] \<Rightarrow> bind_boolean fr scopes usage (depth + 1) item tr
          | _ \<Rightarrow> Inl (Unsupported ''boolean expression''))
     | E_Exists s \<Rightarrow>
         bind_exists (\<lambda>sc x e. bind_scalar fr sc U_Projection 0 x e) (\<lambda>sc e. bind_boolean fr sc U_Filter (depth + 2) e)
           fr scopes (depth + 1) s tr
     | _ \<Rightarrow> Inl (Unsupported ''boolean expression''))"
| "bind_scalar fr scopes usage depth expected e tr =
     try_ok (check_depth fr depth) (\<lambda>_. case e of
       E_Id _ \<Rightarrow> bind_column scopes usage expected e tr
     | E_Name _ \<Rightarrow> bind_column scopes usage expected e tr
     | E_Qualified _ _ \<Rightarrow> bind_column scopes usage expected e tr
     | E_Variable name _ \<Rightarrow> bind_variable fr name expected tr
     | E_Literal l \<Rightarrow> bind_literal_node fr l expected tr
     | E_FunctionCallStar name tail \<Rightarrow>
         if eq_ignore_ascii_case (name_str name) ''count'' \<and> no_function_tail tail
         then try_ok (count_last scopes) (\<lambda>b. Inr ((b, LT_Int64), tr))
         else Inl (Unsupported ''scalar expression'')
     | E_FunctionCall name distinctness arguments order_by within_group tail \<Rightarrow>
         if \<not> distinctness \<and> order_by = [] \<and> within_group = [] \<and> no_function_tail tail
         then bind_registered_scalar (\<lambda>x e. bind_scalar fr scopes usage (depth + 1) x e) (name_str name) arguments expected tr
         else Inl (Unsupported ''scalar expression'')
     | E_Parenthesized items \<Rightarrow>
         (case items of
            [item] \<Rightarrow> bind_scalar fr scopes usage (depth + 1) expected item tr
          | _ \<Rightarrow> Inl (Unsupported ''scalar expression''))
     | E_Binary left op right \<Rightarrow>
         if op = Op_Concat then bind_concat (\<lambda>x e. bind_scalar fr scopes usage (depth + 1) x e) left right expected tr
         else Inl (Unsupported ''scalar expression'')
     | E_Cast inner type_name \<Rightarrow> bind_cast_text (\<lambda>x e. bind_scalar fr scopes usage (depth + 1) x e) inner type_name expected tr
     | E_Case base pairs els \<Rightarrow>
         if base = None \<and> pairs \<noteq> [] then
           bind_case (\<lambda>e. bind_boolean fr scopes usage (depth + 1) e) (\<lambda>x e. bind_scalar fr scopes usage (depth + 1) x e)
             pairs els expected tr
         else Inl (Unsupported ''scalar expression'')
     | _ \<Rightarrow> Inl (Unsupported ''scalar expression''))"
  by pat_completeness auto
termination
  by (relation "measure (case_sum (\<lambda>(_, _, _, _, e, _). size e) (\<lambda>(_, _, _, _, _, e, _). size e))")
    (auto simp: termination_simp dest!: size_case_parts_pairs split: if_splits)

declare bind_boolean.simps [simp del] bind_scalar.simps [simp del]

section \<open>Selects\<close>

definition bind_limit :: "front \<Rightarrow> source_scope list \<Rightarrow> expr \<Rightarrow> bound_expr binds" where
  "bind_limit fr scopes e tr = (case e of
       E_Literal (Lit_Numeric v) \<Rightarrow>
         (case parse_i64 v of
            None \<Rightarrow> Inl InvalidLimit
          | Some i \<Rightarrow> if i < 0 then Inl InvalidLimit else Inr (Literal (LV_Int64 i), tr))
     | E_Variable _ _ \<Rightarrow> try_ok (bind_scalar fr scopes U_Filter 0 (Some LT_Int64) e tr) (\<lambda>((b, _), tr). Inr (b, tr))
     | _ \<Rightarrow> Inl InvalidLimit)"

definition bind_returning :: "source_scope list \<Rightarrow> expr result_column list \<Rightarrow> bind_error + bound_projection list" where
  "bind_returning scopes returning =
     try_ok (traverse (\<lambda>result. case result of
         Rc_Expr e alias \<Rightarrow>
           try_ok (resolve_direct_column scopes e) (\<lambda>column.
           try_ok (result_name_of (unwrap_or (cd_name column) (explicit_alias alias))) (\<lambda>output_name.
             Inr (BoundProjection (Column (bound_column_of column U_Returning)) output_name)))
       | _ \<Rightarrow> Inl (Unsupported ''RETURNING star'')) returning) (\<lambda>output.
     try_ok (ensure_unique_result_names output) (\<lambda>_. Inr output))"

definition join_kind_of :: "join_operator \<Rightarrow> bind_error + join_kind" where
  "join_kind_of op = (case op of
       Jo_TypedJoin None \<Rightarrow> Inr JoinInner
     | Jo_TypedJoin (Some kind) \<Rightarrow>
         if kind = {Jf_Inner} then Inr JoinInner
         else if kind = {Jf_Left, Jf_Outer} \<or> kind = {Jf_Left} then Inr JoinLeft
         else Inl (Unsupported ''JOIN type'')
     | _ \<Rightarrow> Inl (Unsupported ''JOIN type''))"

text \<open>The scopes a join may read are those before it and its own.\<close>

fun bind_joins :: "front \<Rightarrow> (expr, select_table) joined_select_table list \<Rightarrow> source_scope list \<Rightarrow>
  (bound_join list \<times> source_scope list) binds" where
  "bind_joins fr [] scopes tr = Inr (([], scopes), tr)"
| "bind_joins fr (join # js) scopes tr =
     try_ok (join_kind_of (js_operator join)) (\<lambda>kind.
     try_ok (bind_source (fr_catalog fr) (js_table join)) (\<lambda>joined.
     if list_ex (\<lambda>scope. rd_id (sco_resource scope) = rd_id (sco_resource joined)) scopes then Inl (Unsupported ''self JOIN'')
     else if list_ex (\<lambda>scope. eq_ignore_ascii_case (sco_qualifier scope) (sco_qualifier joined)) scopes then Inl DuplicateAlias
     else (case js_constraint join of
         None \<Rightarrow> Inl (Unsupported ''JOIN without ON'')
       | Some Jc_Using \<Rightarrow> Inl (Unsupported ''JOIN constraint'')
       | Some (Jc_On on) \<Rightarrow>
           try_ok (bind_boolean fr (scopes @ [joined]) U_Join 0 on tr) (\<lambda>(on, tr).
           try_ok (bind_joins fr js (scopes @ [joined]) tr) (\<lambda>((output, scopes), tr).
             Inr ((BoundJoin (rd_id (sco_resource joined)) (sco_alias joined) kind on # output, scopes), tr))))))"

definition bind_group_by :: "front \<Rightarrow> source_scope list \<Rightarrow> expr group_by option \<Rightarrow> (bound_column list \<times> bound_expr option) binds" where
  "bind_group_by fr scopes group_by tr = (case group_by of
       None \<Rightarrow> Inr (([], None), tr)
     | Some gb \<Rightarrow>
         if gb_exprs gb = [] then Inl (Unsupported ''empty GROUP BY'')
         else try_ok (traverse (resolved_column scopes U_Group) (gb_exprs gb)) (\<lambda>columns.
           try_ok (bind_option (bind_boolean fr scopes U_Having 0) (gb_having gb) tr) (\<lambda>(having, tr).
             Inr ((columns, having), tr))))"

text \<open>An order names a column of a source, or else a projection of the statement.\<close>

definition projection_named :: "bound_projection list \<Rightarrow> name \<Rightarrow> bind_error + bound_expr" where
  "projection_named projections name =
     try_ok (ok_or BE_UnknownColumn (find (\<lambda>p. eq_ignore_ascii_case (pj_output_name p) (name_str name)) projections)) (\<lambda>p.
       Inr (pj_expression p))"

definition bind_order :: "source_scope list \<Rightarrow> bound_projection list \<Rightarrow> expr sorted_column \<Rightarrow> bind_error + bound_order" where
  "bind_order scopes projections order =
     (if sc_nulls order then Inl (Unsupported ''NULLS ordering'')
      else try_ok (case resolve_direct_column scopes (sc_expr order) of
          Inr column \<Rightarrow> Inr (Column (bound_column_of column U_Order))
        | Inl err \<Rightarrow>
            if err = BE_UnknownColumn then (case sc_expr order of
                E_Id name \<Rightarrow> projection_named projections name
              | E_Name name \<Rightarrow> projection_named projections name
              | _ \<Rightarrow> Inl BE_UnknownColumn)
            else Inl err) (\<lambda>expression.
        Inr (BoundOrder expression (direction_of (sc_order order)))))"

definition and_inherited :: "bound_expr option \<Rightarrow> bound_expr option \<Rightarrow> bound_expr option" where
  "and_inherited inherited outer = (case (inherited, outer) of
       (Some i, Some p) \<Rightarrow> Some (And i p)
     | (Some i, None) \<Rightarrow> Some i
     | (None, p) \<Rightarrow> p)"

type_synonym bind_select_call = "select \<Rightarrow> bind_error + bound_select \<times> bind_trace"

fun derived_columns :: "resource_descriptor \<Rightarrow> (string \<times> column_descriptor) list \<Rightarrow> bound_projection list \<Rightarrow>
  bind_error + (string \<times> column_descriptor) list" where
  "derived_columns resource columns [] = Inr columns"
| "derived_columns resource columns (p # ps) = (case pj_expression p of
       Column column \<Rightarrow>
         try_ok (ok_or BE_UnknownColumn (column_by_id resource (bc_id column))) (\<lambda>descriptor.
         if bt_has columns (canonical_name (pj_output_name p)) then Inl DuplicateResultName
         else derived_columns resource (bt_insert (canonical_name (pj_output_name p)) descriptor columns) ps)
     | _ \<Rightarrow> Inl (Unsupported ''derived expression''))"

text \<open>Only a derived table that reads the rows of its resource one for one is transparent.\<close>

definition is_transparent :: "bound_select \<Rightarrow> bool" where
  "is_transparent inner =
     (bs_joins inner = [] \<and> bs_order_by inner = [] \<and> bs_limit inner = None \<and> bs_offset inner = None \<and> bs_group_by inner = [] \<and>
      bs_having inner = None)"

definition bind_derived_source :: "bind_select_call \<Rightarrow> front \<Rightarrow> select \<Rightarrow> string \<Rightarrow>
  bind_error + source_scope \<times> bound_expr option \<times> bind_trace" where
  "bind_derived_source f fr inner alias =
     try_ok (f inner) (\<lambda>(inner, tr).
     if \<not> is_transparent inner then Inl (Unsupported ''non-transparent derived table'')
     else try_ok (ok_or BE_UnknownResource (resource_by_id (fr_catalog fr) (bs_resource inner))) (\<lambda>resource.
       try_ok (derived_columns resource [] (bs_projections inner)) (\<lambda>columns.
         Inr (\<lparr>sco_resource = resource, sco_alias = Some (canonical_name alias), sco_qualifier = canonical_name alias,
             sco_columns = columns\<rparr>, bs_predicate inner, tr))))"

definition cte_named :: "select with_clause option \<Rightarrow> qualified_name \<Rightarrow> select cte option" where
  "cte_named with name = (case with of
       Some w \<Rightarrow> (case wi_ctes w of
           [cte] \<Rightarrow> if eq_ignore_ascii_case (name_str (ct_tbl_name cte)) (name_str (qn_name name)) then Some cte else None
         | _ \<Rightarrow> None)
     | None \<Rightarrow> None)"

definition bind_root_source :: "bind_select_call \<Rightarrow> front \<Rightarrow> select with_clause option \<Rightarrow> select_table \<Rightarrow>
  bind_error + source_scope \<times> bound_expr option \<times> bind_trace" where
  "bind_root_source f fr with table = (case table of
       St_Table name alias indexed \<Rightarrow>
         (case cte_named with name of
            Some cte \<Rightarrow>
              if qn_db_name name \<noteq> None \<or> indexed then Inl (Unsupported ''CTE qualifier'')
              else if catalog_resource (fr_catalog fr) (name_str (ct_tbl_name cte)) \<noteq> None
              then Inl (Unsupported ''CTE shadows protected resource'')
              else if is_some_and wi_recursive with \<or> ct_columns cte \<or> \<not> ct_materialized_any cte then Inl (Unsupported ''CTE options'')
              else bind_derived_source f fr (ct_select cte) (unwrap_or (name_str (ct_tbl_name cte)) (explicit_alias alias))
          | None \<Rightarrow>
              if with = None then try_ok (bind_source (fr_catalog fr) table) (\<lambda>source. Inr (source, None, new_trace))
              else Inl (Unsupported ''table source''))
     | St_Select inner alias \<Rightarrow>
         if with = None then
           try_ok (ok_or (Unsupported ''derived table without alias'') (explicit_alias alias)) (\<lambda>alias.
             bind_derived_source f fr inner alias)
         else Inl (Unsupported ''table source'')
     | _ \<Rightarrow> Inl (Unsupported ''table source''))"

definition bind_select_parts :: "front \<Rightarrow> source_scope list \<Rightarrow> expr result_column list \<Rightarrow> expr option \<Rightarrow> expr group_by option \<Rightarrow>
  expr sorted_column list \<Rightarrow> expr limit option \<Rightarrow> bound_expr option \<Rightarrow> (bound_join list \<Rightarrow> bound_select) binds" where
  "bind_select_parts fr scopes columns where_clause group_by order_by limit inherited tr =
     try_ok (traverse_st (bind_projection (bind_scalar fr scopes U_Projection 0) scopes) columns tr) (\<lambda>(projections, tr).
     try_ok (ensure_unique_result_names projections) (\<lambda>_.
     try_ok (bind_option (bind_boolean fr scopes U_Filter 0) where_clause tr) (\<lambda>(predicate, tr).
     try_ok (bind_group_by fr scopes group_by tr) (\<lambda>((group_by, having), tr).
     try_ok (traverse (bind_order scopes projections) order_by) (\<lambda>order_by.
     try_ok (bind_option (bind_limit fr scopes) (map_option lm_expr limit) tr) (\<lambda>(max_rows, tr).
     try_ok (bind_option (bind_limit fr scopes) (Option.bind limit lm_offset) tr) (\<lambda>(offset, tr).
       Inr (\<lambda>joins. BoundSelect (rd_id (sco_resource (hd scopes))) (sco_alias (hd scopes)) joins projections
           (and_inherited inherited predicate) group_by having order_by max_rows offset, tr))))))))"

lemma bind_root_source_cong [fundef_cong]:
  assumes "fr = fr'" "w = w'" "t = t'" "\<And>v x. w' = Some v \<Longrightarrow> x \<in> ct_select ` set (wi_ctes v) \<Longrightarrow> f x = g x"
    and "\<And>x a. t' = St_Select x a \<Longrightarrow> f x = g x"
  shows "bind_root_source f fr w t = bind_root_source g fr' w' t'"
proof -
  have "bind_derived_source f fr' x = bind_derived_source g fr' x" if "f x = g x" for x
    unfolding bind_derived_source_def that by (rule refl)
  moreover have "f (ct_select c) = g (ct_select c)" if "cte_named w' n = Some c" for n c
    using that assms(4) by (auto simp: cte_named_def split: option.splits list.splits if_splits)
  ultimately show ?thesis
    unfolding bind_root_source_def assms(1-3) using assms(5)
    by (auto split: select_table.splits option.splits)
qed

lemma derived_smaller [termination_simp]:
  assumes "sn_body s = OneSelect d cs (Some fc) wh gb w" "fc_select fc = St_Select x a"
  shows "size x < size s"
proof -
  have "St_Select x a \<in> set2_one_select (sn_body s)" using assms by (cases fc) simp
  from select_parts_smaller(3) [OF this] show ?thesis by simp
qed

function bind_select :: "front \<Rightarrow> select \<Rightarrow> bind_error + bound_select \<times> bind_trace" where
  "bind_select fr s =
     (if sn_compounds s \<noteq> [] then Inl (Unsupported ''compound SELECT'')
      else (case sn_body s of
          OneSelect distinctness columns from where_clause group_by windows \<Rightarrow>
            if distinctness then Inl (Unsupported ''DISTINCT or ALL'')
            else if windows then Inl (Unsupported ''WINDOW'')
            else (case from of
                None \<Rightarrow> Inl MissingFrom
              | Some fc \<Rightarrow>
                  if bl_max_joins (fr_limits fr) < length (fc_joins fc) then Inl JoinLimit
                  else try_ok (bind_root_source (\<lambda>x. bind_select fr x) fr (sn_with s) (fc_select fc)) (\<lambda>(root, inherited, tr).
                    if columns = [] \<or> bl_max_projections (fr_limits fr) < length columns then Inl ProjectionLimit
                    else try_ok (bind_joins fr (fc_joins fc) [root] tr) (\<lambda>((joins, scopes), tr).
                      try_ok (bind_select_parts fr scopes columns where_clause group_by (sn_order_by s) (sn_limit s) inherited tr)
                        (\<lambda>(finish, tr). Inr (finish joins, tr)))))
        | Values _ \<Rightarrow> Inl (Unsupported ''VALUES'')))"
  by pat_completeness auto
termination
  by (relation "measure (\<lambda>(_, s). size s)") (auto simp: termination_simp)

declare bind_select.simps [simp del]

text \<open>A select without tables: numbers only.\<close>

definition bind_constant_select :: "front \<Rightarrow> select \<Rightarrow> bind_error + bound_projection list" where
  "bind_constant_select fr s =
     (if sn_with s \<noteq> None \<or> sn_compounds s \<noteq> [] \<or> sn_order_by s \<noteq> [] \<or> sn_limit s \<noteq> None
      then Inl (Unsupported ''constant SELECT option'')
      else (case sn_body s of
          OneSelect distinctness columns None where_clause group_by windows \<Rightarrow>
            if distinctness \<or> where_clause \<noteq> None \<or> group_by \<noteq> None \<or> windows \<or> columns = [] \<or>
              bl_max_projections (fr_limits fr) < length columns
            then Inl (Unsupported ''constant SELECT option'')
            else try_ok (traverse (\<lambda>column. case column of
                Rc_Expr e alias \<Rightarrow> (case e of
                    E_Literal (Lit_Numeric raw) \<Rightarrow>
                      try_ok (bind_literal (fr_rnd fr) (Lit_Numeric raw) None) (\<lambda>(expression, _).
                      try_ok (result_name_of (unwrap_or raw (explicit_alias alias))) (\<lambda>output_name.
                        Inr (BoundProjection expression output_name)))
                  | _ \<Rightarrow> Inl (Unsupported ''constant expression''))
              | _ \<Rightarrow> Inl (Unsupported ''constant star'')) columns) (\<lambda>projections.
              try_ok (ensure_unique_result_names projections) (\<lambda>_. Inr projections))
        | _ \<Rightarrow> Inl (Unsupported ''constant SELECT'')))"

section \<open>Collections of JSON values\<close>

definition is_json_table :: "qualified_name \<Rightarrow> bool option" where
  "is_json_table name =
     (let n = canonical_name (name_str (qn_name name)) in
      if n = ''json_each'' then Some False else if n = ''json_tree'' then Some True else None)"

definition has_json_table_call :: "select \<Rightarrow> bool" where
  "has_json_table_call s = (case sn_body s of
       OneSelect _ _ (Some fc) _ _ _ \<Rightarrow>
         list_ex (\<lambda>join. case js_table join of St_TableCall name _ _ \<Rightarrow> is_json_table name \<noteq> None | _ \<Rightarrow> False) (fc_joins fc)
     | _ \<Rightarrow> False)"

definition json_table_call :: "(expr, select_table) joined_select_table \<Rightarrow> bind_error + expr \<times> expr \<times> bool \<times> string" where
  "json_table_call join =
     (if \<not> (js_operator join = Jo_Comma \<or> js_operator join = Jo_TypedJoin None) \<or> js_constraint join \<noteq> None
      then Inl (Unsupported ''JSON table join'')
      else (case js_table join of
          St_TableCall name arguments talias \<Rightarrow>
            (case (qn_db_name name, arguments) of
               (None, [document, path]) \<Rightarrow>
                 try_ok (ok_or (Unsupported ''table function'') (is_json_table name)) (\<lambda>recursive.
                 try_ok (ok_or (Unsupported ''JSON table alias'') (explicit_alias talias)) (\<lambda>talias.
                   Inr (document, path, recursive, talias)))
             | _ \<Rightarrow> Inl (Unsupported ''JSON table arguments''))
        | _ \<Rightarrow> Inl (Unsupported ''JSON table source'')))"

definition is_value_of :: "string \<Rightarrow> expr \<Rightarrow> bool" where
  "is_value_of talias e = (case e of
       E_Qualified source column \<Rightarrow>
         eq_ignore_ascii_case (name_str source) talias \<and> eq_ignore_ascii_case (name_str column) ''value''
     | _ \<Rightarrow> False)"

definition json_group_array_name :: "string \<Rightarrow> expr result_column \<Rightarrow> bind_error + string" where
  "json_group_array_name talias column = (case column of
       Rc_Expr e output_alias \<Rightarrow> (case e of
           E_FunctionCall name False arguments order_by within_group tail \<Rightarrow>
             if \<not> eq_ignore_ascii_case (name_str name) ''json_group_array'' \<or> length arguments \<noteq> 1 \<or> order_by \<noteq> [] \<or>
               within_group \<noteq> [] \<or> \<not> no_function_tail tail \<or> \<not> list_all (is_value_of talias) arguments
             then Inl (Unsupported ''JSON collection aggregate'')
             else try_ok (ok_or InvalidResultName (explicit_alias output_alias)) result_name_of
         | _ \<Rightarrow> Inl (Unsupported ''JSON collection aggregate''))
     | _ \<Rightarrow> Inl (Unsupported ''JSON collection projection''))"

definition json_collection_shape :: "select \<Rightarrow>
  bind_error + expr result_column \<times> select_table \<times> (expr, select_table) joined_select_table \<times> expr option" where
  "json_collection_shape s =
     (if sn_with s \<noteq> None \<or> sn_compounds s \<noteq> [] \<or> sn_order_by s \<noteq> [] \<or> sn_limit s \<noteq> None
      then Inl (Unsupported ''JSON collection option'')
      else (case sn_body s of
          OneSelect distinctness columns (Some fc) where_clause group_by windows \<Rightarrow>
            if distinctness \<or> group_by \<noteq> None \<or> windows then Inl (Unsupported ''JSON collection shape'')
            else (case (columns, fc_joins fc) of
                ([column], [join]) \<Rightarrow> Inr (column, fc_select fc, join, where_clause)
              | _ \<Rightarrow> Inl (Unsupported ''JSON collection shape''))
        | _ \<Rightarrow> Inl (Unsupported ''JSON collection'')))"

definition bind_json_collection_select :: "front \<Rightarrow> select \<Rightarrow> bind_error + bound_json_collection_select \<times> bind_trace" where
  "bind_json_collection_select fr s =
     try_ok (json_collection_shape s) (\<lambda>(column, table, join, where_clause).
     try_ok (bind_source (fr_catalog fr) table) (\<lambda>root.
     try_ok (json_table_call join) (\<lambda>(document, path, recursive, talias).
     try_ok (bind_scalar fr [root] U_Aggregate 0 (Some LT_Json) document new_trace) (\<lambda>((document, document_type), tr).
     (case document of
        Column document \<Rightarrow>
          if document_type \<noteq> LT_Json then Inl IncompatibleTypes
          else try_ok (bind_scalar fr [root] U_Aggregate 0 (Some LT_String) path tr) (\<lambda>((path, path_type), tr).
            if path_type \<noteq> LT_String then Inl IncompatibleTypes
            else try_ok (json_group_array_name talias column) (\<lambda>output_name.
              try_ok (bind_option (bind_boolean fr [root] U_Filter 0) where_clause tr) (\<lambda>(predicate, tr).
                Inr (\<lparr>bj_resource = rd_id (sco_resource root), bj_alias = sco_alias root, bj_document = document, bj_path = path,
                  bj_recursive = recursive, bj_output_name = output_name, bj_predicate = predicate\<rparr>, tr))))
      | _ \<Rightarrow> Inl (Unsupported ''JSON document provenance''))))))"

section \<open>Writes\<close>

definition bind_table :: "front \<Rightarrow> qualified_name \<Rightarrow> bind_error + resource_descriptor \<times> source_scope" where
  "bind_table fr table =
     try_ok (ok_or BE_UnknownResource (catalog_resource (fr_catalog fr) (name_str (qn_name table)))) (\<lambda>resource.
     try_ok (bind_source (fr_catalog fr) (St_Table table None False)) (\<lambda>root. Inr (resource, root)))"

definition bind_delete :: "front \<Rightarrow> delete_stmt \<Rightarrow> bind_error + bound_delete \<times> bind_trace" where
  "bind_delete fr d =
     (if de_with d \<or> qn_db_name (de_tbl_name d) \<noteq> None \<or> de_indexed d \<or> de_order_by d \<noteq> [] \<or> de_limit d \<noteq> None
      then Inl (Unsupported ''DELETE option'')
      else try_ok (bind_table fr (de_tbl_name d)) (\<lambda>(resource, root).
        try_ok (bind_option (bind_boolean fr [root] U_Mutation 0) (de_where_clause d) new_trace) (\<lambda>(predicate, tr).
        try_ok (bind_returning [root] (de_returning d)) (\<lambda>returning.
          Inr (\<lparr>bd_resource = rd_id resource, bd_predicate = predicate, bd_returning = returning\<rparr>, tr)))))"

definition is_written_value :: "bound_expr \<Rightarrow> bool" where
  "is_written_value b = (case b of ClientParameter _ _ \<Rightarrow> True | Literal _ \<Rightarrow> True | _ \<Rightarrow> False)"

text \<open>A value for a column, where \<open>shape\<close> is what an expression is refused as.\<close>

definition bind_assigned :: "front \<Rightarrow> source_scope list \<Rightarrow> string \<Rightarrow> expr \<times> column_descriptor \<Rightarrow> bound_assignment binds" where
  "bind_assigned fr scopes shape = (\<lambda>(e, column) tr.
     try_ok (bind_scalar fr scopes U_Write 0 (Some (vd_logical_type (cd_value column))) e tr) (\<lambda>((value, logical_type), tr).
     if logical_type \<noteq> vd_logical_type (cd_value column) then Inl IncompatibleTypes
     else if \<not> is_written_value value then Inl (Unsupported shape)
     else Inr (\<lparr>ba_column = bound_column_of column U_Write, ba_value = value\<rparr>, tr)))"

fun bind_sets :: "front \<Rightarrow> source_scope list \<Rightarrow> resource_descriptor \<Rightarrow> column_id set \<Rightarrow> update_set list \<Rightarrow> bound_assignment list binds" where
  "bind_sets fr scopes resource seen [] tr = Inr ([], tr)"
| "bind_sets fr scopes resource seen (u # us) tr =
     (case us_col_names u of
        [name] \<Rightarrow>
          try_ok (ok_or BE_UnknownColumn (resource_column resource (name_str name))) (\<lambda>column.
          if cd_id column \<in> seen then Inl DuplicateWriteColumn
          else try_ok (bind_assigned fr scopes ''UPDATE assignment expression'' (us_expr u, column) tr) (\<lambda>(a, tr).
            try_ok (bind_sets fr scopes resource (insert (cd_id column) seen) us tr) (\<lambda>(as, tr). Inr (a # as, tr))))
      | _ \<Rightarrow> Inl (Unsupported ''row-value UPDATE''))"

definition bind_update :: "front \<Rightarrow> update_stmt \<Rightarrow> bind_error + bound_update \<times> bind_trace" where
  "bind_update fr u =
     (if ud_with u \<or> ud_or_conflict u \<or> qn_db_name (ud_tbl_name u) \<noteq> None \<or> ud_indexed u \<or> ud_from u \<or> ud_order_by u \<noteq> [] \<or>
        ud_limit u \<noteq> None \<or> ud_sets u = []
      then Inl (Unsupported ''UPDATE option'')
      else try_ok (bind_table fr (ud_tbl_name u)) (\<lambda>(resource, root).
        try_ok (bind_sets fr [root] resource {} (ud_sets u) new_trace) (\<lambda>(assignments, tr).
        try_ok (bind_option (bind_boolean fr [root] U_Mutation 0) (ud_where_clause u) tr) (\<lambda>(predicate, tr).
        try_ok (bind_returning [root] (ud_returning u)) (\<lambda>returning.
          Inr (\<lparr>bu_resource = rd_id resource, bu_assignments = assignments, bu_predicate = predicate, bu_returning = returning\<rparr>,
            tr))))))"

fun insert_descriptors :: "resource_descriptor \<Rightarrow> column_id set \<Rightarrow> name list \<Rightarrow> bind_error + column_descriptor list" where
  "insert_descriptors resource seen [] = Inr []"
| "insert_descriptors resource seen (name # names) =
     try_ok (ok_or BE_UnknownColumn (resource_column resource (name_str name))) (\<lambda>column.
     if cd_id column \<in> seen then Inl DuplicateWriteColumn
     else try_ok (insert_descriptors resource (insert (cd_id column) seen) names) (\<lambda>columns. Inr (column # columns)))"

definition insert_values :: "insert_body \<Rightarrow> bind_error + expr list list" where
  "insert_values body = (case body of
       Ib_Select s None \<Rightarrow>
         if sn_with s \<noteq> None \<or> sn_compounds s \<noteq> [] \<or> sn_order_by s \<noteq> [] \<or> sn_limit s \<noteq> None
         then Inl (Unsupported ''INSERT SELECT'')
         else (case sn_body s of
             Values vs \<Rightarrow> if vs = [] then Inl (Unsupported ''empty VALUES'') else Inr vs
           | _ \<Rightarrow> Inl (Unsupported ''INSERT SELECT''))
     | _ \<Rightarrow> Inl (Unsupported ''INSERT body''))"

definition bind_row :: "front \<Rightarrow> source_scope list \<Rightarrow> column_descriptor list \<Rightarrow> expr list \<Rightarrow> bound_assignment list binds" where
  "bind_row fr scopes descriptors vs tr =
     (if length vs \<noteq> length descriptors then Inl InsertArity
      else traverse_st (bind_assigned fr scopes ''INSERT value expression'') (zip vs descriptors) tr)"

definition bind_insert :: "front \<Rightarrow> insert_stmt \<Rightarrow> bind_error + bound_insert \<times> bind_trace" where
  "bind_insert fr i =
     (if in_with i \<or> in_or_conflict i \<or> qn_db_name (in_tbl_name i) \<noteq> None then Inl (Unsupported ''INSERT option'')
      else if in_columns i = [] then Inl (Unsupported ''INSERT columns'')
      else try_ok (ok_or BE_UnknownResource (catalog_resource (fr_catalog fr) (name_str (qn_name (in_tbl_name i))))) (\<lambda>resource.
        try_ok (insert_descriptors resource {} (in_columns i)) (\<lambda>descriptors.
        try_ok (insert_values (in_body i)) (\<lambda>vss.
        try_ok (bind_source (fr_catalog fr) (St_Table (in_tbl_name i) None False)) (\<lambda>root.
        try_ok (traverse_st (bind_row fr [root] descriptors) vss new_trace) (\<lambda>(rows, tr).
        try_ok (bind_returning [root] (in_returning i)) (\<lambda>returning.
          Inr (\<lparr>bi_resource = rd_id resource, bi_rows = rows, bi_returning = returning\<rparr>, tr))))))))"

section \<open>Documents\<close>

definition is_constant_select :: "select \<Rightarrow> bool" where
  "is_constant_select s = (case sn_body s of OneSelect _ _ None _ _ _ \<Rightarrow> True | _ \<Rightarrow> False)"

definition bind_stmt :: "front \<Rightarrow> stmt \<Rightarrow> bind_error + bound_statement \<times> bind_trace" where
  "bind_stmt fr statement = (case statement of
       Stmt_Select s \<Rightarrow>
         if has_json_table_call s then try_ok (bind_json_collection_select fr s) (\<lambda>(b, tr). Inr (JsonCollectionSelect b, tr))
         else if is_constant_select s then try_ok (bind_constant_select fr s) (\<lambda>ps. Inr (ConstantSelect ps, new_trace))
         else try_ok (bind_select fr s) (\<lambda>(b, tr). Inr (Select b, tr))
     | Stmt_Insert i \<Rightarrow> try_ok (bind_insert fr i) (\<lambda>(b, tr). Inr (Insert b, tr))
     | Stmt_Delete d \<Rightarrow> try_ok (bind_delete fr d) (\<lambda>(b, tr). Inr (Delete b, tr))
     | Stmt_Update u \<Rightarrow> try_ok (bind_update fr u) (\<lambda>(b, tr). Inr (Update b, tr))
     | Stmt_Other \<Rightarrow> Inl (Unsupported ''statement''))"

text \<open>The byte range of the text without the white space around it.\<close>

definition source_span_of :: "string \<Rightarrow> source_span" where
  "source_span_of sql =
     \<lparr>ss_start = last (filter (\<lambda>i. all_white_space (take i sql)) [0..<length sql + 1]),
      ss_end = hd (filter (\<lambda>i. all_white_space (drop i sql)) [0..<length sql + 1])\<rparr>"

definition bind_document :: "(string \<Rightarrow> cmd list option) \<Rightarrow> front \<Rightarrow> string \<Rightarrow> bind_error + bound_document" where
  "bind_document parse fr sql =
     (if all_white_space sql then Inl BE_Empty
      else try_ok (ok_or InvalidSql (parse sql)) (\<lambda>parsed. case parsed of
          [Cmd_Stmt statement] \<Rightarrow>
            try_ok (bind_stmt fr statement) (\<lambda>(statement, tr).
              Inr \<lparr>bdoc_statement = statement, bdoc_source_span = source_span_of sql, bdoc_parameters = bt_parameters tr,
                bdoc_string_literals = bt_string_literals tr\<rparr>)
        | [_] \<Rightarrow> Inl (Unsupported ''EXPLAIN'')
        | _ \<Rightarrow> Inl MultipleStatements))"

definition bind_sql :: "(string \<Rightarrow> cmd list option) \<Rightarrow> front \<Rightarrow> string \<Rightarrow> bind_error + bound_statement" where
  "bind_sql parse fr sql = try_ok (bind_document parse fr sql) (\<lambda>document. Inr (bdoc_statement document))"

end
