(* ===== verification/Gw_Session.thy ===== *)
theory Gw_Session
  imports Pol_Core
begin

text \<open>
  The trusted session of a request (\<^verbatim>\<open>src/crates/policysql-wasm/src/session.rs\<close>, with \<open>EndpointPermission\<close> and
  \<open>AuthContext\<close> of \<^verbatim>\<open>src/crates/policysql-gateway/src/lib.rs\<close>): the validation of the session the wrapper
  supplies, the selection of the role the client asks for, and the re-activation of the canonical
  result. A \<open>BTreeSet\<close> that is only asked for membership and size is a set.
\<close>

datatype endpoint_permission = Perm_Execute | Perm_Explain | Perm_Catalog | Perm_Debug

record auth_context =
  ax_session :: trusted_session
  ax_permissions :: "endpoint_permission set"

record session_input =
  si_principal :: string
  si_subject :: string
  si_roles :: "string list"
  si_default_role :: string
  si_access :: "string list"
  si_session :: "(string \<times> string) list"

record authorized_session =
  as_principal :: string
  as_subject :: string
  as_role :: string
  as_roles :: "string list"
  as_access :: "string list"
  as_session :: "(string \<times> string) list"

datatype session_fault = SF_Shape | SF_Principal | SF_Subject | SF_Roles | SF_DefaultRole | SF_Access | SF_Session

datatype session_error = Malformed session_fault | Forbidden

definition parse_access :: "string \<Rightarrow> endpoint_permission option" where
  "parse_access v =
     (if v = ''execute'' then Some Perm_Execute
      else if v = ''explain'' then Some Perm_Explain
      else if v = ''catalog'' then Some Perm_Catalog
      else if v = ''debug'' then Some Perm_Debug
      else None)"

text \<open>\<open>values.into_iter().collect::<BTreeSet<_>>().len() == expected\<close>.\<close>

definition unique :: "'a list \<Rightarrow> nat \<Rightarrow> bool" where
  "unique vs expected = (card (set vs) = expected)"

definition session_key_refused :: "string \<Rightarrow> bool" where
  "session_key_refused k = (k = ''subject_id'' \<or> k = ''role'' \<or> (case session_key_new k of Inl _ \<Rightarrow> True | Inr _ \<Rightarrow> False))"

definition permissions_of :: "string list \<Rightarrow> session_error + endpoint_permission set" where
  "permissions_of access =
     (if list_all (\<lambda>v. parse_access v \<noteq> None) access then
        let permissions = set (List.map_filter parse_access access) in
        if permissions = {} \<or> card permissions \<noteq> length access then Inl (Malformed SF_Access) else Inr permissions
      else Inl (Malformed SF_Access))"

definition role_invalid :: "string \<Rightarrow> bool" where
  "role_invalid role = (case role_name_new role of Inl _ \<Rightarrow> True | Inr _ \<Rightarrow> False)"

text \<open>The last part of \<open>authorize_session\<close>: the role, and the rights the endpoint requires.\<close>

definition select_role :: "session_input \<Rightarrow> string option \<Rightarrow> endpoint_permission \<Rightarrow> endpoint_permission set \<Rightarrow>
  session_error + authorized_session \<times> auth_context" where
  "select_role input requested_role required permissions =
     (let role = unwrap_or (si_default_role input) requested_role in
      if role \<notin> set (si_roles input) \<or> required \<notin> permissions then Inl Forbidden
      else (case role_name_new role of
          Inl _ \<Rightarrow> Inl Forbidden
        | Inr role_name \<Rightarrow> (case trusted_session_new role_name (si_subject input) (si_session input) of
            Inl _ \<Rightarrow> Inl (Malformed SF_Session)
          | Inr trusted \<Rightarrow> Inr (
              \<lparr>as_principal = si_principal input, as_subject = si_subject input, as_role = role, as_roles = si_roles input,
               as_access = si_access input, as_session = si_session input\<rparr>,
              \<lparr>ax_session = trusted, ax_permissions = permissions\<rparr>))))"

definition authorize_session :: "session_input \<Rightarrow> string option \<Rightarrow> endpoint_permission \<Rightarrow>
  session_error + authorized_session \<times> auth_context" where
  "authorize_session input requested_role required =
     (if si_principal input = [] then Inl (Malformed SF_Principal)
      else if si_subject input = [] then Inl (Malformed SF_Subject)
      else if si_roles input = [] \<or> list_ex role_invalid (si_roles input) \<or> \<not> unique (si_roles input) (length (si_roles input))
      then Inl (Malformed SF_Roles)
      else if si_default_role input \<notin> set (si_roles input) then Inl (Malformed SF_DefaultRole)
      else try_ok (permissions_of (si_access input)) (\<lambda>permissions.
        if list_ex (\<lambda>(k, v). session_key_refused k) (si_session input) then Inl (Malformed SF_Session)
        else select_role input requested_role required permissions))"

definition activate_authorized :: "authorized_session \<Rightarrow> endpoint_permission \<Rightarrow> session_error + auth_context" where
  "activate_authorized canonical required =
     try_ok (authorize_session
        \<lparr>si_principal = as_principal canonical, si_subject = as_subject canonical, si_roles = as_roles canonical,
         si_default_role = as_role canonical, si_access = as_access canonical, si_session = as_session canonical\<rparr>
        (Some (as_role canonical)) required) (\<lambda>(_, auth). Inr auth)"

section \<open>Laws\<close>

text \<open>The session of an accepted request.\<close>

lemma fold_session_keys:
  assumes "list_all (\<lambda>(k, v). \<not> session_key_refused k) entries"
  shows "fold_st (\<lambda>(k, v) values. if k = ''subject_id'' \<or> k = ''role'' then Inl ReservedSessionKey
      else try_ok (session_key_new k) (\<lambda>k. Inr (bt_insert k v values))) entries m =
    Inr (fold (\<lambda>(k, v). bt_insert k v) entries m)"
  using assms
proof (induction entries arbitrary: m)
  case (Cons e entries)
  obtain k v where e: "e = (k, v)" by fastforce
  then have "session_key_new k = Inr k" "k \<noteq> ''subject_id''" "k \<noteq> ''role''"
    using Cons.prems by (auto simp: session_key_refused_def session_key_new_def split: if_splits)
  then show ?case using Cons e by simp
qed simp

lemma reserved_keys: "session_key_new ''subject_id'' = Inr ''subject_id''" "session_key_new ''role'' = Inr ''role''"
  by (simp_all add: session_key_new_def canonical_key_def byte_defs)

lemma trusted_session_accepts:
  assumes "list_all (\<lambda>(k, v). \<not> session_key_refused k) entries" and "subject \<noteq> []"
  shows "trusted_session_new role subject entries = Inr \<lparr>ts_role = role,
    ts_values = bt_insert ''role'' role (bt_insert ''subject_id'' subject (fold (\<lambda>(k, v). bt_insert k v) entries []))\<rparr>"
  using assms by (simp add: trusted_session_new_def fold_session_keys reserved_keys)

lemma fold_insert_get:
  "distinct (map fst entries) \<Longrightarrow> bt_get (fold (\<lambda>(k, v). bt_insert k v) entries m) k =
     (case map_of entries k of None \<Rightarrow> bt_get m k | Some v \<Rightarrow> Some v)"
proof (induction entries arbitrary: m)
  case (Cons e entries)
  then show ?case by (cases e) (auto simp: map_of_eq_None_iff rev_image_eqI split: option.splits)
qed simp

lemma role_name_ok: "\<not> role_invalid r \<Longrightarrow> role_name_new r = Inr r"
  by (auto simp: role_invalid_def role_name_new_def split: if_splits)

text \<open>What a session must be: the shape rules of the contract, checked before anything the client
  asked for.\<close>

definition session_well_formed :: "session_input \<Rightarrow> bool" where
  "session_well_formed i = (si_principal i \<noteq> [] \<and> si_subject i \<noteq> [] \<and> si_roles i \<noteq> [] \<and> distinct (si_roles i) \<and>
     list_all (\<lambda>r. \<not> role_invalid r) (si_roles i) \<and> si_default_role i \<in> set (si_roles i) \<and>
     si_access i \<noteq> [] \<and> distinct (si_access i) \<and> list_all (\<lambda>v. parse_access v \<noteq> None) (si_access i) \<and>
     list_all (\<lambda>(k, v). \<not> session_key_refused k) (si_session i))"

lemma parse_access_inj: "parse_access v = Some p \<Longrightarrow> parse_access w = Some p \<Longrightarrow> v = w"
  by (auto simp: parse_access_def split: if_splits)

lemma permissions_of_cases:
  "permissions_of access =
    (if access \<noteq> [] \<and> distinct access \<and> list_all (\<lambda>v. parse_access v \<noteq> None) access
     then Inr {p. \<exists>v \<in> set access. parse_access v = Some p} else Inl (Malformed SF_Access))"
proof (cases "list_all (\<lambda>v. parse_access v \<noteq> None) access")
  case True
  let ?f = "\<lambda>v. the (parse_access v)"
  have f: "List.map_filter parse_access access = map ?f access"
    using True by (induction access) (auto simp: map_filter_simps split: option.splits)
  have "inj_on ?f (set access)"
  proof (rule inj_onI)
    fix v w
    assume "v \<in> set access" "w \<in> set access" "?f v = ?f w"
    with True show "v = w" unfolding list_all_iff by (metis option.collapse parse_access_inj)
  qed
  then have "card (set (map ?f access)) = card (set access)" by (simp add: card_image)
  moreover have "set (map ?f access) = {p. \<exists>v \<in> set access. parse_access v = Some p}"
    using True by (force simp: list_all_iff)
  moreover have "card (set access) = length access \<longleftrightarrow> distinct access" by (metis card_distinct distinct_card)
  ultimately show ?thesis using True by (auto simp: permissions_of_def f Let_def)
qed (auto simp: permissions_of_def)

lemma authorize_well_formed:
  assumes "session_well_formed i"
  shows "authorize_session i requested required =
    select_role i requested required {p. \<exists>v \<in> set (si_access i). parse_access v = Some p}"
  using assms
  by (auto simp: authorize_session_def session_well_formed_def permissions_of_cases unique_def distinct_card
      list_all_iff list_ex_iff case_prod_beta)

lemma authorize_malformed:
  assumes "\<not> session_well_formed i"
  shows "\<exists>f. authorize_session i requested required = Inl (Malformed f)"
proof (cases "\<exists>f. permissions_of (si_access i) = Inl (Malformed f)")
  case False
  then have "si_access i \<noteq> []" "distinct (si_access i)" "list_all (\<lambda>v. parse_access v \<noteq> None) (si_access i)"
    by (auto simp: permissions_of_cases split: if_splits)
  then show ?thesis
    using assms card_distinct [of "si_roles i"]
    by (auto simp: authorize_session_def session_well_formed_def permissions_of_cases unique_def list_all_iff list_ex_iff)
qed (auto simp: authorize_session_def)

text \<open>
  C27. A request is authorized if and only if the wrapper's session satisfies the contract, the role
  asked for (or else the default one) is one of its roles, and its access has the right the endpoint
  requires. A malformed session is reported as the wrapper's fault, whatever the client asked for,
  and a well-formed one is never.
\<close>

theorem session_authorized_iff:
  "(case authorize_session i requested required of
      Inr (canonical, auth) \<Rightarrow> session_well_formed i \<and>
        as_role canonical = unwrap_or (si_default_role i) requested \<and> as_role canonical \<in> set (si_roles i) \<and>
        required \<in> ax_permissions auth \<and>
        ax_permissions auth = {p. \<exists>v \<in> set (si_access i). parse_access v = Some p} \<and> ts_role (ax_session auth) = as_role canonical
    | Inl (Malformed f) \<Rightarrow> \<not> session_well_formed i
    | Inl Forbidden \<Rightarrow> session_well_formed i \<and> (unwrap_or (si_default_role i) requested \<notin> set (si_roles i) \<or>
        required \<notin> {p. \<exists>v \<in> set (si_access i). parse_access v = Some p}))"
proof (cases "session_well_formed i")
  case True
  let ?r = "unwrap_or (si_default_role i) requested"
  have "role_name_new ?r = Inr ?r" if "?r \<in> set (si_roles i)"
    using True that by (intro role_name_ok) (auto simp: session_well_formed_def list_all_iff)
  moreover have "trusted_session_new ?r (si_subject i) (si_session i) = Inr \<lparr>ts_role = ?r,
      ts_values = bt_insert ''role'' ?r (bt_insert ''subject_id'' (si_subject i) (fold (\<lambda>(k, v). bt_insert k v) (si_session i) []))\<rparr>"
    using True by (intro trusted_session_accepts) (auto simp: session_well_formed_def)
  ultimately show ?thesis using True by (auto simp: authorize_well_formed select_role_def Let_def)
next
  case False
  then show ?thesis using authorize_malformed [OF False, of requested required] by auto
qed

lemma authorized_canonical:
  assumes "authorize_session i requested required = Inr (canonical, auth)"
  shows "session_well_formed i" "as_role canonical \<in> set (si_roles i)"
    "canonical = \<lparr>as_principal = si_principal i, as_subject = si_subject i, as_role = as_role canonical, as_roles = si_roles i,
      as_access = si_access i, as_session = si_session i\<rparr>"
    "auth = \<lparr>ax_session = \<lparr>ts_role = as_role canonical, ts_values = bt_insert ''role'' (as_role canonical)
        (bt_insert ''subject_id'' (si_subject i) (fold (\<lambda>(k, v). bt_insert k v) (si_session i) []))\<rparr>,
      ax_permissions = {p. \<exists>v \<in> set (si_access i). parse_access v = Some p}\<rparr>"
proof -
  show w: "session_well_formed i" using assms authorize_malformed [of i requested required] by force
  have t: "trusted_session_new r (si_subject i) (si_session i) = Inr \<lparr>ts_role = r,
      ts_values = bt_insert ''role'' r (bt_insert ''subject_id'' (si_subject i) (fold (\<lambda>(k, v). bt_insert k v) (si_session i) []))\<rparr>" for r
    using w by (intro trusted_session_accepts) (auto simp: session_well_formed_def)
  have "role_name_new r = Inr r" if "r \<in> set (si_roles i)" for r
    using w that by (intro role_name_ok) (auto simp: session_well_formed_def list_all_iff)
  with assms show "as_role canonical \<in> set (si_roles i)"
    "canonical = \<lparr>as_principal = si_principal i, as_subject = si_subject i, as_role = as_role canonical, as_roles = si_roles i,
      as_access = si_access i, as_session = si_session i\<rparr>"
    "auth = \<lparr>ax_session = \<lparr>ts_role = as_role canonical, ts_values = bt_insert ''role'' (as_role canonical)
        (bt_insert ''subject_id'' (si_subject i) (fold (\<lambda>(k, v). bt_insert k v) (si_session i) []))\<rparr>,
      ax_permissions = {p. \<exists>v \<in> set (si_access i). parse_access v = Some p}\<rparr>"
    by (auto simp: authorize_well_formed [OF w] select_role_def Let_def t split: if_splits)
qed

text \<open>
  The canonical session that was authorized and stored is re-activated, for any right the session
  has, to exactly the same authentication context, whose trusted session holds the subject, the
  selected role and the wrapper's values, under keys the wrapper's values cannot take.
\<close>

theorem reactivation_is_same_session:
  assumes "authorize_session i requested required = Inr (canonical, auth)"
    and "required' \<in> ax_permissions auth" and "distinct (map fst (si_session i))"
  shows "activate_authorized canonical required' = Inr auth \<and>
    session_get (ax_session auth) ''role'' = Some (as_role canonical) \<and>
    session_get (ax_session auth) ''subject_id'' = Some (si_subject i) \<and>
    (\<forall>k. k \<noteq> ''role'' \<and> k \<noteq> ''subject_id'' \<longrightarrow> session_get (ax_session auth) k = map_of (si_session i) k)"
proof -
  note c = authorized_canonical [OF assms(1)]
  let ?i = "\<lparr>si_principal = as_principal canonical, si_subject = as_subject canonical, si_roles = as_roles canonical,
    si_default_role = as_role canonical, si_access = as_access canonical, si_session = as_session canonical\<rparr>"
  have i: "?i = i\<lparr>si_default_role := as_role canonical\<rparr>" by (subst (1 2 3 4 5) c(3)) simp
  have w: "session_well_formed ?i" unfolding i using c(1,2) by (simp add: session_well_formed_def)
  have r: "role_name_new (as_role canonical) = Inr (as_role canonical)"
    using c(1,2) by (intro role_name_ok) (auto simp: session_well_formed_def list_all_iff)
  have t: "trusted_session_new (as_role canonical) (si_subject i) (si_session i) = Inr (ax_session auth)"
    using c(1) by (subst c(4)) (simp add: trusted_session_accepts session_well_formed_def)
  have p: "ax_permissions auth = {p. \<exists>v \<in> set (si_access i). parse_access v = Some p}" by (subst c(4)) simp
  have "activate_authorized canonical required' = Inr auth"
    unfolding activate_authorized_def authorize_well_formed [OF w] unfolding i
    using assms(2) c(2) by (simp add: select_role_def Let_def r t p)
  moreover have "session_get (ax_session auth) ''role'' = Some (as_role canonical)"
    "session_get (ax_session auth) ''subject_id'' = Some (si_subject i)"
    "\<forall>k. k \<noteq> ''role'' \<and> k \<noteq> ''subject_id'' \<longrightarrow> session_get (ax_session auth) k = map_of (si_session i) k"
    by (subst c(4), simp add: session_get_def fold_insert_get [OF assms(3)] split: option.splits)+
  ultimately show ?thesis by blast
qed

definition wrapper_input :: session_input where
  "wrapper_input = \<lparr>si_principal = ''p'', si_subject = ''u1'', si_roles = [''member'', ''reader''], si_default_role = ''member'',
     si_access = [''execute'', ''explain''], si_session = [(''tenant_id'', ''t1'')]\<rparr>"

definition wrapper_auth :: auth_context where
  "wrapper_auth = \<lparr>ax_session = \<lparr>ts_role = ''member'', ts_values = [(''role'', ''member''), (''subject_id'', ''u1''), (''tenant_id'', ''t1'')]\<rparr>,
     ax_permissions = {Perm_Execute, Perm_Explain}\<rparr>"

definition demo_canonical :: authorized_session where
  "demo_canonical = \<lparr>as_principal = ''p'', as_subject = ''u1'', as_role = ''member'', as_roles = [''member'', ''reader''],
     as_access = [''execute'', ''explain''], as_session = [(''tenant_id'', ''t1'')]\<rparr>"

lemma demo_authorized: "authorize_session wrapper_input None Perm_Execute = Inr (demo_canonical, wrapper_auth)"
proof -
  have "session_well_formed wrapper_input"
    by (simp add: session_well_formed_def wrapper_input_def role_invalid_def role_name_new_def canonical_key_def byte_defs
        parse_access_def session_key_refused_def session_key_new_def)
  moreover have "{p. \<exists>v \<in> set (si_access wrapper_input). parse_access v = Some p} = {Perm_Execute, Perm_Explain}"
    by (auto simp: wrapper_input_def parse_access_def)
  ultimately show ?thesis
    by (simp add: authorize_well_formed select_role_def Let_def wrapper_input_def demo_canonical_def wrapper_auth_def
        trusted_session_new_def session_key_new_def role_name_new_def canonical_key_def byte_defs less_char_def)
qed

lemma reactivation_is_same_session_witness:
  "activate_authorized demo_canonical Perm_Explain = Inr wrapper_auth"
  using reactivation_is_same_session [OF demo_authorized, of Perm_Explain] by (simp add: wrapper_auth_def wrapper_input_def)

lemma session_authorized_iff_witness:
  "session_well_formed wrapper_input \<and> ts_role (ax_session wrapper_auth) = ''member''"
  using session_authorized_iff [of wrapper_input None Perm_Execute] by (simp add: demo_authorized wrapper_auth_def)

end
