(* ===== verification/Gw_Envelope.thy ===== *)
theory Gw_Envelope
  imports Sql_Bind Gw_Session
begin

text \<open>
  The gateway (\<^verbatim>\<open>src/crates/policysql-gateway/src/lib.rs\<close>): the statements of a request are bound, protected by the caller's policies,
  emitted, verified and sealed, all of them before the first one runs.

  The backend of \<open>Gw_Seal\<close> is the parser crate and the printer, which the front end and the emitter share. An executor is a
  function on a state of its own, which it may change whether it fails or not.
\<close>

section \<open>Requests and errors\<close>

record statement_request =
  rq_sql :: string
  rq_parameters :: client_values
  rq_expected_affected_rows :: "nat option"
  rq_expected_row_count :: "nat option"

record compiled_statement =
  cs_plan :: candidate_plan
  cs_explain :: explain
  cs_client_parameters :: "(string \<times> client_parameter_contract) list"

record gateway =
  gw_catalog :: catalog
  gw_policies :: policy_bundle
  gw_snapshot :: string
  gw_limits :: execution_limits
  gw_max_statements :: nat
  gw_binding_limits :: binding_limits

definition gateway_new :: "catalog \<Rightarrow> policy_bundle \<Rightarrow> string \<Rightarrow> execution_limits \<Rightarrow> nat \<Rightarrow> gateway" where
  "gateway_new c policies snapshot limits max_statements =
     \<lparr>gw_catalog = c, gw_policies = policies, gw_snapshot = snapshot, gw_limits = limits, gw_max_statements = max_statements,
      gw_binding_limits = binding_limits_default\<rparr>"

definition with_binding_limits :: "gateway \<Rightarrow> binding_limits \<Rightarrow> gateway" where
  "with_binding_limits gw limits = gw\<lparr>gw_binding_limits := limits\<rparr>"

definition MAX_COLUMN_METADATA_BYTES :: nat where "MAX_COLUMN_METADATA_BYTES = 1048576"

datatype rejection_kind =
    InvalidRequest | RK_InvalidSql | RK_MultipleStatements | UnsupportedSql | RK_MissingPolicy | ForbiddenOperation | RK_ForbiddenColumn
  | RK_ForbiddenColumnContext | DuplicateResultColumn | InvalidParameter | AmbiguousParameterType | ReservedParameter | PresetColumn
  | LimitExceeded | ExpectationFailed

datatype gateway_error =
    AccessDenied | GE_SnapshotMismatch | EnvelopeLimit | GE_Rejected rejection_kind nat | GE_TooComplex complexity_cause nat
  | EmittedSqlInvalid nat | ExecutionFailed | TransactionRequired

fun classify_bind_error :: "bind_error \<Rightarrow> rejection_kind" where
  "classify_bind_error BE_Empty = RK_InvalidSql"
| "classify_bind_error InvalidSql = RK_InvalidSql"
| "classify_bind_error MultipleStatements = RK_MultipleStatements"
| "classify_bind_error BE_UnknownColumn = RK_ForbiddenColumn"
| "classify_bind_error AmbiguousColumn = RK_ForbiddenColumn"
| "classify_bind_error ImplicitRowId = RK_ForbiddenColumn"
| "classify_bind_error DuplicateResultName = DuplicateResultColumn"
| "classify_bind_error InvalidResultName = DuplicateResultColumn"
| "classify_bind_error BE_ReservedParameterNamespace = ReservedParameter"
| "classify_bind_error UnprovableParameterType = AmbiguousParameterType"
| "classify_bind_error BE_InvalidParameterName = InvalidParameter"
| "classify_bind_error PositionalParameter = InvalidParameter"
| "classify_bind_error UnsupportedParameterPrefix = InvalidParameter"
| "classify_bind_error IncompatibleTypes = InvalidParameter"
| "classify_bind_error BE_NullComparison = InvalidParameter"
| "classify_bind_error InvalidLiteral = InvalidParameter"
| "classify_bind_error ProjectionLimit = LimitExceeded"
| "classify_bind_error JoinLimit = LimitExceeded"
| "classify_bind_error ParameterLimit = LimitExceeded"
| "classify_bind_error ExpressionDepth = LimitExceeded"
| "classify_bind_error InvalidLimit = LimitExceeded"
| "classify_bind_error BE_UnknownResource = ForbiddenOperation"
| "classify_bind_error (Unsupported _) = UnsupportedSql"
| "classify_bind_error MissingFrom = UnsupportedSql"
| "classify_bind_error DuplicateAlias = UnsupportedSql"
| "classify_bind_error DuplicateWriteColumn = UnsupportedSql"
| "classify_bind_error InsertArity = UnsupportedSql"

definition policy_rejection :: "policy_error \<Rightarrow> rejection_kind" where
  "policy_rejection e = (case e of
       MissingPolicy \<Rightarrow> RK_MissingPolicy
     | ForbiddenColumn \<Rightarrow> RK_ForbiddenColumn
     | UnknownColumn \<Rightarrow> RK_ForbiddenColumn
     | ForbiddenColumnContext \<Rightarrow> RK_ForbiddenColumnContext
     | PresetColumnOverlap \<Rightarrow> PresetColumn
     | TooManyPolicies \<Rightarrow> LimitExceeded
     | _ \<Rightarrow> ForbiddenOperation)"

definition compile_failure :: "compile_error \<Rightarrow> nat \<Rightarrow> gateway_error" where
  "compile_failure e index = (case e of
       ClientParameterMismatch \<Rightarrow> GE_Rejected InvalidParameter index
     | ClientParameterTypeMismatch \<Rightarrow> GE_Rejected InvalidParameter index
     | CE_Emit x \<Rightarrow> (case x of
           TooComplex cause \<Rightarrow> GE_TooComplex cause index
         | ReparseFailed \<Rightarrow> EmittedSqlInvalid index
         | _ \<Rightarrow> GE_Rejected UnsupportedSql index)
     | CE_Verification _ \<Rightarrow> GE_Rejected UnsupportedSql index)"

text \<open>\<open>result.map_err(f)\<close>.\<close>

definition or_reject :: "('e \<Rightarrow> gateway_error) \<Rightarrow> 'e + 'a \<Rightarrow> gateway_error + 'a" where
  "or_reject f x = (case x of Inl e \<Rightarrow> Inl (f e) | Inr y \<Rightarrow> Inr y)"

section \<open>Compiling\<close>

definition policies_compile :: "policy_bundle \<Rightarrow> bound_statement \<Rightarrow> trusted_session \<Rightarrow> compile_output pol" where
  "policies_compile b statement session = (case statement of
       Insert _ \<Rightarrow> compile_insert b statement session
     | Update _ \<Rightarrow> compile_update b statement session
     | Delete _ \<Rightarrow> compile_delete b statement session
     | _ \<Rightarrow> compile_select b statement session)"

text \<open>What the client expects against what the plan expects.\<close>

definition expect_rows :: "protected_plan \<Rightarrow> nat option \<Rightarrow> rejection_kind + protected_plan" where
  "expect_rows plan requested = (case requested of
       None \<Rightarrow> Inr plan
     | Some n \<Rightarrow>
         if statement_kind (pp_statement plan) = OpSelect then Inl InvalidRequest
         else if is_some_and (\<lambda>m. n \<noteq> m) (pp_expected_affected_rows plan) then Inl ExpectationFailed
         else Inr (plan\<lparr>pp_expected_affected_rows := Some n\<rparr>))"

definition option_or :: "'a option \<Rightarrow> 'a option \<Rightarrow> 'a option" where
  "option_or x y = (case x of Some _ \<Rightarrow> x | None \<Rightarrow> y)"

definition request_plan :: "protected_plan \<Rightarrow> bound_document \<Rightarrow> statement_request \<Rightarrow> protected_plan" where
  "request_plan plan document request =
     plan\<lparr>pp_string_literals := (pp_string_literals plan)\<lparr>slw_client := bdoc_string_literals document\<rparr>,
       pp_expected_result_rows := option_or (rq_expected_row_count request) (pp_expected_result_rows plan)\<rparr>"

definition gateway_front :: "backend \<Rightarrow> gateway \<Rightarrow> front" where
  "gateway_front be gw = \<lparr>fr_limits = gw_binding_limits gw, fr_catalog = gw_catalog gw, fr_rnd = be_rnd be\<rparr>"

definition U64_MAX :: nat where "U64_MAX = 18446744073709551615"

definition compile_request :: "backend \<Rightarrow> gateway \<Rightarrow> trusted_session \<Rightarrow> nat \<times> statement_request \<Rightarrow> nat \<Rightarrow> gateway_error + compiled_statement \<times> nat" where
  "compile_request be gw session = (\<lambda>(index, request) metadata_bytes.
     try_ok (or_reject (\<lambda>e. GE_Rejected (classify_bind_error e) index) (bind_document (be_parse be) (gateway_front be gw) (rq_sql request))) (\<lambda>document.
     try_ok (or_reject (\<lambda>e. GE_Rejected (policy_rejection e) index) (policies_compile (gw_policies gw) (bdoc_statement document) session)) (\<lambda>output.
     try_ok (or_reject (\<lambda>kind. GE_Rejected kind index) (expect_rows (co_plan output) (rq_expected_affected_rows request))) (\<lambda>plan.
     let plan = request_plan plan document request in
     try_ok (or_reject (\<lambda>e. compile_failure e index)
         (compile_verified be plan (gw_catalog gw) (rq_parameters request) (gw_limits gw) (gw_snapshot gw))) (\<lambda>sealed.
     let metadata_bytes = min U64_MAX (metadata_bytes + cp_column_metadata_bytes sealed) in
     if MAX_COLUMN_METADATA_BYTES < metadata_bytes then Inl (GE_TooComplex ColumnMetadata index)
     else try_ok (ok_or (GE_Rejected InvalidParameter index) (contracts (analyze_client_parameters (pp_statement plan) (gw_catalog gw)))) (\<lambda>cs.
       Inr (\<lparr>cs_plan = sealed, cs_explain = co_explain output, cs_client_parameters = cs\<rparr>, metadata_bytes)))))))"

definition compile_envelope :: "backend \<Rightarrow> gateway \<Rightarrow> auth_context \<Rightarrow> endpoint_permission \<Rightarrow> string option \<Rightarrow> statement_request list \<Rightarrow>
  gateway_error + compiled_statement list" where
  "compile_envelope be gw auth permission precondition requests =
     (if permission \<notin> ax_permissions auth then Inl AccessDenied
      else if is_some_and (\<lambda>v. v \<noteq> gw_snapshot gw) precondition then Inl GE_SnapshotMismatch
      else if requests = [] \<or> gw_max_statements gw < length requests then Inl EnvelopeLimit
      else try_ok (traverse_st (compile_request be gw (ax_session auth)) (enumerate 0 requests) 0) (\<lambda>(statements, _). Inr statements))"

section \<open>Executing\<close>

type_synonym ('o, 's) executor = "candidate_plan \<Rightarrow> 's \<Rightarrow> 'o option \<times> 's"

fun execute_all :: "('o, 's) executor \<Rightarrow> candidate_plan list \<Rightarrow> 's \<Rightarrow> (gateway_error + 'o list) \<times> 's" where
  "execute_all run [] s = (Inr [], s)"
| "execute_all run (p # ps) s = (case run p s of
       (None, t) \<Rightarrow> (Inl ExecutionFailed, t)
     | (Some output, t) \<Rightarrow> (case execute_all run ps t of
         (Inl e, v) \<Rightarrow> (Inl e, v)
       | (Inr outputs, v) \<Rightarrow> (Inr (output # outputs), v)))"

definition execute_atomic :: "backend \<Rightarrow> gateway \<Rightarrow> auth_context \<Rightarrow> string option \<Rightarrow> statement_request list \<Rightarrow> ('o, 's) executor \<Rightarrow> 's \<Rightarrow>
  (gateway_error + 'o list) \<times> 's" where
  "execute_atomic be gw auth precondition requests run s = (case compile_envelope be gw auth Perm_Execute precondition requests of
       Inl e \<Rightarrow> (Inl e, s)
     | Inr statements \<Rightarrow>
         if list_ex (\<lambda>statement. cp_operation (cs_plan statement) \<noteq> OpSelect) statements then (Inl TransactionRequired, s)
         else execute_all run (map cs_plan statements) s)"

end
