(* ===== verification/Sql_Bind_Laws.thy ===== *)
theory Sql_Bind_Laws
  imports Sql_Bind Pol_Activate_Laws
begin

text \<open>
  What the binder promises of a bound statement: every column is a column of the catalog with its type and of a
  resource in scope, every operand has the type its operator needs, every parameter and string literal is in the
  trace, and nothing that only the policy compiler may write occurs.

  The trace is an accumulator: binding only ever extends it, and what was established of an expression keeps
  holding. The parts of the binder extend it when what they call does, and induction on the expression ties the knot.
\<close>

section \<open>Well-bound expressions\<close>

definition expr_type :: "bound_expr \<Rightarrow> logical_type" where
  "expr_type b = (case b of
       Column column \<Rightarrow> bc_type column
     | ClientParameter _ t \<Rightarrow> t
     | ServerParameter _ t \<Rightarrow> t
     | Literal v \<Rightarrow> (case v of LV_String _ \<Rightarrow> LT_String | LV_Int64 _ \<Rightarrow> LT_Int64 | LV_Number _ \<Rightarrow> LT_Number | _ \<Rightarrow> LT_Boolean)
     | Concat _ _ \<Rightarrow> LT_String
     | CastText _ \<Rightarrow> LT_String
     | Case _ _ t \<Rightarrow> t
     | CountAll _ \<Rightarrow> LT_Int64
     | RowNumber _ _ _ \<Rightarrow> LT_Int64
     | ScalarFunction _ _ t \<Rightarrow> t
     | _ \<Rightarrow> LT_Boolean)"

definition operands :: "bound_expr \<Rightarrow> bound_expr list" where
  "operands b = (case b of
       Equal l r \<Rightarrow> [l, r] | NotEqual l r \<Rightarrow> [l, r] | Less l r \<Rightarrow> [l, r] | LessEqual l r \<Rightarrow> [l, r] | Greater l r \<Rightarrow> [l, r]
     | GreaterEqual l r \<Rightarrow> [l, r] | And l r \<Rightarrow> [l, r] | Or l r \<Rightarrow> [l, r] | Like l r \<Rightarrow> [l, r] | Glob l r \<Rightarrow> [l, r]
     | Least l r \<Rightarrow> [l, r] | Concat l r \<Rightarrow> [l, r] | ConditionalOutput l r \<Rightarrow> [l, r]
     | Not x \<Rightarrow> [x] | IsNull x \<Rightarrow> [x] | CastText x \<Rightarrow> [x]
     | In x vs _ \<Rightarrow> x # vs
     | Case bs els _ \<Rightarrow> map fst bs @ map snd bs @ option_list els
     | Exists s \<Rightarrow> map pj_expression (bs_projections s) @ option_list (bs_predicate s)
     | ScalarFunction _ xs _ \<Rightarrow> xs
     | _ \<Rightarrow> [])"

text \<open>The binder does not check the type a \<open>COUNT(*)\<close> is expected to have: what is one, or a \<open>CASE\<close> that may return one.\<close>

fun may_count :: "bound_expr \<Rightarrow> bool" where
  "may_count (CountAll _) = True"
| "may_count (Case bs els _) = (list_ex (\<lambda>p. may_count (snd p)) bs \<or> (case els of None \<Rightarrow> False | Some e \<Rightarrow> may_count e))"
| "may_count _ = False"

definition fits :: "logical_type \<Rightarrow> bound_expr \<Rightarrow> bool" where
  "fits t b = (expr_type b = t \<or> may_count b)"

definition results_of :: "(bound_expr \<times> bound_expr) list \<Rightarrow> bound_expr option \<Rightarrow> bound_expr list" where
  "results_of bs els = map snd bs @ option_list els"

definition well_typed :: "bound_expr \<Rightarrow> bool" where
  "well_typed b = (case b of
       Equal l r \<Rightarrow> expr_type l = expr_type r
     | NotEqual l r \<Rightarrow> expr_type l = expr_type r
     | Less l r \<Rightarrow> expr_type l = expr_type r
     | LessEqual l r \<Rightarrow> expr_type l = expr_type r
     | Greater l r \<Rightarrow> expr_type l = expr_type r
     | GreaterEqual l r \<Rightarrow> expr_type l = expr_type r
     | Like l r \<Rightarrow> expr_type l = expr_type r
     | Glob l r \<Rightarrow> expr_type l = expr_type r
     | And l r \<Rightarrow> expr_type l = LT_Boolean \<and> expr_type r = LT_Boolean
     | Or l r \<Rightarrow> expr_type l = LT_Boolean \<and> expr_type r = LT_Boolean
     | Not x \<Rightarrow> expr_type x = LT_Boolean
     | In x vs _ \<Rightarrow> vs \<noteq> [] \<and> list_all (fits (expr_type x)) vs
     | Concat l r \<Rightarrow> fits LT_String l \<and> fits LT_String r
     | Case bs els t \<Rightarrow> bs \<noteq> [] \<and> list_all (\<lambda>p. expr_type (fst p) = LT_Boolean) bs \<and>
         (list_all (\<lambda>x. expr_type x = t) (results_of bs els) \<or> list_ex may_count (results_of bs els))
     | ScalarFunction f xs t \<Rightarrow> (case f of
           JsonExtract \<Rightarrow> t = LT_Json \<and> list_all2 fits [LT_Json, LT_String] xs
         | _ \<Rightarrow> t = LT_String \<and> list_all2 fits [LT_String] xs)
     | _ \<Rightarrow> True)"

definition column_known :: "catalog \<Rightarrow> nat list \<Rightarrow> bound_column \<Rightarrow> bool" where
  "column_known c rs column = (cid_resource (bc_id column) \<in> set rs \<and>
     list_ex (\<lambda>(_, r). case column_by_id r (bc_id column) of
         Some d \<Rightarrow> bc_type column = vd_logical_type (cd_value d)
       | None \<Rightarrow> False) (cat_resources c))"

definition resource_known :: "catalog \<Rightarrow> nat \<Rightarrow> bool" where
  "resource_known c i = list_ex (\<lambda>(_, r). rd_id r = i) (cat_resources c)"

definition literal_traced :: "bind_trace \<Rightarrow> logical_value \<Rightarrow> bool" where
  "literal_traced u v = (case v of
       LV_String s \<Rightarrow> s \<in> csl_value ` set (bt_string_literals u)
     | LV_Int64 i \<Rightarrow> - (2 ^ 63) \<le> i \<and> i < 2 ^ 63
     | LV_Number _ \<Rightarrow> True
     | LV_Boolean _ \<Rightarrow> True
     | _ \<Rightarrow> False)"

text \<open>No two results share a name, whatever its case, and no name is one of the server's.\<close>

definition names_ok :: "bound_projection list \<Rightarrow> bool" where
  "names_ok ps = (distinct (map (canonical_name \<circ> pj_output_name) ps) \<and>
     list_all (\<lambda>p. \<not> starts_with ''__policysql_'' (canonical_name (pj_output_name p)) \<and> non_empty (pj_output_name p)) ps)"

definition leaf_ok :: "catalog \<Rightarrow> nat list \<Rightarrow> bind_trace \<Rightarrow> bound_expr \<Rightarrow> bool" where
  "leaf_ok c rs u b = (case b of
       Column column \<Rightarrow> column_known c rs column
     | ClientParameter n _ \<Rightarrow> n \<in> bt_parameters u
     | ServerParameter _ _ \<Rightarrow> False
     | Least _ _ \<Rightarrow> False
     | ConditionalOutput _ _ \<Rightarrow> False
     | Literal v \<Rightarrow> literal_traced u v
     | CountAll r \<Rightarrow> r \<in> set rs
     | RowNumber r cs ds \<Rightarrow> ds \<noteq> [] \<and>
         list_all (\<lambda>column. column_known c rs column \<and> cid_resource (bc_id column) = r) cs \<and>
         list_all (\<lambda>d. case od_expression d of
             Column column \<Rightarrow> column_known c rs column \<and> cid_resource (bc_id column) = r
           | _ \<Rightarrow> False) ds
     | Exists s \<Rightarrow> resource_known c (bs_resource s) \<and> bs_resource s \<notin> set rs \<and> names_ok (bs_projections s) \<and> bs_joins s = [] \<and>
         bs_group_by s = [] \<and> bs_having s = None \<and> bs_order_by s = [] \<and> bs_limit s = None \<and> bs_offset s = None
     | _ \<Rightarrow> True)"

definition inner_scope :: "nat list \<Rightarrow> bound_expr \<Rightarrow> nat list" where
  "inner_scope rs b = (case b of Exists s \<Rightarrow> rs @ [bs_resource s] | _ \<Rightarrow> rs)"

lemma size_option_list: "x \<in> set (option_list y) \<Longrightarrow> f x \<le> size_option f y"
  by (cases y) (auto simp: option_list_def)

lemma operand_smaller [termination_simp]: "x \<in> set (operands b) \<Longrightarrow> size x < size b"
proof (cases b)
  case (Case bs els t)
  assume "x \<in> set (operands b)"
  then consider p where "p \<in> set bs" "x = fst p \<or> x = snd p" | "els = Some x"
    by (auto simp: operands_def Case option_list_def split: option.splits)
  then show ?thesis
    using case_branch_smaller [of _ bs] by cases (fastforce simp: Case dest: case_branch_smaller)+
next
  case (Exists s)
  assume "x \<in> set (operands b)"
  then show ?thesis
    by (cases s) (auto simp: operands_def Exists option_list_def dest!: projection_expression_smaller split: option.splits)
next
  case (In y vs n)
  assume "x \<in> set (operands b)"
  then show ?thesis by (auto simp: operands_def In dest: list_member_smaller [where f = size])
next
  case (ScalarFunction f xs t)
  assume "x \<in> set (operands b)"
  then show ?thesis by (auto simp: operands_def ScalarFunction dest: list_member_smaller [where f = size])
qed (auto simp: operands_def)

function well_bound :: "catalog \<Rightarrow> nat list \<Rightarrow> bind_trace \<Rightarrow> bound_expr \<Rightarrow> bool" where
  "well_bound c rs u b = (leaf_ok c rs u b \<and> well_typed b \<and> (\<forall>x \<in> set (operands b). well_bound c (inner_scope rs b) u x))"
  by pat_completeness auto
termination
  by (relation "measure (\<lambda>(_, _, _, b). size b)") (auto simp: operand_smaller)

declare well_bound.simps [simp del]

lemma well_bound_simps [simp]:
  "well_bound c rs u (Column column) = column_known c rs column"
  "well_bound c rs u (ClientParameter n t) = (n \<in> bt_parameters u)"
  "well_bound c rs u (Literal v) = literal_traced u v"
  "well_bound c rs u (CountAll r) = (r \<in> set rs)"
  "well_bound c rs u (Not b) = (expr_type b = LT_Boolean \<and> well_bound c rs u b)"
  "well_bound c rs u (IsNull b) = well_bound c rs u b"
  "well_bound c rs u (CastText b) = well_bound c rs u b"
  "well_bound c rs u (And b d) = (expr_type b = LT_Boolean \<and> expr_type d = LT_Boolean \<and> well_bound c rs u b \<and> well_bound c rs u d)"
  "well_bound c rs u (Or b d) = (expr_type b = LT_Boolean \<and> expr_type d = LT_Boolean \<and> well_bound c rs u b \<and> well_bound c rs u d)"
  "well_bound c rs u (Like b d) = (expr_type b = expr_type d \<and> well_bound c rs u b \<and> well_bound c rs u d)"
  "well_bound c rs u (Glob b d) = (expr_type b = expr_type d \<and> well_bound c rs u b \<and> well_bound c rs u d)"
  "well_bound c rs u (Concat b d) = (fits LT_String b \<and> fits LT_String d \<and> well_bound c rs u b \<and> well_bound c rs u d)"
  "well_bound c rs u (In b vs neg) = (vs \<noteq> [] \<and> list_all (fits (expr_type b)) vs \<and> well_bound c rs u b \<and> list_all (well_bound c rs u) vs)"
  by (subst well_bound.simps, force simp: leaf_ok_def well_typed_def operands_def inner_scope_def list_all_iff)+

lemma expr_type_simps [simp]:
  "expr_type (Column column) = bc_type column" "expr_type (ClientParameter n t) = t" "expr_type (CountAll r) = LT_Int64"
  "expr_type (Concat b d) = LT_String" "expr_type (CastText b) = LT_String" "expr_type (Case bs els t) = t"
  "expr_type (ScalarFunction f xs t) = t" "expr_type (RowNumber r cs ds) = LT_Int64"
  "expr_type (Not b) = LT_Boolean" "expr_type (IsNull b) = LT_Boolean" "expr_type (And b d) = LT_Boolean"
  "expr_type (Or b d) = LT_Boolean" "expr_type (Like b d) = LT_Boolean" "expr_type (Glob b d) = LT_Boolean"
  "expr_type (In b vs neg) = LT_Boolean" "expr_type (Exists s) = LT_Boolean"
  by (simp_all add: expr_type_def)

section \<open>The trace\<close>

definition trace_ok :: "nat \<Rightarrow> bind_trace \<Rightarrow> bool" where
  "trace_ok n u = (finite (bt_parameters u) \<and> card (bt_parameters u) \<le> n \<and>
     (\<forall>p \<in> bt_parameters u. client_parameter_name_new p = Inr p) \<and>
     (\<forall>l \<in> set (bt_string_literals u). decode_string_literal (csl_token l) = Some (csl_value l)))"

definition trace_le :: "bind_trace \<Rightarrow> bind_trace \<Rightarrow> bool" where
  "trace_le u v = (bt_parameters u \<subseteq> bt_parameters v \<and> set (bt_string_literals u) \<subseteq> set (bt_string_literals v))"

lemma new_trace_ok [simp]: "trace_ok n new_trace"
  by (simp add: trace_ok_def new_trace_def)

interpretation tr: accumulator "trace_ok n" trace_le for n
  by unfold_locales (auto simp: trace_le_def)

abbreviation binds_to :: "nat \<Rightarrow> (bind_trace \<Rightarrow> 'a \<Rightarrow> bool) \<Rightarrow> 'a binds \<Rightarrow> bool" where
  "binds_to n \<equiv> accumulator.extends (trace_ok n) trace_le"

context accumulator
begin

lemma extends_pair:
  assumes "extends P f" and "\<And>y z. extends (\<lambda>u w. P u (y, z) \<longrightarrow> Q u w) (k y z)"
  shows "extends Q (\<lambda>s. try_ok (f s) (\<lambda>((y, z), s). k y z s))"
proof -
  have "extends (\<lambda>u w. P u y \<longrightarrow> Q u w) (case_prod k y)" for y using assms(2) by (cases y) simp
  from extends_bind [OF assms(1) this] show ?thesis .
qed

lemma extends_pure:
  assumes "\<And>y. x = Inr y \<Longrightarrow> extends Q (k y)"
  shows "extends Q (\<lambda>s. try_ok x (\<lambda>y. k y s))"
  using assms by (cases x) (simp_all add: extends_fail)

lemma extends_if:
  assumes "b \<Longrightarrow> extends Q f" "\<not> b \<Longrightarrow> extends Q g"
  shows "extends Q (\<lambda>s. if b then f s else g s)"
  using assms by (cases b) simp_all

lemma extends_map:
  assumes "extends P f" and "\<And>u y. P u y \<Longrightarrow> Q u (h y)"
  shows "extends Q (\<lambda>s. try_ok (f s) (\<lambda>(y, s). Inr (h y, s)))"
  using assms(1) by (rule extends_bind) (simp add: extends_return assms(2))

end

section \<open>Sources and columns\<close>

definition scope_known :: "catalog \<Rightarrow> source_scope \<Rightarrow> bool" where
  "scope_known c scope = (sco_resource scope \<in> snd ` set (cat_resources c) \<and>
     (\<forall>d \<in> snd ` set (sco_columns scope). column_by_id (sco_resource scope) (cd_id d) = Some d))"

definition scope_ids :: "source_scope list \<Rightarrow> nat list" where
  "scope_ids scopes = map (rd_id \<circ> sco_resource) scopes"

lemma set_fold_bt_insert: "set (fold (\<lambda>x. bt_insert (f x) (g x)) xs m) \<subseteq> set m \<union> (\<lambda>x. (f x, g x)) ` set xs"
proof (induction xs arbitrary: m)
  case (Cons x xs)
  from Cons [of "bt_insert (f x) (g x) m"] show ?case by (auto dest: bt_set_insert)
qed simp

lemma bind_source_known:
  assumes "catalog_ok c" "bind_source c t = Inr scope"
  shows "scope_known c scope"
proof -
  obtain name a i r where t: "t = St_Table name a i" and r: "catalog_resource c (name_str (qn_name name)) = Some r"
      "sco_resource scope = r" "sco_columns scope = fold (\<lambda>d. bt_insert (canonical_name (cd_name d)) d) (map snd (rd_columns r)) []"
    using assms(2) by (auto simp: bind_source_def result_simps Let_def split: select_table.splits if_splits)
  have "resource_ok r" using assms(1) r(1) by (rule catalog_resource_ok)
  have "column_by_id r (cd_id d) = Some d" if "d \<in> snd ` set (sco_columns scope)" for d
  proof -
    have "d \<in> snd ` set (rd_columns r)"
      using that set_fold_bt_insert [of "\<lambda>d. canonical_name (cd_name d)" "\<lambda>d. d" "map snd (rd_columns r)" "[]"] r(3) by fastforce
    then obtain k where "(k, d) \<in> set (rd_columns r)" by force
    moreover have "k = canonical_name (cd_name d)" using calculation \<open>resource_ok r\<close> by (auto simp: resource_ok_def)
    ultimately have "resource_column r (cd_name d) = Some d"
      using \<open>resource_ok r\<close> by (simp add: resource_column_def resource_ok_def bt_get_def bt_ok_def strict_sorted_iff)
    with \<open>resource_ok r\<close> show ?thesis by (rule column_by_id_found)
  qed
  moreover have "r \<in> snd ` set (cat_resources c)" using r(1) by (force simp: catalog_resource_def dest: bt_get_set)
  ultimately show ?thesis using r(2) by (simp add: scope_known_def)
qed

lemma resolved_in_scope:
  assumes "resolve_name scopes q n = Inr d"
  obtains scope where "scope \<in> set scopes" "d \<in> snd ` set (sco_columns scope)"
proof -
  have get: "d \<in> snd ` set m" if "bt_get m k = Some d" for m :: "(string \<times> column_descriptor) list" and k
    using bt_get_set [OF that] by force
  show ?thesis
  proof (cases q)
    case None
    with assms have "d \<in> set (List.map_filter (\<lambda>scope. bt_get (sco_columns scope) (canonical_name n)) scopes)"
      by (auto simp: resolve_name_def split: if_splits list.splits)
    then show ?thesis using that get by (auto simp: List.map_filter_def)
  next
    case (Some x)
    with assms obtain scope where "find (\<lambda>s. eq_ignore_ascii_case (sco_qualifier s) x) scopes = Some scope"
      "bt_get (sco_columns scope) (canonical_name n) = Some d"
      by (auto simp: resolve_name_def result_simps split: if_splits)
    then show ?thesis using that get [of "sco_columns scope"] by (metis find_Some_iff nth_mem)
  qed
qed

lemma resolved_known:
  assumes "list_all (scope_known c) scopes" "resolve_direct_column scopes e = Inr d"
  shows "column_known c (scope_ids scopes) (bound_column_of d usage)"
proof -
  obtain q n where "resolve_name scopes q n = Inr d"
    using assms(2) by (auto simp: resolve_direct_column_def split: expr.splits)
  then obtain scope where s: "scope \<in> set scopes" "d \<in> snd ` set (sco_columns scope)" by (rule resolved_in_scope)
  then have "column_by_id (sco_resource scope) (cd_id d) = Some d" "sco_resource scope \<in> snd ` set (cat_resources c)"
    using assms(1) by (auto simp: list_all_iff scope_known_def)
  moreover from this(1) have "cid_resource (cd_id d) = rd_id (sco_resource scope)"
    by (simp add: column_by_id_def split: if_splits)
  ultimately show ?thesis
    using s(1) by (auto simp: column_known_def bound_column_of_def scope_ids_def list_ex_iff intro!: bexI)
qed

section \<open>Parts of expressions\<close>

definition scalar_ok :: "catalog \<Rightarrow> nat list \<Rightarrow> logical_type option \<Rightarrow> expr \<Rightarrow> bind_trace \<Rightarrow> bound_expr \<times> logical_type \<Rightarrow> bool" where
  "scalar_ok c rs expected e u = (\<lambda>(b, t). well_bound c rs u b \<and> expr_type b = t \<and> (\<forall>x. expected = Some x \<longrightarrow> fits x b) \<and>
     (is_variable e \<longrightarrow> expected = Some t))"

definition cond_ok :: "catalog \<Rightarrow> nat list \<Rightarrow> bind_trace \<Rightarrow> bound_expr \<Rightarrow> bool" where
  "cond_ok c rs u b = (well_bound c rs u b \<and> expr_type b = LT_Boolean)"

lemma bind_comparison_ok:
  assumes "\<And>x e. e \<in> {l, r} \<Longrightarrow> binds_to n (scalar_ok c rs x e) (f x e)"
  shows "binds_to n (\<lambda>u (b, d). well_bound c rs u b \<and> well_bound c rs u d \<and> expr_type b = expr_type d) (bind_comparison f l r)"
  unfolding bind_comparison_def [abs_def]
  by (intro tr.extends_if tr.extends_fail tr.extends_pair [OF assms] tr.extends_return) (auto simp: scalar_ok_def)

lemma scalars_ok:
  assumes "list_all2 (\<lambda>e. scalar_ok c rs (Some t) e u) es vs"
  shows "list_all (fits t) (map fst vs)" "list_all (well_bound c rs u) (map fst vs)"
  using assms by (induction rule: list_all2_induct) (auto simp: scalar_ok_def)

lemma bind_in_list_ok:
  assumes f: "\<And>x e. e \<in> insert l (set rs') \<Longrightarrow> binds_to n (scalar_ok c rs x e) (f x e)" and "rs' \<noteq> []"
  shows "binds_to n (cond_ok c rs) (bind_in_list f l neg rs')"
proof -
  have "binds_to n (\<lambda>u p. \<exists>x. scalar_ok c rs x l u p) (\<lambda>tr. if is_variable l then
      (case find (\<lambda>v. \<not> is_variable v) rs' of None \<Rightarrow> Inl UnprovableParameterType
       | Some first \<Rightarrow> try_ok (f None first tr) (\<lambda>((_, logical_type), tr). f (Some logical_type) l tr)) else f None l tr)"
  proof (intro tr.extends_if)
    show "binds_to n (\<lambda>u p. \<exists>x. scalar_ok c rs x l u p) (f None l)"
      by (rule tr.extends_weaken [OF f]) auto
    show "binds_to n (\<lambda>u p. \<exists>x. scalar_ok c rs x l u p) (\<lambda>tr. case find (\<lambda>v. \<not> is_variable v) rs' of
        None \<Rightarrow> Inl UnprovableParameterType
      | Some first \<Rightarrow> try_ok (f None first tr) (\<lambda>((_, logical_type), tr). f (Some logical_type) l tr))"
    proof (cases "find (\<lambda>v. \<not> is_variable v) rs'")
      case (Some e)
      then have "e \<in> set rs'" by (metis find_Some_iff nth_mem)
      then have "binds_to n (scalar_ok c rs None e) (f None e)" by (intro f) simp
      then show ?thesis unfolding Some option.case
        by (rule tr.extends_pair) (rule tr.extends_weaken [OF f], auto)
    qed (simp add: tr.extends_fail)
  qed
  moreover have "binds_to n (\<lambda>u vs. list_all2 (\<lambda>e. scalar_ok c rs x e u) rs' vs) (traverse_st (f x) rs')" for x
    by (rule tr.extends_traverse) (simp add: f)
  ultimately show ?thesis
    unfolding bind_in_list_def [abs_def]
    by (rule tr.extends_pair [OF _ tr.extends_map])
      (use \<open>rs' \<noteq> []\<close> scalars_ok in \<open>fastforce simp: cond_ok_def scalar_ok_def\<close>)
qed

lemma bind_concat_ok:
  assumes "\<And>x e. e \<in> {l, r} \<Longrightarrow> binds_to n (scalar_ok c rs x e) (f x e)" and "\<not> is_variable e"
  shows "binds_to n (scalar_ok c rs expected e) (bind_concat f l r expected)"
  unfolding bind_concat_def [abs_def]
  by (intro tr.extends_if tr.extends_fail tr.extends_pair [OF assms(1)] tr.extends_return)
    (use assms(2) in \<open>auto simp: scalar_ok_def is_some_and_def fits_def split: option.splits\<close>)

lemma bind_cast_text_ok:
  assumes "\<And>x. binds_to n (scalar_ok c rs x i) (f x i)" and "\<not> is_variable e"
  shows "binds_to n (scalar_ok c rs expected e) (bind_cast_text f i ty expected)"
  unfolding bind_cast_text_def [abs_def]
  by (cases ty) (simp add: tr.extends_fail, simp only: option.case,
      intro tr.extends_if tr.extends_fail tr.extends_pair [OF assms(1)] tr.extends_return,
      use assms(2) in \<open>auto simp: scalar_ok_def is_some_and_def fits_def split: option.splits\<close>)

lemma bind_option_ok:
  assumes "\<And>e. x = Some e \<Longrightarrow> binds_to n Q (f e)"
  shows "binds_to n (\<lambda>u y. rel_option (\<lambda>_. Q u) x y) (bind_option f x)"
proof (cases x)
  case (Some e)
  have "binds_to n (\<lambda>u y. rel_option (\<lambda>_. Q u) (Some e) y) (\<lambda>tr. try_ok (f e tr) (\<lambda>(z, tr). Inr (Some z, tr)))"
    by (rule tr.extends_map [OF assms [OF Some]]) simp
  then show ?thesis by (simp add: Some bind_option_def [abs_def])
qed (simp add: bind_option_def [abs_def] tr.extends_return)

text \<open>The results of a \<open>CASE\<close> take their type from one another.\<close>

definition branches_ok :: "catalog \<Rightarrow> nat list \<Rightarrow> logical_type option \<Rightarrow> bind_trace \<Rightarrow> (bound_expr \<times> bound_expr) list \<times> logical_type option \<Rightarrow> bool" where
  "branches_ok c rs expected u = (\<lambda>(bs, t).
     list_all (\<lambda>(b, r). cond_ok c rs u b \<and> well_bound c rs u r) bs \<and> (bs = [] \<longrightarrow> t = expected) \<and>
     (bs \<noteq> [] \<longrightarrow> (\<exists>x. t = Some x \<and> (list_ex may_count (map snd bs) \<or> list_all (\<lambda>r. expr_type r = x) (map snd bs) \<and> is_none_or ((=) x) expected))))"

lemma branches_ok_Cons:
  assumes "cond_ok c rs u b" "scalar_ok c rs expected e u (r, t)" "branches_ok c rs (Some t) u (bs, y)"
  shows "branches_ok c rs expected u ((b, r) # bs, y)"
  using assms by (cases "bs = []"; cases expected) (auto simp: branches_ok_def scalar_ok_def fits_def is_none_or_def)

lemma bind_branches_ok:
  assumes g: "\<And>e. e \<in> fst ` set ps \<Longrightarrow> binds_to n (cond_ok c rs) (g e)"
    and f: "\<And>x e. e \<in> snd ` set ps \<Longrightarrow> binds_to n (scalar_ok c rs x e) (f x e)"
  shows "binds_to n (branches_ok c rs expected) (bind_branches g f expected ps)"
  using assms
proof (induction ps arbitrary: expected)
  case Nil
  show ?case unfolding bind_branches.simps [abs_def] by (rule tr.extends_return) (simp add: branches_ok_def)
next
  case (Cons p ps)
  obtain e r where p: "p = (e, r)" by (cases p)
  have "binds_to n (cond_ok c rs) (g e)" "\<And>x. binds_to n (scalar_ok c rs x r) (f x r)"
    "\<And>x. binds_to n (branches_ok c rs x) (bind_branches g f x ps)"
    using Cons p by auto
  then show ?case
    unfolding p bind_branches.simps [abs_def]
    by (intro tr.extends_bind [of n "cond_ok c rs"] tr.extends_pair [of n "scalar_ok c rs expected r"] tr.extends_pair tr.extends_return)
      (auto intro: branches_ok_Cons)
qed

lemma well_bound_case:
  assumes "branches_ok c rs expected u (bs, Some t)" "bs \<noteq> []"
    and "rel_option (\<lambda>_. scalar_ok c rs (Some t) e u) x els"
  shows "well_bound c rs u (Case bs (map_option fst els) t)"
proof -
  have "well_bound c rs u b" if "b \<in> set (operands (Case bs (map_option fst els) t))" for b
    using that assms by (auto simp: operands_def option_list_def branches_ok_def list_all_iff cond_ok_def scalar_ok_def
        split: option.splits elim: option.rel_cases)
  moreover have "list_all (\<lambda>x. expr_type x = t) (results_of bs (map_option fst els)) \<or> list_ex may_count (results_of bs (map_option fst els))"
    using assms by (cases els) (auto simp: results_of_def option_list_def branches_ok_def scalar_ok_def fits_def elim: option.rel_cases)
  moreover have "list_all (\<lambda>p. expr_type (fst p) = LT_Boolean) bs"
    using assms(1) by (auto simp: branches_ok_def list_all_iff cond_ok_def)
  ultimately show ?thesis
    using assms(2) by (subst well_bound.simps) (simp add: leaf_ok_def well_typed_def inner_scope_def)
qed

lemma bind_case_ok:
  assumes g: "\<And>e. e \<in> fst ` set ps \<Longrightarrow> binds_to n (cond_ok c rs) (g e)"
    and f: "\<And>x e. e \<in> snd ` set ps \<union> set_option els \<Longrightarrow> binds_to n (scalar_ok c rs x e) (f x e)"
    and "ps \<noteq> []" and "\<not> is_variable e"
  shows "binds_to n (scalar_ok c rs expected e) (bind_case g f ps els expected)"
proof (rule tr.extendsI)
  fix tr y v
  assume ok: "trace_ok n tr" and run: "bind_case g f ps els expected tr = Inr (y, v)"
  obtain bs t u els' where 1: "bind_branches g f expected ps tr = Inr ((bs, Some t), u)"
    and 2: "bind_option (f (Some t)) els u = Inr (els', v)" and y: "y = (Case bs (map_option fst els') t, t)"
    using run by (fastforce simp: bind_case_def result_simps)
  have B: "binds_to n (branches_ok c rs expected) (bind_branches g f expected ps)"
    by (rule bind_branches_ok) (auto intro: g f)
  note b = tr.extendsD [OF B ok 1]
  have O: "binds_to n (\<lambda>u els'. rel_option (\<lambda>_ p. \<exists>x \<in> set_option els. scalar_ok c rs (Some t) x u p) els els') (bind_option (f (Some t)) els)"
    by (rule bind_option_ok) (auto intro!: tr.extends_weaken [OF f])
  note o = tr.extendsD [OF O b(1) 2]
  have "bs \<noteq> []" using 1 \<open>ps \<noteq> []\<close> by (cases ps) (auto simp: result_simps)
  have "scalar_ok c rs expected e w y" if "trace_le v w" for w
  proof -
    have bo: "branches_ok c rs expected w (bs, Some t)" using b(3) that o(2) by (blast intro: tr.le_trans)
    moreover have ro: "\<exists>x. rel_option (\<lambda>_. scalar_ok c rs (Some t) x w) els els'"
      using o(3) [OF that] by (cases els; cases els') auto
    ultimately have "well_bound c rs w (Case bs (map_option fst els') t)"
      using \<open>bs \<noteq> []\<close> by (blast intro: well_bound_case)
    moreover have "fits x (Case bs (map_option fst els') t)" if "expected = Some x" for x
      using bo ro \<open>bs \<noteq> []\<close> that by (auto simp: branches_ok_def fits_def is_none_or_def list_ex_iff)
    ultimately show ?thesis using y \<open>\<not> is_variable e\<close> by (simp add: scalar_ok_def)
  qed
  with b(2) o(1,2) show "trace_ok n v \<and> trace_le tr v \<and> (\<forall>u. trace_le v u \<longrightarrow> scalar_ok c rs expected e u y)"
    by (blast intro: tr.le_trans)
qed

lemma signature_cases:
  assumes "scalar_signature name = Some (function, signature, t)"
  shows "(function = Lower \<or> function = Upper) \<and> signature = [LT_String] \<and> t = LT_String \<or>
    function = JsonExtract \<and> signature = [LT_Json, LT_String] \<and> t = LT_Json"
  using assms by (auto simp: scalar_signature_def split: if_splits)

lemma well_bound_function:
  assumes "scalar_signature name = Some (function, signature, t)" "list_all2 fits signature xs" "list_all (well_bound c rs u) xs"
  shows "well_bound c rs u (ScalarFunction function xs t)"
  using signature_cases [OF assms(1)] assms(2,3)
  by (subst well_bound.simps) (auto simp: leaf_ok_def well_typed_def operands_def inner_scope_def list_all_iff)

lemma zip_scalars_ok:
  assumes "list_all2 (\<lambda>(e, x). scalar_ok c rs (Some x) e u) (zip es xs) vs" "length es = length xs"
  shows "list_all2 fits xs (map fst vs) \<and> list_all (well_bound c rs u) (map fst vs)"
  using assms(2,1) by (induction es xs arbitrary: vs rule: list_induct2) (auto simp: list_all2_Cons1 scalar_ok_def)

lemma bind_registered_scalar_ok:
  assumes f: "\<And>x e. e \<in> set es \<Longrightarrow> binds_to n (scalar_ok c rs x e) (f x e)" and "\<not> is_variable e"
  shows "binds_to n (scalar_ok c rs expected e) (bind_registered_scalar f name es expected)"
proof -
  have "binds_to n (scalar_ok c rs expected e) (\<lambda>tr. if length es \<noteq> length signature \<or> is_some_and (\<lambda>x. x \<noteq> t) expected
      then Inl IncompatibleTypes
      else try_ok (traverse_st (\<lambda>(argument, expected). f (Some expected) argument) (zip es signature) tr) (\<lambda>(arguments, tr).
        Inr ((ScalarFunction fn (map fst arguments) t, t), tr)))"
    if sg: "scalar_signature (canonical_name name) = Some (fn, signature, t)" for fn signature t
  proof (intro tr.extends_if tr.extends_fail)
    assume len: "\<not> (length es \<noteq> length signature \<or> is_some_and (\<lambda>x. x \<noteq> t) expected)"
    have T: "binds_to n (\<lambda>u vs. list_all2 (\<lambda>(e, x). scalar_ok c rs (Some x) e u) (zip es signature) vs)
        (traverse_st (\<lambda>(argument, expected). f (Some expected) argument) (zip es signature))"
      by (rule tr.extends_weaken [OF tr.extends_traverse [where Q = "\<lambda>u (e, x). scalar_ok c rs (Some x) e u"]])
        (auto dest!: set_zip_leftD intro: f)
    show "binds_to n (scalar_ok c rs expected e)
        (\<lambda>tr. try_ok (traverse_st (\<lambda>(argument, expected). f (Some expected) argument) (zip es signature) tr)
          (\<lambda>(arguments, tr). Inr ((ScalarFunction fn (map fst arguments) t, t), tr)))"
    proof (rule tr.extends_map [OF T])
      fix u vs
      assume "list_all2 (\<lambda>(e, x). scalar_ok c rs (Some x) e u) (zip es signature) vs"
      then have "list_all2 fits signature (map fst vs)" "list_all (well_bound c rs u) (map fst vs)"
        using zip_scalars_ok len by blast+
      with sg have "well_bound c rs u (ScalarFunction fn (map fst vs) t)" by (rule well_bound_function)
      with len \<open>\<not> is_variable e\<close> show "scalar_ok c rs expected e u (ScalarFunction fn (map fst vs) t, t)"
        by (auto simp: scalar_ok_def fits_def is_some_and_def)
    qed
  qed
  then show ?thesis
    unfolding bind_registered_scalar_def [abs_def]
    by (intro tr.extends_pure) (auto simp: result_simps)
qed

lemma bind_column_ok:
  assumes "list_all (scope_known c) scopes" "\<not> is_variable e"
  shows "binds_to n (scalar_ok c (scope_ids scopes) expected e) (bind_column scopes usage expected e)"
  unfolding bind_column_def [abs_def] Let_def
  by (intro tr.extends_pure tr.extends_if tr.extends_fail tr.extends_return)
    (use assms resolved_known [OF assms(1)] in \<open>auto simp: scalar_ok_def fits_def is_some_and_def bound_column_of_def\<close>)

lemma digits_value_le: "digits_value m cs acc = Some k \<Longrightarrow> acc \<le> m \<Longrightarrow> k \<le> m"
  by (induction m cs acc rule: digits_value.induct) (auto split: if_splits)

lemma parse_i64_range: "parse_i64 v = Some i \<Longrightarrow> - (2 ^ 63) \<le> i \<and> i < 2 ^ 63"
  by (auto simp: parse_i64_def parse_unsigned_def Let_def i64_max_def split: if_splits dest!: digits_value_le)

lemma parsed_i64_traced [simp]: "parse_i64 v = Some i \<Longrightarrow> literal_traced u (LV_Int64 i)"
  by (drule parse_i64_range) (simp add: literal_traced_def)

lemma literal_traced_simps [simp]:
  "literal_traced u (LV_String v) = (v \<in> csl_value ` set (bt_string_literals u))" "literal_traced u (LV_Number x)"
  "literal_traced u (LV_Boolean p)"
  by (simp_all add: literal_traced_def)

lemma literal_value_typed [simp]:
  "expr_type (Literal (LV_String v)) = LT_String" "expr_type (Literal (LV_Int64 i)) = LT_Int64"
  "expr_type (Literal (LV_Number x)) = LT_Number" "expr_type (Literal (LV_Boolean p)) = LT_Boolean"
  by (simp_all add: expr_type_def)

lemma bind_literal_ok:
  assumes "bind_literal rnd l expected = Inr (b, t)"
  shows "is_none_or ((=) t) expected" "expr_type b = t"
    "(\<And>token v. l = Lit_String token \<Longrightarrow> decode_string_literal token = Some v \<Longrightarrow> b = Literal (LV_String v) \<Longrightarrow>
        v \<in> csl_value ` set (bt_string_literals u)) \<Longrightarrow> well_bound c rs u b"
  using assms
  by (auto simp: bind_literal_def result_simps is_some_and_def is_none_or_def
      split: literal_node.splits option.splits if_splits)

lemma bind_literal_node_ok:
  assumes "\<not> is_variable e"
  shows "binds_to n (scalar_ok c rs expected e) (bind_literal_node fr l expected)"
proof (rule tr.extendsI)
  fix tr y v
  assume ok: "trace_ok n tr" and run: "bind_literal_node fr l expected tr = Inr (y, v)"
  obtain b t where b: "bind_literal (fr_rnd fr) l expected = Inr (b, t)" and y: "y = (b, t)"
    and v: "v = (case (l, b) of (Lit_String token, Literal (LV_String x)) \<Rightarrow>
        tr\<lparr>bt_string_literals := bt_string_literals tr @ [\<lparr>csl_token = token, csl_value = x\<rparr>]\<rparr> | _ \<Rightarrow> tr)"
    using run by (auto simp: bind_literal_node_def result_simps)
  have "trace_ok n v \<and> trace_le tr v"
    using b ok unfolding v
    by (cases l) (auto simp: trace_ok_def trace_le_def bind_literal_def result_simps split: option.splits if_splits)
  moreover have "well_bound c rs u b" if "trace_le v u" for u
  proof (rule bind_literal_ok(3) [OF b])
    fix token x
    assume "l = Lit_String token" "b = Literal (LV_String x)"
    then have "\<lparr>csl_token = token, csl_value = x\<rparr> \<in> set (bt_string_literals v)" using v by simp
    with that show "x \<in> csl_value ` set (bt_string_literals u)" by (force simp: trace_le_def)
  qed
  ultimately show "trace_ok n v \<and> trace_le tr v \<and> (\<forall>u. trace_le v u \<longrightarrow> scalar_ok c rs expected e u y)"
    using bind_literal_ok(1,2) [OF b] assms by (auto simp: y scalar_ok_def fits_def is_none_or_def)
qed

lemma bind_variable_Inr:
  assumes "bind_variable fr name expected tr = Inr (y, v)"
  obtains p t where "client_parameter_name_new p = Inr p" "expected = Some t" "y = (ClientParameter p t, t)"
    "card (insert p (bt_parameters tr)) \<le> bl_max_parameters (fr_limits fr)" "v = tr\<lparr>bt_parameters := insert p (bt_parameters tr)\<rparr>"
proof -
  obtain m where m: "(case client_parameter_name_new m of
        Inl ReservedParameterNamespace \<Rightarrow> Inl BE_ReservedParameterNamespace
      | Inl _ \<Rightarrow> Inl BE_InvalidParameterName
      | Inr name \<Rightarrow>
          try_ok (ok_or UnprovableParameterType expected) (\<lambda>logical_type.
          let parameters = insert name (bt_parameters tr) in
          if bl_max_parameters (fr_limits fr) < card parameters then Inl ParameterLimit
          else Inr ((ClientParameter name logical_type, logical_type), tr\<lparr>bt_parameters := parameters\<rparr>))) = Inr (y, v)"
    using assms unfolding bind_variable_def try_ok_Inr_iff by blast
  then obtain p where p: "client_parameter_name_new m = Inr p"
    by (cases "client_parameter_name_new m") (simp_all split: pol_core_error.splits)
  then have name: "client_parameter_name_new p = Inr p"
    by (simp add: client_parameter_name_new_def split: if_splits)
  from p m obtain t where "expected = Some t" "y = (ClientParameter p t, t)"
    "card (insert p (bt_parameters tr)) \<le> bl_max_parameters (fr_limits fr)" "v = tr\<lparr>bt_parameters := insert p (bt_parameters tr)\<rparr>"
    by (auto simp: result_simps Let_def split: if_splits)
  with name show ?thesis by (rule that)
qed

lemma bind_variable_ok: "binds_to (bl_max_parameters (fr_limits fr)) (scalar_ok c rs expected e) (bind_variable fr name expected)"
proof (rule tr.extendsI)
  fix tr y v
  assume ok: "trace_ok (bl_max_parameters (fr_limits fr)) tr" and run: "bind_variable fr name expected tr = Inr (y, v)"
  from run show "trace_ok (bl_max_parameters (fr_limits fr)) v \<and> trace_le tr v \<and> (\<forall>u. trace_le v u \<longrightarrow> scalar_ok c rs expected e u y)"
    by (rule bind_variable_Inr) (use ok in \<open>auto simp: trace_ok_def trace_le_def scalar_ok_def fits_def\<close>)
qed

lemma count_last_ok: "count_last scopes = Inr b \<Longrightarrow> \<exists>r. b = CountAll r \<and> r \<in> set (scope_ids scopes)"
  by (auto simp: count_last_def scope_ids_def split: if_splits)

section \<open>Projections and subqueries\<close>

lemma traverse_resolved_known:
  assumes "list_all (scope_known c) scopes" "traverse (resolved_column scopes usage) es = Inr columns"
  shows "list_all (column_known c (scope_ids scopes)) columns"
  using assms(2) by (induction es arbitrary: columns) (auto simp: result_simps resolved_column_def resolved_known [OF assms(1)])

lemma traverse_resolved_orders:
  assumes "list_all (scope_known c) scopes"
    and "traverse (\<lambda>order. if sc_nulls order then Inl e
      else try_ok (resolved_column scopes usage (sc_expr order)) (\<lambda>column. Inr (column, direction_of (sc_order order)))) os = Inr ds"
  shows "list_all (\<lambda>d. column_known c (scope_ids scopes) (fst d)) ds \<and> length ds = length os"
  using assms(2)
  by (induction os arbitrary: ds) (auto simp: result_simps resolved_column_def resolved_known [OF assms(1)] split: if_splits)

lemma bind_row_number_ok:
  assumes known: "list_all (scope_known c) scopes" and run: "bind_row_number scopes d as ao wg tail = Inr b"
  shows "well_bound c (scope_ids scopes) u b"
proof -
  obtain ps os r columns ds where win: "ft_over tail = Some (Over_Window False ps os False)" "os \<noteq> []"
    and ps: "traverse (resolved_column scopes U_Window) ps = Inr columns"
    and os: "traverse (\<lambda>order. if sc_nulls order then Inl (Unsupported ''window NULLS ordering'')
      else try_ok (resolved_column scopes U_Window (sc_expr order)) (\<lambda>column. Inr (column, direction_of (sc_order order)))) os = Inr ds"
    and r: "\<not> list_ex (\<lambda>column. cid_resource (bc_id column) \<noteq> r) columns" "\<not> list_ex (\<lambda>order. cid_resource (bc_id (fst order)) \<noteq> r) ds"
    and b: "b = RowNumber r columns (map (\<lambda>(column, direction). BoundOrder (Column column) direction) ds)"
    using run by (auto simp: bind_row_number_def result_simps Let_def split: if_splits option.splits over.splits)
  have "ds \<noteq> []" using traverse_resolved_orders [OF known os] win(2) by auto
  with traverse_resolved_known [OF known ps] traverse_resolved_orders [OF known os] r show ?thesis
    unfolding b by (subst well_bound.simps)
      (force simp: leaf_ok_def well_typed_def operands_def list_all_iff list_ex_iff)
qed

lemma bind_projected_ok:
  assumes known: "list_all (scope_known c) scopes" and f: "binds_to n (scalar_ok c (scope_ids scopes) None e) (f None e)"
  shows "binds_to n (\<lambda>u (b, _). well_bound c (scope_ids scopes) u b) (bind_projected f scopes alias e)"
proof -
  let ?Q = "\<lambda>u (b, _ :: string). well_bound c (scope_ids scopes) u b"
  have col: "binds_to n ?Q (bind_projected_column scopes e)"
    unfolding bind_projected_column_def [abs_def]
    by (intro tr.extends_pure tr.extends_return) (auto simp: resolved_known [OF known])
  have fn: "binds_to n ?Q (\<lambda>tr. try_ok (f None e tr) (\<lambda>((b, _), tr). Inr ((b, m), tr)))" for m
    by (intro tr.extends_pair [OF f] tr.extends_return) (simp add: scalar_ok_def)
  have derived: "binds_to n ?Q (\<lambda>tr. if is_derived e then try_ok (ok_or InvalidResultName (explicit_alias alias)) (\<lambda>output_name.
      try_ok (f None e tr) (\<lambda>((b, _), tr). Inr ((b, output_name), tr))) else bind_projected_column scopes e tr)"
    by (intro tr.extends_if tr.extends_pure fn col)
  have count: "binds_to n ?Q (\<lambda>tr. if p then try_ok (count_last scopes) (\<lambda>b. Inr ((b, m), tr)) else bind_projected_column scopes e tr)" for p m
    by (intro tr.extends_if tr.extends_pure tr.extends_return col) (auto dest: count_last_ok)
  have call: "binds_to n ?Q (\<lambda>tr. if p then try_ok (bind_row_number scopes d as ao wg tail) (\<lambda>b. Inr ((b, m), tr))
      else if q then try_ok (f None e tr) (\<lambda>((b, _), tr). Inr ((b, k), tr)) else bind_projected_column scopes e tr)" for p d as ao wg tail m q k
    by (intro tr.extends_if tr.extends_pure tr.extends_return col fn) (auto intro: bind_row_number_ok [OF known])
  show ?thesis
    unfolding bind_projected_def [abs_def] using derived count call by (cases e; simp only: expr.case)
qed

definition projection_ok :: "catalog \<Rightarrow> nat list \<Rightarrow> bind_trace \<Rightarrow> bound_projection \<Rightarrow> bool" where
  "projection_ok c rs u p = (well_bound c rs u (pj_expression p) \<and> non_empty (pj_output_name p))"

lemma result_name_of_iff: "result_name_of n = Inr m \<longleftrightarrow> m = n \<and> non_empty n"
  by (auto simp: result_name_of_def result_name_new_def)

lemma bind_projection_ok:
  assumes "list_all (scope_known c) scopes" and "\<And>e. e \<in> set_result_column r \<Longrightarrow> binds_to n (scalar_ok c (scope_ids scopes) None e) (f None e)"
  shows "binds_to n (projection_ok c (scope_ids scopes)) (bind_projection f scopes r)"
proof (cases r)
  case (Rc_Expr e a)
  have "binds_to n (scalar_ok c (scope_ids scopes) None e) (f None e)" using assms(2) Rc_Expr by simp
  then have "binds_to n (\<lambda>u (b, _). well_bound c (scope_ids scopes) u b) (bind_projected f scopes a e)"
    by (rule bind_projected_ok [OF assms(1)])
  then show ?thesis
    unfolding bind_projection_def [abs_def] Rc_Expr result_column.case
    by (rule tr.extends_pair) (intro tr.extends_pure tr.extends_return, auto simp: result_name_of_iff projection_ok_def)
qed (simp_all add: bind_projection_def [abs_def] tr.extends_fail)

lemma exists_column_ok:
  assumes "list_all (scope_known c) scopes" and "\<And>e. e \<in> set_result_column r \<Longrightarrow> binds_to n (scalar_ok c (scope_ids scopes) None e) (f None e)"
  shows "binds_to n (projection_ok c (scope_ids scopes)) (exists_column f scopes single r)"
proof -
  have P: "binds_to n (projection_ok c (scope_ids scopes)) (bind_projection f scopes r)"
    by (rule bind_projection_ok) (use assms in auto)
  show ?thesis
    unfolding exists_column_def [abs_def] using P
    by (cases r) (auto intro!: tr.extends_if tr.extends_pure tr.extends_return tr.extends_fail
        simp: result_name_of_iff projection_ok_def literal_traced_def)
qed

lemma unique_names:
  assumes "unique_result_names names ps = Inr ()"
  shows "distinct (map (canonical_name \<circ> pj_output_name) ps) \<and> (canonical_name \<circ> pj_output_name) ` set ps \<inter> names = {} \<and>
    list_all (\<lambda>p. \<not> starts_with ''__policysql_'' (canonical_name (pj_output_name p))) ps"
  using assms by (induction names ps rule: unique_result_names.induct) (auto simp: Let_def split: if_splits)

lemma names_ok_unique:
  assumes "ensure_unique_result_names ps = Inr ()" "list_all (\<lambda>p. non_empty (pj_output_name p)) ps"
  shows "names_ok ps"
  using unique_names [OF assms(1) [unfolded ensure_unique_result_names_def]] assms(2) by (simp add: names_ok_def list_all_iff)

lemma scope_ids_append [simp]: "scope_ids (scopes @ [s]) = scope_ids scopes @ [rd_id (sco_resource s)]"
  by (simp add: scope_ids_def)

lemma scope_resource_known: "scope_known c s \<Longrightarrow> resource_known c (rd_id (sco_resource s))"
  by (force simp: scope_known_def resource_known_def list_ex_iff)

lemma exists_source_ok:
  assumes "catalog_ok c" "exists_source c scopes d fc gb w = Inr s"
  shows "scope_known c s" "rd_id (sco_resource s) \<notin> set (scope_ids scopes)"
proof -
  obtain x :: "(expr, select_table) from_clause" where x: "bind_source c (fc_select x) = Inr s" "\<not> list_ex (\<lambda>t. rd_id (sco_resource t) = rd_id (sco_resource s)) scopes"
    using assms(2) by (auto simp: exists_source_def result_simps split: if_splits)
  show "scope_known c s" using bind_source_known [OF assms(1) x(1)] .
  show "rd_id (sco_resource s) \<notin> set (scope_ids scopes)" using x(2) by (auto simp: scope_ids_def list_ex_iff)
qed

lemma list_all2_ignore: "list_all2 (\<lambda>_. P) xs ys \<Longrightarrow> list_all P ys"
  by (induction rule: list_all2_induct) simp_all

lemma well_bound_exists:
  assumes "resource_known c r" "r \<notin> set rs" "list_all (projection_ok c (rs @ [r]) u) ps" "ensure_unique_result_names ps = Inr ()"
    and "rel_option (\<lambda>_. cond_ok c (rs @ [r]) u) x pr"
  shows "cond_ok c rs u (Exists (BoundSelect r a [] ps pr [] None [] None None))"
proof -
  have "names_ok ps" by (rule names_ok_unique [OF assms(4)]) (use assms(3) in \<open>simp add: projection_ok_def list_all_iff\<close>)
  moreover have "well_bound c (rs @ [r]) u b" if "b \<in> set (map pj_expression ps @ option_list pr)" for b
    using that assms(3,5) by (auto simp: option_list_def list_all_iff projection_ok_def cond_ok_def elim: option.rel_cases split: option.splits)
  ultimately show ?thesis
    unfolding cond_ok_def using assms(1,2)
    by (subst well_bound.simps) (auto simp: leaf_ok_def well_typed_def operands_def inner_scope_def)
qed

lemma bind_exists_ok:
  assumes known: "catalog_ok c" "list_all (scope_known c) scopes" and c: "fr_catalog fr = c"
    and f: "\<And>sc x e. list_all (scope_known c) sc \<Longrightarrow> e \<in> set1_one_select (sn_body s) \<Longrightarrow>
      binds_to n (scalar_ok c (scope_ids sc) x e) (f sc x e)"
    and g: "\<And>sc e. list_all (scope_known c) sc \<Longrightarrow> e \<in> set1_one_select (sn_body s) \<Longrightarrow> binds_to n (cond_ok c (scope_ids sc)) (g sc e)"
  shows "binds_to n (cond_ok c (scope_ids scopes)) (bind_exists f g fr scopes depth s)"
proof (cases "sn_body s")
  case (OneSelect d cs fc wh gb w)
  let ?Q = "cond_ok c (scope_ids scopes)"
  have body: "binds_to n ?Q (\<lambda>tr. let nested = scopes @ [source] in
      try_ok (traverse_st (exists_column (f nested) nested (length cs = 1)) cs tr) (\<lambda>(projections, tr).
      try_ok (ensure_unique_result_names projections) (\<lambda>_.
      try_ok (bind_option (g nested) wh tr) (\<lambda>(predicate, tr).
        Inr (Exists (BoundSelect (rd_id (sco_resource source)) (sco_alias source) [] projections predicate [] None [] None None), tr)))))"
    if source: "exists_source c scopes d fc gb w = Inr source" for source
  proof -
    let ?n = "scopes @ [source]" and ?r = "rd_id (sco_resource source)"
    note src = exists_source_ok [OF known(1) source]
    have n: "list_all (scope_known c) ?n" using known(2) src(1) by simp
    have "binds_to n (projection_ok c (scope_ids ?n)) (exists_column (f ?n) ?n (length cs = 1) x)" if "x \<in> set cs" for x
      by (rule exists_column_ok [OF n], rule f [OF n]) (use that OneSelect in auto)
    then have P: "binds_to n (\<lambda>u ps. list_all (projection_ok c (scope_ids ?n) u) ps) (traverse_st (exists_column (f ?n) ?n (length cs = 1)) cs)"
      by (intro tr.extends_weaken [OF tr.extends_traverse [where Q = "\<lambda>u _. projection_ok c (scope_ids ?n) u"]]) (auto dest: list_all2_ignore)
    have W: "binds_to n (\<lambda>u y. rel_option (\<lambda>_. cond_ok c (scope_ids ?n) u) wh y) (bind_option (g ?n) wh)"
      by (rule bind_option_ok, rule g [OF n]) (use OneSelect in auto)
    show ?thesis
      unfolding Let_def
      by (rule tr.extends_bind [OF P], rule tr.extends_pure, rule tr.extends_map [OF W])
        (use src scope_resource_known in \<open>auto intro!: well_bound_exists\<close>)
  qed
  show ?thesis
    unfolding bind_exists_def [abs_def] OneSelect one_select.case c
    by (intro tr.extends_pure tr.extends_if tr.extends_fail body)
qed (simp add: bind_exists_def [abs_def] tr.extends_pure tr.extends_if tr.extends_fail)

section \<open>Every expression the binder accepts is well bound\<close>

lemma comparison_ok:
  assumes "comparison_of op = Some f" "well_bound c rs u l" "well_bound c rs u r" "expr_type l = expr_type r"
  shows "cond_ok c rs u (f l r)"
  using assms unfolding cond_ok_def
  by (subst well_bound.simps) (auto simp: comparison_of_def leaf_ok_def well_typed_def operands_def inner_scope_def expr_type_def split: operator.splits)

text \<open>One step of the binder, when what it calls on smaller expressions is sound.\<close>

lemma bind_boolean_step:
  assumes c: "catalog_ok c" "fr_catalog fr = c" and known: "list_all (scope_known c) scopes"
    and B: "\<And>sc us d x. size x < size e \<Longrightarrow> list_all (scope_known c) sc \<Longrightarrow> binds_to n (cond_ok c (scope_ids sc)) (bind_boolean fr sc us d x)"
    and S: "\<And>sc us d t x. size x < size e \<Longrightarrow> list_all (scope_known c) sc \<Longrightarrow>
      binds_to n (scalar_ok c (scope_ids sc) t x) (bind_scalar fr sc us d t x)"
  shows "binds_to n (cond_ok c (scope_ids scopes)) (bind_boolean fr scopes usage depth e)"
proof -
  let ?Q = "cond_ok c (scope_ids scopes)"
  have un: "binds_to n ?Q (\<lambda>tr. try_ok (bind_scalar fr scopes us d None x tr) (\<lambda>((b, _), tr). Inr (h b, tr)))"
    if "size x < size e" "\<And>u b. well_bound c (scope_ids scopes) u b \<Longrightarrow> ?Q u (h b)" for x h us d
    by (rule tr.extends_pair [OF S [OF that(1) known]], rule tr.extends_return) (simp add: scalar_ok_def that(2))
  have bin: "binds_to n ?Q (\<lambda>tr. try_ok (bind_comparison (\<lambda>x e. bind_scalar fr scopes us d x e) l r tr) (\<lambda>((a, b), tr). Inr (h a b, tr)))"
    if "size l < size e" "size r < size e"
      "\<And>u a b. well_bound c (scope_ids scopes) u a \<Longrightarrow> well_bound c (scope_ids scopes) u b \<Longrightarrow> expr_type a = expr_type b \<Longrightarrow> ?Q u (h a b)" for l r h us d
    by (rule tr.extends_pair [OF bind_comparison_ok], rule S) (use that known in \<open>auto intro!: tr.extends_return\<close>)
  show ?thesis
  proof (cases e)
    case (E_Binary l op r)
    have l: "size l < size e" and r: "size r < size e" using E_Binary by auto
    have both: "binds_to n ?Q (\<lambda>tr. try_ok (bind_boolean fr scopes usage (depth + 1) l tr) (\<lambda>(a, tr).
        try_ok (bind_boolean fr scopes usage (depth + 1) r tr) (\<lambda>(b, tr). Inr (if op = Op_And then And a b else Or a b, tr))))"
      by (rule tr.extends_bind [OF B [OF l known]], rule tr.extends_map [OF B [OF r known]]) (simp add: cond_ok_def)
    have cmp: "binds_to n ?Q (\<lambda>tr. case comparison_of op of
        Some compare \<Rightarrow> try_ok (bind_comparison (\<lambda>x e. bind_scalar fr scopes usage (depth + 1) x e) l r tr) (\<lambda>((a, b), tr). Inr (compare a b, tr))
      | None \<Rightarrow> if op = Op_And \<or> op = Op_Or then try_ok (bind_boolean fr scopes usage (depth + 1) l tr) (\<lambda>(a, tr).
          try_ok (bind_boolean fr scopes usage (depth + 1) r tr) (\<lambda>(b, tr). Inr (if op = Op_And then And a b else Or a b, tr)))
        else Inl (Unsupported ''boolean expression''))"
      by (cases "comparison_of op") (auto intro!: tr.extends_if tr.extends_fail both bin l r dest: comparison_ok)
    show ?thesis
      by (subst bind_boolean.simps [abs_def], rule tr.extends_pure, unfold E_Binary expr.case, intro tr.extends_if cmp un l)
        (simp add: cond_ok_def negated_if_def)
  next
    case (E_Unary op x)
    have "binds_to n ?Q (bind_boolean fr scopes usage (depth + 1) x)" using B known E_Unary by simp
    then have "binds_to n ?Q (\<lambda>tr. try_ok (bind_boolean fr scopes usage (depth + 1) x tr) (\<lambda>(b, tr). Inr (Not b, tr)))"
      by (rule tr.extends_map) (simp add: cond_ok_def)
    then show ?thesis
      by (subst bind_boolean.simps [abs_def]) (intro tr.extends_pure, unfold E_Unary expr.case, intro tr.extends_if tr.extends_fail)
  next
    case (E_InList l neg rs)
    have "binds_to n ?Q (bind_in_list (\<lambda>x e. bind_scalar fr scopes usage (depth + 1) x e) l neg rs)" if "rs \<noteq> []"
      by (rule bind_in_list_ok [OF _ that], rule S) (use known E_InList in \<open>auto dest: list_member_smaller [of _ _ size]\<close>)
    then show ?thesis
      by (subst bind_boolean.simps [abs_def]) (intro tr.extends_pure, unfold E_InList expr.case, intro tr.extends_if tr.extends_fail)
  next
    case (E_Like l neg op r es)
    then have "size l < size e" "size r < size e" by auto
    then show ?thesis
      by (subst bind_boolean.simps [abs_def], intro tr.extends_pure, unfold E_Like expr.case, intro tr.extends_if tr.extends_fail bin)
        (auto simp: cond_ok_def negated_if_def)
  next
    case (E_Parenthesized xs)
    have "binds_to n ?Q (\<lambda>tr. case xs of [x] \<Rightarrow> bind_boolean fr scopes usage (depth + 1) x tr | _ \<Rightarrow> Inl (Unsupported ''boolean expression''))"
      using B known E_Parenthesized by (cases xs rule: remdups_adj.cases) (auto simp: tr.extends_fail)
    then show ?thesis
      by (subst bind_boolean.simps [abs_def]) (intro tr.extends_pure, unfold E_Parenthesized expr.case)
  next
    case (E_Exists s)
    have "size x < size e" if "x \<in> set1_one_select (sn_body s)" for x
      using that select_parts_smaller(2) E_Exists by fastforce
    then have "binds_to n ?Q (bind_exists (\<lambda>sc x e. bind_scalar fr sc U_Projection 0 x e) (\<lambda>sc e. bind_boolean fr sc U_Filter (depth + 2) e)
        fr scopes (depth + 1) s)"
      by (intro bind_exists_ok c known B S)
    then show ?thesis
      by (subst bind_boolean.simps [abs_def]) (intro tr.extends_pure, unfold E_Exists expr.case)
  next
    case (E_IsNull x)
    then show ?thesis
      by (subst bind_boolean.simps [abs_def], intro tr.extends_pure, unfold E_IsNull expr.case, intro un) (auto simp: cond_ok_def)
  next
    case (E_NotNull x)
    then show ?thesis
      by (subst bind_boolean.simps [abs_def], intro tr.extends_pure, unfold E_NotNull expr.case, intro un) (auto simp: cond_ok_def)
  qed (subst bind_boolean.simps [abs_def], intro tr.extends_pure, simp only: expr.case tr.extends_fail)+
qed

lemma bind_scalar_step:
  assumes c: "catalog_ok c" "fr_catalog fr = c" and known: "list_all (scope_known c) scopes" and n: "n = bl_max_parameters (fr_limits fr)"
    and B: "\<And>sc us d x. size x < size e \<Longrightarrow> list_all (scope_known c) sc \<Longrightarrow> binds_to n (cond_ok c (scope_ids sc)) (bind_boolean fr sc us d x)"
    and S: "\<And>sc us d t x. size x < size e \<Longrightarrow> list_all (scope_known c) sc \<Longrightarrow>
      binds_to n (scalar_ok c (scope_ids sc) t x) (bind_scalar fr sc us d t x)"
  shows "binds_to n (scalar_ok c (scope_ids scopes) expected e) (bind_scalar fr scopes usage depth expected e)"
proof (cases e)
  let ?Q = "scalar_ok c (scope_ids scopes) expected"
  note start = bind_scalar.simps [abs_def]
  {
    case (E_Id x)
    have "binds_to n (?Q e) (bind_column scopes usage expected e)" by (rule bind_column_ok [OF known]) (simp add: E_Id is_variable_def)
    then show ?thesis by (subst start) (intro tr.extends_pure, simp only: E_Id expr.case)
  next
    case (E_Name x)
    have "binds_to n (?Q e) (bind_column scopes usage expected e)" by (rule bind_column_ok [OF known]) (simp add: E_Name is_variable_def)
    then show ?thesis by (subst start) (intro tr.extends_pure, simp only: E_Name expr.case)
  next
    case (E_Qualified q x)
    have "binds_to n (?Q e) (bind_column scopes usage expected e)" by (rule bind_column_ok [OF known]) (simp add: E_Qualified is_variable_def)
    then show ?thesis by (subst start) (intro tr.extends_pure, simp only: E_Qualified expr.case)
  next
    case (E_Variable x i)
    show ?thesis by (subst start) (intro tr.extends_pure, simp only: E_Variable expr.case n bind_variable_ok)
  next
    case (E_Literal l)
    have "binds_to n (?Q e) (bind_literal_node fr l expected)" by (rule bind_literal_node_ok) (simp add: E_Literal is_variable_def)
    then show ?thesis by (subst start) (intro tr.extends_pure, simp only: E_Literal expr.case)
  next
    case (E_FunctionCallStar name tail)
    have "?Q e u (b, LT_Int64)" if "count_last scopes = Inr b" for u b
      using count_last_ok [OF that] by (auto simp: scalar_ok_def fits_def is_variable_def E_FunctionCallStar)
    then show ?thesis
      by (subst start) (intro tr.extends_pure, unfold E_FunctionCallStar expr.case,
          intro tr.extends_if tr.extends_fail tr.extends_pure tr.extends_return)
  next
    case (E_FunctionCall name d xs os wg tail)
    have "binds_to n (?Q e) (bind_registered_scalar (\<lambda>x e. bind_scalar fr scopes usage (depth + 1) x e) (name_str name) xs expected)"
      by (rule bind_registered_scalar_ok, rule S)
        (use known E_FunctionCall in \<open>auto dest: list_member_smaller [of _ _ size] simp: is_variable_def\<close>)
    then show ?thesis
      by (subst start) (intro tr.extends_pure, unfold E_FunctionCall expr.case, intro tr.extends_if tr.extends_fail)
  next
    case (E_Parenthesized xs)
    have W: "binds_to n (?Q e) (bind_scalar fr scopes us d expected x)" if "size x < size e" for x us d
      by (rule tr.extends_weaken [OF S [OF that known]]) (auto simp: scalar_ok_def is_variable_def E_Parenthesized)
    have "binds_to n (?Q e) (\<lambda>tr. case xs of [x] \<Rightarrow> bind_scalar fr scopes usage (depth + 1) expected x tr | _ \<Rightarrow> Inl (Unsupported ''scalar expression''))"
      using W E_Parenthesized by (cases xs rule: remdups_adj.cases) (auto simp: tr.extends_fail)
    then show ?thesis by (subst start) (intro tr.extends_pure, unfold E_Parenthesized expr.case)
  next
    case (E_Binary l op r)
    have "binds_to n (?Q e) (bind_concat (\<lambda>x e. bind_scalar fr scopes usage (depth + 1) x e) l r expected)"
      by (rule bind_concat_ok, rule S) (use known E_Binary in \<open>auto simp: is_variable_def\<close>)
    then show ?thesis
      by (subst start) (intro tr.extends_pure, unfold E_Binary expr.case, intro tr.extends_if tr.extends_fail)
  next
    case (E_Cast x ty)
    have "binds_to n (?Q e) (bind_cast_text (\<lambda>x e. bind_scalar fr scopes usage (depth + 1) x e) x ty expected)"
      by (rule bind_cast_text_ok, rule S) (use known E_Cast in \<open>auto simp: is_variable_def\<close>)
    then show ?thesis by (subst start) (intro tr.extends_pure, unfold E_Cast expr.case)
  next
    case (E_Case base ps els)
    have "size x < size e" if "x \<in> fst ` set ps \<union> snd ` set ps \<union> set_option els" for x
    proof -
      have "x \<in> set (case_parts base ps els)" using that by (force simp: case_parts_def elem_set)
      from size_case_parts [OF this, of size] show ?thesis by (simp add: E_Case)
    qed
    then have "binds_to n (?Q e) (bind_case (\<lambda>e. bind_boolean fr scopes usage (depth + 1) e) (\<lambda>x e. bind_scalar fr scopes usage (depth + 1) x e)
        ps els expected)" if "ps \<noteq> []"
      by (intro bind_case_ok B S known that) (auto simp: E_Case is_variable_def)
    then show ?thesis
      by (subst start) (intro tr.extends_pure, unfold E_Case expr.case, intro tr.extends_if tr.extends_fail, simp)
  }
qed (subst bind_scalar.simps [abs_def], intro tr.extends_pure, simp only: expr.case tr.extends_fail)+

lemma bind_expression_ok:
  assumes "catalog_ok c" "fr_catalog fr = c" "n = bl_max_parameters (fr_limits fr)" "list_all (scope_known c) scopes"
  shows "binds_to n (cond_ok c (scope_ids scopes)) (bind_boolean fr scopes usage depth e) \<and>
    binds_to n (scalar_ok c (scope_ids scopes) expected e) (bind_scalar fr scopes usage depth expected e)"
  using assms(4)
proof (induction e arbitrary: scopes usage depth expected rule: measure_induct_rule [of size])
  case (less e)
  have B: "binds_to n (cond_ok c (scope_ids sc)) (bind_boolean fr sc us d x)"
    and S: "binds_to n (scalar_ok c (scope_ids sc) t x) (bind_scalar fr sc us d t x)"
    if "size x < size e" "list_all (scope_known c) sc" for sc us d t x
    using less.IH [OF that] by blast+
  show ?case
    by (rule conjI, rule bind_boolean_step [OF assms(1,2) less.prems B S], assumption+)
      (rule bind_scalar_step [OF assms(1,2) less.prems assms(3) B S], assumption+)
qed

lemmas bind_boolean_ok = bind_expression_ok [THEN conjunct1]
lemmas bind_scalar_ok = bind_expression_ok [THEN conjunct2]

section \<open>Statements\<close>

fun joins_ok :: "catalog \<Rightarrow> nat list \<Rightarrow> bind_trace \<Rightarrow> bound_join list \<Rightarrow> bool" where
  "joins_ok c rs u [] = True"
| "joins_ok c rs u (j # js) =
     (let rs = rs @ [jn_resource j] in
      resource_known c (jn_resource j) \<and> cond_ok c rs u (jn_on j) \<and> joins_ok c rs u js)"

definition limit_ok :: "bind_trace \<Rightarrow> bound_expr \<Rightarrow> bool" where
  "limit_ok u b = (case b of
       Literal (LV_Int64 i) \<Rightarrow> 0 \<le> i \<and> i < 2 ^ 63
     | ClientParameter n t \<Rightarrow> t = LT_Int64 \<and> n \<in> bt_parameters u
     | _ \<Rightarrow> False)"

text \<open>The condition of a derived table reads its own resource only, the statement's own condition all of them.\<close>

definition where_ok :: "catalog \<Rightarrow> nat list \<Rightarrow> bind_trace \<Rightarrow> bound_expr \<Rightarrow> bool" where
  "where_ok c rs u b = (cond_ok c rs u b \<or> cond_ok c [hd rs] u b \<or>
     (case b of And l r \<Rightarrow> cond_ok c [hd rs] u l \<and> cond_ok c rs u r | _ \<Rightarrow> False))"

definition select_ok :: "catalog \<Rightarrow> bind_trace \<Rightarrow> bound_select \<Rightarrow> bool" where
  "select_ok c u s =
     (let rs = bs_resource s # map jn_resource (bs_joins s) in
      distinct rs \<and> resource_known c (bs_resource s) \<and> joins_ok c [bs_resource s] u (bs_joins s) \<and>
      bs_projections s \<noteq> [] \<and> names_ok (bs_projections s) \<and> list_all (projection_ok c rs u) (bs_projections s) \<and>
      is_none_or (where_ok c rs u) (bs_predicate s) \<and>
      list_all (column_known c rs) (bs_group_by s) \<and> is_none_or (cond_ok c rs u) (bs_having s) \<and>
      list_all (\<lambda>d. well_bound c rs u (od_expression d)) (bs_order_by s) \<and>
      is_none_or (limit_ok u) (bs_limit s) \<and> is_none_or (limit_ok u) (bs_offset s))"

lemma take_shorter:
  assumes "take (length (xs @ [t])) ys = xs @ [t]"
  shows "take (length xs) ys = xs"
proof -
  have "take (length xs) ys = take (length xs) (take (length (xs @ [t])) ys)" by (simp add: min_def)
  then show ?thesis unfolding assms by simp
qed

lemma bind_joins_ok:
  assumes c: "catalog_ok c" "fr_catalog fr = c" "n = bl_max_parameters (fr_limits fr)"
    and "list_all (scope_known c) scopes" "distinct (scope_ids scopes)"
  shows "binds_to n (\<lambda>u (out, sc). joins_ok c (scope_ids scopes) u out \<and> list_all (scope_known c) sc \<and>
      scope_ids sc = scope_ids scopes @ map jn_resource out \<and> distinct (scope_ids sc) \<and> take (length scopes) sc = scopes)
    (bind_joins fr js scopes)"
  using assms(4,5)
proof (induction js arbitrary: scopes)
  case Nil
  then show ?case unfolding bind_joins.simps [abs_def] by (intro tr.extends_return) simp
next
  case (Cons j js)
  let ?Q = "\<lambda>scopes u (out, sc). joins_ok c (scope_ids scopes) u out \<and> list_all (scope_known c) sc \<and>
      scope_ids sc = scope_ids scopes @ map jn_resource out \<and> distinct (scope_ids sc) \<and> take (length scopes) sc = scopes"
  have step: "binds_to n (?Q scopes) (\<lambda>tr. try_ok (bind_boolean fr (scopes @ [t]) U_Join 0 on tr) (\<lambda>(on, tr).
      try_ok (bind_joins fr js (scopes @ [t]) tr) (\<lambda>((output, scopes), tr).
        Inr ((BoundJoin (rd_id (sco_resource t)) (sco_alias t) kind on # output, scopes), tr))))"
    if t: "bind_source c (js_table j) = Inr t" "\<not> list_ex (\<lambda>s. rd_id (sco_resource s) = rd_id (sco_resource t)) scopes" for t on kind
  proof -
    have known: "list_all (scope_known c) (scopes @ [t])" "scope_known c t" using Cons.prems(1) bind_source_known [OF c(1) t(1)] by auto
    have new: "distinct (scope_ids (scopes @ [t]))" using Cons.prems(2) t(2) by (auto simp: scope_ids_def list_ex_iff)
    show ?thesis
    proof (rule tr.extends_bind [OF bind_boolean_ok [OF c known(1)]], rule tr.extends_pair [OF Cons.IH [OF known(1) new]], rule tr.extends_return, intro impI)
      fix on u out sc
      assume on: "cond_ok c (scope_ids (scopes @ [t])) u on" and "case (out, sc) of (out, sc) \<Rightarrow> joins_ok c (scope_ids (scopes @ [t])) u out \<and>
        list_all (scope_known c) sc \<and> scope_ids sc = scope_ids (scopes @ [t]) @ map jn_resource out \<and> distinct (scope_ids sc) \<and>
        take (length (scopes @ [t])) sc = scopes @ [t]"
      moreover from this(2) have "take (length scopes) sc = scopes" by (intro take_shorter [of scopes t]) simp
      ultimately show "?Q scopes u (BoundJoin (rd_id (sco_resource t)) (sco_alias t) kind on # out, sc)"
        using scope_resource_known [OF known(2)] by (auto simp: Let_def) blast
    qed
  qed
  have "binds_to n (?Q scopes) (\<lambda>tr. case js_constraint j of
      None \<Rightarrow> Inl (Unsupported ''JOIN without ON'')
    | Some Jc_Using \<Rightarrow> Inl (Unsupported ''JOIN constraint'')
    | Some (Jc_On on) \<Rightarrow> try_ok (bind_boolean fr (scopes @ [t]) U_Join 0 on tr) (\<lambda>(on, tr).
        try_ok (bind_joins fr js (scopes @ [t]) tr) (\<lambda>((output, scopes), tr).
          Inr ((BoundJoin (rd_id (sco_resource t)) (sco_alias t) kind on # output, scopes), tr))))"
    if "bind_source c (js_table j) = Inr t" "\<not> list_ex (\<lambda>s. rd_id (sco_resource s) = rd_id (sco_resource t)) scopes" for t kind
  proof (cases "js_constraint j")
    case (Some on)
    then show ?thesis by (cases on) (simp_all only: option.case join_constraint.case tr.extends_fail step [OF that])
  qed (simp only: option.case tr.extends_fail)
  then show ?case
    by (subst bind_joins.simps(2) [abs_def], unfold c(2)) (intro tr.extends_pure tr.extends_if tr.extends_fail)
qed

lemma bind_limit_ok:
  assumes "catalog_ok c" "fr_catalog fr = c" "n = bl_max_parameters (fr_limits fr)" "list_all (scope_known c) scopes"
  shows "binds_to n limit_ok (bind_limit fr scopes e)"
proof -
  have literal: "binds_to n limit_ok (\<lambda>tr. case parse_i64 v of None \<Rightarrow> Inl InvalidLimit
      | Some i \<Rightarrow> if i < 0 then Inl InvalidLimit else Inr (Literal (LV_Int64 i), tr))" for v
  proof (cases "parse_i64 v")
    case (Some i)
    then show ?thesis
      using parse_i64_range [OF Some] by (auto intro!: tr.extends_if tr.extends_fail tr.extends_return simp: limit_ok_def)
  qed (simp add: tr.extends_fail)
  have variable: "binds_to n limit_ok (\<lambda>tr. try_ok (bind_scalar fr scopes U_Filter 0 (Some LT_Int64) (E_Variable x i) tr) (\<lambda>((b, _), tr). Inr (b, tr)))" for x i
  proof (rule tr.extendsI)
    fix tr b v
    assume ok: "trace_ok n tr" and run: "try_ok (bind_scalar fr scopes U_Filter 0 (Some LT_Int64) (E_Variable x i) tr) (\<lambda>((b, _), tr). Inr (b, tr)) = Inr (b, v)"
    then obtain t where t: "bind_scalar fr scopes U_Filter 0 (Some LT_Int64) (E_Variable x i) tr = Inr ((b, t), v)"
      by (auto simp: result_simps)
    note sound = tr.extendsD [OF bind_scalar_ok [OF assms] ok t]
    have "bind_variable fr x (Some LT_Int64) tr = Inr ((b, t), v)" using t by (simp add: bind_scalar.simps result_simps)
    then obtain p where "b = ClientParameter p LT_Int64" by (rule bind_variable_Inr) auto
    with sound show "trace_ok n v \<and> trace_le tr v \<and> (\<forall>u. trace_le v u \<longrightarrow> limit_ok u b)"
      by (auto simp: limit_ok_def scalar_ok_def)
  qed
  show ?thesis
    unfolding bind_limit_def [abs_def]
  proof (cases e)
    case (E_Literal l)
    then show "binds_to n limit_ok (\<lambda>tr. case e of E_Literal (Lit_Numeric v) \<Rightarrow> (case parse_i64 v of None \<Rightarrow> Inl InvalidLimit
          | Some i \<Rightarrow> if i < 0 then Inl InvalidLimit else Inr (Literal (LV_Int64 i), tr))
        | E_Variable _ _ \<Rightarrow> try_ok (bind_scalar fr scopes U_Filter 0 (Some LT_Int64) e tr) (\<lambda>((b, _), tr). Inr (b, tr))
        | _ \<Rightarrow> Inl InvalidLimit)"
      using literal by (cases l) (simp_all only: expr.case literal_node.case tr.extends_fail)
  qed (simp_all only: expr.case tr.extends_fail variable)
qed

lemma bind_order_ok:
  assumes "list_all (scope_known c) scopes" "list_all (projection_ok c (scope_ids scopes) u) ps" "bind_order scopes ps order = Inr d"
  shows "well_bound c (scope_ids scopes) u (od_expression d)"
proof -
  have "well_bound c (scope_ids scopes) u b" if named: "projection_named ps name = Inr b" for name b
  proof -
    obtain p where "find (\<lambda>p. eq_ignore_ascii_case (pj_output_name p) (name_str name)) ps = Some p" "b = pj_expression p"
      using named by (auto simp: projection_named_def result_simps)
    moreover from this(1) have "p \<in> set ps" by (metis find_Some_iff nth_mem)
    ultimately show ?thesis using assms(2) by (simp add: list_all_iff projection_ok_def)
  qed
  with assms(1,3) resolved_known show ?thesis
    by (auto simp: bind_order_def result_simps split: if_splits sum.splits expr.splits)
qed

lemma bind_group_by_ok:
  assumes "catalog_ok c" "fr_catalog fr = c" "n = bl_max_parameters (fr_limits fr)" "list_all (scope_known c) scopes"
  shows "binds_to n (\<lambda>u (columns, having). list_all (column_known c (scope_ids scopes)) columns \<and> is_none_or (cond_ok c (scope_ids scopes) u) having)
    (bind_group_by fr scopes gb)"
proof (cases gb)
  case (Some g)
  have "binds_to n (\<lambda>u y. rel_option (\<lambda>_. cond_ok c (scope_ids scopes) u) (gb_having g) y) (bind_option (bind_boolean fr scopes U_Having 0) (gb_having g))"
    by (rule bind_option_ok, rule bind_boolean_ok [OF assms])
  then have "binds_to n (\<lambda>u (columns, having). list_all (column_known c (scope_ids scopes)) columns \<and> is_none_or (cond_ok c (scope_ids scopes) u) having)
      (\<lambda>tr. try_ok (bind_option (bind_boolean fr scopes U_Having 0) (gb_having g) tr) (\<lambda>(having, tr). Inr ((columns, having), tr)))"
    if "traverse (resolved_column scopes U_Group) (gb_exprs g) = Inr columns" for columns
    by (rule tr.extends_map) (use traverse_resolved_known [OF assms(4) that] in \<open>auto simp: is_none_or_def split: option.splits elim: option.rel_cases\<close>)
  then show ?thesis
    unfolding bind_group_by_def [abs_def] Some option.case by (intro tr.extends_if tr.extends_fail tr.extends_pure)
qed (simp add: bind_group_by_def [abs_def] tr.extends_return is_none_or_def)

text \<open>The clauses of a select, after its sources.\<close>

lemma where_ok_inherited:
  assumes "is_none_or (cond_ok c [hd rs] u) inherited" "is_none_or (cond_ok c rs u) p"
  shows "is_none_or (where_ok c rs u) (and_inherited inherited p)"
  using assms by (auto simp: is_none_or_def and_inherited_def where_ok_def split: option.splits)

lemma where_ok_single: "where_ok c [r] u b \<Longrightarrow> cond_ok c [r] u b"
  by (cases b) (auto simp: where_ok_def cond_ok_def)

lemma rel_option_some: "rel_option (\<lambda>_. P) x y \<Longrightarrow> is_none_or P y"
  by (auto simp: is_none_or_def split: option.splits elim: option.rel_cases)

lemma bind_select_parts_ok:
  assumes c: "catalog_ok c" "fr_catalog fr = c" "n = bl_max_parameters (fr_limits fr)" and known: "list_all (scope_known c) scopes"
    and "columns \<noteq> []" "trace_ok n tr"
    and run: "bind_select_parts fr scopes columns wh gb os lm inherited tr = Inr (finish, v)"
    and inherited: "\<And>u. trace_le tr u \<Longrightarrow> is_none_or (cond_ok c [hd (scope_ids scopes)] u) inherited"
    and sources: "scope_ids scopes = rd_id (sco_resource (hd scopes)) # map jn_resource joins" "distinct (scope_ids scopes)" "scopes \<noteq> []"
    and joins: "\<And>u. trace_le tr u \<Longrightarrow> joins_ok c [rd_id (sco_resource (hd scopes))] u joins"
  shows "trace_ok n v \<and> trace_le tr v \<and> (\<forall>u. trace_le v u \<longrightarrow> select_ok c u (finish joins))"
proof -
  obtain ps t1 pr t2 gcols having t3 orders limit t4 offset where
      1: "traverse_st (bind_projection (bind_scalar fr scopes U_Projection 0) scopes) columns tr = Inr (ps, t1)"
    and names: "ensure_unique_result_names ps = Inr ()"
    and 2: "bind_option (bind_boolean fr scopes U_Filter 0) wh t1 = Inr (pr, t2)"
    and 3: "bind_group_by fr scopes gb t2 = Inr ((gcols, having), t3)"
    and orders: "traverse (bind_order scopes ps) os = Inr orders"
    and 4: "bind_option (bind_limit fr scopes) (map_option lm_expr lm) t3 = Inr (limit, t4)"
    and 5: "bind_option (bind_limit fr scopes) (Option.bind lm lm_offset) t4 = Inr (offset, v)"
    and finish: "finish = (\<lambda>joins. BoundSelect (rd_id (sco_resource (hd scopes))) (sco_alias (hd scopes)) joins ps
        (and_inherited inherited pr) gcols having orders limit offset)"
    using run unfolding bind_select_parts_def try_ok_Inr_iff by (auto simp: result_simps)
  have P: "binds_to n (\<lambda>u ps. list_all2 (\<lambda>_. projection_ok c (scope_ids scopes) u) columns ps)
      (traverse_st (bind_projection (bind_scalar fr scopes U_Projection 0) scopes) columns)"
    by (rule tr.extends_traverse, rule bind_projection_ok [OF known], rule bind_scalar_ok [OF c known])
  note a1 = tr.extendsD [OF P \<open>trace_ok n tr\<close> 1]
  note a2 = tr.extendsD [OF bind_option_ok [OF bind_boolean_ok [OF c known]] a1(1) 2]
  note a3 = tr.extendsD [OF bind_group_by_ok [OF c known] a2(1) 3]
  note a4 = tr.extendsD [OF bind_option_ok [OF bind_limit_ok [OF c known]] a3(1) 4]
  note a5 = tr.extendsD [OF bind_option_ok [OF bind_limit_ok [OF c known]] a4(1) 5]
  have "select_ok c u (finish joins)" if v: "trace_le v u" for u
  proof -
    let ?rs = "scope_ids scopes"
    have le: "trace_le t4 u" "trace_le t3 u" "trace_le t2 u" "trace_le t1 u" "trace_le tr u"
      using v a5(2) a4(2) a3(2) a2(2) a1(2) by (blast intro: tr.le_trans)+
    have ps: "list_all (projection_ok c ?rs u) ps" "length ps = length columns"
      using a1(3) [OF le(4)] by (auto dest: list_all2_ignore list_all2_lengthD)
    have "names_ok ps" by (rule names_ok_unique [OF names]) (use ps(1) in \<open>simp add: list_all_iff projection_ok_def\<close>)
    moreover have "list_all (\<lambda>d. well_bound c ?rs u (od_expression d)) orders"
      using orders by (induction os arbitrary: orders) (auto simp: result_simps intro: bind_order_ok [OF known ps(1)])
    moreover have "is_none_or (where_ok c ?rs u) (and_inherited inherited pr)"
      by (rule where_ok_inherited [OF inherited [OF le(5)] rel_option_some [OF a2(3) [OF le(3)]]])
    moreover have "resource_known c (rd_id (sco_resource (hd scopes)))"
      using known \<open>scopes \<noteq> []\<close> by (intro scope_resource_known) (cases scopes; simp)
    moreover have "ps \<noteq> []" using ps(2) \<open>columns \<noteq> []\<close> by auto
    moreover have "list_all (column_known c ?rs) gcols" "is_none_or (cond_ok c ?rs u) having" using a3(3) [OF le(2)] by simp_all
    ultimately show ?thesis
      unfolding finish select_ok_def Let_def bound_select.sel sources(1) [symmetric]
      using sources(2) ps(1) joins [OF le(5)] rel_option_some [OF a4(3) [OF le(1)]] rel_option_some [OF a5(3) [OF v]]
      by (intro conjI)
  qed
  moreover have "trace_le tr v"
    by (rule tr.le_trans [OF a1(2) tr.le_trans [OF a2(2) tr.le_trans [OF a3(2) tr.le_trans [OF a4(2) a5(2)]]]])
  ultimately show ?thesis using a5(1) by simp
qed

lemma derived_columns_known:
  assumes "derived_columns r m ps = Inr columns" "\<And>d. d \<in> snd ` set m \<Longrightarrow> column_by_id r (cd_id d) = Some d"
    and "d \<in> snd ` set columns"
  shows "column_by_id r (cd_id d) = Some d"
  using assms
proof (induction r m ps rule: derived_columns.induct)
  case (2 r m p ps)
  obtain column x where x: "pj_expression p = Column column" "column_by_id r (bc_id column) = Some x"
    and rest: "derived_columns r (bt_insert (canonical_name (pj_output_name p)) x m) ps = Inr columns" and free: "\<not> bt_has m (canonical_name (pj_output_name p))"
    using "2.prems"(1) by (auto simp: result_simps split: bound_expr.splits if_splits)
  have "cd_id x = bc_id column" using x(2) by (auto simp: column_by_id_def find_Some_iff split: if_splits)
  then have "column_by_id r (cd_id y) = Some y" if "y \<in> snd ` set (bt_insert (canonical_name (pj_output_name p)) x m)" for y
    using that x(2) "2.prems"(2) by (force dest: bt_set_insert)
  with "2.IH" [OF x(1) _ free] x(2) rest "2.prems"(3) show ?case by (simp add: ok_or.simps)
qed simp

lemma derived_source_ok:
  assumes run: "bind_derived_source f fr x a = Inr (src, inherited, tr)" and c: "fr_catalog fr = c"
    and f: "\<And>s tr. f x = Inr (s, tr) \<Longrightarrow> trace_ok n tr \<and> (\<forall>u. trace_le tr u \<longrightarrow> select_ok c u s)"
  shows "scope_known c src \<and> trace_ok n tr \<and> (\<forall>u. trace_le tr u \<longrightarrow> is_none_or (cond_ok c [rd_id (sco_resource src)] u) inherited)"
proof -
  obtain s r columns where s: "f x = Inr (s, tr)" "is_transparent s" and r: "resource_by_id c (bs_resource s) = Some r"
    and columns: "derived_columns r [] (bs_projections s) = Inr columns"
    and src: "src = \<lparr>sco_resource = r, sco_alias = Some (canonical_name a), sco_qualifier = canonical_name a, sco_columns = columns\<rparr>"
      "inherited = bs_predicate s"
    using run c by (auto simp: bind_derived_source_def result_simps split: if_splits)
  have r': "rd_id r = bs_resource s" "r \<in> snd ` set (cat_resources c)"
    using r by (auto simp: resource_by_id_def find_Some_iff)
  have "scope_known c src"
    using derived_columns_known [OF columns] r'(2) by (auto simp: scope_known_def src)
  moreover have "is_none_or (cond_ok c [rd_id r] u) inherited" if "trace_le tr u" for u
  proof -
    have "is_none_or (where_ok c [bs_resource s] u) (bs_predicate s)"
      using f [OF s(1)] that s(2) by (simp add: select_ok_def Let_def is_transparent_def)
    then show ?thesis by (auto simp: src r'(1) is_none_or_def where_ok_single split: option.splits)
  qed
  ultimately show ?thesis using f [OF s(1)] src by simp
qed

lemma root_source_ok:
  assumes run: "bind_root_source f fr w t = Inr (src, inherited, tr)" and c: "catalog_ok c" "fr_catalog fr = c"
    and f: "\<And>x s tr. (\<exists>v. w = Some v \<and> x \<in> ct_select ` set (wi_ctes v)) \<or> (\<exists>a. t = St_Select x a) \<Longrightarrow> f x = Inr (s, tr) \<Longrightarrow>
      trace_ok n tr \<and> (\<forall>u. trace_le tr u \<longrightarrow> select_ok c u s)"
  shows "scope_known c src \<and> trace_ok n tr \<and> (\<forall>u. trace_le tr u \<longrightarrow> is_none_or (cond_ok c [rd_id (sco_resource src)] u) inherited)"
proof -
  consider x a where "(\<exists>v. w = Some v \<and> x \<in> ct_select ` set (wi_ctes v)) \<or> (\<exists>b. t = St_Select x b)" "bind_derived_source f fr x a = Inr (src, inherited, tr)"
    | "bind_source c t = Inr src" "inherited = None" "tr = new_trace"
  proof (cases t)
    case (St_Table name a i)
    show ?thesis
    proof (cases "cte_named w name")
      case (Some cte)
      then have "\<exists>v. w = Some v \<and> ct_select cte \<in> ct_select ` set (wi_ctes v)"
        by (auto simp: cte_named_def split: option.splits list.splits if_splits)
      with that(1) run Some St_Table show ?thesis by (auto simp: bind_root_source_def split: if_splits)
    next
      case None
      with that(2) run St_Table c(2) show ?thesis by (auto simp: bind_root_source_def result_simps split: if_splits)
    qed
  next
    case (St_Select x a)
    with that(1) run show ?thesis by (auto simp: bind_root_source_def result_simps split: if_splits)
  qed (use run in \<open>simp_all add: bind_root_source_def\<close>)
  then show ?thesis
  proof cases
    case 1
    then show ?thesis using f by (intro derived_source_ok [OF _ c(2)]) blast+
  qed (simp add: bind_source_known [OF c(1)] is_none_or_def)
qed

lemma bind_select_ok:
  assumes "catalog_ok c" "fr_catalog fr = c" "n = bl_max_parameters (fr_limits fr)" "bind_select fr x = Inr (s, v)"
  shows "trace_ok n v \<and> (\<forall>u. trace_le v u \<longrightarrow> select_ok c u s)"
  using assms(4)
proof (induction x arbitrary: s v rule: measure_induct_rule [of size])
  case (less x)
  obtain columns fc wh gb where body: "sn_body x = OneSelect False columns (Some fc) wh gb False"
    using less.prems by (subst (asm) bind_select.simps) (auto split: one_select.splits if_splits option.splits)
  obtain src inherited tr joins scopes t1 finish where
      root: "bind_root_source (\<lambda>x. bind_select fr x) fr (sn_with x) (fc_select fc) = Inr (src, inherited, tr)"
    and columns: "columns \<noteq> []" and joins: "bind_joins fr (fc_joins fc) [src] tr = Inr ((joins, scopes), t1)"
    and parts: "bind_select_parts fr scopes columns wh gb (sn_order_by x) (sn_limit x) inherited t1 = Inr (finish, v)" and s: "s = finish joins"
    using less.prems by (subst (asm) bind_select.simps) (auto simp: body result_simps split: if_splits)
  have root_ok: "scope_known c src \<and> trace_ok n tr \<and> (\<forall>u. trace_le tr u \<longrightarrow> is_none_or (cond_ok c [rd_id (sco_resource src)] u) inherited)"
  proof (rule root_source_ok [OF root assms(1,2)])
    fix y t w
    assume y: "(\<exists>v. sn_with x = Some v \<and> y \<in> ct_select ` set (wi_ctes v)) \<or> (\<exists>a. fc_select fc = St_Select y a)" and "bind_select fr y = Inr (t, w)"
    moreover from y have "size y < size x" using select_parts_smaller(1) [of x] derived_smaller [OF body] by blast
    ultimately show "trace_ok n w \<and> (\<forall>u. trace_le w u \<longrightarrow> select_ok c u t)" using less.IH by blast
  qed
  have J: "list_all (scope_known c) [src]" "distinct (scope_ids [src])" using root_ok by (simp_all add: scope_ids_def)
  note j = tr.extendsD [OF bind_joins_ok [OF assms(1-3) J] _ joins]
  have tr: "trace_ok n tr" using root_ok by simp
  have "take 1 scopes = [src]" using j(3) [OF tr tr.le_refl] by simp
  then obtain rest where scopes: "scopes = src # rest" by (cases scopes) auto
  have "list_all (scope_known c) scopes \<and> scope_ids scopes = scope_ids [src] @ map jn_resource joins \<and> distinct (scope_ids scopes)"
    using j(3) [OF tr tr.le_refl] unfolding prod.case by blast
  then have shape: "list_all (scope_known c) scopes" "scope_ids scopes = rd_id (sco_resource (hd scopes)) # map jn_resource joins"
    "distinct (scope_ids scopes)" by (auto simp: scopes scope_ids_def [of "[src]"] simp del: distinct.simps)
  have "trace_ok n v \<and> trace_le t1 v \<and> (\<forall>u. trace_le v u \<longrightarrow> select_ok c u (finish joins))"
  proof (rule bind_select_parts_ok [OF assms(1-3) shape(1) columns j(1) [OF tr] parts])
    show "is_none_or (cond_ok c [hd (scope_ids scopes)] u) inherited" if "trace_le t1 u" for u
      using root_ok tr.le_trans [OF j(2) [OF tr] that] by (simp add: scopes scope_ids_def)
    show "joins_ok c [rd_id (sco_resource (hd scopes))] u joins" if "trace_le t1 u" for u
      using j(3) [OF tr that] by (simp add: scopes scope_ids_def)
  qed (use shape scopes in auto)
  with s show ?case by simp
qed

section \<open>Writes and documents\<close>

definition assignment_ok :: "catalog \<Rightarrow> nat \<Rightarrow> bind_trace \<Rightarrow> bound_assignment \<Rightarrow> bool" where
  "assignment_ok c r u a = (column_known c [r] (ba_column a) \<and> is_written_value (ba_value a) \<and>
     well_bound c [r] u (ba_value a) \<and> expr_type (ba_value a) = bc_type (ba_column a))"

definition assignments_ok :: "catalog \<Rightarrow> nat \<Rightarrow> bind_trace \<Rightarrow> bound_assignment list \<Rightarrow> bool" where
  "assignments_ok c r u as = (as \<noteq> [] \<and> distinct (map (bc_id \<circ> ba_column) as) \<and> list_all (assignment_ok c r u) as)"

definition returning_ok :: "catalog \<Rightarrow> nat \<Rightarrow> bound_projection list \<Rightarrow> bool" where
  "returning_ok c r ps = (names_ok ps \<and> list_all (\<lambda>p. case pj_expression p of Column column \<Rightarrow> column_known c [r] column | _ \<Rightarrow> False) ps)"

text \<open>What a bound statement is, for the policies and the emitter that take it.\<close>

definition statement_ok :: "catalog \<Rightarrow> bind_trace \<Rightarrow> bound_statement \<Rightarrow> bool" where
  "statement_ok c u statement = (case statement of
       Select s \<Rightarrow> select_ok c u s
     | ConstantSelect ps \<Rightarrow> ps \<noteq> [] \<and> names_ok ps \<and>
         list_all (\<lambda>p. expr_type (pj_expression p) \<in> {LT_Int64, LT_Number} \<and> well_bound c [] u (pj_expression p)) ps
     | JsonCollectionSelect j \<Rightarrow> resource_known c (bj_resource j) \<and> column_known c [bj_resource j] (bj_document j) \<and>
         bc_type (bj_document j) = LT_Json \<and> well_bound c [bj_resource j] u (bj_path j) \<and> expr_type (bj_path j) = LT_String \<and>
         is_none_or (cond_ok c [bj_resource j] u) (bj_predicate j)
     | Insert i \<Rightarrow> resource_known c (bi_resource i) \<and> bi_rows i \<noteq> [] \<and>
         list_all (\<lambda>row. assignments_ok c (bi_resource i) u row \<and> map (bc_id \<circ> ba_column) row = map (bc_id \<circ> ba_column) (hd (bi_rows i))) (bi_rows i) \<and>
         returning_ok c (bi_resource i) (bi_returning i)
     | Update d \<Rightarrow> resource_known c (bu_resource d) \<and> assignments_ok c (bu_resource d) u (bu_assignments d) \<and>
         is_none_or (cond_ok c [bu_resource d] u) (bu_predicate d) \<and> returning_ok c (bu_resource d) (bu_returning d)
     | Delete d \<Rightarrow> resource_known c (bd_resource d) \<and> is_none_or (cond_ok c [bd_resource d] u) (bd_predicate d) \<and>
         returning_ok c (bd_resource d) (bd_returning d))"

lemma bind_returning_ok:
  assumes "scope_known c s" "bind_returning [s] rs = Inr ps"
  shows "returning_ok c (rd_id (sco_resource s)) ps"
proof -
  let ?f = "\<lambda>result. case result of
         Rc_Expr e alias \<Rightarrow>
           try_ok (resolve_direct_column [s] e) (\<lambda>column.
           try_ok (result_name_of (unwrap_or (cd_name column) (explicit_alias alias))) (\<lambda>output_name.
             Inr (BoundProjection (Column (bound_column_of column U_Returning)) output_name)))
       | _ \<Rightarrow> Inl (Unsupported ''RETURNING star'')"
  have run: "traverse ?f rs = Inr ps" "ensure_unique_result_names ps = Inr ()"
    using assms(2) by (auto simp: bind_returning_def result_simps)
  have "list_all (\<lambda>p. non_empty (pj_output_name p) \<and> (\<exists>d. pj_expression p = Column d \<and> column_known c [rd_id (sco_resource s)] d)) ps"
    using run(1)
  proof (induction rs arbitrary: ps)
    case (Cons r rs)
    obtain e a d p ps' where "r = Rc_Expr e a" "resolve_direct_column [s] e = Inr d" "ps = p # ps'" "traverse ?f rs = Inr ps'"
      "p = BoundProjection (Column (bound_column_of d U_Returning)) (unwrap_or (cd_name d) (explicit_alias a))" "non_empty (pj_output_name p)"
      using Cons.prems by (cases r) (auto simp: result_simps result_name_of_iff)
    with Cons.IH [of ps'] resolved_known [of c "[s]" e d U_Returning] assms(1) show ?case by (simp add: scope_ids_def)
  qed simp
  then show ?thesis
    using names_ok_unique [OF run(2)] by (auto simp: returning_ok_def list_all_iff)
qed

lemma bind_assigned_ok:
  assumes c: "catalog_ok c" "fr_catalog fr = c" "n = bl_max_parameters (fr_limits fr)" and s: "scope_known c s"
    and d: "column_known c [rd_id (sco_resource s)] (bound_column_of d U_Write)"
  shows "binds_to n (\<lambda>u a. assignment_ok c (rd_id (sco_resource s)) u a \<and> bc_id (ba_column a) = cd_id d) (bind_assigned fr [s] shape (e, d))"
  unfolding bind_assigned_def [abs_def] prod.case
  by (rule tr.extends_pair [OF bind_scalar_ok [OF c]])
    (use s d in \<open>auto intro!: tr.extends_if tr.extends_fail tr.extends_return simp: assignment_ok_def scalar_ok_def bound_column_of_def scope_ids_def\<close>)

lemma table_column_known:
  assumes "catalog_ok c" "catalog_resource c name = Some r" "resource_column r column = Some d"
  shows "column_known c [rd_id r] (bound_column_of d usage)"
proof -
  have r: "resource_ok r" "r \<in> snd ` set (cat_resources c)"
    using catalog_resource_ok [OF assms(1,2)] assms(2) by (force simp: catalog_resource_def dest: bt_get_set)+
  then have "column_by_id r (cd_id d) = Some d" "cid_resource (cd_id d) = rd_id r"
    using column_by_id_found resource_column_ok assms(3) by blast+
  with r(2) show ?thesis by (auto simp: column_known_def bound_column_of_def list_ex_iff intro!: bexI)
qed

lemma bind_table_source:
  assumes "bind_source c (St_Table table None False) = Inr s"
  shows "catalog_resource c (name_str (qn_name table)) = Some (sco_resource s)"
  using assms by (auto simp: bind_source_def result_simps Let_def split: if_splits)

lemma bind_table_ok:
  assumes "catalog_ok c" "fr_catalog fr = c" "bind_table fr table = Inr (r, s)"
  shows "scope_known c s" "sco_resource s = r" "catalog_resource c (name_str (qn_name table)) = Some r"
proof -
  have "bind_source c (St_Table table None False) = Inr s" "catalog_resource c (name_str (qn_name table)) = Some r"
    using assms(2,3) by (auto simp: bind_table_def result_simps)
  with bind_table_source [OF this(1)] bind_source_known [OF assms(1)]
  show "scope_known c s" "sco_resource s = r" "catalog_resource c (name_str (qn_name table)) = Some r" by auto
qed

definition fresh_assignments :: "catalog \<Rightarrow> nat \<Rightarrow> column_id set \<Rightarrow> bind_trace \<Rightarrow> bound_assignment list \<Rightarrow> bool" where
  "fresh_assignments c r seen u as = (distinct (map (bc_id \<circ> ba_column) as) \<and> (bc_id \<circ> ba_column) ` set as \<inter> seen = {} \<and>
     list_all (assignment_ok c r u) as)"

lemma bind_sets_ok:
  assumes c: "catalog_ok c" "fr_catalog fr = c" "n = bl_max_parameters (fr_limits fr)" and s: "scope_known c s"
    and r: "catalog_resource c name = Some (sco_resource s)"
  shows "binds_to n (\<lambda>u as. fresh_assignments c (rd_id (sco_resource s)) seen u as \<and> length as = length us)
    (bind_sets fr [s] (sco_resource s) seen us)"
proof (induction us arbitrary: seen)
  case Nil
  show ?case unfolding bind_sets.simps [abs_def] by (rule tr.extends_return) (simp add: fresh_assignments_def)
next
  case (Cons x us)
  let ?Q = "\<lambda>u as. fresh_assignments c (rd_id (sco_resource s)) seen u as \<and> length as = length (x # us)"
  have "binds_to n ?Q (\<lambda>tr. try_ok (bind_assigned fr [s] ''UPDATE assignment expression'' (us_expr x, d) tr) (\<lambda>(a, tr).
      try_ok (bind_sets fr [s] (sco_resource s) (insert (cd_id d) seen) us tr) (\<lambda>(as, tr). Inr (a # as, tr))))"
    if "resource_column (sco_resource s) (name_str m) = Some d" "cd_id d \<notin> seen" for m d
    by (rule tr.extends_bind [OF bind_assigned_ok [OF c s table_column_known [OF c(1) r that(1)]]], rule tr.extends_map [OF Cons.IH])
      (use that(2) in \<open>auto simp: fresh_assignments_def\<close>)
  then have "binds_to n ?Q (\<lambda>tr. try_ok (ok_or BE_UnknownColumn (resource_column (sco_resource s) (name_str m))) (\<lambda>column.
        if cd_id column \<in> seen then Inl DuplicateWriteColumn
        else try_ok (bind_assigned fr [s] ''UPDATE assignment expression'' (us_expr x, column) tr) (\<lambda>(a, tr).
          try_ok (bind_sets fr [s] (sco_resource s) (insert (cd_id column) seen) us tr) (\<lambda>(as, tr). Inr (a # as, tr)))))" for m
    by (intro tr.extends_pure tr.extends_if tr.extends_fail) (auto simp: result_simps)
  then show ?case
    by (subst bind_sets.simps(2) [abs_def]) (cases "us_col_names x" rule: remdups_adj.cases; simp only: list.case tr.extends_fail)
qed

lemma insert_descriptors_ok:
  assumes "insert_descriptors r seen names = Inr ds"
  shows "distinct (map cd_id ds) \<and> cd_id ` set ds \<inter> seen = {} \<and> (\<forall>d \<in> set ds. \<exists>m. resource_column r m = Some d) \<and> length ds = length names"
  using assms
proof (induction r seen names arbitrary: ds rule: insert_descriptors.induct)
  case (2 r seen name names)
  obtain d ds' where d: "resource_column r (name_str name) = Some d" "cd_id d \<notin> seen" "ds = d # ds'"
    and rest: "insert_descriptors r (insert (cd_id d) seen) names = Inr ds'"
    using "2.prems" by (auto simp: result_simps split: if_splits)
  with "2.IH" [of d ds'] show ?case by auto
qed simp

lemma bind_row_ok:
  assumes c: "catalog_ok c" "fr_catalog fr = c" "n = bl_max_parameters (fr_limits fr)" and s: "scope_known c s"
    and r: "catalog_resource c name = Some (sco_resource s)" and ds: "insert_descriptors (sco_resource s) {} names = Inr ds" "names \<noteq> []"
  shows "binds_to n (\<lambda>u row. assignments_ok c (rd_id (sco_resource s)) u row \<and> map (bc_id \<circ> ba_column) row = map cd_id ds) (bind_row fr [s] ds vs)"
proof -
  let ?P = "\<lambda>u p a. assignment_ok c (rd_id (sco_resource s)) u a \<and> bc_id (ba_column a) = cd_id (snd p)"
  note d = insert_descriptors_ok [OF ds(1)]
  have "binds_to n (\<lambda>u a. ?P u p a) (bind_assigned fr [s] ''INSERT value expression'' p)" if "p \<in> set (zip vs ds)" for p
  proof -
    obtain e x where p: "p = (e, x)" by (cases p)
    with that d obtain m where "resource_column (sco_resource s) m = Some x" by (auto dest: set_zip_rightD)
    from bind_assigned_ok [OF c s table_column_known [OF c(1) r this]] show ?thesis by (simp add: p)
  qed
  then have T: "binds_to n (\<lambda>u row. list_all2 (?P u) (zip vs ds) row) (traverse_st (bind_assigned fr [s] ''INSERT value expression'') (zip vs ds))"
    by (rule tr.extends_traverse)
  have row: "map (bc_id \<circ> ba_column) row = map cd_id ds \<and> list_all (assignment_ok c (rd_id (sco_resource s)) u) row"
    if "list_all2 (?P u) (zip vs ds) row" "length vs = length ds" for u row
    using that(2,1) by (induction vs ds arbitrary: row rule: list_induct2) (auto simp: list_all2_Cons1)
  have "assignments_ok c (rd_id (sco_resource s)) u row \<and> map (bc_id \<circ> ba_column) row = map cd_id ds"
    if "list_all2 (?P u) (zip vs ds) row" "length vs = length ds" for u row
    using row [OF that] d ds(2) by (auto simp: assignments_ok_def)
  then show ?thesis
    unfolding bind_row_def [abs_def] by (intro tr.extends_if tr.extends_fail tr.extends_weaken [OF T]) auto
qed

lemma bind_delete_ok:
  assumes c: "catalog_ok c" "fr_catalog fr = c" "n = bl_max_parameters (fr_limits fr)" and run: "bind_delete fr d = Inr (b, v)"
  shows "trace_ok n v \<and> statement_ok c v (Delete b)"
proof -
  obtain r s pr ret where t: "bind_table fr (de_tbl_name d) = Inr (r, s)"
    and p: "bind_option (bind_boolean fr [s] U_Mutation 0) (de_where_clause d) new_trace = Inr (pr, v)"
    and ret: "bind_returning [s] (de_returning d) = Inr ret" and b: "b = \<lparr>bd_resource = rd_id r, bd_predicate = pr, bd_returning = ret\<rparr>"
    using run by (auto simp: bind_delete_def result_simps split: if_splits)
  note s = bind_table_ok [OF c(1,2) t]
  have "list_all (scope_known c) [s]" using s by simp
  note x = tr.extendsD [OF bind_option_ok [OF bind_boolean_ok [OF c this]] new_trace_ok p]
  show ?thesis
    using x(1) rel_option_some [OF x(3) [OF tr.le_refl]] bind_returning_ok [OF s(1) ret] s scope_resource_known [OF s(1)]
    by (simp add: statement_ok_def b scope_ids_def)
qed

lemma bind_update_ok:
  assumes c: "catalog_ok c" "fr_catalog fr = c" "n = bl_max_parameters (fr_limits fr)" and run: "bind_update fr d = Inr (b, v)"
  shows "trace_ok n v \<and> statement_ok c v (Update b)"
proof -
  obtain r s as t1 pr ret where t: "bind_table fr (ud_tbl_name d) = Inr (r, s)" and sets: "ud_sets d \<noteq> []"
    and as: "bind_sets fr [s] r {} (ud_sets d) new_trace = Inr (as, t1)"
    and p: "bind_option (bind_boolean fr [s] U_Mutation 0) (ud_where_clause d) t1 = Inr (pr, v)"
    and ret: "bind_returning [s] (ud_returning d) = Inr ret"
    and b: "b = \<lparr>bu_resource = rd_id r, bu_assignments = as, bu_predicate = pr, bu_returning = ret\<rparr>"
    using run by (auto simp: bind_update_def result_simps split: if_splits)
  note s = bind_table_ok [OF c(1,2) t]
  have r: "catalog_resource c (name_str (qn_name (ud_tbl_name d))) = Some (sco_resource s)" using s by simp
  note a = tr.extendsD [OF bind_sets_ok [OF c s(1) r] new_trace_ok as [folded s(2)]]
  have "list_all (scope_known c) [s]" using s by simp
  note x = tr.extendsD [OF bind_option_ok [OF bind_boolean_ok [OF c this]] a(1) p]
  have "assignments_ok c (rd_id r) v as"
    using a(3) [OF x(2)] sets s(2) by (auto simp: fresh_assignments_def assignments_ok_def)
  then show ?thesis
    using x(1) rel_option_some [OF x(3) [OF tr.le_refl]] bind_returning_ok [OF s(1) ret] s scope_resource_known [OF s(1)]
    by (simp add: statement_ok_def b scope_ids_def)
qed

lemma bind_insert_ok:
  assumes c: "catalog_ok c" "fr_catalog fr = c" "n = bl_max_parameters (fr_limits fr)" and run: "bind_insert fr i = Inr (b, v)"
  shows "trace_ok n v \<and> statement_ok c v (Insert b)"
proof -
  obtain r ds vss s rows ret where r: "catalog_resource c (name_str (qn_name (in_tbl_name i))) = Some r" and names: "in_columns i \<noteq> []"
    and ds: "insert_descriptors r {} (in_columns i) = Inr ds" and vss: "insert_values (in_body i) = Inr vss"
    and s: "bind_source c (St_Table (in_tbl_name i) None False) = Inr s"
    and rows: "traverse_st (bind_row fr [s] ds) vss new_trace = Inr (rows, v)"
    and ret: "bind_returning [s] (in_returning i) = Inr ret"
    and b: "b = \<lparr>bi_resource = rd_id r, bi_rows = rows, bi_returning = ret\<rparr>"
    using run c(2) by (auto simp: bind_insert_def result_simps split: if_splits)
  have s': "scope_known c s" "sco_resource s = r"
    using bind_source_known [OF c(1) s] bind_table_source [OF s] r by auto
  let ?Q = "\<lambda>u row. assignments_ok c (rd_id r) u row \<and> map (bc_id \<circ> ba_column) row = map cd_id ds"
  have "binds_to n (\<lambda>u rows. list_all2 (\<lambda>_. ?Q u) vss rows) (traverse_st (bind_row fr [s] ds) vss)"
    by (rule tr.extends_traverse, rule bind_row_ok [OF c s'(1) _ _ names, unfolded s'(2)]) (use r ds in auto)
  note x = tr.extendsD [OF this new_trace_ok rows]
  have rows': "list_all (?Q v) rows" "length rows = length vss"
    using x(3) [OF tr.le_refl] by (auto dest: list_all2_ignore list_all2_lengthD)
  moreover have "vss \<noteq> []" using vss by (auto simp: insert_values_def split: insert_body.splits option.splits one_select.splits if_splits)
  ultimately have "rows \<noteq> []" by auto
  with rows'(1) have "rows \<noteq> []" "list_all (\<lambda>row. assignments_ok c (rd_id r) v row \<and> map (bc_id \<circ> ba_column) row = map (bc_id \<circ> ba_column) (hd rows)) rows"
    using hd_in_set [OF \<open>rows \<noteq> []\<close>] by (auto simp: list_all_iff)
  then show ?thesis
    using x(1) bind_returning_ok [OF s'(1) ret] s'(2) scope_resource_known [OF s'(1)] by (simp add: statement_ok_def b)
qed

lemma column_case_Inr: "(case q of Column d \<Rightarrow> f d | _ \<Rightarrow> Inl e) = Inr y \<longleftrightarrow> (\<exists>d. q = Column d \<and> f d = Inr y)"
  by (cases q) auto

lemma bind_json_collection_ok:
  assumes c: "catalog_ok c" "fr_catalog fr = c" "n = bl_max_parameters (fr_limits fr)" and run: "bind_json_collection_select fr x = Inr (b, v)"
  shows "trace_ok n v \<and> statement_ok c v (JsonCollectionSelect b)"
proof -
  obtain column table join wh s document path recursive a d t1 p t2 name pr where s: "bind_source c table = Inr s"
    and d: "bind_scalar fr [s] U_Aggregate 0 (Some LT_Json) document new_trace = Inr ((Column d, LT_Json), t1)"
    and p: "bind_scalar fr [s] U_Aggregate 0 (Some LT_String) path t1 = Inr ((p, LT_String), t2)"
    and pr: "bind_option (bind_boolean fr [s] U_Filter 0) wh t2 = Inr (pr, v)"
    and b: "b = \<lparr>bj_resource = rd_id (sco_resource s), bj_alias = sco_alias s, bj_document = d, bj_path = p, bj_recursive = recursive,
      bj_output_name = name, bj_predicate = pr\<rparr>"
    using run c(2) by (auto simp: bind_json_collection_select_def result_simps column_case_Inr split: if_splits)
  have k: "scope_known c s" "list_all (scope_known c) [s]" using bind_source_known [OF c(1) s] by simp_all
  note x1 = tr.extendsD [OF bind_scalar_ok [OF c k(2)] new_trace_ok d]
  note x2 = tr.extendsD [OF bind_scalar_ok [OF c k(2)] x1(1) p]
  note x3 = tr.extendsD [OF bind_option_ok [OF bind_boolean_ok [OF c k(2)]] x2(1) pr]
  show ?thesis
    using x1(3) [OF tr.le_trans [OF x2(2) x3(2)]] x2(3) [OF x3(2)] rel_option_some [OF x3(3) [OF tr.le_refl]] x3(1) scope_resource_known [OF k(1)]
    by (simp add: statement_ok_def b scope_ids_def scalar_ok_def)
qed

lemma bind_constant_ok:
  assumes "bind_constant_select fr x = Inr ps"
  shows "statement_ok c u (ConstantSelect ps)"
proof -
  let ?f = "\<lambda>column. case column of
       Rc_Expr e alias \<Rightarrow> (case e of
           E_Literal (Lit_Numeric raw) \<Rightarrow>
             try_ok (bind_literal (fr_rnd fr) (Lit_Numeric raw) None) (\<lambda>(expression, _).
             try_ok (result_name_of (unwrap_or raw (explicit_alias alias))) (\<lambda>output_name.
               Inr (BoundProjection expression output_name)))
         | _ \<Rightarrow> Inl (Unsupported ''constant expression''))
     | _ \<Rightarrow> Inl (Unsupported ''constant star'')"
  let ?P = "\<lambda>p. non_empty (pj_output_name p) \<and> expr_type (pj_expression p) \<in> {LT_Int64, LT_Number} \<and> well_bound c [] u (pj_expression p)"
  obtain columns where run: "traverse ?f columns = Inr ps" "ensure_unique_result_names ps = Inr ()" "columns \<noteq> []"
    using assms by (auto simp: bind_constant_select_def result_simps split: if_splits one_select.splits option.splits)
  have step: "?P p" if bound: "?f column = Inr p" for column p
  proof -
    obtain raw name b t where "bind_literal (fr_rnd fr) (Lit_Numeric raw) None = Inr (b, t)" "p = BoundProjection b name" "non_empty name"
      using bound by (auto simp: result_simps result_name_of_iff split: result_column.splits expr.splits literal_node.splits)
    moreover from this(1) have "t \<in> {LT_Int64, LT_Number}" by (auto simp: bind_literal_def result_simps split: option.splits)
    ultimately show ?thesis using bind_literal_ok [of "fr_rnd fr" "Lit_Numeric raw" None b t] by auto
  qed
  have "list_all ?P ps \<and> length ps = length columns"
    using run(1)
  proof (induction columns arbitrary: ps)
    case (Cons x columns)
    then obtain p ps' where "?f x = Inr p" "traverse ?f columns = Inr ps'" "ps = p # ps'" by (auto simp: result_simps)
    with Cons.IH [of ps'] step [of x p] show ?case by simp
  qed simp
  with names_ok_unique [OF run(2)] run(3) show ?thesis by (auto simp: statement_ok_def list_all_iff)
qed

lemma bind_stmt_ok:
  assumes "catalog_ok c" "fr_catalog fr = c" "bind_stmt fr x = Inr (b, v)"
  shows "trace_ok (bl_max_parameters (fr_limits fr)) v \<and> statement_ok c v b"
proof (cases x)
  case (Stmt_Select s)
  with assms(3) show ?thesis
    using bind_json_collection_ok [OF assms(1,2) refl] bind_constant_ok bind_select_ok [OF assms(1,2) refl]
    by (auto simp: bind_stmt_def result_simps statement_ok_def [of c v "Select _"] tr.le_refl split: if_splits)
qed (use assms(3) bind_insert_ok [OF assms(1,2) refl] bind_update_ok [OF assms(1,2) refl] bind_delete_ok [OF assms(1,2) refl] in
    \<open>auto simp: bind_stmt_def result_simps\<close>)

end
