(* ===== verification/Sql_Emit_Select.thy ===== *)
theory Sql_Emit_Select
  imports Sql_Emit_Laws Pol_Outcome
begin

text \<open>
  The rows of an emitted select (\<^verbatim>\<open>src/crates/policysql-sqlite/src/lib.rs\<close>) are those of the protected plan it was
  emitted from, and with the policy compiler's law those the role's view has
  (\<^verbatim>\<open>src/crates/policysql-policy/src/lib.rs\<close>).
\<close>

section \<open>Aliases\<close>

definition aliases_below :: "alias_state \<Rightarrow> bool" where
  "aliases_below st = (case st of (al, next) \<Rightarrow> separate al \<and> (\<forall>r a. bt_get al r = Some a \<longrightarrow> (\<exists>k < next. a = table_alias k)))"

lemma table_alias_inj [simp]: "table_alias j = table_alias k \<longleftrightarrow> j = k"
  by (simp add: table_alias_def show_nat_inj)

lemma aliases_below_insert:
  "aliases_below (al, next) \<Longrightarrow> aliases_below (bt_insert r (table_alias next) al, next + 1)"
proof -
  assume below: "aliases_below (al, next)"
  then have "bt_get al r' \<noteq> Some (table_alias next)" for r' unfolding aliases_below_def by force
  with below show ?thesis unfolding aliases_below_def separate_def by (auto split: if_splits) (blast intro: less_SucI)
qed

lemma aliases_below_fold:
  assumes "\<And>x st. x \<in> set xs \<Longrightarrow> aliases_below st \<Longrightarrow> aliases_below (f x st)" and "aliases_below st"
  shows "aliases_below (fold f xs st)"
  using assms by (induction xs arbitrary: st) auto

lemma nested_aliases_below: "aliases_below st \<Longrightarrow> aliases_below (allocate_nested_aliases e st)"
proof (induction e st rule: allocate_nested_aliases.induct)
  case (1 r al js ps pr gb hv ob li off aliases "next")
  then show ?case
    using aliases_below_insert [of aliases "next" r] by (auto simp: Let_def split: option.splits)
next
  case (20 branches els t st)
  have "aliases_below (fold (\<lambda>b s. allocate_nested_aliases (snd b) (allocate_nested_aliases (fst b) s)) branches st)"
    by (rule aliases_below_fold) (use 20 in auto)
  with 20(3) show ?case by (auto simp: Let_def split: option.splits)
qed (auto intro!: aliases_below_fold)

lemma join_aliases_below:
  assumes "aliases_below (al, Suc n)"
  shows "aliases_below (fold (\<lambda>(index, join) (aliases, next).
     (bt_insert (jn_resource join) (table_alias (index + 1)) aliases, index + 2)) (enumerate n js) (al, Suc n))"
  using assms
proof (induction js arbitrary: al n)
  case (Cons j js)
  from Cons.IH [OF aliases_below_insert [OF Cons.prems, of "jn_resource j", simplified]] show ?case by simp
qed simp

lemma select_aliases_separate: "separate (aliases_for_statement (Select s))"
proof -
  have "table_alias 0 = TABLE_ALIAS" by code_simp
  then have "aliases_below ([(bs_resource s, TABLE_ALIAS)], Suc 0)"
    by (auto simp: aliases_below_def separate_def bt_get_def split: if_splits intro!: exI [of _ "0 :: nat"])
  then have "aliases_below (join_aliases (bs_joins s) ([(bs_resource s, TABLE_ALIAS)], 1))"
    unfolding join_aliases_def using join_aliases_below [of _ 0] by simp
  then have "aliases_below (case bs_predicate s of None \<Rightarrow> join_aliases (bs_joins s) ([(bs_resource s, TABLE_ALIAS)], 1)
      | Some p \<Rightarrow> allocate_nested_aliases p (join_aliases (bs_joins s) ([(bs_resource s, TABLE_ALIAS)], 1)))"
    by (auto intro: nested_aliases_below split: option.splits)
  then show ?thesis
    unfolding aliases_for_statement_def Let_def bound_statement.case aliases_below_def case_prod_beta by blast
qed

section \<open>Rows\<close>

lemma list_all2_concat_map:
  assumes "list_all2 R xs ys" and "\<And>x y. R x y \<Longrightarrow> list_all2 S (f x) (g y)"
  shows "list_all2 S (concat (map f xs)) (concat (map g ys))"
  using assms(1) by (induction rule: list_all2_induct) (auto intro: list_all2_appendI assms(2))

lemma list_all2_filter_same:
  assumes "list_all2 R xs ys" and "\<And>x y. R x y \<Longrightarrow> p x = q y"
  shows "list_all2 R (filter p xs) (filter q ys)"
  using assms(1) by (induction rule: list_all2_induct) (auto dest: assms(2))

abbreviation decides :: "dbms \<Rightarrow> (string option \<Rightarrow> logical_value) \<Rightarrow> tables \<Rightarrow> holds_in" where
  "decides d b tables \<equiv> \<lambda>scope x. is_true d (eval_ast d b tables scope x)"

lemma tree_holds:
  assumes "tree_means c al sv u e x" "reads_integers d" "related c al env scope"
  shows "decides d (bound_values (es_server_parameters u) clients) tables scope x = holds (sql_of d clients) sv (logical c tables) env e"
  using assms by (simp add: tree_means_def holds_def is_true_def truth_same)

lemma logical_rows: "resource_by_id c r = Some resource \<Longrightarrow> logical c tables r = map (lrow c r) (tables (rd_source resource))"
  by (simp add: logical_def)

lemma join_scopes_related:
  assumes j: "join_means c al sv u j x" and "separate al" and d: "reads_integers d" and rel: "related c al env scope"
  shows "list_all2 (related c al) (join_rows (sql_of d clients) sv (logical c tables) (logical c tables) env j)
    (join_scopes (decides d (bound_values (es_server_parameters u) clients) tables) tables scope x)"
proof -
  obtain resource a on where r: "resource_by_id c (jn_resource j) = Some resource" and a: "bt_get al (jn_resource j) = Some a"
    and on: "tree_means c al sv u (jn_on j) on" and x: "x = JoinedSelectTable (join_operator_of (jn_kind j))
       (St_Table (qualified_name_of (rd_source resource)) (Some (alias_of a)) False) (Some (Jc_On on))"
    using j by (auto simp: join_means_def)
  let ?rows = "tables (rd_source resource)" and ?r = "jn_resource j"
  let ?h = "\<lambda>row. decides d (bound_values (es_server_parameters u) clients) tables (scope(a \<mapsto> row)) on"
  have up: "related c al (env(?r \<mapsto> lrow c ?r row)) (scope(a \<mapsto> row))" for row
    by (rule related_update [OF rel assms(2) a])
  have h: "holds (sql_of d clients) sv (logical c tables) (env(?r \<mapsto> lrow c ?r row)) (jn_on j) = ?h row" for row
    by (rule tree_holds [OF on d up, symmetric])
  have m: "filter (\<lambda>row. holds (sql_of d clients) sv (logical c tables) (env(?r \<mapsto> row)) (jn_on j)) (logical c tables ?r) =
      map (lrow c ?r) (filter ?h ?rows)"
    by (simp add: logical_rows [OF r] filter_map comp_def h)
  have k: "(join_operator_of (jn_kind j) = Jo_TypedJoin (Some {Jf_Left})) = (jn_kind j = JoinLeft)"
    by (auto simp: join_operator_of_def split: join_kind.splits)
  have "list_all2 (related c al) (map (\<lambda>row. env(?r \<mapsto> row)) (map (lrow c ?r) rows)) (map (\<lambda>row. scope(a \<mapsto> row)) rows)" for rows
    by (auto simp: list_all2_conv_all_nth simp del: fun_upd_apply intro: up)
  with up [of "\<lambda>_. LV_Null"] show ?thesis
    by (simp add: join_rows_def join_scopes_def x table_scan_def alias_of_def qualified_name_of_def qualified_single_def
        constraint_holds_def m Let_def k lrow_null)
qed

lemma joined_scopes_related:
  assumes "list_all2 (join_means c al sv u) js xs" and "separate al" and "reads_integers d" and "related c al env scope"
  shows "list_all2 (related c al) (joined_rows (sql_of d clients) sv (logical c tables) (logical c tables) env js)
    (joined_scopes (decides d (bound_values (es_server_parameters u) clients) tables) tables scope xs)"
  using assms(1,4)
proof (induction arbitrary: env scope rule: list_all2_induct)
  case (Cons j js x xs)
  show ?case
    using list_all2_concat_map [OF join_scopes_related [OF Cons(1) assms(2,3) Cons.prems] Cons.IH] by simp
qed simp

lemma select_scopes_related:
  assumes s: "select_means c al sv (rd_source resource) u sel s" and r: "resource_by_id c (bs_resource sel) = Some resource"
    and al: "separate al" and d: "reads_integers d"
  shows "list_all2 (related c al) (where_rows (sql_of d clients) sv (logical c tables) (logical c tables) sel)
    (select_scopes (decides d (bound_values (es_server_parameters u) clients) tables) tables Map.empty s)"
proof -
  obtain a columns joins wh gb ob li where a: "bt_get al (bs_resource sel) = Some a"
    and s': "s = select_statement (concat columns)
       (Some (FromClause (St_Table (qualified_name_of (rd_source resource)) (Some (alias_of a)) False) joins)) wh gb ob li"
    and js: "list_all2 (join_means c al sv u) (bs_joins sel) joins" and wh: "rel_option (tree_means c al sv u) (bs_predicate sel) wh"
    using s by (auto simp: select_means_def)
  let ?r = "bs_resource sel"
  have start: "related c al [?r \<mapsto> lrow c ?r row] [a \<mapsto> row]" for row
    using related_update [OF _ al a, of c Map.empty Map.empty row] by (simp add: related_def)
  have "list_all2 (\<lambda>row prow. row = lrow c ?r prow) (logical c tables ?r) (tables (rd_source resource))"
    by (simp add: logical_rows [OF r] list_all2_map1 list.rel_refl)
  then have rows: "list_all2 (related c al)
      (concat (map (\<lambda>row. joined_rows (sql_of d clients) sv (logical c tables) (logical c tables) [?r \<mapsto> row] (bs_joins sel)) (logical c tables ?r)))
      (concat (map (\<lambda>row. joined_scopes (decides d (bound_values (es_server_parameters u) clients) tables) tables [a \<mapsto> row] joins)
        (tables (rd_source resource))))"
    by (rule list_all2_concat_map) (auto intro: joined_scopes_related [OF js al d start])
  have "holds_opt (sql_of d clients) sv (logical c tables) env (bs_predicate sel) =
      is_none_or (decides d (bound_values (es_server_parameters u) clients) tables scope) wh" if "related c al env scope" for env scope
    using wh by (cases rule: option.rel_cases) (auto simp: holds_opt_def tree_holds [OF _ d that])
  from list_all2_filter_same [OF rows this] show ?thesis
    by (simp add: where_rows_def select_scopes_def s' select_statement_def from_scopes_def table_scan_def alias_of_def
        qualified_name_of_def qualified_single_def)
qed

section \<open>Output\<close>

text \<open>What is read of a row of an emitted select: its result columns by name, without the columns that
  tell whether a conditional column is visible, the grouping keys, \<open>HAVING\<close> and the sort keys.\<close>

definition column_value :: "(expr \<Rightarrow> logical_value) \<Rightarrow> expr result_column \<Rightarrow> (string \<times> logical_value) list" where
  "column_value f column = (case column of Rc_Expr x (Some a) \<Rightarrow> [(name_str (as_name a), f x)] | _ \<Rightarrow> [])"

definition data_columns :: "(expr \<Rightarrow> logical_value) \<Rightarrow> expr result_column list \<Rightarrow> (string \<times> logical_value) list" where
  "data_columns f columns = filter (\<lambda>(n, v). \<not> starts_with VISIBILITY_COLUMN_PREFIX n) (concat (map (column_value f) columns))"

definition tree_row :: "(expr \<Rightarrow> logical_value) \<Rightarrow> select \<Rightarrow>
  (string \<times> logical_value) list \<times> logical_value list \<times> logical_value option \<times> logical_value list" where
  "tree_row f s = (case sn_body s of
       OneSelect _ columns _ _ group_by _ \<Rightarrow>
         (data_columns f columns, (case group_by of None \<Rightarrow> [] | Some g \<Rightarrow> map f (gb_exprs g)),
          Option.bind group_by (\<lambda>g. map_option f (gb_having g)), map (\<lambda>x. f (sc_expr x)) (sn_order_by s))
     | Values _ \<Rightarrow> ([], [], None, []))"

definition tree_output :: "dbms \<Rightarrow> (string option \<Rightarrow> logical_value) \<Rightarrow> tables \<Rightarrow> select \<Rightarrow>
  ((string \<times> logical_value) list \<times> logical_value list \<times> logical_value option \<times> logical_value list) list" where
  "tree_output d b tables s =
     map (\<lambda>scope. tree_row (eval_ast d b tables scope) s) (select_scopes (decides d b tables) tables Map.empty s)"

definition named_row :: "bound_select \<Rightarrow> logical_value list \<times> 'a \<Rightarrow> (string \<times> logical_value) list \<times> 'a" where
  "named_row sel row = (case row of (vs, rest) \<Rightarrow> (zip (map pj_output_name (bs_projections sel)) vs, rest))"

definition plain_select :: "server_values \<Rightarrow> bound_select \<Rightarrow> bool" where
  "plain_select sv sel = ((\<forall>e \<in> select_parts sel. plain sv e) \<and>
     (\<forall>p \<in> set (bs_projections sel). \<not> starts_with VISIBILITY_COLUMN_PREFIX (pj_output_name p)))"

lemma starts_with_prefix: "starts_with p (p @ s)"
  by (simp add: starts_with_def)

lemma projection_column:
  assumes "projection_means c al sv u (i, p) columns" "reads_integers d" "related c al env scope"
    and "\<not> starts_with VISIBILITY_COLUMN_PREFIX (pj_output_name p)"
  shows "data_columns (eval_ast d (bound_values (es_server_parameters u) clients) tables scope) columns =
    [(pj_output_name p, eval (sql_of d clients) sv (logical c tables) env (pj_expression p))]"
proof -
  obtain x where x: "tree_means c al sv u (pj_expression p) x" and cases: "case pj_expression p of
      ConditionalOutput _ w \<Rightarrow> \<exists>y. tree_means c al sv u w y \<and> columns = [Rc_Expr x (Some (alias_of (pj_output_name p))),
        Rc_Expr (truth_case y) (Some (alias_of (VISIBILITY_COLUMN_PREFIX @ show_nat i)))]
    | _ \<Rightarrow> columns = [Rc_Expr x (Some (alias_of (pj_output_name p)))]"
    using assms(1) by (auto simp: projection_means_def)
  have "columns = [Rc_Expr x (Some (alias_of (pj_output_name p)))] \<or> (\<exists>y. columns = [Rc_Expr x (Some (alias_of (pj_output_name p))),
      Rc_Expr (truth_case y) (Some (alias_of (VISIBILITY_COLUMN_PREFIX @ show_nat i)))])"
    using cases by (cases "pj_expression p") auto
  moreover have "eval_ast d (bound_values (es_server_parameters u) clients) tables scope x =
      eval (sql_of d clients) sv (logical c tables) env (pj_expression p)"
    using x assms(2,3) by (simp add: tree_means_def)
  ultimately show ?thesis
    using assms(4) by (auto simp: data_columns_def column_value_def alias_of_def starts_with_prefix)
qed

lemma projection_columns:
  assumes "list_all2 (projection_means c al sv u) (enumerate n ps) columns" "reads_integers d" "related c al env scope"
    and "\<forall>p \<in> set ps. \<not> starts_with VISIBILITY_COLUMN_PREFIX (pj_output_name p)"
  shows "data_columns (eval_ast d (bound_values (es_server_parameters u) clients) tables scope) (concat columns) =
    zip (map pj_output_name ps) (map (\<lambda>p. eval (sql_of d clients) sv (logical c tables) env (pj_expression p)) ps)"
  using assms(1,4)
proof (induction ps arbitrary: n columns)
  case Nil
  then show ?case by (simp add: data_columns_def)
next
  case (Cons p ps)
  then obtain x xs where columns: "columns = x # xs" and x: "projection_means c al sv u (n, p) x"
    and xs: "list_all2 (projection_means c al sv u) (enumerate (Suc n) ps) xs"
    by (auto simp: list_all2_Cons1)
  have append: "data_columns f (a @ b) = data_columns f a @ data_columns f b" for f a b by (simp add: data_columns_def)
  show ?case
    using Cons.IH [OF xs] projection_column [OF x assms(2,3), of clients tables] Cons.prems(2) by (simp add: columns append)
qed

lemma tree_row_means:
  assumes s: "select_means c al sv source u sel s" and d: "reads_integers d" and rel: "related c al env scope"
    and names: "\<forall>p \<in> set (bs_projections sel). \<not> starts_with VISIBILITY_COLUMN_PREFIX (pj_output_name p)"
  shows "tree_row (eval_ast d (bound_values (es_server_parameters u) clients) tables scope) s =
    named_row sel (row_output (sql_of d clients) sv (logical c tables) sel env)"
proof -
  let ?f = "eval_ast d (bound_values (es_server_parameters u) clients) tables scope"
  let ?g = "eval (sql_of d clients) sv (logical c tables) env"
  obtain a columns joins wh gb ob li where s': "s = select_statement (concat columns)
       (Some (FromClause (St_Table (qualified_name_of source) (Some (alias_of a)) False) joins)) wh gb ob li"
    and cs: "list_all2 (projection_means c al sv u) (enumerate 0 (bs_projections sel)) columns"
    and gb: "group_means c al sv u sel gb" and ob: "list_all2 (sorted_means c al sv u) (bs_order_by sel) ob"
    using s by (auto simp: select_means_def)
  have "map (\<lambda>x. ?f (sc_expr x)) ob = map (\<lambda>o'. ?g (od_expression o')) (bs_order_by sel)"
    using ob by (induction rule: list_all2_induct) (use d rel in \<open>auto simp: sorted_means_def tree_means_def\<close>)
  moreover have "(case gb of None \<Rightarrow> [] | Some g \<Rightarrow> map ?f (gb_exprs g)) = map (\<lambda>c. env_get env (bc_id c)) (bs_group_by sel)"
    using gb trees_same [OF _ d rel, of sv u "map Column (bs_group_by sel)"] by (cases gb) (auto simp: group_means_def comp_def)
  moreover have "Option.bind gb (\<lambda>g. map_option ?f (gb_having g)) = map_option ?g (bs_having sel)"
  proof (cases gb)
    case (Some g)
    then have "rel_option (tree_means c al sv u) (bs_having sel) (gb_having g)" using gb by (simp add: group_means_def)
    then show ?thesis using Some d rel by (cases rule: option.rel_cases) (auto simp: tree_means_def)
  qed (use gb in \<open>simp add: group_means_def\<close>)
  ultimately show ?thesis
    using projection_columns [OF cs d rel names, of clients tables]
    by (simp add: tree_row_def s' select_statement_def named_row_def row_output_def)
qed

section \<open>The emitted select\<close>

lemma emit_start_ok:
  assumes "sv_ok session (pp_server_values plan)"
  shows "emit_ok (aliases_for_statement (pp_statement plan)) (pp_server_values plan) (emit_start plan)"
proof -
  have "starts_with SERVER_PARAMETER_PREFIX n" if "bt_get (pp_server_values plan) n = Some v" for n v
  proof -
    obtain key where "n = session_parameter key" using assms \<open>bt_get _ n = Some v\<close> unfolding sv_ok_def by blast
    then show ?thesis by (simp add: session_parameter_def starts_with_prefix)
  qed
  moreover have "bt_get (pp_server_values plan) (literal_name k) = None" for k
  proof (rule ccontr)
    assume "bt_get (pp_server_values plan) (literal_name k) \<noteq> None"
    then obtain key where "literal_name k = session_parameter key" using assms by (auto simp: sv_ok_def)
    then show False by (simp add: literal_name_def session_parameter_def)
  qed
  ultimately show ?thesis
    by (auto simp: emit_ok_def emit_start_def holds_all_def reserved_names_def)
qed

lemma emit_accepted:
  assumes "emit fmt print depth plan c = Inr em"
  obtains st s m where "emit_statement fmt plan c (emit_start plan) = Inr (st, s)" "measure_stmt st = Inr m"
    "ms_columns m \<le> MAX_RESULT_COLUMNS" "es_next_parameter s \<le> MAX_HOST_PARAMETERS" "\<not> height_exceeded depth m"
    "\<not> recursion_exceeded depth m" "em = \<lparr>em_sql = print st, em_server_parameters = es_server_parameters s,
      em_column_metadata_bytes = column_metadata (es_columns s), em_pattern_variables = ms_pattern_variables m\<rparr>"
proof -
  obtain st s where st: "emit_statement fmt plan c (emit_start plan) = Inr (st, s)"
    using assms by (auto simp: emit_def result_simps)
  then show ?thesis
    using assms that by (cases "measure_stmt st") (auto simp: emit_def split: if_splits)
qed

lemma emitted_select_tree:
  assumes "emit fmt print depth plan c = Inr em" and st: "pp_statement plan = Select sel"
    and sv: "sv_ok session (pp_server_values plan)" and plain: "\<forall>e \<in> select_parts sel. plain (pp_server_values plan) e"
  obtains node u resource where "em_sql em = print (Stmt_Select node)" "em_server_parameters em = es_server_parameters u"
    "resource_by_id c (bs_resource sel) = Some resource"
    "select_means c (aliases_for_statement (Select sel)) (pp_server_values plan) (rd_source resource) u sel node"
proof -
  let ?al = "aliases_for_statement (Select sel)"
  obtain node u resource where run: "select_node (emit_expr fmt c) c (rd_source resource) sel (emit_start plan) = Inr (node, u)"
    and r: "resource_by_id c (bs_resource sel) = Some resource"
    and em: "em_sql em = print (Stmt_Select node)" "em_server_parameters em = es_server_parameters u"
    using assms(1) by (auto simp: emit_statement_def st emit_select_def result_simps Let_def elim!: emit_accepted)
  have "em.extends ?al (pp_server_values plan) (\<lambda>u s. select_means c ?al (pp_server_values plan) (rd_source resource) u sel s)
      (select_node (emit_expr fmt c) c (rd_source resource) sel)"
    by (intro select_node_extends emit_expr_means select_aliases_separate) (use plain in blast)
  from em.extendsD(3) [OF this emit_start_ok [OF sv, unfolded st] run em.le_refl] em r show ?thesis using that by blast
qed

lemma emitted_select_rows:
  assumes "emit fmt print depth plan c = Inr em" and "pp_statement plan = Select sel"
    and "sv_ok session (pp_server_values plan)" and "plain_select (pp_server_values plan) sel"
  shows "\<exists>node. em_sql em = print (Stmt_Select node) \<and>
    (\<forall>d clients tables. reads_integers d \<longrightarrow>
       tree_output d (bound_values (em_server_parameters em) clients) tables node =
       map (named_row sel) (select_output (sql_of d clients) (pp_server_values plan) (logical c tables) (logical c tables) sel))"
proof -
  obtain node u resource where em: "em_sql em = print (Stmt_Select node)" "em_server_parameters em = es_server_parameters u"
    and r: "resource_by_id c (bs_resource sel) = Some resource"
    and s: "select_means c (aliases_for_statement (Select sel)) (pp_server_values plan) (rd_source resource) u sel node"
    using assms by (auto simp: plain_select_def elim: emitted_select_tree [OF assms(1,2,3)])
  have names: "\<forall>p \<in> set (bs_projections sel). \<not> starts_with VISIBILITY_COLUMN_PREFIX (pj_output_name p)"
    using assms(4) by (simp add: plain_select_def)
  have "tree_output d (bound_values (em_server_parameters em) clients) tables node =
      map (named_row sel) (select_output (sql_of d clients) (pp_server_values plan) (logical c tables) (logical c tables) sel)"
    if d: "reads_integers d" for d clients tables
    using select_scopes_related [OF s r select_aliases_separate d, of clients tables]
    unfolding tree_output_def select_output_def em(2) map_map comp_def
    by (induction rule: list_all2_induct) (auto simp: tree_row_means [OF s d _ names])
  with em(1) show ?thesis by blast
qed

text \<open>
  C18. The emitter is correct for selects. The statement that is printed, run on the database's tables
  with the parameters bound to it, returns row by row what the protected plan returns: the same
  result columns by name, the same grouping keys, \<open>HAVING\<close> and sort keys, whatever the database's own
  operations are, as long as it reads the decimal digits of an integer as that integer.
\<close>

theorem emitted_select_keeps_rows:
  assumes "emit fmt print depth plan c = Inr em" and "pp_statement plan = Select sel"
    and "sv_ok session (pp_server_values plan)" and "plain_select (pp_server_values plan) sel"
  shows "\<exists>node. em_sql em = print (Stmt_Select node) \<and>
    (\<forall>d clients tables. reads_integers d \<longrightarrow>
       tree_output d (bound_values (em_server_parameters em) clients) tables node =
       map (named_row sel) (select_output (sql_of d clients) (pp_server_values plan) (logical c tables) (logical c tables) sel))"
  by (rule emitted_select_rows [OF assms])

text \<open>The names of a compiled select's columns are the client's.\<close>

lemma permission_keeps_names:
  "apply_projection_permissions sel session ps sv = Inr (ps', sv') \<Longrightarrow> map pj_output_name ps' = map pj_output_name ps"
  unfolding apply_projection_permissions_def
proof (induction ps arbitrary: ps' sv)
  case (Cons p ps)
  then obtain p' sv1 qs where p: "apply_projection_permission sel session p sv = Inr (p', sv1)"
    and qs: "traverse_st (apply_projection_permission sel session) ps sv1 = Inr (qs, sv')" and ps': "ps' = p' # qs"
    by (auto simp: result_simps)
  have "pj_output_name p' = pj_output_name p"
    using p by (auto simp: apply_projection_permission_def result_simps split: bound_expr.splits if_splits)
  with Cons.IH [OF qs] ps' show ?case by simp
qed simp

lemma compiled_select_names:
  assumes "compile_select b (Select s) session = Inr out" and "pp_statement (co_plan out) = Select s'"
  shows "map pj_output_name (bs_projections s') = map pj_output_name (bs_projections s)"
proof -
  obtain rs sel ps sv1 s2 sv where run: "apply_projection_permissions sel session (bs_projections s) [] = Inr (ps, sv1)"
    "protect_rows sel session (set_projections ps s) sv1 = Inr (s2, sv)"
    and out: "pp_statement (co_plan out) = Select (apply_policy_limit s2 (policy_limit_of sel))"
    using assms(1) by (auto simp: compile_select_def compile_bound_select_def result_simps Let_def)
  have "bs_projections s2 = ps" using run(2) by (auto simp: protect_rows_def result_simps)
  moreover have "bs_projections (apply_policy_limit t l) = bs_projections t" for t l
    by (cases t) (auto simp: apply_policy_limit_def Let_def split: option.splits)
  ultimately show ?thesis using permission_keeps_names [OF run(1)] out assms(2) by simp
qed

text \<open>From the policy to the printed statement: what reaches the database reads the role's view.\<close>

lemma emitted_query_view:
  assumes "catalog_ok c" and "activate_with_value_limit dec from_yaml y c snapshot n = Inr b"
    and "compile_select b (Select s) session = Inr out" and "query_shape s"
    and "pp_statement (co_plan out) = Select s'" and "plain_select (pp_server_values (co_plan out)) s'"
    and "emit fmt print depth (co_plan out) c = Inr em"
  shows "\<exists>node. em_sql em = print (Stmt_Select node) \<and>
    (\<forall>d clients tables. reads_integers d \<longrightarrow>
       tree_output d (bound_values (em_server_parameters em) clients) tables node =
       map (named_row s) (select_output (sql_of d clients) (pp_server_values (co_plan out))
         (view (sql_of d clients) session (plan_policies b session out) (logical c tables))
         (nested_view (sql_of d clients) session (plan_policies b session out) (logical c tables)) s))"
proof -
  have sv: "sv_ok session (pp_server_values (co_plan out))"
    using assms(3) by (intro compiled_sv [of b "Select s"]) (simp add: compiles_def)
  have "named_row s' = (named_row s :: logical_value list \<times> logical_value list \<times> logical_value option \<times> logical_value list \<Rightarrow> _)"
    using compiled_select_names [OF assms(3,5)] by (auto simp: named_row_def fun_eq_iff)
  moreover have "select_output sq (pp_server_values (co_plan out)) db db s' =
      select_output sq (pp_server_values (co_plan out)) (view sq session (plan_policies b session out) db)
        (nested_view sq session (plan_policies b session out) db) s" for sq db
    using compiled_select_view [OF activate_with_value_limit_ok [OF assms(1,2)] assms(3,4)] assms(5) by force
  ultimately show ?thesis using emitted_select_rows [OF assms(7,5) sv assms(6)] by simp
qed

end
