(* ===== verification/Sql_Emit_Demo.thy ===== *)
theory Sql_Emit_Demo
  imports Sql_Emit_Select
begin

text \<open>
  The select of the demonstration bundle, emitted: the tree it prints, what the counter measures of it, and
  the laws of \<open>Sql_Emit_Select\<close> applied to it.
\<close>

text \<open>A database that reads decimal digits, and the query of the demonstration bundle, emitted.\<close>

definition read_nat :: "string \<Rightarrow> nat" where
  "read_nat s = foldl (\<lambda>n c. 10 * n + (byte c - 48)) 0 s"

lemma read_show_nat: "read_nat (show_nat n) = n"
proof (induction n rule: show_nat.induct)
  case (1 n)
  have "byte (char_of (48 + m)) - 48 = m" if "m < 10" for m :: nat using that by (simp add: byte_char_of)
  with 1 show ?case by (cases "n < 10") (simp_all add: show_nat.simps [of n] read_nat_def)
qed

definition demo_dbms :: dbms where
  "demo_dbms = \<lparr>db_compare = (\<lambda>op l r. LV_Boolean (l = r)), db_like = (\<lambda>op l r. LV_Boolean (l = r)),
     db_in = (\<lambda>v vs negated. LV_Boolean ((v \<in> set vs) \<noteq> negated)), db_concat = (\<lambda>l r. l), db_cast = (\<lambda>t v. v),
     db_function = (\<lambda>f vs. LV_Null), db_truth_other = (\<lambda>v. None), db_count = LV_Int64 0, db_row_number = (\<lambda>ps os. LV_Int64 1),
     db_numeric = (\<lambda>t. LV_Int64 (int (read_nat t))), db_negate = (\<lambda>v. case v of LV_Int64 i \<Rightarrow> LV_Int64 (- i) | _ \<Rightarrow> LV_Null)\<rparr>"

lemma demo_reads_integers: "reads_integers demo_dbms"
  by (simp add: reads_integers_def demo_dbms_def read_show_nat)

text \<open>Evaluation goes step by step: a continuation waits for its value.\<close>

lemma try_ok_weak_cong: "r = r' \<Longrightarrow> try_ok r k = try_ok r' k"
  by simp

definition operand_height :: "unit + nat \<times> measure_counts \<Rightarrow> unit + nat \<times> measure_counts" where
  "operand_height r = try_ok r (\<lambda>(h, m). Inr (h, m\<lparr>ms_height := max (ms_height m) h\<rparr>))"

lemma operand_height_Inr: "operand_height (Inr (h, m)) = Inr (h, m\<lparr>ms_height := max (ms_height m) h\<rparr>)"
  by (simp add: operand_height_def)

lemma spine_simps:
  "spine (E_Binary l op r) frame m =
     try_ok (spine l frame m) (\<lambda>(h, m). try_ok (expression r frame m) (\<lambda>(right, m). wrapped False h right m))"
  "spine (E_Literal lit) frame m = operand_height (Inr (1, m))"
  "spine (E_Qualified q n) frame m = operand_height (Inr (1, m))"
  "spine (E_Variable v i) frame m = operand_height (Inr (1, m))"
  "spine (E_Parenthesized es) frame m = operand_height (try_ok (heights expression es frame m) (\<lambda>(h, m). Inr (1 + h, m)))"
  "spine (E_Exists s) frame m = operand_height (try_ok (select_at s frame m) (\<lambda>(_, m). Inr (1, m)))"
  "spine (E_Case base pairs els) frame m =
     operand_height (try_ok (heights expression (case_parts base pairs els) frame m) (\<lambda>(h, m). Inr (1 + h, m)))"
  by (subst spine.simps, simp add: operand.simps operand_height_def)+

lemma heights_simps:
  "heights f [] base m = Inr (0, m)"
  "heights f (e # es) base m = try_ok (f e base m) (\<lambda>(h, m). try_ok (heights f es base m) (\<lambda>(k, m). Inr (max h k, m)))"
  "each f [] base m = Inr ((), m)"
  "each f (e # es) base m = try_ok (f e base m) (\<lambda>(_, m). each f es base m)"
proof -
  have t: "foldl max h hs = max h (tallest hs)" for h :: nat and hs
    unfolding tallest_def
  proof (induction hs arbitrary: h)
    case (Cons x hs)
    show ?case using Cons [of "max h x"] Cons [of x] by simp
  qed simp
  have c: "tallest (h # hs) = max h (tallest hs)" for h hs
    using t [of h hs] by (simp add: tallest_def)
  show "heights f [] base m = Inr (0, m)" "each f [] base m = Inr ((), m)" by (simp_all add: heights_def each_def tallest_def)
  show "heights f (e # es) base m = try_ok (f e base m) (\<lambda>(h, m). try_ok (heights f es base m) (\<lambda>(k, m). Inr (max h k, m)))"
    by (cases "f e base m"; cases "traverse_st (\<lambda>e. f e base) es (snd (projr (f e base m)))")
      (auto simp: heights_def c)
  show "each f (e # es) base m = try_ok (f e base m) (\<lambda>(_, m). each f es base m)"
    by (cases "f e base m"; cases "traverse_st (\<lambda>e. f e base) es (snd (projr (f e base m)))") (auto simp: each_def)
qed

lemmas emit_example_defs = emit_statement_def emit_select_def select_node_def demo_output_def demo_plan_def demo_protected_def
  emit_start_def aliases_for_statement_def join_aliases_def demo_nested_def demo_filter_def demo_ref_def Let_def bt_has_def
  bt_get_def table_alias_def show_nat.simps TABLE_ALIAS_def emit_column_def demo_defs resource_by_id_def column_by_id_def
  demo_sv_def emit_parameter_def checked_add_def u32_max_def emit_group_def emit_limit_def emit_projections_def
  emit_projection_def optionally_def emit_literal_def show_int_def push_column_def

definition demo_equal :: "string \<Rightarrow> string \<Rightarrow> string \<Rightarrow> nat \<Rightarrow> expr" where
  "demo_equal a column variable i =
     parenthesized (E_Binary (E_Qualified (quoted_name a) (quoted_name column)) Op_Equals (E_Variable (Some variable) i))"

lemma demo_equal_counted:
  "spine (demo_equal a column variable i) frame m =
     Inr (3, m\<lparr>ms_recursion := max (ms_recursion m) (frame + 2), ms_height := max (ms_height m) 3\<rparr>)"
  by (simp add: demo_equal_def parenthesized_def spine_simps operand_height_Inr heights_simps expression.simps wrapped_def
      cong: try_ok_weak_cong)

definition demo_nested_tree :: select where
  "demo_nested_tree = select_statement [Rc_Expr (E_Literal (Lit_Numeric (show_nat 1))) (Some (alias_of ''exists_value''))]
         (Some (FromClause (St_Table (qualified_name_of ''secrets'') (Some (alias_of (table_alias 1))) False) []))
         (Some (parenthesized (E_Binary (demo_equal (table_alias 1) ''owner'' '':who'' 2) Op_And
           (demo_equal (table_alias 1) ''owner'' '':__policysql_session_tenant_id'' 1)))) None [] None"

definition demo_tree :: select where
  "demo_tree = select_statement
     [Rc_Expr (E_Qualified (quoted_name ''__policysql_t0'') (quoted_name ''name'')) (Some (alias_of ''name'')),
      Rc_Expr (E_Case None [(demo_equal ''__policysql_t0'' ''note'' '':__policysql_session_tenant_id'' 1,
          E_Qualified (quoted_name ''__policysql_t0'') (quoted_name ''note''))] (Some (E_Literal Lit_Null))) (Some (alias_of ''note'')),
      Rc_Expr (truth_case (demo_equal ''__policysql_t0'' ''note'' '':__policysql_session_tenant_id'' 1))
        (Some (alias_of (VISIBILITY_COLUMN_PREFIX @ show_nat 1)))]
     (Some (FromClause (St_Table (qualified_name_of ''projects'') (Some (alias_of ''__policysql_t0'')) False) []))
     (Some (parenthesized (E_Binary
       (E_Exists demo_nested_tree)
       Op_And (demo_equal ''__policysql_t0'' ''tenant'' '':__policysql_session_tenant_id'' 1))))
     None [] (Some (Limit (E_Literal (Lit_Numeric (show_nat 10))) None))"

definition demo_columns :: "emitted_column list" where
  "demo_columns = map (\<lambda>name. \<lparr>ec_alias_bytes = length name, ec_declared_type_bytes = 0\<rparr>)
     [''name'', ''note'', VISIBILITY_COLUMN_PREFIX @ show_nat 1]"

lemma demo_tree_emitted:
  "\<exists>u. emit_statement (\<lambda>_. []) (co_plan demo_output) demo_catalog (emit_start (co_plan demo_output)) = Inr (Stmt_Select demo_tree, u) \<and>
    es_next_parameter u = 2 \<and> es_server_parameters u = demo_sv \<and> es_columns u = demo_columns"
  by (simp add: emit_example_defs demo_tree_def demo_nested_tree_def demo_equal_def numeral_2_eq_2 demo_columns_def declared_type_bytes_of_def direct_column_def
      cong: try_ok_weak_cong)

lemma select_statement_counted:
  "select_at (select_statement columns from where_clause group_by order_by limit) base m =
     try_ok (one_select_at expression table_at (OneSelect False columns from where_clause group_by False) base m) (\<lambda>(_, m).
     try_ok (sorted_columns expression order_by base m) (\<lambda>(_, m). limit_at expression limit base m))"
  by (simp add: select_at.simps select_statement_def)

lemma no_sorted_columns: "sorted_columns f [] base m = Inr ((), m)"
  by (simp add: sorted_columns_def heights_simps)

lemmas count_select_defs = select_statement_counted table_at.simps one_select_at_def result_columns_def
  result_column_at_def from_at_def join_at_def option_list_def no_sorted_columns limit_at_def

lemmas count_expr_defs = heights_simps expression.simps spine_simps operand_height_Inr wrapped_def parenthesized_def
  demo_equal_counted

lemma demo_nested_counted:
  "select_at demo_nested_tree base m = Inr ((), m\<lparr>ms_columns := max (ms_columns m) 1,
     ms_recursion := max (ms_recursion m) (base + 5), ms_height := max (ms_height m) 5\<rparr>)"
  by (simp add: demo_nested_tree_def count_select_defs count_expr_defs max.assoc cong: try_ok_weak_cong)

lemma demo_tree_counted:
  "\<exists>m. measure_stmt (Stmt_Select demo_tree) = Inr m \<and> ms_columns m \<le> 3 \<and> ms_height m \<le> 20 \<and> ms_recursion m \<le> 20 \<and>
     ms_pattern_variables m = []"
  by (simp add: demo_tree_def measure_stmt_def count_statement_def measure_default_def demo_nested_counted truth_case_def case_parts_def
      count_select_defs count_expr_defs cong: try_ok_weak_cong)

lemma demo_emits:
  "\<exists>em. emit (\<lambda>_. []) print 100 (co_plan demo_output) demo_catalog = Inr em \<and> em_sql em = print (Stmt_Select demo_tree) \<and>
     em_server_parameters em = demo_sv \<and> em_pattern_variables em = [] \<and> em_column_metadata_bytes em = column_metadata demo_columns"
  using demo_tree_emitted demo_tree_counted
  by (auto simp: emit_def MAX_RESULT_COLUMNS_def MAX_HOST_PARAMETERS_def height_exceeded_def recursion_exceeded_def)

lemma demo_plain: "plain_select (pp_server_values (co_plan demo_output)) demo_protected"
  by (simp add: plain_select_def select_parts_def demo_output_def demo_plan_def demo_protected_def demo_nested_def demo_filter_def
      demo_sv_def bt_has_def bt_get_def SERVER_PARAMETER_PREFIX_def VISIBILITY_COLUMN_PREFIX_def starts_with_def Let_def
      plain_literal_def plain_limit_def projection_parts_def ball_Un)

lemma demo_output_parts: "pp_statement (co_plan demo_output) = Select demo_protected" "pp_server_values (co_plan demo_output) = demo_sv"
  by (simp_all add: demo_output_def demo_plan_def)

lemma demo_sv_of_session: "sv_ok demo_session (pp_server_values (co_plan demo_output))"
  using demo_read_compiled by (intro compiled_sv [of demo_bundle "Select demo_read"]) (simp add: compiles_def)

lemma emitted_select_keeps_rows_witness:
  "\<exists>em node. emit (\<lambda>_. []) (\<lambda>_. ''SELECT'') 100 (co_plan demo_output) demo_catalog = Inr em \<and> em_sql em = ''SELECT'' \<and>
    (\<forall>clients tables. tree_output demo_dbms (bound_values (em_server_parameters em) clients) tables node =
       map (named_row demo_protected) (select_output (sql_of demo_dbms clients) (pp_server_values (co_plan demo_output))
         (logical demo_catalog tables) (logical demo_catalog tables) demo_protected))"
proof -
  obtain em where em: "emit (\<lambda>_. []) (\<lambda>_. ''SELECT'') 100 (co_plan demo_output) demo_catalog = Inr em" using demo_emits by blast
  from emitted_select_keeps_rows [OF em demo_output_parts(1) demo_sv_of_session demo_plain] em demo_reads_integers
  show ?thesis by blast
qed

end
