(* ===== verification/Sql_Bound.thy ===== *)
theory Sql_Bound
  imports Sql_Bind_Laws Sql_Emit_Demo
begin

text \<open>
  What the front end promises (\<^verbatim>\<open>src/crates/policysql-parser/src/lib.rs\<close>), with the query of the demonstration bundle as the
  example, and where it promises less than the documentation does.
\<close>

section \<open>Example\<close>

definition demo_front :: front where
  "demo_front = \<lparr>fr_limits = binding_limits_default, fr_catalog = demo_catalog, fr_rnd = F_fin\<rparr>"

definition node_of :: "expr result_column list \<Rightarrow> string \<Rightarrow> string option \<Rightarrow> expr option \<Rightarrow> select" where
  "node_of columns table alias where_clause = SelectNode None
     (OneSelect False columns (Some (FromClause (St_Table (qualified_single (Exact table)) (map_option (\<lambda>a. As_Name True (Exact a)) alias) False) []))
       where_clause None False) [] [] None"

text \<open>\<open>SELECT name, note FROM projects WHERE EXISTS (SELECT 1 FROM secrets WHERE owner = :who)\<close>.\<close>

definition demo_inner_node :: select where
  "demo_inner_node = node_of [Rc_Expr (E_Literal (Lit_Numeric ''1'')) None] ''secrets'' None
     (Some (E_Binary (E_Id (Exact ''owner'')) Op_Equals (E_Variable (Some '':who'') 1)))"

definition demo_node :: select where
  "demo_node = node_of [Rc_Expr (E_Id (Exact ''name'')) None, Rc_Expr (E_Id (Exact ''note'')) None] ''projects'' None
     (Some (E_Exists demo_inner_node))"

definition demo_scope :: "resource_descriptor \<Rightarrow> source_scope" where
  "demo_scope r = \<lparr>sco_resource = r, sco_alias = None, sco_qualifier = rd_name r, sco_columns = rd_columns r\<rparr>"

definition demo_trace :: bind_trace where
  "demo_trace = \<lparr>bt_parameters = {''who''}, bt_string_literals = []\<rparr>"

lemma canonical_demo [simp]:
  "canonical_name ''projects'' = ''projects''" "canonical_name ''secrets'' = ''secrets''" "canonical_name ''name'' = ''name''"
  "canonical_name ''note'' = ''note''" "canonical_name ''tenant'' = ''tenant''" "canonical_name ''owner'' = ''owner''"
  "canonical_name ''exists_value'' = ''exists_value''"
  by code_simp+

lemma demo_sources:
  "bind_source demo_catalog (St_Table (qualified_single (Exact ''projects'')) None False) = Inr (demo_scope demo_projects)"
  "bind_source demo_catalog (St_Table (qualified_single (Exact ''secrets'')) None False) = Inr (demo_scope demo_secrets)"
  by (simp_all add: bind_source_def qualified_single_def catalog_resource_def demo_defs bt_get_def demo_scope_def explicit_alias_def)

lemma demo_columns_resolved:
  "resolve_direct_column [demo_scope demo_projects] (E_Id (Exact ''name'')) = Inr (demo_column 1 1 ''name'')"
  "resolve_direct_column [demo_scope demo_projects] (E_Id (Exact ''note'')) = Inr (demo_column 1 2 ''note'')"
  "resolve_direct_column [demo_scope demo_projects, demo_scope demo_secrets] (E_Id (Exact ''owner'')) = Inr (demo_column 2 0 ''owner'')"
  by (simp_all add: resolve_direct_column_def resolve_name_def is_row_id_def List.map_filter_def demo_scope_def demo_defs bt_get_def)

lemma demo_ref_of: "bound_column_of (demo_column r i n) usage = demo_ref r i usage"
  by (simp add: bound_column_of_def demo_column_def demo_ref_def demo_text_column_def)

lemma demo_depth: "d \<le> 32 \<Longrightarrow> check_depth demo_front d = Inr ()"
  by (simp add: check_depth_def demo_front_def binding_limits_default_def)

lemma demo_who: "bind_variable demo_front (Some '':who'') (Some LT_String) new_trace = Inr ((ClientParameter ''who'' LT_String, LT_String), demo_trace)"
proof -
  have "client_parameter_name_new ''who'' = Inr ''who''" by code_simp
  then show ?thesis
    by (simp add: bind_variable_def strip_prefix_def starts_with_def demo_trace_def new_trace_def demo_front_def binding_limits_default_def)
qed

lemma demo_owner: "d \<le> 32 \<Longrightarrow> bind_scalar demo_front [demo_scope demo_projects, demo_scope demo_secrets] U_Filter d None (E_Id (Exact ''owner'')) tr =
  Inr ((Column (demo_ref 2 0 U_Filter), LT_String), tr)"
  by (simp add: bind_scalar.simps demo_depth bind_column_def demo_columns_resolved demo_ref_of is_some_and_def) (simp add: demo_column_def demo_text_column_def)

lemma demo_filter_bound: "d < 32 \<Longrightarrow> bind_boolean demo_front [demo_scope demo_projects, demo_scope demo_secrets] U_Filter d
    (E_Binary (E_Id (Exact ''owner'')) Op_Equals (E_Variable (Some '':who'') i)) new_trace =
  Inr (Equal (Column (demo_ref 2 0 U_Filter)) (ClientParameter ''who'' LT_String), demo_trace)"
  by (simp add: bind_boolean.simps demo_depth is_null_test_def comparison_of_def bind_comparison_def is_variable_def demo_owner)
    (simp add: bind_scalar.simps demo_depth demo_who)

lemma demo_exists_bound: "bind_boolean demo_front [demo_scope demo_projects] U_Filter 0 (E_Exists demo_inner_node) new_trace =
  Inr (demo_nested (Some (Equal (Column (demo_ref 2 0 U_Filter)) (ClientParameter ''who'' LT_String))) None, demo_trace)"
proof -
  have "exists_source demo_catalog [demo_scope demo_projects] False
      (Some (FromClause (St_Table (qualified_single (Exact ''secrets'')) None False) [])) None False = Inr (demo_scope demo_secrets)"
    by (simp add: exists_source_def demo_sources) (simp add: demo_scope_def demo_defs)
  moreover have "result_name_of ''exists_value'' = Inr ''exists_value''" by code_simp
  moreover have "rd_id (sco_resource (demo_scope demo_secrets)) = 2" "sco_alias (demo_scope demo_secrets) = None" "fr_catalog demo_front = demo_catalog"
    by (simp_all add: demo_scope_def demo_secrets_def demo_front_def)
  moreover have "ensure_unique_result_names [BoundProjection (Literal (LV_Int64 1)) ''exists_value''] = Inr ()" by code_simp
  ultimately show ?thesis
    by (subst bind_boolean.simps) (simp add: demo_depth bind_exists_def demo_inner_node_def node_of_def exists_column_def explicit_alias_def
        Let_def bind_option_def demo_filter_bound demo_nested_def)
qed

lemma demo_select_bound: "bind_select demo_front demo_node = Inr (demo_read, demo_trace)"
proof -
  have "result_name_of ''name'' = Inr ''name''" "result_name_of ''note'' = Inr ''note''" by code_simp+
  moreover have "ensure_unique_result_names [BoundProjection b ''name'', BoundProjection d ''note''] = Inr ()" for b d
    by (simp add: ensure_unique_result_names_def starts_with_def)
  moreover have "rd_id (sco_resource (demo_scope demo_projects)) = 1" "sco_alias (demo_scope demo_projects) = None" "fr_catalog demo_front = demo_catalog"
    "fr_limits demo_front = binding_limits_default"
    by (simp_all add: demo_scope_def demo_projects_def demo_front_def)
  moreover have "cd_name (demo_column r i n) = n" for r i n by (simp add: demo_column_def)
  ultimately show ?thesis
    by (subst bind_select.simps) (simp add: demo_node_def node_of_def bind_root_source_def cte_named_def demo_sources binding_limits_default_def
        bind_select_parts_def bind_projection_def bind_projected_def is_derived_def bind_projected_column_def explicit_alias_def demo_columns_resolved
        demo_ref_of bind_option_def demo_exists_bound bind_group_by_def and_inherited_def demo_read_def)
qed

definition demo_parse :: "string \<Rightarrow> cmd list option" where
  "demo_parse text = Some [Cmd_Stmt (Stmt_Select (if text = ''demo'' then demo_node else demo_tree))]"

definition demo_document :: bound_document where
  "demo_document = \<lparr>bdoc_statement = Select demo_read, bdoc_source_span = source_span_of ''demo'', bdoc_parameters = {''who''},
     bdoc_string_literals = []\<rparr>"

lemma demo_document_bound: "bind_document demo_parse demo_front ''demo'' = Inr demo_document"
proof -
  have "\<not> all_white_space ''demo''" by code_simp
  moreover have "\<not> has_json_table_call demo_node" "\<not> is_constant_select demo_node"
    by (simp_all add: has_json_table_call_def is_constant_select_def demo_node_def node_of_def)
  ultimately show ?thesis
    by (simp add: bind_document_def demo_parse_def bind_stmt_def demo_select_bound demo_document_def demo_trace_def)
qed

section \<open>Bound documents\<close>

definition document_trace :: "bound_document \<Rightarrow> bind_trace" where
  "document_trace document = \<lparr>bt_parameters = bdoc_parameters document, bt_string_literals = bdoc_string_literals document\<rparr>"

lemma one_statement_Inr:
  "(case parsed of [Cmd_Stmt statement] \<Rightarrow> f statement | [_] \<Rightarrow> Inl e | _ \<Rightarrow> Inl e') = Inr y \<longleftrightarrow>
   (\<exists>statement. parsed = [Cmd_Stmt statement] \<and> f statement = Inr y)"
  by (auto split: list.splits cmd.splits)

lemma bind_document_ok:
  assumes "catalog_ok (fr_catalog fr)" "bind_document parse fr sql = Inr document"
  shows "statement_ok (fr_catalog fr) (document_trace document) (bdoc_statement document) \<and>
    trace_ok (bl_max_parameters (fr_limits fr)) (document_trace document)"
proof -
  obtain statement b v where "bind_stmt fr statement = Inr (b, v)" and d: "document = \<lparr>bdoc_statement = b, bdoc_source_span = source_span_of sql,
      bdoc_parameters = bt_parameters v, bdoc_string_literals = bt_string_literals v\<rparr>"
    using assms(2) by (auto simp: bind_document_def result_simps one_statement_Inr split: if_splits)
  moreover have "document_trace document = v" by (simp add: document_trace_def d)
  ultimately show ?thesis using bind_stmt_ok [OF assms(1) refl] by simp
qed



section \<open>Where the front end accepts more than documented\<close>

text \<open>A qualified name in a subquery means the outer source of that name, even where the subquery's own source has the same alias.\<close>

theorem shadowed_alias_reads_outer:
  assumes "list_ex (\<lambda>scope. eq_ignore_ascii_case (sco_qualifier scope) q) scopes"
  shows "resolve_name (scopes @ [nested]) (Some q) n = resolve_name scopes (Some q) n"
proof -
  have "find P (xs @ ys) = find P xs" if "list_ex P xs" for P and xs ys :: "source_scope list"
    using that by (induction xs) auto
  from this [OF assms] show ?thesis by (simp add: resolve_name_def)
qed

text \<open>\<open>LOWER(COUNT(*))\<close> is bound, an integer where a string is needed.\<close>

theorem count_star_type_unchecked:
  "bind_scalar demo_front [demo_scope demo_projects] U_Having 0 None
     (E_FunctionCall (Exact ''lower'') False [E_FunctionCallStar (Exact ''count'') (FunctionTail None None)] [] [] (FunctionTail None None)) tr =
   Inr ((ScalarFunction Lower [CountAll 1] LT_String, LT_String), tr)"
proof -
  have "canonical_name ''lower'' = ''lower''" "canonical_name ''count'' = ''count''" by code_simp+
  moreover have "rd_id (sco_resource (demo_scope demo_projects)) = 1" by (simp add: demo_scope_def demo_projects_def)
  ultimately have "bind_scalar demo_front [demo_scope demo_projects] U_Having (Suc 0) (Some LT_String)
      (E_FunctionCallStar (Exact ''count'') (FunctionTail None None)) tr = Inr ((CountAll 1, LT_Int64), tr)"
    and "canonical_name ''lower'' = ''lower''"
    by (simp_all add: bind_scalar.simps demo_depth no_function_tail_def eq_ignore_ascii_case_def count_last_def)
  then show ?thesis
    by (subst bind_scalar.simps) (simp add: demo_depth no_function_tail_def bind_registered_scalar_def scalar_signature_def is_some_and_def)
qed

text \<open>\<open>1 LIKE 2\<close> is bound, though \<open>LIKE\<close> is a predicate on strings.\<close>

theorem like_on_integers_bound:
  "bind_boolean demo_front [demo_scope demo_projects] U_Filter 0
     (E_Like (E_Literal (Lit_Numeric ''1'')) False Lo_Like (E_Literal (Lit_Numeric ''2'')) None) tr =
   Inr (Like (Literal (LV_Int64 1)) (Literal (LV_Int64 2)), tr)"
proof -
  have "parse_i64 ''1'' = Some 1" "parse_i64 ''2'' = Some 2"
    by (simp_all add: parse_i64_def parse_unsigned_def starts_with_def i64_max_def byte_defs)
  then have "bind_scalar demo_front [demo_scope demo_projects] U_Filter (Suc 0) None (E_Literal (Lit_Numeric ''1'')) tr = Inr ((Literal (LV_Int64 1), LT_Int64), tr)"
    "bind_scalar demo_front [demo_scope demo_projects] U_Filter (Suc 0) (Some LT_Int64) (E_Literal (Lit_Numeric ''2'')) tr =
      Inr ((Literal (LV_Int64 2), LT_Int64), tr)"
    by (simp_all add: bind_scalar.simps demo_depth bind_literal_node_def bind_literal_def is_some_and_def)
  then show ?thesis
    by (subst bind_boolean.simps) (simp add: demo_depth bind_comparison_def is_variable_def negated_if_def)
qed

end
