(* ===== verification/Gw_Sealed.thy ===== *)
theory Gw_Sealed
  imports Gw_Seal Sql_Emit_Demo
begin

text \<open>
  What a sealed plan stands for (\<^verbatim>\<open>src/crates/policysql-sqlite/src/lib.rs\<close>, \<open>compile_verified_*\<close>, and
  \<^verbatim>\<open>src/crates/policysql-gateway/src/lib.rs\<close>, which picks among them): the text and the parameters that reach the database
  are those of the protected plan, and a sealed query reads the role's view.
\<close>

section \<open>Example\<close>

text \<open>A printer and a parser that know the query of the demonstration bundle.\<close>

definition demo_backend :: backend where
  "demo_backend = \<lparr>be_show_f64 = (\<lambda>_. []), be_print = (\<lambda>st. if st = Stmt_Select demo_tree then ''SELECT 1'' else ''SELECT 2''),
     be_parse = (\<lambda>_. Some [Cmd_Stmt (Stmt_Select demo_tree)]), be_depth = 100, be_rnd = F_fin, be_is_match = (\<lambda>_ _. None)\<rparr>"

definition demo_execution_limits :: execution_limits where
  "demo_execution_limits = \<lparr>el_max_rows = 10, el_max_result_bytes = 1000, el_timeout_ms = 1000, el_max_bytes_per_value = 100\<rparr>"

definition demo_clients :: "(string \<times> logical_value) list" where
  "demo_clients = [(''who'', LV_String ''t1'')]"

lemma demo_analysis:
  "analyze_client_parameters (Select demo_protected) demo_catalog =
     \<lparr>cpa_parameters = [(''who'', \<lparr>cpc_logical_type = LT_String, cpc_nullable = False, cpc_columns = [demo_ref 2 0 U_Filter]\<rparr>)],
      cpa_type_conflict = False\<rparr>"
  by (simp add: analyze_client_parameters_def statement_at_def demo_protected_def demo_nested_def demo_filter_def parameter_def
      compared_with_def direct_column_def bt_get_def)

lemma demo_values_accepted:
  "validate_client_parameters F_fin (\<lambda>_ _. None) (analyze_client_parameters (Select demo_protected) demo_catalog) demo_catalog
     demo_clients 100 = Inr ()"
proof -
  have "column_value_descriptor demo_catalog (demo_ref 2 0 U_Filter) = Some demo_text_column"
    by (simp add: column_value_descriptor_def demo_defs resource_by_id_def column_by_id_def)
  moreover have "value_satisfies_contract F_fin (\<lambda>_ _. None) (LV_String ''t1'') demo_text_column 100"
    by (simp add: value_satisfies_contract_def format_accepts_def demo_text_column_def)
  ultimately show ?thesis
    by (simp add: demo_analysis validate_client_parameters_def demo_clients_def contracts_def validate_contract_def bt_get_def
        logical_value_matches_def)
qed

lemma demo_protected_described: "\<exists>ds. result_descriptors (Select demo_protected) demo_catalog demo_clients = Inr ds"
  by (simp add: result_descriptors_def described_parts_def demo_protected_def projection_descriptor_def counts_rows_def
      scalar_result_descriptor_def compound_result_descriptor_def projected_column_def column_result_descriptor_def left_joined_def
      is_some_and_def demo_defs resource_by_id_def column_by_id_def)

lemma demo_run_with:
  assumes "parse ''SELECT 1'' = Some [Cmd_Stmt st]"
  shows "\<exists>sealed. compile_verified (demo_backend\<lparr>be_parse := parse\<rparr>) (co_plan demo_output) demo_catalog demo_clients demo_execution_limits ''s1'' =
     (if statement_is OpSelect st then Inr sealed else Inl (CE_Verification kind_refusal)) \<and> cp_protected_sql sealed = ''SELECT 1'' \<and>
     cp_column_metadata_bytes sealed = column_metadata demo_columns"
proof -
  obtain em where em: "be_emit (demo_backend\<lparr>be_parse := parse\<rparr>) (co_plan demo_output) demo_catalog = Inr em" "em_sql em = ''SELECT 1''"
    "em_server_parameters em = demo_sv" "em_pattern_variables em = []" "em_column_metadata_bytes em = column_metadata demo_columns"
    using demo_emits [of "be_print demo_backend"] by (auto simp: demo_backend_def)
  obtain ds where ds: "result_descriptors (Select demo_protected) demo_catalog demo_clients = Inr ds"
    using demo_protected_described ..
  have "literal_strings demo_sv = {}"
    by (simp add: literal_strings_def demo_sv_def List.map_filter_def LITERAL_PARAMETER_PREFIX_def starts_with_def)
  moreover have "\<not> all_white_space ''SELECT 1''" by code_simp
  moreover have "pp_string_literals (co_plan demo_output) = \<lparr>slw_client = [], slw_policy = {}\<rparr>"
    "pp_expected_result_rows (co_plan demo_output) = None" by (simp_all add: demo_output_def demo_plan_def)
  moreover have "fst ` set demo_clients = parameter_names (analyze_client_parameters (Select demo_protected) demo_catalog)"
    by (simp add: demo_analysis demo_clients_def parameter_names_def)
  moreover have "be_rnd demo_backend = F_fin" "be_is_match demo_backend = (\<lambda>_ _. None)" "el_max_bytes_per_value demo_execution_limits = 100"
    by (simp_all add: demo_backend_def demo_execution_limits_def)
  ultimately show ?thesis
    using em ds demo_values_accepted assms
    by (intro exI [of _ "candidate_of em ds OpSelect (co_plan demo_output) demo_clients demo_execution_limits ''s1''"])
      (simp add: compile_verified_def demo_output_parts compile_verified_select_def prepare_def Let_def map_error_def
        check_pattern_lengths_def verifier_new_def parse_single_statement_def seal_verified_def seal_def candidate_of_def
        candidate_new_def verify_def verify_string_literals_def kind_refusal_def)
qed

abbreviation demo_reading :: "stmt \<Rightarrow> backend" where
  "demo_reading st \<equiv> demo_backend\<lparr>be_parse := (\<lambda>_. Some [Cmd_Stmt st])\<rparr>"

lemma demo_run:
  "\<exists>sealed. compile_verified (demo_reading st) (co_plan demo_output) demo_catalog demo_clients demo_execution_limits ''s1'' =
     (if statement_is OpSelect st then Inr sealed else Inl (CE_Verification kind_refusal)) \<and> cp_protected_sql sealed = ''SELECT 1''"
  using demo_run_with [of "\<lambda>_. Some [Cmd_Stmt st]" st] by blast

lemma demo_sealed:
  "\<exists>sealed. compile_verified demo_backend (co_plan demo_output) demo_catalog demo_clients demo_execution_limits ''s1'' = Inr sealed \<and>
     cp_protected_sql sealed = ''SELECT 1''"
proof -
  have "demo_reading (Stmt_Select demo_tree) = demo_backend" by (simp add: demo_backend_def)
  then show ?thesis using demo_run [of "Stmt_Select demo_tree"] by (simp add: statement_is_def)
qed

section \<open>Sealed plans\<close>

text \<open>
  Whatever is sealed is what was protected. A sealed plan carries the text the emitter printed for the
  protected plan, which reads again as one statement of the plan's operation; the client's values, all
  validated; the emitter's server parameters; and the row and check invariants of the plan. Every string
  literal of the client is bound as the value its token denotes, and no bound literal looks like a quoted
  token unless the client or the policy wrote that value.
\<close>

theorem sealed_plan_is_protected_plan:
  assumes "compile_verified be plan c clients limits snapshot = Inr sealed"
  shows "sealed_for be plan c clients limits snapshot sealed"
  by (rule compile_verified_sealed [OF assms])

lemma sealed_plan_is_protected_plan_witness:
  "\<exists>sealed. sealed_for demo_backend (co_plan demo_output) demo_catalog demo_clients demo_execution_limits ''s1'' sealed"
  using demo_sealed sealed_plan_is_protected_plan by blast

text \<open>
  C23. What verification can refuse. The candidate and the verifier are built from the same plan and the same emitted
  text, so of the verifier's thirteen checks only these can fail: a blank text, a text that reads as another
  operation, and the three checks of the string literals. In particular the comparison of the syntax trees never
  fails: both are the tree of the emitted text.
\<close>

theorem sealing_refusals:
  assumes "compile_verified be plan c clients limits snapshot = Inl (CE_Verification e)"
  shows "e \<in> {EmptyProtectedSql, violation ''emitted SQL operation or statement count mismatch'',
    violation ''client string literal does not round-trip'', violation ''client string literal value is not bound'',
    violation ''server literal still carries SQL string quoting''}"
  using compile_verified_refused [OF assms] by (auto simp: literal_refusals_def kind_refusal_def)

lemma sealing_refusals_witness:
  "compile_verified (demo_reading Stmt_Other) (co_plan demo_output) demo_catalog demo_clients demo_execution_limits ''s1'' =
     Inl (CE_Verification kind_refusal) \<and>
   kind_refusal \<in> {EmptyProtectedSql, violation ''emitted SQL operation or statement count mismatch'',
    violation ''client string literal does not round-trip'', violation ''client string literal value is not bound'',
    violation ''server literal still carries SQL string quoting''}"
proof -
  have run: "compile_verified (demo_reading Stmt_Other) (co_plan demo_output) demo_catalog demo_clients demo_execution_limits ''s1'' =
      Inl (CE_Verification kind_refusal)"
    using demo_run [of Stmt_Other] by (simp add: statement_is_def)
  from run sealing_refusals [OF run] show ?thesis by blast
qed

definition reparses :: "backend \<Rightarrow> string \<Rightarrow> bool" where
  "reparses be sql = (\<forall>st. be_print be st = sql \<longrightarrow> be_parse be sql = Some [Cmd_Stmt st])"



end
