(* ===== verification/Gw_Requests.thy ===== *)
theory Gw_Requests
  imports Gw_Envelope Sql_Bound Gw_Sealed "HOL-Library.Sublist"
begin

text \<open>
  What the gateway guarantees of a whole request (\<^verbatim>\<open>src/crates/policysql-gateway/src/lib.rs\<close>): the composition of the front end, the policy
  compiler, the emitter and the verifier, statement by statement, and the order of compiling and executing.
\<close>

section \<open>One statement\<close>

text \<open>The statement a request was compiled to: bound from its text, protected for the session, sealed with the client's literals and expectations.\<close>

definition compiled_from :: "backend \<Rightarrow> gateway \<Rightarrow> trusted_session \<Rightarrow> statement_request \<Rightarrow> compiled_statement \<Rightarrow> bool" where
  "compiled_from be gw session request cs = (\<exists>document output plan.
     bind_document (be_parse be) (gateway_front be gw) (rq_sql request) = Inr document \<and>
     policies_compile (gw_policies gw) (bdoc_statement document) session = Inr output \<and>
     expect_rows (co_plan output) (rq_expected_affected_rows request) = Inr plan \<and>
     sealed_for be (request_plan plan document request) (gw_catalog gw) (rq_parameters request) (gw_limits gw) (gw_snapshot gw) (cs_plan cs) \<and>
     cs_explain cs = co_explain output \<and>
     contracts (analyze_client_parameters (pp_statement (co_plan output)) (gw_catalog gw)) = Some (cs_client_parameters cs))"

lemma or_reject_Inr [simp]: "or_reject f x = Inr y \<longleftrightarrow> x = Inr y"
  by (simp add: or_reject_def split: sum.splits)

lemma or_reject_Inl: "or_reject f x = Inl e \<longleftrightarrow> (\<exists>d. x = Inl d \<and> e = f d)"
  by (auto simp: or_reject_def split: sum.splits)

lemma expect_rows_statement: "expect_rows plan n = Inr plan' \<Longrightarrow> pp_statement plan' = pp_statement plan"
  by (auto simp: expect_rows_def split: option.splits if_splits)

lemma compile_request_Inr:
  assumes "compile_request be gw session (i, request) m = Inr (cs, m')"
  shows "compiled_from be gw session request cs" "m' = m + cp_column_metadata_bytes (cs_plan cs)" "m' \<le> MAX_COLUMN_METADATA_BYTES"
proof -
  obtain document out plan sealed where
      1: "bind_document (be_parse be) (gateway_front be gw) (rq_sql request) = Inr document"
    and 2: "policies_compile (gw_policies gw) (bdoc_statement document) session = Inr out"
    and 3: "expect_rows (co_plan out) (rq_expected_affected_rows request) = Inr plan"
    and 4: "compile_verified be (request_plan plan document request) (gw_catalog gw) (rq_parameters request) (gw_limits gw) (gw_snapshot gw) = Inr sealed"
    and 5: "contracts (analyze_client_parameters (pp_statement (request_plan plan document request)) (gw_catalog gw)) = Some (cs_client_parameters cs)"
    and 6: "cs_plan cs = sealed" "cs_explain cs = co_explain out"
    and 7: "m' = min U64_MAX (m + cp_column_metadata_bytes sealed)" "m' \<le> MAX_COLUMN_METADATA_BYTES"
    using assms by (auto simp: compile_request_def result_simps Let_def split: if_splits)
  have "pp_statement (request_plan plan document request) = pp_statement (co_plan out)"
    using expect_rows_statement [OF 3] by (simp add: request_plan_def)
  with 1 2 3 compile_verified_sealed [OF 4] 5 6 show "compiled_from be gw session request cs"
    unfolding compiled_from_def by (intro exI [of _ document] exI [of _ out] exI [of _ plan]) simp
  from 6 7 show "m' = m + cp_column_metadata_bytes (cs_plan cs)" "m' \<le> MAX_COLUMN_METADATA_BYTES"
    by (auto simp: U64_MAX_def MAX_COLUMN_METADATA_BYTES_def min_def split: if_splits)
qed

section \<open>All of them\<close>

lemma compile_requests_Inr:
  assumes "traverse_st (compile_request be gw session) (enumerate n requests) m = Inr (statements, m')" "m \<le> MAX_COLUMN_METADATA_BYTES"
  shows "list_all2 (compiled_from be gw session) requests statements \<and>
    m' = m + sum_list (map (cp_column_metadata_bytes \<circ> cs_plan) statements) \<and> m' \<le> MAX_COLUMN_METADATA_BYTES"
  using assms
proof (induction requests arbitrary: n m statements)
  case (Cons r requests)
  obtain cs k rest where 1: "compile_request be gw session (n, r) m = Inr (cs, k)" and s: "statements = cs # rest"
    and 2: "traverse_st (compile_request be gw session) (enumerate (Suc n) requests) k = Inr (rest, m')"
    using Cons.prems by (auto simp: result_simps)
  from compile_request_Inr [OF 1] Cons.IH [OF 2] show ?case by (simp add: s)
qed simp

lemma compile_envelope_Inr:
  assumes "compile_envelope be gw auth permission precondition requests = Inr statements"
  shows "permission \<in> ax_permissions auth" "precondition = None \<or> precondition = Some (gw_snapshot gw)"
    "requests \<noteq> []" "length requests \<le> gw_max_statements gw" "list_all2 (compiled_from be gw (ax_session auth)) requests statements"
    "sum_list (map (cp_column_metadata_bytes \<circ> cs_plan) statements) \<le> MAX_COLUMN_METADATA_BYTES"
proof -
  obtain m where m: "traverse_st (compile_request be gw (ax_session auth)) (enumerate 0 requests) 0 = Inr (statements, m)"
    and guards: "permission \<in> ax_permissions auth" "precondition = None \<or> precondition = Some (gw_snapshot gw)"
    "requests \<noteq> []" "length requests \<le> gw_max_statements gw"
    using assms by (auto simp: compile_envelope_def result_simps is_some_and_def split: if_splits option.splits)
  show "permission \<in> ax_permissions auth" "precondition = None \<or> precondition = Some (gw_snapshot gw)"
    "requests \<noteq> []" "length requests \<le> gw_max_statements gw" using guards by auto
  show "list_all2 (compiled_from be gw (ax_session auth)) requests statements"
    "sum_list (map (cp_column_metadata_bytes \<circ> cs_plan) statements) \<le> MAX_COLUMN_METADATA_BYTES"
    using compile_requests_Inr [OF m] by simp_all
qed

text \<open>The request an error is about.\<close>

definition error_index :: "gateway_error \<Rightarrow> nat option" where
  "error_index e = (case e of GE_Rejected _ i \<Rightarrow> Some i | GE_TooComplex _ i \<Rightarrow> Some i | EmittedSqlInvalid i \<Rightarrow> Some i | _ \<Rightarrow> None)"

lemma error_index_simps [simp]:
  "error_index (GE_Rejected kind i) = Some i" "error_index (GE_TooComplex cause i) = Some i" "error_index (compile_failure d i) = Some i"
  by (simp_all add: error_index_def compile_failure_def split: compile_error.splits emit_error.splits)

lemma compile_request_Inl: "compile_request be gw session (i, request) m = Inl e \<Longrightarrow> error_index e = Some i"
  by (auto simp: compile_request_def try_ok_Inl_iff or_reject_Inl Let_def ok_or_Inl_iff split: if_splits)

lemma compile_requests_Inl:
  assumes "traverse_st (compile_request be gw session) (enumerate n requests) m = Inl e" "m \<le> MAX_COLUMN_METADATA_BYTES"
  shows "\<exists>i statements. error_index e = Some (n + i) \<and> i < length requests \<and> list_all2 (compiled_from be gw session) (take i requests) statements"
  using assms
proof (induction requests arbitrary: n m)
  case (Cons r requests)
  show ?case
  proof (cases "compile_request be gw session (n, r) m")
    case (Inl d)
    with Cons.prems have "d = e" by simp
    with compile_request_Inl [OF Inl] have "error_index e = Some (n + 0) \<and> 0 < length (r # requests) \<and>
        list_all2 (compiled_from be gw session) (take 0 (r # requests)) []" by simp
    then show ?thesis by blast
  next
    case (Inr p)
    obtain cs k where p: "p = (cs, k)" by (cases p)
    note c = compile_request_Inr [OF Inr [unfolded p]]
    have "traverse_st (compile_request be gw session) (enumerate (Suc n) requests) k = Inl e"
      using Cons.prems(1) Inr p by (auto simp: try_ok_Inl_iff)
    from Cons.IH [OF this c(3)] obtain i statements where "error_index e = Some (Suc n + i)" "i < length requests"
      "list_all2 (compiled_from be gw session) (take i requests) statements" by blast
    with c(1) have "error_index e = Some (n + Suc i) \<and> Suc i < length (r # requests) \<and>
        list_all2 (compiled_from be gw session) (take (Suc i) (r # requests)) (cs # statements)" by simp
    then show ?thesis by blast
  qed
qed simp

section \<open>Example\<close>

definition demo_gateway :: gateway where
  "demo_gateway = gateway_new demo_catalog demo_bundle ''s1'' demo_execution_limits 4"

definition demo_auth :: auth_context where
  "demo_auth = \<lparr>ax_session = demo_session, ax_permissions = {Perm_Execute}\<rparr>"

definition demo_request :: "string \<Rightarrow> statement_request" where
  "demo_request text = \<lparr>rq_sql = text, rq_parameters = demo_clients, rq_expected_affected_rows = None, rq_expected_row_count = None\<rparr>"

abbreviation demo_reader :: backend where
  "demo_reader \<equiv> demo_backend\<lparr>be_parse := demo_parse\<rparr>"

lemma demo_request_plan: "request_plan (co_plan demo_output) demo_document (demo_request ''demo'') = co_plan demo_output"
  by (simp add: request_plan_def demo_document_def demo_request_def option_or_def demo_output_def demo_plan_def)

lemma demo_front_of: "gateway_front demo_reader demo_gateway = demo_front"
  by (simp add: gateway_front_def demo_gateway_def gateway_new_def demo_front_def demo_backend_def)

lemma demo_bound_again: "bind_document demo_parse (gateway_front demo_reader demo_gateway) (rq_sql (demo_request ''demo'')) = Inr demo_document"
  using demo_document_bound by (simp add: demo_front_of demo_request_def)

lemma demo_request_compiled:
  "\<exists>cs n. compile_request demo_reader demo_gateway demo_session (0, demo_request ''demo'') 0 = Inr (cs, n) \<and>
    cp_protected_sql (cs_plan cs) = ''SELECT 1'' \<and> cp_operation (cs_plan cs) = OpSelect"
proof -
  have "demo_parse ''SELECT 1'' = Some [Cmd_Stmt (Stmt_Select demo_tree)]" by (simp add: demo_parse_def)
  from demo_run_with [of demo_parse "Stmt_Select demo_tree", OF this] obtain sealed where
    sealed: "compile_verified demo_reader (co_plan demo_output) demo_catalog demo_clients demo_execution_limits ''s1'' = Inr sealed"
    and sql: "cp_protected_sql sealed = ''SELECT 1''" and size: "cp_column_metadata_bytes sealed = column_metadata demo_columns"
    by (auto simp: statement_is_def)
  have op: "cp_operation sealed = OpSelect"
    using compile_verified_sealed [OF sealed] by (auto simp: sealed_for_def statement_kind_def demo_output_parts)
  have small: "column_metadata demo_columns \<le> 1000" by code_simp
  have protected: "policies_compile (gw_policies demo_gateway) (bdoc_statement demo_document) demo_session = Inr demo_output"
    using demo_read_compiled by (simp add: policies_compile_def demo_document_def demo_gateway_def gateway_new_def)
  have parts: "rq_expected_affected_rows (demo_request ''demo'') = None" "rq_parameters (demo_request ''demo'') = demo_clients"
    "gw_catalog demo_gateway = demo_catalog" "gw_limits demo_gateway = demo_execution_limits" "gw_snapshot demo_gateway = ''s1''"
    by (simp_all add: demo_request_def demo_gateway_def gateway_new_def)
  show ?thesis
    using small by (simp add: compile_request_def demo_bound_again protected parts expect_rows_def or_reject_def demo_request_plan sealed Let_def size sql op
        demo_output_parts demo_analysis contracts_def MAX_COLUMN_METADATA_BYTES_def)
qed

lemma demo_empty_refused: "bind_document demo_parse (gateway_front demo_reader demo_gateway) [] = Inl BE_Empty"
  by (simp add: bind_document_def)

lemma demo_gateway_max: "gw_max_statements demo_gateway = 4"
  by (simp add: demo_gateway_def gateway_new_def)

lemma demo_envelope:
  "is_some_and (\<lambda>v. v \<noteq> ''s1'') precondition = False \<Longrightarrow>
   \<exists>cs. compile_envelope demo_reader demo_gateway demo_auth Perm_Execute precondition [demo_request ''demo''] = Inr [cs] \<and>
    cp_protected_sql (cs_plan cs) = ''SELECT 1'' \<and> cp_operation (cs_plan cs) = OpSelect"
proof -
  obtain cs n where "compile_request demo_reader demo_gateway demo_session (0, demo_request ''demo'') 0 = Inr (cs, n)"
    "cp_protected_sql (cs_plan cs) = ''SELECT 1''" "cp_operation (cs_plan cs) = OpSelect"
    using demo_request_compiled by blast
  moreover have "gw_snapshot demo_gateway = ''s1''" "gw_max_statements demo_gateway = 4" by (simp_all add: demo_gateway_def gateway_new_def)
  ultimately show ?thesis if "is_some_and (\<lambda>v. v \<noteq> ''s1'') precondition = False"
    using that by (simp add: compile_envelope_def demo_auth_def)
qed

section \<open>What an envelope promises\<close>

text \<open>
  C20. An envelope is compiled as a whole. When it is accepted, the caller holds the permission, its precondition names the
  gateway's snapshot, there are between one and the allowed number of statements, and every statement is its request's: bound
  from the request's text, protected by the policies for the caller's session, emitted and sealed with the request's own
  values, literals and row expectations. The column metadata of all of them together keeps to the protocol's limit.
\<close>

theorem envelope_is_protected:
  assumes "compile_envelope be gw auth permission precondition requests = Inr statements"
  shows "permission \<in> ax_permissions auth \<and> (precondition = None \<or> precondition = Some (gw_snapshot gw)) \<and>
    requests \<noteq> [] \<and> length requests \<le> gw_max_statements gw \<and>
    list_all2 (compiled_from be gw (ax_session auth)) requests statements \<and>
    sum_list (map (cp_column_metadata_bytes \<circ> cs_plan) statements) \<le> 1048576"
  using compile_envelope_Inr [OF assms] by (simp add: MAX_COLUMN_METADATA_BYTES_def)

lemma envelope_is_protected_witness:
  "\<exists>cs. compile_envelope demo_reader demo_gateway demo_auth Perm_Execute (Some ''s1'') [demo_request ''demo''] = Inr [cs] \<and>
    compiled_from demo_reader demo_gateway demo_session (demo_request ''demo'') cs \<and> cp_column_metadata_bytes (cs_plan cs) \<le> 1048576"
proof -
  obtain cs where cs: "compile_envelope demo_reader demo_gateway demo_auth Perm_Execute (Some ''s1'') [demo_request ''demo''] = Inr [cs]"
    using demo_envelope [of "Some ''s1''"] by (auto simp: is_some_and_def)
  from envelope_is_protected [OF cs] cs show ?thesis by (auto simp: demo_auth_def)
qed



section \<open>From a request to the database\<close>

text \<open>The emitter reads neither the literals nor the expectations of a plan.\<close>

lemma request_plan_parts:
  "pp_statement (request_plan plan document request) = pp_statement plan" "pp_server_values (request_plan plan document request) = pp_server_values plan"
  "pp_operation_check (request_plan plan document request) = pp_operation_check plan"
  by (simp_all add: request_plan_def)

lemma emit_request_plan: "emit show_f64 print depth (request_plan plan document request) c = emit show_f64 print depth plan c"
  unfolding emit_def emit_statement_def emit_start_def request_plan_parts ..

lemma expect_rows_select: "expect_rows plan n = Inr plan' \<Longrightarrow> pp_statement plan = Select s \<Longrightarrow> plan' = plan"
  by (auto simp: expect_rows_def statement_kind_def split: option.splits)

lemma compiled_from_emitted:
  assumes "compiled_from be gw session request cs"
    and "bind_document (be_parse be) (gateway_front be gw) (rq_sql request) = Inr document" and "bdoc_statement document = Select s"
    and "compile_select (gw_policies gw) (Select s) session = Inr out" and "pp_statement (co_plan out) = Select s'"
  shows "\<exists>emitted. be_emit be (co_plan out) (gw_catalog gw) = Inr emitted \<and> cp_protected_sql (cs_plan cs) = em_sql emitted \<and>
    cp_server_parameters (cs_plan cs) = em_server_parameters emitted"
proof -
  obtain plan where plan: "expect_rows (co_plan out) (rq_expected_affected_rows request) = Inr plan"
    and sealed: "sealed_for be (request_plan plan document request) (gw_catalog gw) (rq_parameters request) (gw_limits gw) (gw_snapshot gw) (cs_plan cs)"
    using assms by (auto simp: compiled_from_def policies_compile_def)
  from sealed show ?thesis unfolding expect_rows_select [OF plan assms(5)] by (auto simp: sealed_for_def emit_request_plan)
qed



section \<open>Executing\<close>

text \<open>An executor that keeps the plans it was handed, in order.\<close>

definition logged :: "('o, 's) executor \<Rightarrow> ('o, 's \<times> candidate_plan list) executor" where
  "logged run p = (\<lambda>(s, seen). let (result, t) = run p s in (result, (t, seen @ [p])))"

lemma logged_step: "logged run p (s, seen) = (fst (run p s), (snd (run p s), seen @ [p]))"
  by (simp add: logged_def split: prod.splits)

lemma execute_all_logged:
  assumes "execute_all (logged run) plans (s, seen) = (result, (t, seen'))"
  shows "\<exists>ran. seen' = seen @ ran \<and> prefix ran plans \<and> (\<forall>outputs. result = Inr outputs \<longrightarrow> ran = plans \<and> length outputs = length plans) \<and>
    (\<forall>e. result = Inl e \<longrightarrow> e = ExecutionFailed \<and> ran \<noteq> [])"
  using assms
proof (induction plans arbitrary: s seen result)
  case (Cons p plans)
  obtain r u where r: "run p s = (r, u)" by (cases "run p s")
  show ?case
  proof (cases r)
    case None
    with Cons.prems r show ?thesis by (intro exI [of _ "[p]"]) (auto simp: logged_step)
  next
    case (Some x)
    obtain result' where rest: "execute_all (logged run) plans (u, seen @ [p]) = (result', (t, seen'))"
      and result: "result = (case result' of Inl e \<Rightarrow> Inl e | Inr outputs \<Rightarrow> Inr (x # outputs))"
      using Cons.prems r Some by (auto simp: logged_step split: prod.splits sum.splits)
    from Cons.IH [OF rest] obtain plans' where ih: "seen' = (seen @ [p]) @ plans'" "prefix plans' plans"
      "\<forall>outputs. result' = Inr outputs \<longrightarrow> plans' = plans \<and> length outputs = length plans"
      "\<forall>e. result' = Inl e \<longrightarrow> e = ExecutionFailed \<and> plans' \<noteq> []" by blast
    with result show ?thesis by (intro exI [of _ "p # plans'"]) (auto split: sum.splits)
  qed
qed simp

text \<open>
  C21. What reaches the database. However the executor behaves, it is handed nothing unless every statement of the envelope
  compiled and is a query; the answer is then the compiler's error, or that a transaction is required. Otherwise it is handed sealed plans only, in the order of the requests and each once, stopping at the
  first one that fails, and an answer has one output for each statement.
\<close>

theorem executor_sees_sealed_queries:
  assumes "execute_atomic be gw auth precondition requests (logged run) (s, []) = (result, (t, seen))"
  shows "seen = [] \<and> t = s \<and> (case compile_envelope be gw auth Perm_Execute precondition requests of
        Inl e \<Rightarrow> result = Inl e
      | Inr statements \<Rightarrow> result = Inl TransactionRequired \<and> (\<exists>cs \<in> set statements. cp_operation (cs_plan cs) \<noteq> OpSelect)) \<or>
    (\<exists>statements. compile_envelope be gw auth Perm_Execute precondition requests = Inr statements \<and>
       list_all2 (compiled_from be gw (ax_session auth)) requests statements \<and>
       (\<forall>cs \<in> set statements. cp_operation (cs_plan cs) = OpSelect) \<and> prefix seen (map cs_plan statements) \<and> seen \<noteq> [] \<and>
       (case result of Inr outputs \<Rightarrow> seen = map cs_plan statements \<and> length outputs = length requests | Inl e \<Rightarrow> e = ExecutionFailed))"
proof (cases "compile_envelope be gw auth Perm_Execute precondition requests")
  case (Inl e)
  with assms show ?thesis by (auto simp: execute_atomic_def)
next
  case (Inr statements)
  note c = compile_envelope_Inr [OF Inr]
  show ?thesis
  proof (cases "list_ex (\<lambda>cs. cp_operation (cs_plan cs) \<noteq> OpSelect) statements")
    case True
    with assms Inr show ?thesis by (auto simp: execute_atomic_def list_ex_iff)
  next
    case False
    with assms Inr have "execute_all (logged run) (map cs_plan statements) (s, []) = (result, (t, seen))"
      by (simp add: execute_atomic_def)
    note run = execute_all_logged [OF this, unfolded append_Nil]
    have "length statements = length requests" "statements \<noteq> []" using c(3,5) by (auto dest: list_all2_lengthD)
    with run have "seen \<noteq> []" by (cases result) auto
    with run Inr False c(5) \<open>length statements = length requests\<close> show ?thesis
      by (intro disjI2 exI [of _ statements]) (auto simp: list_ex_iff split: sum.splits)
  qed
qed

lemma executor_sees_sealed_queries_witness:
  "\<exists>seen. execute_atomic demo_reader demo_gateway demo_auth None [demo_request ''demo''] (logged (\<lambda>p s. (Some (), Suc s))) (0, []) =
     (Inr [()], (1, seen)) \<and> map cp_protected_sql seen = [''SELECT 1''] \<and> (\<exists>statements. seen = map cs_plan statements \<and>
     list_all2 (compiled_from demo_reader demo_gateway demo_session) [demo_request ''demo''] statements)"
proof -
  obtain cs where cs: "compile_envelope demo_reader demo_gateway demo_auth Perm_Execute None [demo_request ''demo''] = Inr [cs]"
    "cp_protected_sql (cs_plan cs) = ''SELECT 1''" "cp_operation (cs_plan cs) = OpSelect"
    using demo_envelope [of None] by (auto simp: is_some_and_def)
  then have run: "execute_atomic demo_reader demo_gateway demo_auth None [demo_request ''demo''] (logged (\<lambda>p s. (Some (), Suc s))) (0, []) =
      (Inr [()], (1, [cs_plan cs]))"
    by (simp add: execute_atomic_def logged_def)
  from executor_sees_sealed_queries [OF run] obtain z where "cs_plan cs = cs_plan z"
      "compiled_from demo_reader demo_gateway demo_session (demo_request ''demo'') z"
    by (auto simp: demo_auth_def)
  then have "[cs_plan cs] = map cs_plan [z] \<and> list_all2 (compiled_from demo_reader demo_gateway demo_session) [demo_request ''demo''] [z]"
    by simp
  with run cs(2) show ?thesis by (intro exI [of _ "[cs_plan cs]"] conjI exI [of _ "[z]"]) simp_all
qed

end
