(* ===== verification/Spec2Isabelle.thy ===== *)
theory Spec2Isabelle
  imports Pol_Limits Tx_Owner Tx_Checks_Laws Tx_Atomic_Laws Tx_Command_Laws Tx_Json
    Sql_Literals Sql_Results_Laws Gw_Requests
begin

text \<open>
  A verification of PolicySQL's core: the front end that binds a client's SQL, the policy compiler that rewrites it so that it reads and
  writes only what its role may, the SQLite profile that turns the protected plan into SQL text and seals it, the gateway that puts them together, and
  the transaction machine that runs sealed plans in interactive and atomic transactions.

  \<^bold>\<open>The program and how its parts interact.\<close> A request enters through the gateway
  (\<^verbatim>\<open>src/crates/policysql-gateway\<close>) or the WebAssembly engine (\<^verbatim>\<open>src/crates/policysql-wasm\<close>). The SQL front end
  (\<^verbatim>\<open>src/crates/policysql-parser\<close>) binds the text against the catalog (\<^verbatim>\<open>src/crates/policysql-catalog\<close>) to a bound statement
  (\<^verbatim>\<open>src/crates/policysql-ir\<close>). The policy compiler (\<^verbatim>\<open>src/crates/policysql-policy\<close>) checks it against the activated bundle and
  the trusted session and returns a protected plan. The SQLite profile (\<^verbatim>\<open>src/crates/policysql-sqlite\<close>) emits the plan as a
  syntax tree and a text, validates the client's values, describes the result and seals the candidate
  (\<^verbatim>\<open>src/crates/policysql-execution\<close>). The transaction machine (\<^verbatim>\<open>src/crates/policysql-transaction\<close>) runs sealed plans: one pure step
  per event, its state durable in a record and volatile in memory, its effects on the database connection, the store and the clock
  returned to the host.

  \<^bold>\<open>Theories.\<close>
  \<^item> \<open>Prelude\<close>, \<open>Rust_Std\<close>: fixed-width arithmetic with saturation and checked addition, options, the \<open>?\<close> operator on
    \<open>Result\<close>, loops that stop at the first error, \<open>BTreeMap\<close> as its entries in key order, and the lemma collections
    (\<open>result_simps\<close>, \<open>opt_defs\<close>) the component proofs use.
  \<^item> \<open>Pol_Core\<close>, \<open>Pol_Catalog\<close>, \<open>Pol_Ir\<close>: names, types, values and their contracts (\<^verbatim>\<open>policysql-core\<close>), the catalog, the bound
    statements and protected plans.
  \<^item> \<open>Pol_Bundle\<close>, \<open>Pol_Compile\<close>: activation of a bundle and compilation of every kind of statement
    (\<^verbatim>\<open>policysql-policy/src/lib.rs\<close>). \<open>Pol_Semantics\<close> is the reference: what a bound statement means on a database, with
    SQL's three-valued logic. \<open>Pol_View\<close>, \<open>Pol_View_Select\<close> and \<open>Pol_Activate_Laws\<close> relate the two, \<open>Pol_Laws\<close>, \<open>Pol_Errors\<close>,
    \<open>Pol_Outcome\<close> and \<open>Pol_Limits\<close> state the properties, \<open>Pol_Demo\<close> is a concrete deployment.
  \<^item> \<open>Sql_Ast\<close>: the syntax trees of the \<open>turso_parser\<close> crate, as data types. \<open>Sql_Parameters\<close>, \<open>Sql_Complexity\<close>, \<open>Sql_Emit\<close> and
    \<open>Sql_Results\<close> are the SQLite profile: client parameters, complexity counts, the emitter and the result descriptors
    (\<^verbatim>\<open>policysql-sqlite/src\<close>). \<open>Sql_Meaning\<close> gives the trees a meaning on tables; \<open>Sql_Emit_Laws\<close>, \<open>Sql_Emit_Select\<close>, \<open>Sql_Literals\<close> and
    \<open>Sql_Results_Laws\<close> prove the emitter and the descriptors against it, \<open>Sql_Emit_Demo\<close> evaluates an example.
  \<^item> \<open>Gw_Seal\<close>, \<open>Gw_Sealed\<close>: candidate and sealed plans, the verifier, and the composition of policy compiler, emitter and
    verifier. \<open>Gw_Session\<close>: the authorization of a wrapper's session (\<^verbatim>\<open>policysql-wasm/src/session.rs\<close>).
  \<^item> \<open>Sql_Bind\<close>: the binder of the front end (\<^verbatim>\<open>policysql-parser/src/lib.rs\<close>), from a syntax tree to a bound statement with the
    parameters and string literals it met. \<open>Sql_Bind_Laws\<close> and \<open>Sql_Bound\<close> prove that what it binds is resolved, typed and traced.
  \<^item> \<open>Gw_Envelope\<close>: the gateway (\<^verbatim>\<open>policysql-gateway/src/lib.rs\<close>), which compiles every statement of a request before it runs one.
    \<open>Gw_Requests\<close> composes the laws of all the parts for it.
  \<^item> \<open>Bounds\<close>, \<open>Canonical\<close>, \<open>Identity\<close>, \<open>Strict\<close>, \<open>Iso_Time\<close>: the request path of the transaction crate (\<^verbatim>\<open>bounds.rs\<close>,
    \<^verbatim>\<open>canonical.rs\<close>, \<^verbatim>\<open>identity.rs\<close>, \<^verbatim>\<open>strict.rs\<close>, \<^verbatim>\<open>time.rs\<close>).
  \<^item> \<open>Tx_Compiler\<close>, \<open>Tx_State\<close>, \<open>Tx_Io\<close>, \<open>Tx_Step\<close>, \<open>Tx_Checks\<close>, \<open>Tx_Atomic\<close>, \<open>Tx_Dispatch\<close>, \<open>Tx_Run\<close>, \<open>Tx_Json\<close>: the transaction
    machine (\<^verbatim>\<open>machine/*.rs\<close>, \<^verbatim>\<open>machine/step/*.rs\<close>), one definition per handler, with the state record, the effects and the
    replies. \<open>Tx_Frame\<close>, \<open>Tx_Settled\<close>, \<open>Tx_Safety\<close>, \<open>Tx_Commit\<close>, \<open>Tx_Owner\<close>, \<open>Tx_Command_Laws\<close>, \<open>Tx_Checks_Laws\<close> and \<open>Tx_Atomic_Laws\<close>
    hold its laws and \<open>Tx_Demo\<close> a concrete deployment.

  \<^bold>\<open>How the code is modelled.\<close> A struct is a record, an enum a datatype with the source's constructors, \<open>&mut self\<close> a record threaded
  through, \<open>Result\<close> a sum with the error on the left; every early return is a branch. Integers are \<open>nat\<close> or \<open>int\<close> with their width written out
  where the code checks or saturates. A string is the list of its bytes. Loops are recursive functions with a termination proof; no
  definition needs fuel. What the crates call but do not contain is an argument: \<open>serde_yaml\<close> and \<open>serde_json\<close>, SHA-256 and base64, regular
  expressions, IEEE rounding and printing, the parser and printer of \<open>turso_parser\<close> (record \<open>backend\<close>), and the database's primitive operations
  (records \<open>sql\<close> and \<open>dbms\<close>). The hypotheses on them are named: \<open>reads_integers\<close> (a database reads decimal digits), \<open>reparses\<close> (a
  printed statement reads as itself), \<open>strict_sql\<close> and \<open>keeps_not_null\<close> (functions are strict in null, \<open>NOT NULL\<close> is kept), and
  the witnesses instantiate each of them.

  \<^bold>\<open>What the lemmas show.\<close>
  \<^item> Row and column security: a protected query reads the role's view and hidden data is unobservable (\<open>Pol_Laws\<close>), the emitted
    statement has the rows of the plan (\<open>Sql_Emit_Select\<close>), and the sealed text reads the role's view (\<open>Gw_Sealed\<close>). Writes stay within
    the policy; a missing policy denies; errors are refusals (\<open>Pol_Laws\<close>, \<open>Pol_Errors\<close>).
  \<^item> Requests: a bound document is resolved and typed (\<open>Sql_Bound\<close>); an accepted envelope is protected statement by statement, a refused
    one names the first request that fails, the executor is handed sealed queries only, and a query's text
    reads the role's view (\<open>Gw_Requests\<close>).
  \<^item> Values: server parameters hold session values, accepted client values fit every use, described columns are not null, literals
    round-trip and get free names.
  \<^item> Transactions: \<open>COMMIT\<close> is guarded, never undone and ends in a terminal phase; every step leaves a consistent state; exact retries replay,
    stored keys never execute again, callbacks need their capability, and requests stay within their budgets. The locales
    \<open>step_frame\<close>, \<open>settled_phases\<close> and \<open>accumulator\<close> state what a handler, an emitter function or a function of the binder must keep, and are interpreted on
    the machine's handlers, the emitter's state and the binder's trace.

  \<^bold>\<open>Not modelled.\<close> The export layer of the WebAssembly engine, the Turso adapter, which decode, call and encode; query plan
  observation (\<^verbatim>\<open>cost.rs\<close>); the test kit and the spikes. The meaning of trees covers selects; the emission of floats and of
  \<open>json_each\<close> and the grouping of rows are the database's, so the laws of emitted selects compare what each row gives to the clauses after
  \<open>WHERE\<close>.
\<close>

section \<open>The state machine as a whole\<close>

text \<open>Evaluation of a step on the concrete deployment.\<close>

lemmas eval_defs = run_dispatch_def checked_dispatch_def dispatch_def start_st_def pending_is_def
  is_atomic_task_def record_of_def rollback_requested_def volatile_is_def wait_def push_def set_connection_def
  volatile_mut_def volatile_of_def drop_finished_work_def on_volatile_def MAX_SAFE_INTEGER_def MAX_DURABLE_BYTES_def
  durable_to_json_def volatile_to_json_def Let_def work_of_def connection_of_def check_output_def outcome_def
  volatile_is_consistent_def vol_defs work_task_is_def is_verdict_def is_validator_def

lemma demo_commit_sent: "Commit 8 \<in> set (s_effects (run_parsed (demo_ctx 500) (Readable (Live (demo_record Committing))) None
   (Some (Some (demo_volatile (CommitPersist 1 demo_hash False)))) (Ev_Persisted 7) ()))"
  by (simp add: run_parsed_dispatch eval_defs demo_volatile_def consume_def commit_persisted_def)

text \<open>
  C1. COMMIT is sent to the database only by a step that may send it: the step's event is the
  outcome of the effect the volatile part awaits, and either the \<open>committing\<close> record of an
  interactive transaction has just been stored, before its deadline and with no expiry requested,
  or an atomic execution has inserted its idempotency row, or has passed its last binding check, or
  runs directly without a key.
\<close>

theorem commit_is_guarded:
  assumes "Commit i \<in> set (s_effects (run_parsed x stored vt vs event c))"
  shows "\<exists>v w. vs = Some (Some v) \<and> v_work v = Some w \<and> awaits event v \<and>
    commit_guard x (wk_task w) event (start_st c stored vs)"
  using assms by (rule run_parsed_commit)

lemma commit_is_guarded_witness:
  "Commit 8 \<in> set (s_effects (run_parsed (demo_ctx 500) (Readable (Live (demo_record Committing))) None
     (Some (Some (demo_volatile (CommitPersist 1 demo_hash False)))) (Ev_Persisted 7) ())) \<and>
   awaits (Ev_Persisted 7) (demo_volatile (CommitPersist 1 demo_hash False))"
  using demo_commit_sent commit_is_guarded [OF demo_commit_sent] by auto

text \<open>
  C8. Whatever the event, a step leaves a record and a volatile part that the next step accepts as
  consistent, its effects hold at most one awaited effect and that one last, and the awaited effect
  is the one recorded as pending on the client or on the callback lane.
\<close>

theorem step_leaves_consistent_state:
  assumes "x_owner x = [] \<or> owner_name (x_owner x)"
    and "\<And>r. stored = Readable (Live r) \<Longrightarrow> record_is_consistent r"
    and "\<And>v. vs = Some (Some v) \<Longrightarrow> volatile_is_consistent v"
    and "\<And>v. is_unreadable stored \<Longrightarrow> vs = Some (Some v) \<Longrightarrow> v_pending v = None \<Longrightarrow> v_callback v = None \<Longrightarrow>
      v_atomic v = None"
  shows "leaves_ok (run_parsed x stored vt vs event c)"
  using assms by (rule run_parsed_leaves_ok)

lemma step_leaves_consistent_state_witness:
  "leaves_ok (run_parsed (demo_ctx 500) (Readable (Live (demo_record Active))) None
     (Some (Some (demo_volatile (CommitBinding 1 demo_hash None False)))) Ev_TimerFired ())"
  by (rule step_leaves_consistent_state) (simp_all add: is_verdict_def)

text \<open>
  A COMMIT that may have been sent is never reported as rejected: from an interactive
  \<open>committing\<close> record whose COMMIT is awaited, no event leaves a phase other than
  \<open>committing\<close>, \<open>committed\<close> or \<open>commit_unknown\<close>, unless it is the adapter's report that no
  COMMIT was sent. The same holds when the volatile part cannot be read.
\<close>

theorem sent_commit_never_rejected:
  assumes "record_is_consistent r" and "r_phase r = Committing" and "r_kind r = Interactive"
    and "\<not> not_committed event"
    and "vs = Some None \<or> (\<exists>v w n d p. vs = Some (Some v) \<and> volatile_is_consistent v \<and> v_work v = Some w \<and>
      wk_lane w = Client \<and> wk_task w = CommitSend n d p)"
  shows "commit_open (run_parsed x (Readable (Live r)) vt vs event c)"
proof (cases "vs = Some None")
  case True
  then show ?thesis using assms(2) by (auto simp: run_parsed_invalid intro: fail_closed_open)
next
  case False
  then have "commit_sent (start_st c (Readable (Live r)) vs)"
    using assms by (auto simp: commit_sent_def start_st_def record_of_def work_of_def)
  then show ?thesis using run_dispatch_open assms(4) False by (auto simp: run_parsed_dispatch)
qed

lemma sent_commit_never_rejected_witness:
  "commit_open (run_parsed (demo_ctx 500) (Readable (Live (demo_record Committing))) None
     (Some (Some (demo_volatile (CommitSend 1 demo_hash False)))) (Ev_CommitFailed 7 Timeout) ())"
proof (rule sent_commit_never_rejected)
  show "Some (Some (demo_volatile (CommitSend 1 demo_hash False))) = Some None \<or>
    (\<exists>v w n d p. Some (Some (demo_volatile (CommitSend 1 demo_hash False))) = Some (Some v) \<and> volatile_is_consistent v \<and>
      v_work v = Some w \<and> wk_lane w = Client \<and> wk_task w = CommitSend n d p)"
    using demo_volatile_consistent [of "CommitSend 1 demo_hash False"]
    by (auto simp: demo_volatile_def is_verdict_def)
qed (simp_all add: not_committed_def)

section \<open>The stored state\<close>

text \<open>
  C40. A state the machine writes is read back by the next step as the same state: for any
  reader and writer that are inverse on the wire form, agree on the version field and stay
  within the size bound, \<open>Durable::parse\<close> after \<open>Durable::to_json\<close> is the identity on
  consistent records and tombstones of that owner.
\<close>

theorem durable_round_trip:
  assumes "sj_durable sj (sj_durable_text sj (to_wire d)) = Some (to_wire d)"
    and "sj_value sj (sj_durable_text sj (to_wire d)) = Some probe"
    and "json_get ''v'' probe = Some (JNumber (PosInt (w_v (to_wire d))))"
    and "length (durable_to_json sj d) \<le> MAX_DURABLE_BYTES"
    and "durable_owner d = owner" and "owner_name owner"
    and "\<And>r. d = Live r \<Longrightarrow> record_is_consistent r \<and> r_phase r \<noteq> Discarded"
  shows "durable_parse sj (durable_to_json sj d) owner = Inr d"
proof -
  have v: "w_v (to_wire d) = TX_STATE_VERSION" and o: "w_owner (to_wire d) = owner"
    using assms(5) by (cases d; simp)+
  have "from_wire (to_wire d) = Some d"
    using assms(5-7) by (intro from_wire_to_wire) auto
  then show ?thesis
    using assms(1-4) v o by (simp add: durable_parse_def durable_to_json_def number_as_u64_def)
qed

lemma durable_round_trip_witness:
  "durable_parse demo_serde (durable_to_json demo_serde (Tombstone demo_owner)) demo_owner = Inr (Tombstone demo_owner)"
  by (rule durable_round_trip [where probe = "JObject [(''v'', JNumber (PosInt 1))]"])
    (simp_all add: demo_serde_def demo_wire_def durable_to_json_def MAX_DURABLE_BYTES_def TX_STATE_VERSION_def)

end
